(* ===== verification/Prelude.thy ===== *)
theory Prelude
  imports Main "HOL-Library.Word"
begin

text \<open>
  Shared vocabulary of the development: the machine integers of the C++ code, the
  error codes and result type of \<^verbatim>\<open>src/src/core/result.h\<close>, the FNV-1a hash and
  the little-endian byte order that several components repeat, and the bounded
  "most recent events" buffers of the boot report.  Lemmas declared here carry the
  component theories: \<open>bounds_simps\<close> collects the facts that turn word
  comparisons into comparisons of natural numbers, \<open>wf_intros\<close> the preservation
  lemmas of the state invariants.
\<close>

unbundle bit_operations_syntax

named_theorems bounds_simps "range facts of the narrow fields of the model"
named_theorems wf_intros "operations that preserve the invariant of their state"

section \<open>Machine integers\<close>

type_synonym u8 = "8 word"
type_synonym u16 = "16 word"
type_synonym u32 = "32 word"
type_synonym u64 = "64 word"

section \<open>Error codes and results\<close>

text \<open>
  \<open>ErrorCode::none\<close> is kept as a constructor, as the code has it; a
  \<open>Result<T>\<close> is a success exactly when its code is \<open>none\<close>, so the model
  uses \<open>Inl (code, detail)\<close> for \<open>failure\<close> and \<open>Inr v\<close> for \<open>success\<close>.
\<close>

datatype ErrorCode =
    err_none
  | invalid_argument
  | unsupported_format
  | file_not_found
  | io_error
  | invalid_settings
  | invalid_installation
  | backend_unavailable
  | unknown_revision

type_synonym 'a result = "(ErrorCode \<times> string) + 'a"

abbreviation success :: "'a \<Rightarrow> 'a result" where
  "success v \<equiv> Inr v"

abbreviation failure :: "ErrorCode \<Rightarrow> string \<Rightarrow> 'a result" where
  "failure e d \<equiv> Inl (e, d)"

section \<open>FNV-1a\<close>

definition fnv_offset :: u64 where
  "fnv_offset = 14695981039346656037"

definition fnv_prime :: u64 where
  "fnv_prime = 1099511628211"

definition hash_byte :: "u64 \<Rightarrow> u8 \<Rightarrow> u64" where
  "hash_byte h v = (h XOR ucast v) * fnv_prime"

definition hash_bytes :: "u64 \<Rightarrow> u8 list \<Rightarrow> u64" where
  "hash_bytes h bs = fold (\<lambda>b h. hash_byte h b) bs h"

lemma hash_bytes_Nil [simp]: "hash_bytes h [] = h"
  by (simp add: hash_bytes_def)

lemma hash_bytes_Cons [simp]: "hash_bytes h (b # bs) = hash_bytes (hash_byte h b) bs"
  by (simp add: hash_bytes_def)

lemma hash_bytes_append [simp]: "hash_bytes h (xs @ ys) = hash_bytes (hash_bytes h xs) ys"
  by (simp add: hash_bytes_def)

section \<open>Little-endian byte order\<close>

definition byte_at :: "nat \<Rightarrow> 'a::len word \<Rightarrow> u8" where
  "byte_at k w = ucast (drop_bit (8 * k) w)"

definition le_bytes :: "nat \<Rightarrow> 'a::len word \<Rightarrow> u8 list" where
  "le_bytes n w = map (\<lambda>k. byte_at k w) [0..<n]"

lemma length_le_bytes [simp]: "length (le_bytes n w) = n"
  by (simp add: le_bytes_def)

lemma nth_le_bytes [simp]: "k < n \<Longrightarrow> le_bytes n w ! k = byte_at k w"
  by (simp add: le_bytes_def)

lemma bit_byte_at: "bit (byte_at k w) i \<longleftrightarrow> i < 8 \<and> bit w (8 * k + i)"
  by (auto simp: byte_at_def bit_simps dest: bit_imp_le_length)

section \<open>Bounded event buffers\<close>

text \<open>
  The three \<open>record_recent_*\<close> helpers of the boot runtime share one body: nothing at
  capacity 0, drop the oldest event at the capacity, append the new one.
\<close>

definition push_recent :: "nat \<Rightarrow> 'a \<Rightarrow> 'a list \<Rightarrow> 'a list" where
  "push_recent capacity x xs =
     (if capacity = 0 then xs
      else if length xs = capacity then tl xs @ [x]
      else xs @ [x])"

lemma length_push_recent_le:
  "length xs \<le> capacity \<Longrightarrow> length (push_recent capacity x xs) \<le> capacity"
  by (auto simp: push_recent_def)

section \<open>Lists and words\<close>

lemma nth_update_other: "i \<noteq> j \<Longrightarrow> (xs[i := x]) ! j = xs ! j"
  by simp

lemma list_update_zero_fix: "xs ! 0 = x \<Longrightarrow> xs[0 := x] = xs"
  by (metis list_update_id)

lemma unat_lt_numeral_iff: "unat (w :: 'a::len word) < unat v \<longleftrightarrow> w < v"
  by (simp add: word_less_nat_alt)

lemma unat_ucast_le: "unat (ucast (w :: 'a::len word) :: 'b::len word) \<le> unat w"
  by (simp add: unsigned_ucast_eq)

lemma unat_and_le_right: "unat (a AND b) \<le> unat (b :: 'a::len word)"
  by (metis word_and_le1 word_le_nat_alt)

end
