(* ===== verification/R3000a_State.thy ===== *)
theory R3000a_State
  imports Mips_Decoder
begin

text \<open>
  The processor state (\<^verbatim>\<open>src/src/core/r3000a_state.h\<close>), the diagnostics of a step
  (\<^verbatim>\<open>r3000a_diagnostics.h\<close>) and the abstract bus (\<^verbatim>\<open>r3000a_bus.h\<close>).  The
  bus is an abstract class in the code: here it is a record of its six operations over an
  arbitrary bus state, and the locale \<open>r3000a_bus_contract\<close> states what the executor
  needs of an implementation.
\<close>

unbundle bit_operations_syntax

section \<open>Processor state\<close>

record R3000aDelayedLoad =
  ld_valid :: bool
  ld_reg :: u8
  ld_value :: u32

record R3000aDelaySlot =
  active :: bool
  branch_pc :: u32
  taken :: bool
  slot_target :: u32

record R3000aCop0 =
  target_address :: u32
  bad_vaddr :: u32
  status :: u32
  cause :: u32
  epc :: u32

record R3000aState =
  gpr :: "u32 list"
  hi :: u32
  lo :: u32
  pc :: u32
  next_pc :: u32
  pending_load :: R3000aDelayedLoad
  delay_slot :: R3000aDelaySlot
  cop0 :: R3000aCop0
  external_interrupt_pending :: u8

definition no_load :: R3000aDelayedLoad where
  "no_load = \<lparr>ld_valid = False, ld_reg = 0, ld_value = 0\<rparr>"

definition no_slot :: R3000aDelaySlot where
  "no_slot = \<lparr>active = False, branch_pc = 0, taken = False, slot_target = 0\<rparr>"

definition initial_cop0 :: R3000aCop0 where
  "initial_cop0 = \<lparr>target_address = 0, bad_vaddr = 0, status = 0, cause = 0, epc = 0\<rparr>"

definition initial_state :: R3000aState where
  "initial_state =
     \<lparr>gpr = replicate 32 0, hi = 0, lo = 0, pc = 0, next_pc = 0,
      pending_load = no_load, delay_slot = no_slot, cop0 = initial_cop0,
      external_interrupt_pending = 0\<rparr>"

section \<open>Diagnostics\<close>

datatype R3000aExceptionCode =
    exc_interrupt
  | exc_adel
  | exc_ades
  | exc_ibe
  | exc_dbe
  | exc_syscall
  | exc_breakpoint
  | exc_reserved_instruction
  | exc_coprocessor_unusable
  | exc_overflow

fun exception_number :: "R3000aExceptionCode \<Rightarrow> u32" where
  "exception_number exc_interrupt = 0"
| "exception_number exc_adel = 4"
| "exception_number exc_ades = 5"
| "exception_number exc_ibe = 6"
| "exception_number exc_dbe = 7"
| "exception_number exc_syscall = 8"
| "exception_number exc_breakpoint = 9"
| "exception_number exc_reserved_instruction = 10"
| "exception_number exc_coprocessor_unusable = 11"
| "exception_number exc_overflow = 12"

datatype R3000aBoundaryCode =
    bnd_none
  | bnd_unsupported_address_space
  | bnd_architectural_operation_unimplemented
  | bnd_cop2_unimplemented
  | bnd_unpredictable_delay_slot_control_transfer

datatype R3000aStage =
    stage_interrupt
  | stage_fetch
  | stage_decode
  | stage_execute
  | stage_memory
  | stage_cop0
  | stage_cop2

datatype R3000aStepStatus = step_retired | step_exception | step_boundary

record R3000aDiagnostic =
  diag_boundary :: R3000aBoundaryCode
  diag_stage :: R3000aStage
  diag_pc :: u32
  diag_opcode :: "u32 option"
  diag_address :: "u32 option"
  diag_write_value :: "u32 option"
  diag_access_width :: "u8 option"
  diag_coprocessor :: "u8 option"
  diag_register_index :: "u8 option"
  diag_exception_code :: "R3000aExceptionCode option"

record R3000aStepResult =
  step_status :: R3000aStepStatus
  diagnostic :: R3000aDiagnostic

definition empty_diagnostic :: R3000aDiagnostic where
  "empty_diagnostic =
     \<lparr>diag_boundary = bnd_none, diag_stage = stage_execute, diag_pc = 0,
      diag_opcode = None, diag_address = None, diag_write_value = None,
      diag_access_width = None, diag_coprocessor = None, diag_register_index = None,
      diag_exception_code = None\<rparr>"

definition retired_result :: R3000aStepResult where
  "retired_result = \<lparr>step_status = step_retired, diagnostic = empty_diagnostic\<rparr>"

section \<open>The abstract bus\<close>

datatype R3000aBusStatus = bus_ok | bus_error | bus_unsupported

record R3000aBusResult =
  bus_status :: R3000aBusStatus
  bus_value :: u32

text \<open>The virtual methods of \<open>R3000aBus\<close>, over a bus state \<open>'b\<close>.\<close>

record 'b R3000aBus =
  bus_read8 :: "u32 \<Rightarrow> 'b \<Rightarrow> R3000aBusResult \<times> 'b"
  bus_read16 :: "u32 \<Rightarrow> 'b \<Rightarrow> R3000aBusResult \<times> 'b"
  bus_read32 :: "u32 \<Rightarrow> 'b \<Rightarrow> R3000aBusResult \<times> 'b"
  bus_write8 :: "u32 \<Rightarrow> u8 \<Rightarrow> 'b \<Rightarrow> R3000aBusResult \<times> 'b"
  bus_write16 :: "u32 \<Rightarrow> u16 \<Rightarrow> 'b \<Rightarrow> R3000aBusResult \<times> 'b"
  bus_write32 :: "u32 \<Rightarrow> u32 \<Rightarrow> 'b \<Rightarrow> R3000aBusResult \<times> 'b"

text \<open>
  What the executor relies on: every operation keeps the invariant of the bus state, and a
  read changes nothing that a later read can observe (\<open>view\<close> is the memory image an
  implementation exposes).
\<close>

locale r3000a_bus_contract =
  fixes bus :: "'b R3000aBus"
    and bus_inv :: "'b \<Rightarrow> bool"
    and view :: "'b \<Rightarrow> 'v"
  assumes read8_inv: "bus_inv b \<Longrightarrow> bus_inv (snd (bus_read8 bus a b))"
    and read16_inv: "bus_inv b \<Longrightarrow> bus_inv (snd (bus_read16 bus a b))"
    and read32_inv: "bus_inv b \<Longrightarrow> bus_inv (snd (bus_read32 bus a b))"
    and write8_inv: "bus_inv b \<Longrightarrow> bus_inv (snd (bus_write8 bus a v8 b))"
    and write16_inv: "bus_inv b \<Longrightarrow> bus_inv (snd (bus_write16 bus a v16 b))"
    and write32_inv: "bus_inv b \<Longrightarrow> bus_inv (snd (bus_write32 bus a v32 b))"
    and read8_view: "bus_inv b \<Longrightarrow> view (snd (bus_read8 bus a b)) = view b"
    and read16_view: "bus_inv b \<Longrightarrow> view (snd (bus_read16 bus a b)) = view b"
    and read32_view: "bus_inv b \<Longrightarrow> view (snd (bus_read32 bus a b)) = view b"
begin

lemmas bus_ops_inv =
  read8_inv read16_inv read32_inv write8_inv write16_inv write32_inv

lemmas bus_reads_view = read8_view read16_view read32_view

end

section \<open>Well-formed processor states\<close>

text \<open>
  The register file has 32 entries and register 0 reads as zero; a delayed load names a
  register that exists, and never register 0 while it is valid.
\<close>

definition load_wf :: "R3000aDelayedLoad \<Rightarrow> bool" where
  "load_wf l \<longleftrightarrow> unat (ld_reg l) < 32 \<and> (ld_valid l \<longrightarrow> ld_reg l \<noteq> 0)"

definition cpu_wf :: "R3000aState \<Rightarrow> bool" where
  "cpu_wf s \<longleftrightarrow> length (gpr s) = 32 \<and> gpr s ! 0 = 0 \<and> load_wf (pending_load s)"

text \<open>
  The program counter discipline: in a delay slot the next instruction is the slot itself
  and the one after it is where the branch goes; otherwise the two counters are adjacent.
\<close>

definition pc_wf :: "R3000aState \<Rightarrow> bool" where
  "pc_wf s \<longleftrightarrow>
     (if active (delay_slot s)
      then pc s = branch_pc (delay_slot s) + 4 \<and>
           next_pc s = (if taken (delay_slot s) then slot_target (delay_slot s)
                        else branch_pc (delay_slot s) + 8)
      else next_pc s = pc s + 4)"

lemma load_wf_no_load [simp]: "load_wf no_load"
  by (simp add: load_wf_def no_load_def)

lemma no_load_invalid [simp]: "\<not> ld_valid no_load"
  by (simp add: no_load_def)

lemma no_slot_inactive [simp]: "\<not> active no_slot"
  by (simp add: no_slot_def)

lemma cpu_wf_initial: "cpu_wf initial_state"
  by (simp add: cpu_wf_def initial_state_def)

end
