(* ===== verification/R3000a_Alu.thy ===== *)
theory R3000a_Alu
  imports R3000a_State "HOL-Library.Signed_Division"
begin

text \<open>
  The arithmetic helpers of \<^verbatim>\<open>src/src/core/r3000a_reference_executor.cpp\<close>: sign
  extension, arithmetic shift, overflow tests, multiplication and division into HI and LO,
  and the byte lanes of the unaligned loads and stores.  Each is shown equal to its
  mathematical reading: two's complement, truncating division, byte positions in memory.
\<close>

unbundle bit_operations_syntax

section \<open>Sign extension, shifts and overflow\<close>

definition sign_extend8 :: "u8 \<Rightarrow> u32" where
  "sign_extend8 value = (if value AND 0x80 \<noteq> 0 then 0xffffff00 OR ucast value else ucast value)"

definition sign_extend16 :: "u16 \<Rightarrow> u32" where
  "sign_extend16 value =
     (if value AND 0x8000 \<noteq> 0 then 0xffff0000 OR ucast value else ucast value)"

definition signed_view :: "u32 \<Rightarrow> int" where
  "signed_view value = sint value"

definition arithmetic_shift_right :: "u32 \<Rightarrow> u32 \<Rightarrow> u32" where
  "arithmetic_shift_right value amount =
    (let amount = amount AND 31 in
     if amount = 0 then value
     else let shifted = drop_bit (unat amount) value in
       if value AND 0x80000000 = 0 then shifted
       else shifted OR push_bit (unat (32 - amount)) 0xffffffff)"

definition add_overflow :: "u32 \<Rightarrow> u32 \<Rightarrow> u32 \<Rightarrow> bool" where
  "add_overflow lhs rhs r \<longleftrightarrow> (NOT (lhs XOR rhs) AND (lhs XOR r)) AND 0x80000000 \<noteq> 0"

definition sub_overflow :: "u32 \<Rightarrow> u32 \<Rightarrow> u32 \<Rightarrow> bool" where
  "sub_overflow lhs rhs r \<longleftrightarrow> ((lhs XOR rhs) AND (lhs XOR r)) AND 0x80000000 \<noteq> 0"

section \<open>Multiplication and division\<close>

text \<open>Each returns the pair \<open>(hi, lo)\<close>.\<close>

definition mult_hilo :: "u32 \<Rightarrow> u32 \<Rightarrow> u32 \<times> u32" where
  "mult_hilo rs rt =
    (let bits = (word_of_int (signed_view rs * signed_view rt) :: u64)
     in (ucast (drop_bit 32 bits), ucast bits))"

definition multu_hilo :: "u32 \<Rightarrow> u32 \<Rightarrow> u32 \<times> u32" where
  "multu_hilo rs rt =
    (let product = (ucast rs * ucast rt :: u64)
     in (ucast (drop_bit 32 product), ucast product))"

definition div_hilo :: "u32 \<Rightarrow> u32 \<Rightarrow> u32 \<times> u32" where
  "div_hilo rs rt =
    (if rt = 0 then (rs, if signed_view rs < 0 then 1 else 0xFFFFFFFF)
     else if rs = 0x80000000 \<and> rt = 0xFFFFFFFF then (0, 0x80000000)
     else let lhs = signed_view rs; rhs = signed_view rt
          in (word_of_int (lhs smod rhs), word_of_int (lhs sdiv rhs)))"

definition divu_hilo :: "u32 \<Rightarrow> u32 \<Rightarrow> u32 \<times> u32" where
  "divu_hilo rs rt =
    (if rt = 0 then (rs, 0xFFFFFFFF) else (rs mod rt, rs div rt))"

section \<open>Byte lanes of the unaligned accesses\<close>

text \<open>
  The lane is \<open>effective & 3\<close>.  The code switches over the four values; any other value
  keeps the initial value of the local variable, as in the code.
\<close>

definition lwl_merge :: "u32 \<Rightarrow> u32 \<Rightarrow> u32 \<Rightarrow> u32" where
  "lwl_merge lane base mem =
    (if lane = 0 then (base AND 0x00FFFFFF) OR push_bit 24 mem
     else if lane = 1 then (base AND 0x0000FFFF) OR push_bit 16 mem
     else if lane = 2 then (base AND 0x000000FF) OR push_bit 8 mem
     else if lane = 3 then mem
     else base)"

definition lwr_merge :: "u32 \<Rightarrow> u32 \<Rightarrow> u32 \<Rightarrow> u32" where
  "lwr_merge lane base mem =
    (if lane = 0 then mem
     else if lane = 1 then (base AND 0xFF000000) OR drop_bit 8 mem
     else if lane = 2 then (base AND 0xFFFF0000) OR drop_bit 16 mem
     else if lane = 3 then (base AND 0xFFFFFF00) OR drop_bit 24 mem
     else base)"

definition swl_merge :: "u32 \<Rightarrow> u32 \<Rightarrow> u32 \<Rightarrow> u32" where
  "swl_merge lane rt mem =
    (if lane = 0 then (mem AND 0xFFFFFF00) OR drop_bit 24 rt
     else if lane = 1 then (mem AND 0xFFFF0000) OR drop_bit 16 rt
     else if lane = 2 then (mem AND 0xFF000000) OR drop_bit 8 rt
     else if lane = 3 then rt
     else mem)"

definition swr_merge :: "u32 \<Rightarrow> u32 \<Rightarrow> u32 \<Rightarrow> u32" where
  "swr_merge lane rt mem =
    (if lane = 0 then rt
     else if lane = 1 then (mem AND 0x000000FF) OR push_bit 8 rt
     else if lane = 2 then (mem AND 0x0000FFFF) OR push_bit 16 rt
     else if lane = 3 then (mem AND 0x00FFFFFF) OR push_bit 24 rt
     else mem)"

section \<open>Two's complement readings\<close>

lemma and_bit_test:
  "(v :: u8) AND 0x80 = 0 \<longleftrightarrow> \<not> bit v 7"
  "(w :: u16) AND 0x8000 = 0 \<longleftrightarrow> \<not> bit w 15"
  "(x :: u32) AND 0x80000000 = 0 \<longleftrightarrow> \<not> bit x 31"
  using and_exp_eq_0_iff_not_bit [of v 7] and_exp_eq_0_iff_not_bit [of w 15]
    and_exp_eq_0_iff_not_bit [of x 31] by simp_all

lemma mask_numerals:
  "(0xffffff00 :: u32) = NOT (mask 8)"
  "(0xffff0000 :: u32) = NOT (mask 16)"
  "(0xff000000 :: u32) = NOT (mask 24)"
  "(0x00ffffff :: u32) = mask 24"
  "(0x0000ffff :: u32) = mask 16"
  "(0x000000ff :: u32) = mask 8"
  "(0xffffffff :: u32) = mask 32"
  by (simp_all add: mask_eq_exp_minus_1)

lemma sign_extend8_scast: "sign_extend8 v = scast v"
proof (rule bit_word_eqI)
  fix n assume "n < LENGTH(32)"
  then consider "n < 7" | "n = 7" | "7 < n" by linarith
  then show "bit (sign_extend8 v) n = bit (scast v :: u32) n"
    by cases (auto simp: sign_extend8_def and_bit_test mask_numerals bit_simps min_def
        dest: bit_imp_le_length)
qed

lemma sign_extend16_scast: "sign_extend16 v = scast v"
proof (rule bit_word_eqI)
  fix n assume "n < LENGTH(32)"
  then consider "n < 15" | "n = 15" | "15 < n" by linarith
  then show "bit (sign_extend16 v) n = bit (scast v :: u32) n"
    by cases (auto simp: sign_extend16_def and_bit_test mask_numerals bit_simps min_def
        dest: bit_imp_le_length)
qed

lemma bit_31_sint: "bit (w :: u32) 31 \<longleftrightarrow> sint w < 0"
  using bit_last_iff [of w] by simp

lemma sint32_range: "- (2 ^ 31) \<le> sint (w :: u32)" "sint (w :: u32) < 2 ^ 31"
  using sint_ge [of w] sint_lt [of w] by simp_all

lemma sint_word_of_int_32:
  "sint (word_of_int k :: u32) = (k + 2 ^ 31) mod 2 ^ 32 - 2 ^ 31"
  by (simp add: sint_sbintrunc' signed_take_bit_eq_take_bit_shift take_bit_eq_mod)

lemma sint_word_of_int_eq:
  assumes "- (2 ^ 31) \<le> k" "k < 2 ^ 31"
  shows "sint (word_of_int k :: u32) = k"
  using assms by (simp add: sint_word_of_int_32 mod_pos_pos_trivial)

lemma word_add_of_sint: "(a :: u32) + b = word_of_int (sint a + sint b)"
  by simp
lemma word_sub_of_sint: "(a :: u32) - b = word_of_int (sint a - sint b)"
  by simp

lemma wrap32:
  fixes k :: int
  assumes "- (2 ^ 32) \<le> k" "k < 2 ^ 32"
  shows "sint (word_of_int k :: u32) =
    (if k < - (2 ^ 31) then k + 2 ^ 32 else if k < 2 ^ 31 then k else k - 2 ^ 32)"
proof -
  consider "k < - (2 ^ 31)" | "- (2 ^ 31) \<le> k" "k < 2 ^ 31" | "2 ^ 31 \<le> k" by linarith
  then have "(k + 2 ^ 31) mod 2 ^ 32 =
    (if k < - (2 ^ 31) then k + 2 ^ 31 + 2 ^ 32
     else if k < 2 ^ 31 then k + 2 ^ 31 else k + 2 ^ 31 - 2 ^ 32)"
  proof cases
    case 1
    have "(k + 2 ^ 31) mod 2 ^ 32 = (k + 2 ^ 31 + 2 ^ 32) mod (2 ^ 32 :: int)"
      by (simp only: mod_add_self2)
    with 1 assms show ?thesis by (simp add: mod_pos_pos_trivial)
  next
    case 3
    have "(k + 2 ^ 31) mod 2 ^ 32 = (k + 2 ^ 31 - 2 ^ 32) mod (2 ^ 32 :: int)"
      by (metis minus_mod_self2)
    with 3 assms show ?thesis by (simp add: mod_pos_pos_trivial)
  qed (simp add: mod_pos_pos_trivial)
  then show ?thesis by (simp add: sint_word_of_int_32)
qed

lemma sint_add_32:
  "sint ((a :: u32) + b) = (let k = sint a + sint b in
    if k < - (2 ^ 31) then k + 2 ^ 32 else if k < 2 ^ 31 then k else k - 2 ^ 32)"
  unfolding word_add_of_sint Let_def using sint32_range [of a] sint32_range [of b]
  by (subst wrap32) auto

lemma sint_sub_32:
  "sint ((a :: u32) - b) = (let k = sint a - sint b in
    if k < - (2 ^ 31) then k + 2 ^ 32 else if k < 2 ^ 31 then k else k - 2 ^ 32)"
  unfolding word_sub_of_sint Let_def using sint32_range [of a] sint32_range [of b]
  by (subst wrap32) auto

lemma add_overflow_iff:
  "add_overflow a b (a + b) \<longleftrightarrow> sint a + sint b < - (2 ^ 31) \<or> 2 ^ 31 \<le> sint a + sint b"
proof -
  have "add_overflow a b (a + b) \<longleftrightarrow> bit a 31 = bit b 31 \<and> bit a 31 \<noteq> bit (a + b) 31"
    unfolding add_overflow_def and_bit_test by (auto simp: bit_simps)
  then show ?thesis
    unfolding bit_31_sint sint_add_32 using sint32_range [of a] sint32_range [of b]
    by (auto simp: Let_def)
qed

lemma sub_overflow_iff:
  "sub_overflow a b (a - b) \<longleftrightarrow> sint a - sint b < - (2 ^ 31) \<or> 2 ^ 31 \<le> sint a - sint b"
proof -
  have "sub_overflow a b (a - b) \<longleftrightarrow> bit a 31 \<noteq> bit b 31 \<and> bit a 31 \<noteq> bit (a - b) 31"
    unfolding sub_overflow_def and_bit_test by (auto simp: bit_simps)
  then show ?thesis
    unfolding bit_31_sint sint_sub_32 using sint32_range [of a] sint32_range [of b]
    by (auto simp: Let_def)
qed

lemma arithmetic_shift_right_signed:
  "arithmetic_shift_right v a = signed_drop_bit (unat (a AND 31)) v"
proof (rule bit_word_eqI)
  fix n assume n: "n < LENGTH(32)"
  define k where "k = unat (a AND 31)"
  have k32: "k < 32" using unat_and_le_right [of a 31] by (simp add: k_def)
  have z: "a AND 31 = 0 \<longleftrightarrow> k = 0" by (simp add: k_def unat_eq_zero)
  have m: "unat (32 - (a AND 31)) = 32 - k"
    using k32 unfolding k_def by (subst unat_sub) (simp_all add: word_le_nat_alt)
  show "bit (arithmetic_shift_right v a) n = bit (signed_drop_bit (unat (a AND 31)) v) n"
    using n k32 
    by (auto simp: arithmetic_shift_right_def Let_def z m k_def [symmetric] and_bit_test mask_numerals
        bit_simps min_def dest: bit_imp_le_length)
qed

section \<open>HI and LO hold the double-width product, the quotient and the remainder\<close>

lemma hilo_split: "word_cat (ucast (drop_bit 32 w) :: u32) (ucast w :: u32) = (w :: u64)"
proof (rule bit_word_eqI)
  fix n assume "n < LENGTH(64)"
  then show "bit (word_cat (ucast (drop_bit 32 w) :: u32) (ucast w :: u32) :: u64) n = bit w n"
    by (cases "n < 32") (auto simp: bit_simps)
qed

lemma abs_sint32: "\<bar>sint (a :: u32)\<bar> \<le> 2 ^ 31"
  using sint32_range [of a] by (simp add: abs_le_iff)

lemma sint_word_of_int_64:
  assumes "- (2 ^ 63) \<le> k" "k < 2 ^ 63"
  shows "sint (word_of_int k :: u64) = k"
  using assms by (simp add: sint_sbintrunc' signed_take_bit_int_eq_self)

lemma mult_hilo_product:
  "sint (word_cat (fst (mult_hilo a b)) (snd (mult_hilo a b)) :: u64) = sint a * sint b"
proof -
  have "\<bar>sint a * sint b\<bar> \<le> 2 ^ 31 * 2 ^ 31"
    unfolding abs_mult by (rule mult_mono) (use abs_sint32 in auto)
  then have "- (2 ^ 63) \<le> sint a * sint b" "sint a * sint b < 2 ^ 63"
    by (auto simp: abs_le_iff)
  then have "sint (word_of_int (sint a * sint b) :: u64) = sint a * sint b"
    by (rule sint_word_of_int_64)
  then show ?thesis by (simp only: mult_hilo_def Let_def signed_view_def fst_conv snd_conv hilo_split)
qed

lemma multu_hilo_product:
  "unat (word_cat (fst (multu_hilo a b)) (snd (multu_hilo a b)) :: u64) = unat a * unat b"
proof -
  have u: "unat (ucast (x :: u32) :: u64) = unat x" for x
    using unsigned_less [of x, where 'a = nat] by (simp add: unsigned_ucast_eq take_bit_nat_eq_self)
  have "unat a * unat b < 2 ^ 32 * 2 ^ 32"
    by (rule mult_strict_mono) (use unsigned_less [of a, where 'a = nat] unsigned_less [of b, where 'a = nat] in auto)
  then have "unat (ucast a * ucast b :: u64) = unat a * unat b"
    using unat_mult_lem [of "ucast a :: u64" "ucast b"] by (simp add: u)
  then show ?thesis by (simp only: multu_hilo_def Let_def fst_conv snd_conv hilo_split)
qed

lemma divu_hilo_correct:
  "b \<noteq> 0 \<Longrightarrow> divu_hilo a b = (h, l) \<Longrightarrow> unat a = unat l * unat b + unat h \<and> unat h < unat b"
  by (auto simp: divu_hilo_def unat_div unat_mod unat_gt_0)

lemma sint32_eq_iff: "sint (a :: u32) = sint b \<longleftrightarrow> a = b"
  by (rule word_eq_iff_signed [symmetric])

lemma sdiv_range32:
  assumes "\<not> (a = 0x80000000 \<and> b = 0xFFFFFFFF)"
  shows "- (2 ^ 31) \<le> sint (a :: u32) sdiv sint (b :: u32)" "sint a sdiv sint b < 2 ^ 31"
proof -
  have r: "- \<bar>sint a\<bar> \<le> sint a sdiv sint b" "sint a sdiv sint b \<le> \<bar>sint a\<bar>"
    using sdiv_int_range [of "sint a" "sint b"] by auto
  show "- (2 ^ 31) \<le> sint a sdiv sint b" using r(1) abs_sint32 [of a] by linarith
  have "sint a sdiv sint b \<noteq> 2 ^ 31"
  proof
    assume q: "sint a sdiv sint b = 2 ^ 31"
    then have a: "sint a = - (2 ^ 31)" using r(2) sint32_range [of a] by (auto simp: abs_if split: if_splits)
    with q have "sint b = -1" using int_sdiv_negated_is_minus1 [of "sint a" "sint b"] by simp
    moreover have "sint (0x80000000 :: u32) = - (2 ^ 31)" "sint (0xFFFFFFFF :: u32) = -1" by simp_all
    ultimately show False using assms a sint32_eq_iff by metis
  qed
  then show "sint a sdiv sint b < 2 ^ 31" using r(2) abs_sint32 [of a] by linarith
qed

lemma smod_range32:
  "- (2 ^ 31) \<le> sint (a :: u32) smod sint (b :: u32)" "sint a smod sint b < 2 ^ 31"
  using smod_int_range [of "sint b" "sint a"] abs_sint32 [of b] sint32_range [of a]
  by (cases "sint b = 0"; auto)+

lemma div_hilo_correct:
  assumes "b \<noteq> 0" "\<not> (a = 0x80000000 \<and> b = 0xFFFFFFFF)" "div_hilo a b = (h, l)"
  shows "sint l = sint a sdiv sint b \<and> sint h = sint a smod sint b \<and>
    sint a = sint l * sint b + sint h"
  using assms sdiv_range32 [OF assms(2)] smod_range32 [of a b]
  by (auto simp: div_hilo_def signed_view_def Let_def sint_word_of_int_eq sdiv_mult_smod_eq)

section \<open>Unaligned accesses as byte windows\<close>

lemma lane_cases:
  assumes "(k :: u32) < 4"
  obtains "k = 0" | "k = 1" | "k = 2" | "k = 3"
proof -
  have "unat k < 4" using assms by (simp add: word_less_nat_alt)
  then have "unat k = 0 \<or> unat k = 1 \<or> unat k = 2 \<or> unat k = 3" by linarith
  then have "k = 0 \<or> k = 1 \<or> k = 2 \<or> k = 3" by (auto simp: word_unat_eq_iff)
  with that show ?thesis by blast
qed

lemma unaligned_load_merge:
  assumes "k < 4"
  shows "lwl_merge ((k + 3) AND 3) (lwr_merge k base m0) (if k = 0 then m0 else m1)
    = ucast (drop_bit (8 * unat k) (word_cat m1 m0 :: u64))"
  using assms
proof (cases rule: lane_cases)
  case 1
  then show ?thesis by (auto simp: lwl_merge_def lwr_merge_def intro!: bit_word_eqI simp: bit_simps)
next
  case 2
  show ?thesis unfolding 2 lwl_merge_def lwr_merge_def mask_numerals
    by (rule bit_word_eqI) (auto simp: bit_simps)
next
  case 3
  show ?thesis unfolding 3 lwl_merge_def lwr_merge_def mask_numerals
    by (rule bit_word_eqI) (auto simp: bit_simps)
next
  case 4
  show ?thesis unfolding 4 lwl_merge_def lwr_merge_def mask_numerals
    by (rule bit_word_eqI) (auto simp: bit_simps)
qed
lemma lane_neq_zero_cases:
  assumes "(k :: u32) < 4" "k \<noteq> 0"
  obtains "k = 1" | "k = 2" | "k = 3"
  using assms by (auto elim: lane_cases)

lemma unaligned_store_merge:
  assumes "k < 4" "k \<noteq> 0"
  shows "bit (word_cat (swl_merge ((k + 3) AND 3) rt m1) (swr_merge k rt m0) :: u64) n \<longleftrightarrow>
    (if 8 * unat k \<le> n \<and> n < 8 * unat k + 32 then bit rt (n - 8 * unat k)
     else bit (word_cat m1 m0 :: u64) n)"
  using assms
proof (cases rule: lane_neq_zero_cases)
  case 1
  show ?thesis unfolding 1 swl_merge_def swr_merge_def mask_numerals
    by (auto simp: bit_simps dest: bit_imp_le_length)
next
  case 2
  show ?thesis unfolding 2 swl_merge_def swr_merge_def mask_numerals
    by (auto simp: bit_simps dest: bit_imp_le_length)
next
  case 3
  show ?thesis unfolding 3 swl_merge_def swr_merge_def mask_numerals
    by (auto simp: bit_simps dest: bit_imp_le_length)
qed

lemma unaligned_store_load:
  assumes "k < 4" "k \<noteq> 0"
  shows "lwl_merge ((k + 3) AND 3) (lwr_merge k base (swr_merge k rt m0)) (swl_merge ((k + 3) AND 3) rt m1) = rt"
  using assms
proof (cases rule: lane_neq_zero_cases)
  case 1
  show ?thesis unfolding 1 swl_merge_def swr_merge_def lwl_merge_def lwr_merge_def mask_numerals
    by (rule bit_word_eqI) (auto simp: bit_simps)
next
  case 2
  show ?thesis unfolding 2 swl_merge_def swr_merge_def lwl_merge_def lwr_merge_def mask_numerals
    by (rule bit_word_eqI) (auto simp: bit_simps)
next
  case 3
  show ?thesis unfolding 3 swl_merge_def swr_merge_def lwl_merge_def lwr_merge_def mask_numerals
    by (rule bit_word_eqI) (auto simp: bit_simps)
qed
end
