(* ===== verification/R3000a_Exec.thy ===== *)
theory R3000a_Exec
  imports R3000a_Alu
begin

text \<open>
  The reference executor of \<^verbatim>\<open>src/src/core/r3000a_reference_executor.cpp\<close>: exception
  entry, the boundary report, the instruction classes of the big switch and the step
  function that ties them together.  The switch is one function in the code; here every
  class of instructions is a function that answers \<open>None\<close> for an operation outside
  its class, tried in the code's order, so that the code's \<open>default\<close> branch is the case
  where all of them answer \<open>None\<close>.

  The locals of the C++ function are the records \<open>exec_env\<close> (values fixed before the
  switch) and \<open>exec_locals\<close> (values the switch sets); a \<open>return\<close> inside the switch
  is \<open>Inl\<close> and a \<open>break\<close> is \<open>Inr\<close> of the locals.
\<close>

unbundle bit_operations_syntax

section \<open>Constants\<close>

definition kCauseExcCodeMask :: u32 where "kCauseExcCodeMask = 0x0000007c"
definition kCauseContextMask :: u32 where "kCauseContextMask = 0xF0000000"
definition kCauseBd :: u32 where "kCauseBd = 0x80000000"
definition kCauseBt :: u32 where "kCauseBt = 0x40000000"
definition kCauseSwMask :: u32 where "kCauseSwMask = 0x00000300"
definition kCauseExternalMask :: u32 where "kCauseExternalMask = 0x0000FC00"
definition kCauseInterruptMask :: u32 where "kCauseInterruptMask = 0x0000FF00"
definition kStatusModeStackMask :: u32 where "kStatusModeStackMask = 0x0000003f"
definition kStatusBev :: u32 where "kStatusBev = 0x00400000"
definition kStatusCu2 :: u32 where "kStatusCu2 = 0x40000000"
definition kStatusWritableMask :: u32 where "kStatusWritableMask = 0xF27FFF3F"

section \<open>Register file, program counters, results\<close>

definition cop0_register_is_ri :: "u8 \<Rightarrow> bool" where
  "cop0_register_is_ri rd \<longleftrightarrow> rd = 0 \<or> rd = 1 \<or> rd = 2 \<or> rd = 4 \<or> rd = 10"

definition write_gpr :: "u8 \<Rightarrow> u32 \<Rightarrow> R3000aState \<Rightarrow> R3000aState" where
  "write_gpr reg v s = (if reg \<noteq> 0 then s\<lparr>gpr := (gpr s)[unat reg := v]\<rparr> else s)"

definition retire_pending_load :: "R3000aState \<Rightarrow> R3000aState" where
  "retire_pending_load s =
    (if ld_valid (pending_load s)
     then (write_gpr (ld_reg (pending_load s)) (ld_value (pending_load s)) s)
            \<lparr>pending_load := no_load\<rparr>
     else s)"

definition advance_ordinary_pc :: "R3000aState \<Rightarrow> R3000aState" where
  "advance_ordinary_pc s = s\<lparr>pc := next_pc s, next_pc := next_pc s + 4\<rparr>"

definition clear_zero :: "R3000aState \<Rightarrow> R3000aState" where
  "clear_zero s = s\<lparr>gpr := (gpr s)[0 := 0]\<rparr>"

definition boundary ::
  "R3000aBoundaryCode \<Rightarrow> R3000aStage \<Rightarrow> u32 \<Rightarrow> u32 option \<Rightarrow> R3000aState \<Rightarrow>
   R3000aStepResult \<times> R3000aState" where
  "boundary code stage at opcode s =
    (\<lparr>step_status = step_boundary,
      diagnostic = empty_diagnostic\<lparr>diag_boundary := code, diag_stage := stage,
        diag_pc := at, diag_opcode := opcode\<rparr>\<rparr>,
     clear_zero s)"

section \<open>Exception entry\<close>

definition exception_cause ::
  "R3000aExceptionCode \<Rightarrow> R3000aDelaySlot \<Rightarrow> u8 option \<Rightarrow> u32 \<Rightarrow> u32" where
  "exception_cause code delay coprocessor c =
    (let c = c AND NOT (kCauseExcCodeMask OR kCauseContextMask);
         c = c OR push_bit 2 (exception_number code);
         c = (case coprocessor of None \<Rightarrow> c | Some n \<Rightarrow> c OR push_bit 28 (ucast (n AND 3)))
     in if active delay
        then (if taken delay then (c OR kCauseBd) OR kCauseBt else c OR kCauseBd)
        else c)"

definition exception_status :: "u32 \<Rightarrow> u32" where
  "exception_status st =
    (let low_stack = st AND kStatusModeStackMask
     in (st AND NOT kStatusModeStackMask) OR (push_bit 2 low_stack AND kStatusModeStackMask))"

definition exception_vector :: "u32 \<Rightarrow> u32" where
  "exception_vector st = (if st AND kStatusBev \<noteq> 0 then 0xBFC00180 else 0x80000080)"

definition exception_cop0 ::
  "R3000aExceptionCode \<Rightarrow> u32 \<Rightarrow> R3000aDelaySlot \<Rightarrow> u32 option \<Rightarrow> u8 option \<Rightarrow>
   R3000aCop0 \<Rightarrow> R3000aCop0" where
  "exception_cop0 code fault_pc delay bad coprocessor c =
    \<lparr>target_address =
       (if active delay \<and> taken delay then slot_target delay else target_address c),
     bad_vaddr =
       (case bad of
          Some a \<Rightarrow> (if code = exc_adel \<or> code = exc_ades then a else bad_vaddr c)
        | None \<Rightarrow> bad_vaddr c),
     status = exception_status (status c),
     cause = exception_cause code delay coprocessor (cause c),
     epc = (if active delay then branch_pc delay else fault_pc)\<rparr>"

definition enter_exception ::
  "R3000aExceptionCode \<Rightarrow> R3000aStage \<Rightarrow> u32 \<Rightarrow> R3000aDelaySlot \<Rightarrow> u32 option \<Rightarrow>
   u32 option \<Rightarrow> u8 option \<Rightarrow> R3000aState \<Rightarrow> R3000aStepResult \<times> R3000aState" where
  "enter_exception code stage fault_pc delay opcode bad coprocessor s =
    (let vector = exception_vector (status (cop0 s))
     in (\<lparr>step_status = step_exception,
          diagnostic = empty_diagnostic\<lparr>diag_stage := stage, diag_pc := fault_pc,
            diag_opcode := opcode, diag_exception_code := Some code,
            diag_coprocessor := coprocessor, diag_address := bad\<rparr>\<rparr>,
         clear_zero (s\<lparr>cop0 := exception_cop0 code fault_pc delay bad coprocessor (cop0 s),
           pc := vector, next_pc := vector + 4, delay_slot := no_slot\<rparr>)))"

definition with_access ::
  "u32 \<Rightarrow> u8 \<Rightarrow> u32 option \<Rightarrow> R3000aStepResult \<Rightarrow> R3000aStepResult" where
  "with_access address width write_value r =
    r\<lparr>diagnostic := (diagnostic r)\<lparr>diag_address := Some address,
        diag_access_width := Some width, diag_write_value := write_value\<rparr>\<rparr>"

definition with_width :: "u8 \<Rightarrow> R3000aStepResult \<Rightarrow> R3000aStepResult" where
  "with_width width r =
    r\<lparr>diagnostic := (diagnostic r)\<lparr>diag_access_width := Some width\<rparr>\<rparr>"

section \<open>Locals of the step function\<close>

record exec_env =
  env_pc :: u32
  env_delay :: R3000aDelaySlot
  env_instr :: MipsInstruction
  env_rs :: u32
  env_rt :: u32
  env_prior :: R3000aDelayedLoad

record exec_locals =
  direct_write_valid :: bool
  direct_write_reg :: u8
  direct_write_value :: u32
  new_pending :: R3000aDelayedLoad
  scheduled_control_transfer :: bool

type_synonym exec_outcome = "R3000aStepResult + exec_locals"

definition no_locals :: exec_locals where
  "no_locals =
     \<lparr>direct_write_valid = False, direct_write_reg = 0, direct_write_value = 0,
      new_pending = no_load, scheduled_control_transfer = False\<rparr>"

definition queue_gpr_write :: "u8 \<Rightarrow> u32 \<Rightarrow> exec_locals \<Rightarrow> exec_locals" where
  "queue_gpr_write reg v l =
     l\<lparr>direct_write_valid := (reg \<noteq> 0), direct_write_reg := reg, direct_write_value := v\<rparr>"

definition queue_load :: "u8 \<Rightarrow> u32 \<Rightarrow> exec_locals \<Rightarrow> exec_locals" where
  "queue_load reg v l =
     (if reg \<noteq> 0
      then l\<lparr>new_pending := \<lparr>ld_valid = True, ld_reg = reg, ld_value = v\<rparr>\<rparr>
      else l)"

definition branch_target :: "exec_env \<Rightarrow> u32" where
  "branch_target e = env_pc e + 4 + push_bit 2 (sign_extend16 (immediate (env_instr e)))"

definition jump_target :: "exec_env \<Rightarrow> u32" where
  "jump_target e =
     ((env_pc e + 4) AND 0xF0000000) OR push_bit 2 (target (env_instr e))"

definition schedule_control_transfer ::
  "exec_env \<Rightarrow> bool \<Rightarrow> u32 \<Rightarrow> exec_locals \<times> R3000aState \<Rightarrow> exec_locals \<times> R3000aState" where
  "schedule_control_transfer e tk tgt = (\<lambda>(l, s).
     (l\<lparr>scheduled_control_transfer := True\<rparr>,
      s\<lparr>delay_slot := \<lparr>active = True, branch_pc = env_pc e, taken = tk, slot_target = tgt\<rparr>,
        pc := env_pc e + 4,
        next_pc := (if tk then tgt else env_pc e + 8)\<rparr>))"

definition data_boundary ::
  "exec_env \<Rightarrow> u32 \<Rightarrow> u8 \<Rightarrow> u32 option \<Rightarrow> R3000aState \<Rightarrow> exec_outcome \<times> R3000aState" where
  "data_boundary e address width wv s =
    (let (r, s') = boundary bnd_unsupported_address_space stage_memory (env_pc e)
                     (Some (raw (env_instr e))) s
     in (Inl (with_access address width wv r), s'))"

definition data_bus_error ::
  "exec_env \<Rightarrow> u32 \<Rightarrow> u8 \<Rightarrow> u32 option \<Rightarrow> R3000aState \<Rightarrow> exec_outcome \<times> R3000aState" where
  "data_bus_error e address width wv s =
    (let (r, s') = enter_exception exc_dbe stage_memory (env_pc e) (env_delay e)
                     (Some (raw (env_instr e))) None None s
     in (Inl (with_access address width wv r), s'))"

definition address_exception ::
  "exec_env \<Rightarrow> R3000aExceptionCode \<Rightarrow> u32 \<Rightarrow> u8 \<Rightarrow> R3000aState \<Rightarrow>
   exec_outcome \<times> R3000aState" where
  "address_exception e code address width s =
    (let (r, s') = enter_exception code stage_memory (env_pc e) (env_delay e)
                     (Some (raw (env_instr e))) (Some address) None s
     in (Inl (with_width width r), s'))"

definition raise :: "exec_env \<Rightarrow> R3000aExceptionCode \<Rightarrow> R3000aStage \<Rightarrow> u8 option \<Rightarrow>
   R3000aState \<Rightarrow> exec_outcome \<times> R3000aState" where
  "raise e code stage coprocessor s =
    (let (r, s') = enter_exception code stage (env_pc e) (env_delay e)
                     (Some (raw (env_instr e))) None coprocessor s
     in (Inl r, s'))"

definition cop0_ri :: "exec_env \<Rightarrow> R3000aState \<Rightarrow> exec_outcome \<times> R3000aState" where
  "cop0_ri e s = raise e exc_reserved_instruction stage_cop0 None s"

definition cop0_boundary :: "exec_env \<Rightarrow> R3000aState \<Rightarrow> exec_outcome \<times> R3000aState" where
  "cop0_boundary e s =
    (let (r, s') = boundary bnd_architectural_operation_unimplemented stage_cop0 (env_pc e)
                     (Some (raw (env_instr e))) s
     in (Inl r, s'))"

section \<open>The switch, class by class\<close>

definition exec_alu :: "exec_env \<Rightarrow> R3000aState \<Rightarrow> (exec_outcome \<times> R3000aState) option" where
  "exec_alu e s =
    (let i = env_instr e; rs = env_rs e; rt = env_rt e;
         simm = sign_extend16 (immediate i);
         zimm = (ucast (immediate i) :: u32);
         put_rd = (\<lambda>v. Some (Inr (queue_gpr_write (i_rd i) v no_locals), s));
         put_rt = (\<lambda>v. Some (Inr (queue_gpr_write (i_rt i) v no_locals), s));
         overflow = Some (raise e exc_overflow stage_execute None s)
     in case op i of
       SLL \<Rightarrow> put_rd (push_bit (unat (i_sa i)) rt)
     | SRL \<Rightarrow> put_rd (drop_bit (unat (i_sa i)) rt)
     | SRA \<Rightarrow> put_rd (arithmetic_shift_right rt (ucast (i_sa i)))
     | SLLV \<Rightarrow> put_rd (push_bit (unat (rs AND 31)) rt)
     | SRLV \<Rightarrow> put_rd (drop_bit (unat (rs AND 31)) rt)
     | SRAV \<Rightarrow> put_rd (arithmetic_shift_right rt rs)
     | ADD \<Rightarrow> (let v = rs + rt in if add_overflow rs rt v then overflow else put_rd v)
     | ADDU \<Rightarrow> put_rd (rs + rt)
     | SUB \<Rightarrow> (let v = rs - rt in if sub_overflow rs rt v then overflow else put_rd v)
     | SUBU \<Rightarrow> put_rd (rs - rt)
     | BIT_AND \<Rightarrow> put_rd (rs AND rt)
     | BIT_OR \<Rightarrow> put_rd (rs OR rt)
     | BIT_XOR \<Rightarrow> put_rd (rs XOR rt)
     | BIT_NOR \<Rightarrow> put_rd (NOT (rs OR rt))
     | SLT \<Rightarrow> put_rd (if signed_view rs < signed_view rt then 1 else 0)
     | SLTU \<Rightarrow> put_rd (if rs < rt then 1 else 0)
     | ADDI \<Rightarrow> (let v = rs + simm in if add_overflow rs simm v then overflow else put_rt v)
     | ADDIU \<Rightarrow> put_rt (rs + simm)
     | ANDI \<Rightarrow> put_rt (rs AND zimm)
     | ORI \<Rightarrow> put_rt (rs OR zimm)
     | XORI \<Rightarrow> put_rt (rs XOR zimm)
     | LUI \<Rightarrow> put_rt (push_bit 16 zimm)
     | SLTI \<Rightarrow> put_rt (if signed_view rs < signed_view simm then 1 else 0)
     | SLTIU \<Rightarrow> put_rt (if rs < simm then 1 else 0)
     | _ \<Rightarrow> None)"

definition exec_hilo :: "exec_env \<Rightarrow> R3000aState \<Rightarrow> (exec_outcome \<times> R3000aState) option" where
  "exec_hilo e s =
    (let i = env_instr e; rs = env_rs e; rt = env_rt e;
         put_rd = (\<lambda>v. Some (Inr (queue_gpr_write (i_rd i) v no_locals), s));
         put_hilo = (\<lambda>(h, l). Some (Inr no_locals, s\<lparr>hi := h, lo := l\<rparr>))
     in case op i of
       MFHI \<Rightarrow> put_rd (hi s)
     | MTHI \<Rightarrow> Some (Inr no_locals, s\<lparr>hi := rs\<rparr>)
     | MFLO \<Rightarrow> put_rd (lo s)
     | MTLO \<Rightarrow> Some (Inr no_locals, s\<lparr>lo := rs\<rparr>)
     | MULT \<Rightarrow> put_hilo (mult_hilo rs rt)
     | MULTU \<Rightarrow> put_hilo (multu_hilo rs rt)
     | DIV \<Rightarrow> put_hilo (div_hilo rs rt)
     | DIVU \<Rightarrow> put_hilo (divu_hilo rs rt)
     | _ \<Rightarrow> None)"

definition exec_control ::
  "exec_env \<Rightarrow> R3000aState \<Rightarrow> (exec_outcome \<times> R3000aState) option" where
  "exec_control e s =
    (let i = env_instr e; rs = env_rs e; rt = env_rt e;
         link = (\<lambda>reg. queue_gpr_write reg (env_pc e + 8) no_locals);
         go = (\<lambda>l tk tgt. Some (apfst Inr (schedule_control_transfer e tk tgt (l, s))))
     in case op i of
       J \<Rightarrow> go no_locals True (jump_target e)
     | JAL \<Rightarrow> go (link 31) True (jump_target e)
     | JR \<Rightarrow> go no_locals True rs
     | JALR \<Rightarrow> go (link (i_rd i)) True rs
     | BEQ \<Rightarrow> go no_locals (rs = rt) (branch_target e)
     | BNE \<Rightarrow> go no_locals (rs \<noteq> rt) (branch_target e)
     | BLEZ \<Rightarrow> go no_locals (signed_view rs \<le> 0) (branch_target e)
     | BGTZ \<Rightarrow> go no_locals (signed_view rs > 0) (branch_target e)
     | BLTZ \<Rightarrow> go no_locals (signed_view rs < 0) (branch_target e)
     | BGEZ \<Rightarrow> go no_locals (signed_view rs \<ge> 0) (branch_target e)
     | BLTZAL \<Rightarrow> go (link 31) (signed_view rs < 0) (branch_target e)
     | BGEZAL \<Rightarrow> go (link 31) (signed_view rs \<ge> 0) (branch_target e)
     | _ \<Rightarrow> None)"

text \<open>
  Every bus access ends in the same two tests: an unsupported address is a boundary, a bus
  error is a data bus exception, and only then does the instruction go on.
\<close>

definition on_bus_ok ::
  "exec_env \<Rightarrow> u32 \<Rightarrow> u8 \<Rightarrow> u32 option \<Rightarrow> R3000aBusResult \<Rightarrow> R3000aState \<Rightarrow>
   exec_outcome \<times> R3000aState \<Rightarrow> exec_outcome \<times> R3000aState" where
  "on_bus_ok e address width wv r s go_on =
    (if bus_status r = bus_unsupported then data_boundary e address width wv s
     else if bus_status r = bus_error then data_bus_error e address width wv s
     else go_on)"

definition effective_address :: "exec_env \<Rightarrow> u32" where
  "effective_address e = env_rs e + sign_extend16 (immediate (env_instr e))"

definition exec_load ::
  "'b R3000aBus \<Rightarrow> exec_env \<Rightarrow> R3000aState \<Rightarrow> 'b \<Rightarrow> (exec_outcome \<times> R3000aState \<times> 'b) option" where
  "exec_load bus e s b =
    (let i = env_instr e; a = effective_address e;
         put = (\<lambda>v. (Inr (queue_load (i_rt i) v no_locals), s))
     in case op i of
       LB \<Rightarrow> (let (r, b) = bus_read8 bus a b;
                 (out, s) = on_bus_ok e a 1 None r s (put (sign_extend8 (ucast (bus_value r))))
             in Some (out, s, b))
     | LBU \<Rightarrow> (let (r, b) = bus_read8 bus a b;
                  (out, s) = on_bus_ok e a 1 None r s (put (bus_value r AND 0xff))
              in Some (out, s, b))
     | LH \<Rightarrow> (if a AND 1 \<noteq> 0
              then let (out, s) = address_exception e exc_adel a 2 s in Some (out, s, b)
              else let (r, b) = bus_read16 bus a b;
                       (out, s) = on_bus_ok e a 2 None r s
                                    (put (sign_extend16 (ucast (bus_value r))))
                   in Some (out, s, b))
     | LHU \<Rightarrow> (if a AND 1 \<noteq> 0
               then let (out, s) = address_exception e exc_adel a 2 s in Some (out, s, b)
               else let (r, b) = bus_read16 bus a b;
                        (out, s) = on_bus_ok e a 2 None r s (put (bus_value r AND 0xffff))
                    in Some (out, s, b))
     | LW \<Rightarrow> (if a AND 3 \<noteq> 0
              then let (out, s) = address_exception e exc_adel a 4 s in Some (out, s, b)
              else let (r, b) = bus_read32 bus a b;
                       (out, s) = on_bus_ok e a 4 None r s (put (bus_value r))
                   in Some (out, s, b))
     | _ \<Rightarrow> None)"

definition exec_store ::
  "'b R3000aBus \<Rightarrow> exec_env \<Rightarrow> R3000aState \<Rightarrow> 'b \<Rightarrow> (exec_outcome \<times> R3000aState \<times> 'b) option" where
  "exec_store bus e s b =
    (let i = env_instr e; a = effective_address e; rt = env_rt e
     in case op i of
       SB \<Rightarrow> (let (r, b) = bus_write8 bus a (ucast (rt AND 0xff)) b;
                 (out, s) = on_bus_ok e a 1 (Some (rt AND 0xff)) r s (Inr no_locals, s)
             in Some (out, s, b))
     | SH \<Rightarrow> (if a AND 1 \<noteq> 0
              then let (out, s) = address_exception e exc_ades a 2 s in Some (out, s, b)
              else let (r, b) = bus_write16 bus a (ucast (rt AND 0xffff)) b;
                       (out, s) = on_bus_ok e a 2 (Some (rt AND 0xffff)) r s (Inr no_locals, s)
                   in Some (out, s, b))
     | SW \<Rightarrow> (if a AND 3 \<noteq> 0
              then let (out, s) = address_exception e exc_ades a 4 s in Some (out, s, b)
              else let (r, b) = bus_write32 bus a rt b;
                       (out, s) = on_bus_ok e a 4 (Some rt) r s (Inr no_locals, s)
                   in Some (out, s, b))
     | _ \<Rightarrow> None)"

definition exec_unaligned_load ::
  "'b R3000aBus \<Rightarrow> exec_env \<Rightarrow> R3000aState \<Rightarrow> 'b \<Rightarrow> (exec_outcome \<times> R3000aState \<times> 'b) option" where
  "exec_unaligned_load bus e s b =
    (if op (env_instr e) = LWL \<or> op (env_instr e) = LWR
     then let i = env_instr e;
              effective = effective_address e;
              aligned = effective AND NOT 3;
              (r, b) = bus_read32 bus aligned b;
              prior = env_prior e;
              base = (if ld_valid prior \<and> ld_reg prior = i_rt i then ld_value prior else env_rt e);
              lane = effective AND 3;
              v = (if op i = LWL then lwl_merge lane base (bus_value r)
                   else lwr_merge lane base (bus_value r));
              (out, s) = on_bus_ok e effective 4 None r s
                           (Inr (queue_load (i_rt i) v no_locals), s)
          in Some (out, s, b)
     else None)"

definition exec_unaligned_store ::
  "'b R3000aBus \<Rightarrow> exec_env \<Rightarrow> R3000aState \<Rightarrow> 'b \<Rightarrow> (exec_outcome \<times> R3000aState \<times> 'b) option" where
  "exec_unaligned_store bus e s b =
    (if op (env_instr e) = SWL \<or> op (env_instr e) = SWR
     then let i = env_instr e; rt = env_rt e;
              effective = effective_address e;
              aligned = effective AND NOT 3;
              (r, b) = bus_read32 bus aligned b
          in if bus_status r \<noteq> bus_ok
             then let (out, s) = on_bus_ok e effective 4 (Some rt) r s (Inr no_locals, s)
                  in Some (out, s, b)
             else let lane = effective AND 3;
                      merged = (if op i = SWL then swl_merge lane rt (bus_value r)
                                else swr_merge lane rt (bus_value r));
                      (w, b) = bus_write32 bus aligned merged b;
                      (out, s) = on_bus_ok e effective 4 (Some merged) w s (Inr no_locals, s)
                  in Some (out, s, b)
     else None)"

definition read_cop0 :: "u8 \<Rightarrow> R3000aCop0 \<Rightarrow> u32 option" where
  "read_cop0 rd c =
    (if rd = 6 then Some (target_address c)
     else if rd = 8 then Some (bad_vaddr c)
     else if rd = 12 then Some (status c)
     else if rd = 13 then Some (cause c)
     else if rd = 14 then Some (epc c)
     else None)"

definition rfe_status :: "u32 \<Rightarrow> u32" where
  "rfe_status st =
    (let low = st AND kStatusModeStackMask;
         restored = (low AND 0x30) OR (drop_bit 2 low AND 0x0F)
     in (st AND NOT kStatusModeStackMask) OR restored)"

definition exec_cop0 :: "exec_env \<Rightarrow> R3000aState \<Rightarrow> (exec_outcome \<times> R3000aState) option" where
  "exec_cop0 e s =
    (let i = env_instr e; rt = env_rt e; rd = i_rd i; c = cop0 s
     in case op i of
       MFC0 \<Rightarrow> (case read_cop0 rd c of
                  None \<Rightarrow> Some (if cop0_register_is_ri rd then cop0_ri e s else cop0_boundary e s)
                | Some v \<Rightarrow> Some (Inr (queue_load (i_rt i) v no_locals), s))
     | MTC0 \<Rightarrow>
         (if rd = 12
          then Some (Inr no_locals, s\<lparr>cop0 := c\<lparr>status :=
                 (status c AND NOT kStatusWritableMask) OR (rt AND kStatusWritableMask)\<rparr>\<rparr>)
          else if rd = 13
          then Some (Inr no_locals, s\<lparr>cop0 := c\<lparr>cause :=
                 (cause c AND NOT kCauseSwMask) OR (rt AND kCauseSwMask)\<rparr>\<rparr>)
          else if rd = 6 \<or> rd = 8 \<or> rd = 14 then Some (cop0_boundary e s)
          else if cop0_register_is_ri rd then Some (cop0_ri e s)
          else Some (cop0_boundary e s))
     | RFE \<Rightarrow> Some (Inr no_locals, s\<lparr>cop0 := c\<lparr>status := rfe_status (status c)\<rparr>\<rparr>)
     | _ \<Rightarrow> None)"

definition is_cop2 :: "MipsOp \<Rightarrow> bool" where
  "is_cop2 m \<longleftrightarrow> m = MFC2 \<or> m = CFC2 \<or> m = MTC2 \<or> m = CTC2 \<or> m = COP2_COMMAND"

definition exec_cop2 :: "exec_env \<Rightarrow> R3000aState \<Rightarrow> (exec_outcome \<times> R3000aState) option" where
  "exec_cop2 e s =
    (if is_cop2 (op (env_instr e))
     then if status (cop0 s) AND kStatusCu2 = 0
          then Some (raise e exc_coprocessor_unusable stage_cop2 (Some 2) s)
          else let (r, s') = boundary bnd_cop2_unimplemented stage_cop2 (env_pc e)
                               (Some (raw (env_instr e))) s
               in Some (Inl (r\<lparr>diagnostic := (diagnostic r)\<lparr>diag_coprocessor := Some 2\<rparr>\<rparr>), s')
     else None)"

definition exec_trap :: "exec_env \<Rightarrow> R3000aState \<Rightarrow> (exec_outcome \<times> R3000aState) option" where
  "exec_trap e s =
    (case op (env_instr e) of
       SYSCALL \<Rightarrow> Some (raise e exc_syscall stage_execute None s)
     | BREAK \<Rightarrow> Some (raise e exc_breakpoint stage_execute None s)
     | RESERVED \<Rightarrow> Some (raise e exc_reserved_instruction stage_decode None s)
     | _ \<Rightarrow> None)"

section \<open>The step\<close>

definition or_else :: "'a option \<Rightarrow> 'a option \<Rightarrow> 'a option" where
  "or_else x y = (case x of None \<Rightarrow> y | Some v \<Rightarrow> Some v)"

text \<open>The instruction classes that do not touch the bus, and those that do.\<close>

definition execute_registers ::
  "exec_env \<Rightarrow> R3000aState \<Rightarrow> (exec_outcome \<times> R3000aState) option" where
  "execute_registers e s =
    or_else (exec_alu e s) (or_else (exec_hilo e s) (or_else (exec_control e s)
      (or_else (exec_cop0 e s) (or_else (exec_cop2 e s) (exec_trap e s)))))"

definition execute_memory ::
  "'b R3000aBus \<Rightarrow> exec_env \<Rightarrow> R3000aState \<Rightarrow> 'b \<Rightarrow> (exec_outcome \<times> R3000aState \<times> 'b) option" where
  "execute_memory bus e s b =
    or_else (exec_load bus e s b) (or_else (exec_store bus e s b)
      (or_else (exec_unaligned_load bus e s b) (exec_unaligned_store bus e s b)))"

definition execute ::
  "'b R3000aBus \<Rightarrow> exec_env \<Rightarrow> R3000aState \<Rightarrow> 'b \<Rightarrow> exec_outcome \<times> R3000aState \<times> 'b" where
  "execute bus e s b =
    (case execute_registers e s of
       Some (out, s') \<Rightarrow> (out, s', b)
     | None \<Rightarrow>
        (case execute_memory bus e s b of
           Some res \<Rightarrow> res
         | None \<Rightarrow>
            (let (r, s') = boundary bnd_architectural_operation_unimplemented stage_execute
                             (env_pc e) (Some (raw (env_instr e))) s
             in (Inl r, s', b))))"

text \<open>After the switch: the queued write, the new delayed load, the program counters.\<close>

definition commit :: "exec_env \<Rightarrow> exec_locals \<Rightarrow> R3000aState \<Rightarrow> R3000aState" where
  "commit e l s =
    (let s = (if direct_write_valid l
              then write_gpr (direct_write_reg l) (direct_write_value l) s else s);
         s = s\<lparr>pending_load := new_pending l\<rparr>;
         s = (if scheduled_control_transfer l then s
              else let s = advance_ordinary_pc s
                   in if active (env_delay e) then s\<lparr>delay_slot := no_slot\<rparr> else s)
     in clear_zero s)"

definition refresh_cause :: "R3000aState \<Rightarrow> R3000aState" where
  "refresh_cause s =
    s\<lparr>cop0 := (cop0 s)\<lparr>cause := (cause (cop0 s) AND NOT kCauseExternalMask) OR
        push_bit 8 (ucast (external_interrupt_pending s AND 0xFC))\<rparr>\<rparr>"

definition interrupt_pending :: "R3000aState \<Rightarrow> bool" where
  "interrupt_pending s \<longleftrightarrow>
     status (cop0 s) AND 1 \<noteq> 0 \<and>
     (cause (cop0 s) AND status (cop0 s)) AND kCauseInterruptMask \<noteq> 0"

definition step_decoded ::
  "'b R3000aBus \<Rightarrow> MipsInstruction \<Rightarrow> R3000aState \<Rightarrow> 'b \<Rightarrow>
   R3000aStepResult \<times> R3000aState \<times> 'b" where
  "step_decoded bus i s b =
    (let at = pc s; delay = delay_slot s
     in if active delay \<and> is_control_transfer (op i)
        then let (r, s') = boundary bnd_unpredictable_delay_slot_control_transfer stage_execute
                             at (Some (raw i)) s
             in (r, s', b)
        else let e = \<lparr>env_pc = at, env_delay = delay, env_instr = i,
                      env_rs = gpr s ! unat (i_rs i), env_rt = gpr s ! unat (i_rt i),
                      env_prior = pending_load s\<rparr>;
                 (out, s', b') = execute bus e (retire_pending_load s) b
             in case out of
                  Inl r \<Rightarrow> (r, s', b')
                | Inr l \<Rightarrow> (retired_result, commit e l s', b'))"

definition step_r3000a ::
  "'b R3000aBus \<Rightarrow> R3000aState \<Rightarrow> 'b \<Rightarrow> R3000aStepResult \<times> R3000aState \<times> 'b" where
  "step_r3000a bus s b =
    (let s = refresh_cause (clear_zero s);
         at = pc s;
         delay = delay_slot s
     in if \<not> active delay \<and> interrupt_pending s
        then let (r, s') = enter_exception exc_interrupt stage_interrupt at delay None None None
                             (retire_pending_load s)
             in (r, s', b)
        else if at AND 3 \<noteq> 0
        then let (r, s') = enter_exception exc_adel stage_fetch at delay None (Some at) None
                             (retire_pending_load s)
             in (with_width 4 r, s', b)
        else let (fetched, b) = bus_read32 bus at b
             in if bus_status fetched = bus_unsupported
                then let (r, s') = boundary bnd_unsupported_address_space stage_fetch at None
                                     (retire_pending_load s)
                     in (with_access at 4 None r, s', b)
                else if bus_status fetched = bus_error
                then let (r, s') = enter_exception exc_ibe stage_fetch at delay None None None
                                     (retire_pending_load s)
                     in (with_access at 4 None r, s', b)
                else step_decoded bus (decode_mips (bus_value fetched)) s b)"

end
