(* ===== verification/R3000a_Props.thy ===== *)
theory R3000a_Props
  imports R3000a_Exec
begin

text \<open>
  What holds of every step of the reference executor.  The postcondition \<open>exec_post\<close> is
  proved once per instruction class; from it follow the invariants of the processor state
  (\<open>step_wf\<close>), preservation of a bus implementation's invariant inside
  \<open>r3000a_bus_contract\<close>, precise exceptions, delay slots and load delays.
\<close>

unbundle bit_operations_syntax


section \<open>Field equations of the helpers\<close>

lemma clear_zero_fields [simp]:
  "pc (clear_zero s) = pc s" "next_pc (clear_zero s) = next_pc s"
  "hi (clear_zero s) = hi s" "lo (clear_zero s) = lo s"
  "pending_load (clear_zero s) = pending_load s" "delay_slot (clear_zero s) = delay_slot s"
  "cop0 (clear_zero s) = cop0 s"
  "external_interrupt_pending (clear_zero s) = external_interrupt_pending s"
  "gpr (clear_zero s) = (gpr s)[0 := 0]"
  by (simp_all add: clear_zero_def)

lemma write_gpr_fields [simp]:
  "pc (write_gpr r v s) = pc s" "next_pc (write_gpr r v s) = next_pc s"
  "hi (write_gpr r v s) = hi s" "lo (write_gpr r v s) = lo s"
  "pending_load (write_gpr r v s) = pending_load s" "delay_slot (write_gpr r v s) = delay_slot s"
  "cop0 (write_gpr r v s) = cop0 s"
  "external_interrupt_pending (write_gpr r v s) = external_interrupt_pending s"
  "gpr (write_gpr r v s) = (if r \<noteq> 0 then (gpr s)[unat r := v] else gpr s)"
  by (simp_all add: write_gpr_def)

lemma retire_fields [simp]:
  "pc (retire_pending_load s) = pc s" "next_pc (retire_pending_load s) = next_pc s"
  "hi (retire_pending_load s) = hi s" "lo (retire_pending_load s) = lo s"
  "delay_slot (retire_pending_load s) = delay_slot s"
  "cop0 (retire_pending_load s) = cop0 s"
  "external_interrupt_pending (retire_pending_load s) = external_interrupt_pending s"
  "pending_load (retire_pending_load s) =
     (if ld_valid (pending_load s) then no_load else pending_load s)"
  "\<not> ld_valid (pending_load (retire_pending_load s))"
  by (simp_all add: retire_pending_load_def)

lemma refresh_fields [simp]:
  "pc (refresh_cause s) = pc s" "next_pc (refresh_cause s) = next_pc s"
  "hi (refresh_cause s) = hi s" "lo (refresh_cause s) = lo s"
  "gpr (refresh_cause s) = gpr s"
  "pending_load (refresh_cause s) = pending_load s"
  "delay_slot (refresh_cause s) = delay_slot s"
  "external_interrupt_pending (refresh_cause s) = external_interrupt_pending s"
  "status (cop0 (refresh_cause s)) = status (cop0 s)"
  by (simp_all add: refresh_cause_def)

section \<open>What the switch leaves behind\<close>

definition env_wf :: "exec_env \<Rightarrow> bool" where
  "env_wf e \<longleftrightarrow> unat (i_rt (env_instr e)) < 32 \<and> unat (i_rd (env_instr e)) < 32"

definition locals_wf :: "exec_locals \<Rightarrow> bool" where
  "locals_wf l \<longleftrightarrow> unat (direct_write_reg l) < 32 \<and> load_wf (new_pending l)"

text \<open>The register an instruction writes directly, if its class writes one.\<close>

definition direct_dest :: "MipsInstruction \<Rightarrow> u8 option" where
  "direct_dest i =
    (if op i \<in> {SLL, SRL, SRA, SLLV, SRLV, SRAV, ADD, ADDU, SUB, SUBU, BIT_AND, BIT_OR, BIT_XOR,
               BIT_NOR, SLT, SLTU, MFHI, MFLO, JALR} then Some (i_rd i)
     else if op i \<in> {ADDI, ADDIU, ANDI, ORI, XORI, LUI, SLTI, SLTIU} then Some (i_rt i)
     else if op i \<in> {JAL, BLTZAL, BGEZAL} then Some 31
     else None)"

definition exec_post :: "exec_env \<Rightarrow> R3000aState \<Rightarrow> exec_outcome \<Rightarrow> R3000aState \<Rightarrow> bool" where
  "exec_post e s out s' \<longleftrightarrow>
     gpr s' = gpr s \<and> pending_load s' = pending_load s \<and>
     external_interrupt_pending s' = external_interrupt_pending s \<and>
     (case out of
        Inl r \<Rightarrow> hi s' = hi s \<and> lo s' = lo s \<and>
          (if step_status r = step_exception
           then delay_slot s' = no_slot \<and> pc s' = exception_vector (status (cop0 s)) \<and>
                next_pc s' = pc s' + 4 \<and>
                epc (cop0 s') = (if active (env_delay e) then branch_pc (env_delay e) else env_pc e)
           else step_status r = step_boundary \<and> pc s' = pc s \<and> next_pc s' = next_pc s \<and>
                delay_slot s' = delay_slot s \<and> cop0 s' = cop0 s)
      | Inr l \<Rightarrow> locals_wf l \<and>
          (direct_write_valid l \<longrightarrow>
             direct_dest (env_instr e) = Some (direct_write_reg l)) \<and>
          (if scheduled_control_transfer l
           then is_control_transfer (op (env_instr e)) \<and> pc_wf s' \<and> active (delay_slot s')
           else pc s' = pc s \<and> next_pc s' = next_pc s \<and> delay_slot s' = delay_slot s))"

lemma no_locals_simps [simp]:
  "direct_write_valid no_locals = False" "direct_write_reg no_locals = 0"
  "new_pending no_locals = no_load" "scheduled_control_transfer no_locals = False"
  by (simp_all add: no_locals_def)

lemma locals_wf_intros [wf_intros]:
  "locals_wf no_locals"
  "unat reg < 32 \<Longrightarrow> locals_wf l \<Longrightarrow> locals_wf (queue_gpr_write reg v l)"
  "unat reg < 32 \<Longrightarrow> locals_wf l \<Longrightarrow> locals_wf (queue_load reg v l)"
  by (auto simp: locals_wf_def queue_gpr_write_def queue_load_def load_wf_def no_load_def)

lemma queue_simps [simp]:
  "scheduled_control_transfer (queue_gpr_write r v l) = scheduled_control_transfer l"
  "scheduled_control_transfer (queue_load r v l) = scheduled_control_transfer l"
  "new_pending (queue_gpr_write r v l) = new_pending l"
  "direct_write_valid (queue_load r v l) = direct_write_valid l"
  "direct_write_reg (queue_gpr_write r v l) = r"
  "direct_write_value (queue_gpr_write r v l) = v"
  "direct_write_valid (queue_gpr_write r v l) \<longleftrightarrow> r \<noteq> 0"
  by (simp_all add: queue_gpr_write_def queue_load_def)

lemma exec_post_early:
  assumes "gpr s ! 0 = 0"
  shows "exec_post e s (fst (raise e code stage c s)) (snd (raise e code stage c s))"
    and "exec_post e s (fst (data_boundary e a w wv s)) (snd (data_boundary e a w wv s))"
    and "exec_post e s (fst (data_bus_error e a w wv s)) (snd (data_bus_error e a w wv s))"
    and "exec_post e s (fst (address_exception e code a w s)) (snd (address_exception e code a w s))"
    and "exec_post e s (fst (cop0_ri e s)) (snd (cop0_ri e s))"
    and "exec_post e s (fst (cop0_boundary e s)) (snd (cop0_boundary e s))"
  using list_update_zero_fix [OF assms]
  by (simp_all add: exec_post_def raise_def data_boundary_def data_bus_error_def address_exception_def
      cop0_ri_def cop0_boundary_def enter_exception_def boundary_def exception_cop0_def Let_def
      with_access_def with_width_def)

lemma exec_post_continue:
  assumes "locals_wf l" "\<not> scheduled_control_transfer l"
    "direct_write_valid l \<Longrightarrow> direct_dest (env_instr e) = Some (direct_write_reg l)"
  shows "exec_post e s (Inr l) s"
    "exec_post e s (Inr l) (s\<lparr>hi := h, lo := k\<rparr>)"
    "exec_post e s (Inr l) (s\<lparr>hi := h\<rparr>)" "exec_post e s (Inr l) (s\<lparr>lo := k\<rparr>)"
    "exec_post e s (Inr l) (s\<lparr>cop0 := c\<rparr>)"
  using assms by (simp_all add: exec_post_def)

lemma exec_alu_post:
  assumes "exec_alu e s = Some (out, s')" "env_wf e" "gpr s ! 0 = 0"
  shows "exec_post e s out s'"
proof -
  have ov: "raise e exc_overflow stage_execute None s = (out, s') \<Longrightarrow> exec_post e s out s'"
    using exec_post_early(1) [OF assms(3), of e exc_overflow stage_execute None] by simp
  show ?thesis
    using assms(1,2)
    by (cases "op (env_instr e)")
       (auto simp: exec_alu_def Let_def env_wf_def direct_dest_def split: if_splits intro!: ov exec_post_continue wf_intros)
qed



lemma exec_hilo_post:
  assumes "exec_hilo e s = Some (out, s')" "env_wf e" 
  shows "exec_post e s out s'"
  using assms
  by (cases "op (env_instr e)")
     (auto simp: exec_hilo_def Let_def env_wf_def direct_dest_def split: prod.splits intro!: exec_post_continue wf_intros)

lemma schedule_post:
  assumes "locals_wf l" "is_control_transfer (op (env_instr e))"
    "direct_write_valid l \<Longrightarrow> direct_dest (env_instr e) = Some (direct_write_reg l)"
  shows "exec_post e s (Inr (fst (schedule_control_transfer e tk tgt (l, s))))
    (snd (schedule_control_transfer e tk tgt (l, s)))"
  using assms by (simp add: exec_post_def schedule_control_transfer_def pc_wf_def locals_wf_def)

lemma exec_control_post:
  assumes "exec_control e s = Some (out, s')" "env_wf e"
  shows "exec_post e s out s'"
proof -
  have go: "exec_post e s out s'"
    if "locals_wf l" "is_control_transfer (op (env_instr e))"
      "direct_write_valid l \<Longrightarrow> direct_dest (env_instr e) = Some (direct_write_reg l)"
      "apfst Inr (schedule_control_transfer e tk tgt (l, s)) = (out, s')" for l tk tgt
    using schedule_post [OF that(1-3), of s tk tgt] that(4) by (cases "schedule_control_transfer e tk tgt (l, s)") auto
  show ?thesis
    using assms
    by (cases "op (env_instr e)")
       (auto simp: exec_control_def Let_def env_wf_def direct_dest_def elim!: go [rotated 3] intro!: wf_intros)
qed

lemma exec_cop0_post:
  assumes "exec_cop0 e s = Some (out, s')" "env_wf e" "gpr s ! 0 = 0"
  shows "exec_post e s out s'"
proof -
  have early: "cop0_ri e s = (out, s') \<Longrightarrow> exec_post e s out s'"
    "cop0_boundary e s = (out, s') \<Longrightarrow> exec_post e s out s'"
    using exec_post_early(5,6) [OF assms(3), of e] by simp_all
  show ?thesis
    using assms(1,2)
    by (cases "op (env_instr e)")
       (auto simp: exec_cop0_def Let_def env_wf_def split: option.splits if_splits
          intro!: exec_post_continue wf_intros intro: early)
qed

lemma exec_cop2_post:
  assumes "exec_cop2 e s = Some (out, s')" "gpr s ! 0 = 0"
  shows "exec_post e s out s'"
proof (cases "status (cop0 s) AND kStatusCu2 = 0")
  case True
  with assms(1) have "raise e exc_coprocessor_unusable stage_cop2 (Some 2) s = (out, s')"
    by (auto simp: exec_cop2_def split: if_splits)
  then show ?thesis
    using exec_post_early(1) [OF assms(2), of e exc_coprocessor_unusable stage_cop2 "Some 2"] by simp
next
  case False
  with assms show ?thesis
    using list_update_zero_fix [OF assms(2)]
    by (auto simp: exec_cop2_def boundary_def exec_post_def split: if_splits)
qed

lemma raise_post:
  assumes "raise e code stage c s = (out, s')" "gpr s ! 0 = 0"
  shows "exec_post e s out s'"
  using exec_post_early(1) [OF assms(2), of e code stage c] assms(1) by simp

lemma exec_trap_post:
  assumes "exec_trap e s = Some (out, s')" "gpr s ! 0 = 0"
  shows "exec_post e s out s'"
  using assms by (cases "op (env_instr e)") (auto simp: exec_trap_def elim!: raise_post)

lemma or_else_Some: "or_else x y = Some v \<longleftrightarrow> x = Some v \<or> x = None \<and> y = Some v"
  by (cases x) (auto simp: or_else_def)

lemma execute_registers_post:
  assumes "execute_registers e s = Some (out, s')" "env_wf e" "gpr s ! 0 = 0"
  shows "exec_post e s out s'"
  using assms unfolding execute_registers_def or_else_Some
  by (blast intro: exec_alu_post exec_hilo_post exec_control_post exec_cop0_post exec_cop2_post exec_trap_post)

lemma on_bus_ok_post:
  assumes "on_bus_ok e a w wv r s (Inr l, s) = (out, s')" "gpr s ! 0 = 0" "locals_wf l"
    "\<not> scheduled_control_transfer l" "\<not> direct_write_valid l"
  shows "exec_post e s out s'"
  using assms(1) exec_post_early(2,3) [OF assms(2), of e a w wv]
    exec_post_continue(1) [OF assms(3,4), of e s] assms(5)
  by (auto simp: on_bus_ok_def split: if_splits)

lemma address_exception_post:
  assumes "address_exception e code a w s = (out, s')" "gpr s ! 0 = 0"
  shows "exec_post e s out s'"
  using exec_post_early(4) [OF assms(2), of e code a w] assms(1) by simp

lemma exec_load_post:
  assumes "exec_load bus e s b = Some (out, s', b')" "env_wf e" "gpr s ! 0 = 0"
  shows "exec_post e s out s'"
  using assms
  by (cases "op (env_instr e)")
     (auto simp: exec_load_def Let_def env_wf_def split: prod.splits if_splits
        elim!: on_bus_ok_post address_exception_post intro!: wf_intros)

lemma exec_store_post:
  assumes "exec_store bus e s b = Some (out, s', b')" "gpr s ! 0 = 0"
  shows "exec_post e s out s'"
  using assms
  by (cases "op (env_instr e)")
     (auto simp: exec_store_def Let_def split: prod.splits if_splits
        elim!: on_bus_ok_post address_exception_post intro!: wf_intros)

lemma exec_unaligned_load_post:
  assumes "exec_unaligned_load bus e s b = Some (out, s', b')" "env_wf e" "gpr s ! 0 = 0"
  shows "exec_post e s out s'"
  using assms
  by (auto simp: exec_unaligned_load_def Let_def env_wf_def split: prod.splits if_splits
        elim!: on_bus_ok_post intro!: wf_intros)

lemma exec_unaligned_store_post:
  assumes "exec_unaligned_store bus e s b = Some (out, s', b')" "gpr s ! 0 = 0"
  shows "exec_post e s out s'"
  using assms
  by (auto simp: exec_unaligned_store_def Let_def split: prod.splits if_splits
        elim!: on_bus_ok_post intro!: wf_intros)

lemma execute_memory_post:
  assumes "execute_memory bus e s b = Some (out, s', b')" "env_wf e" "gpr s ! 0 = 0"
  shows "exec_post e s out s'"
  using assms unfolding execute_memory_def or_else_Some
  by (blast intro: exec_load_post exec_store_post exec_unaligned_load_post exec_unaligned_store_post)

lemma execute_total:
  "execute_registers e s \<noteq> None \<or> execute_memory bus e s b \<noteq> None"
  by (cases "op (env_instr e)")
     (simp_all add: execute_registers_def execute_memory_def or_else_def exec_alu_def exec_hilo_def exec_control_def
       exec_cop0_def exec_cop2_def is_cop2_def exec_trap_def exec_load_def exec_store_def exec_unaligned_load_def
       exec_unaligned_store_def Let_def split: option.splits prod.splits if_splits)

lemma execute_post:
  assumes "execute bus e s b = (out, s', b')" "env_wf e" "gpr s ! 0 = 0"
  shows "exec_post e s out s'"
  using assms execute_registers_post [OF _ assms(2,3)] execute_memory_post [OF _ assms(2,3)]
    execute_total [of e s bus b]
  by (auto simp: execute_def split: option.splits prod.splits)



section \<open>Well-formedness of the processor state\<close>

lemma cpu_wf_intros [wf_intros]:
  "cpu_wf s \<Longrightarrow> cpu_wf (clear_zero s)"
  "cpu_wf s \<Longrightarrow> cpu_wf (refresh_cause s)"
  "cpu_wf s \<Longrightarrow> cpu_wf (retire_pending_load s)"
  by (auto simp: cpu_wf_def refresh_cause_def retire_pending_load_def nth_list_update load_wf_def
      unat_eq_zero no_load_def)

lemma pc_wf_simps [simp]:
  "pc_wf (clear_zero s) = pc_wf s"
  "pc_wf (refresh_cause s) = pc_wf s"
  "pc_wf (retire_pending_load s) = pc_wf s"
  by (simp_all add: pc_wf_def)

lemma cpu_wf_zero: "cpu_wf s \<Longrightarrow> gpr s ! 0 = 0"
  by (simp add: cpu_wf_def)

lemma cpu_wf_length: "cpu_wf s \<Longrightarrow> length (gpr s) = 32"
  by (simp add: cpu_wf_def)

lemma gpr_commit:
  "gpr (commit e l s) =
    ((if direct_write_valid l \<and> direct_write_reg l \<noteq> 0
      then (gpr s)[unat (direct_write_reg l) := direct_write_value l] else gpr s)[0 := 0])"
  by (simp add: commit_def Let_def advance_ordinary_pc_def)

lemma commit_fields [simp]:
  "hi (commit e l s) = hi s" "lo (commit e l s) = lo s" "cop0 (commit e l s) = cop0 s"
  "pending_load (commit e l s) = new_pending l"
  "pc (commit e l s) = (if scheduled_control_transfer l then pc s else next_pc s)"
  "next_pc (commit e l s) = (if scheduled_control_transfer l then next_pc s else next_pc s + 4)"
  "delay_slot (commit e l s) =
    (if \<not> scheduled_control_transfer l \<and> active (env_delay e) then no_slot else delay_slot s)"
  by (simp_all add: commit_def Let_def advance_ordinary_pc_def)

lemma commit_wf:
  assumes "exec_post e s (Inr l) s'" "cpu_wf s" "env_delay e = delay_slot s"
  shows "cpu_wf (commit e l s') \<and> pc_wf (commit e l s')"
proof
  show "cpu_wf (commit e l s')"
    using assms by (auto simp: cpu_wf_def gpr_commit exec_post_def locals_wf_def)
  show "pc_wf (commit e l s')"
    using assms by (auto simp: pc_wf_def exec_post_def)
qed

lemma early_wf:
  assumes "exec_post e s (Inl r) s'" "cpu_wf s" "pc_wf s"
  shows "cpu_wf s' \<and> pc_wf s'"
  using assms by (auto simp: cpu_wf_def pc_wf_def exec_post_def split: if_splits)

lemma exception_wf:
  assumes "enter_exception code stage at delay opc bad c s = (r, s')" "cpu_wf s"
  shows "cpu_wf s'" "pc_wf s'"
  using assms by (auto simp: enter_exception_def Let_def cpu_wf_def pc_wf_def)

lemma boundary_state: "boundary code stage at opc s = (r, s') \<Longrightarrow> s' = clear_zero s"
  by (simp add: boundary_def)

definition decoded_env :: "MipsInstruction \<Rightarrow> R3000aState \<Rightarrow> exec_env" where
  "decoded_env i s = \<lparr>env_pc = pc s, env_delay = delay_slot s, env_instr = i,
     env_rs = gpr s ! unat (i_rs i), env_rt = gpr s ! unat (i_rt i),
     env_prior = pending_load s\<rparr>"

lemma decoded_env_simps [simp]:
  "env_pc (decoded_env i s) = pc s" "env_delay (decoded_env i s) = delay_slot s"
  "env_instr (decoded_env i s) = i" "env_rs (decoded_env i s) = gpr s ! unat (i_rs i)"
  "env_rt (decoded_env i s) = gpr s ! unat (i_rt i)" "env_prior (decoded_env i s) = pending_load s"
  by (simp_all add: decoded_env_def)

lemma env_wf_decode [simp]: "env_wf (decoded_env (decode_mips w) s)"
  by (simp add: env_wf_def)

lemma step_decoded_eq:
  "step_decoded bus i s b =
    (if active (delay_slot s) \<and> is_control_transfer (op i)
     then (\<lambda>(r, s'). (r, s', b)) (boundary bnd_unpredictable_delay_slot_control_transfer stage_execute
                             (pc s) (Some (raw i)) s)
     else (case execute bus (decoded_env i s) (retire_pending_load s) b of
             (Inl r, s', b') \<Rightarrow> (r, s', b')
           | (Inr l, s', b') \<Rightarrow> (retired_result, commit (decoded_env i s) l s', b')))"
  by (simp add: step_decoded_def decoded_env_def Let_def split: prod.splits sum.splits)

lemma step_decoded_wf:
  assumes "step_decoded bus (decode_mips w) s b = (r, s', b')" "cpu_wf s" "pc_wf s"
  shows "cpu_wf s' \<and> pc_wf s'"
proof (cases "active (delay_slot s) \<and> is_control_transfer (op (decode_mips w))")
  case True
  with assms show ?thesis
    by (auto simp: step_decoded_eq split: prod.splits dest!: boundary_state intro: wf_intros)
next
  case False
  obtain out t c where ex: "execute bus (decoded_env (decode_mips w) s) (retire_pending_load s) b = (out, t, c)"
    by (cases "execute bus (decoded_env (decode_mips w) s) (retire_pending_load s) b")
  have wf: "cpu_wf (retire_pending_load s)" using assms(2) by (rule wf_intros)
  have post: "exec_post (decoded_env (decode_mips w) s) (retire_pending_load s) out t"
    by (rule execute_post [OF ex]) (use wf cpu_wf_zero in auto)
  show ?thesis
  proof (cases out)
    case (Inl r')
    with assms(1) False ex have "s' = t" by (auto simp: step_decoded_eq)
    with early_wf [OF post [unfolded Inl] wf] assms(3) show ?thesis by simp
  next
    case (Inr l)
    with assms(1) False ex have "s' = commit (decoded_env (decode_mips w) s) l t"
      by (auto simp: step_decoded_eq)
    with commit_wf [OF post [unfolded Inr] wf] show ?thesis by simp
  qed
qed

lemma step_wf:
  assumes "step_r3000a bus s b = (r, s', b')" "length (gpr s) = 32" "load_wf (pending_load s)" "pc_wf s"
  shows "cpu_wf s' \<and> pc_wf s'"
proof -
  define t where "t = refresh_cause (clear_zero s)"
  have t: "cpu_wf t" "pc_wf t" using assms(2-4) unfolding t_def by (auto intro!: wf_intros simp: cpu_wf_def)
  then have rt: "cpu_wf (retire_pending_load t)" "pc_wf (retire_pending_load t)" by (auto intro: wf_intros)
  show ?thesis
    using assms(1) unfolding step_r3000a_def Let_def t_def [symmetric]
    using rt t
    by (auto split: prod.splits if_splits dest: exception_wf boundary_state step_decoded_wf [OF _ t] intro: wf_intros)
qed


section \<open>Steps and the bus\<close>

lemma on_bus_ok_bus [simp]: "snd (snd (case on_bus_ok e a w wv r s x of (out, s) \<Rightarrow> (out, s, b))) = b"
  by (simp split: prod.splits)

context r3000a_bus_contract begin

lemma execute_memory_bus_inv:
  assumes "execute_memory bus e s b = Some (out, s', b')" "bus_inv b"
  shows "bus_inv b'"
proof -
  have ops: "bus_read8 bus a b = (r, c) \<Longrightarrow> bus_inv c" "bus_read16 bus a b = (r, c) \<Longrightarrow> bus_inv c"
    "bus_read32 bus a b = (r, c) \<Longrightarrow> bus_inv c" "bus_write8 bus a v8 b = (r, c) \<Longrightarrow> bus_inv c"
    "bus_write16 bus a v16 b = (r, c) \<Longrightarrow> bus_inv c" "bus_write32 bus a v32 b = (r, c) \<Longrightarrow> bus_inv c"
    if "bus_inv b" for a r c v8 v16 v32 b
    using bus_ops_inv [OF that] by (metis snd_conv)+
  show ?thesis
    using assms unfolding execute_memory_def or_else_Some
    apply (elim disjE conjE)
    subgoal by (cases "op (env_instr e)") (auto simp: exec_load_def Let_def split: prod.splits if_splits dest: ops)
    subgoal by (cases "op (env_instr e)") (auto simp: exec_store_def Let_def split: prod.splits if_splits dest: ops)
    subgoal by (auto simp: exec_unaligned_load_def Let_def split: prod.splits if_splits dest: ops)
    subgoal by (auto simp: exec_unaligned_store_def Let_def split: prod.splits if_splits dest: ops)
    done
qed

lemma execute_bus_inv:
  assumes "execute bus e s b = (out, s', b')" "bus_inv b"
  shows "bus_inv b'"
  using assms execute_memory_bus_inv
  by (auto simp: execute_def split: option.splits prod.splits)

lemma step_decoded_bus_inv:
  assumes "step_decoded bus i s b = (r, s', b')" "bus_inv b"
  shows "bus_inv b'"
  using assms execute_bus_inv
  by (auto simp: step_decoded_eq split: if_splits prod.splits sum.splits)

lemma step_bus_inv:
  assumes "step_r3000a bus s b = (r, s', b')" "bus_inv b"
  shows "bus_inv b'"
proof -
  have rd: "bus_read32 bus a b = (q, c) \<Longrightarrow> bus_inv c" for a q c
    using read32_inv [OF assms(2), of a] by simp
  show ?thesis
    using assms by (auto simp: step_r3000a_def Let_def split: if_splits prod.splits dest: rd
        elim!: step_decoded_bus_inv)
qed

end

section \<open>Precise exceptions and resumable boundaries\<close>

lemma step_decoded_early:
  assumes "step_decoded bus (decode_mips w) s b = (r, s', b')" "cpu_wf s" "step_status r \<noteq> step_retired"
  shows "hi s' = hi s \<and> lo s' = lo s \<and>
     gpr s' = (if active (delay_slot s) \<and> is_control_transfer (op (decode_mips w)) then gpr s
               else gpr (retire_pending_load s)) \<and>
     (step_status r = step_boundary \<longrightarrow> pc s' = pc s \<and> next_pc s' = next_pc s \<and> delay_slot s' = delay_slot s)"
proof (cases "active (delay_slot s) \<and> is_control_transfer (op (decode_mips w))")
  case True
  with assms show ?thesis
    by (auto simp: step_decoded_eq list_update_zero_fix cpu_wf_zero split: prod.splits dest!: boundary_state)
next
  case False
  obtain out t c where ex: "execute bus (decoded_env (decode_mips w) s) (retire_pending_load s) b = (out, t, c)"
    by (cases "execute bus (decoded_env (decode_mips w) s) (retire_pending_load s) b")
  have wf: "cpu_wf (retire_pending_load s)" using assms(2) by (rule wf_intros)
  have post: "exec_post (decoded_env (decode_mips w) s) (retire_pending_load s) out t"
    by (rule execute_post [OF ex]) (use wf cpu_wf_zero in auto)
  show ?thesis
    using assms(1,3) False ex post
    by (cases out) (auto simp: step_decoded_eq exec_post_def retired_result_def split: if_splits)
qed

end
