(* ===== verification/R3000a_Steps.thy ===== *)
theory R3000a_Steps
  imports R3000a_Props
begin

text \<open>
  Whole steps of single instructions.  \<open>fetches\<close> says that a step gets past the interrupt
  test, the alignment test and the fetch; from there on a step is the decoded instruction run
  through the switch and committed.  The lemmas give the frame of a retired step, the delay
  slot rule, and the effect of the instructions that the properties speak about.
\<close>

unbundle bit_operations_syntax


section \<open>Steps that reach the switch\<close>

definition fetches :: "'b R3000aBus \<Rightarrow> R3000aState \<Rightarrow> 'b \<Rightarrow> u32 \<Rightarrow> 'b \<Rightarrow> bool" where
  "fetches bus s b w b1 \<longleftrightarrow>
     (active (delay_slot s) \<or> \<not> interrupt_pending (refresh_cause s)) \<and>
     pc s AND 3 = 0 \<and>
     bus_read32 bus (pc s) b = (\<lparr>bus_status = bus_ok, bus_value = w\<rparr>, b1)"

lemma clear_zero_id: "cpu_wf s \<Longrightarrow> clear_zero s = s"
  by (simp add: clear_zero_def list_update_zero_fix cpu_wf_zero)

lemma step_fetch:
  assumes "cpu_wf s" "fetches bus s b w b1"
  shows "step_r3000a bus s b = step_decoded bus (decode_mips w) (refresh_cause s) b1"
  using assms by (auto simp: step_r3000a_def clear_zero_id fetches_def Let_def)

lemma refresh_wf: "cpu_wf (refresh_cause s) = cpu_wf s"
  by (simp add: cpu_wf_def)

lemma retire_refresh_gpr [simp]: "gpr (retire_pending_load (refresh_cause s)) = gpr (retire_pending_load s)"
  by (simp add: retire_pending_load_def)

lemma gpr_retire_nth:
  assumes "cpu_wf s" "k < 32"
  shows "gpr (retire_pending_load s) ! k =
    (if ld_valid (pending_load s) \<and> unat (ld_reg (pending_load s)) = k then ld_value (pending_load s)
     else gpr s ! k)"
  using assms by (auto simp: retire_pending_load_def cpu_wf_def load_wf_def nth_list_update)

text \<open>A retired step went through the switch and the commit.\<close>

lemma step_decoded_retired:
  assumes "step_decoded bus i s b = (r, s', b')" "step_status r = step_retired" 
    "env_wf (decoded_env i s)" "cpu_wf s"
  obtains l t where "execute bus (decoded_env i s) (retire_pending_load s) b = (Inr l, t, b')"
    "s' = commit (decoded_env i s) l t" "r = retired_result"
    "exec_post (decoded_env i s) (retire_pending_load s) (Inr l) t"
    "\<not> (active (delay_slot s) \<and> is_control_transfer (op i))"
proof -
  obtain out t c where ex: "execute bus (decoded_env i s) (retire_pending_load s) b = (out, t, c)"
    by (cases "execute bus (decoded_env i s) (retire_pending_load s) b")
  have wf: "cpu_wf (retire_pending_load s)" using assms(4) by (rule wf_intros)
  have post: "exec_post (decoded_env i s) (retire_pending_load s) out t"
    by (rule execute_post [OF ex assms(3)]) (use wf cpu_wf_zero in auto)
  have ctl: "\<not> (active (delay_slot s) \<and> is_control_transfer (op i))"
    using assms(1,2) by (auto simp: step_decoded_eq boundary_def)
  show thesis
  proof (cases out)
    case (Inl x)
    with assms(1,2) ex ctl post have False
      by (auto simp: step_decoded_eq exec_post_def split: if_splits)
    then show thesis ..
  next
    case (Inr l)
    then show thesis using that [of l t] ex ctl post assms(1) by (auto simp: step_decoded_eq)
  qed
qed

text \<open>An early way out of the step, before anything is decoded, never retires.\<close>

lemma enter_exception_status [simp]:
  "step_status (fst (enter_exception code stage at delay opc bad c s)) = step_exception"
  by (simp add: enter_exception_def Let_def)

lemma boundary_status [simp]: "step_status (fst (boundary code stage at opc s)) = step_boundary"
  by (simp add: boundary_def)

lemma with_status [simp]:
  "step_status (with_width w r) = step_status r" "step_status (with_access a w wv r) = step_status r"
  by (simp_all add: with_width_def with_access_def)

lemma step_retired_fetches:
  assumes "step_r3000a bus s b = (r, s', b')" "step_status r = step_retired" "cpu_wf s"
  obtains w b1 where "fetches bus s b w b1"
    "step_decoded bus (decode_mips w) (refresh_cause s) b1 = (r, s', b')"
proof -
  obtain f b1 where rd: "bus_read32 bus (pc s) b = (f, b1)" by fastforce
  have ok: "bus_status f = bus_ok"
    using assms(1,2,3) rd enter_exception_status boundary_status
    by (cases "bus_status f")
       (auto simp: step_r3000a_def Let_def clear_zero_id enter_exception_def boundary_def split: if_splits)
  then have f: "f = \<lparr>bus_status = bus_ok, bus_value = bus_value f\<rparr>" by simp
  have fe: "fetches bus s b (bus_value f) b1"
    using assms(1,2,3) rd f
    by (auto simp: fetches_def step_r3000a_def Let_def clear_zero_id enter_exception_def split: if_splits)
  show thesis
    by (rule that [OF fe]) (use step_fetch [OF assms(3) fe] assms(1) in simp)
qed


lemma retired_frame:
  assumes "step_r3000a bus s b = (r, s', b')" "step_status r = step_retired" "cpu_wf s"
    "fetches bus s b w b1" "k < 32" "direct_dest (decode_mips w) \<noteq> Some (of_nat k)"
  shows "gpr s' ! k =
    (if ld_valid (pending_load s) \<and> unat (ld_reg (pending_load s)) = k then ld_value (pending_load s)
     else gpr s ! k)"
proof -
  let ?s = "refresh_cause s"
  have "step_decoded bus (decode_mips w) ?s b1 = (r, s', b')"
    using assms(1,3,4) by (simp add: step_fetch)
  then obtain l t where x: "s' = commit (decoded_env (decode_mips w) ?s) l t"
    "exec_post (decoded_env (decode_mips w) ?s) (retire_pending_load ?s) (Inr l) t"
    by (rule step_decoded_retired) (use assms(2,3) in \<open>simp_all add: refresh_wf\<close>)
  have t: "gpr t = gpr (retire_pending_load s)" using x(2) by (simp add: exec_post_def)
  have g: "gpr (retire_pending_load s) ! 0 = 0" "length (gpr (retire_pending_load s)) = 32"
    using cpu_wf_intros(3) [OF assms(3)] by (simp_all add: cpu_wf_def)
  have d: "direct_write_valid l \<Longrightarrow> unat (direct_write_reg l) \<noteq> k"
    using x(2) assms(6) by (auto simp: exec_post_def)
  have "gpr s' ! k = gpr (retire_pending_load s) ! k"
    using assms(5) d g by (cases "k = 0") (auto simp: x(1) gpr_commit t)
  then show ?thesis using gpr_retire_nth [OF assms(3,5)] by simp
qed

lemma delay_slot_retires:
  assumes "step_r3000a bus s b = (r, s', b')" "step_status r = step_retired" "cpu_wf s" "pc_wf s"
    "active (delay_slot s)"
  shows "pc s' = (if taken (delay_slot s) then slot_target (delay_slot s) else branch_pc (delay_slot s) + 8)"
    and "\<not> active (delay_slot s')"
proof -
  let ?s = "refresh_cause s"
  obtain w b1 where "step_decoded bus (decode_mips w) ?s b1 = (r, s', b')"
    using step_retired_fetches [OF assms(1-3)] by blast
  then obtain l t where x: "s' = commit (decoded_env (decode_mips w) ?s) l t"
    "exec_post (decoded_env (decode_mips w) ?s) (retire_pending_load ?s) (Inr l) t"
    "\<not> (active (delay_slot ?s) \<and> is_control_transfer (op (decode_mips w)))"
    by (rule step_decoded_retired) (use assms(2,3) in \<open>simp_all add: refresh_wf\<close>)
  then show "pc s' = (if taken (delay_slot s) then slot_target (delay_slot s) else branch_pc (delay_slot s) + 8)"
    and "\<not> active (delay_slot s')"
    using assms(4,5) by (auto simp: exec_post_def pc_wf_def split: if_splits)
qed



section \<open>Whole steps of single instructions\<close>

lemma execute_register_class:
  "execute_registers e s = Some (out, s') \<Longrightarrow> execute bus e s b = (out, s', b)"
  by (simp add: execute_def)

lemma execute_memory_class:
  "execute_registers e s = None \<Longrightarrow> execute_memory bus e s b = Some res \<Longrightarrow> execute bus e s b = res"
  by (simp add: execute_def)

lemma step_plain:
  assumes "cpu_wf s" "fetches bus s b w b1"
    "\<not> (active (delay_slot s) \<and> is_control_transfer (op (decode_mips w)))"
  shows "step_r3000a bus s b =
    (case execute bus (decoded_env (decode_mips w) (refresh_cause s))
            (retire_pending_load (refresh_cause s)) b1 of
       (Inl r, t, b2) \<Rightarrow> (r, t, b2)
     | (Inr l, t, b2) \<Rightarrow>
         (retired_result, commit (decoded_env (decode_mips w) (refresh_cause s)) l t, b2))"
  using assms by (auto simp: step_fetch step_decoded_eq split: prod.splits sum.splits)

lemma retire_wf_facts:
  assumes "cpu_wf s"
  shows "gpr (retire_pending_load s) ! 0 = 0" "length (gpr (retire_pending_load s)) = 32"
  using cpu_wf_intros(3) [OF assms] by (simp_all add: cpu_wf_def)

lemma gpr_commit_nth:
  assumes "cpu_wf s" "k < 32" "gpr t = gpr (retire_pending_load s)"
  shows "gpr (commit e l t) ! k =
    (if direct_write_valid l \<and> direct_write_reg l \<noteq> 0 \<and> unat (direct_write_reg l) = k
     then direct_write_value l
     else if ld_valid (pending_load s) \<and> unat (ld_reg (pending_load s)) = k
     then ld_value (pending_load s) else gpr s ! k)"
proof -
  have "gpr (commit e l t) ! k =
    (if direct_write_valid l \<and> direct_write_reg l \<noteq> 0 \<and> unat (direct_write_reg l) = k
     then direct_write_value l else gpr (retire_pending_load s) ! k)"
    using retire_wf_facts [OF assms(1)] assms(2,3)
    by (cases "k = 0") (auto simp: gpr_commit unat_eq_zero nth_list_update)
  then show ?thesis using gpr_retire_nth [OF assms(1,2)] by simp
qed

lemma gpr_commit_no_write:
  assumes "cpu_wf s" "gpr t = gpr (retire_pending_load s)" "\<not> direct_write_valid l"
  shows "gpr (commit e l t) = gpr (retire_pending_load s)"
  using assms retire_wf_facts [OF assms(1)] by (simp add: gpr_commit list_update_zero_fix)

lemma add_step_ok:
  fixes w :: u32
  defines "i \<equiv> decode_mips w"
  assumes "cpu_wf s" "fetches bus s b w b1" "op i = ADD"
  defines "x \<equiv> gpr s ! unat (i_rs i)" and "y \<equiv> gpr s ! unat (i_rt i)"
  assumes "- (2 ^ 31) \<le> sint x + sint y" "sint x + sint y < 2 ^ 31"
  shows "step_r3000a bus s b =
    (retired_result, commit (decoded_env i (refresh_cause s))
       (queue_gpr_write (i_rd i) (x + y) no_locals) (retire_pending_load (refresh_cause s)), b1)"
proof -
  have no: "\<not> add_overflow x y (x + y)" using assms(7,8) by (simp add: add_overflow_iff)
  show ?thesis
    by (subst step_plain [OF assms(2,3), folded i_def])
       (use assms(4) no in \<open>auto simp: execute_def execute_registers_def or_else_def exec_alu_def
          x_def y_def Let_def\<close>)
qed

lemma add_step_overflow:
  fixes w :: u32
  defines "i \<equiv> decode_mips w"
  assumes "cpu_wf s" "fetches bus s b w b1" "op i = ADD"
  defines "x \<equiv> gpr s ! unat (i_rs i)" and "y \<equiv> gpr s ! unat (i_rt i)"
  assumes "\<not> (- (2 ^ 31) \<le> sint x + sint y \<and> sint x + sint y < 2 ^ 31)"
  shows "step_r3000a bus s b =
    (\<lambda>(r, s'). (r, s', b1)) (enter_exception exc_overflow stage_execute (pc s) (delay_slot s)
       (Some w) None None (retire_pending_load (refresh_cause s)))"
proof -
  have ov: "add_overflow x y (x + y)" using assms(7) by (auto simp: add_overflow_iff)
  show ?thesis
    by (subst step_plain [OF assms(2,3), folded i_def])
       (use assms(4) ov in \<open>auto simp: execute_def execute_registers_def or_else_def exec_alu_def
          x_def y_def Let_def raise_def i_def split: prod.splits\<close>)
qed

text \<open>Loads of a word and the two halves of an unaligned load.\<close>

definition load_address :: "u32 \<Rightarrow> R3000aState \<Rightarrow> u32" where
  "load_address w s = effective_address (decoded_env (decode_mips w) s)"

lemma effective_address_decoded [simp]:
  "effective_address (decoded_env (decode_mips w) (refresh_cause s)) = load_address w s"
  by (simp add: load_address_def effective_address_def)

lemma memory_classes:
  assumes "op (env_instr e) \<in> {LB, LBU, LH, LHU, LW, SB, SH, SW, LWL, LWR, SWL, SWR}"
  shows "execute_registers e s = None"
  using assms
  by (elim insertE emptyE)
     (simp_all add: execute_registers_def or_else_def exec_alu_def exec_hilo_def exec_control_def
      exec_cop0_def exec_cop2_def is_cop2_def exec_trap_def Let_def)

lemma unaligned_classes:
  assumes "op (env_instr e) = LWL \<or> op (env_instr e) = LWR"
  shows "exec_load bus e s b = None" "exec_store bus e s b = None"
  using assms by (elim disjE; simp add: exec_load_def exec_store_def Let_def)+

lemma lw_step:
  assumes "cpu_wf s" "fetches bus s b w b1" "op (decode_mips w) = LW"
    "load_address w s AND 3 = 0"
    "bus_read32 bus (load_address w s) b1 = (\<lparr>bus_status = bus_ok, bus_value = v\<rparr>, b2)"
  shows "step_r3000a bus s b =
    (retired_result, commit (decoded_env (decode_mips w) (refresh_cause s))
       (queue_load (i_rt (decode_mips w)) v no_locals) (retire_pending_load (refresh_cause s)), b2)"
proof -
  have ld: "exec_load bus (decoded_env (decode_mips w) (refresh_cause s))
      (retire_pending_load (refresh_cause s)) b1 =
    Some (Inr (queue_load (i_rt (decode_mips w)) v no_locals), retire_pending_load (refresh_cause s), b2)"
    using assms(3-5) by (simp add: exec_load_def on_bus_ok_def Let_def)
  show ?thesis
    by (subst step_plain [OF assms(1,2)])
       (use assms(3) ld in \<open>simp_all add: execute_def execute_memory_def or_else_def memory_classes\<close>)
qed

lemma lw_step_misaligned:
  assumes "cpu_wf s" "fetches bus s b w b1" "op (decode_mips w) = LW"
    "load_address w s AND 3 \<noteq> 0"
  shows "step_r3000a bus s b =
    (\<lambda>(r, s'). (with_width 4 r, s', b1)) (enter_exception exc_adel stage_memory (pc s) (delay_slot s)
       (Some w) (Some (load_address w s)) None (retire_pending_load (refresh_cause s)))"
proof -
  have ld: "exec_load bus (decoded_env (decode_mips w) (refresh_cause s))
      (retire_pending_load (refresh_cause s)) b1 =
    (\<lambda>(r, s'). Some (Inl (with_width 4 r), s', b1)) (enter_exception exc_adel stage_memory (pc s) (delay_slot s)
       (Some w) (Some (load_address w s)) None (retire_pending_load (refresh_cause s)))"
    using assms(3,4) by (simp add: exec_load_def address_exception_def Let_def split: prod.splits)
  show ?thesis
    by (subst step_plain [OF assms(1,2)])
       (use assms(3) ld in \<open>simp_all add: execute_def execute_memory_def or_else_def memory_classes split: prod.splits\<close>)
qed

text \<open>The register image an unaligned load merges into: the load in flight, or the register.\<close>

definition unaligned_base :: "u32 \<Rightarrow> R3000aState \<Rightarrow> u32" where
  "unaligned_base w s =
    (if ld_valid (pending_load s) \<and> ld_reg (pending_load s) = i_rt (decode_mips w)
     then ld_value (pending_load s) else gpr s ! unat (i_rt (decode_mips w)))"

lemma unaligned_base_decoded:
  "(if ld_valid (env_prior (decoded_env (decode_mips w) (refresh_cause s))) \<and>
       ld_reg (env_prior (decoded_env (decode_mips w) (refresh_cause s))) = i_rt (decode_mips w)
    then ld_value (env_prior (decoded_env (decode_mips w) (refresh_cause s)))
    else env_rt (decoded_env (decode_mips w) (refresh_cause s))) = unaligned_base w s"
  by (simp add: unaligned_base_def)

lemma unaligned_load_step:
  assumes "cpu_wf s" "fetches bus s b w b1"
    "op (decode_mips w) = LWL \<or> op (decode_mips w) = LWR"
    "bus_read32 bus (load_address w s AND NOT 3) b1 = (\<lparr>bus_status = bus_ok, bus_value = m\<rparr>, b2)"
  shows "step_r3000a bus s b =
    (retired_result, commit (decoded_env (decode_mips w) (refresh_cause s))
       (queue_load (i_rt (decode_mips w))
         ((if op (decode_mips w) = LWL then lwl_merge else lwr_merge)
            (load_address w s AND 3) (unaligned_base w s) m)
         no_locals) (retire_pending_load (refresh_cause s)), b2)"
proof -
  have ld: "exec_unaligned_load bus (decoded_env (decode_mips w) (refresh_cause s))
      (retire_pending_load (refresh_cause s)) b1 =
    Some (Inr (queue_load (i_rt (decode_mips w))
         ((if op (decode_mips w) = LWL then lwl_merge else lwr_merge)
            (load_address w s AND 3) (unaligned_base w s) m)
         no_locals), retire_pending_load (refresh_cause s), b2)"
    unfolding exec_unaligned_load_def Let_def decoded_env_simps(3) effective_address_decoded
      unaligned_base_decoded assms(4)
    using assms(3) by (auto simp: on_bus_ok_def)
  have mem: "op (decode_mips w) \<in> {LB, LBU, LH, LHU, LW, SB, SH, SW, LWL, LWR, SWL, SWR}"
    using assms(3) by auto
  have nc: "\<not> is_control_transfer (op (decode_mips w))" using assms(3) by auto
  show ?thesis
    by (subst step_plain [OF assms(1,2)])
       (use assms(3) ld mem nc in \<open>simp_all add: execute_def execute_memory_def or_else_def
          memory_classes unaligned_classes\<close>)
qed

lemma beq_step:
  fixes w :: u32
  defines "i \<equiv> decode_mips w"
  assumes "cpu_wf s" "fetches bus s b w b1" "op i = BEQ" "\<not> active (delay_slot s)"
  defines "x \<equiv> gpr s ! unat (i_rs i)" and "y \<equiv> gpr s ! unat (i_rt i)"
  defines "tgt \<equiv> pc s + 4 + push_bit 2 (sign_extend16 (immediate i))"
  shows "\<exists>s'. step_r3000a bus s b = (retired_result, s', b1) \<and> pc s' = pc s + 4 \<and>
     delay_slot s' = \<lparr>active = True, branch_pc = pc s, taken = (x = y), slot_target = tgt\<rparr>"
  by (subst step_plain [OF assms(2,3), folded i_def])
     (use assms(4,5) in \<open>auto simp: execute_def execute_registers_def or_else_def exec_alu_def exec_hilo_def
        exec_control_def x_def y_def tgt_def Let_def schedule_control_transfer_def branch_target_def\<close>)
end
