(* ===== verification/R3000a_Precise.thy ===== *)
theory R3000a_Precise
  imports R3000a_Steps
begin

text \<open>
  Precise exceptions with respect to memory.  A bus on which a failed write leaves the memory
  image alone (\<open>r3000a_precise_bus\<close>) makes the whole step precise: a step that
  does not retire changes neither \<open>hi\<close>, \<open>lo\<close> nor memory, and the registers only
  by the load that was pending.
\<close>

unbundle bit_operations_syntax

locale r3000a_precise_bus = r3000a_bus_contract bus bus_inv view
  for bus :: "'b R3000aBus" and bus_inv :: "'b \<Rightarrow> bool" and view :: "'b \<Rightarrow> 'v" +
  assumes write8_fail: "bus_inv b \<Longrightarrow> bus_status (fst (bus_write8 bus a v8 b)) \<noteq> bus_ok \<Longrightarrow>
      view (snd (bus_write8 bus a v8 b)) = view b"
    and write16_fail: "bus_inv b \<Longrightarrow> bus_status (fst (bus_write16 bus a v16 b)) \<noteq> bus_ok \<Longrightarrow>
      view (snd (bus_write16 bus a v16 b)) = view b"
    and write32_fail: "bus_inv b \<Longrightarrow> bus_status (fst (bus_write32 bus a v32 b)) \<noteq> bus_ok \<Longrightarrow>
      view (snd (bus_write32 bus a v32 b)) = view b"
begin

lemma read_result:
  assumes "bus_inv b"
  shows "bus_read8 bus a b = (q, c) \<Longrightarrow> bus_inv c \<and> view c = view b"
    "bus_read16 bus a b = (q, c) \<Longrightarrow> bus_inv c \<and> view c = view b"
    "bus_read32 bus a b = (q, c) \<Longrightarrow> bus_inv c \<and> view c = view b"
  using bus_ops_inv(1-3) [OF assms] bus_reads_view [OF assms] by (metis snd_conv)+

lemma write_result:
  assumes "bus_inv b" "bus_status q \<noteq> bus_ok"
  shows "bus_write8 bus a v8 b = (q, c) \<Longrightarrow> view c = view b"
    "bus_write16 bus a v16 b = (q, c) \<Longrightarrow> view c = view b"
    "bus_write32 bus a v32 b = (q, c) \<Longrightarrow> view c = view b"
  using write8_fail [OF assms(1)] write16_fail [OF assms(1)] write32_fail [OF assms(1)] assms(2)
  by (metis fst_conv snd_conv)+

lemma on_bus_ok_early:
  "on_bus_ok e a w wv r s (Inr l, s') = (Inl x, t) \<Longrightarrow> bus_status r \<noteq> bus_ok"
  by (auto simp: on_bus_ok_def split: R3000aBusStatus.splits if_splits)

lemma exec_store_view:
  assumes "exec_store bus e s b = Some (Inl r, s', b')" "bus_inv b"
  shows "view b' = view b"
  using assms
  by (cases "op (env_instr e)")
     (auto simp: exec_store_def Let_def split: prod.splits if_splits
       dest!: on_bus_ok_early dest: write_result [OF assms(2)])

lemma exec_unaligned_store_view:
  assumes "exec_unaligned_store bus e s b = Some (Inl r, s', b')" "bus_inv b"
  shows "view b' = view b"
  using assms
  by (auto simp: exec_unaligned_store_def Let_def split: prod.splits if_splits
      dest!: on_bus_ok_early read_result [OF assms(2)] dest: write_result)

lemma exec_load_view:
  assumes "exec_load bus e s b = Some (out, s', b')" "bus_inv b"
  shows "view b' = view b"
  using assms
  by (cases "op (env_instr e)")
     (auto simp: exec_load_def Let_def split: prod.splits if_splits dest!: read_result [OF assms(2)])

lemma exec_unaligned_load_view:
  assumes "exec_unaligned_load bus e s b = Some (out, s', b')" "bus_inv b"
  shows "view b' = view b"
  using assms
  by (auto simp: exec_unaligned_load_def Let_def split: prod.splits if_splits dest!: read_result [OF assms(2)])

lemma execute_early_view:
  assumes "execute bus e s b = (Inl r, s', b')" "bus_inv b"
  shows "view b' = view b"
proof (cases "execute_registers e s")
  case (Some res)
  with assms show ?thesis by (auto simp: execute_def split: prod.splits)
next
  case None
  show ?thesis
  proof (cases "execute_memory bus e s b")
    case None
    with \<open>execute_registers e s = None\<close> assms show ?thesis by (auto simp: execute_def split: prod.splits)
  next
    case (Some res)
    with None assms(1) have "execute_memory bus e s b = Some (Inl r, s', b')" by (simp add: execute_def)
    then show ?thesis
      using exec_load_view [OF _ assms(2)] exec_store_view [OF _ assms(2)]
        exec_unaligned_load_view [OF _ assms(2)] exec_unaligned_store_view [OF _ assms(2)]
      unfolding execute_memory_def or_else_Some by blast
  qed
qed

lemma step_decoded_early_view:
  assumes "step_decoded bus i s b = (r, s', b')" "step_status r \<noteq> step_retired" "bus_inv b"
  shows "view b' = view b"
  using assms execute_early_view [OF _ assms(3)]
  by (auto simp: step_decoded_eq retired_result_def split: if_splits prod.splits sum.splits)

lemma step_early_view:
  assumes "step_r3000a bus s b = (r, s', b')" "step_status r \<noteq> step_retired" "bus_inv b"
  shows "view b' = view b"
proof -
  have "bus_inv c \<and> view c = view b" if "bus_read32 bus a b = (q, c)" for a q c
    using read_result(3) [OF assms(3) that] .
  then show ?thesis
    using assms step_decoded_early_view
    by (auto simp: step_r3000a_def Let_def split: if_splits prod.splits)
qed

end

text \<open>The registers of a step that does not retire.\<close>

lemma step_precise_registers:
  assumes "step_r3000a bus s b = (r, s', b')" "step_status r \<noteq> step_retired" "cpu_wf s"
  shows "hi s' = hi s \<and> lo s' = lo s \<and>
     (gpr s' = gpr s \<or> gpr s' = gpr (retire_pending_load s)) \<and>
     (step_status r = step_boundary \<longrightarrow> pc s' = pc s \<and> next_pc s' = next_pc s \<and> delay_slot s' = delay_slot s)"
proof -
  let ?t = "refresh_cause s"
  have t: "refresh_cause (clear_zero s) = ?t" by (simp add: clear_zero_id [OF assms(3)])
  have wf: "cpu_wf ?t" "cpu_wf (retire_pending_load ?t)" using assms(3) by (auto intro: wf_intros)
  have z: "(gpr (retire_pending_load s))[0 := 0] = gpr (retire_pending_load s)"
    using cpu_wf_zero [OF wf(2)] by (simp add: list_update_zero_fix)
  show ?thesis
    using assms(1,2) unfolding step_r3000a_def Let_def t
    by (auto split: if_splits prod.splits dest!: boundary_state step_decoded_early [OF _ wf(1)]
        simp: enter_exception_def Let_def z with_width_def with_access_def)
qed

end
