(* ===== verification/Ps1_Bus.thy ===== *)
theory Ps1_Bus
  imports R3000a_Precise
begin

text \<open>
  The memory bus of \<^verbatim>\<open>src/src/core/ps1_memory_bus.h\<close> and
  \<^verbatim>\<open>ps1_memory_bus.cpp\<close>: main RAM and scratchpad as byte lists of fixed length, the
  interrupt, DMA and timer registers the boot code touches, and the diagnostic shadow of the
  I/O window.  A pointer into one of the byte arrays is a region with an offset; every list
  access below is guarded by the bounds test that makes the pointer non-null in the code.
\<close>

unbundle bit_operations_syntax

section \<open>State\<close>

record Ps1UnsupportedAccess =
  guest_address :: u32
  physical_address :: u32
  width :: u8
  is_write :: bool
  access_value :: u32

record Ps1MemoryBus =
  main_ram :: "u8 list"
  scratchpad :: "u8 list"
  interrupt_status :: u16
  interrupt_mask :: u16
  dma_control :: u32
  dma_interrupt :: u32
  timer1_counter :: u16
  timer1_mode :: u16
  diagnostic_mmio_probe_enabled :: bool
  diagnostic_mmio_shadow :: "u8 list"
  last_diagnostic_mmio_probe :: "Ps1UnsupportedAccess option"
  last_unsupported :: "Ps1UnsupportedAccess option"

definition main_ram_size :: nat where "main_ram_size = 2 * 1024 * 1024"
definition scratchpad_base :: u32 where "scratchpad_base = 0x1F800000"
definition scratchpad_size :: nat where "scratchpad_size = 1024"
definition diagnostic_mmio_shadow_size :: nat where "diagnostic_mmio_shadow_size = 0x2000"

definition kDiagnosticMmioBase :: u32 where "kDiagnosticMmioBase = 0x1F801000"
definition kInterruptStatusAddress :: u32 where "kInterruptStatusAddress = 0x1F801070"
definition kInterruptMaskAddress :: u32 where "kInterruptMaskAddress = 0x1F801074"
definition kDmaControlAddress :: u32 where "kDmaControlAddress = 0x1F8010F0"
definition kDmaInterruptAddress :: u32 where "kDmaInterruptAddress = 0x1F8010F4"
definition kTimer1ModeAddress :: u32 where "kTimer1ModeAddress = 0x1F801114"
definition kInterruptValidBits :: u16 where "kInterruptValidBits = 0x07FF"
definition kDmaInterruptControlMask :: u32 where "kDmaInterruptControlMask = 0x00FF807F"
definition kDmaInterruptFlagMask :: u32 where "kDmaInterruptFlagMask = 0x7F000000"
definition kDmaInterruptMasterFlag :: u32 where "kDmaInterruptMasterFlag = 0x80000000"
definition kDmaInterruptMasterEnable :: u32 where "kDmaInterruptMasterEnable = 0x00800000"
definition kDmaInterruptBusError :: u32 where "kDmaInterruptBusError = 0x00008000"

definition initial_bus :: Ps1MemoryBus where
  "initial_bus =
    \<lparr>main_ram = replicate main_ram_size 0, scratchpad = replicate scratchpad_size 0,
     interrupt_status = 0, interrupt_mask = 0, dma_control = 0x07654321, dma_interrupt = 0,
     timer1_counter = 0, timer1_mode = 0, diagnostic_mmio_probe_enabled = False,
     diagnostic_mmio_shadow = replicate diagnostic_mmio_shadow_size 0,
     last_diagnostic_mmio_probe = None, last_unsupported = None\<rparr>"

section \<open>Address translation and byte access\<close>

definition guest_to_physical :: "u32 \<Rightarrow> u32 option" where
  "guest_to_physical guest =
    (if guest < 0x80000000 then Some guest
     else if guest < 0xC0000000 then Some (guest AND 0x1FFFFFFF)
     else None)"

datatype bus_region = MainRam nat | Scratchpad nat

definition mapped_bytes :: "u32 \<Rightarrow> nat \<Rightarrow> Ps1MemoryBus \<Rightarrow> bus_region option" where
  "mapped_bytes physical w b =
    (if unat physical < length (main_ram b) \<and> w \<le> length (main_ram b) - unat physical
     then Some (MainRam (unat physical))
     else if physical \<ge> scratchpad_base
     then let off = unat (physical - scratchpad_base)
          in if off < length (scratchpad b) \<and> w \<le> length (scratchpad b) - off
             then Some (Scratchpad off) else None
     else None)"

definition diagnostic_mmio_bytes :: "u32 \<Rightarrow> nat \<Rightarrow> Ps1MemoryBus \<Rightarrow> nat option" where
  "diagnostic_mmio_bytes physical w b =
    (if physical < kDiagnosticMmioBase then None
     else let off = unat (physical - kDiagnosticMmioBase)
          in if off < length (diagnostic_mmio_shadow b) \<and>
                w \<le> length (diagnostic_mmio_shadow b) - off
             then Some off else None)"

definition read_little_endian :: "u8 list \<Rightarrow> nat \<Rightarrow> nat \<Rightarrow> u32" where
  "read_little_endian bs off w =
    (let v = ucast (bs ! off);
         v = (if w \<ge> 2 then v OR push_bit 8 (ucast (bs ! (off + 1))) else v)
     in if w = 4
        then (v OR push_bit 16 (ucast (bs ! (off + 2)))) OR push_bit 24 (ucast (bs ! (off + 3)))
        else v)"

definition write_little_endian :: "u8 list \<Rightarrow> nat \<Rightarrow> nat \<Rightarrow> u32 \<Rightarrow> u8 list" where
  "write_little_endian bs off w v =
    (let bs = bs[off := ucast v];
         bs = (if w \<ge> 2 then bs[off + 1 := ucast (drop_bit 8 v)] else bs)
     in if w = 4
        then bs[off + 2 := ucast (drop_bit 16 v), off + 3 := ucast (drop_bit 24 v)]
        else bs)"

fun read_region :: "bus_region \<Rightarrow> nat \<Rightarrow> Ps1MemoryBus \<Rightarrow> u32" where
  "read_region (MainRam off) w b = read_little_endian (main_ram b) off w"
| "read_region (Scratchpad off) w b = read_little_endian (scratchpad b) off w"

fun write_region :: "bus_region \<Rightarrow> nat \<Rightarrow> u32 \<Rightarrow> Ps1MemoryBus \<Rightarrow> Ps1MemoryBus" where
  "write_region (MainRam off) w v b =
     b\<lparr>main_ram := write_little_endian (main_ram b) off w v\<rparr>"
| "write_region (Scratchpad off) w v b =
     b\<lparr>scratchpad := write_little_endian (scratchpad b) off w v\<rparr>"

definition visible_dma_interrupt :: "u32 \<Rightarrow> u32" where
  "visible_dma_interrupt st =
    (let v = st AND (kDmaInterruptControlMask OR kDmaInterruptFlagMask)
     in if v AND kDmaInterruptBusError \<noteq> 0 \<or>
           (v AND kDmaInterruptMasterEnable \<noteq> 0 \<and> v AND kDmaInterruptFlagMask \<noteq> 0)
        then v OR kDmaInterruptMasterFlag else v)"

section \<open>The six bus operations\<close>

text \<open>The common tail of every access: the diagnostic probe, then the unsupported report.\<close>

definition ok_result :: "u32 \<Rightarrow> R3000aBusResult" where
  "ok_result v = \<lparr>bus_status = bus_ok, bus_value = v\<rparr>"

definition report_unsupported ::
  "u32 \<Rightarrow> u32 option \<Rightarrow> u8 \<Rightarrow> bool \<Rightarrow> u32 \<Rightarrow> Ps1MemoryBus \<Rightarrow> R3000aBusResult \<times> Ps1MemoryBus" where
  "report_unsupported address physical w wr v b =
    (\<lparr>bus_status = bus_unsupported, bus_value = 0\<rparr>,
     b\<lparr>last_unsupported := Some \<lparr>guest_address = address,
         physical_address = (case physical of Some p \<Rightarrow> p | None \<Rightarrow> address),
         width = w, is_write = wr, access_value = v\<rparr>\<rparr>)"

definition probe_read ::
  "u32 \<Rightarrow> u32 \<Rightarrow> nat \<Rightarrow> Ps1MemoryBus \<Rightarrow> (R3000aBusResult \<times> Ps1MemoryBus) option" where
  "probe_read address physical w b =
    (if diagnostic_mmio_probe_enabled b
     then case diagnostic_mmio_bytes physical w b of
            None \<Rightarrow> None
          | Some off \<Rightarrow>
              let v = read_little_endian (diagnostic_mmio_shadow b) off w
              in Some (ok_result v, b\<lparr>last_diagnostic_mmio_probe := Some
                   \<lparr>guest_address = address, physical_address = physical,
                    width = of_nat w, is_write = False, access_value = v\<rparr>\<rparr>)
     else None)"

definition probe_write ::
  "u32 \<Rightarrow> u32 \<Rightarrow> nat \<Rightarrow> u32 \<Rightarrow> Ps1MemoryBus \<Rightarrow> (R3000aBusResult \<times> Ps1MemoryBus) option" where
  "probe_write address physical w v b =
    (if diagnostic_mmio_probe_enabled b
     then case diagnostic_mmio_bytes physical w b of
            None \<Rightarrow> None
          | Some off \<Rightarrow>
              Some (ok_result 0, b\<lparr>
                diagnostic_mmio_shadow :=
                  write_little_endian (diagnostic_mmio_shadow b) off w v,
                last_diagnostic_mmio_probe := Some
                   \<lparr>guest_address = address, physical_address = physical,
                    width = of_nat w, is_write = True, access_value = v\<rparr>\<rparr>)
     else None)"

definition read_memory ::
  "u32 \<Rightarrow> u32 \<Rightarrow> nat \<Rightarrow> Ps1MemoryBus \<Rightarrow> R3000aBusResult \<times> Ps1MemoryBus" where
  "read_memory address physical w b =
    (case mapped_bytes physical w b of
       Some p \<Rightarrow> (ok_result (read_region p w b), b)
     | None \<Rightarrow>
        (case probe_read address physical w b of
           Some res \<Rightarrow> res
         | None \<Rightarrow> report_unsupported address (Some physical) (of_nat w) False 0 b))"

definition write_memory ::
  "u32 \<Rightarrow> u32 \<Rightarrow> nat \<Rightarrow> u32 \<Rightarrow> Ps1MemoryBus \<Rightarrow> R3000aBusResult \<times> Ps1MemoryBus" where
  "write_memory address physical w v b =
    (case mapped_bytes physical w b of
       Some p \<Rightarrow> (ok_result 0, write_region p w v b)
     | None \<Rightarrow>
        (case probe_write address physical w v b of
           Some res \<Rightarrow> res
         | None \<Rightarrow> report_unsupported address (Some physical) (of_nat w) True v b))"

definition read8 :: "u32 \<Rightarrow> Ps1MemoryBus \<Rightarrow> R3000aBusResult \<times> Ps1MemoryBus" where
  "read8 address b =
    (case guest_to_physical address of
       None \<Rightarrow> report_unsupported address None 1 False 0 b
     | Some physical \<Rightarrow> read_memory address physical 1 b)"

definition read16 :: "u32 \<Rightarrow> Ps1MemoryBus \<Rightarrow> R3000aBusResult \<times> Ps1MemoryBus" where
  "read16 address b =
    (case guest_to_physical address of
       None \<Rightarrow> report_unsupported address None 2 False 0 b
     | Some physical \<Rightarrow>
         if physical = kInterruptMaskAddress
         then (ok_result (ucast (interrupt_mask b)), b)
         else read_memory address physical 2 b)"

definition read32 :: "u32 \<Rightarrow> Ps1MemoryBus \<Rightarrow> R3000aBusResult \<times> Ps1MemoryBus" where
  "read32 address b =
    (case guest_to_physical address of
       None \<Rightarrow> report_unsupported address None 4 False 0 b
     | Some physical \<Rightarrow>
         if physical = kDmaControlAddress then (ok_result (dma_control b), b)
         else if physical = kDmaInterruptAddress
         then (ok_result (visible_dma_interrupt (dma_interrupt b)), b)
         else read_memory address physical 4 b)"

definition write8 :: "u32 \<Rightarrow> u8 \<Rightarrow> Ps1MemoryBus \<Rightarrow> R3000aBusResult \<times> Ps1MemoryBus" where
  "write8 address v b =
    (case guest_to_physical address of
       None \<Rightarrow> report_unsupported address None 1 True (ucast v) b
     | Some physical \<Rightarrow> write_memory address physical 1 (ucast v) b)"

definition write16 :: "u32 \<Rightarrow> u16 \<Rightarrow> Ps1MemoryBus \<Rightarrow> R3000aBusResult \<times> Ps1MemoryBus" where
  "write16 address v b =
    (case guest_to_physical address of
       None \<Rightarrow> report_unsupported address None 2 True (ucast v) b
     | Some physical \<Rightarrow>
         if physical = kInterruptStatusAddress
         then (ok_result 0, b\<lparr>interrupt_status :=
                 (interrupt_status b AND v) AND kInterruptValidBits\<rparr>)
         else if physical = kInterruptMaskAddress
         then (ok_result 0, b\<lparr>interrupt_mask := v AND kInterruptValidBits\<rparr>)
         else write_memory address physical 2 (ucast v) b)"

definition write32 :: "u32 \<Rightarrow> u32 \<Rightarrow> Ps1MemoryBus \<Rightarrow> R3000aBusResult \<times> Ps1MemoryBus" where
  "write32 address v b =
    (case guest_to_physical address of
       None \<Rightarrow> report_unsupported address None 4 True v b
     | Some physical \<Rightarrow>
         if physical = kDmaControlAddress then (ok_result 0, b\<lparr>dma_control := v\<rparr>)
         else if physical = kDmaInterruptAddress
         then let flags = (dma_interrupt b AND kDmaInterruptFlagMask) AND
                          NOT (v AND kDmaInterruptFlagMask)
              in (ok_result 0, b\<lparr>dma_interrupt := (v AND kDmaInterruptControlMask) OR flags\<rparr>)
         else if physical = kTimer1ModeAddress
         then (ok_result 0, b\<lparr>timer1_mode := ucast (v AND 0xFFFF), timer1_counter := 0\<rparr>)
         else write_memory address physical 4 v b)"

definition ps1_bus :: "Ps1MemoryBus R3000aBus" where
  "ps1_bus = \<lparr>bus_read8 = read8, bus_read16 = read16, bus_read32 = read32,
     bus_write8 = write8, bus_write16 = write16, bus_write32 = write32\<rparr>"

section \<open>Loading, probing, hashing\<close>

definition load_main_ram :: "u32 \<Rightarrow> u8 list \<Rightarrow> Ps1MemoryBus \<Rightarrow> Ps1MemoryBus result" where
  "load_main_ram address bytes b =
    (case guest_to_physical address of
       Some physical \<Rightarrow>
         if unat physical \<ge> main_ram_size \<or> length bytes > main_ram_size - unat physical
         then failure invalid_argument ''PS-X EXE payload destination is outside JoJo main RAM''
         else success (b\<lparr>main_ram := take (unat physical) (main_ram b) @ bytes @
                drop (unat physical + length bytes) (main_ram b)\<rparr>)
     | None \<Rightarrow>
         failure invalid_argument ''PS-X EXE payload destination is outside JoJo main RAM'')"

definition set_diagnostic_mmio_probe_enabled :: "bool \<Rightarrow> Ps1MemoryBus \<Rightarrow> Ps1MemoryBus" where
  "set_diagnostic_mmio_probe_enabled enabled b =
    (let b = (if enabled \<and> \<not> diagnostic_mmio_probe_enabled b
              then b\<lparr>diagnostic_mmio_shadow := replicate (length (diagnostic_mmio_shadow b)) 0\<rparr>
              else b)
     in b\<lparr>diagnostic_mmio_probe_enabled := enabled, last_diagnostic_mmio_probe := None\<rparr>)"

definition clear_last_diagnostic_mmio_probe :: "Ps1MemoryBus \<Rightarrow> Ps1MemoryBus" where
  "clear_last_diagnostic_mmio_probe b = b\<lparr>last_diagnostic_mmio_probe := None\<rparr>"

definition clear_last_unsupported_access :: "Ps1MemoryBus \<Rightarrow> Ps1MemoryBus" where
  "clear_last_unsupported_access b = b\<lparr>last_unsupported := None\<rparr>"

definition visible_dma_interrupt_of :: "Ps1MemoryBus \<Rightarrow> u32" where
  "visible_dma_interrupt_of b = visible_dma_interrupt (dma_interrupt b)"

definition hash_u16 :: "u64 \<Rightarrow> u16 \<Rightarrow> u64" where
  "hash_u16 h v = hash_byte (hash_byte h (ucast v)) (ucast (drop_bit 8 v))"

definition hash_u32 :: "u64 \<Rightarrow> u32 \<Rightarrow> u64" where
  "hash_u32 h v = hash_bytes h (le_bytes 4 v)"

definition bus_diagnostic_state_hash :: "Ps1MemoryBus \<Rightarrow> u64" where
  "bus_diagnostic_state_hash b =
    (let h = hash_bytes fnv_offset (main_ram b);
         h = hash_bytes h (scratchpad b);
         h = hash_u16 h (interrupt_status b);
         h = hash_u16 h (interrupt_mask b);
         h = hash_u32 h (dma_control b);
         h = hash_u32 h (dma_interrupt b);
         h = hash_u16 h (timer1_counter b);
         h = hash_u16 h (timer1_mode b)
     in hash_bytes h (diagnostic_mmio_shadow b))"

section \<open>Invariant and interface\<close>

definition bus_wf :: "Ps1MemoryBus \<Rightarrow> bool" where
  "bus_wf b \<longleftrightarrow> length (main_ram b) = main_ram_size \<and> length (scratchpad b) = scratchpad_size \<and>
     length (diagnostic_mmio_shadow b) = diagnostic_mmio_shadow_size"

lemma length_write_little_endian [simp]: "length (write_little_endian bs off w v) = length bs"
  by (simp add: write_little_endian_def Let_def)

lemma bus_wf_initial: "bus_wf initial_bus"
  by (simp add: bus_wf_def initial_bus_def)

lemma write_region_wf [wf_intros]: "bus_wf b \<Longrightarrow> bus_wf (write_region p w v b)"
  by (cases p) (simp_all add: bus_wf_def)

lemma report_unsupported_wf: "bus_wf (snd (report_unsupported a p w wr v b)) = bus_wf b"
  by (simp add: report_unsupported_def bus_wf_def)

lemma read_memory_wf: "bus_wf b \<Longrightarrow> bus_wf (snd (read_memory a p w b))"
  by (auto simp: read_memory_def probe_read_def report_unsupported_wf bus_wf_def Let_def
      split: option.splits if_splits) (simp_all add: report_unsupported_def)

lemma write_memory_wf: "bus_wf b \<Longrightarrow> bus_wf (snd (write_memory a p w v b))"
  by (auto simp: write_memory_def probe_write_def report_unsupported_wf Let_def
      split: option.splits if_splits intro: wf_intros) (simp_all add: bus_wf_def)

lemma bus_reads_wf:
  "bus_wf b \<Longrightarrow> bus_wf (snd (read8 a b))" "bus_wf b \<Longrightarrow> bus_wf (snd (read16 a b))"
  "bus_wf b \<Longrightarrow> bus_wf (snd (read32 a b))"
  by (auto simp: read8_def read16_def read32_def report_unsupported_wf intro: read_memory_wf
      split: option.splits)

lemma bus_writes_wf:
  "bus_wf b \<Longrightarrow> bus_wf (snd (write8 a v8 b))" "bus_wf b \<Longrightarrow> bus_wf (snd (write16 a v16 b))"
  "bus_wf b \<Longrightarrow> bus_wf (snd (write32 a v32 b))"
  by (auto simp: write8_def write16_def write32_def report_unsupported_wf Let_def bus_wf_def [of "_ \<lparr>interrupt_status := _\<rparr>"]
     bus_wf_def [of "_ \<lparr>interrupt_mask := _\<rparr>"]
      intro: write_memory_wf split: option.splits) (simp_all add: bus_wf_def)

text \<open>The memory image a read can observe: everything but the two diagnostic records.\<close>

definition bus_view :: "Ps1MemoryBus \<Rightarrow> Ps1MemoryBus" where
  "bus_view b = b\<lparr>last_diagnostic_mmio_probe := None, last_unsupported := None\<rparr>"

lemma bus_reads_view:
  "bus_view (snd (read8 a b)) = bus_view b" "bus_view (snd (read16 a b)) = bus_view b"
  "bus_view (snd (read32 a b)) = bus_view b"
  by (auto simp: read8_def read16_def read32_def read_memory_def probe_read_def report_unsupported_def
      bus_view_def Let_def split: option.splits)

interpretation ps1: r3000a_bus_contract ps1_bus bus_wf bus_view
  by unfold_locales (simp_all add: ps1_bus_def bus_reads_wf bus_writes_wf bus_reads_view)

section \<open>Little-endian memory\<close>

lemma bit_read_little_endian:
  "bit (read_little_endian bs off 4) n \<longleftrightarrow>
     n < 32 \<and> bit (bs ! (off + n div 8)) (n mod 8)"
proof -
  consider "n < 8" | "8 \<le> n" "n < 16" | "16 \<le> n" "n < 24" | "24 \<le> n" "n < 32" | "32 \<le> n" by linarith
  then show ?thesis
  proof cases
    case 1 then show ?thesis by (simp add: read_little_endian_def Let_def bit_simps)
  next
    case 2
    then have "n div 8 = 1" "n mod 8 = n - 8" by presburger+
    with 2 show ?thesis by (auto simp: read_little_endian_def Let_def bit_simps dest: bit_imp_le_length)
  next
    case 3
    then have "n div 8 = 2" "n mod 8 = n - 16" by presburger+
    with 3 show ?thesis by (auto simp: read_little_endian_def Let_def bit_simps dest: bit_imp_le_length)
  next
    case 4
    then have "n div 8 = 3" "n mod 8 = n - 24" by presburger+
    with 4 show ?thesis by (auto simp: read_little_endian_def Let_def bit_simps dest: bit_imp_le_length)
  next
    case 5 then show ?thesis by (auto dest: bit_imp_le_length)
  qed
qed

lemma write_little_endian_nth:
  assumes "w = 1 \<or> w = 2 \<or> w = 4" "off + w \<le> length bs" "k < length bs"
  shows "write_little_endian bs off w v ! k =
    (if off \<le> k \<and> k < off + w then byte_at (k - off) v else bs ! k)"
  using assms
  by (elim disjE; auto simp: write_little_endian_def Let_def nth_list_update byte_at_def)

lemma read_write_little_endian_same:
  assumes "w = 1 \<or> w = 2 \<or> w = 4" "off + w \<le> length bs"
  shows "read_little_endian (write_little_endian bs off w v) off w = take_bit (8 * w) v"
  using assms(1)
proof (elim disjE)
  assume "w = 1"
  with assms(2) show ?thesis
    by (intro bit_word_eqI) (auto simp: read_little_endian_def write_little_endian_def Let_def bit_simps)
next
  assume w: "w = 2"
  show ?thesis
  proof (rule bit_word_eqI)
    fix n assume "n < LENGTH(32)"
    then show "bit (read_little_endian (write_little_endian bs off w v) off w) n = bit (take_bit (8 * w) v) n"
      using w assms(2) by (cases "n < 8") (auto simp: read_little_endian_def write_little_endian_def Let_def bit_simps)
  qed
next
  assume w: "w = 4"
  show ?thesis
  proof (rule bit_word_eqI)
    fix n assume n: "n < LENGTH(32)"
    have "off \<le> off + n div 8" "off + n div 8 < off + 4" "8 * (n div 8) + n mod 8 = n"
      using n by simp_all
    then show "bit (read_little_endian (write_little_endian bs off w v) off w) n = bit (take_bit (8 * w) v) n"
      using n w assms(2)
      by (simp add: bit_read_little_endian write_little_endian_nth bit_byte_at bit_simps)
  qed
qed

lemma read_little_endian_cong:
  assumes "w = 1 \<or> w = 2 \<or> w = 4" "\<And>k. off \<le> k \<Longrightarrow> k < off + w \<Longrightarrow> bs ! k = cs ! k"
  shows "read_little_endian bs off w = read_little_endian cs off w"
  using assms by (elim disjE; simp add: read_little_endian_def Let_def)

lemma read_write_little_endian_other:
  assumes "w = 1 \<or> w = 2 \<or> w = 4" "w' = 1 \<or> w' = 2 \<or> w' = 4"
    "off + w \<le> length bs" "off' + w' \<le> length bs" "off + w \<le> off' \<or> off' + w' \<le> off"
  shows "read_little_endian (write_little_endian bs off w v) off' w' = read_little_endian bs off' w'"
  by (rule read_little_endian_cong [OF assms(2)])
     (use assms in \<open>auto simp: write_little_endian_nth [OF assms(1,3)]\<close>)

section \<open>Address translation\<close>

lemma unat_and_0x1FFFFFFF: "unat ((a :: u32) AND 0x1FFFFFFF) = unat a mod 2 ^ 29"
proof -
  have "a AND 0x1FFFFFFF = take_bit 29 a" by (simp add: take_bit_eq_mask mask_eq_exp_minus_1)
  then have "unat (a AND 0x1FFFFFFF) = take_bit 29 (unat a)" by (simp only: unsigned_take_bit_eq)
  then show ?thesis by (simp only: take_bit_eq_mod)
qed

lemma guest_to_physical_unat:
  "guest_to_physical a = Some p \<longleftrightarrow>
    unat a < 0x80000000 \<and> unat p = unat a \<or>
    0x80000000 \<le> unat a \<and> unat a < 0xC0000000 \<and> unat p = unat a mod 2 ^ 29"
  by (auto simp: guest_to_physical_def word_less_nat_alt word_unat_eq_iff unat_and_0x1FFFFFFF)

lemma guest_to_physical_add:
  assumes "guest_to_physical a = Some p" "unat p + k < main_ram_size"
  shows "guest_to_physical (a + of_nat k) = Some (p + of_nat k)"
proof -
  have k: "k < main_ram_size" "unat p < main_ram_size" using assms(2) by simp_all
  have up: "unat (p + of_nat k) = unat p + k"
    using assms(2) by (simp add: unat_word_ariths unat_of_nat main_ram_size_def)
  from assms(1) consider "unat a < 0x80000000" "unat p = unat a"
    | "0x80000000 \<le> unat a" "unat a < 0xC0000000" "unat p = unat a mod 2 ^ 29"
    unfolding guest_to_physical_unat by blast
  then show ?thesis
  proof cases
    case 1
    then have "unat (a + of_nat k) = unat a + k"
      using assms(2) by (simp add: unat_word_ariths unat_of_nat main_ram_size_def)
    with 1 up assms(2) show ?thesis
      by (simp add: guest_to_physical_unat main_ram_size_def)
  next
    case 2
    then have ua: "unat (a + of_nat k) = unat a + k"
      using k(1) by (simp add: unat_word_ariths unat_of_nat main_ram_size_def)
    have m: "(unat a + k) mod 2 ^ 29 = unat a mod 2 ^ 29 + k"
      using 2(3) assms(2) by (subst mod_add_left_eq [symmetric]) (simp add: main_ram_size_def)
    have "unat a = 0x20000000 * (unat a div 0x20000000) + unat p" using 2(3) by simp
    moreover have "unat a div 0x20000000 \<le> 5" using 2(2) by simp
    ultimately have "unat a + k < 0xC0000000"
      using assms(2) unfolding main_ram_size_def by linarith
    with 2 up ua m show ?thesis
      unfolding guest_to_physical_unat by simp
  qed
qed

section \<open>Main RAM\<close>

lemma mapped_main_ram:
  assumes "bus_wf b" "unat p + w \<le> main_ram_size" "0 < w"
  shows "mapped_bytes p w b = Some (MainRam (unat p))"
  using assms by (simp add: mapped_bytes_def bus_wf_def)

lemma main_ram_not_register:
  assumes "unat p < main_ram_size"
  shows "p \<noteq> kInterruptStatusAddress" "p \<noteq> kInterruptMaskAddress" "p \<noteq> kDmaControlAddress"
    "p \<noteq> kDmaInterruptAddress" "p \<noteq> kTimer1ModeAddress"
  using assms by (auto simp: main_ram_size_def kInterruptStatusAddress_def kInterruptMaskAddress_def
      kDmaControlAddress_def kDmaInterruptAddress_def kTimer1ModeAddress_def)

lemma ram_accesses:
  assumes "bus_wf b" "guest_to_physical a = Some p"
  shows "unat p + 1 \<le> main_ram_size \<Longrightarrow>
      read8 a b = (ok_result (read_little_endian (main_ram b) (unat p) 1), b)"
    and "unat p + 2 \<le> main_ram_size \<Longrightarrow>
      read16 a b = (ok_result (read_little_endian (main_ram b) (unat p) 2), b)"
    and "unat p + 4 \<le> main_ram_size \<Longrightarrow>
      read32 a b = (ok_result (read_little_endian (main_ram b) (unat p) 4), b)"
    and "unat p + 1 \<le> main_ram_size \<Longrightarrow>
      write8 a v8 b = (ok_result 0, b\<lparr>main_ram := write_little_endian (main_ram b) (unat p) 1 (ucast v8)\<rparr>)"
    and "unat p + 2 \<le> main_ram_size \<Longrightarrow>
      write16 a v16 b = (ok_result 0, b\<lparr>main_ram := write_little_endian (main_ram b) (unat p) 2 (ucast v16)\<rparr>)"
    and "unat p + 4 \<le> main_ram_size \<Longrightarrow>
      write32 a v32 b = (ok_result 0, b\<lparr>main_ram := write_little_endian (main_ram b) (unat p) 4 v32\<rparr>)"
  using assms main_ram_not_register [of p] mapped_main_ram [OF assms(1), of p]
  by (simp_all add: read8_def read16_def read32_def write8_def write16_def write32_def
      read_memory_def write_memory_def)

lemma write32_wf_main_ram:
  "bus_wf b \<Longrightarrow> bus_wf (b\<lparr>main_ram := write_little_endian (main_ram b) off w v\<rparr>)"
  by (simp add: bus_wf_def)

lemma word_store_load:
  assumes "bus_wf b" "guest_to_physical a = Some p" "guest_to_physical a' = Some p'"
    "unat p + 4 \<le> main_ram_size" "unat p' + 4 \<le> main_ram_size"
    "p = p' \<or> unat p + 4 \<le> unat p' \<or> unat p' + 4 \<le> unat p"
  shows "fst (read32 a' (snd (write32 a v b))) = (if p = p' then ok_result v else fst (read32 a' b))"
proof -
  let ?b = "b\<lparr>main_ram := write_little_endian (main_ram b) (unat p) 4 v\<rparr>"
  have l: "length (main_ram b) = main_ram_size" using assms(1) by (simp add: bus_wf_def)
  have wr: "snd (write32 a v b) = ?b" by (simp add: ram_accesses [OF assms(1,2)] assms(4))
  have rd: "read32 a' ?b = (ok_result (read_little_endian (main_ram ?b) (unat p') 4), ?b)"
    by (rule ram_accesses(3) [OF write32_wf_main_ram [OF assms(1)] assms(3,5)])
  have rd0: "read32 a' b = (ok_result (read_little_endian (main_ram b) (unat p') 4), b)"
    by (rule ram_accesses(3) [OF assms(1,3,5)])
  show ?thesis
  proof (cases "p = p'")
    case True
    have "read_little_endian (main_ram ?b) (unat p') 4 = v"
      using True assms(4) l by (simp add: read_write_little_endian_same take_bit_word_eq_self)
    then have "fst (read32 a' (snd (write32 a v b))) = ok_result v" by (simp only: wr rd fst_conv)
    with True show ?thesis by simp
  next
    case False
    then show ?thesis
      using assms(4-6) l by (simp add: wr rd rd0 read_write_little_endian_other)
  qed
qed

lemma load_main_ram_read8:
  assumes "load_main_ram a bytes b = Inr b'" "bus_wf b" "k < length bytes"
  shows "read8 (a + of_nat k) b' = (ok_result (ucast (bytes ! k)), b')"
proof -
  obtain p where p: "guest_to_physical a = Some p" and le: "unat p < main_ram_size"
    "length bytes \<le> main_ram_size - unat p" and
    b': "b' = b\<lparr>main_ram := take (unat p) (main_ram b) @ bytes @ drop (unat p + length bytes) (main_ram b)\<rparr>"
    using assms(1) by (auto simp: load_main_ram_def split: option.splits if_splits)
  have l: "length (main_ram b) = main_ram_size" using assms(2) by (simp add: bus_wf_def)
  have wf: "bus_wf b'" using assms(2) le l by (simp add: b' bus_wf_def)
  have g: "guest_to_physical (a + of_nat k) = Some (p + of_nat k)"
    using p le assms(3) by (intro guest_to_physical_add) simp_all
  have u: "unat (p + of_nat k) = unat p + k"
    using le assms(3) by (simp add: unat_word_ariths unat_of_nat main_ram_size_def)
  have "main_ram b' ! (unat p + k) = bytes ! k"
    using le l assms(3) by (simp add: b' nth_append)
  then show ?thesis
    using ram_accesses(1) [OF wf g] le assms(3) by (simp add: u read_little_endian_def)
qed

lemma load_main_ram_wf: "load_main_ram a bytes b = Inr b' \<Longrightarrow> bus_wf b \<Longrightarrow> bus_wf b'"
  by (auto simp: load_main_ram_def bus_wf_def split: option.splits if_splits)

section \<open>Unsupported accesses\<close>

lemma memory_never_bus_error:
  "bus_status (fst (read_memory a p w b)) \<noteq> bus_error"
  "bus_status (fst (write_memory a p w v b)) \<noteq> bus_error"
  "bus_status (fst (report_unsupported a q w' wr v b)) \<noteq> bus_error"
  by (simp_all add: read_memory_def write_memory_def probe_read_def probe_write_def
      report_unsupported_def ok_result_def Let_def split: option.split)

lemma never_bus_error:
  "bus_status (fst (read8 a b)) \<noteq> bus_error" "bus_status (fst (read16 a b)) \<noteq> bus_error"
  "bus_status (fst (read32 a b)) \<noteq> bus_error" "bus_status (fst (write8 a v8 b)) \<noteq> bus_error"
  "bus_status (fst (write16 a v16 b)) \<noteq> bus_error" "bus_status (fst (write32 a v32 b)) \<noteq> bus_error"
  by (simp_all add: read8_def read16_def read32_def write8_def write16_def write32_def
      memory_never_bus_error Let_def split: option.split) (simp_all add: ok_result_def)

lemma memory_unsupported:
  assumes "(r, b') = read_memory a p w b \<and> wr = False \<and> v = 0 \<or>
           (r, b') = write_memory a p w v b \<and> wr = True"
    "bus_status r = bus_unsupported"
  shows "(r, b') = report_unsupported a (Some p) (of_nat w) wr v b"
  using assms
  by (auto simp: read_memory_def write_memory_def probe_read_def probe_write_def ok_result_def Let_def
      split: option.splits if_splits)

lemma report_unsupported_view:
  "bus_view (snd (report_unsupported a q w wr v b)) = bus_view b"
  by (simp add: report_unsupported_def bus_view_def)

lemma unsupported_write32:
  assumes "bus_status (fst (write32 a v b)) = bus_unsupported"
  shows "write32 a v b = report_unsupported a (guest_to_physical a) 4 True v b"
proof (cases "guest_to_physical a")
  case None then show ?thesis by (simp add: write32_def)
next
  case (Some p)
  have "p \<noteq> kDmaControlAddress" "p \<noteq> kDmaInterruptAddress" "p \<noteq> kTimer1ModeAddress"
    using assms Some by (auto simp: write32_def ok_result_def Let_def split: if_splits)
  then have w: "write32 a v b = write_memory a p 4 v b" by (simp add: write32_def Some)
  then show ?thesis
    using memory_unsupported [of "fst (write32 a v b)" "snd (write32 a v b)" a p 4 b True v] assms Some
    by simp
qed

text \<open>A write that fails leaves the memory image alone: the bus makes the step precise.\<close>

lemma failed_memory_write:
  "bus_status (fst (write_memory a p w v b)) \<noteq> bus_ok \<Longrightarrow> bus_view (snd (write_memory a p w v b)) = bus_view b"
  by (auto simp: write_memory_def probe_write_def report_unsupported_view ok_result_def split: option.splits if_splits)

lemma failed_write:
  "bus_status (fst (write8 a v8 b)) \<noteq> bus_ok \<Longrightarrow> bus_view (snd (write8 a v8 b)) = bus_view b"
  "bus_status (fst (write16 a v16 b)) \<noteq> bus_ok \<Longrightarrow> bus_view (snd (write16 a v16 b)) = bus_view b"
  "bus_status (fst (write32 a v32 b)) \<noteq> bus_ok \<Longrightarrow> bus_view (snd (write32 a v32 b)) = bus_view b"
proof -
  have ok: "bus_status (ok_result x) = bus_ok" for x by (simp add: ok_result_def)
  show "bus_status (fst (write8 a v8 b)) \<noteq> bus_ok \<Longrightarrow> bus_view (snd (write8 a v8 b)) = bus_view b"
    by (cases "guest_to_physical a") (simp_all add: write8_def report_unsupported_view failed_memory_write)
  show "bus_status (fst (write16 a v16 b)) \<noteq> bus_ok \<Longrightarrow> bus_view (snd (write16 a v16 b)) = bus_view b"
    by (cases "guest_to_physical a")
       (simp_all add: write16_def report_unsupported_view failed_memory_write ok split: if_splits)
  show "bus_status (fst (write32 a v32 b)) \<noteq> bus_ok \<Longrightarrow> bus_view (snd (write32 a v32 b)) = bus_view b"
    by (cases "guest_to_physical a")
       (simp_all add: write32_def report_unsupported_view failed_memory_write ok Let_def split: if_splits)
qed

interpretation ps1_precise: r3000a_precise_bus ps1_bus bus_wf bus_view
  by unfold_locales (simp_all add: ps1_bus_def failed_write)

section \<open>The DMA interrupt register\<close>

lemma dma_masks:
  "kDmaInterruptFlagMask = push_bit 24 (mask 7)"
  "kDmaInterruptControlMask = push_bit 15 (mask 9) OR mask 7"
  "kDmaInterruptMasterFlag = push_bit 31 1"
  "kDmaInterruptMasterEnable = push_bit 23 1"
  "kDmaInterruptBusError = push_bit 15 1"
  by (simp_all add: kDmaInterruptFlagMask_def kDmaInterruptControlMask_def kDmaInterruptMasterFlag_def
      kDmaInterruptMasterEnable_def kDmaInterruptBusError_def mask_eq_exp_minus_1)

lemma bit_dma_masks:
  "bit kDmaInterruptFlagMask i \<longleftrightarrow> 24 \<le> i \<and> i \<le> 30"
  "bit kDmaInterruptControlMask i \<longleftrightarrow> i \<le> 6 \<or> 15 \<le> i \<and> i \<le> 23"
  "bit kDmaInterruptMasterFlag i \<longleftrightarrow> i = 31"
  "bit kDmaInterruptMasterEnable i \<longleftrightarrow> i = 23"
  "bit kDmaInterruptBusError i \<longleftrightarrow> i = 15"
  unfolding dma_masks
  by (simp_all only: bit_push_bit_iff bit_1_iff bit_or_iff bit_mask_iff) auto

lemma and_nonzero_iff_bit: "x AND y \<noteq> 0 \<longleftrightarrow> (\<exists>i. bit x i \<and> bit (y :: 'a::len word) i)"
  using bit_eq_iff [of "x AND y" 0] by (auto simp: bit_and_iff dest: bit_imp_le_length)

lemma bit_visible_dma_interrupt:
  "bit (visible_dma_interrupt d) i \<longleftrightarrow>
     (if i = 31 then bit d 15 \<or> bit d 23 \<and> (\<exists>j. 24 \<le> j \<and> j \<le> 30 \<and> bit d j)
      else (i \<le> 6 \<or> 15 \<le> i \<and> i \<le> 30) \<and> bit d i)"
  by (auto simp: visible_dma_interrupt_def Let_def and_nonzero_iff_bit bit_dma_masks bit_and_iff bit_or_iff)

lemma kDma_addresses [simp]:
  "kDmaInterruptAddress \<noteq> kDmaControlAddress" "kDmaControlAddress \<noteq> kDmaInterruptAddress"
  by (simp_all add: kDmaInterruptAddress_def kDmaControlAddress_def)

lemma dma_interrupt_write_read:
  assumes "guest_to_physical a = Some kDmaInterruptAddress"
    "guest_to_physical a' = Some kDmaInterruptAddress"
  shows "bit (bus_value (fst (read32 a' (snd (write32 a v b))))) i \<longleftrightarrow>
    (if i = 31
     then bit v 15 \<or> bit v 23 \<and> (\<exists>j. 24 \<le> j \<and> j \<le> 30 \<and> bit (dma_interrupt b) j \<and> \<not> bit v j)
     else if 24 \<le> i then bit (dma_interrupt b) i \<and> \<not> bit v i
     else (i \<le> 6 \<or> 15 \<le> i) \<and> bit v i)"
proof -
  let ?d = "(v AND kDmaInterruptControlMask) OR
    ((dma_interrupt b AND kDmaInterruptFlagMask) AND NOT (v AND kDmaInterruptFlagMask))"
  have r: "bus_value (fst (read32 a' (snd (write32 a v b)))) = visible_dma_interrupt ?d"
    using assms by (simp add: read32_def write32_def Let_def ok_result_def)
  have d: "bit ?d j \<longleftrightarrow> (j \<le> 6 \<or> 15 \<le> j \<and> j \<le> 23) \<and> bit v j \<or>
    24 \<le> j \<and> j \<le> 30 \<and> bit (dma_interrupt b) j \<and> \<not> bit v j" for j
    by (auto simp: bit_and_iff bit_or_iff bit_not_iff bit_dma_masks)
  have "bit (dma_interrupt b) i \<Longrightarrow> i < 32" by (auto dest: bit_imp_le_length)
  then show ?thesis unfolding r bit_visible_dma_interrupt d by auto
qed

text \<open>
  No device sets a flag: from the power-on bus every access keeps the pending DMA flags and the
  interrupt status register at zero.
\<close>

definition no_device_interrupt :: "Ps1MemoryBus \<Rightarrow> bool" where
  "no_device_interrupt b \<longleftrightarrow> interrupt_status b = 0 \<and> dma_interrupt b AND kDmaInterruptFlagMask = 0"

lemma no_device_interrupt_initial: "no_device_interrupt initial_bus"
  by (simp add: no_device_interrupt_def initial_bus_def)

lemma no_device_interrupt_fields:
  "interrupt_status b' = interrupt_status b \<Longrightarrow> dma_interrupt b' = dma_interrupt b \<Longrightarrow>
    no_device_interrupt b' = no_device_interrupt b"
  by (simp add: no_device_interrupt_def)

lemma memory_registers:
  "interrupt_status (snd (read_memory a p w b)) = interrupt_status b"
  "dma_interrupt (snd (read_memory a p w b)) = dma_interrupt b"
  "interrupt_status (snd (write_memory a p w v b)) = interrupt_status b"
  "dma_interrupt (snd (write_memory a p w v b)) = dma_interrupt b"
  "interrupt_status (snd (report_unsupported a q w' wr v b)) = interrupt_status b"
  "dma_interrupt (snd (report_unsupported a q w' wr v b)) = dma_interrupt b"
proof -
  have r: "interrupt_status (write_region r w v b) = interrupt_status b \<and>
    dma_interrupt (write_region r w v b) = dma_interrupt b" for r
    by (cases r) simp_all
  show "interrupt_status (snd (read_memory a p w b)) = interrupt_status b"
    "dma_interrupt (snd (read_memory a p w b)) = dma_interrupt b"
    "interrupt_status (snd (write_memory a p w v b)) = interrupt_status b"
    "dma_interrupt (snd (write_memory a p w v b)) = dma_interrupt b"
    "interrupt_status (snd (report_unsupported a q w' wr v b)) = interrupt_status b"
    "dma_interrupt (snd (report_unsupported a q w' wr v b)) = dma_interrupt b"
    by (simp_all add: read_memory_def write_memory_def probe_read_def probe_write_def
        report_unsupported_def Let_def r split: option.split)
qed

lemma read_no_device_interrupt:
  "no_device_interrupt (snd (read8 a b)) = no_device_interrupt b"
  "no_device_interrupt (snd (read16 a b)) = no_device_interrupt b"
  "no_device_interrupt (snd (read32 a b)) = no_device_interrupt b"
  by (simp_all add: read8_def read16_def read32_def no_device_interrupt_def memory_registers
      split: option.split)

lemma dma_flags_stay_clear:
  assumes "d AND kDmaInterruptFlagMask = 0"
  shows "((v AND kDmaInterruptControlMask) OR
    ((d AND kDmaInterruptFlagMask) AND NOT (v AND kDmaInterruptFlagMask))) AND kDmaInterruptFlagMask = 0"
  unfolding assms
  by (intro bit_eqI) (auto simp: bit_and_iff bit_or_iff bit_dma_masks)

lemma write_no_device_interrupt:
  assumes "no_device_interrupt b"
  shows "no_device_interrupt (snd (write8 a v8 b))"
    "no_device_interrupt (snd (write16 a v16 b))"
    "no_device_interrupt (snd (write32 a v32 b))"
proof -
  have b: "interrupt_status b = 0" "dma_interrupt b AND kDmaInterruptFlagMask = 0"
    using assms by (simp_all add: no_device_interrupt_def)
  show "no_device_interrupt (snd (write8 a v8 b))"
    by (simp add: write8_def no_device_interrupt_def memory_registers b split: option.split)
  show "no_device_interrupt (snd (write16 a v16 b))"
    by (simp add: write16_def no_device_interrupt_def memory_registers b split: option.split)
  show "no_device_interrupt (snd (write32 a v32 b))"
    using dma_flags_stay_clear [OF b(2), of v32]
    by (simp add: write32_def no_device_interrupt_def memory_registers b Let_def split: option.split)
qed

interpretation quiet: r3000a_bus_contract ps1_bus "\<lambda>b. bus_wf b \<and> no_device_interrupt b" bus_view
  by unfold_locales
     (simp_all add: ps1_bus_def bus_reads_wf bus_writes_wf bus_reads_view
       read_no_device_interrupt write_no_device_interrupt)

end
