(* ===== verification/Ps1_Loader.thy ===== *)
theory Ps1_Loader
  imports Ps1_Bus
begin

text \<open>
  From the bytes of a PS-X EXE to a machine ready to run: the header parser
  (\<^verbatim>\<open>src/src/core/ps1_exe.cpp\<close>), the copy of the payload into main RAM
  (\<^verbatim>\<open>ps1_executable_loader.cpp\<close>) and the initial registers
  (\<open>initialize_r3000a_for_psx_exe\<close> of \<^verbatim>\<open>r3000a_reference_executor.cpp\<close>).
\<close>

unbundle bit_operations_syntax

section \<open>The header\<close>

record Ps1ExeMetadata =
  entry_pc :: u32
  initial_gp :: u32
  text_load_address :: u32
  text_size :: u32
  stack_base :: u32
  stack_size :: u32
  fnv1a64 :: string

record Ps1Executable =
  metadata :: Ps1ExeMetadata
  file_bytes :: "u8 list"

definition kHeaderSize :: nat where "kHeaderSize = 0x800"

definition read_le32 :: "u8 list \<Rightarrow> nat \<Rightarrow> u32" where
  "read_le32 bytes offset =
     ((ucast (bytes ! offset) OR push_bit 8 (ucast (bytes ! (offset + 1)))) OR
      push_bit 16 (ucast (bytes ! (offset + 2)))) OR push_bit 24 (ucast (bytes ! (offset + 3)))"

definition hex_digit :: "nat \<Rightarrow> char" where
  "hex_digit n = ''0123456789abcdef'' ! n"

text \<open>\<open>std::hex\<close> padded with zeroes to 16 digits: the 16 nibbles, most significant first.\<close>

definition hex16 :: "u64 \<Rightarrow> string" where
  "hex16 h = map (\<lambda>k. hex_digit (unat (drop_bit (4 * k) h AND 15))) (rev [0..<16])"

definition fnv1a64_hex :: "u8 list \<Rightarrow> string" where
  "fnv1a64_hex bytes = hex16 (hash_bytes fnv_offset bytes)"

definition psx_signature :: "u8 list" where
  "psx_signature = map of_char ''PS-X EXE''"

definition invalid_exe :: "string \<Rightarrow> Ps1Executable result" where
  "invalid_exe detail = failure unsupported_format detail"

definition parse_ps1_executable :: "u8 list \<Rightarrow> Ps1Executable result" where
  "parse_ps1_executable bytes =
    (if length bytes < kHeaderSize
     then invalid_exe ''PS-X EXE file is smaller than the 0x800-byte header''
     else if take 8 bytes \<noteq> psx_signature
     then invalid_exe ''PS-X EXE signature is missing''
     else
       let m = \<lparr>entry_pc = read_le32 bytes 0x010, initial_gp = read_le32 bytes 0x014,
                text_load_address = read_le32 bytes 0x018, text_size = read_le32 bytes 0x01C,
                stack_base = read_le32 bytes 0x030, stack_size = read_le32 bytes 0x034,
                fnv1a64 = ''''\<rparr>
       in if entry_pc m AND 3 \<noteq> 0
          then invalid_exe ''PS-X EXE entry PC is not 4-byte aligned''
          else if text_load_address m AND 3 \<noteq> 0
          then invalid_exe ''PS-X EXE text load address is not 4-byte aligned''
          else if text_size m AND 3 \<noteq> 0
          then invalid_exe ''PS-X EXE text size is not 4-byte aligned''
          else if unat (text_size m) > length bytes - kHeaderSize
          then invalid_exe ''PS-X EXE text size exceeds the available payload''
          else success \<lparr>metadata = m\<lparr>fnv1a64 := fnv1a64_hex bytes\<rparr>, file_bytes = bytes\<rparr>)"

section \<open>The loader\<close>

definition initialize_r3000a_for_psx_exe :: "Ps1ExeMetadata \<Rightarrow> R3000aState" where
  "initialize_r3000a_for_psx_exe m =
    (let s = initial_state;
         s = s\<lparr>pc := entry_pc m\<rparr>;
         s = s\<lparr>next_pc := entry_pc m + 4\<rparr>;
         s = s\<lparr>gpr := (gpr s)[28 := initial_gp m]\<rparr>;
         s = (if stack_base m \<noteq> 0 \<or> stack_size m \<noteq> 0
              then s\<lparr>gpr := (gpr s)[29 := stack_base m + stack_size m]\<rparr> else s)
     in s\<lparr>gpr := (gpr s)[0 := 0]\<rparr>)"

definition load_ps1_executable_into_bus ::
  "Ps1MemoryBus \<Rightarrow> Ps1Executable \<Rightarrow> (R3000aState \<times> Ps1MemoryBus) result" where
  "load_ps1_executable_into_bus b exe =
    (let header_size = 0x800; size = unat (text_size (metadata exe))
     in if length (file_bytes exe) < header_size \<or> size > length (file_bytes exe) - header_size
        then failure invalid_installation ''validated PS-X EXE payload is truncated''
        else if text_size (metadata exe) \<noteq> 0 \<and>
                text_load_address (metadata exe) > 0xFFFFFFFF - (text_size (metadata exe) - 1)
        then failure invalid_installation
               ''PS-X EXE guest payload range wraps 32-bit address space''
        else case load_main_ram (text_load_address (metadata exe))
                    (take size (drop header_size (file_bytes exe))) b of
               Inl e \<Rightarrow> Inl e
             | Inr b' \<Rightarrow> success (initialize_r3000a_for_psx_exe (metadata exe), b'))"

section \<open>Correctness\<close>

lemma initialize_wf: "cpu_wf (initialize_r3000a_for_psx_exe m)"
  by (simp add: initialize_r3000a_for_psx_exe_def cpu_wf_def initial_state_def Let_def)

lemma initialize_pc_wf: "pc_wf (initialize_r3000a_for_psx_exe m)"
  by (simp add: initialize_r3000a_for_psx_exe_def pc_wf_def initial_state_def Let_def no_slot_def)

lemma initialize_registers:
  "pc (initialize_r3000a_for_psx_exe m) = entry_pc m"
  "gpr (initialize_r3000a_for_psx_exe m) ! 28 = initial_gp m"
  "gpr (initialize_r3000a_for_psx_exe m) ! 29 = stack_base m + stack_size m"
  "i < 32 \<Longrightarrow> i \<noteq> 28 \<Longrightarrow> i \<noteq> 29 \<Longrightarrow> gpr (initialize_r3000a_for_psx_exe m) ! i = 0"
  by (auto simp: initialize_r3000a_for_psx_exe_def initial_state_def Let_def nth_list_update)

lemma length_hex16 [simp]: "length (hex16 h) = 16"
  by (simp add: hex16_def)

text \<open>What a parsed executable satisfies.\<close>

definition exe_wf :: "Ps1Executable \<Rightarrow> bool" where
  "exe_wf exe \<longleftrightarrow>
     kHeaderSize + unat (text_size (metadata exe)) \<le> length (file_bytes exe) \<and>
     entry_pc (metadata exe) AND 3 = 0 \<and> text_load_address (metadata exe) AND 3 = 0 \<and>
     text_size (metadata exe) AND 3 = 0"

lemma parse_ps1_executable_wf:
  assumes "parse_ps1_executable bytes = Inr exe"
  shows "exe_wf exe \<and> file_bytes exe = bytes \<and> take 8 bytes = psx_signature"
proof -
  have h: "\<not> length bytes < kHeaderSize" "take 8 bytes = psx_signature"
    using assms by (auto simp: parse_ps1_executable_def invalid_exe_def split: if_splits)
  then show ?thesis using assms
    by (auto simp: parse_ps1_executable_def exe_wf_def invalid_exe_def Let_def split: if_splits)
qed

lemma load_executable_cases:
  assumes "load_ps1_executable_into_bus b exe = Inr (cpu, b')"
  shows "load_main_ram (text_load_address (metadata exe))
      (take (unat (text_size (metadata exe))) (drop 0x800 (file_bytes exe))) b = Inr b' \<and>
    cpu = initialize_r3000a_for_psx_exe (metadata exe) \<and>
    0x800 + unat (text_size (metadata exe)) \<le> length (file_bytes exe)"
  using assms
  by (auto simp: load_ps1_executable_into_bus_def Let_def split: if_splits sum.splits)

lemma load_executable_wf:
  assumes "load_ps1_executable_into_bus b exe = Inr (cpu, b')" "bus_wf b"
  shows "cpu_wf cpu \<and> pc_wf cpu \<and> bus_wf b'"
  using load_executable_cases [OF assms(1)] assms(2) load_main_ram_wf initialize_wf initialize_pc_wf
  by blast

lemma load_executable_read8:
  assumes "load_ps1_executable_into_bus b exe = Inr (cpu, b')" "bus_wf b"
    "k < unat (text_size (metadata exe))"
  shows "read8 (text_load_address (metadata exe) + of_nat k) b' =
    (ok_result (ucast (file_bytes exe ! (0x800 + k))), b')"
proof -
  let ?bs = "take (unat (text_size (metadata exe))) (drop 0x800 (file_bytes exe))"
  note l = load_executable_cases [OF assms(1)]
  have k: "k < length ?bs" "?bs ! k = file_bytes exe ! (0x800 + k)"
    using l assms(3) by (simp_all, linarith)
  have "read8 (text_load_address (metadata exe) + of_nat k) b' = (ok_result (ucast (?bs ! k)), b')"
    by (rule load_main_ram_read8) (use l assms(2) k(1) in auto)
  then show ?thesis by (simp only: k(2))
qed

end
