(* ===== verification/Ps1_Bios.thy ===== *)
theory Ps1_Bios
  imports R3000a_State
begin

text \<open>
  The high-level emulation of the six BIOS calls the boot code makes
  (\<^verbatim>\<open>src/src/core/ps1_hle_bios.h\<close>, \<^verbatim>\<open>ps1_hle_bios.cpp\<close>): a
  dispatcher over the table address and the selector that updates its own state, possibly
  \<open>v0\<close>, and returns to \<open>ra\<close>.  A C++ reference parameter is a component of
  the result.
\<close>

unbundle bit_operations_syntax

section \<open>State\<close>

datatype Ps1HleBiosDispatchStatus = bios_handled | bios_unimplemented

record Ps1BiosHeapState =
  heap_base :: u32
  heap_size :: u32

record Ps1HleBios =
  heap_state :: "Ps1BiosHeapState option"
  interrupt_hook_address :: "u32 option"
  pad_card_auto_ack_enabled :: "bool option"
  root_counter_auto_ack :: "bool option list"
  iso9660_removed :: bool

definition initial_bios :: Ps1HleBios where
  "initial_bios = \<lparr>heap_state = None, interrupt_hook_address = None,
     pad_card_auto_ack_enabled = None, root_counter_auto_ack = replicate 4 None,
     iso9660_removed = False\<rparr>"

definition kBiosA0 :: u32 where "kBiosA0 = 0xA0"
definition kBiosB0 :: u32 where "kBiosB0 = 0xB0"
definition kBiosC0 :: u32 where "kBiosC0 = 0xC0"
definition kA0InitHeap :: u32 where "kA0InitHeap = 0x39"
definition kA0RemoveIso9660 :: u32 where "kA0RemoveIso9660 = 0x56"
definition kA0RemoveIso9660Alias :: u32 where "kA0RemoveIso9660Alias = 0x72"
definition kB0HookEntryInt :: u32 where "kB0HookEntryInt = 0x19"
definition kB0ChangeClearPad :: u32 where "kB0ChangeClearPad = 0x5B"
definition kC0ChangeClearRCnt :: u32 where "kC0ChangeClearRCnt = 0x0A"

lemmas bios_constants =
  kBiosA0_def kBiosB0_def kBiosC0_def kA0InitHeap_def kA0RemoveIso9660_def
  kA0RemoveIso9660Alias_def kB0HookEntryInt_def kB0ChangeClearPad_def kC0ChangeClearRCnt_def

section \<open>Dispatch\<close>

definition return_from_bios_call :: "R3000aState \<Rightarrow> R3000aState" where
  "return_from_bios_call cpu =
    (let cpu = cpu\<lparr>pc := gpr cpu ! 31\<rparr>;
         cpu = cpu\<lparr>next_pc := pc cpu + 4\<rparr>;
         cpu = cpu\<lparr>delay_slot := no_slot\<rparr>
     in cpu\<lparr>gpr := (gpr cpu)[0 := 0]\<rparr>)"

definition dispatch ::
  "Ps1HleBios \<Rightarrow> R3000aState \<Rightarrow> u32 \<Rightarrow> u32 \<Rightarrow>
    Ps1HleBiosDispatchStatus \<times> Ps1HleBios \<times> R3000aState" where
  "dispatch bios cpu table_physical selector =
    (if table_physical = kBiosA0 \<and> selector = kA0InitHeap
     then (bios_handled,
           bios\<lparr>heap_state := Some \<lparr>heap_base = gpr cpu ! 4, heap_size = gpr cpu ! 5\<rparr>\<rparr>,
           return_from_bios_call cpu)
     else if table_physical = kBiosA0 \<and>
             (selector = kA0RemoveIso9660 \<or> selector = kA0RemoveIso9660Alias)
     then (bios_handled, bios\<lparr>iso9660_removed := True\<rparr>, return_from_bios_call cpu)
     else if table_physical = kBiosB0 \<and> selector = kB0HookEntryInt
     then (bios_handled, bios\<lparr>interrupt_hook_address := Some (gpr cpu ! 4)\<rparr>,
           return_from_bios_call cpu)
     else if table_physical = kBiosB0 \<and> selector = kB0ChangeClearPad
     then (bios_handled, bios\<lparr>pad_card_auto_ack_enabled := Some (gpr cpu ! 4 \<noteq> 0)\<rparr>,
           return_from_bios_call cpu)
     else if table_physical = kBiosC0 \<and> selector = kC0ChangeClearRCnt
     then if unat (gpr cpu ! 4) \<ge> length (root_counter_auto_ack bios)
          then (bios_unimplemented, bios, cpu)
          else let index = unat (gpr cpu ! 4);
                   previous = (case root_counter_auto_ack bios ! index of
                                 None \<Rightarrow> False | Some b \<Rightarrow> b);
                   bios = bios\<lparr>root_counter_auto_ack :=
                            (root_counter_auto_ack bios)[index := Some (gpr cpu ! 5 \<noteq> 0)]\<rparr>;
                   cpu = cpu\<lparr>gpr := (gpr cpu)[2 := (if previous then 1 else 0)]\<rparr>
               in (bios_handled, bios, return_from_bios_call cpu)
     else (bios_unimplemented, bios, cpu))"

definition root_counter_auto_ack_enabled :: "Ps1HleBios \<Rightarrow> u32 \<Rightarrow> bool option" where
  "root_counter_auto_ack_enabled bios counter =
    (if unat counter \<ge> length (root_counter_auto_ack bios) then None
     else root_counter_auto_ack bios ! unat counter)"

section \<open>Diagnostic hash\<close>

definition hash_bool :: "u64 \<Rightarrow> bool \<Rightarrow> u64" where
  "hash_bool h v = hash_byte h (if v then 1 else 0)"

definition bios_hash_u32 :: "u64 \<Rightarrow> u32 \<Rightarrow> u64" where
  "bios_hash_u32 h v = hash_bytes h (le_bytes 4 v)"

definition hash_optional_u32 :: "u64 \<Rightarrow> u32 option \<Rightarrow> u64" where
  "hash_optional_u32 h v =
    (let h = hash_bool h (v \<noteq> None)
     in case v of None \<Rightarrow> h | Some x \<Rightarrow> bios_hash_u32 h x)"

definition hash_optional_bool :: "u64 \<Rightarrow> bool option \<Rightarrow> u64" where
  "hash_optional_bool h v =
    (let h = hash_bool h (v \<noteq> None)
     in case v of None \<Rightarrow> h | Some x \<Rightarrow> hash_bool h x)"

definition bios_diagnostic_state_hash :: "Ps1HleBios \<Rightarrow> u64" where
  "bios_diagnostic_state_hash bios =
    (let h = hash_bool fnv_offset (heap_state bios \<noteq> None);
         h = (case heap_state bios of None \<Rightarrow> h
              | Some hs \<Rightarrow> bios_hash_u32 (bios_hash_u32 h (heap_base hs)) (heap_size hs));
         h = hash_optional_u32 h (interrupt_hook_address bios);
         h = hash_optional_bool h (pad_card_auto_ack_enabled bios);
         h = fold (\<lambda>st h. hash_optional_bool h st) (root_counter_auto_ack bios) h
     in hash_bool h (iso9660_removed bios))"

section \<open>Correctness\<close>

definition bios_wf :: "Ps1HleBios \<Rightarrow> bool" where
  "bios_wf bios \<longleftrightarrow> length (root_counter_auto_ack bios) = 4"

lemma bios_wf_initial: "bios_wf initial_bios"
  by (simp add: bios_wf_def initial_bios_def)

lemma return_from_bios_call_simps [simp]:
  "pc (return_from_bios_call cpu) = gpr cpu ! 31"
  "next_pc (return_from_bios_call cpu) = gpr cpu ! 31 + 4"
  "delay_slot (return_from_bios_call cpu) = no_slot"
  "gpr (return_from_bios_call cpu) = (gpr cpu)[0 := 0]"
  "pending_load (return_from_bios_call cpu) = pending_load cpu"
  "hi (return_from_bios_call cpu) = hi cpu" "lo (return_from_bios_call cpu) = lo cpu"
  "cop0 (return_from_bios_call cpu) = cop0 cpu"
  by (simp_all add: return_from_bios_call_def)

lemma return_from_bios_call_wf [wf_intros]:
  "cpu_wf cpu \<Longrightarrow> cpu_wf (return_from_bios_call cpu)"
  by (simp add: cpu_wf_def)

lemma return_from_bios_call_pc_wf: "pc_wf (return_from_bios_call cpu)"
  by (simp add: pc_wf_def)

text \<open>The result of a dispatch: either nothing changed, or the call returned to \<open>ra\<close>.\<close>

lemma dispatch_unimplemented:
  "dispatch bios cpu t sel = (bios_unimplemented, bios', cpu') \<Longrightarrow> bios' = bios \<and> cpu' = cpu"
  by (auto simp: dispatch_def Let_def split: if_splits)

lemma dispatch_handled:
  assumes "dispatch bios cpu t sel = (bios_handled, bios', cpu')"
  shows "\<exists>v. cpu' = return_from_bios_call (cpu\<lparr>gpr := (gpr cpu)[2 := v]\<rparr>) \<or>
             cpu' = return_from_bios_call cpu"
  using assms by (auto simp: dispatch_def Let_def split: if_splits)

lemma dispatch_bios_wf:
  "dispatch bios cpu t sel = (st, bios', cpu') \<Longrightarrow> bios_wf bios \<Longrightarrow> bios_wf bios'"
  by (auto simp: dispatch_def bios_wf_def Let_def split: if_splits)

lemma dispatch_cpu_wf:
  assumes "dispatch bios cpu t sel = (st, bios', cpu')" "cpu_wf cpu"
  shows "cpu_wf cpu'"
proof (cases st)
  case bios_handled
  with assms(1) obtain v where "cpu' = return_from_bios_call (cpu\<lparr>gpr := (gpr cpu)[2 := v]\<rparr>) \<or>
      cpu' = return_from_bios_call cpu"
    using dispatch_handled by blast
  moreover have "cpu_wf (cpu\<lparr>gpr := (gpr cpu)[2 := v]\<rparr>)"
    using assms(2) by (simp add: cpu_wf_def)
  ultimately show ?thesis using assms(2) return_from_bios_call_wf by metis
next
  case bios_unimplemented
  with assms show ?thesis using dispatch_unimplemented by metis
qed

lemma dispatch_pc_wf:
  "dispatch bios cpu t sel = (bios_handled, bios', cpu') \<Longrightarrow> pc_wf cpu'"
  using dispatch_handled return_from_bios_call_pc_wf by metis

text \<open>
  \<open>ChangeClearRCnt\<close> behaves as the documented exchange: it stores the new flag of one
  root counter, returns the previous one in \<open>v0\<close> and touches no other counter.
\<close>

lemma change_clear_rcnt_exchange:
  assumes "cpu_wf cpu" "bios_wf bios" "unat (gpr cpu ! 4) < 4"
    "dispatch bios cpu kBiosC0 kC0ChangeClearRCnt = (st, bios', cpu')"
  shows "st = bios_handled \<and>
    gpr cpu' ! 2 = (if root_counter_auto_ack_enabled bios (gpr cpu ! 4) = Some True then 1 else 0) \<and>
    (\<forall>c. root_counter_auto_ack_enabled bios' c =
       (if c = gpr cpu ! 4 then Some (gpr cpu ! 5 \<noteq> 0) else root_counter_auto_ack_enabled bios c))"
proof -
  have l: "length (root_counter_auto_ack bios) = 4" "length (gpr cpu) = 32"
    using assms(1,2) by (simp_all add: bios_wf_def cpu_wf_def)
  have eq: "(st, bios', cpu') = (bios_handled,
      bios\<lparr>root_counter_auto_ack := (root_counter_auto_ack bios)[unat (gpr cpu ! 4) := Some (gpr cpu ! 5 \<noteq> 0)]\<rparr>,
      return_from_bios_call (cpu\<lparr>gpr := (gpr cpu)[2 :=
        (if root_counter_auto_ack bios ! unat (gpr cpu ! 4) = Some True then 1 else 0)]\<rparr>))"
    using assms(3,4) l
    by (cases "root_counter_auto_ack bios ! unat (gpr cpu ! 4)")
       (auto simp add: dispatch_def Let_def kBiosA0_def kBiosB0_def kBiosC0_def)
  have other: "c \<noteq> gpr cpu ! 4 \<Longrightarrow> unat (gpr cpu ! 4) \<noteq> unat c" for c :: u32
    by (metis word_unat_eq_iff)
  show ?thesis
    using eq l assms(3) other by (auto simp: root_counter_auto_ack_enabled_def nth_list_update_neq [OF other])
qed

end
