(* ===== verification/Ps1_Runtime.thy ===== *)
theory Ps1_Runtime
  imports Ps1_Loader Ps1_Bios
begin

text \<open>
  The boot runtime: the machine (processor, bus, emulated BIOS) and the loop that runs it
  until a budget is spent or something unimplemented is reached
  (\<^verbatim>\<open>src/src/core/ps1_boot_report.h\<close>, \<^verbatim>\<open>ps1_boot_runtime.h\<close>,
  \<^verbatim>\<open>ps1_boot_runtime.cpp\<close>).  One iteration of the loop is a total function; the
  loop itself may run forever, so it is a \<open>partial_function\<close> whose value None is a run
  that does not return.
\<close>

unbundle bit_operations_syntax

section \<open>The boot report\<close>

datatype Ps1BootStopReason =
    stop_none
  | execution_budget_exhausted
  | cpu_boundary
  | bios_call_unimplemented
  | bios_call_unknown
  | mmio_unimplemented
  | installed_media_missing
  | device_command_unimplemented
  | gpu_command_unimplemented
  | commercial_frame_presented
  | fatal_runtime_error
  | diagnostic_stall

record Ps1BiosCallSummary =
  call_pc :: u32
  call_table :: u32
  call_selector :: u32
  call_a0 :: u32
  call_a1 :: u32
  call_a2 :: u32
  call_a3 :: u32
  call_ra :: u32

record Ps1MmioSummary =
  mmio_pc :: u32
  mmio_address :: u32
  mmio_width :: u8
  mmio_write :: bool
  mmio_value :: u32
  mmio_speculative :: bool

record Ps1CdromCommandSummary =
  cd_command :: u8
  cd_index :: u8
  cd_status :: u8

record Ps1TraceSample =
  trace_pc :: u32
  trace_opcode :: "u32 option"

record Ps1BootReport =
  instructions_retired :: u64
  last_pc :: u32
  last_opcode :: "u32 option"
  stop_reason :: Ps1BootStopReason
  diagnostic_probe_mode :: bool
  speculative_mmio_count :: u64
  bios_call_count :: u64
  recent_bios_calls :: "Ps1BiosCallSummary list"
  recent_mmio :: "Ps1MmioSummary list"
  interrupts_accepted :: u64
  dma_transfer_count :: u64
  recent_cdrom_commands :: "Ps1CdromCommandSummary list"
  gpu_gp0_command_count :: u64
  gpu_gp1_command_count :: u64
  vram_write_count :: u64
  presented_frames :: u64
  recent_trace :: "Ps1TraceSample list"
  cpu_diagnostic :: "R3000aDiagnostic option"
  unsupported_access :: "Ps1UnsupportedAccess option"

definition empty_report :: Ps1BootReport where
  "empty_report = \<lparr>instructions_retired = 0, last_pc = 0, last_opcode = None,
     stop_reason = stop_none, diagnostic_probe_mode = False, speculative_mmio_count = 0,
     bios_call_count = 0, recent_bios_calls = [], recent_mmio = [], interrupts_accepted = 0,
     dma_transfer_count = 0, recent_cdrom_commands = [], gpu_gp0_command_count = 0,
     gpu_gp1_command_count = 0, vram_write_count = 0, presented_frames = 0, recent_trace = [],
     cpu_diagnostic = None, unsupported_access = None\<rparr>"

record Ps1BootOptions =
  instruction_budget :: u64
  trace_capacity :: nat
  diagnostic_mmio_probe :: bool
  mmio_event_capacity :: nat
  bios_event_capacity :: nat
  stagnation_instruction_limit :: u64

definition default_boot_options :: Ps1BootOptions where
  "default_boot_options = \<lparr>instruction_budget = 10000, trace_capacity = 16,
     diagnostic_mmio_probe = False, mmio_event_capacity = 16, bios_event_capacity = 16,
     stagnation_instruction_limit = 0\<rparr>"

definition ps1_local_evidence_options :: Ps1BootOptions where
  "ps1_local_evidence_options = \<lparr>instruction_budget = 0xFFFFFFFFFFFFFFFF, trace_capacity = 4096,
     diagnostic_mmio_probe = True, mmio_event_capacity = 8192, bios_event_capacity = 4096,
     stagnation_instruction_limit = 0\<rparr>"

section \<open>The runtime\<close>

datatype Ps1BiosFallback = return_zero | return_one | return_minus_one | preserve_v0

record Ps1BootRuntime =
  rt_bus :: Ps1MemoryBus
  rt_cpu :: R3000aState
  rt_bios :: Ps1HleBios
  diagnostic_bios_frontier_pending :: bool

definition is_bios_table :: "u32 \<Rightarrow> bool" where
  "is_bios_table physical \<longleftrightarrow> physical = kBiosA0 \<or> physical = kBiosB0 \<or> physical = kBiosC0"

definition is_initial_mmio_window :: "u32 \<Rightarrow> bool" where
  "is_initial_mmio_window physical \<longleftrightarrow> physical \<ge> 0x1F801000 \<and> physical < 0x1F803000"

definition bios_dependency_key :: "u32 \<Rightarrow> u32 \<Rightarrow> u64" where
  "bios_dependency_key tbl selector = push_bit 32 (ucast tbl) OR ucast selector"

definition mmio_dependency_key :: "Ps1UnsupportedAccess \<Rightarrow> u64" where
  "mmio_dependency_key access =
    (push_bit 16 (ucast (physical_address access)) OR push_bit 8 (ucast (width access))) OR
    (if is_write access then 1 else 0)"

definition record_recent_trace ::
  "Ps1BootReport \<Rightarrow> u32 \<Rightarrow> u32 option \<Rightarrow> nat \<Rightarrow> Ps1BootReport" where
  "record_recent_trace report p opcode capacity =
    report\<lparr>recent_trace := push_recent capacity \<lparr>trace_pc = p, trace_opcode = opcode\<rparr> (recent_trace report)\<rparr>"

definition record_recent_bios ::
  "Ps1BootReport \<Rightarrow> Ps1BiosCallSummary \<Rightarrow> nat \<Rightarrow> Ps1BootReport" where
  "record_recent_bios report event capacity =
    report\<lparr>recent_bios_calls := push_recent capacity event (recent_bios_calls report)\<rparr>"

definition record_recent_mmio ::
  "Ps1BootReport \<Rightarrow> Ps1MmioSummary \<Rightarrow> nat \<Rightarrow> Ps1BootReport" where
  "record_recent_mmio report event capacity =
    report\<lparr>recent_mmio := push_recent capacity event (recent_mmio report)\<rparr>"

definition boot_create :: "Ps1Executable \<Rightarrow> Ps1BootRuntime result" where
  "boot_create executable =
    (let runtime = \<lparr>rt_bus = initial_bus, rt_cpu = initial_state, rt_bios = initial_bios,
                    diagnostic_bios_frontier_pending = False\<rparr>
     in case load_ps1_executable_into_bus (rt_bus runtime) executable of
          Inl e \<Rightarrow> Inl e
        | Inr (cpu, bus') \<Rightarrow> success (runtime\<lparr>rt_cpu := cpu, rt_bus := bus'\<rparr>))"

section \<open>The loop\<close>

text \<open>The local variables of \<open>run\<close> with the machine they act on.\<close>

record boot_loop =
  machine :: Ps1BootRuntime
  report :: Ps1BootReport
  instructions_since_progress :: u64
  observed_bios_dependencies :: "u64 set"
  observed_mmio_dependencies :: "u64 set"

datatype boot_flow = Continue (flow_loop: boot_loop) | Return (flow_loop: boot_loop)

text \<open>Reaching a BIOS table: note the dependency, count and record the call.\<close>

definition note_bios_call :: "Ps1BootOptions \<Rightarrow> u32 \<Rightarrow> boot_loop \<Rightarrow> boot_loop" where
  "note_bios_call options physical_pc st =
    (let cpu = rt_cpu (machine st);
         key = bios_dependency_key physical_pc (gpr cpu ! 9);
         since = (if key \<notin> observed_bios_dependencies st then 0 else instructions_since_progress st);
         event = \<lparr>call_pc = pc cpu, call_table = physical_pc, call_selector = gpr cpu ! 9,
                  call_a0 = gpr cpu ! 4, call_a1 = gpr cpu ! 5, call_a2 = gpr cpu ! 6,
                  call_a3 = gpr cpu ! 7, call_ra = gpr cpu ! 31\<rparr>;
         rep = (report st)\<lparr>bios_call_count := bios_call_count (report st) + 1\<rparr>
     in st\<lparr>instructions_since_progress := since,
           observed_bios_dependencies := insert key (observed_bios_dependencies st),
           report := record_recent_bios rep event (bios_event_capacity options)\<rparr>)"

definition bios_iteration :: "Ps1BootOptions \<Rightarrow> u32 \<Rightarrow> boot_loop \<Rightarrow> boot_flow" where
  "bios_iteration options physical_pc st =
    (let st = note_bios_call options physical_pc st;
         m = machine st;
         (bios_status, bios', cpu') = dispatch (rt_bios m) (rt_cpu m) physical_pc (gpr (rt_cpu m) ! 9);
         m = m\<lparr>rt_bios := bios', rt_cpu := cpu'\<rparr>
     in if bios_status = bios_handled
        then Continue (st\<lparr>machine := m\<lparr>diagnostic_bios_frontier_pending := False\<rparr>\<rparr>)
        else Return (st\<lparr>machine := m\<lparr>diagnostic_bios_frontier_pending := True\<rparr>,
                        report := (report st)\<lparr>stop_reason := bios_call_unimplemented\<rparr>\<rparr>))"

text \<open>After a retired instruction: count it, note a diagnostic access, test for a stall.\<close>

definition note_probe :: "Ps1BootOptions \<Rightarrow> Ps1UnsupportedAccess \<Rightarrow> boot_loop \<Rightarrow> boot_loop" where
  "note_probe options probe st =
    (let st = st\<lparr>report := (report st)\<lparr>speculative_mmio_count := speculative_mmio_count (report st) + 1\<rparr>\<rparr>;
         st = st\<lparr>report := record_recent_mmio (report st)
                \<lparr>mmio_pc = last_pc (report st), mmio_address = guest_address probe,
                 mmio_width = width probe, mmio_write = is_write probe,
                 mmio_value = access_value probe, mmio_speculative = True\<rparr>
                (mmio_event_capacity options)\<rparr>;
         key = mmio_dependency_key probe;
         st = (if key \<notin> observed_mmio_dependencies st
               then st\<lparr>instructions_since_progress := 0\<rparr> else st)
     in st\<lparr>observed_mmio_dependencies := insert key (observed_mmio_dependencies st)\<rparr>)"

definition retired_iteration :: "Ps1BootOptions \<Rightarrow> boot_loop \<Rightarrow> boot_flow" where
  "retired_iteration options st =
    (let st = st\<lparr>report := (report st)\<lparr>instructions_retired := instructions_retired (report st) + 1\<rparr>,
                 instructions_since_progress := instructions_since_progress st + 1\<rparr>;
         st = (case last_diagnostic_mmio_probe (rt_bus (machine st)) of
                 None \<Rightarrow> st
               | Some probe \<Rightarrow> note_probe options probe st)
     in if stagnation_instruction_limit options \<noteq> 0 \<and>
           instructions_since_progress st \<ge> stagnation_instruction_limit options
        then Return (st\<lparr>report := (report st)\<lparr>stop_reason := diagnostic_stall\<rparr>\<rparr>)
        else Continue st)"

definition stopped_iteration ::
  "Ps1BootOptions \<Rightarrow> R3000aStepResult \<Rightarrow> boot_loop \<Rightarrow> boot_loop" where
  "stopped_iteration options step st =
    (let st = st\<lparr>report := (report st)\<lparr>cpu_diagnostic := Some (diagnostic step),
                 unsupported_access := last_unsupported (rt_bus (machine st))\<rparr>\<rparr>;
         st = (if step_status step = step_exception \<and>
                  diag_exception_code (diagnostic step) = Some exc_interrupt
               then st\<lparr>report := (report st)\<lparr>interrupts_accepted := interrupts_accepted (report st) + 1\<rparr>\<rparr>
               else st);
         plain = st\<lparr>report := (report st)\<lparr>stop_reason := cpu_boundary\<rparr>\<rparr>
     in case unsupported_access (report st) of
          None \<Rightarrow> plain
        | Some u \<Rightarrow>
            (case guest_to_physical (guest_address u) of
               None \<Rightarrow> plain
             | Some physical \<Rightarrow>
                 if is_initial_mmio_window physical
                 then st\<lparr>report := record_recent_mmio ((report st)\<lparr>stop_reason := mmio_unimplemented\<rparr>)
                        \<lparr>mmio_pc = diag_pc (diagnostic step), mmio_address = guest_address u,
                         mmio_width = width u, mmio_write = is_write u, mmio_value = access_value u,
                         mmio_speculative = False\<rparr> (mmio_event_capacity options)\<rparr>
                 else plain))"

text \<open>Before the step: the opcode about to run is peeked at and traced, the last accesses cleared.\<close>

definition observe_instruction :: "Ps1BootOptions \<Rightarrow> boot_loop \<Rightarrow> boot_loop" where
  "observe_instruction options st =
    (let m = (machine st)\<lparr>diagnostic_bios_frontier_pending := False\<rparr>;
         (observed, b) = read32 (pc (rt_cpu m)) (rt_bus m);
         opcode = (if bus_status observed = bus_ok then Some (bus_value observed) else None);
         rep = record_recent_trace ((report st)\<lparr>last_opcode := opcode\<rparr>) (pc (rt_cpu m)) opcode
                 (trace_capacity options);
         b = clear_last_diagnostic_mmio_probe (clear_last_unsupported_access b)
     in st\<lparr>machine := m\<lparr>rt_bus := b\<rparr>, report := rep\<rparr>)"

definition instruction_iteration :: "Ps1BootOptions \<Rightarrow> boot_loop \<Rightarrow> boot_flow" where
  "instruction_iteration options st =
    (let st = observe_instruction options st;
         m = machine st;
         (step, cpu', b') = step_r3000a ps1_bus (rt_cpu m) (rt_bus m);
         st = st\<lparr>machine := m\<lparr>rt_cpu := cpu', rt_bus := b'\<rparr>\<rparr>
     in if step_status step = step_retired
        then retired_iteration options st
        else Return (stopped_iteration options step st))"

definition boot_iteration :: "Ps1BootOptions \<Rightarrow> boot_loop \<Rightarrow> boot_flow" where
  "boot_iteration options st =
    (let st = st\<lparr>report := (report st)\<lparr>last_pc := pc (rt_cpu (machine st))\<rparr>\<rparr>
     in case guest_to_physical (pc (rt_cpu (machine st))) of
          Some physical_pc \<Rightarrow>
            if is_bios_table physical_pc then bios_iteration options physical_pc st
            else instruction_iteration options st
        | None \<Rightarrow> instruction_iteration options st)"

partial_function (option) run_loop :: "Ps1BootOptions \<Rightarrow> boot_loop \<Rightarrow> boot_loop option" where
  "run_loop options st =
    (if instructions_retired (report st) < instruction_budget options
     then case boot_iteration options st of
            Continue st' \<Rightarrow> run_loop options st'
          | Return st' \<Rightarrow> Some st'
     else Some (st\<lparr>report := (report st)\<lparr>stop_reason := execution_budget_exhausted\<rparr>\<rparr>))"

definition start_loop :: "Ps1BootOptions \<Rightarrow> Ps1BootRuntime \<Rightarrow> boot_loop" where
  "start_loop options rt =
    \<lparr>machine = rt\<lparr>rt_bus := set_diagnostic_mmio_probe_enabled (diagnostic_mmio_probe options) (rt_bus rt)\<rparr>,
     report = empty_report\<lparr>last_pc := pc (rt_cpu rt),
                           diagnostic_probe_mode := diagnostic_mmio_probe options\<rparr>,
     instructions_since_progress = 0,
     observed_bios_dependencies = {}, observed_mmio_dependencies = {}\<rparr>"

definition boot_run ::
  "Ps1BootOptions \<Rightarrow> Ps1BootRuntime \<Rightarrow> (Ps1BootReport \<times> Ps1BootRuntime) option" where
  "boot_run options rt =
    map_option (\<lambda>st. (report st, machine st)) (run_loop options (start_loop options rt))"

section \<open>Continuing past an unimplemented BIOS call\<close>

definition apply_diagnostic_bios_fallback ::
  "Ps1BiosFallback \<Rightarrow> Ps1BootRuntime \<Rightarrow> bool \<times> Ps1BootRuntime" where
  "apply_diagnostic_bios_fallback fallback rt =
    (if \<not> diagnostic_bios_frontier_pending rt then (False, rt)
     else
       let refuse = (False, rt\<lparr>diagnostic_bios_frontier_pending := False\<rparr>)
       in case guest_to_physical (pc (rt_cpu rt)) of
            None \<Rightarrow> refuse
          | Some physical_pc \<Rightarrow>
              if \<not> is_bios_table physical_pc then refuse
              else
                let cpu = rt_cpu rt;
                    cpu = (case fallback of
                             return_zero \<Rightarrow> cpu\<lparr>gpr := (gpr cpu)[2 := 0]\<rparr>
                           | return_one \<Rightarrow> cpu\<lparr>gpr := (gpr cpu)[2 := 1]\<rparr>
                           | return_minus_one \<Rightarrow> cpu\<lparr>gpr := (gpr cpu)[2 := 0xFFFFFFFF]\<rparr>
                           | preserve_v0 \<Rightarrow> cpu)
                in (True, rt\<lparr>rt_cpu := return_from_bios_call cpu,
                             diagnostic_bios_frontier_pending := False\<rparr>))"

section \<open>The state hash\<close>

definition hash_u64 :: "u64 \<Rightarrow> u64 \<Rightarrow> u64" where
  "hash_u64 h v = hash_bytes h (le_bytes 8 v)"

definition runtime_diagnostic_state_hash :: "Ps1BootRuntime \<Rightarrow> u64" where
  "runtime_diagnostic_state_hash rt =
    (let cpu = rt_cpu rt;
         h = hash_u64 fnv_offset (bus_diagnostic_state_hash (rt_bus rt));
         h = fold (\<lambda>v h. bios_hash_u32 h v) (gpr cpu) h;
         h = fold (\<lambda>v h. bios_hash_u32 h v) [hi cpu, lo cpu, pc cpu, next_pc cpu] h;
         h = hash_bool h (ld_valid (pending_load cpu));
         h = hash_byte h (ld_reg (pending_load cpu));
         h = bios_hash_u32 h (ld_value (pending_load cpu));
         h = hash_bool h (active (delay_slot cpu));
         h = bios_hash_u32 h (branch_pc (delay_slot cpu));
         h = hash_bool h (taken (delay_slot cpu));
         h = bios_hash_u32 h (slot_target (delay_slot cpu));
         h = fold (\<lambda>v h. bios_hash_u32 h v)
               [target_address (cop0 cpu), bad_vaddr (cop0 cpu), status (cop0 cpu),
                cause (cop0 cpu), epc (cop0 cpu)] h;
         h = hash_byte h (external_interrupt_pending cpu);
         h = hash_u64 h (bios_diagnostic_state_hash (rt_bios rt))
     in hash_bool h (diagnostic_bios_frontier_pending rt))"

end
