(* ===== verification/Ps1_Runtime_Props.thy ===== *)
theory Ps1_Runtime_Props
  imports Ps1_Runtime
begin

text \<open>
  The boot loop as a step relation, its invariant, and the question whether a run returns.
  \<open>boot_reaches\<close> and \<open>boot_halts\<close> are equivalent to the executable loop;
  \<open>loop_wf\<close> holds in every reached state and \<open>result_wf\<close> of every returned
  report; a run fails to return exactly when it reaches a BIOS call that returns to itself.
\<close>

unbundle bit_operations_syntax

section \<open>The loop as a step relation\<close>

inductive boot_reaches :: "Ps1BootOptions \<Rightarrow> boot_loop \<Rightarrow> boot_loop \<Rightarrow> bool"
  for options :: Ps1BootOptions and st :: boot_loop where
  reaches_start: "boot_reaches options st st"
| reaches_step: "boot_reaches options st st' \<Longrightarrow>
    instructions_retired (report st') < instruction_budget options \<Longrightarrow>
    boot_iteration options st' = Continue st'' \<Longrightarrow> boot_reaches options st st''"

inductive boot_halts :: "Ps1BootOptions \<Rightarrow> boot_loop \<Rightarrow> boot_loop \<Rightarrow> bool"
  for options :: Ps1BootOptions and st :: boot_loop where
  halts_budget: "boot_reaches options st st' \<Longrightarrow>
    \<not> instructions_retired (report st') < instruction_budget options \<Longrightarrow>
    boot_halts options st (st'\<lparr>report := (report st')\<lparr>stop_reason := execution_budget_exhausted\<rparr>\<rparr>)"
| halts_return: "boot_reaches options st st' \<Longrightarrow>
    instructions_retired (report st') < instruction_budget options \<Longrightarrow>
    boot_iteration options st' = Return r \<Longrightarrow> boot_halts options st r"

lemma boot_reaches_trans:
  "boot_reaches options st' st'' \<Longrightarrow> boot_reaches options st st' \<Longrightarrow> boot_reaches options st st''"
  by (induction rule: boot_reaches.induct) (auto intro: boot_reaches.intros)

lemma boot_reaches_first:
  assumes "instructions_retired (report st) < instruction_budget options"
    "boot_iteration options st = Continue st'" "boot_reaches options st' st''"
  shows "boot_reaches options st st''"
  by (rule boot_reaches_trans [OF assms(3) reaches_step [OF reaches_start assms(1,2)]])

lemma boot_halts_first:
  assumes "instructions_retired (report st) < instruction_budget options"
    "boot_iteration options st = Continue st'" "boot_halts options st' r"
  shows "boot_halts options st r"
  using assms(3) by cases (auto intro: boot_halts.intros boot_reaches_first [OF assms(1,2)])

lemma run_loop_halts: "run_loop options st = Some r \<Longrightarrow> boot_halts options st r"
proof (erule run_loop.raw_induct [where P = boot_halts, rotated])
  fix loop options st r
  assume 1: "\<And>options st r. loop options st = Some r \<Longrightarrow> boot_halts options st r"
    "(if instructions_retired (report st) < instruction_budget options
      then case boot_iteration options st of Continue st' \<Rightarrow> loop options st' | Return st' \<Rightarrow> Some st'
      else Some (st\<lparr>report := (report st)\<lparr>stop_reason := execution_budget_exhausted\<rparr>\<rparr>)) = Some r"
  show "boot_halts options st r"
  proof (cases "instructions_retired (report st) < instruction_budget options")
    case False
    with 1(2) show ?thesis using halts_budget [OF reaches_start] by auto
  next
    case True
    show ?thesis
    proof (cases "boot_iteration options st")
      case (Continue st')
      with 1 True show ?thesis by (auto intro: boot_halts_first)
    next
      case (Return r')
      with 1(2) True show ?thesis by (auto intro: halts_return reaches_start)
    qed
  qed
qed

lemma run_loop_reaches:
  "boot_reaches options st st' \<Longrightarrow> run_loop options st = run_loop options st'"
proof (induction rule: boot_reaches.induct)
  case (reaches_step st' st'')
  then show ?case by (simp add: run_loop.simps [of _ st'])
qed simp

lemma run_loop_iff_halts: "run_loop options st = Some r \<longleftrightarrow> boot_halts options st r"
proof
  assume "boot_halts options st r"
  then show "run_loop options st = Some r"
  proof cases
    case (halts_budget st')
    then show ?thesis unfolding run_loop_reaches [OF halts_budget(2)]
      by (subst run_loop.simps) simp
  next
    case (halts_return st')
    then show ?thesis unfolding run_loop_reaches [OF halts_return(1)]
      by (subst run_loop.simps) simp
  qed
qed (rule run_loop_halts)

section \<open>Loop invariant\<close>

definition machine_wf :: "Ps1BootRuntime \<Rightarrow> bool" where
  "machine_wf m \<longleftrightarrow> bus_wf (rt_bus m) \<and> cpu_wf (rt_cpu m) \<and> pc_wf (rt_cpu m) \<and> bios_wf (rt_bios m)"

definition buffers_bounded :: "Ps1BootOptions \<Rightarrow> Ps1BootReport \<Rightarrow> bool" where
  "buffers_bounded options rep \<longleftrightarrow>
     length (recent_trace rep) \<le> trace_capacity options \<and>
     length (recent_mmio rep) \<le> mmio_event_capacity options \<and>
     length (recent_bios_calls rep) \<le> bios_event_capacity options"

definition counters_bounded :: "Ps1BootOptions \<Rightarrow> Ps1BootReport \<Rightarrow> bool" where
  "counters_bounded options rep \<longleftrightarrow>
     instructions_retired rep \<le> instruction_budget options \<and>
     speculative_mmio_count rep \<le> instructions_retired rep"

definition loop_wf :: "Ps1BootOptions \<Rightarrow> boot_loop \<Rightarrow> bool" where
  "loop_wf options st \<longleftrightarrow>
     machine_wf (machine st) \<and> buffers_bounded options (report st) \<and>
     counters_bounded options (report st) \<and>
     instructions_since_progress st \<le> instructions_retired (report st) \<and>
     stop_reason (report st) = stop_none \<and> cpu_diagnostic (report st) = None \<and>
     unsupported_access (report st) = None \<and> interrupts_accepted (report st) = 0"

text \<open>What a returned report promises, by the reason it gives for stopping.\<close>

definition at_bios_table :: "Ps1BootRuntime \<Rightarrow> bool" where
  "at_bios_table m \<longleftrightarrow>
     (case guest_to_physical (pc (rt_cpu m)) of None \<Rightarrow> False | Some p \<Rightarrow> is_bios_table p)"

definition in_mmio_window :: "Ps1UnsupportedAccess \<Rightarrow> bool" where
  "in_mmio_window u \<longleftrightarrow>
     (case guest_to_physical (guest_address u) of None \<Rightarrow> False | Some p \<Rightarrow> is_initial_mmio_window p)"

definition stop_explained :: "Ps1BootOptions \<Rightarrow> boot_loop \<Rightarrow> bool" where
  "stop_explained options st \<longleftrightarrow>
     (case stop_reason (report st) of
        execution_budget_exhausted \<Rightarrow> instructions_retired (report st) = instruction_budget options \<and>
          cpu_diagnostic (report st) = None
      | bios_call_unimplemented \<Rightarrow> at_bios_table (machine st) \<and>
          diagnostic_bios_frontier_pending (machine st) \<and> cpu_diagnostic (report st) = None
      | cpu_boundary \<Rightarrow> cpu_diagnostic (report st) \<noteq> None \<and>
          \<not> diagnostic_bios_frontier_pending (machine st) \<and>
          (case unsupported_access (report st) of None \<Rightarrow> True | Some u \<Rightarrow> \<not> in_mmio_window u)
      | mmio_unimplemented \<Rightarrow> cpu_diagnostic (report st) \<noteq> None \<and>
          \<not> diagnostic_bios_frontier_pending (machine st) \<and>
          (case unsupported_access (report st) of None \<Rightarrow> False | Some u \<Rightarrow> in_mmio_window u)
      | diagnostic_stall \<Rightarrow> stagnation_instruction_limit options \<noteq> 0 \<and>
          stagnation_instruction_limit options \<le> instructions_retired (report st) \<and>
          \<not> diagnostic_bios_frontier_pending (machine st) \<and> cpu_diagnostic (report st) = None
      | _ \<Rightarrow> False)"

lemma unat_inc:
  assumes "(c :: 'a::len word) < b"
  shows "unat (c + 1) = unat c + 1"
proof -
  have "unat c < unat b" "unat b < 2 ^ LENGTH('a)"
    using assms by (simp_all only: word_less_nat_alt unsigned_less)
  then have "unat c + 1 < 2 ^ LENGTH('a)" by linarith
  then show ?thesis by (simp add: unat_word_ariths)
qed

lemma word_suc_mono: "(c :: 'a::len word) < b \<Longrightarrow> a \<le> c \<Longrightarrow> a + 1 \<le> c + 1"
  using unat_inc [of c b] unat_inc [of a b] order_le_less_trans [of a c b]
  by (simp add: word_le_nat_alt)

lemma word_inc_mono: "(a :: 'a::len word) \<le> c \<Longrightarrow> c < b \<Longrightarrow> a \<le> c + 1"
  by (simp add: word_le_nat_alt unat_inc)

lemma record_simps [simp]:
  "recent_trace (record_recent_trace r p oc c) = push_recent c \<lparr>trace_pc = p, trace_opcode = oc\<rparr> (recent_trace r)"
  "recent_bios_calls (record_recent_bios r ev c) = push_recent c ev (recent_bios_calls r)"
  "recent_mmio (record_recent_mmio r mv c) = push_recent c mv (recent_mmio r)"
  by (simp_all add: record_recent_trace_def record_recent_bios_def record_recent_mmio_def)

lemma push_recent_bounded [simp, intro]:
  "length xs \<le> c \<Longrightarrow> length (push_recent c x xs) \<le> c"
  by (rule length_push_recent_le)

text \<open>The parts of the report that no iteration before the last one changes.\<close>

definition report_tail :: "Ps1BootReport \<Rightarrow> R3000aDiagnostic option \<times> Ps1UnsupportedAccess option \<times> u64" where
  "report_tail rep = (cpu_diagnostic rep, unsupported_access rep, interrupts_accepted rep)"

lemma note_bios_call_fields [simp]:
  "machine (note_bios_call options p st) = machine st"
  "instructions_retired (report (note_bios_call options p st)) = instructions_retired (report st)"
  "speculative_mmio_count (report (note_bios_call options p st)) = speculative_mmio_count (report st)"
  "recent_trace (report (note_bios_call options p st)) = recent_trace (report st)"
  "recent_mmio (report (note_bios_call options p st)) = recent_mmio (report st)"
  "report_tail (report (note_bios_call options p st)) = report_tail (report st)"
  "stop_reason (report (note_bios_call options p st)) = stop_reason (report st)"
  by (simp_all add: note_bios_call_def Let_def record_recent_bios_def report_tail_def)

lemma note_bios_call_bounds:
  "length (recent_bios_calls (report st)) \<le> bios_event_capacity options \<Longrightarrow>
    length (recent_bios_calls (report (note_bios_call options p st))) \<le> bios_event_capacity options"
  "instructions_since_progress (note_bios_call options p st) \<le> instructions_since_progress st"
  by (simp_all add: note_bios_call_def Let_def record_recent_bios_def)

lemma report_tail_stop [simp]: "report_tail (rep\<lparr>stop_reason := x\<rparr>) = report_tail rep"
  by (simp add: report_tail_def)

lemma bios_iteration_fields:
  fixes options p st
  defines "m \<equiv> machine st" and "r \<equiv> bios_iteration options p st"
  defines "d \<equiv> dispatch (rt_bios m) (rt_cpu m) p (gpr (rt_cpu m) ! 9)"
  shows "is_Continue r \<longleftrightarrow> fst d = bios_handled"
    "machine (flow_loop r) = m\<lparr>rt_bios := fst (snd d), rt_cpu := snd (snd d),
       diagnostic_bios_frontier_pending := fst d \<noteq> bios_handled\<rparr>"
    "instructions_retired (report (flow_loop r)) = instructions_retired (report st)"
    "speculative_mmio_count (report (flow_loop r)) = speculative_mmio_count (report st)"
    "instructions_since_progress (flow_loop r) \<le> instructions_since_progress st"
    "recent_trace (report (flow_loop r)) = recent_trace (report st)"
    "recent_mmio (report (flow_loop r)) = recent_mmio (report st)"
    "length (recent_bios_calls (report st)) \<le> bios_event_capacity options \<Longrightarrow>
      length (recent_bios_calls (report (flow_loop r))) \<le> bios_event_capacity options"
    "report_tail (report (flow_loop r)) = report_tail (report st)"
    "stop_reason (report (flow_loop r)) =
      (if fst d = bios_handled then stop_reason (report st) else bios_call_unimplemented)"
proof -
  obtain a b c where D: "dispatch (rt_bios (machine st)) (rt_cpu (machine st)) p
      (gpr (rt_cpu (machine st)) ! 9) = (a, b, c)"
    by (metis prod_cases3)
  show "is_Continue r \<longleftrightarrow> fst d = bios_handled"
    "machine (flow_loop r) = m\<lparr>rt_bios := fst (snd d), rt_cpu := snd (snd d),
       diagnostic_bios_frontier_pending := fst d \<noteq> bios_handled\<rparr>"
    "instructions_retired (report (flow_loop r)) = instructions_retired (report st)"
    "speculative_mmio_count (report (flow_loop r)) = speculative_mmio_count (report st)"
    "instructions_since_progress (flow_loop r) \<le> instructions_since_progress st"
    "recent_trace (report (flow_loop r)) = recent_trace (report st)"
    "recent_mmio (report (flow_loop r)) = recent_mmio (report st)"
    "length (recent_bios_calls (report st)) \<le> bios_event_capacity options \<Longrightarrow>
      length (recent_bios_calls (report (flow_loop r))) \<le> bios_event_capacity options"
    "report_tail (report (flow_loop r)) = report_tail (report st)"
    "stop_reason (report (flow_loop r)) =
      (if fst d = bios_handled then stop_reason (report st) else bios_call_unimplemented)"
    unfolding r_def d_def m_def
    using note_bios_call_bounds(1) [of st options p] note_bios_call_bounds(2) [of options p st]
    by (simp_all add: bios_iteration_def D Let_def)
qed

lemma note_probe_fields [simp]:
  "machine (note_probe options u st) = machine st"
  "instructions_retired (report (note_probe options u st)) = instructions_retired (report st)"
  "speculative_mmio_count (report (note_probe options u st)) = speculative_mmio_count (report st) + 1"
  "recent_trace (report (note_probe options u st)) = recent_trace (report st)"
  "recent_bios_calls (report (note_probe options u st)) = recent_bios_calls (report st)"
  "report_tail (report (note_probe options u st)) = report_tail (report st)"
  "stop_reason (report (note_probe options u st)) = stop_reason (report st)"
  by (simp_all add: note_probe_def Let_def record_recent_mmio_def report_tail_def)

lemma note_probe_bounds:
  "length (recent_mmio (report st)) \<le> mmio_event_capacity options \<Longrightarrow>
    length (recent_mmio (report (note_probe options u st))) \<le> mmio_event_capacity options"
  "instructions_since_progress (note_probe options u st) \<le> instructions_since_progress st"
  by (simp_all add: note_probe_def Let_def record_recent_mmio_def)


lemma retired_iteration_fields:
  fixes options st
  defines "r \<equiv> retired_iteration options st"
  assumes "speculative_mmio_count (report st) \<le> instructions_retired (report st)"
    "instructions_since_progress st \<le> instructions_retired (report st)"
    "instructions_retired (report st) < instruction_budget options"
  shows "machine (flow_loop r) = machine st"
    "instructions_retired (report (flow_loop r)) = instructions_retired (report st) + 1"
    "speculative_mmio_count (report (flow_loop r)) \<le> instructions_retired (report st) + 1"
    "instructions_since_progress (flow_loop r) \<le> instructions_retired (report st) + 1"
    "recent_trace (report (flow_loop r)) = recent_trace (report st)"
    "recent_bios_calls (report (flow_loop r)) = recent_bios_calls (report st)"
    "length (recent_mmio (report st)) \<le> mmio_event_capacity options \<Longrightarrow>
      length (recent_mmio (report (flow_loop r))) \<le> mmio_event_capacity options"
    "report_tail (report (flow_loop r)) = report_tail (report st)"
    "stop_reason (report (flow_loop r)) =
      (if is_Continue r then stop_reason (report st) else diagnostic_stall)"
    "\<not> is_Continue r \<Longrightarrow> stagnation_instruction_limit options \<noteq> 0 \<and>
      stagnation_instruction_limit options \<le> instructions_since_progress (flow_loop r)"
proof -
  define st1 where "st1 = st\<lparr>report := (report st)\<lparr>instructions_retired := instructions_retired (report st) + 1\<rparr>,
                 instructions_since_progress := instructions_since_progress st + 1\<rparr>"
  define st2 where "st2 = (case last_diagnostic_mmio_probe (rt_bus (machine st1)) of
                 None \<Rightarrow> st1 | Some probe \<Rightarrow> note_probe options probe st1)"
  have r: "r = (if stagnation_instruction_limit options \<noteq> 0 \<and>
           instructions_since_progress st2 \<ge> stagnation_instruction_limit options
        then Return (st2\<lparr>report := (report st2)\<lparr>stop_reason := diagnostic_stall\<rparr>\<rparr>)
        else Continue st2)"
    unfolding r_def retired_iteration_def st2_def st1_def Let_def ..
  have s1: "machine st1 = machine st" "instructions_retired (report st1) = instructions_retired (report st) + 1"
    "speculative_mmio_count (report st1) = speculative_mmio_count (report st)"
    "instructions_since_progress st1 = instructions_since_progress st + 1"
    "recent_trace (report st1) = recent_trace (report st)"
    "recent_mmio (report st1) = recent_mmio (report st)"
    "recent_bios_calls (report st1) = recent_bios_calls (report st)"
    "report_tail (report st1) = report_tail (report st)" "stop_reason (report st1) = stop_reason (report st)"
    by (simp_all add: st1_def report_tail_def)
  have le: "speculative_mmio_count (report st) + 1 \<le> instructions_retired (report st) + 1"
    "speculative_mmio_count (report st) \<le> instructions_retired (report st) + 1"
    "instructions_since_progress st + 1 \<le> instructions_retired (report st) + 1"
    using word_suc_mono [OF assms(4)] word_inc_mono [OF _ assms(4)] assms(2,3) by blast+
  have np: "instructions_since_progress (note_probe options u st1) \<le> instructions_retired (report st) + 1" for u
    by (rule order_trans [OF note_probe_bounds(2)]) (simp add: s1 le)
  have s2: "machine st2 = machine st" "instructions_retired (report st2) = instructions_retired (report st) + 1"
    "speculative_mmio_count (report st2) \<le> instructions_retired (report st) + 1"
    "instructions_since_progress st2 \<le> instructions_retired (report st) + 1"
    "recent_trace (report st2) = recent_trace (report st)"
    "recent_bios_calls (report st2) = recent_bios_calls (report st)"
    "length (recent_mmio (report st)) \<le> mmio_event_capacity options \<Longrightarrow>
      length (recent_mmio (report st2)) \<le> mmio_event_capacity options"
    "report_tail (report st2) = report_tail (report st)" "stop_reason (report st2) = stop_reason (report st)"
    using le s1 note_probe_bounds(1) [of st1 options] np
    by (auto simp: st2_def split: option.split)
  show "machine (flow_loop r) = machine st"
    "instructions_retired (report (flow_loop r)) = instructions_retired (report st) + 1"
    "speculative_mmio_count (report (flow_loop r)) \<le> instructions_retired (report st) + 1"
    "instructions_since_progress (flow_loop r) \<le> instructions_retired (report st) + 1"
    "recent_trace (report (flow_loop r)) = recent_trace (report st)"
    "recent_bios_calls (report (flow_loop r)) = recent_bios_calls (report st)"
    "length (recent_mmio (report st)) \<le> mmio_event_capacity options \<Longrightarrow>
      length (recent_mmio (report (flow_loop r))) \<le> mmio_event_capacity options"
    "report_tail (report (flow_loop r)) = report_tail (report st)"
    "stop_reason (report (flow_loop r)) =
      (if is_Continue r then stop_reason (report st) else diagnostic_stall)"
    "\<not> is_Continue r \<Longrightarrow> stagnation_instruction_limit options \<noteq> 0 \<and>
      stagnation_instruction_limit options \<le> instructions_since_progress (flow_loop r)"
    unfolding r using s2 by (simp_all split: if_splits)
qed

lemma stopped_iteration_fields:
  fixes options step st
  defines "r \<equiv> stopped_iteration options step st"
  shows "machine r = machine st"
    "instructions_retired (report r) = instructions_retired (report st)"
    "speculative_mmio_count (report r) = speculative_mmio_count (report st)"
    "recent_trace (report r) = recent_trace (report st)"
    "recent_bios_calls (report r) = recent_bios_calls (report st)"
    "length (recent_mmio (report st)) \<le> mmio_event_capacity options \<Longrightarrow>
      length (recent_mmio (report r)) \<le> mmio_event_capacity options"
    "cpu_diagnostic (report r) = Some (diagnostic step)"
    "unsupported_access (report r) = last_unsupported (rt_bus (machine st))"
    "stop_reason (report r) =
      (case last_unsupported (rt_bus (machine st)) of
         None \<Rightarrow> cpu_boundary | Some u \<Rightarrow> if in_mmio_window u then mmio_unimplemented else cpu_boundary)"
  unfolding r_def stopped_iteration_def
  by (simp_all add: Let_def record_recent_mmio_def in_mmio_window_def split: option.split)



lemma machine_wf_parts:
  "machine_wf m \<Longrightarrow> bus_wf (rt_bus m)" "machine_wf m \<Longrightarrow> cpu_wf (rt_cpu m)"
  "machine_wf m \<Longrightarrow> pc_wf (rt_cpu m)" "machine_wf m \<Longrightarrow> bios_wf (rt_bios m)"
  by (simp_all add: machine_wf_def)

lemma machine_wf_frontier [simp]:
  "machine_wf (m\<lparr>diagnostic_bios_frontier_pending := x\<rparr>) = machine_wf m"
  by (simp add: machine_wf_def)

lemma clear_last_wf [simp]:
  "bus_wf (clear_last_unsupported_access b) = bus_wf b"
  "bus_wf (clear_last_diagnostic_mmio_probe b) = bus_wf b"
  by (simp_all add: clear_last_unsupported_access_def clear_last_diagnostic_mmio_probe_def bus_wf_def)

lemma observe_instruction_fields [simp]:
  "instructions_retired (report (observe_instruction options st)) = instructions_retired (report st)"
  "speculative_mmio_count (report (observe_instruction options st)) = speculative_mmio_count (report st)"
  "instructions_since_progress (observe_instruction options st) = instructions_since_progress st"
  "recent_mmio (report (observe_instruction options st)) = recent_mmio (report st)"
  "recent_bios_calls (report (observe_instruction options st)) = recent_bios_calls (report st)"
  "report_tail (report (observe_instruction options st)) = report_tail (report st)"
  "stop_reason (report (observe_instruction options st)) = stop_reason (report st)"
  "rt_cpu (machine (observe_instruction options st)) = rt_cpu (machine st)"
  "rt_bios (machine (observe_instruction options st)) = rt_bios (machine st)"
  "diagnostic_bios_frontier_pending (machine (observe_instruction options st)) = False"
  "rt_bus (machine (observe_instruction options st)) =
     clear_last_diagnostic_mmio_probe (clear_last_unsupported_access
       (snd (read32 (pc (rt_cpu (machine st))) (rt_bus (machine st)))))"
  by (simp_all add: observe_instruction_def Let_def record_recent_trace_def report_tail_def split: prod.split)

lemma observe_instruction_bound:
  "length (recent_trace (report st)) \<le> trace_capacity options \<Longrightarrow>
    length (recent_trace (report (observe_instruction options st))) \<le> trace_capacity options"
  by (simp add: observe_instruction_def Let_def split: prod.split)

lemma observe_instruction_wf [wf_intros]:
  "machine_wf (machine st) \<Longrightarrow> machine_wf (machine (observe_instruction options st))"
  by (simp add: machine_wf_def bus_reads_wf)

lemma step_machine_wf:
  assumes "step_r3000a ps1_bus (rt_cpu m) (rt_bus m) = (step, cpu', b')" "machine_wf m"
  shows "machine_wf (m\<lparr>rt_cpu := cpu', rt_bus := b'\<rparr>)"
  using step_wf [OF assms(1)] ps1.step_bus_inv [OF assms(1)] assms(2)
  by (simp add: machine_wf_def cpu_wf_def)

lemma dispatch_machine_wf:
  assumes "dispatch (rt_bios m) (rt_cpu m) p sel = d" "machine_wf m"
  shows "machine_wf (m\<lparr>rt_bios := fst (snd d), rt_cpu := snd (snd d)\<rparr>)"
proof -
  obtain st bios' cpu' where d: "d = (st, bios', cpu')" by (cases d)
  have "pc_wf cpu'"
  proof (cases st)
    case bios_handled then show ?thesis using assms d dispatch_pc_wf by metis
  next
    case bios_unimplemented
    then have "cpu' = rt_cpu m" using assms d dispatch_unimplemented by metis
    then show ?thesis using assms(2) by (simp add: machine_wf_def)
  qed
  then show ?thesis
    using assms d dispatch_cpu_wf [of "rt_bios m" "rt_cpu m" p sel] dispatch_bios_wf [of "rt_bios m" "rt_cpu m" p sel]
    by (simp add: machine_wf_def)
qed

text \<open>The effect of \<open>last_pc\<close> at the head of an iteration is invisible to the invariant.\<close>

lemma boot_iteration_split:
  obtains p where "guest_to_physical (pc (rt_cpu (machine st))) = Some p" "is_bios_table p"
      "boot_iteration options st =
        bios_iteration options p (st\<lparr>report := (report st)\<lparr>last_pc := pc (rt_cpu (machine st))\<rparr>\<rparr>)"
    | "\<not> at_bios_table (machine st)"
      "boot_iteration options st =
        instruction_iteration options (st\<lparr>report := (report st)\<lparr>last_pc := pc (rt_cpu (machine st))\<rparr>\<rparr>)"
  by (cases "guest_to_physical (pc (rt_cpu (machine st)))")
     (auto simp: boot_iteration_def at_bios_table_def Let_def split: if_splits)

definition result_wf :: "Ps1BootOptions \<Rightarrow> boot_loop \<Rightarrow> bool" where
  "result_wf options st \<longleftrightarrow>
     machine_wf (machine st) \<and> buffers_bounded options (report st) \<and>
     counters_bounded options (report st) \<and> stop_explained options st"

lemma loop_wf_last_pc [simp]:
  "loop_wf options (st\<lparr>report := (report st)\<lparr>last_pc := x\<rparr>\<rparr>) = loop_wf options st"
  by (simp add: loop_wf_def buffers_bounded_def counters_bounded_def)

lemma report_tail_iff:
  "report_tail rep = report_tail rep' \<longleftrightarrow> cpu_diagnostic rep = cpu_diagnostic rep' \<and>
     unsupported_access rep = unsupported_access rep' \<and> interrupts_accepted rep = interrupts_accepted rep'"
  by (simp add: report_tail_def)

lemma bios_iteration_machine_wf:
  assumes "machine_wf (machine st)"
  shows "machine_wf (machine (flow_loop (bios_iteration options p st)))"
proof -
  have "machine_wf ((machine st)\<lparr>rt_bios := fst (snd d), rt_cpu := snd (snd d)\<rparr>)"
    if "dispatch (rt_bios (machine st)) (rt_cpu (machine st)) p (gpr (rt_cpu (machine st)) ! 9) = d" for d
    using dispatch_machine_wf [OF that assms] .
  then show ?thesis by (simp add: bios_iteration_fields machine_wf_def)
qed

lemma bios_iteration_wf:
  assumes "loop_wf options st"
  shows "is_Continue (bios_iteration options p st) \<Longrightarrow>
      loop_wf options (flow_loop (bios_iteration options p st))"
    and "\<not> is_Continue (bios_iteration options p st) \<Longrightarrow>
      guest_to_physical (pc (rt_cpu (machine st))) = Some p \<Longrightarrow> is_bios_table p \<Longrightarrow>
      result_wf options (flow_loop (bios_iteration options p st))"
proof -
  let ?r = "bios_iteration options p st"
  note f = bios_iteration_fields [where options = options and p = p and st = st]
  have w: "machine_wf (machine st)" "length (recent_bios_calls (report st)) \<le> bios_event_capacity options"
    "length (recent_trace (report st)) \<le> trace_capacity options"
    "length (recent_mmio (report st)) \<le> mmio_event_capacity options"
    "counters_bounded options (report st)"
    "instructions_since_progress st \<le> instructions_retired (report st)"
    "stop_reason (report st) = stop_none" "report_tail (report st) = (None, None, 0)"
    using assms by (simp_all add: loop_wf_def buffers_bounded_def report_tail_def)
  have m: "machine_wf (machine (flow_loop ?r))" by (rule bios_iteration_machine_wf [OF w(1)])
  have b: "buffers_bounded options (report (flow_loop ?r))" using f w by (simp add: buffers_bounded_def)
  have c: "counters_bounded options (report (flow_loop ?r))"
    "instructions_since_progress (flow_loop ?r) \<le> instructions_retired (report (flow_loop ?r))"
    using f(3,4,5) w(5,6) by (auto simp: counters_bounded_def)
  have t: "report_tail (report (flow_loop ?r)) = (None, None, 0)" using f(9) w(8) by simp
  show "loop_wf options (flow_loop ?r)" if "is_Continue ?r"
    using m b c t that f(1,10) w(7) by (simp add: loop_wf_def report_tail_def)
  show "result_wf options (flow_loop ?r)" if "\<not> is_Continue ?r"
    "guest_to_physical (pc (rt_cpu (machine st))) = Some p" "is_bios_table p"
  proof -
    obtain a bios' cpu' where d: "dispatch (rt_bios (machine st)) (rt_cpu (machine st)) p
      (gpr (rt_cpu (machine st)) ! 9) = (a, bios', cpu')" by (metis prod_cases3)
    with that(1) f(1) have "a = bios_unimplemented" by (cases a) simp_all
    with d dispatch_unimplemented have "cpu' = rt_cpu (machine st)" by metis
    with m b c t that f(1,2,10) w(7) d show ?thesis
      by (simp add: result_wf_def stop_explained_def report_tail_def at_bios_table_def)
  qed
qed

lemma instruction_iteration_wf:
  assumes "loop_wf options st" "instructions_retired (report st) < instruction_budget options"
  shows "is_Continue (instruction_iteration options st) \<Longrightarrow>
      loop_wf options (flow_loop (instruction_iteration options st))"
    and "\<not> is_Continue (instruction_iteration options st) \<Longrightarrow>
      result_wf options (flow_loop (instruction_iteration options st))"
proof -
  let ?r = "instruction_iteration options st"
  define o1 where "o1 = observe_instruction options st"
  obtain step cpu' b' where s: "step_r3000a ps1_bus (rt_cpu (machine o1)) (rt_bus (machine o1)) = (step, cpu', b')"
    by (metis prod_cases3)
  define o2 where "o2 = o1\<lparr>machine := (machine o1)\<lparr>rt_cpu := cpu', rt_bus := b'\<rparr>\<rparr>"
  have r: "?r = (if step_status step = step_retired then retired_iteration options o2
      else Return (stopped_iteration options step o2))"
    by (simp add: instruction_iteration_def o1_def [symmetric] s o2_def Let_def)
  have w: "machine_wf (machine o1)" "length (recent_bios_calls (report o1)) \<le> bios_event_capacity options"
    "length (recent_trace (report o1)) \<le> trace_capacity options"
    "length (recent_mmio (report o1)) \<le> mmio_event_capacity options"
    "speculative_mmio_count (report o1) \<le> instructions_retired (report o1)"
    "instructions_since_progress o1 \<le> instructions_retired (report o1)"
    "stop_reason (report o1) = stop_none" "report_tail (report o1) = (None, None, 0)"
    "instructions_retired (report o1) < instruction_budget options"
    "\<not> diagnostic_bios_frontier_pending (machine o1)"
    using assms observe_instruction_wf [of st options] observe_instruction_bound [of st options]
    by (simp_all add: loop_wf_def buffers_bounded_def counters_bounded_def o1_def report_tail_def [of "report st"])
  have m: "machine_wf (machine o2)" unfolding o2_def
    using step_machine_wf [OF s w(1)] by simp
  have o2: "report o2 = report o1" "instructions_since_progress o2 = instructions_since_progress o1"
    "\<not> diagnostic_bios_frontier_pending (machine o2)"
    using w(10) by (simp_all add: o2_def)
  have le: "instructions_retired (report o1) + 1 \<le> instruction_budget options" using w(9) by (rule inc_le)
  note ret = retired_iteration_fields [where st = o2 and options = options, unfolded o2, OF w(5,6,9)]
  note stp = stopped_iteration_fields [where st = o2 and options = options and step = step, unfolded o2]
  have ret_wf: "machine_wf (machine (flow_loop (retired_iteration options o2)))"
    "buffers_bounded options (report (flow_loop (retired_iteration options o2)))"
    "counters_bounded options (report (flow_loop (retired_iteration options o2)))"
    using ret m w(2,3,4) le by (simp_all add: buffers_bounded_def counters_bounded_def)
  show "loop_wf options (flow_loop ?r)" if "is_Continue ?r"
    using that ret_wf ret w(7,8) by (auto simp: r loop_wf_def report_tail_def split: if_splits)
  show "result_wf options (flow_loop ?r)" if "\<not> is_Continue ?r"
  proof (cases "step_status step = step_retired")
    case True
    then have r': "?r = retired_iteration options o2" by (simp add: r)
    have "stagnation_instruction_limit options \<le> instructions_retired (report o1) + 1"
      using ret(4,10) that r' by (metis order_trans)
    then show ?thesis using that ret_wf ret w(8) o2(3) unfolding r'
      by (simp add: result_wf_def stop_explained_def report_tail_def)
  next
    case False
    then have r': "?r = Return (stopped_iteration options step o2)" by (simp add: r)
    have le': "instructions_retired (report o1) \<le> instruction_budget options" using w(9) by simp
    show ?thesis using stp m w(2,3,4,5) le' o2(3) unfolding r'
      by (auto simp: result_wf_def buffers_bounded_def counters_bounded_def stop_explained_def
          split: option.split)
  qed
qed

lemma boot_iteration_wf:
  assumes "loop_wf options st" "instructions_retired (report st) < instruction_budget options"
  shows "boot_iteration options st = Continue st' \<Longrightarrow> loop_wf options st'"
    "boot_iteration options st = Return st' \<Longrightarrow> result_wf options st'"
proof -
  let ?s = "st\<lparr>report := (report st)\<lparr>last_pc := pc (rt_cpu (machine st))\<rparr>\<rparr>"
  have s: "loop_wf options ?s" "instructions_retired (report ?s) < instruction_budget options"
    using assms by simp_all
  show "loop_wf options st'" if "boot_iteration options st = Continue st'"
    using that bios_iteration_wf(1) [OF s(1)] instruction_iteration_wf(1) [OF s]
    by (cases rule: boot_iteration_split [of st options]) (metis boot_flow.disc(1) boot_flow.sel(1))+
  show "result_wf options st'" if "boot_iteration options st = Return st'"
    using that bios_iteration_wf(2) [OF s(1)] instruction_iteration_wf(2) [OF s]
    by (cases rule: boot_iteration_split [of st options]) (auto, (metis boot_flow.disc(2) boot_flow.sel(2))+)
qed

lemma boot_reaches_wf: "boot_reaches options st st' \<Longrightarrow> loop_wf options st \<Longrightarrow> loop_wf options st'"
  by (induction rule: boot_reaches.induct) (auto dest: boot_iteration_wf(1))

lemma boot_halts_wf:
  assumes "boot_halts options st r" "loop_wf options st"
  shows "result_wf options r"
  using assms(1)
proof cases
  case (halts_budget st')
  then show ?thesis using boot_reaches_wf [OF halts_budget(2) assms(2)]
    by (auto simp: loop_wf_def result_wf_def stop_explained_def buffers_bounded_def counters_bounded_def)
next
  case (halts_return st')
  then show ?thesis using boot_reaches_wf [OF halts_return(1) assms(2)] boot_iteration_wf(2) by blast
qed

lemma start_loop_wf: "machine_wf rt \<Longrightarrow> loop_wf options (start_loop options rt)"
  by (simp add: loop_wf_def start_loop_def machine_wf_def bus_wf_def buffers_bounded_def counters_bounded_def
      empty_report_def set_diagnostic_mmio_probe_enabled_def Let_def)

lemma boot_run_wf:
  assumes "boot_run options rt = Some (rep, rt')" "machine_wf rt"
  shows "\<exists>st. result_wf options st \<and> report st = rep \<and> machine st = rt'"
  using assms boot_halts_wf [OF run_loop_halts start_loop_wf]
  by (auto simp: boot_run_def)

lemma boot_create_wf:
  assumes "boot_create exe = Inr rt"
  shows "machine_wf rt \<and> \<not> diagnostic_bios_frontier_pending rt \<and> rt_bios rt = initial_bios"
  using assms load_executable_wf [OF _ bus_wf_initial] bios_wf_initial
  by (auto simp: boot_create_def machine_wf_def Let_def split: sum.splits)

section \<open>Does a run return?\<close>

text \<open>
  A handled BIOS call costs no instruction.  A run that never returns is therefore possible in
  exactly one way: the call returns to the BIOS entry it was made from.
\<close>

definition bios_self_return :: "Ps1BootRuntime \<Rightarrow> bool" where
  "bios_self_return m \<longleftrightarrow>
     pc (rt_cpu m) = gpr (rt_cpu m) ! 31 \<and>
     (case guest_to_physical (pc (rt_cpu m)) of
        None \<Rightarrow> False
      | Some p \<Rightarrow> is_bios_table p \<and>
          fst (dispatch (rt_bios m) (rt_cpu m) p (gpr (rt_cpu m) ! 9)) = bios_handled)"

text \<open>Whether a call is handled depends on the table, the selector and \<open>a0\<close> alone.\<close>

definition handled_call :: "u32 \<Rightarrow> u32 \<Rightarrow> u32 \<Rightarrow> bool" where
  "handled_call t sel a0 \<longleftrightarrow>
     t = kBiosA0 \<and> sel \<in> {kA0InitHeap, kA0RemoveIso9660, kA0RemoveIso9660Alias} \<or>
     t = kBiosB0 \<and> sel \<in> {kB0HookEntryInt, kB0ChangeClearPad} \<or>
     t = kBiosC0 \<and> sel = kC0ChangeClearRCnt \<and> unat a0 < 4"

lemma dispatch_handled_iff:
  "bios_wf bios \<Longrightarrow> fst (dispatch bios cpu t sel) = bios_handled \<longleftrightarrow> handled_call t sel (gpr cpu ! 4)"
  by (auto simp: dispatch_def handled_call_def bios_wf_def Let_def bios_constants)

lemma dispatch_registers:
  assumes "dispatch bios cpu t sel = (bios_handled, bios', cpu')" "length (gpr cpu) = 32"
  shows "pc cpu' = gpr cpu ! 31" "gpr cpu' ! 31 = gpr cpu ! 31" "gpr cpu' ! 9 = gpr cpu ! 9"
    "gpr cpu' ! 4 = gpr cpu ! 4" "pending_load cpu' = pending_load cpu"
  using dispatch_handled [OF assms(1)] assms(2) by (auto simp: nth_list_update)

lemma bios_continue:
  assumes "loop_wf options st" "guest_to_physical (pc (rt_cpu (machine st))) = Some p" "is_bios_table p"
    "boot_iteration options st = Continue st'"
  shows "pc (rt_cpu (machine st')) = gpr (rt_cpu (machine st')) ! 31"
    "gpr (rt_cpu (machine st')) ! 31 = gpr (rt_cpu (machine st)) ! 31"
    "gpr (rt_cpu (machine st')) ! 9 = gpr (rt_cpu (machine st)) ! 9"
    "gpr (rt_cpu (machine st')) ! 4 = gpr (rt_cpu (machine st)) ! 4"
    "instructions_retired (report st') = instructions_retired (report st)"
proof -
  let ?s = "st\<lparr>report := (report st)\<lparr>last_pc := pc (rt_cpu (machine st))\<rparr>\<rparr>"
  note f = bios_iteration_fields [where options = options and p = p and st = ?s]
  have l: "length (gpr (rt_cpu (machine st))) = 32"
    using assms(1) by (simp add: loop_wf_def machine_wf_def cpu_wf_length)
  have it: "bios_iteration options p ?s = Continue st'"
    using assms(2-4) by (simp add: boot_iteration_def)
  obtain a bios' cpu' where d: "dispatch (rt_bios (machine st)) (rt_cpu (machine st)) p
      (gpr (rt_cpu (machine st)) ! 9) = (a, bios', cpu')" by (metis prod_cases3)
  have a: "a = bios_handled" using f(1) it d by simp
  have m: "rt_cpu (machine st') = cpu'" using f(2) it d by simp
  note r = dispatch_registers [OF d [unfolded a] l]
  show "pc (rt_cpu (machine st')) = gpr (rt_cpu (machine st')) ! 31"
    "gpr (rt_cpu (machine st')) ! 31 = gpr (rt_cpu (machine st)) ! 31"
    "gpr (rt_cpu (machine st')) ! 9 = gpr (rt_cpu (machine st)) ! 9"
    "gpr (rt_cpu (machine st')) ! 4 = gpr (rt_cpu (machine st)) ! 4"
    using r by (simp_all add: m)
  show "instructions_retired (report st') = instructions_retired (report st)"
    using f(3) it by simp
qed

lemma instruction_continue:
  assumes "loop_wf options st" "instructions_retired (report st) < instruction_budget options"
    "\<not> at_bios_table (machine st)" "boot_iteration options st = Continue st'"
  shows "instructions_retired (report st') = instructions_retired (report st) + 1"
proof -
  let ?s = "st\<lparr>report := (report st)\<lparr>last_pc := pc (rt_cpu (machine st))\<rparr>\<rparr>"
  let ?o = "observe_instruction options ?s"
  have it: "instruction_iteration options ?s = Continue st'"
    using assms(3,4) by (cases rule: boot_iteration_split [of st options]) (simp_all add: at_bios_table_def)
  obtain step cpu' b' where s: "step_r3000a ps1_bus (rt_cpu (machine ?o)) (rt_bus (machine ?o)) = (step, cpu', b')"
    by (metis prod_cases3)
  define o2 where "o2 = ?o\<lparr>machine := (machine ?o)\<lparr>rt_cpu := cpu', rt_bus := b'\<rparr>\<rparr>"
  have "retired_iteration options o2 = Continue st'"
    using it by (simp add: instruction_iteration_def s [simplified] o2_def Let_def split: if_splits)
  moreover have "instructions_retired (report o2) = instructions_retired (report st)"
    "speculative_mmio_count (report o2) \<le> instructions_retired (report o2)"
    "instructions_since_progress o2 \<le> instructions_retired (report o2)"
    using assms(1) by (simp_all add: o2_def loop_wf_def counters_bounded_def)
  ultimately show ?thesis
    using retired_iteration_fields(2) [where options = options and st = o2] assms(2) by simp
qed

lemma bios_self_return_iff:
  assumes "machine_wf m"
  shows "bios_self_return m \<longleftrightarrow> pc (rt_cpu m) = gpr (rt_cpu m) ! 31 \<and>
    (\<exists>p. guest_to_physical (pc (rt_cpu m)) = Some p \<and> is_bios_table p \<and>
       handled_call p (gpr (rt_cpu m) ! 9) (gpr (rt_cpu m) ! 4))"
  using assms by (auto simp: bios_self_return_def machine_wf_def dispatch_handled_iff split: option.splits)

lemma bios_continue_handled:
  assumes "loop_wf options st" "guest_to_physical (pc (rt_cpu (machine st))) = Some p" "is_bios_table p"
  shows "(\<exists>st'. boot_iteration options st = Continue st') \<longleftrightarrow>
    handled_call p (gpr (rt_cpu (machine st)) ! 9) (gpr (rt_cpu (machine st)) ! 4)"
proof -
  let ?s = "st\<lparr>report := (report st)\<lparr>last_pc := pc (rt_cpu (machine st))\<rparr>\<rparr>"
  have "bios_wf (rt_bios (machine st))" using assms(1) by (simp add: loop_wf_def machine_wf_def)
  then have "is_Continue (bios_iteration options p ?s) \<longleftrightarrow>
      handled_call p (gpr (rt_cpu (machine st)) ! 9) (gpr (rt_cpu (machine st)) ! 4)"
    by (simp add: bios_iteration_fields dispatch_handled_iff)
  moreover have "boot_iteration options st = bios_iteration options p ?s"
    using assms(2,3) by (simp add: boot_iteration_def)
  ultimately show ?thesis by (metis boot_flow.collapse(1) boot_flow.disc(1))
qed

lemma spin_forever:
  assumes "boot_reaches options st st'" "loop_wf options st" "bios_self_return (machine st)"
    "instructions_retired (report st) < instruction_budget options"
  shows "loop_wf options st' \<and> bios_self_return (machine st') \<and>
    instructions_retired (report st') < instruction_budget options \<and>
    (\<exists>st''. boot_iteration options st' = Continue st'')"
  using assms(1)
proof induction
  case reaches_start
  have "machine_wf (machine st)" using assms(2) by (simp add: loop_wf_def)
  then show ?case using assms bios_continue_handled [OF assms(2)] by (auto simp: bios_self_return_iff)
next
  case (reaches_step st1 st2)
  then have wf: "loop_wf options st1" "loop_wf options st2" using boot_iteration_wf(1) by blast+
  then have m: "machine_wf (machine st1)" "machine_wf (machine st2)" by (simp_all add: loop_wf_def)
  obtain p where p: "guest_to_physical (pc (rt_cpu (machine st1))) = Some p" "is_bios_table p"
    "pc (rt_cpu (machine st1)) = gpr (rt_cpu (machine st1)) ! 31"
    "handled_call p (gpr (rt_cpu (machine st1)) ! 9) (gpr (rt_cpu (machine st1)) ! 4)"
    using reaches_step.IH m(1) by (auto simp: bios_self_return_iff)
  note c = bios_continue [OF wf(1) p(1,2) reaches_step.hyps(3)]
  have "guest_to_physical (pc (rt_cpu (machine st2))) = Some p" using c p by simp
  then show ?case
    using c p m wf reaches_step.IH bios_continue_handled [OF wf(2)]
    by (simp add: bios_self_return_iff)
qed

lemma self_return_diverges:
  assumes "boot_reaches options st st'" "loop_wf options st" "bios_self_return (machine st')"
    "instructions_retired (report st') < instruction_budget options"
  shows "run_loop options st = None"
proof -
  have wf: "loop_wf options st'" by (rule boot_reaches_wf [OF assms(1,2)])
  have "\<not> boot_halts options st' r" for r
  proof
    assume "boot_halts options st' r"
    then show False
      by cases (use spin_forever [OF _ wf assms(3,4)] in fastforce)+
  qed
  then have "run_loop options st' = None" using run_loop_iff_halts by (metis not_None_eq)
  then show ?thesis by (simp add: run_loop_reaches [OF assms(1)])
qed

lemma returns_or_spins:
  assumes "loop_wf options st"
  shows "(\<exists>r. run_loop options st = Some r) \<or>
    (\<exists>st'. boot_reaches options st st' \<and> bios_self_return (machine st') \<and>
       instructions_retired (report st') < instruction_budget options)"
  using assms
proof (induction "unat (instruction_budget options) - unat (instructions_retired (report st))"
    arbitrary: st rule: less_induct)
  case less
  let ?spins = "\<lambda>st. \<exists>st'. boot_reaches options st st' \<and> bios_self_return (machine st') \<and>
       instructions_retired (report st') < instruction_budget options"
  have instr: "(\<exists>r. run_loop options st1 = Some r) \<or> ?spins st1"
    if "loop_wf options st1" "instructions_retired (report st1) = instructions_retired (report st)"
      "\<not> at_bios_table (machine st1)" for st1
  proof (cases "instructions_retired (report st1) < instruction_budget options")
    case False
    then show ?thesis by (subst run_loop.simps) simp
  next
    case True
    show ?thesis
    proof (cases "boot_iteration options st1")
      case (Return r)
      with True show ?thesis by (subst run_loop.simps) simp
    next
      case (Continue st2)
      have r: "instructions_retired (report st2) = instructions_retired (report st) + 1"
        using instruction_continue [OF that(1) True that(3) Continue] that(2) by simp
      have "unat (instructions_retired (report st)) < unat (instruction_budget options)"
        using True that(2) by (simp add: word_less_nat_alt)
      then have "unat (instruction_budget options) - unat (instructions_retired (report st2)) <
          unat (instruction_budget options) - unat (instructions_retired (report st))"
        using True that(2) by (simp add: r unat_inc)
      then have "(\<exists>r. run_loop options st2 = Some r) \<or> ?spins st2"
        by (rule less.hyps [OF _ boot_iteration_wf(1) [OF that(1) True Continue]])
      moreover have "run_loop options st1 = run_loop options st2"
        by (rule run_loop_reaches [OF reaches_step [OF reaches_start True Continue]])
      ultimately show ?thesis using boot_reaches_first [OF True Continue] by auto
    qed
  qed
  show ?case
  proof (cases "at_bios_table (machine st) \<and> instructions_retired (report st) < instruction_budget options")
    case False
    show ?thesis
    proof (cases "at_bios_table (machine st)")
      case True
      with False show ?thesis by (subst run_loop.simps) simp
    next
      case False
      with instr [OF less.prems] show ?thesis by simp
    qed
  next
    case True
    then obtain p where p: "guest_to_physical (pc (rt_cpu (machine st))) = Some p" "is_bios_table p"
      and lt: "instructions_retired (report st) < instruction_budget options"
      by (auto simp: at_bios_table_def split: option.splits)
    show ?thesis
    proof (cases "boot_iteration options st")
      case (Return r)
      with lt show ?thesis by (subst run_loop.simps) simp
    next
      case (Continue st1)
      note c = bios_continue [OF less.prems p Continue]
      have wf: "loop_wf options st1" by (rule boot_iteration_wf(1) [OF less.prems lt Continue])
      have eq: "run_loop options st = run_loop options st1"
        and reach: "boot_reaches options st st1"
        using run_loop_reaches reaches_step [OF reaches_start lt Continue] by blast+
      show ?thesis
      proof (cases "at_bios_table (machine st1)")
        case False
        with instr [OF wf c(5)] eq show ?thesis using boot_reaches_first [OF lt Continue] by auto
      next
        case True
        then obtain q where q: "guest_to_physical (pc (rt_cpu (machine st1))) = Some q" "is_bios_table q"
          by (auto simp: at_bios_table_def split: option.splits)
        show ?thesis
        proof (cases "boot_iteration options st1")
          case (Return r)
          with lt c(5) have "run_loop options st1 = Some r" by (subst run_loop.simps) simp
          with eq show ?thesis by simp
        next
          case (Continue st2)
          then have "handled_call q (gpr (rt_cpu (machine st1)) ! 9) (gpr (rt_cpu (machine st1)) ! 4)"
            using bios_continue_handled [OF wf q] by blast
          then have "bios_self_return (machine st1)"
            using wf q c(1) by (simp add: bios_self_return_iff loop_wf_def)
          with reach lt c(5) show ?thesis by auto
        qed
      qed
    qed
  qed
qed

section \<open>The diagnostic fallback\<close>

definition fallback_value :: "Ps1BiosFallback \<Rightarrow> u32 \<Rightarrow> u32" where
  "fallback_value f v0 = (case f of return_zero \<Rightarrow> 0 | return_one \<Rightarrow> 1
     | return_minus_one \<Rightarrow> 0xFFFFFFFF | preserve_v0 \<Rightarrow> v0)"

lemma fallback_accepts:
  assumes "machine_wf rt" "diagnostic_bios_frontier_pending rt" "at_bios_table rt"
  shows "\<exists>rt'. apply_diagnostic_bios_fallback f rt = (True, rt') \<and> machine_wf rt' \<and>
     rt_bus rt' = rt_bus rt \<and> rt_bios rt' = rt_bios rt \<and> \<not> diagnostic_bios_frontier_pending rt' \<and>
     pc (rt_cpu rt') = gpr (rt_cpu rt) ! 31 \<and>
     (\<forall>i<32. gpr (rt_cpu rt') ! i =
        (if i = 2 then fallback_value f (gpr (rt_cpu rt) ! 2) else gpr (rt_cpu rt) ! i))"
proof -
  obtain p where p: "guest_to_physical (pc (rt_cpu rt)) = Some p" "is_bios_table p"
    using assms(3) by (auto simp: at_bios_table_def split: option.splits)
  define cpu where "cpu = (case f of
                             return_zero \<Rightarrow> (rt_cpu rt)\<lparr>gpr := (gpr (rt_cpu rt))[2 := 0]\<rparr>
                           | return_one \<Rightarrow> (rt_cpu rt)\<lparr>gpr := (gpr (rt_cpu rt))[2 := 1]\<rparr>
                           | return_minus_one \<Rightarrow> (rt_cpu rt)\<lparr>gpr := (gpr (rt_cpu rt))[2 := 0xFFFFFFFF]\<rparr>
                           | preserve_v0 \<Rightarrow> (rt_cpu rt))"
  have w: "length (gpr (rt_cpu rt)) = 32" "gpr (rt_cpu rt) ! 0 = 0" "cpu_wf (rt_cpu rt)"
    using assms(1) by (simp_all add: machine_wf_def cpu_wf_def)
  have g: "gpr cpu = (gpr (rt_cpu rt))[2 := fallback_value f (gpr (rt_cpu rt) ! 2)]"
    "pending_load cpu = pending_load (rt_cpu rt)"
    by (simp_all add: cpu_def fallback_value_def split: Ps1BiosFallback.split)
  have wf: "cpu_wf cpu" using w by (simp add: cpu_wf_def g)
  have a: "apply_diagnostic_bios_fallback f rt =
      (True, rt\<lparr>rt_cpu := return_from_bios_call cpu, diagnostic_bios_frontier_pending := False\<rparr>)"
    using assms(2) p by (simp add: apply_diagnostic_bios_fallback_def cpu_def Let_def)
  show ?thesis
    unfolding a using assms(1) wf w
    by (auto simp: machine_wf_def g return_from_bios_call_pc_wf nth_list_update intro: wf_intros)
qed

lemma fallback_refuses:
  "\<not> diagnostic_bios_frontier_pending rt \<Longrightarrow> apply_diagnostic_bios_fallback f rt = (False, rt)"
  by (simp add: apply_diagnostic_bios_fallback_def)

end
