(* ===== verification/Ps1_Explorer.thy ===== *)
theory Ps1_Explorer
  imports Ps1_Runtime_Props
begin

text \<open>
  The boot explorer (\<^verbatim>\<open>src/src/core/ps1_max3_explorer.h\<close>,
  \<^verbatim>\<open>ps1_max3_explorer.cpp\<close>): a depth-first search over the four answers an
  unimplemented BIOS call may be given, bounded by nodes, depth and retired instructions.
  \<open>visit\<close> recurses in the code; here its body takes the recursive call as an argument and
  \<open>visit\<close> ties the knot over the number of levels left, which the depth test makes
  sufficient.  A result None means that a run of the machine did not return.
\<close>

unbundle bit_operations_syntax

section \<open>Data\<close>

datatype Ps1Max3DependencyKind = bios_frontier | speculative_mmio

datatype Ps1Max3TerminationReason = completed | node_limit | total_retired_limit

record Ps1Max3Options =
  max_nodes :: nat
  max_branch_depth :: nat
  max_total_retired :: u64
  segment_options :: Ps1BootOptions

record Ps1Max3Decision =
  dec_table :: u32
  dec_selector :: u32
  dec_fallback :: Ps1BiosFallback

record Ps1Max3NodeSummary =
  node_index :: nat
  node_parent :: "nat option"
  node_depth :: nat
  node_fallback :: "Ps1BiosFallback option"
  node_stop_reason :: Ps1BootStopReason
  segment_retired :: u64
  cumulative_retired :: u64
  node_state_hash :: u64
  deduplicated :: bool
  node_frontier_table :: u32
  node_frontier_selector :: u32
  path_presented_frames :: u64
  path_vram_write_count :: u64
  path_gpu_gp0_command_count :: u64
  path_gpu_gp1_command_count :: u64
  path_cdrom_command_count :: u64
  path_dma_transfer_count :: u64
  path_dependency_count :: nat

record Ps1Max3Dependency =
  dep_kind :: Ps1Max3DependencyKind
  dep_table :: u32
  dep_selector :: u32
  dep_address :: u32
  dep_width :: u8
  dep_write :: bool

record Ps1Max3Report =
  rep_options :: Ps1Max3Options
  termination_reason :: Ps1Max3TerminationReason
  total_retired :: u64
  nodes :: "Ps1Max3NodeSummary list"
  dependencies :: "Ps1Max3Dependency list"
  best_node :: nat
  best_path :: "Ps1Max3Decision list"
  best_report :: Ps1BootReport

record DependencyKey =
  key_kind :: Ps1Max3DependencyKind
  key_first :: u32
  key_second :: u32
  key_width :: u8
  key_write :: bool

record FrontierKey =
  fk_table :: u32
  fk_selector :: u32
  fk_state_hash :: u64

record PathMetrics =
  pm_presented_frames :: u64
  pm_vram_write_count :: u64
  pm_gpu_gp0_command_count :: u64
  pm_gpu_gp1_command_count :: u64
  pm_cdrom_command_count :: u64
  pm_dma_transfer_count :: u64

record Explorer =
  ex_report :: Ps1Max3Report
  global_dependencies :: "DependencyKey set"
  expanded_frontiers :: "FrontierKey set"

definition kFallbackOrder :: "Ps1BiosFallback list" where
  "kFallbackOrder = [return_zero, return_one, return_minus_one, preserve_v0]"

definition no_metrics :: PathMetrics where
  "no_metrics = \<lparr>pm_presented_frames = 0, pm_vram_write_count = 0, pm_gpu_gp0_command_count = 0,
     pm_gpu_gp1_command_count = 0, pm_cdrom_command_count = 0, pm_dma_transfer_count = 0\<rparr>"

definition new_explorer :: "Ps1Max3Options \<Rightarrow> Explorer" where
  "new_explorer options = \<lparr>ex_report = \<lparr>rep_options = options, termination_reason = completed,
       total_retired = 0, nodes = [], dependencies = [], best_node = 0, best_path = [],
       best_report = empty_report\<rparr>,
     global_dependencies = {}, expanded_frontiers = {}\<rparr>"

definition ps1_max3_local_evidence_options :: Ps1Max3Options where
  "ps1_max3_local_evidence_options = \<lparr>max_nodes = 5461, max_branch_depth = 6,
     max_total_retired = 1000000000,
     segment_options = \<lparr>instruction_budget = 0xFFFFFFFFFFFFFFFF, trace_capacity = 131072,
       diagnostic_mmio_probe = True, mmio_event_capacity = 65536, bios_event_capacity = 65536,
       stagnation_instruction_limit = 2000000\<rparr>\<rparr>"

section \<open>Dependencies, metrics, ranking\<close>

definition dependency_key :: "Ps1Max3Dependency \<Rightarrow> DependencyKey" where
  "dependency_key d =
    (if dep_kind d = bios_frontier
     then \<lparr>key_kind = dep_kind d, key_first = dep_table d, key_second = dep_selector d,
           key_width = 0, key_write = False\<rparr>
     else \<lparr>key_kind = dep_kind d, key_first = dep_address d, key_second = 0,
           key_width = dep_width d, key_write = dep_write d\<rparr>)"

definition add_dependency ::
  "Ps1Max3Dependency \<Rightarrow> Explorer \<times> DependencyKey set \<Rightarrow> Explorer \<times> DependencyKey set" where
  "add_dependency d = (\<lambda>(ex, path_dependencies).
    (let key = dependency_key d;
         path_dependencies = insert key path_dependencies;
         ex' = ex\<lparr>global_dependencies := insert key (global_dependencies ex)\<rparr>
     in (if key \<notin> global_dependencies ex
         then ex'\<lparr>ex_report := (ex_report ex')\<lparr>dependencies := dependencies (ex_report ex') @ [d]\<rparr>\<rparr>
         else ex', path_dependencies)))"

definition accumulate_metrics :: "PathMetrics \<Rightarrow> Ps1BootReport \<Rightarrow> PathMetrics" where
  "accumulate_metrics prior segment =
    \<lparr>pm_presented_frames = pm_presented_frames prior + presented_frames segment,
     pm_vram_write_count = pm_vram_write_count prior + vram_write_count segment,
     pm_gpu_gp0_command_count = pm_gpu_gp0_command_count prior + gpu_gp0_command_count segment,
     pm_gpu_gp1_command_count = pm_gpu_gp1_command_count prior + gpu_gp1_command_count segment,
     pm_cdrom_command_count = pm_cdrom_command_count prior + of_nat (length (recent_cdrom_commands segment)),
     pm_dma_transfer_count = pm_dma_transfer_count prior + dma_transfer_count segment\<rparr>"

definition outranks :: "Ps1Max3NodeSummary \<Rightarrow> Ps1Max3NodeSummary \<Rightarrow> bool" where
  "outranks candidate current =
    (if path_presented_frames candidate \<noteq> path_presented_frames current
     then path_presented_frames candidate > path_presented_frames current
     else if path_vram_write_count candidate \<noteq> path_vram_write_count current
     then path_vram_write_count candidate > path_vram_write_count current
     else if path_gpu_gp0_command_count candidate \<noteq> path_gpu_gp0_command_count current
     then path_gpu_gp0_command_count candidate > path_gpu_gp0_command_count current
     else if path_gpu_gp1_command_count candidate \<noteq> path_gpu_gp1_command_count current
     then path_gpu_gp1_command_count candidate > path_gpu_gp1_command_count current
     else if path_cdrom_command_count candidate \<noteq> path_cdrom_command_count current
     then path_cdrom_command_count candidate > path_cdrom_command_count current
     else if path_dma_transfer_count candidate \<noteq> path_dma_transfer_count current
     then path_dma_transfer_count candidate > path_dma_transfer_count current
     else if path_dependency_count candidate \<noteq> path_dependency_count current
     then path_dependency_count candidate > path_dependency_count current
     else cumulative_retired candidate > cumulative_retired current)"

section \<open>The search\<close>

text \<open>The parameters of \<open>visit\<close> besides the explorer itself.\<close>

record visit_args =
  va_runtime :: Ps1BootRuntime
  va_depth :: nat
  va_parent :: "nat option"
  va_fallback :: "Ps1BiosFallback option"
  va_cumulative :: u64
  va_metrics :: PathMetrics
  va_path :: "Ps1Max3Decision list"
  va_dependencies :: "DependencyKey set"

definition set_reason :: "Ps1Max3TerminationReason \<Rightarrow> Explorer \<Rightarrow> Explorer" where
  "set_reason r ex = ex\<lparr>ex_report := (ex_report ex)\<lparr>termination_reason := r\<rparr>\<rparr>"

definition segment_budget :: "Ps1Max3Options \<Rightarrow> Explorer \<Rightarrow> Ps1BootOptions" where
  "segment_budget options ex =
    (let remaining = (if max_total_retired options \<ge> total_retired (ex_report ex)
                      then max_total_retired options - total_retired (ex_report ex) else 0)
     in (segment_options options)\<lparr>instruction_budget :=
          min (instruction_budget (segment_options options)) remaining\<rparr>)"

definition mmio_dependencies :: "Ps1BootReport \<Rightarrow> Ps1Max3Dependency list" where
  "mmio_dependencies segment =
    map (\<lambda>m. \<lparr>dep_kind = speculative_mmio, dep_table = 0, dep_selector = 0,
               dep_address = mmio_address m, dep_width = mmio_width m, dep_write = mmio_write m\<rparr>)
      (filter mmio_speculative (recent_mmio segment))"

text \<open>The BIOS call the segment stopped at, if it stopped at one.\<close>

definition frontier_of :: "Ps1BootReport \<Rightarrow> Ps1BootRuntime \<Rightarrow> (u32 \<times> u32) option" where
  "frontier_of segment runtime =
    (if stop_reason segment = bios_call_unimplemented
     then case guest_to_physical (pc (rt_cpu runtime)) of
            None \<Rightarrow> None
          | Some physical \<Rightarrow>
              if is_bios_table physical then Some (physical, gpr (rt_cpu runtime) ! 9) else None
     else None)"

text \<open>Everything \<open>visit\<close> does between the run and the search: dependencies, the node, its rank.\<close>

definition record_segment ::
  "Ps1BootReport \<Rightarrow> Ps1BootRuntime \<Rightarrow> visit_args \<Rightarrow> Explorer \<Rightarrow> Explorer \<times> DependencyKey set" where
  "record_segment segment runtime args ex =
    (let ex = ex\<lparr>ex_report := (ex_report ex)\<lparr>total_retired :=
                 total_retired (ex_report ex) + instructions_retired segment\<rparr>\<rparr>;
         (ex, deps) = fold add_dependency (mmio_dependencies segment) (ex, va_dependencies args)
     in case frontier_of segment runtime of
          None \<Rightarrow> (ex, deps)
        | Some (tbl, sel) \<Rightarrow>
            add_dependency \<lparr>dep_kind = bios_frontier, dep_table = tbl, dep_selector = sel,
              dep_address = 0, dep_width = 0, dep_write = False\<rparr> (ex, deps))"

definition summarize ::
  "Ps1BootReport \<Rightarrow> Ps1BootRuntime \<Rightarrow> visit_args \<Rightarrow> nat \<Rightarrow> nat \<Rightarrow> Ps1Max3NodeSummary" where
  "summarize segment runtime args index dependency_count =
    (let metrics = accumulate_metrics (va_metrics args) segment
     in \<lparr>node_index = index, node_parent = va_parent args, node_depth = va_depth args,
         node_fallback = va_fallback args, node_stop_reason = stop_reason segment,
         segment_retired = instructions_retired segment,
         cumulative_retired = va_cumulative args + instructions_retired segment,
         node_state_hash = runtime_diagnostic_state_hash runtime, deduplicated = False,
         node_frontier_table = (case frontier_of segment runtime of None \<Rightarrow> 0 | Some f \<Rightarrow> fst f),
         node_frontier_selector = (case frontier_of segment runtime of None \<Rightarrow> 0 | Some f \<Rightarrow> snd f),
         path_presented_frames = pm_presented_frames metrics,
         path_vram_write_count = pm_vram_write_count metrics,
         path_gpu_gp0_command_count = pm_gpu_gp0_command_count metrics,
         path_gpu_gp1_command_count = pm_gpu_gp1_command_count metrics,
         path_cdrom_command_count = pm_cdrom_command_count metrics,
         path_dma_transfer_count = pm_dma_transfer_count metrics,
         path_dependency_count = dependency_count\<rparr>)"

definition push_node ::
  "Ps1Max3Options \<Rightarrow> bool \<Rightarrow> Ps1Max3NodeSummary \<Rightarrow> Explorer \<Rightarrow> bool \<times> Explorer" where
  "push_node options has_frontier summary ex =
    (let index = node_index summary;
         ex = ex\<lparr>ex_report := (ex_report ex)\<lparr>nodes := nodes (ex_report ex) @ [summary]\<rparr>\<rparr>
     in if has_frontier \<and> node_depth summary < max_branch_depth options
        then let key = \<lparr>fk_table = node_frontier_table summary,
                        fk_selector = node_frontier_selector summary,
                        fk_state_hash = node_state_hash summary\<rparr>
             in if key \<in> expanded_frontiers ex
                then (False, ex\<lparr>ex_report := (ex_report ex)\<lparr>nodes :=
                        (nodes (ex_report ex))[index := (nodes (ex_report ex) ! index)\<lparr>deduplicated := True\<rparr>]\<rparr>\<rparr>)
                else (True, ex\<lparr>expanded_frontiers := insert key (expanded_frontiers ex)\<rparr>)
        else (False, ex))"

definition rank_node ::
  "nat \<Rightarrow> Ps1Max3Decision list \<Rightarrow> Ps1BootReport \<Rightarrow> Explorer \<Rightarrow> Explorer" where
  "rank_node index path segment ex =
    (if length (nodes (ex_report ex)) = 1 \<or>
        outranks (nodes (ex_report ex) ! index) (nodes (ex_report ex) ! best_node (ex_report ex))
     then ex\<lparr>ex_report := (ex_report ex)\<lparr>best_node := index, best_path := path, best_report := segment\<rparr>\<rparr>
     else ex)"

text \<open>The loop over the four fallbacks; \<open>recurse\<close> is the recursive call.\<close>

fun expand ::
  "Ps1Max3Options \<Rightarrow> (visit_args \<Rightarrow> Explorer \<Rightarrow> Explorer option) \<Rightarrow>
   (Ps1BiosFallback \<Rightarrow> Ps1BootRuntime \<Rightarrow> visit_args) \<Rightarrow> Ps1BootRuntime \<Rightarrow>
   Ps1BiosFallback list \<Rightarrow> Explorer \<Rightarrow> Explorer option" where
  "expand options recurse child_args runtime [] ex = Some ex"
| "expand options recurse child_args runtime (policy # policies) ex =
    (if length (nodes (ex_report ex)) \<ge> max_nodes options then Some (set_reason node_limit ex)
     else if total_retired (ex_report ex) \<ge> max_total_retired options
     then Some (set_reason total_retired_limit ex)
     else
       let (applied, child) = apply_diagnostic_bios_fallback policy runtime
       in if \<not> applied then expand options recurse child_args runtime policies ex
          else case recurse (child_args policy child) ex of
                 None \<Rightarrow> None
               | Some ex' \<Rightarrow>
                   if termination_reason (ex_report ex') \<noteq> completed then Some ex'
                   else expand options recurse child_args runtime policies ex')"

definition visit_segment ::
  "Ps1Max3Options \<Rightarrow> (visit_args \<Rightarrow> Explorer \<Rightarrow> Explorer option) \<Rightarrow> visit_args \<Rightarrow>
   Ps1BootReport \<Rightarrow> Ps1BootRuntime \<Rightarrow> Explorer \<Rightarrow> Explorer option" where
  "visit_segment options recurse args segment runtime ex =
    (let (ex, deps) = record_segment segment runtime args ex;
         index = length (nodes (ex_report ex));
         summary = summarize segment runtime args index (card deps);
         (can_expand, ex) = push_node options (frontier_of segment runtime \<noteq> None) summary ex;
         ex = rank_node index (va_path args) segment ex
     in if total_retired (ex_report ex) \<ge> max_total_retired options
        then Some (set_reason total_retired_limit ex)
        else if \<not> can_expand then Some ex
        else expand options recurse
               (\<lambda>policy child. \<lparr>va_runtime = child, va_depth = va_depth args + 1,
                  va_parent = Some index, va_fallback = Some policy,
                  va_cumulative = cumulative_retired summary,
                  va_metrics = accumulate_metrics (va_metrics args) segment,
                  va_path = va_path args @ [\<lparr>dec_table = node_frontier_table summary,
                    dec_selector = node_frontier_selector summary, dec_fallback = policy\<rparr>],
                  va_dependencies = deps\<rparr>)
               runtime kFallbackOrder ex)"

definition visit_body ::
  "Ps1Max3Options \<Rightarrow> (visit_args \<Rightarrow> Explorer \<Rightarrow> Explorer option) \<Rightarrow> visit_args \<Rightarrow> Explorer \<Rightarrow> Explorer option" where
  "visit_body options recurse args ex =
    (if termination_reason (ex_report ex) \<noteq> completed then Some ex
     else if length (nodes (ex_report ex)) \<ge> max_nodes options then Some (set_reason node_limit ex)
     else if nodes (ex_report ex) \<noteq> [] \<and> total_retired (ex_report ex) \<ge> max_total_retired options
     then Some (set_reason total_retired_limit ex)
     else
       case boot_run (segment_budget options ex) (va_runtime args) of
         None \<Rightarrow> None
       | Some (segment, runtime) \<Rightarrow> visit_segment options recurse args segment runtime ex)"

primrec visit :: "nat \<Rightarrow> Ps1Max3Options \<Rightarrow> visit_args \<Rightarrow> Explorer \<Rightarrow> Explorer option" where
  "visit 0 options = visit_body options (\<lambda>args ex. None)"
| "visit (Suc n) options = visit_body options (visit n options)"

definition explore_ps1_max3 :: "Ps1Executable \<Rightarrow> Ps1Max3Options \<Rightarrow> Ps1Max3Report result option" where
  "explore_ps1_max3 executable options =
    (if max_nodes options = 0
     then Some (failure invalid_argument ''PS1 MAX3 max_nodes must be greater than zero'')
     else case boot_create executable of
            Inl e \<Rightarrow> Some (Inl e)
          | Inr root \<Rightarrow>
              map_option (\<lambda>ex. success (ex_report ex))
                (visit (max_branch_depth options) options
                  \<lparr>va_runtime = root, va_depth = 0, va_parent = None, va_fallback = None,
                   va_cumulative = 0, va_metrics = no_metrics, va_path = [], va_dependencies = {}\<rparr>
                  (new_explorer options)))"

end
