(* ===== verification/Ps1_Explorer_Props.thy ===== *)
theory Ps1_Explorer_Props
  imports Ps1_Explorer "HOL-Library.Product_Lexorder"
begin

text \<open>
  Correctness of the exploration: ranking is a linear order on keys, the recorded dependencies
  are the distinct keys seen, the node list is a tree with parents before children, the best node
  is outranked by none, the counters respect the limits.  The recursive call is abstracted by
  the locale \<open>visit_contract\<close>; \<open>visit\<close> satisfies it at every level, and the
  levels it is given are enough.  \<open>tree_size\<close> bounds the nodes of a search.
\<close>

unbundle bit_operations_syntax

section \<open>Ranking is a linear order on keys\<close>

definition rank_key :: "Ps1Max3NodeSummary \<Rightarrow> u64 \<times> u64 \<times> u64 \<times> u64 \<times> u64 \<times> u64 \<times> nat \<times> u64" where
  "rank_key n = (path_presented_frames n, path_vram_write_count n, path_gpu_gp0_command_count n,
     path_gpu_gp1_command_count n, path_cdrom_command_count n, path_dma_transfer_count n,
     path_dependency_count n, cumulative_retired n)"

lemma outranks_key: "outranks a b \<longleftrightarrow> rank_key b < rank_key a"
  by (simp add: outranks_def rank_key_def less_prod_def) (auto simp: less_le)

lemma rank_key_dedup [simp]: "rank_key (n\<lparr>deduplicated := x\<rparr>) = rank_key n"
  by (simp add: rank_key_def)

section \<open>Dependencies\<close>

text \<open>The recorded dependencies are the first occurrence of each key seen on any path.\<close>

definition deps_wf :: "Explorer \<Rightarrow> bool" where
  "deps_wf ex \<longleftrightarrow> distinct (map dependency_key (dependencies (ex_report ex))) \<and>
     dependency_key ` set (dependencies (ex_report ex)) = global_dependencies ex"

definition same_search :: "Explorer \<Rightarrow> Explorer \<Rightarrow> bool" where
  "same_search ex ex' \<longleftrightarrow> nodes (ex_report ex') = nodes (ex_report ex) \<and>
     best_node (ex_report ex') = best_node (ex_report ex) \<and>
     termination_reason (ex_report ex') = termination_reason (ex_report ex) \<and>
     expanded_frontiers ex' = expanded_frontiers ex"

lemma same_search_trans: "same_search a b \<Longrightarrow> same_search b c \<Longrightarrow> same_search a c"
  by (simp add: same_search_def)

lemma add_dependency_same:
  "add_dependency d (ex, ds) = (ex', ds') \<Longrightarrow>
    same_search ex ex' \<and> total_retired (ex_report ex') = total_retired (ex_report ex)"
  by (cases "dependency_key d \<in> global_dependencies ex") (auto simp: add_dependency_def same_search_def Let_def)

lemma add_dependency_wf:
  assumes "add_dependency d (ex, ds) = (ex', ds')" "deps_wf ex" "ds \<subseteq> global_dependencies ex" "finite ds"
  shows "deps_wf ex' \<and> ds' \<subseteq> global_dependencies ex' \<and> finite ds' \<and>
    global_dependencies ex \<subseteq> global_dependencies ex'"
  using assms
  by (cases "dependency_key d \<in> global_dependencies ex")
     (auto simp: add_dependency_def deps_wf_def Let_def, blast)

lemma fold_add_dependency:
  assumes "fold add_dependency xs (ex, ds) = (ex', ds')"
  shows "same_search ex ex' \<and> total_retired (ex_report ex') = total_retired (ex_report ex)"
    "deps_wf ex \<Longrightarrow> ds \<subseteq> global_dependencies ex \<Longrightarrow> finite ds \<Longrightarrow>
      deps_wf ex' \<and> ds' \<subseteq> global_dependencies ex' \<and> finite ds' \<and>
      global_dependencies ex \<subseteq> global_dependencies ex'"
proof -
  have "same_search ex ex' \<and> total_retired (ex_report ex') = total_retired (ex_report ex) \<and>
    (deps_wf ex \<longrightarrow> ds \<subseteq> global_dependencies ex \<longrightarrow> finite ds \<longrightarrow>
      deps_wf ex' \<and> ds' \<subseteq> global_dependencies ex' \<and> finite ds' \<and>
      global_dependencies ex \<subseteq> global_dependencies ex')"
    using assms
  proof (induction xs arbitrary: ex ds)
    case Nil then show ?case by (simp add: same_search_def)
  next
    case (Cons x xs)
    obtain ex1 ds1 where a: "add_dependency x (ex, ds) = (ex1, ds1)" by fastforce
    with Cons.prems have "fold add_dependency xs (ex1, ds1) = (ex', ds')" by simp
    from Cons.IH [OF this] add_dependency_same [OF a] add_dependency_wf [OF a]
    show ?case by (auto intro: same_search_trans)
  qed
  then show "same_search ex ex' \<and> total_retired (ex_report ex') = total_retired (ex_report ex)"
    "deps_wf ex \<Longrightarrow> ds \<subseteq> global_dependencies ex \<Longrightarrow> finite ds \<Longrightarrow>
      deps_wf ex' \<and> ds' \<subseteq> global_dependencies ex' \<and> finite ds' \<and>
      global_dependencies ex \<subseteq> global_dependencies ex'" by auto
qed

lemma record_segment_fields:
  assumes "record_segment segment runtime args ex = (ex', deps)"
  shows "same_search ex ex'"
    "total_retired (ex_report ex') = total_retired (ex_report ex) + instructions_retired segment"
    "deps_wf ex \<Longrightarrow> va_dependencies args \<subseteq> global_dependencies ex \<Longrightarrow> finite (va_dependencies args) \<Longrightarrow>
      deps_wf ex' \<and> deps \<subseteq> global_dependencies ex' \<and> finite deps \<and>
      global_dependencies ex \<subseteq> global_dependencies ex'"
proof -
  define ex0 where "ex0 = ex\<lparr>ex_report := (ex_report ex)\<lparr>total_retired :=
                 total_retired (ex_report ex) + instructions_retired segment\<rparr>\<rparr>"
  obtain ex1 ds1 where f: "fold add_dependency (mmio_dependencies segment) (ex0, va_dependencies args) = (ex1, ds1)"
    by fastforce
  have 0: "same_search ex ex0" "total_retired (ex_report ex0) = total_retired (ex_report ex) + instructions_retired segment"
    "deps_wf ex0 = deps_wf ex" "global_dependencies ex0 = global_dependencies ex"
    by (simp_all add: ex0_def same_search_def deps_wf_def)
  have e: "(ex', deps) = (case frontier_of segment runtime of
          None \<Rightarrow> (ex1, ds1)
        | Some (tbl, sel) \<Rightarrow>
            add_dependency \<lparr>dep_kind = bios_frontier, dep_table = tbl, dep_selector = sel,
              dep_address = 0, dep_width = 0, dep_write = False\<rparr> (ex1, ds1))"
    using assms f
    by (cases "frontier_of segment runtime") (simp_all add: record_segment_def ex0_def Let_def split: prod.splits)
  have 2: "same_search ex1 ex' \<and> total_retired (ex_report ex') = total_retired (ex_report ex1) \<and>
    (deps_wf ex1 \<longrightarrow> ds1 \<subseteq> global_dependencies ex1 \<longrightarrow> finite ds1 \<longrightarrow>
      deps_wf ex' \<and> deps \<subseteq> global_dependencies ex' \<and> finite deps \<and>
      global_dependencies ex1 \<subseteq> global_dependencies ex')"
  proof (cases "frontier_of segment runtime")
    case None with e show ?thesis by (simp add: same_search_def)
  next
    case (Some q)
    with e have "add_dependency \<lparr>dep_kind = bios_frontier, dep_table = fst q, dep_selector = snd q,
              dep_address = 0, dep_width = 0, dep_write = False\<rparr> (ex1, ds1) = (ex', deps)"
      by (simp split: prod.splits)
    from add_dependency_same [OF this] add_dependency_wf [OF this] show ?thesis by blast
  qed
  note 1 = fold_add_dependency [OF f]
  show "same_search ex ex'" 
    by (rule same_search_trans [OF 0(1) same_search_trans [OF conjunct1 [OF 1(1)] conjunct1 [OF 2]]])
  show "total_retired (ex_report ex') = total_retired (ex_report ex) + instructions_retired segment"
    using 0 1 2 by simp
  show "deps_wf ex \<Longrightarrow> va_dependencies args \<subseteq> global_dependencies ex \<Longrightarrow> finite (va_dependencies args) \<Longrightarrow>
      deps_wf ex' \<and> deps \<subseteq> global_dependencies ex' \<and> finite deps \<and>
      global_dependencies ex \<subseteq> global_dependencies ex'"
    using 0(3,4) 1(2) 2 by auto
qed

section \<open>The search invariant\<close>

definition node_wf :: "Ps1Max3Options \<Rightarrow> Ps1Max3NodeSummary list \<Rightarrow> nat \<Rightarrow> bool" where
  "node_wf options ns i \<longleftrightarrow>
     node_index (ns ! i) = i \<and> node_depth (ns ! i) \<le> max_branch_depth options \<and>
     (case node_parent (ns ! i) of
        None \<Rightarrow> i = 0 \<and> node_depth (ns ! i) = 0 \<and>
          cumulative_retired (ns ! i) = segment_retired (ns ! i)
      | Some p \<Rightarrow> p < i \<and> node_depth (ns ! i) = node_depth (ns ! p) + 1 \<and>
          cumulative_retired (ns ! i) = cumulative_retired (ns ! p) + segment_retired (ns ! i))"

definition tree_wf :: "Ps1Max3Options \<Rightarrow> Ps1Max3NodeSummary list \<Rightarrow> bool" where
  "tree_wf options ns \<longleftrightarrow> (\<forall>i<length ns. node_wf options ns i)"

definition best_wf :: "Ps1Max3Report \<Rightarrow> bool" where
  "best_wf rep \<longleftrightarrow> nodes rep \<noteq> [] \<longrightarrow> best_node rep < length (nodes rep) \<and>
     (\<forall>i<length (nodes rep). \<not> outranks (nodes rep ! i) (nodes rep ! best_node rep))"

definition retired_wf :: "Ps1Max3Options \<Rightarrow> Ps1Max3Report \<Rightarrow> bool" where
  "retired_wf options rep \<longleftrightarrow> total_retired rep \<le> max_total_retired options \<and>
     unat (total_retired rep) = (\<Sum>n\<leftarrow>nodes rep. unat (segment_retired n))"

definition reason_wf :: "Ps1Max3Options \<Rightarrow> Ps1Max3Report \<Rightarrow> bool" where
  "reason_wf options rep \<longleftrightarrow>
     (case termination_reason rep of
        completed \<Rightarrow> True
      | node_limit \<Rightarrow> length (nodes rep) = max_nodes options
      | total_retired_limit \<Rightarrow> total_retired rep = max_total_retired options)"

definition explorer_wf :: "Ps1Max3Options \<Rightarrow> Explorer \<Rightarrow> bool" where
  "explorer_wf options ex \<longleftrightarrow>
     length (nodes (ex_report ex)) \<le> max_nodes options \<and> tree_wf options (nodes (ex_report ex)) \<and>
     best_wf (ex_report ex) \<and> retired_wf options (ex_report ex) \<and> reason_wf options (ex_report ex) \<and>
     deps_wf ex"

definition args_wf :: "Ps1Max3Options \<Rightarrow> visit_args \<Rightarrow> Explorer \<Rightarrow> bool" where
  "args_wf options args ex \<longleftrightarrow>
     machine_wf (va_runtime args) \<and> va_depth args \<le> max_branch_depth options \<and>
     finite (va_dependencies args) \<and> va_dependencies args \<subseteq> global_dependencies ex \<and>
     (case va_parent args of
        None \<Rightarrow> nodes (ex_report ex) = [] \<and> va_depth args = 0 \<and> va_cumulative args = 0
      | Some p \<Rightarrow> p < length (nodes (ex_report ex)) \<and>
          va_depth args = node_depth (nodes (ex_report ex) ! p) + 1 \<and>
          va_cumulative args = cumulative_retired (nodes (ex_report ex) ! p))"

definition grows :: "Explorer \<Rightarrow> Explorer \<Rightarrow> bool" where
  "grows ex ex' \<longleftrightarrow> (\<exists>ms. nodes (ex_report ex') = nodes (ex_report ex) @ ms) \<and>
     global_dependencies ex \<subseteq> global_dependencies ex'"

lemma grows_refl [simp]: "grows ex ex" by (simp add: grows_def)

lemma grows_trans: "grows a b \<Longrightarrow> grows b c \<Longrightarrow> grows a c"
  by (fastforce simp: grows_def)

lemma node_wf_append: "i < length ns \<Longrightarrow> node_wf options (ns @ ms) i = node_wf options ns i"
  by (auto simp: node_wf_def nth_append split: option.split)

lemma tree_wf_snoc:
  "tree_wf options (ns @ [n]) \<longleftrightarrow> tree_wf options ns \<and> node_wf options (ns @ [n]) (length ns)"
  by (auto simp: tree_wf_def node_wf_append less_Suc_eq)

lemma set_reason_simps [simp]:
  "nodes (ex_report (set_reason r ex)) = nodes (ex_report ex)"
  "total_retired (ex_report (set_reason r ex)) = total_retired (ex_report ex)"
  "best_node (ex_report (set_reason r ex)) = best_node (ex_report ex)"
  "dependencies (ex_report (set_reason r ex)) = dependencies (ex_report ex)"
  "termination_reason (ex_report (set_reason r ex)) = r"
  "global_dependencies (set_reason r ex) = global_dependencies ex"
  by (simp_all add: set_reason_def)

lemma set_reason_wf:
  assumes "explorer_wf options ex" "r = node_limit \<Longrightarrow> max_nodes options \<le> length (nodes (ex_report ex))"
    "r = total_retired_limit \<Longrightarrow> max_total_retired options \<le> total_retired (ex_report ex)"
  shows "explorer_wf options (set_reason r ex) \<and> grows ex (set_reason r ex)"
  using assms
  by (cases r) (auto simp: explorer_wf_def best_wf_def retired_wf_def reason_wf_def deps_wf_def grows_def)

section \<open>One node\<close>

lemma push_node_fields:
  assumes "push_node options fr summary ex = (can, ex')" "node_index summary = length (nodes (ex_report ex))"
  shows "\<exists>d. nodes (ex_report ex') = nodes (ex_report ex) @ [summary\<lparr>deduplicated := d\<rparr>]"
    "best_node (ex_report ex') = best_node (ex_report ex)"
    "total_retired (ex_report ex') = total_retired (ex_report ex)"
    "termination_reason (ex_report ex') = termination_reason (ex_report ex)"
    "dependencies (ex_report ex') = dependencies (ex_report ex)"
    "global_dependencies ex' = global_dependencies ex"
    "can \<Longrightarrow> fr \<and> node_depth summary < max_branch_depth options"
proof -
  have "\<exists>d. summary = summary\<lparr>deduplicated := d\<rparr>"
    by (rule exI [of _ "deduplicated summary"]) simp
  then show "\<exists>d. nodes (ex_report ex') = nodes (ex_report ex) @ [summary\<lparr>deduplicated := d\<rparr>]"
    using assms by (auto simp: push_node_def Let_def split: if_splits)
  show "best_node (ex_report ex') = best_node (ex_report ex)"
    "total_retired (ex_report ex') = total_retired (ex_report ex)"
    "termination_reason (ex_report ex') = termination_reason (ex_report ex)"
    "dependencies (ex_report ex') = dependencies (ex_report ex)"
    "global_dependencies ex' = global_dependencies ex"
    "can \<Longrightarrow> fr \<and> node_depth summary < max_branch_depth options"
    using assms by (auto simp: push_node_def Let_def split: if_splits)
qed

lemma rank_node_fields:
  fixes index path segment ex defines "ex' \<equiv> rank_node index path segment ex"
  shows "nodes (ex_report ex') = nodes (ex_report ex)" "total_retired (ex_report ex') = total_retired (ex_report ex)"
    "termination_reason (ex_report ex') = termination_reason (ex_report ex)"
    "dependencies (ex_report ex') = dependencies (ex_report ex)"
    "global_dependencies ex' = global_dependencies ex"
    "best_node (ex_report ex') = (if length (nodes (ex_report ex)) = 1 \<or>
        outranks (nodes (ex_report ex) ! index) (nodes (ex_report ex) ! best_node (ex_report ex))
      then index else best_node (ex_report ex))"
  by (simp_all add: ex'_def rank_node_def)

lemma best_wf_snoc:
  assumes "best_wf rep" "nodes rep' = nodes rep @ [n]"
    "best_node rep' = (if length (nodes rep') = 1 \<or>
        outranks (nodes rep' ! length (nodes rep)) (nodes rep' ! best_node rep)
      then length (nodes rep) else best_node rep)"
  shows "best_wf rep'"
proof (cases "nodes rep = []")
  case True
  then show ?thesis using assms(2,3) by (simp add: best_wf_def outranks_key)
next
  case False
  then have b: "best_node rep < length (nodes rep)"
    "\<And>i. i < length (nodes rep) \<Longrightarrow> rank_key (nodes rep ! i) \<le> rank_key (nodes rep ! best_node rep)"
    using assms(1) by (auto simp: best_wf_def outranks_key not_less)
  show ?thesis
    unfolding best_wf_def
  proof (intro impI conjI allI)
    show "best_node rep' < length (nodes rep')" using b(1) assms(2,3) by simp
    fix i assume "i < length (nodes rep')"
    then consider "i < length (nodes rep)" | "i = length (nodes rep)" using assms(2) by fastforce
    then show "\<not> outranks (nodes rep' ! i) (nodes rep' ! best_node rep')"
    proof cases
      case 1
      with b(2) [OF 1] b(1) False assms(2,3) show ?thesis
        by (auto simp: outranks_key nth_append not_less)
    next
      case 2
      with b(1) False assms(2,3) show ?thesis by (auto simp: outranks_key nth_append not_less)
    qed
  qed
qed


lemma word_budget_add:
  fixes t m k :: "'a::len word"
  assumes "t \<le> m" "k \<le> m - t"
  shows "unat (t + k) = unat t + unat k" "unat t + unat k \<le> unat m"
proof -
  have "unat k \<le> unat m - unat t" "unat t \<le> unat m"
    using assms by (simp_all add: word_le_nat_alt unat_sub)
  then show le: "unat t + unat k \<le> unat m" by linarith
  have "unat m < 2 ^ LENGTH('a)" by (rule unsigned_less)
  with le have "unat t + unat k < 2 ^ LENGTH('a)" by (rule le_less_trans)
  then show "unat (t + k) = unat t + unat k" by (simp add: unat_word_ariths)
qed

text \<open>The explorer right after \<open>visit\<close> has run its segment and recorded the node.\<close>

lemma visit_node_wf:
  assumes ex: "explorer_wf options ex" "args_wf options args ex"
    and guards: "termination_reason (ex_report ex) = completed"
      "length (nodes (ex_report ex)) < max_nodes options"
    and run: "boot_run (segment_budget options ex) (va_runtime args) = Some (segment, runtime)"
    and rec: "record_segment segment runtime args ex = (ex1, deps)"
    and summary: "summary = summarize segment runtime args (length (nodes (ex_report ex1))) (card deps)"
    and push: "push_node options fr summary ex1 = (can, ex2)"
    and rank: "ex3 = rank_node (length (nodes (ex_report ex1))) path segment ex2"
  shows "explorer_wf options ex3" "grows ex ex3" "termination_reason (ex_report ex3) = completed"
    "length (nodes (ex_report ex3)) = length (nodes (ex_report ex)) + 1"
    "node_depth (nodes (ex_report ex3) ! length (nodes (ex_report ex1))) = va_depth args"
    "cumulative_retired (nodes (ex_report ex3) ! length (nodes (ex_report ex1))) = cumulative_retired summary"
    "length (nodes (ex_report ex1)) = length (nodes (ex_report ex))"
    "machine_wf runtime" "deps \<subseteq> global_dependencies ex3" "finite deps"
    "can \<Longrightarrow> fr \<and> va_depth args < max_branch_depth options"
proof -
  note r = record_segment_fields [OF rec]
  have same: "nodes (ex_report ex1) = nodes (ex_report ex)" "best_node (ex_report ex1) = best_node (ex_report ex)"
    "termination_reason (ex_report ex1) = completed"
    using r(1) guards(1) by (simp_all add: same_search_def)
  obtain st where st: "result_wf (segment_budget options ex) st" "report st = segment" "machine st = runtime"
    using boot_run_wf [OF run] ex(2) by (auto simp: args_wf_def)
  then show "machine_wf runtime" by (auto simp: result_wf_def)
  have deps: "deps_wf ex1" "deps \<subseteq> global_dependencies ex1" "finite deps"
    "global_dependencies ex \<subseteq> global_dependencies ex1"
    using r(3) ex by (auto simp: explorer_wf_def args_wf_def)
  have idx: "node_index summary = length (nodes (ex_report ex1))"
    "node_depth summary = va_depth args"
    by (simp_all add: summary summarize_def Let_def)
  note p = push_node_fields [OF push idx(1)]
  obtain d where n2: "nodes (ex_report ex2) = nodes (ex_report ex) @ [summary\<lparr>deduplicated := d\<rparr>]"
    using p(1) same(1) by auto
  let ?n = "summary\<lparr>deduplicated := d\<rparr>"
  note k = rank_node_fields [of "length (nodes (ex_report ex1))" path segment ex2, folded rank]
  have n3: "nodes (ex_report ex3) = nodes (ex_report ex) @ [?n]" using k(1) n2 by simp
  have le: "total_retired (ex_report ex) \<le> max_total_retired options"
    using ex(1) by (simp add: explorer_wf_def retired_wf_def)
  have seg: "instructions_retired segment \<le> max_total_retired options - total_retired (ex_report ex)"
    using st le by (auto simp: result_wf_def counters_bounded_def segment_budget_def Let_def)
  have tot: "total_retired (ex_report ex3) = total_retired (ex_report ex) + instructions_retired segment"
    using k(2) p(3) r(2) by simp
  have nat: "unat (total_retired (ex_report ex) + instructions_retired segment) =
      unat (total_retired (ex_report ex)) + unat (instructions_retired segment)"
    "unat (total_retired (ex_report ex)) + unat (instructions_retired segment) \<le> unat (max_total_retired options)"
    using word_budget_add [OF le seg] by simp_all
  have retired: "retired_wf options (ex_report ex3)"
    using ex(1) nat by (simp add: explorer_wf_def retired_wf_def tot n3 word_le_nat_alt summary summarize_def Let_def)
  have node: "node_wf options (nodes (ex_report ex) @ [?n]) (length (nodes (ex_report ex)))"
    using ex(2) by (auto simp: node_wf_def args_wf_def summary summarize_def Let_def same nth_append split: option.splits)
  have best: "best_wf (ex_report ex3)"
    by (rule best_wf_snoc [where rep = "ex_report ex" and n = ?n])
       (use ex(1) n2 n3 k(6) p(2) same in \<open>simp_all add: explorer_wf_def\<close>)
  show reason: "termination_reason (ex_report ex3) = completed" using k(3) p(4) same(3) by simp
  show "explorer_wf options ex3"
    using ex(1) guards(2) n3 node best retired reason deps k(4,5) p(5,6)
    by (simp add: explorer_wf_def tree_wf_snoc reason_wf_def deps_wf_def)
  show "grows ex ex3" using n3 deps k(5) p(6) by (simp add: grows_def)
  show "length (nodes (ex_report ex3)) = length (nodes (ex_report ex)) + 1" by (simp add: n3)
  show "length (nodes (ex_report ex1)) = length (nodes (ex_report ex))" by (simp add: same)
  show "node_depth (nodes (ex_report ex3) ! length (nodes (ex_report ex1))) = va_depth args"
    "cumulative_retired (nodes (ex_report ex3) ! length (nodes (ex_report ex1))) = cumulative_retired summary"
    by (simp_all add: n3 same idx)
  show "deps \<subseteq> global_dependencies ex3" "finite deps" using deps k(5) p(6) by auto
  show "can \<Longrightarrow> fr \<and> va_depth args < max_branch_depth options" using p(7) idx(2) by simp
qed

section \<open>The contract of the recursive call\<close>

lemma args_wf_grows:
  assumes "args_wf options args ex" "grows ex ex'" "va_parent args = Some p"
  shows "args_wf options args ex'"
  using assms by (auto simp: args_wf_def grows_def nth_append)

lemma expand_Cons_cases:
  assumes "expand options recurse child_args runtime (policy # policies) ex = Some ex'"
  obtains "max_nodes options \<le> length (nodes (ex_report ex))" "ex' = set_reason node_limit ex"
    | "max_total_retired options \<le> total_retired (ex_report ex)" "ex' = set_reason total_retired_limit ex"
    | child where "apply_diagnostic_bios_fallback policy runtime = (False, child)"
        "expand options recurse child_args runtime policies ex = Some ex'"
    | child ex1 where "apply_diagnostic_bios_fallback policy runtime = (True, child)"
        "recurse (child_args policy child) ex = Some ex1"
        "ex' = ex1 \<or> expand options recurse child_args runtime policies ex1 = Some ex'"
  using assms by (auto simp: Let_def split: if_splits prod.splits option.splits)

lemma visit_body_cases:
  assumes "visit_body options recurse args ex = Some ex'"
  obtains "ex' = ex"
    | "max_nodes options \<le> length (nodes (ex_report ex))" "ex' = set_reason node_limit ex"
    | "max_total_retired options \<le> total_retired (ex_report ex)" "ex' = set_reason total_retired_limit ex"
    | segment runtime where
      "termination_reason (ex_report ex) = completed" "length (nodes (ex_report ex)) < max_nodes options"
      "boot_run (segment_budget options ex) (va_runtime args) = Some (segment, runtime)"
      "visit_segment options recurse args segment runtime ex = Some ex'"
proof (cases "termination_reason (ex_report ex) = completed")
  case False
  with assms that(1) show ?thesis by (simp add: visit_body_def)
next
  case c: True
  show ?thesis
  proof (cases "max_nodes options \<le> length (nodes (ex_report ex))")
    case True
    with assms c that(2) show ?thesis by (simp add: visit_body_def)
  next
    case n: False
    show ?thesis
    proof (cases "nodes (ex_report ex) \<noteq> [] \<and> total_retired (ex_report ex) \<ge> max_total_retired options")
      case True
      with assms c n that(3) show ?thesis by (simp add: visit_body_def)
    next
      case False
      with assms c n obtain segment runtime
        where "boot_run (segment_budget options ex) (va_runtime args) = Some (segment, runtime)"
          "visit_segment options recurse args segment runtime ex = Some ex'"
        unfolding visit_body_def if_not_P [OF False] by (auto split: option.splits)
      with that(4) c n show ?thesis by simp
    qed
  qed
qed

locale visit_contract =
  fixes options :: Ps1Max3Options
    and recurse :: "visit_args \<Rightarrow> Explorer \<Rightarrow> Explorer option"
  assumes recurse_wf: "recurse args ex = Some ex' \<Longrightarrow> explorer_wf options ex \<Longrightarrow>
      args_wf options args ex \<Longrightarrow> explorer_wf options ex' \<and> grows ex ex'"
begin

lemma expand_wf:
  assumes "expand options recurse child_args runtime policies ex = Some ex'" "explorer_wf options ex"
    "\<And>policy child. apply_diagnostic_bios_fallback policy runtime = (True, child) \<Longrightarrow>
       args_wf options (child_args policy child) ex \<and> va_parent (child_args policy child) \<noteq> None"
  shows "explorer_wf options ex' \<and> grows ex ex'"
  using assms
proof (induction policies arbitrary: ex)
  case Nil
  then show ?case by simp
next
  case (Cons policy policies)
  note wf = Cons.prems(2) and args = Cons.prems(3)
  from Cons.prems(1) show ?case
  proof (cases rule: expand_Cons_cases)
    case 1
    then show ?thesis using set_reason_wf [OF wf, of node_limit] by simp
  next
    case 2
    then show ?thesis using set_reason_wf [OF wf, of total_retired_limit] by simp
  next
    case 3
    then show ?thesis using Cons.IH wf args by blast
  next
    case (4 child ex1)
    have 1: "explorer_wf options ex1" "grows ex ex1"
      using recurse_wf [OF 4(2) wf] args [OF 4(1)] by auto
    have "args_wf options (child_args policy' child') ex1 \<and> va_parent (child_args policy' child') \<noteq> None"
      if "apply_diagnostic_bios_fallback policy' runtime = (True, child')" for policy' child'
      using args [OF that] args_wf_grows [OF _ 1(2)] by auto
    then show ?thesis using 4(3) 1 Cons.IH [of ex1] grows_trans by blast
  qed
qed

lemma visit_segment_wf:
  assumes "visit_segment options recurse args segment runtime ex = Some ex'"
    "explorer_wf options ex" "args_wf options args ex"
    "termination_reason (ex_report ex) = completed" "length (nodes (ex_report ex)) < max_nodes options"
    "boot_run (segment_budget options ex) (va_runtime args) = Some (segment, runtime)"
  shows "explorer_wf options ex' \<and> grows ex ex'"
proof -
  obtain ex1 deps where rec: "record_segment segment runtime args ex = (ex1, deps)" by fastforce
  define index where "index = length (nodes (ex_report ex1))"
  define summary where "summary = summarize segment runtime args index (card deps)"
  obtain can ex2 where push: "push_node options (frontier_of segment runtime \<noteq> None) summary ex1 = (can, ex2)"
    by fastforce
  define ex3 where "ex3 = rank_node index (va_path args) segment ex2"
  note n = visit_node_wf [OF assms(2-6) rec summary_def [unfolded index_def] push ex3_def [unfolded index_def],
      folded index_def]
  have body: "(if total_retired (ex_report ex3) \<ge> max_total_retired options
            then Some (set_reason total_retired_limit ex3)
            else if \<not> can then Some ex3
            else expand options recurse
                   (\<lambda>policy child. \<lparr>va_runtime = child, va_depth = va_depth args + 1,
                      va_parent = Some index, va_fallback = Some policy,
                      va_cumulative = cumulative_retired summary,
                      va_metrics = accumulate_metrics (va_metrics args) segment,
                      va_path = va_path args @ [\<lparr>dec_table = node_frontier_table summary,
                        dec_selector = node_frontier_selector summary, dec_fallback = policy\<rparr>],
                      va_dependencies = deps\<rparr>)
                   runtime kFallbackOrder ex3) = Some ex'"
    using assms(1)
    unfolding visit_segment_def Let_def rec prod.case index_def [symmetric] summary_def [symmetric]
      push ex3_def [symmetric] .
  consider "max_total_retired options \<le> total_retired (ex_report ex3)" "ex' = set_reason total_retired_limit ex3"
    | "ex' = ex3"
    | child_args where "can" "expand options recurse child_args runtime kFallbackOrder ex3 = Some ex'"
      "\<And>policy child. va_runtime (child_args policy child) = child \<and>
         va_depth (child_args policy child) = va_depth args + 1 \<and>
         va_parent (child_args policy child) = Some index \<and>
         va_cumulative (child_args policy child) = cumulative_retired summary \<and>
         va_dependencies (child_args policy child) = deps"
    using body by (simp split: if_splits)
  then show ?thesis
  proof cases
    case 1
    then show ?thesis using set_reason_wf [OF n(1)] n(2) grows_trans by auto
  next
    case 2
    then show ?thesis using n(1,2) by simp
  next
    case (3 child_args)
    have "args_wf options (child_args policy child) ex3 \<and> va_parent (child_args policy child) \<noteq> None"
      if "apply_diagnostic_bios_fallback policy runtime = (True, child)" for policy child
    proof -
      have "diagnostic_bios_frontier_pending runtime"
        using that fallback_refuses by (metis Pair_inject)
      moreover have "at_bios_table runtime"
        using n(11) [OF 3(1)] by (auto simp: frontier_of_def at_bios_table_def split: if_splits option.splits)
      ultimately have "machine_wf child"
        using fallback_accepts [OF n(8), of policy] that by auto
      moreover have "va_depth args + 1 \<le> max_branch_depth options" using n(11) [OF 3(1)] by simp
      moreover have "index < length (nodes (ex_report ex3))" using n(4,7) by (simp add: index_def)
      ultimately show ?thesis using 3(3) [of policy child] n(5,6,9,10) by (simp add: args_wf_def)
    qed
    from expand_wf [OF 3(2) n(1) this] n(2) grows_trans show ?thesis by blast
  qed
qed

lemma visit_body_wf:
  assumes "visit_body options recurse args ex = Some ex'" "explorer_wf options ex" "args_wf options args ex"
  shows "explorer_wf options ex' \<and> grows ex ex'"
  using assms(1)
proof (cases rule: visit_body_cases)
  case 1
  then show ?thesis using assms(2) by simp
next
  case 2
  then show ?thesis using set_reason_wf [OF assms(2), of node_limit] by simp
next
  case 3
  then show ?thesis using set_reason_wf [OF assms(2), of total_retired_limit] by simp
next
  case 4
  show ?thesis by (rule visit_segment_wf [OF 4(4) assms(2,3) 4(1,2,3)])
qed

end

lemma visit_contract: "visit_contract options (visit n options)"
proof (induction n)
  case 0
  have "visit_contract options (\<lambda>args ex. None)" by unfold_locales simp_all
  from visit_contract.visit_body_wf [OF this] show ?case by unfold_locales simp_all
next
  case (Suc n)
  from visit_contract.visit_body_wf [OF this] show ?case by unfold_locales simp_all
qed

interpretation explorer_visit: visit_contract options "visit n options" for n options
  by (rule visit_contract)

section \<open>The levels passed to visit are enough\<close>

lemma expand_cong:
  assumes "\<And>policy child ex. recurse (child_args policy child) ex = recurse' (child_args policy child) ex"
  shows "expand options recurse child_args runtime policies ex = expand options recurse' child_args runtime policies ex"
  by (induction policies arbitrary: ex) (auto simp: assms Let_def split: prod.split option.split)

lemma visit_segment_cong:
  assumes "\<And>args' ex. va_depth args < max_branch_depth options \<Longrightarrow> va_depth args' = va_depth args + 1 \<Longrightarrow>
      recurse args' ex = recurse' args' ex"
  shows "visit_segment options recurse args segment runtime ex = visit_segment options recurse' args segment runtime ex"
proof -
  obtain ex1 deps where rec: "record_segment segment runtime args ex = (ex1, deps)" by fastforce
  define index where "index = length (nodes (ex_report ex1))"
  define summary where "summary = summarize segment runtime args index (card deps)"
  obtain can ex2 where push: "push_node options (frontier_of segment runtime \<noteq> None) summary ex1 = (can, ex2)"
    by fastforce
  have "can \<Longrightarrow> va_depth args < max_branch_depth options"
    using push by (auto simp: push_node_def Let_def summary_def summarize_def split: if_splits)
  with assms show ?thesis
    unfolding visit_segment_def Let_def rec prod.case index_def [symmetric] summary_def [symmetric] push
    by (auto intro!: expand_cong)
qed

lemma visit_body_cong:
  assumes "\<And>args' ex. va_depth args < max_branch_depth options \<Longrightarrow> va_depth args' = va_depth args + 1 \<Longrightarrow>
      recurse args' ex = recurse' args' ex"
  shows "visit_body options recurse args ex = visit_body options recurse' args ex"
proof -
  have eq: "visit_segment options recurse args s r e = visit_segment options recurse' args s r e" for s r e
    by (rule visit_segment_cong) (rule assms)
  show ?thesis unfolding visit_body_def eq ..
qed

lemma visit_enough_levels:
  assumes "max_branch_depth options \<le> va_depth args + n" "max_branch_depth options \<le> va_depth args + m"
  shows "visit n options args ex = visit m options args ex"
  using assms
proof (induction n arbitrary: m args ex)
  case 0
  have "visit_body options (\<lambda>args ex. None) args ex = visit_body options r args ex" for r
    by (rule visit_body_cong) (use 0 in simp)
  then show ?case by (cases m) simp_all
next
  case (Suc n)
  show ?case
  proof (cases m)
    case 0
    then show ?thesis using Suc.prems by (auto intro!: visit_body_cong)
  next
    case (Suc k)
    then show ?thesis using Suc.prems by (auto intro!: visit_body_cong Suc.IH)
  qed
qed

section \<open>The size of the tree\<close>

fun tree_size :: "nat \<Rightarrow> nat" where
  "tree_size 0 = 1"
| "tree_size (Suc r) = 1 + 4 * tree_size r"

lemma tree_size_closed: "3 * tree_size r + 1 = 4 ^ (r + 1)"
  by (induction r) simp_all

lemma tree_size_pos: "0 < tree_size r"
  by (cases r) simp_all

definition count_ok :: "Ps1Max3Options \<Rightarrow> nat \<Rightarrow> Explorer \<Rightarrow> Explorer \<Rightarrow> bool" where
  "count_ok options k ex ex' \<longleftrightarrow>
     length (nodes (ex_report ex')) \<le> length (nodes (ex_report ex)) + k \<and>
     (length (nodes (ex_report ex)) + k \<le> max_nodes options \<longrightarrow>
        termination_reason (ex_report ex) \<noteq> node_limit \<longrightarrow> termination_reason (ex_report ex') \<noteq> node_limit)"

lemma count_ok_trans: "count_ok options k a b \<Longrightarrow> count_ok options l b c \<Longrightarrow> count_ok options (k + l) a c"
  by (auto simp: count_ok_def)

lemma count_ok_mono: "count_ok options k a b \<Longrightarrow> k \<le> l \<Longrightarrow> count_ok options l a b"
  by (auto simp: count_ok_def)

lemma expand_count:
  assumes "expand options recurse child_args runtime policies ex = Some ex'" "0 < k"
    "\<And>policy child ex ex'. recurse (child_args policy child) ex = Some ex' \<Longrightarrow> count_ok options k ex ex'"
  shows "count_ok options (length policies * k) ex ex'"
  using assms(1)
proof (induction policies arbitrary: ex)
  case Nil
  then show ?case by (simp add: count_ok_def)
next
  case (Cons policy policies)
  from Cons.prems show ?case
  proof (cases rule: expand_Cons_cases)
    case 1
    then show ?thesis using assms(2) by (simp add: count_ok_def)
  next
    case 2
    then show ?thesis by (simp add: count_ok_def)
  next
    case 3
    from count_ok_mono [OF Cons.IH [OF 3(2)]] show ?thesis by simp
  next
    case (4 child ex1)
    have 1: "count_ok options k ex ex1" by (rule assms(3) [OF 4(2)])
    have 2: "count_ok options (length policies * k) ex1 ex'"
      using 4(3) Cons.IH by (auto simp: count_ok_def)
    from count_ok_trans [OF 1 2] show ?thesis by simp
  qed
qed

lemma visit_segment_count:
  assumes "visit_segment options recurse args segment runtime ex = Some ex'"
    "\<And>args' ex ex'. va_depth args < max_branch_depth options \<Longrightarrow> va_depth args' = va_depth args + 1 \<Longrightarrow>
      recurse args' ex = Some ex' \<Longrightarrow> count_ok options (tree_size (max_branch_depth options - (va_depth args + 1))) ex ex'"
  shows "count_ok options (tree_size (max_branch_depth options - va_depth args)) ex ex'"
proof -
  obtain ex1 deps where rec: "record_segment segment runtime args ex = (ex1, deps)" by fastforce
  define index where "index = length (nodes (ex_report ex1))"
  define summary where "summary = summarize segment runtime args index (card deps)"
  obtain can ex2 where push: "push_node options (frontier_of segment runtime \<noteq> None) summary ex1 = (can, ex2)"
    by fastforce
  define ex3 where "ex3 = rank_node index (va_path args) segment ex2"
  have idx: "node_index summary = length (nodes (ex_report ex1))" "node_depth summary = va_depth args"
    by (simp_all add: summary_def summarize_def Let_def index_def)
  note p = push_node_fields [OF push idx(1)]
  have 3: "length (nodes (ex_report ex3)) = length (nodes (ex_report ex)) + 1"
    "termination_reason (ex_report ex3) = termination_reason (ex_report ex)"
    using p(1,4) record_segment_fields(1) [OF rec] by (auto simp: ex3_def rank_node_fields same_search_def)
  then have one: "count_ok options 1 ex ex3" by (simp add: count_ok_def)
  let ?T = "tree_size (max_branch_depth options - va_depth args)"
  have T: "1 \<le> ?T" using tree_size_pos [of "max_branch_depth options - va_depth args"] by simp
  consider "ex' = set_reason total_retired_limit ex3" | "ex' = ex3"
    | child_args where "can" "expand options recurse child_args runtime kFallbackOrder ex3 = Some ex'"
      "\<And>policy child. va_depth (child_args policy child) = va_depth args + 1"
    using assms(1)
    unfolding visit_segment_def Let_def rec prod.case index_def [symmetric] summary_def [symmetric]
      push ex3_def [symmetric]
    by (simp split: if_splits)
  then show ?thesis
  proof cases
    case 1
    then have "count_ok options 1 ex ex'" using 3 by (simp add: count_ok_def)
    from count_ok_mono [OF this T] show ?thesis .
  next
    case 2
    with count_ok_mono [OF one T] show ?thesis by simp
  next
    case (3 child_args)
    have d: "va_depth args < max_branch_depth options" using p(7) 3(1) idx(2) by simp
    have "count_ok options (length kFallbackOrder * tree_size (max_branch_depth options - (va_depth args + 1))) ex3 ex'"
      by (rule expand_count [OF 3(2) tree_size_pos assms(2) [OF d 3(3)]])
    moreover have "length kFallbackOrder = 4" by (simp add: kFallbackOrder_def)
    ultimately have "count_ok options (1 + 4 * tree_size (max_branch_depth options - (va_depth args + 1))) ex ex'"
      using count_ok_trans [OF one] by (simp only:)
    moreover have "max_branch_depth options - va_depth args = Suc (max_branch_depth options - (va_depth args + 1))"
      using d by simp
    ultimately show ?thesis by simp
  qed
qed

lemma visit_body_count:
  assumes "visit_body options recurse args ex = Some ex'"
    "\<And>args' ex ex'. va_depth args < max_branch_depth options \<Longrightarrow> va_depth args' = va_depth args + 1 \<Longrightarrow>
      recurse args' ex = Some ex' \<Longrightarrow> count_ok options (tree_size (max_branch_depth options - (va_depth args + 1))) ex ex'"
  shows "count_ok options (tree_size (max_branch_depth options - va_depth args)) ex ex'"
  using assms(1)
proof (cases rule: visit_body_cases)
  case 2
  then show ?thesis using tree_size_pos [of "max_branch_depth options - va_depth args"]
    by (simp add: count_ok_def)
next
  case 4
  show ?thesis by (rule visit_segment_count [OF 4(4) assms(2)])
qed (simp_all add: count_ok_def)

lemma visit_count:
  "visit n options args ex = Some ex' \<Longrightarrow>
    count_ok options (tree_size (max_branch_depth options - va_depth args)) ex ex'"
proof (induction n arbitrary: args ex ex')
  case 0
  then have "visit_body options (\<lambda>args ex. None) args ex = Some ex'" by simp
  then show ?case by (rule visit_body_count) simp
next
  case (Suc n)
  then have "visit_body options (visit n options) args ex = Some ex'" by simp
  then show ?case by (rule visit_body_count) (metis Suc.IH)
qed

section \<open>A whole exploration\<close>

definition root_args :: "Ps1BootRuntime \<Rightarrow> visit_args" where
  "root_args root = \<lparr>va_runtime = root, va_depth = 0, va_parent = None, va_fallback = None,
     va_cumulative = 0, va_metrics = no_metrics, va_path = [], va_dependencies = {}\<rparr>"

lemma new_explorer_wf: "explorer_wf options (new_explorer options)"
  by (simp add: explorer_wf_def new_explorer_def tree_wf_def best_wf_def retired_wf_def reason_wf_def deps_wf_def)

lemma root_args_wf: "machine_wf root \<Longrightarrow> args_wf options (root_args root) (new_explorer options)"
  by (simp add: args_wf_def root_args_def new_explorer_def)

lemma explore_success:
  assumes "explore_ps1_max3 executable options = Some (Inr rep)"
  obtains root ex where "boot_create executable = Inr root" "machine_wf root"
    "visit (max_branch_depth options) options (root_args root) (new_explorer options) = Some ex"
    "rep = ex_report ex" "max_nodes options \<noteq> 0"
  using assms boot_create_wf
  by (auto simp: explore_ps1_max3_def root_args_def [symmetric] split: if_splits sum.splits)

lemma explore_wf:
  assumes "explore_ps1_max3 executable options = Some (Inr rep)"
  shows "\<exists>ex. explorer_wf options ex \<and> ex_report ex = rep"
  using explore_success [OF assms] explorer_visit.recurse_wf new_explorer_wf root_args_wf by metis

lemma explore_node_limit:
  assumes "explore_ps1_max3 executable options = Some (Inr rep)"
  shows "length (nodes rep) \<le> tree_size (max_branch_depth options)"
    "tree_size (max_branch_depth options) \<le> max_nodes options \<Longrightarrow> termination_reason rep \<noteq> node_limit"
proof -
  obtain root ex where v: "visit (max_branch_depth options) options (root_args root) (new_explorer options) = Some ex"
    "rep = ex_report ex" using explore_success [OF assms] by metis
  have "count_ok options (tree_size (max_branch_depth options)) (new_explorer options) ex"
    using visit_count [OF v(1)] by (simp add: root_args_def)
  then show "length (nodes rep) \<le> tree_size (max_branch_depth options)"
    "tree_size (max_branch_depth options) \<le> max_nodes options \<Longrightarrow> termination_reason rep \<noteq> node_limit"
    by (simp_all add: count_ok_def v(2) new_explorer_def)
qed

end
