(* ===== verification/Cpu_Spec.thy ===== *)
theory Cpu_Spec
  imports Ps1_Bus
begin

text \<open>
  What the reference executor promises, stated on the step function: the invariant, precise
  exceptions, delay slots and load delays, arithmetic traps, exception entry and return, and the
  losslessness of the decoder.  The witnesses run the step on a one-instruction program in the
  main RAM of the power-on bus.
\<close>

unbundle bit_operations_syntax

section \<open>One-instruction programs\<close>

definition demo_pc :: u32 where "demo_pc = 0x80010000"

definition demo_bus :: "u32 \<Rightarrow> Ps1MemoryBus" where
  "demo_bus w = snd (write32 demo_pc w initial_bus)"

definition demo_cpu :: "u32 list \<Rightarrow> R3000aState" where
  "demo_cpu regs = initial_state\<lparr>gpr := regs, pc := demo_pc, next_pc := demo_pc + 4\<rparr>"

lemma demo_physical: "guest_to_physical demo_pc = Some 0x10000"
  by (simp add: guest_to_physical_def demo_pc_def)

lemma demo_bus_wf: "bus_wf (demo_bus w)"
  by (simp add: demo_bus_def bus_writes_wf bus_wf_initial)

lemma demo_read: "read32 demo_pc (demo_bus w) = (ok_result w, demo_bus w)"
proof -
  have p: "unat (0x10000 :: u32) + 4 \<le> main_ram_size" by (simp add: main_ram_size_def)
  have 1: "fst (read32 demo_pc (demo_bus w)) = ok_result w"
    using word_store_load [OF bus_wf_initial demo_physical demo_physical p p, of w] by (simp add: demo_bus_def)
  have "snd (read32 demo_pc (demo_bus w)) = demo_bus w"
    using ram_accesses(3) [OF demo_bus_wf demo_physical p] by simp
  with 1 show ?thesis by (metis prod.collapse)
qed

lemma demo_fetches:
  "status (cop0 s) = 0 \<Longrightarrow> pc s = demo_pc \<Longrightarrow> fetches ps1_bus s (demo_bus w) w (demo_bus w)"
  by (simp add: fetches_def demo_read ps1_bus_def ok_result_def interrupt_pending_def refresh_cause_def)
     (simp add: demo_pc_def)

lemma demo_cpu_simps [simp]:
  "gpr (demo_cpu regs) = regs" "pc (demo_cpu regs) = demo_pc" "next_pc (demo_cpu regs) = demo_pc + 4"
  "pending_load (demo_cpu regs) = no_load" "delay_slot (demo_cpu regs) = no_slot"
  "cop0 (demo_cpu regs) = initial_cop0" "hi (demo_cpu regs) = 0" "lo (demo_cpu regs) = 0"
  by (simp_all add: demo_cpu_def initial_state_def)

lemma demo_fetch: "fetches ps1_bus (demo_cpu regs) (demo_bus w) w (demo_bus w)"
  by (rule demo_fetches) (simp_all add: initial_cop0_def)

lemma demo_cpu_wf: "length regs = 32 \<Longrightarrow> regs ! 0 = 0 \<Longrightarrow> cpu_wf (demo_cpu regs) \<and> pc_wf (demo_cpu regs)"
  by (simp add: cpu_wf_def pc_wf_def)

section \<open>The invariant of a step\<close>

text \<open>C1. Every step on the memory bus, whatever it fetches and however it ends, keeps the
  processor state well formed (32 registers, register 0 zero, a delayed load names a register),
  keeps the program counter discipline of delay slots, keeps the sizes of the memories, and
  never raises a device interrupt.\<close>

theorem step_invariant:
  assumes "cpu_wf s" "pc_wf s" "bus_wf b" "no_device_interrupt b"
  shows "case step_r3000a ps1_bus s b of (r, s', b') \<Rightarrow>
    cpu_wf s' \<and> pc_wf s' \<and> bus_wf b' \<and> no_device_interrupt b'"
proof -
  obtain r s' b' where st: "step_r3000a ps1_bus s b = (r, s', b')" by (metis prod_cases3)
  show ?thesis
    using step_wf [OF st] quiet.step_bus_inv [OF st] assms by (simp add: st cpu_wf_def)
qed

theorem step_invariant_witness:
  "case step_r3000a ps1_bus (demo_cpu (replicate 32 0)) initial_bus of (r, s', b') \<Rightarrow>
    cpu_wf s' \<and> pc_wf s' \<and> bus_wf b' \<and> no_device_interrupt b'"
  by (rule step_invariant)
     (simp_all add: demo_cpu_wf bus_wf_initial no_device_interrupt_initial)

text \<open>C2. Exceptions and boundaries are precise.  A step that does not retire leaves the memory
  image and \<open>hi\<close>/\<open>lo\<close> alone and changes the registers at most by the load that was
  already pending; at a boundary the program counters and the delay slot are untouched too, so the
  instruction can be retried.\<close>

theorem step_precise:
  assumes "cpu_wf s" "bus_wf b" "step_r3000a ps1_bus s b = (r, s', b')" "step_status r \<noteq> step_retired"
  shows "bus_view b' = bus_view b \<and> hi s' = hi s \<and> lo s' = lo s \<and>
    (gpr s' = gpr s \<or> gpr s' = gpr (retire_pending_load s)) \<and>
    (step_status r = step_boundary \<longrightarrow> pc s' = pc s \<and> next_pc s' = next_pc s \<and> delay_slot s' = delay_slot s)"
  using ps1_precise.step_early_view [OF assms(3,4,2)] step_precise_registers [OF assms(3,4,1)] by blast

lemma syscall_step:
  assumes "cpu_wf s" "fetches bus s b w b1" "op (decode_mips w) = SYSCALL"
  shows "step_r3000a bus s b = (\<lambda>(r, s'). (r, s', b1)) (enter_exception exc_syscall stage_execute (pc s)
    (delay_slot s) (Some w) None None (retire_pending_load (refresh_cause s)))"
  by (subst step_plain [OF assms(1,2)])
     (use assms(3) in \<open>auto simp: execute_def execute_registers_def or_else_def exec_alu_def exec_hilo_def
        exec_control_def exec_cop0_def exec_cop2_def exec_trap_def is_cop2_def raise_def Let_def split: prod.splits\<close>)

theorem step_precise_witness:
  "\<exists>r s' b'. step_r3000a ps1_bus (demo_cpu (replicate 32 0)) (demo_bus 12) = (r, s', b') \<and>
     step_status r = step_exception \<and> bus_view b' = bus_view (demo_bus 12) \<and> hi s' = 0"
proof -
  let ?s = "demo_cpu (replicate 32 0)"
  have wf: "cpu_wf ?s" by (simp add: demo_cpu_wf)
  have "op (decode_mips 12) = SYSCALL" by code_simp
  note st = syscall_step [OF wf demo_fetch this]
  obtain r s' where e: "enter_exception exc_syscall stage_execute (pc ?s)
    (delay_slot ?s) (Some 12) None None (retire_pending_load (refresh_cause ?s)) = (r, s')" by fastforce
  have eq: "step_r3000a ps1_bus ?s (demo_bus 12) = (r, s', demo_bus 12)" by (simp only: st e prod.case)
  have x: "step_status r = step_exception" using e enter_exception_status by (metis fst_conv)
  from step_precise [OF wf demo_bus_wf eq] x eq show ?thesis by auto
qed


section \<open>Arithmetic\<close>

text \<open>C6. ADD writes the exact signed sum when it fits in 32 bits; otherwise it traps with the
  overflow exception, the destination register keeps its value and the exception return address is
  the instruction itself (or the branch whose delay slot it is in).\<close>

theorem add_traps_on_signed_overflow:
  fixes w :: u32
  assumes "cpu_wf s" "fetches bus s b w b1" "op (decode_mips w) = ADD" "i_rd (decode_mips w) \<noteq> 0"
    "x = gpr s ! unat (i_rs (decode_mips w))" "y = gpr s ! unat (i_rt (decode_mips w))"
  shows "if - (2 ^ 31) \<le> sint x + sint y \<and> sint x + sint y < 2 ^ 31
    then \<exists>s'. step_r3000a bus s b = (retired_result, s', b1) \<and>
      sint (gpr s' ! unat (i_rd (decode_mips w))) = sint x + sint y
    else \<exists>r s'. step_r3000a bus s b = (r, s', b1) \<and> step_status r = step_exception \<and>
      diag_exception_code (diagnostic r) = Some exc_overflow \<and>
      gpr s' = gpr (retire_pending_load s) \<and>
      epc (cop0 s') = (if active (delay_slot s) then branch_pc (delay_slot s) else pc s)"
proof (cases "- (2 ^ 31) \<le> sint x + sint y \<and> sint x + sint y < 2 ^ 31")
  case True
  have "sint (x + y) = sint x + sint y"
    using True sint_add_32 [of x y] by (simp add: Let_def)
  moreover have "gpr (commit (decoded_env (decode_mips w) (refresh_cause s))
       (queue_gpr_write (i_rd (decode_mips w)) (x + y) no_locals)
       (retire_pending_load (refresh_cause s))) ! unat (i_rd (decode_mips w)) = x + y"
    using assms(4) by (subst gpr_commit_nth [OF assms(1)]) (simp_all add: queue_gpr_write_def)
  ultimately show ?thesis
    using add_step_ok [OF assms(1-3)] True assms(5,6) by auto
next
  case False
  have z: "(gpr (retire_pending_load s))[0 := 0] = gpr (retire_pending_load s)"
    using retire_wf_facts [OF assms(1)] by (simp add: list_update_zero_fix)
  show ?thesis
    unfolding if_not_P [OF False]
    using add_step_overflow [OF assms(1-3)] False assms(5,6)
    by (auto simp: enter_exception_def Let_def exception_cop0_def z empty_diagnostic_def)
qed

theorem add_traps_on_signed_overflow_witness:
  "\<exists>r s'. step_r3000a ps1_bus (demo_cpu ((replicate 32 0)[8 := 0x7FFFFFFF, 9 := 1])) (demo_bus 0x01095020)
      = (r, s', demo_bus 0x01095020) \<and> diag_exception_code (diagnostic r) = Some exc_overflow"
proof -
  let ?regs = "(replicate 32 0)[8 := 0x7FFFFFFF, 9 := (1 :: u32)]"
  have i: "op (decode_mips 0x01095020) = ADD" "i_rd (decode_mips 0x01095020) \<noteq> 0"
    "i_rs (decode_mips 0x01095020) = 8" "i_rt (decode_mips 0x01095020) = 9" by code_simp+
  have wf: "cpu_wf (demo_cpu ?regs)" by (simp add: demo_cpu_wf)
  have "0x7FFFFFFF = gpr (demo_cpu ?regs) ! unat (i_rs (decode_mips 0x01095020))"
    "1 = gpr (demo_cpu ?regs) ! unat (i_rt (decode_mips 0x01095020))" by (simp_all add: i)
  from add_traps_on_signed_overflow [OF wf demo_fetch i(1,2) this] show ?thesis by auto
qed

definition hilo_ops :: "MipsOp \<Rightarrow> u32 \<Rightarrow> u32 \<Rightarrow> u32 \<times> u32" where
  "hilo_ops m = (case m of MULT \<Rightarrow> mult_hilo | MULTU \<Rightarrow> multu_hilo | DIV \<Rightarrow> div_hilo | _ \<Rightarrow> divu_hilo)"

lemma div_hilo_spec:
  assumes "div_hilo x y = (h, l)"
  shows "if y = 0 then h = x \<and> l = (if sint x < 0 then 1 else 0xFFFFFFFF)
         else if x = 0x80000000 \<and> y = 0xFFFFFFFF then h = 0 \<and> l = 0x80000000
         else sint l = sint x sdiv sint y \<and> sint h = sint x smod sint y"
proof (cases "y = 0 \<or> x = 0x80000000 \<and> y = 0xFFFFFFFF")
  case True
  then show ?thesis
  proof
    assume "y = 0"
    with assms show ?thesis by (auto simp add: div_hilo_def signed_view_def)
  next
    assume xy: "x = 0x80000000 \<and> y = 0xFFFFFFFF"
    then have "div_hilo x y = (0, 0x80000000)" by (simp add: div_hilo_def)
    with assms xy show ?thesis by simp
  qed
next
  case False
  then have h: "y \<noteq> 0" "\<not> (x = 0x80000000 \<and> y = 0xFFFFFFFF)" by blast+
  show ?thesis
    unfolding if_not_P [OF h(1)] if_not_P [OF h(2)] using div_hilo_correct [OF h assms] by blast
qed

lemma divu_hilo_spec:
  assumes "divu_hilo x y = (h, l)"
  shows "if y = 0 then h = x \<and> l = 0xFFFFFFFF
         else unat x = unat l * unat y + unat h \<and> unat h < unat y"
proof (cases "y = 0")
  case True
  then show ?thesis using assms by (simp add: divu_hilo_def)
next
  case False
  show ?thesis unfolding if_not_P [OF False] by (rule divu_hilo_correct [OF False assms])
qed

lemma hilo_step:
  assumes "cpu_wf s" "fetches bus s b w b1" "op (decode_mips w) \<in> {MULT, MULTU, DIV, DIVU}"
  shows "\<exists>s'. step_r3000a bus s b = (retired_result, s', b1) \<and>
    (hi s', lo s') = hilo_ops (op (decode_mips w)) (gpr s ! unat (i_rs (decode_mips w)))
      (gpr s ! unat (i_rt (decode_mips w)))"
proof -
  let ?e = "decoded_env (decode_mips w) (refresh_cause s)"
  let ?t = "retire_pending_load (refresh_cause s)"
  let ?r = "hilo_ops (op (decode_mips w)) (gpr s ! unat (i_rs (decode_mips w))) (gpr s ! unat (i_rt (decode_mips w)))"
  have ct: "\<not> is_control_transfer (op (decode_mips w))" using assms(3) by auto
  have ex: "execute bus ?e ?t b1 = (Inr no_locals, ?t\<lparr>hi := fst ?r, lo := snd ?r\<rparr>, b1)"
    using assms(3)
    by (elim insertE emptyE) (simp_all add: execute_def execute_registers_def or_else_def exec_alu_def
        exec_hilo_def hilo_ops_def Let_def split_beta)
  show ?thesis
    using step_plain [OF assms(1,2)] ct ex by (simp add: ex)
qed

text \<open>
  MULT, MULTU, DIV and DIVU leave in \<open>hi\<close>:\<open>lo\<close> the exact 64-bit
  signed or unsigned product, or the truncated quotient and remainder; division by zero and the
  one overflowing quotient yield the values the hardware documents instead of trapping.\<close>

theorem multiply_divide_step:
  fixes w :: u32
  assumes "cpu_wf s" "fetches bus s b w b1" "op (decode_mips w) \<in> {MULT, MULTU, DIV, DIVU}"
    "x = gpr s ! unat (i_rs (decode_mips w))" "y = gpr s ! unat (i_rt (decode_mips w))"
  shows "\<exists>s'. step_r3000a bus s b = (retired_result, s', b1) \<and>
    (case op (decode_mips w) of
       MULT \<Rightarrow> sint (word_cat (hi s') (lo s') :: u64) = sint x * sint y
     | MULTU \<Rightarrow> unat (word_cat (hi s') (lo s') :: u64) = unat x * unat y
     | DIV \<Rightarrow> (if y = 0 then hi s' = x \<and> lo s' = (if sint x < 0 then 1 else 0xFFFFFFFF)
         else if x = 0x80000000 \<and> y = 0xFFFFFFFF then hi s' = 0 \<and> lo s' = 0x80000000
         else sint (lo s') = sint x sdiv sint y \<and> sint (hi s') = sint x smod sint y)
     | _ \<Rightarrow> (if y = 0 then hi s' = x \<and> lo s' = 0xFFFFFFFF
         else unat x = unat (lo s') * unat y + unat (hi s') \<and> unat (hi s') < unat y))"
proof -
  obtain s' where st: "step_r3000a bus s b = (retired_result, s', b1)"
    and hl: "(hi s', lo s') = hilo_ops (op (decode_mips w)) x y"
    using hilo_step [OF assms(1-3)] assms(4,5) by auto
  have f: "hi s' = fst (hilo_ops (op (decode_mips w)) x y)" "lo s' = snd (hilo_ops (op (decode_mips w)) x y)"
    using hl by (metis fst_conv, metis snd_conv)
  have mult: "op (decode_mips w) = MULT \<Longrightarrow> sint (word_cat (hi s') (lo s') :: u64) = sint x * sint y"
    "op (decode_mips w) = MULTU \<Longrightarrow> unat (word_cat (hi s') (lo s') :: u64) = unat x * unat y"
    by (simp_all add: f hilo_ops_def mult_hilo_product multu_hilo_product)
  have div: "if y = 0 then hi s' = x \<and> lo s' = (if sint x < 0 then 1 else 0xFFFFFFFF)
         else if x = 0x80000000 \<and> y = 0xFFFFFFFF then hi s' = 0 \<and> lo s' = 0x80000000
         else sint (lo s') = sint x sdiv sint y \<and> sint (hi s') = sint x smod sint y"
    if "op (decode_mips w) = DIV"
    using div_hilo_spec [of x y "hi s'" "lo s'"] hl that by (simp add: hilo_ops_def)
  have divu: "if y = 0 then hi s' = x \<and> lo s' = 0xFFFFFFFF
         else unat x = unat (lo s') * unat y + unat (hi s') \<and> unat (hi s') < unat y"
    if "op (decode_mips w) = DIVU"
    using divu_hilo_spec [of x y "hi s'" "lo s'"] hl that by (simp add: hilo_ops_def)
  have "case op (decode_mips w) of
       MULT \<Rightarrow> sint (word_cat (hi s') (lo s') :: u64) = sint x * sint y
     | MULTU \<Rightarrow> unat (word_cat (hi s') (lo s') :: u64) = unat x * unat y
     | DIV \<Rightarrow> (if y = 0 then hi s' = x \<and> lo s' = (if sint x < 0 then 1 else 0xFFFFFFFF)
         else if x = 0x80000000 \<and> y = 0xFFFFFFFF then hi s' = 0 \<and> lo s' = 0x80000000
         else sint (lo s') = sint x sdiv sint y \<and> sint (hi s') = sint x smod sint y)
     | _ \<Rightarrow> (if y = 0 then hi s' = x \<and> lo s' = 0xFFFFFFFF
         else unat x = unat (lo s') * unat y + unat (hi s') \<and> unat (hi s') < unat y)"
  proof -
    from assms(3) consider (m) "op (decode_mips w) = MULT" | (mu) "op (decode_mips w) = MULTU"
      | (d) "op (decode_mips w) = DIV" | (du) "op (decode_mips w) = DIVU" by blast
    then show ?thesis
    proof cases
      case m
      from mult(1) [OF m] show ?thesis unfolding m MipsOp.case .
    next
      case mu
      from mult(2) [OF mu] show ?thesis unfolding mu MipsOp.case .
    next
      case d
      from div [OF d] show ?thesis unfolding d MipsOp.case .
    next
      case du
      from divu [OF du] show ?thesis unfolding du MipsOp.case .
    qed
  qed
  with st show ?thesis by blast
qed

theorem multiply_divide_step_witness:
  "\<exists>s'. step_r3000a ps1_bus (demo_cpu ((replicate 32 0)[8 := 0xFFFFFFF9, 9 := 2])) (demo_bus 0x0109001A)
      = (retired_result, s', demo_bus 0x0109001A) \<and> sint (lo s') = -3 \<and> sint (hi s') = -1"
proof -
  let ?regs = "(replicate 32 0)[8 := 0xFFFFFFF9, 9 := (2 :: u32)]"
  have i: "op (decode_mips 0x0109001A) = DIV" "i_rs (decode_mips 0x0109001A) = 8"
    "i_rt (decode_mips 0x0109001A) = 9" by code_simp+
  have wf: "cpu_wf (demo_cpu ?regs)" by (simp add: demo_cpu_wf)
  have m: "op (decode_mips 0x0109001A) \<in> {MULT, MULTU, DIV, DIVU}" by (simp add: i)
  have "0xFFFFFFF9 = gpr (demo_cpu ?regs) ! unat (i_rs (decode_mips 0x0109001A))"
    "2 = gpr (demo_cpu ?regs) ! unat (i_rt (decode_mips 0x0109001A))" by (simp_all add: i)
  from multiply_divide_step [OF wf demo_fetch m this]
  obtain s' where "step_r3000a ps1_bus (demo_cpu ?regs) (demo_bus 0x0109001A) = (retired_result, s', demo_bus 0x0109001A)"
    "sint (lo s') = sint (0xFFFFFFF9 :: u32) sdiv sint (2 :: u32)"
    "sint (hi s') = sint (0xFFFFFFF9 :: u32) smod sint (2 :: u32)"
    by (auto simp: i)
  moreover have "sint (0xFFFFFFF9 :: u32) sdiv sint (2 :: u32) = -3" "sint (0xFFFFFFF9 :: u32) smod sint (2 :: u32) = -1"
    by code_simp+
  ultimately show ?thesis by auto
qed


section \<open>Delays\<close>

text \<open>A read-only memory, for witnesses that run several instructions.\<close>

definition rom_bus :: "(u32 \<Rightarrow> u32) \<Rightarrow> unit R3000aBus" where
  "rom_bus f = \<lparr>bus_read8 = (\<lambda>a b. (\<lparr>bus_status = bus_ok, bus_value = f a\<rparr>, b)),
     bus_read16 = (\<lambda>a b. (\<lparr>bus_status = bus_ok, bus_value = f a\<rparr>, b)),
     bus_read32 = (\<lambda>a b. (\<lparr>bus_status = bus_ok, bus_value = f a\<rparr>, b)),
     bus_write8 = (\<lambda>a v b. (\<lparr>bus_status = bus_ok, bus_value = 0\<rparr>, b)),
     bus_write16 = (\<lambda>a v b. (\<lparr>bus_status = bus_ok, bus_value = 0\<rparr>, b)),
     bus_write32 = (\<lambda>a v b. (\<lparr>bus_status = bus_ok, bus_value = 0\<rparr>, b))\<rparr>"

lemma rom_read: "bus_read32 (rom_bus f) a b = (\<lparr>bus_status = bus_ok, bus_value = f a\<rparr>, b)"
  by (simp add: rom_bus_def)

lemma rom_fetches:
  "pc s AND 3 = 0 \<Longrightarrow> status (cop0 s) = 0 \<Longrightarrow> fetches (rom_bus f) s () (f (pc s)) ()"
  by (simp add: fetches_def rom_read interrupt_pending_def refresh_cause_def)

text \<open>
  A load is delayed by one instruction: right after LW the destination register still
  holds its old value (so the next instruction reads that), and once the next instruction has
  retired it holds the loaded word, unless that instruction wrote the register itself.\<close>

theorem load_delay:
  fixes w w2 :: u32
  defines "rt \<equiv> i_rt (decode_mips w)"
  assumes "cpu_wf s" "fetches bus s b w b1" "op (decode_mips w) = LW" "rt \<noteq> 0"
    "load_address w s AND 3 = 0"
    "bus_read32 bus (load_address w s) b1 = (\<lparr>bus_status = bus_ok, bus_value = v\<rparr>, b2)"
    "step_r3000a bus s b = (r1, s1, b2')"
    "fetches bus s1 b2' w2 b3" "step_r3000a bus s1 b2' = (r2, s2, b4)" "step_status r2 = step_retired"
    "direct_dest (decode_mips w2) \<noteq> Some rt"
  shows "r1 = retired_result \<and> gpr s1 ! unat rt = gpr (retire_pending_load s) ! unat rt \<and>
    gpr s2 ! unat rt = v"
proof -
  let ?c = "commit (decoded_env (decode_mips w) (refresh_cause s)) (queue_load rt v no_locals)
    (retire_pending_load (refresh_cause s))"
  have st: "r1 = retired_result" "s1 = ?c"
    using lw_step [OF assms(2,3,4,6,7)] assms(8) by (simp_all add: rt_def)
  have nw: "\<not> direct_write_valid (queue_load rt v no_locals)" by (simp add: queue_load_def no_locals_def)
  have g: "gpr s1 = gpr (retire_pending_load s)"
    unfolding st by (rule gpr_commit_no_write [OF assms(2) _ nw]) simp
  have p: "pending_load s1 = \<lparr>ld_valid = True, ld_reg = rt, ld_value = v\<rparr>"
    using assms(5) by (simp add: st queue_load_def)
  have lt: "unat rt < 32" by (simp add: rt_def)
  have wf: "cpu_wf s1"
    using retire_wf_facts [OF assms(2)] assms(5) lt by (simp add: cpu_wf_def g p load_wf_def)
  have "of_nat (unat rt) = rt" by simp
  then have "gpr s2 ! unat rt = v"
    using retired_frame [OF assms(10,11) wf assms(9) lt] assms(12) by (simp add: p)
  with st g show ?thesis by simp
qed

definition demo_load_rom :: "u32 \<Rightarrow> u32" where
  "demo_load_rom a = (if a = demo_pc then 0x8C080100 else if a = 0x100 then 7 else 0)"

theorem load_delay_witness:
  "\<exists>s1 s2. step_r3000a (rom_bus demo_load_rom) (demo_cpu (replicate 32 0)) () = (retired_result, s1, ()) \<and>
     step_r3000a (rom_bus demo_load_rom) s1 () = (retired_result, s2, ()) \<and>
     gpr s1 ! 8 = 0 \<and> gpr s2 ! 8 = 7"
proof -
  let ?s = "demo_cpu (replicate 32 0)" and ?w = "0x8C080100 :: u32"
  have i: "op (decode_mips ?w) = LW" "i_rt (decode_mips ?w) = 8" "i_rs (decode_mips ?w) = 0"
    "immediate (decode_mips ?w) = 0x100" "direct_dest (decode_mips 0) = Some 0"
    "op (decode_mips 0) = SLL" "i_rt (decode_mips 0) = 0" "i_sa (decode_mips 0) = 0" "i_rd (decode_mips 0) = 0" by code_simp+
  have wf: "cpu_wf ?s" by (simp add: demo_cpu_wf)
  have al: "demo_pc AND 3 = 0" "(demo_pc + 4) AND 3 = 0" by (simp_all add: demo_pc_def)
  have f0: "demo_load_rom demo_pc = ?w" "demo_load_rom (demo_pc + 4) = 0"
    by (simp_all add: demo_load_rom_def demo_pc_def)
  have f: "fetches (rom_bus demo_load_rom) ?s () ?w ()"
    using rom_fetches [of ?s demo_load_rom] al by (simp add: f0 initial_cop0_def)
  have a: "load_address ?w ?s = 0x100"
    by (simp add: load_address_def effective_address_def i sign_extend16_scast)
  have rd: "bus_read32 (rom_bus demo_load_rom) (load_address ?w ?s) () = (\<lparr>bus_status = bus_ok, bus_value = 7\<rparr>, ())"
    by (simp add: rom_read a demo_load_rom_def demo_pc_def)
  have al4: "load_address ?w ?s AND 3 = 0" by (simp add: a)
  obtain s1 where st1: "step_r3000a (rom_bus demo_load_rom) ?s () = (retired_result, s1, ())"
    "s1 = commit (decoded_env (decode_mips ?w) (refresh_cause ?s)) (queue_load 8 7 no_locals)
      (retire_pending_load (refresh_cause ?s))"
    using lw_step [OF wf f i(1) al4 rd] by (simp add: i)
  have s1: "pc s1 = demo_pc + 4" "status (cop0 s1) = 0" "delay_slot s1 = no_slot"
    by (simp_all add: st1(2) queue_load_def no_locals_def refresh_cause_def retire_pending_load_def initial_cop0_def)
  have wf1: "cpu_wf s1" using step_wf [OF st1(1)] wf demo_cpu_wf [of "replicate 32 0"]
    by (simp add: cpu_wf_def)
  have f1: "fetches (rom_bus demo_load_rom) s1 () 0 ()"
    using rom_fetches [of s1 demo_load_rom] al by (simp add: f0 s1)
  obtain s2 where st2: "step_r3000a (rom_bus demo_load_rom) s1 () = (retired_result, s2, ())"
    using step_plain [OF wf1 f1]
    by (auto simp: i s1 execute_def execute_registers_def or_else_def exec_alu_def Let_def)
  have "gpr (retire_pending_load ?s) ! 8 = 0"
    by (simp add: retire_pending_load_def no_load_def)
  moreover have "step_status retired_result = step_retired" by (simp add: retired_result_def)
  ultimately show ?thesis
    using load_delay [OF wf f i(1) _ al4 rd st1(1) f1 st2] st1(1) st2 by (auto simp: i)
qed


text \<open>C5. A conditional branch takes effect after its delay slot: the instruction behind BEQ
  always runs, and when it retires the program counter is the target if the compared registers were
  equal before the branch, and the instruction after the slot otherwise.\<close>

theorem branch_delay_slot:
  fixes w :: u32
  defines "i \<equiv> decode_mips w"
  assumes "cpu_wf s" "pc_wf s" "fetches bus s b w b1" "op i = BEQ" "\<not> active (delay_slot s)"
    "step_r3000a bus s b = (r1, s1, b1')" "step_r3000a bus s1 b1' = (r2, s2, b2)"
    "step_status r2 = step_retired"
  shows "pc s1 = pc s + 4 \<and>
    pc s2 = (if gpr s ! unat (i_rs i) = gpr s ! unat (i_rt i)
      then pc s + 4 + push_bit 2 (sign_extend16 (immediate i)) else pc s + 8)"
proof -
  obtain s' where b: "step_r3000a bus s b = (retired_result, s', b1)" "pc s' = pc s + 4"
    "delay_slot s' = \<lparr>active = True, branch_pc = pc s,
      taken = (gpr s ! unat (i_rs i) = gpr s ! unat (i_rt i)),
      slot_target = pc s + 4 + push_bit 2 (sign_extend16 (immediate i))\<rparr>"
    using beq_step [OF assms(2,4) assms(5) [unfolded i_def] assms(6)] unfolding i_def by auto
  then have s1: "s1 = s'" using assms(7) by simp
  have wf: "cpu_wf s1" "pc_wf s1"
    using step_wf [OF assms(7)] assms(2,3) by (simp_all add: cpu_wf_def)
  have act: "active (delay_slot s1)" by (simp add: s1 b(3))
  from delay_slot_retires(1) [OF assms(8,9) wf act] show ?thesis
    by (simp add: s1 b(2,3))
qed

definition demo_branch_rom :: "u32 \<Rightarrow> u32" where
  "demo_branch_rom a = (if a = demo_pc then 0x10000003 else 0)"

theorem branch_delay_slot_witness:
  "\<exists>s1 s2. step_r3000a (rom_bus demo_branch_rom) (demo_cpu (replicate 32 0)) () = (retired_result, s1, ()) \<and>
     step_r3000a (rom_bus demo_branch_rom) s1 () = (retired_result, s2, ()) \<and>
     pc s1 = demo_pc + 4 \<and> pc s2 = demo_pc + 16"
proof -
  let ?s = "demo_cpu (replicate 32 0)" and ?w = "0x10000003 :: u32"
  have i: "op (decode_mips ?w) = BEQ" "i_rt (decode_mips ?w) = 0" "i_rs (decode_mips ?w) = 0"
    "immediate (decode_mips ?w) = 3" "op (decode_mips 0) = SLL" by code_simp+
  have wf: "cpu_wf ?s" "pc_wf ?s" by (simp_all add: demo_cpu_wf)
  have al: "demo_pc AND 3 = 0" "(demo_pc + 4) AND 3 = 0" by (simp_all add: demo_pc_def)
  have f0: "demo_branch_rom demo_pc = ?w" "demo_branch_rom (demo_pc + 4) = 0"
    by (simp_all add: demo_branch_rom_def demo_pc_def)
  have f: "fetches (rom_bus demo_branch_rom) ?s () ?w ()"
    using rom_fetches [of ?s demo_branch_rom] al by (simp add: f0 initial_cop0_def)
  have na: "\<not> active (delay_slot ?s)" by simp
  obtain s1 where st1: "step_r3000a (rom_bus demo_branch_rom) ?s () = (retired_result, s1, ())" "pc s1 = demo_pc + 4"
    "active (delay_slot s1)"
    using beq_step [OF wf(1) f i(1) na] by (auto simp: i)
  have wf1: "cpu_wf s1" using step_wf [OF st1(1)] wf by (simp add: cpu_wf_def)
  have f1: "fetches (rom_bus demo_branch_rom) s1 () 0 ()"
    using st1(2,3) al by (simp add: fetches_def rom_read f0)
  obtain s2 where st2: "step_r3000a (rom_bus demo_branch_rom) s1 () = (retired_result, s2, ())"
    using step_plain [OF wf1 f1]
    by (auto simp: i execute_def execute_registers_def or_else_def exec_alu_def Let_def)
  have "step_status retired_result = step_retired" by (simp add: retired_result_def)
  from branch_delay_slot [OF wf f i(1) na st1(1) st2 this] show ?thesis
    using st1(1) st2 by (auto simp: i sign_extend16_scast push_bit_eq_mult)
qed

lemma unat_and_3: "unat ((x :: u32) AND 3) = unat x mod 4"
proof -
  have "x AND 3 = take_bit 2 x" by (simp add: take_bit_eq_mask mask_eq_exp_minus_1)
  then have "unat (x AND 3) = take_bit 2 (unat x)" by (simp only: unsigned_take_bit_eq)
  then show ?thesis by (simp add: take_bit_eq_mod)
qed

lemma lane_plus_3: "((a :: u32) + 3) AND 3 = ((a AND 3) + 3) AND 3"
proof -
  have w: "unat (x + 3 :: u32) mod 4 = (unat x + 3) mod 4" for x
    by (simp add: unat_word_ariths mod_mod_cancel)
  show ?thesis
    unfolding word_unat_eq_iff unat_and_3 w by presburger
qed

lemma lane_lt_4: "(a :: u32) AND 3 < 4"
  using unat_and_le_right [of a 3] by (simp add: word_less_nat_alt)

text \<open>
  LWR at an address followed by LWL three bytes further loads the unaligned word: the
  pending load after the pair is the 32-bit window, starting at the byte addressed, of the two
  aligned words around it, whatever the register held before.\<close>

theorem unaligned_load_pair:
  fixes w w2 :: u32 and s :: R3000aState
  defines "rt \<equiv> i_rt (decode_mips w)" and "a \<equiv> load_address w s"
  assumes "cpu_wf s" "fetches bus s b w b1" "op (decode_mips w) = LWR" "rt \<noteq> 0"
    "bus_read32 bus (a AND NOT 3) b1 = (\<lparr>bus_status = bus_ok, bus_value = m0\<rparr>, b2)"
    "step_r3000a bus s b = (r1, s1, b1')"
    "fetches bus s1 b1' w2 b3" "op (decode_mips w2) = LWL" "i_rt (decode_mips w2) = rt"
    "load_address w2 s1 = a + 3"
    "bus_read32 bus ((a + 3) AND NOT 3) b3 =
       (\<lparr>bus_status = bus_ok, bus_value = (if a AND 3 = 0 then m0 else m1)\<rparr>, b4)"
  shows "\<exists>s2. step_r3000a bus s1 b1' = (retired_result, s2, b4) \<and>
    pending_load s2 = \<lparr>ld_valid = True, ld_reg = rt,
      ld_value = ucast (drop_bit (8 * unat (a AND 3)) (word_cat m1 m0 :: u64))\<rparr>"
proof -
  let ?v = "lwr_merge (a AND 3) (unaligned_base w s) m0"
  have s1: "r1 = retired_result" "b1' = b2" "s1 = commit (decoded_env (decode_mips w) (refresh_cause s))
       (queue_load rt ?v no_locals) (retire_pending_load (refresh_cause s))"
    using unaligned_load_step [OF assms(3,4) disjI2 [OF assms(5)] assms(7) [unfolded a_def]] assms(5,8)
    by (simp_all add: rt_def a_def)
  have p: "pending_load s1 = \<lparr>ld_valid = True, ld_reg = rt, ld_value = ?v\<rparr>"
    using assms(6) by (simp add: s1(3) queue_load_def)
  have "\<not> direct_write_valid (queue_load rt ?v no_locals)" by (simp add: queue_load_def no_locals_def)
  then have g: "gpr s1 = gpr (retire_pending_load s)"
    unfolding s1(3) by (intro gpr_commit_no_write [OF assms(3)]) simp_all
  have wf: "cpu_wf s1"
    using retire_wf_facts [OF assms(3)] assms(6) by (simp add: cpu_wf_def g p load_wf_def rt_def)
  have ub: "unaligned_base w2 s1 = ?v" by (simp add: unaligned_base_def p assms(11))
  have rd: "bus_read32 bus (load_address w2 s1 AND NOT 3) b3 =
      (\<lparr>bus_status = bus_ok, bus_value = (if a AND 3 = 0 then m0 else m1)\<rparr>, b4)"
    using assms(13) by (simp only: assms(12))
  let ?v2 = "lwl_merge ((a + 3) AND 3) ?v (if a AND 3 = 0 then m0 else m1)"
  have "step_r3000a bus s1 b1' = (retired_result, commit (decoded_env (decode_mips w2) (refresh_cause s1))
       (queue_load rt ?v2 no_locals) (retire_pending_load (refresh_cause s1)), b4)"
    using unaligned_load_step [OF wf assms(9) disjI1 [OF assms(10)] rd]
    by (simp only: assms(10,11,12) ub if_True simp_thms)
  moreover have "?v2 = ucast (drop_bit (8 * unat (a AND 3)) (word_cat m1 m0 :: u64))"
    unfolding lane_plus_3 [of a] by (rule unaligned_load_merge [OF lane_lt_4])
  ultimately show ?thesis using assms(6) by (simp add: queue_load_def)
qed

definition demo_unaligned_rom :: "u32 \<Rightarrow> u32" where
  "demo_unaligned_rom a =
    (if a = demo_pc then 0x98080101 else if a = demo_pc + 4 then 0x88080104
     else if a = 0x100 then 0x44332211 else 0x88776655)"

theorem unaligned_load_pair_witness:
  "\<exists>s1 s2. step_r3000a (rom_bus demo_unaligned_rom) (demo_cpu (replicate 32 0)) () = (retired_result, s1, ()) \<and>
     step_r3000a (rom_bus demo_unaligned_rom) s1 () = (retired_result, s2, ()) \<and>
     ld_value (pending_load s2) = 0x55443322"
proof -
  let ?s = "demo_cpu (replicate 32 0)" and ?w = "0x98080101 :: u32" and ?w2 = "0x88080104 :: u32"
  let ?bus = "rom_bus demo_unaligned_rom"
  have i: "op (decode_mips ?w) = LWR" "i_rt (decode_mips ?w) = 8" "i_rs (decode_mips ?w) = 0"
    "immediate (decode_mips ?w) = 0x101" "op (decode_mips ?w2) = LWL" "i_rt (decode_mips ?w2) = 8"
    "i_rs (decode_mips ?w2) = 0" "immediate (decode_mips ?w2) = 0x104" by code_simp+
  have wf: "cpu_wf ?s" by (simp add: demo_cpu_wf)
  have al: "demo_pc AND 3 = 0" "(demo_pc + 4) AND 3 = 0" by (simp_all add: demo_pc_def)
  have f0: "demo_unaligned_rom demo_pc = ?w" "demo_unaligned_rom (demo_pc + 4) = ?w2"
    by (simp_all add: demo_unaligned_rom_def demo_pc_def)
  have f: "fetches ?bus ?s () ?w ()"
    using rom_fetches [of ?s demo_unaligned_rom] al by (simp add: f0 initial_cop0_def)
  have a: "load_address ?w ?s = 0x101"
    by (simp add: load_address_def effective_address_def i sign_extend16_scast)
  have rd: "bus_read32 ?bus (load_address ?w ?s AND NOT 3) () = (\<lparr>bus_status = bus_ok, bus_value = 0x44332211\<rparr>, ())"
    by (simp add: rom_read a demo_unaligned_rom_def demo_pc_def)
  note st = unaligned_load_step [OF wf f disjI2 [OF i(1)] rd]
  obtain s1 where st1: "step_r3000a ?bus ?s () = (retired_result, s1, ())"
    "s1 = commit (decoded_env (decode_mips ?w) (refresh_cause ?s))
       (queue_load 8 (lwr_merge (load_address ?w ?s AND 3) (unaligned_base ?w ?s) 0x44332211) no_locals)
       (retire_pending_load (refresh_cause ?s))"
    using st by (simp add: i)
  have s1: "pc s1 = demo_pc + 4" "status (cop0 s1) = 0" "gpr s1 ! 0 = 0"
    by (simp_all add: st1(2) queue_load_def no_locals_def refresh_cause_def retire_pending_load_def initial_cop0_def
        gpr_commit no_load_def)
  have f1: "fetches ?bus s1 () ?w2 ()"
    using rom_fetches [of s1 demo_unaligned_rom] al by (simp add: f0 s1)
  have a2: "load_address ?w2 s1 = load_address ?w ?s + 3"
    unfolding a by (simp add: load_address_def effective_address_def i sign_extend16_scast s1)
  have rd2: "bus_read32 ?bus ((load_address ?w ?s + 3) AND NOT 3) () =
      (\<lparr>bus_status = bus_ok, bus_value = (if load_address ?w ?s AND 3 = 0 then 0x44332211 else 0x88776655)\<rparr>, ())"
    by (simp add: rom_read a demo_unaligned_rom_def demo_pc_def)
  have rt: "i_rt (decode_mips ?w) \<noteq> 0" "i_rt (decode_mips ?w2) = i_rt (decode_mips ?w)" by (simp_all add: i)
  from unaligned_load_pair [OF wf f i(1) rt(1) rd st1(1) f1 i(5) rt(2) a2 rd2]
  obtain s2 where s2: "step_r3000a ?bus s1 () = (retired_result, s2, ())"
    "ld_value (pending_load s2) = ucast (drop_bit (8 * unat (load_address ?w ?s AND 3))
       (word_cat (0x88776655 :: u32) (0x44332211 :: u32) :: u64))" by auto
  have "ucast (drop_bit (8 * unat (0x101 AND 3 :: u32))
       (word_cat (0x88776655 :: u32) (0x44332211 :: u32) :: u64)) = (0x55443322 :: u32)" by code_simp
  then show ?thesis using st1(1) s2 by (auto simp: a)
qed

section \<open>Exceptions and interrupts\<close>

lemma mode_stack_mask: "kStatusModeStackMask = mask 6"
  by (simp add: kStatusModeStackMask_def mask_eq_exp_minus_1)

lemma bit_exception_status:
  "bit (exception_status st) n \<longleftrightarrow> (if n < 2 then False else if n < 6 then bit st (n - 2) else bit st n)"
  by (auto simp: exception_status_def mode_stack_mask bit_simps dest: bit_imp_le_length)

lemma bit_rfe_status:
  "bit (rfe_status st) n \<longleftrightarrow> (if n < 4 then bit st (n + 2) else bit st n)"
proof -
  have m: "(0x30 :: u32) = push_bit 4 (mask 2)" "(0x0F :: u32) = mask 4"
    by (simp_all add: mask_eq_exp_minus_1)
  show ?thesis
    unfolding rfe_status_def mode_stack_mask m
    by (auto simp: bit_simps dest: bit_imp_le_length)
qed

text \<open>
  Entering an exception shifts the three-level interrupt-enable/mode stack of the status
  register up by two bits and clears the current level; RFE shifts it down again, so the two leave
  the interrupted level and every bit outside the stack as they were, and the oldest level keeps
  its saved copy.\<close>

theorem exception_mode_stack:
  "bit (exception_status st) n = (if n < 2 then False else if n < 6 then bit st (n - 2) else bit st n) \<and>
   bit (rfe_status (exception_status st)) n = (if n = 4 \<or> n = 5 then bit st (n - 2) else bit st n)"
  by (auto simp: bit_exception_status bit_rfe_status)

lemma interrupt_pending_bits:
  "interrupt_pending s \<longleftrightarrow> bit (status (cop0 s)) 0 \<and>
     (\<exists>n. 8 \<le> n \<and> n < 16 \<and> bit (cause (cop0 s)) n \<and> bit (status (cop0 s)) n)"
proof -
  have k: "kCauseInterruptMask = push_bit 8 (mask 8)"
    by (simp add: kCauseInterruptMask_def mask_eq_exp_minus_1)
  have m: "bit kCauseInterruptMask n \<longleftrightarrow> 8 \<le> n \<and> n < 16" for n
    unfolding k by (simp only: bit_push_bit_iff bit_mask_iff) auto
  show ?thesis
    unfolding interrupt_pending_def and_nonzero_iff_bit
    by (auto simp: bit_and_iff m bit_1_iff)
qed

text \<open>
  An interrupt is accepted between instructions, never in a delay slot, exactly when the
  current enable bit is set and an unmasked line is pending; it returns to the instruction it
  preempted, which has not touched memory, and disables further interrupts.\<close>

theorem interrupt_delivery:
  assumes "cpu_wf s" "\<not> active (delay_slot s)" "bit (status (cop0 s)) 0"
    "10 \<le> n" "n < 16" "bit (external_interrupt_pending s) (n - 8)" "bit (status (cop0 s)) n"
  shows "\<exists>r s'. step_r3000a bus s b = (r, s', b) \<and>
    diag_exception_code (diagnostic r) = Some exc_interrupt \<and>
    epc (cop0 s') = pc s \<and> gpr s' = gpr (retire_pending_load s) \<and>
    pc s' = exception_vector (status (cop0 s)) \<and> \<not> interrupt_pending s' \<and>
    \<not> bit (status (cop0 s')) 0"
proof -
  let ?t = "refresh_cause s"
  have fc: "(0xFC :: u8) = push_bit 2 (mask 6)" "kCauseExternalMask = push_bit 10 (mask 6)"
    by (simp_all add: mask_eq_exp_minus_1 kCauseExternalMask_def)
  have n: "bit (cause (cop0 ?t)) n"
    unfolding refresh_cause_def fc using assms(4-6)
    by (auto simp: bit_or_iff bit_push_bit_iff bit_and_iff bit_mask_iff bit_ucast_iff bit_not_iff)
  have ip: "interrupt_pending ?t"
    unfolding interrupt_pending_bits using n assms(3-5,7) by (intro conjI exI [of _ n]) simp_all
  have z: "(gpr (retire_pending_load s))[0 := 0] = gpr (retire_pending_load s)"
    using retire_wf_facts [OF assms(1)] by (simp add: list_update_zero_fix)
  obtain r s' where e: "enter_exception exc_interrupt stage_interrupt (pc s) (delay_slot s) None None None
      (retire_pending_load ?t) = (r, s')" by fastforce
  have st: "step_r3000a bus s b = (r, s', b)"
    using ip assms(2) e by (simp add: step_r3000a_def clear_zero_id [OF assms(1)] Let_def)
  have off: "\<not> bit (status (cop0 s')) 0"
    using e by (auto simp: enter_exception_def Let_def exception_cop0_def bit_exception_status)
  then have "\<not> interrupt_pending s'" by (simp add: interrupt_pending_bits)
  with st off e assms(2) z show ?thesis
    by (auto simp: enter_exception_def Let_def exception_cop0_def empty_diagnostic_def)
qed

theorem interrupt_delivery_witness:
  "\<exists>r s'. step_r3000a ps1_bus (demo_cpu (replicate 32 0)\<lparr>cop0 := initial_cop0\<lparr>status := 0x401\<rparr>,
      external_interrupt_pending := 4\<rparr>) initial_bus = (r, s', initial_bus) \<and>
    epc (cop0 s') = demo_pc \<and> pc s' = 0x80000080"
proof -
  let ?s = "demo_cpu (replicate 32 0)\<lparr>cop0 := initial_cop0\<lparr>status := 0x401\<rparr>, external_interrupt_pending := 4\<rparr>"
  have wf: "cpu_wf ?s" by (simp add: cpu_wf_def)
  have b: "bit (status (cop0 ?s)) 0" "bit (external_interrupt_pending ?s) (10 - 8)" "bit (status (cop0 ?s)) 10"
    by (simp_all add: bit_iff_odd)
  have v: "exception_vector 0x401 = 0x80000080" by code_simp
  show ?thesis
    using interrupt_delivery [OF wf _ b(1) _ _ b(2,3), of ps1_bus initial_bus] v by auto
qed

section \<open>Decoding\<close>

text \<open>
  Decoding loses nothing: the instruction word is the disjoint union of its opcode with the
  register, shift and function fields, with the two registers and the immediate, and with the jump
  target, and the raw word is kept.\<close>

theorem decode_lossless:
  "raw (decode_mips w) = w \<and>
   w = push_bit 26 (drop_bit 26 w) OR (push_bit 21 (ucast (i_rs (decode_mips w))) OR
      (push_bit 16 (ucast (i_rt (decode_mips w))) OR (push_bit 11 (ucast (i_rd (decode_mips w))) OR
      (push_bit 6 (ucast (i_sa (decode_mips w))) OR (w AND 0x3F))))) \<and>
   w = push_bit 26 (drop_bit 26 w) OR (push_bit 21 (ucast (i_rs (decode_mips w))) OR
      (push_bit 16 (ucast (i_rt (decode_mips w))) OR ucast (immediate (decode_mips w)))) \<and>
   w = push_bit 26 (drop_bit 26 w) OR target (decode_mips w)"
proof -
  have m: "(0x3F :: u32) = mask 6" by (simp add: mask_eq_exp_minus_1)
  show ?thesis
    unfolding m
  proof (intro conjI raw_decode_mips bit_word_eqI)
    fix n assume "n < LENGTH(32)"
    then have "n < 6 \<or> 6 \<le> n \<and> n < 11 \<or> 11 \<le> n \<and> n < 16 \<or> 16 \<le> n \<and> n < 21 \<or>
        21 \<le> n \<and> n < 26 \<or> 26 \<le> n \<and> n < 32" by (simp, linarith)
    then consider "n < 6" | "6 \<le> n" "n < 11" | "11 \<le> n" "n < 16" | "16 \<le> n" "n < 21"
      | "21 \<le> n" "n < 26" | "26 \<le> n" "n < 32" by blast
    note cases = this
    note bits = bit_decode_fields bit_or_iff bit_and_iff bit_push_bit_iff bit_drop_bit_eq bit_ucast_iff bit_mask_iff
    show "bit w n \<longleftrightarrow> bit (push_bit 26 (drop_bit 26 w) OR (push_bit 21 (ucast (i_rs (decode_mips w))) OR
      (push_bit 16 (ucast (i_rt (decode_mips w))) OR (push_bit 11 (ucast (i_rd (decode_mips w))) OR
      (push_bit 6 (ucast (i_sa (decode_mips w))) OR (w AND mask 6)))))) n"
      by (rule cases) (auto simp: bits)
    show "bit w n \<longleftrightarrow> bit (push_bit 26 (drop_bit 26 w) OR (push_bit 21 (ucast (i_rs (decode_mips w))) OR
      (push_bit 16 (ucast (i_rt (decode_mips w))) OR ucast (immediate (decode_mips w))))) n"
      by (rule cases) (auto simp: bits)
    show "bit w n \<longleftrightarrow> bit (push_bit 26 (drop_bit 26 w) OR target (decode_mips w)) n"
      by (rule cases) (auto simp: bits)
  qed
qed

text \<open>
  The switch is total: every decoded instruction is executed by one of the modelled
  instruction classes, so the code's default branch (an unimplemented operation) is dead.\<close>

theorem instruction_classes_cover:
  "(\<exists>res. execute_registers e s = Some res) \<or> (\<exists>res. execute_memory bus e s b = Some res)"
  using execute_total [of e s bus b] by blast

end
