(* ===== verification/Machine_Spec.thy ===== *)
theory Machine_Spec
  imports Ps1_Explorer_Props Cpu_Spec
begin

text \<open>
  What the boot machine promises: memory that behaves as memory, the registers of the bus, the
  emulated BIOS, executables that arrive in memory as they are in the file, runs that explain why
  they stopped, and explorations that respect their limits.
\<close>

unbundle bit_operations_syntax

section \<open>The bus\<close>

text \<open>
  Main RAM is a memory through every mirror: a word written at one guest address is read
  back from any guest address of the same physical word, and a write changes no word that does not
  overlap it.\<close>

theorem ram_store_load:
  assumes "bus_wf b" "guest_to_physical a = Some p" "guest_to_physical a' = Some p'"
    "unat p + 4 \<le> main_ram_size" "unat p' + 4 \<le> main_ram_size"
    "p = p' \<or> unat p + 4 \<le> unat p' \<or> unat p' + 4 \<le> unat p"
  shows "bus_status (fst (write32 a v b)) = bus_ok \<and>
    fst (read32 a' (snd (write32 a v b))) = (if p = p' then ok_result v else fst (read32 a' b))"
  using word_store_load [OF assms] ram_accesses(6) [OF assms(1,2,4)] by (simp add: ok_result_def)

theorem ram_store_load_witness:
  "fst (read32 0xA0010000 (snd (write32 0x80010000 0xCAFE initial_bus))) = ok_result 0xCAFE"
proof -
  have g: "guest_to_physical 0x80010000 = Some 0x10000" "guest_to_physical 0xA0010000 = Some 0x10000"
    by (simp_all add: guest_to_physical_def)
  have "unat (0x10000 :: u32) + 4 \<le> main_ram_size" by (simp add: main_ram_size_def)
  from ram_store_load [OF bus_wf_initial g this this] show ?thesis by simp
qed

text \<open>
  The DMA interrupt register, through any mirror: a write acknowledges exactly the pending
  flags it has set, stores the control bits, and the master bit reads as one exactly when the bus
  error bit is set or interrupts are enabled and a flag is still pending.\<close>

theorem dma_interrupt_register:
  assumes "guest_to_physical a = Some kDmaInterruptAddress" "guest_to_physical a' = Some kDmaInterruptAddress"
  shows "bit (bus_value (fst (read32 a' (snd (write32 a v b))))) i \<longleftrightarrow>
    (if i = 31
     then bit v 15 \<or> bit v 23 \<and> (\<exists>j. 24 \<le> j \<and> j \<le> 30 \<and> bit (dma_interrupt b) j \<and> \<not> bit v j)
     else if 24 \<le> i then bit (dma_interrupt b) i \<and> \<not> bit v i
     else (i \<le> 6 \<or> 15 \<le> i) \<and> bit v i)"
  by (rule dma_interrupt_write_read [OF assms])

theorem dma_interrupt_register_witness:
  "bit (bus_value (fst (read32 0x1F8010F4 (snd (write32 0xBF8010F4 0x8000 initial_bus))))) 31"
proof -
  have g: "guest_to_physical 0xBF8010F4 = Some kDmaInterruptAddress"
    "guest_to_physical 0x1F8010F4 = Some kDmaInterruptAddress"
    by (simp_all add: guest_to_physical_def kDmaInterruptAddress_def)
  have "bit (0x8000 :: u32) 15" by (simp add: bit_iff_odd)
  then show ?thesis using dma_interrupt_register [OF g, where v = "0x8000" and b = initial_bus and i = 31] by simp
qed

text \<open>
  The bus never reports a bus error: an access succeeds or is unsupported, and an unsupported
  store changes nothing but the record of itself.\<close>

theorem unsupported_store:
  "bus_status (fst (write32 a v b)) = bus_ok \<or>
   bus_status (fst (write32 a v b)) = bus_unsupported \<and>
     snd (write32 a v b) = b\<lparr>last_unsupported := Some \<lparr>guest_address = a,
       physical_address = (case guest_to_physical a of Some p \<Rightarrow> p | None \<Rightarrow> a),
       width = 4, is_write = True, access_value = v\<rparr>\<rparr>"
proof (cases "bus_status (fst (write32 a v b))")
  case bus_unsupported
  from unsupported_write32 [OF this] show ?thesis by (simp add: bus_unsupported report_unsupported_def)
qed (simp_all add: never_bus_error)

section \<open>The emulated BIOS\<close>

text \<open>
  \<open>ChangeClearRCnt\<close> is an exchange: it stores the new acknowledge flag of one
  root counter, returns the previous one in \<open>v0\<close>, leaves the other counters alone and
  returns to the caller.\<close>

theorem change_clear_rcnt:
  assumes "cpu_wf cpu" "bios_wf bios" "unat (gpr cpu ! 4) < 4"
    "dispatch bios cpu kBiosC0 kC0ChangeClearRCnt = (st, bios', cpu')"
  shows "st = bios_handled \<and> pc cpu' = gpr cpu ! 31 \<and>
    gpr cpu' ! 2 = (if root_counter_auto_ack_enabled bios (gpr cpu ! 4) = Some True then 1 else 0) \<and>
    (\<forall>c. root_counter_auto_ack_enabled bios' c =
       (if c = gpr cpu ! 4 then Some (gpr cpu ! 5 \<noteq> 0) else root_counter_auto_ack_enabled bios c))"
proof -
  note x = change_clear_rcnt_exchange [OF assms]
  then have "st = bios_handled" by blast
  moreover have "length (gpr cpu) = 32" using assms(1) by (rule cpu_wf_length)
  ultimately show ?thesis using x dispatch_registers(1) assms(4) by auto
qed

theorem change_clear_rcnt_witness:
  "\<exists>bios' cpu'. dispatch initial_bios (demo_cpu ((replicate 32 0)[4 := 3, 5 := 1])) kBiosC0 kC0ChangeClearRCnt =
     (bios_handled, bios', cpu') \<and> root_counter_auto_ack_enabled bios' 3 = Some True"
proof -
  let ?cpu = "demo_cpu ((replicate 32 0)[4 := 3, 5 := (1 :: u32)])"
  obtain st bios' cpu' where d: "dispatch initial_bios ?cpu kBiosC0 kC0ChangeClearRCnt = (st, bios', cpu')"
    by (metis prod_cases3)
  have "cpu_wf ?cpu" "unat (gpr ?cpu ! 4) < 4" by (simp_all add: demo_cpu_wf)
  from change_clear_rcnt [OF this(1) bios_wf_initial this(2) d] d show ?thesis by auto
qed

text \<open>
  A load that is still pending when a BIOS call is dispatched survives the call: the result
  the call leaves in \<open>v0\<close> is lost when the load of the delay slot lands there one instruction
  later.\<close>

theorem pending_load_survives_bios_call:
  "\<exists>cpu bios bios' cpu'. cpu_wf cpu \<and> bios_wf bios \<and>
     dispatch bios cpu kBiosC0 kC0ChangeClearRCnt = (bios_handled, bios', cpu') \<and>
     root_counter_auto_ack_enabled bios (gpr cpu ! 4) = Some True \<and> gpr cpu' ! 2 = 1 \<and>
     gpr (retire_pending_load cpu') ! 2 = 5"
proof -
  let ?cpu = "(demo_cpu (replicate 32 0))\<lparr>pending_load := \<lparr>ld_valid = True, ld_reg = 2, ld_value = 5\<rparr>\<rparr>"
  let ?bios = "initial_bios\<lparr>root_counter_auto_ack := [Some True, None, None, None]\<rparr>"
  have wf: "cpu_wf ?cpu" "bios_wf ?bios" by (simp_all add: cpu_wf_def load_wf_def bios_wf_def)
  have ack: "root_counter_auto_ack_enabled ?bios (gpr ?cpu ! 4) = Some True"
    by (simp add: root_counter_auto_ack_enabled_def)
  obtain st bios' cpu' where d: "dispatch ?bios ?cpu kBiosC0 kC0ChangeClearRCnt = (st, bios', cpu')"
    by (metis prod_cases3)
  have "unat (gpr ?cpu ! 4) < 4" by simp
  note x = change_clear_rcnt_exchange [OF wf this d]
  then have h: "dispatch ?bios ?cpu kBiosC0 kC0ChangeClearRCnt = (bios_handled, bios', cpu')" using d by simp
  have p: "pending_load cpu' = \<lparr>ld_valid = True, ld_reg = 2, ld_value = 5\<rparr>"
    using dispatch_registers(5) [OF h] by simp
  have "cpu_wf cpu'" by (rule dispatch_cpu_wf [OF h wf(1)])
  then have "gpr (retire_pending_load cpu') ! 2 = 5" using gpr_retire_nth [of cpu' 2] by (simp add: p)
  with x ack h wf show ?thesis by metis
qed


section \<open>Executables\<close>


text \<open>
  A machine created from a parsed executable is well formed, starts at the entry point with
  the global pointer and stack of the header, and every byte of the payload reads back from guest
  memory at its load address as it is in the file.\<close>

theorem created_machine:
  assumes "parse_ps1_executable bytes = Inr exe" "boot_create exe = Inr rt"
  shows "machine_wf rt \<and> pc (rt_cpu rt) = entry_pc (metadata exe) \<and>
    gpr (rt_cpu rt) ! 28 = initial_gp (metadata exe) \<and>
    gpr (rt_cpu rt) ! 29 = stack_base (metadata exe) + stack_size (metadata exe) \<and>
    (\<forall>k < unat (text_size (metadata exe)).
       fst (read8 (text_load_address (metadata exe) + of_nat k) (rt_bus rt)) = ok_result (ucast (bytes ! (0x800 + k))))"
proof -
  obtain cpu b where l: "load_ps1_executable_into_bus initial_bus exe = Inr (cpu, b)"
    "rt_cpu rt = cpu" "rt_bus rt = b"
    using assms(2) by (auto simp: boot_create_def Let_def split: sum.splits)
  have "cpu = initialize_r3000a_for_psx_exe (metadata exe)"
    using load_executable_cases [OF l(1)] by simp
  moreover have "file_bytes exe = bytes" using parse_ps1_executable_wf [OF assms(1)] by simp
  moreover have "machine_wf rt" using boot_create_wf [OF assms(2)] by simp
  ultimately show ?thesis
    using load_executable_read8 [OF l(1) bus_wf_initial] l by (simp add: initialize_registers)
qed

text \<open>The smallest executable: a header and one word of text at \<open>0x80010000\<close>.\<close>

definition demo_exe_bytes :: "u32 \<Rightarrow> u8 list" where
  "demo_exe_bytes w = map of_char ''PS-X EXE'' @ replicate 8 0 @ le_bytes 4 demo_pc @ replicate 4 0 @
     le_bytes 4 demo_pc @ le_bytes 4 (4 :: u32) @ replicate 2016 0 @ le_bytes 4 w"

lemma length_demo_exe: "length (demo_exe_bytes w) = 0x804"
  by (simp add: demo_exe_bytes_def)

lemma read_le32_append: "read_le32 (xs @ le_bytes 4 w @ ys) (length xs) = w"
proof -
  have "read_le32 bs off = read_little_endian bs off 4" for bs off
    by (simp add: read_le32_def read_little_endian_def Let_def)
  moreover have "read_little_endian (xs @ le_bytes 4 w @ ys) (length xs) 4 = w"
  proof (rule bit_word_eqI)
    fix n assume "n < LENGTH(32)"
    then have n: "n div 8 < 4" "n < 32" by auto
    have e: "8 * (n div 8) + n mod 8 = n" by simp
    show "bit (read_little_endian (xs @ le_bytes 4 w @ ys) (length xs) 4) n = bit w n"
      by (simp add: bit_read_little_endian nth_append bit_byte_at n e)
  qed
  ultimately show ?thesis by simp
qed

lemma demo_exe_header:
  "read_le32 (demo_exe_bytes w) 0x10 = demo_pc" "read_le32 (demo_exe_bytes w) 0x18 = demo_pc"
  "read_le32 (demo_exe_bytes w) 0x1C = 4"
proof -
  let ?s = "map of_char ''PS-X EXE'' @ replicate 8 (0 :: u8)"
  let ?t = "?s @ le_bytes 4 demo_pc @ replicate 4 0"
  let ?u = "?t @ le_bytes 4 demo_pc"
  let ?z = "replicate 2016 0 @ le_bytes 4 w"
  have l: "length ?s = 0x10" "length ?t = 0x18" "length ?u = 0x1C" by simp_all
  have "demo_exe_bytes w = ?s @ le_bytes 4 demo_pc @ (replicate 4 0 @ le_bytes 4 demo_pc @ le_bytes 4 (4 :: u32) @ ?z)"
    "demo_exe_bytes w = ?t @ le_bytes 4 demo_pc @ (le_bytes 4 (4 :: u32) @ ?z)"
    "demo_exe_bytes w = ?u @ le_bytes 4 (4 :: u32) @ ?z"
    unfolding demo_exe_bytes_def by (simp_all only: append_assoc)
  then show "read_le32 (demo_exe_bytes w) 0x10 = demo_pc" "read_le32 (demo_exe_bytes w) 0x18 = demo_pc"
    "read_le32 (demo_exe_bytes w) 0x1C = 4"
    using l read_le32_append by metis+
qed

definition demo_exe :: "u32 \<Rightarrow> Ps1Executable" where
  "demo_exe w = (case parse_ps1_executable (demo_exe_bytes w) of Inr e \<Rightarrow> e)"

lemma demo_exe_parsed:
  "parse_ps1_executable (demo_exe_bytes w) = Inr (demo_exe w)"
  "entry_pc (metadata (demo_exe w)) = demo_pc" "text_load_address (metadata (demo_exe w)) = demo_pc"
  "text_size (metadata (demo_exe w)) = 4" "file_bytes (demo_exe w) = demo_exe_bytes w"
proof -
  have t: "take 8 (demo_exe_bytes w) = psx_signature"
    by (simp add: demo_exe_bytes_def psx_signature_def)
  have a: "demo_pc AND 3 = 0" by (simp add: demo_pc_def)
  note p = parse_ps1_executable_def [of "demo_exe_bytes w"]
  show "parse_ps1_executable (demo_exe_bytes w) = Inr (demo_exe w)"
    "entry_pc (metadata (demo_exe w)) = demo_pc" "text_load_address (metadata (demo_exe w)) = demo_pc"
    "text_size (metadata (demo_exe w)) = 4" "file_bytes (demo_exe w) = demo_exe_bytes w"
    by (simp_all add: demo_exe_def p t a length_demo_exe demo_exe_header kHeaderSize_def Let_def)
qed

lemma demo_exe_created: "\<exists>rt. boot_create (demo_exe w) = Inr rt"
proof -
  have ld: "\<exists>b. load_main_ram demo_pc bs initial_bus = Inr b" if "length bs = 4" for bs
    using that by (simp add: load_main_ram_def demo_physical main_ram_size_def)
  have "length (drop 2048 (demo_exe_bytes w)) = 4" by (simp add: length_demo_exe)
  from ld [OF this] obtain b where b: "load_main_ram demo_pc (drop 2048 (demo_exe_bytes w)) initial_bus = Inr b"
    by blast
  have nowrap: "\<not> 0xFFFFFFFF - (4 - 1) < demo_pc" by (simp add: demo_pc_def)
  show ?thesis
    using nowrap by (simp add: boot_create_def load_ps1_executable_into_bus_def demo_exe_parsed length_demo_exe b Let_def)
qed

theorem created_machine_witness:
  "\<exists>rt. boot_create (demo_exe 0xCAFE) = Inr rt \<and> pc (rt_cpu rt) = demo_pc \<and> machine_wf rt"
proof -
  obtain rt where c: "boot_create (demo_exe 0xCAFE) = Inr rt" using demo_exe_created by blast
  from created_machine [OF demo_exe_parsed(1) c] c show ?thesis by (auto simp: demo_exe_parsed)
qed

section \<open>Runs\<close>

text \<open>C3. Every run that returns leaves a well-formed machine and an honest report: the retired
  count is within the budget, the event buffers within their capacities, and the reason for
  stopping is explained by the state (the budget is spent; or the program counter is at a BIOS table;
  or there is a processor diagnostic, with an access in the I/O window exactly when the reason is an
  unimplemented device; or the stagnation limit was reached).\<close>

theorem run_report_sound:
  assumes "machine_wf rt" "boot_run options rt = Some (rep, rt')"
  shows "machine_wf rt' \<and> instructions_retired rep \<le> instruction_budget options \<and>
    speculative_mmio_count rep \<le> instructions_retired rep \<and>
    length (recent_trace rep) \<le> trace_capacity options \<and>
    length (recent_mmio rep) \<le> mmio_event_capacity options \<and>
    length (recent_bios_calls rep) \<le> bios_event_capacity options \<and>
    (case stop_reason rep of
       execution_budget_exhausted \<Rightarrow> instructions_retired rep = instruction_budget options \<and> cpu_diagnostic rep = None
     | bios_call_unimplemented \<Rightarrow> at_bios_table rt' \<and> diagnostic_bios_frontier_pending rt' \<and> cpu_diagnostic rep = None
     | cpu_boundary \<Rightarrow> cpu_diagnostic rep \<noteq> None \<and>
         (case unsupported_access rep of None \<Rightarrow> True | Some u \<Rightarrow> \<not> in_mmio_window u)
     | mmio_unimplemented \<Rightarrow> cpu_diagnostic rep \<noteq> None \<and>
         (case unsupported_access rep of None \<Rightarrow> False | Some u \<Rightarrow> in_mmio_window u)
     | diagnostic_stall \<Rightarrow> stagnation_instruction_limit options \<noteq> 0 \<and>
         stagnation_instruction_limit options \<le> instructions_retired rep \<and> cpu_diagnostic rep = None
     | _ \<Rightarrow> False)"
proof -
  obtain st where st: "result_wf options st" "report st = rep" "machine st = rt'"
    using boot_run_wf [OF assms(2,1)] by blast
  then show ?thesis
    by (cases "stop_reason rep")
       (auto simp: result_wf_def buffers_bounded_def counters_bounded_def stop_explained_def)
qed

definition idle_machine :: "R3000aState \<Rightarrow> Ps1BootRuntime" where
  "idle_machine cpu = \<lparr>rt_bus = initial_bus, rt_cpu = cpu, rt_bios = initial_bios,
     diagnostic_bios_frontier_pending = False\<rparr>"

lemma idle_machine_wf: "cpu_wf cpu \<Longrightarrow> pc_wf cpu \<Longrightarrow> machine_wf (idle_machine cpu)"
  by (simp add: machine_wf_def idle_machine_def bus_wf_initial bios_wf_initial)

text \<open>A machine about to make a BIOS call nobody implements.\<close>

definition stuck_cpu :: R3000aState where
  "stuck_cpu = initial_state\<lparr>pc := 0xA0, next_pc := 0xA4\<rparr>"

lemma stuck_cpu_wf: "cpu_wf stuck_cpu" "pc_wf stuck_cpu"
  by (simp_all add: stuck_cpu_def cpu_wf_def pc_wf_def initial_state_def)

lemma stuck_run:
  assumes "instruction_budget options \<noteq> 0"
  obtains rep rt' where "boot_run options (idle_machine stuck_cpu) = Some (rep, rt')"
    "stop_reason rep = bios_call_unimplemented"
proof -
  let ?st = "start_loop options (idle_machine stuck_cpu)"
  have g: "guest_to_physical 0xA0 = Some 0xA0" "is_bios_table 0xA0"
    by (simp_all add: guest_to_physical_def is_bios_table_def bios_constants)
  have c: "pc (rt_cpu (machine ?st)) = 0xA0" "gpr (rt_cpu (machine ?st)) ! 9 = 0"
    "rt_bios (machine ?st) = initial_bios"
    by (simp_all add: start_loop_def idle_machine_def stuck_cpu_def initial_state_def)
  let ?s = "?st\<lparr>report := (report ?st)\<lparr>last_pc := 0xA0\<rparr>\<rparr>"
  have it: "boot_iteration options ?st = bios_iteration options 0xA0 ?s"
    by (simp add: boot_iteration_def c g Let_def)
  have d: "fst (dispatch initial_bios cpu 0xA0 0) = bios_unimplemented" for cpu
    by (simp add: dispatch_def bios_constants)
  note f = bios_iteration_fields [where options = options and p = "0xA0" and st = ?s]
  have "\<not> is_Continue (bios_iteration options 0xA0 ?s)" using f(1) c d by simp
  then obtain r where r: "bios_iteration options 0xA0 ?s = Return r" by (cases "bios_iteration options 0xA0 ?s") auto
  have sr: "stop_reason (report r) = bios_call_unimplemented" using f(10) c d r by simp
  have "instructions_retired (report ?st) < instruction_budget options"
    using assms by (simp add: start_loop_def empty_report_def word_gt_0)
  then have "run_loop options ?st = Some r"
    by (subst run_loop.simps) (simp add: it r)
  with sr that show ?thesis by (simp add: boot_run_def)
qed

theorem run_report_sound_witness:
  "\<exists>rep rt'. boot_run default_boot_options (idle_machine stuck_cpu) = Some (rep, rt') \<and> at_bios_table rt'"
proof -
  have "instruction_budget default_boot_options \<noteq> 0" by (simp add: default_boot_options_def)
  then obtain rep rt' where r: "boot_run default_boot_options (idle_machine stuck_cpu) = Some (rep, rt')"
    "stop_reason rep = bios_call_unimplemented" by (rule stuck_run)
  from run_report_sound [OF idle_machine_wf [OF stuck_cpu_wf] r(1)] r show ?thesis by simp
qed

text \<open>C4. A run returns unless it reaches, before the budget is spent, a handled BIOS call whose
  return address is the entry it was called through; if it does reach one it never returns, whatever
  the budget.\<close>

theorem run_returns_iff:
  assumes "machine_wf rt"
  shows "boot_run options rt \<noteq> None \<longleftrightarrow>
    \<not> (\<exists>st. boot_reaches options (start_loop options rt) st \<and> bios_self_return (machine st) \<and>
         instructions_retired (report st) < instruction_budget options)"
  using returns_or_spins [OF start_loop_wf [OF assms]] self_return_diverges [OF _ start_loop_wf [OF assms]]
  by (fastforce simp: boot_run_def)

text \<open>A program that has set \<open>t1\<close> to InitHeap and \<open>ra\<close> to the A0 table and jumped there.\<close>

definition spinning_cpu :: R3000aState where
  "spinning_cpu = initial_state\<lparr>gpr := (replicate 32 0)[9 := 0x39, 31 := 0xA0], pc := 0xA0, next_pc := 0xA4\<rparr>"

lemma spinning_cpu_wf: "cpu_wf spinning_cpu" "pc_wf spinning_cpu"
  by (simp_all add: spinning_cpu_def cpu_wf_def pc_wf_def initial_state_def)

theorem run_returns_iff_witness:
  "boot_run ps1_local_evidence_options (idle_machine spinning_cpu) = None"
proof -
  let ?o = ps1_local_evidence_options and ?rt = "idle_machine spinning_cpu"
  have wf: "machine_wf ?rt" by (rule idle_machine_wf [OF spinning_cpu_wf])
  have c: "rt_cpu (machine (start_loop ?o ?rt)) = spinning_cpu" by (simp add: start_loop_def idle_machine_def)
  have "machine_wf (machine (start_loop ?o ?rt))" using start_loop_wf [OF wf] by (simp add: loop_wf_def)
  then have "bios_self_return (machine (start_loop ?o ?rt))"
    by (simp add: bios_self_return_iff c)
       (simp add: spinning_cpu_def guest_to_physical_def is_bios_table_def handled_call_def bios_constants)
  moreover have "instructions_retired (report (start_loop ?o ?rt)) < instruction_budget ?o"
    by (simp add: start_loop_def empty_report_def ps1_local_evidence_options_def)
  ultimately show ?thesis using run_returns_iff [OF wf, of ?o] reaches_start by blast
qed

text \<open>
  After a run that stopped at an unimplemented BIOS call, the diagnostic fallback is accepted:
  it returns the chosen value in \<open>v0\<close>, returns to the caller, changes nothing else of the
  registers, memory or BIOS state, and can be applied only once.\<close>

theorem fallback_after_run:
  assumes "machine_wf rt" "boot_run options rt = Some (rep, rt')" "stop_reason rep = bios_call_unimplemented"
  shows "\<exists>rt''. apply_diagnostic_bios_fallback f rt' = (True, rt'') \<and> machine_wf rt'' \<and>
     rt_bus rt'' = rt_bus rt' \<and> rt_bios rt'' = rt_bios rt' \<and>
     pc (rt_cpu rt'') = gpr (rt_cpu rt') ! 31 \<and>
     (\<forall>i<32. gpr (rt_cpu rt'') ! i =
        (if i = 2 then fallback_value f (gpr (rt_cpu rt') ! 2) else gpr (rt_cpu rt') ! i)) \<and>
     fst (apply_diagnostic_bios_fallback f rt'') = False"
proof -
  obtain st where st: "result_wf options st" "report st = rep" "machine st = rt'"
    using boot_run_wf [OF assms(2,1)] by blast
  then have "machine_wf rt'" "diagnostic_bios_frontier_pending rt'" "at_bios_table rt'"
    using assms(3) by (auto simp: result_wf_def stop_explained_def)
  from fallback_accepts [OF this, of f] show ?thesis by (auto simp: fallback_refuses)
qed

theorem fallback_after_run_witness:
  "\<exists>rep rt' rt''. boot_run default_boot_options (idle_machine stuck_cpu) = Some (rep, rt') \<and>
     apply_diagnostic_bios_fallback return_one rt' = (True, rt'') \<and> gpr (rt_cpu rt'') ! 2 = 1"
proof -
  have "instruction_budget default_boot_options \<noteq> 0" by (simp add: default_boot_options_def)
  then obtain rep rt' where r: "boot_run default_boot_options (idle_machine stuck_cpu) = Some (rep, rt')"
    "stop_reason rep = bios_call_unimplemented" by (rule stuck_run)
  from fallback_after_run [OF idle_machine_wf [OF stuck_cpu_wf] r, of return_one] r(1) show ?thesis
    by (auto simp: fallback_value_def)
qed

section \<open>Explorations\<close>

text \<open>An exploration allowed no instruction at all: it runs the root segment and stops.\<close>

definition demo_options :: Ps1Max3Options where
  "demo_options = \<lparr>max_nodes = 1, max_branch_depth = 1, max_total_retired = 0, segment_options = default_boot_options\<rparr>"

lemma no_budget_run:
  assumes "instruction_budget options = 0"
  shows "\<exists>rep rt'. boot_run options rt = Some (rep, rt') \<and> instructions_retired rep = 0"
proof -
  let ?st = "start_loop options rt"
  have "run_loop options ?st = Some (?st\<lparr>report := (report ?st)\<lparr>stop_reason := execution_budget_exhausted\<rparr>\<rparr>)"
    using assms by (subst run_loop.simps) simp
  then show ?thesis by (simp add: boot_run_def start_loop_def empty_report_def)
qed

lemma small_exploration:
  assumes root: "boot_create exe = Inr root"
  obtains rep where "explore_ps1_max3 exe demo_options = Some (Inr rep)" "length (nodes rep) = 1"
proof -
  let ?ex = "new_explorer demo_options" and ?args = "root_args root"
  have b: "instruction_budget (segment_budget demo_options ?ex) = 0"
    by (simp add: segment_budget_def demo_options_def new_explorer_def Let_def)
  obtain segment rt' where run: "boot_run (segment_budget demo_options ?ex) (va_runtime ?args) = Some (segment, rt')"
    "instructions_retired segment = 0"
    using no_budget_run [OF b] by blast
  obtain ex1 deps where rec: "record_segment segment rt' ?args ?ex = (ex1, deps)" by fastforce
  define summary where "summary = summarize segment rt' ?args (length (nodes (ex_report ex1))) (card deps)"
  obtain can ex2 where push: "push_node demo_options (frontier_of segment rt' \<noteq> None) summary ex1 = (can, ex2)"
    by fastforce
  define ex3 where "ex3 = rank_node (length (nodes (ex_report ex1))) (va_path ?args) segment ex2"
  have idx: "node_index summary = length (nodes (ex_report ex1))" by (simp add: summary_def summarize_def Let_def)
  have n: "length (nodes (ex_report ex3)) = 1"
    using push_node_fields(1) [OF push idx] record_segment_fields(1) [OF rec]
    by (auto simp: ex3_def rank_node_fields same_search_def new_explorer_def)
  have "visit_segment demo_options r ?args segment rt' ?ex = Some (set_reason total_retired_limit ex3)" for r
    unfolding visit_segment_def Let_def rec prod.case summary_def [symmetric] push ex3_def [symmetric]
    by (simp add: demo_options_def)
  then have "visit 1 demo_options ?args ?ex = Some (set_reason total_retired_limit ex3)"
    by (simp add: visit_body_def run new_explorer_def [of demo_options, THEN arg_cong, of ex_report]
        demo_options_def [THEN arg_cong, of max_nodes])
  then show ?thesis
    using that n root by (simp add: explore_ps1_max3_def root_args_def [symmetric]
        demo_options_def [THEN arg_cong, of max_nodes] demo_options_def [THEN arg_cong, of max_branch_depth])
qed

lemma demo_exploration:
  obtains rep where "explore_ps1_max3 (demo_exe w) demo_options = Some (Inr rep)" "length (nodes rep) = 1"
  using demo_exe_created small_exploration by metis

text \<open>
  The report of an exploration is a tree in visiting order: node \<open>i\<close> has index
  \<open>i\<close>, only the first node is a root, every other node comes after its parent, is one level
  deeper and continues its retired count; no node is deeper than the branch depth and there are never
  more nodes than allowed.\<close>

theorem exploration_tree:
  assumes "explore_ps1_max3 executable options = Some (Inr rep)" "i < length (nodes rep)"
  shows "length (nodes rep) \<le> max_nodes options \<and> node_index (nodes rep ! i) = i \<and>
    node_depth (nodes rep ! i) \<le> max_branch_depth options \<and>
    (case node_parent (nodes rep ! i) of
       None \<Rightarrow> i = 0 \<and> node_depth (nodes rep ! i) = 0
     | Some p \<Rightarrow> p < i \<and> node_depth (nodes rep ! i) = node_depth (nodes rep ! p) + 1 \<and>
         cumulative_retired (nodes rep ! i) = cumulative_retired (nodes rep ! p) + segment_retired (nodes rep ! i))"
proof -
  obtain ex where "explorer_wf options ex" "ex_report ex = rep" using explore_wf [OF assms(1)] by blast
  then have "length (nodes rep) \<le> max_nodes options" "node_wf options (nodes rep) i"
    using assms(2) by (auto simp: explorer_wf_def tree_wf_def)
  then show ?thesis by (auto simp: node_wf_def split: option.splits)
qed

theorem exploration_tree_witness:
  "\<exists>rep. explore_ps1_max3 (demo_exe 0) demo_options = Some (Inr rep) \<and> node_index (nodes rep ! 0) = 0"
proof -
  obtain rep where r: "explore_ps1_max3 (demo_exe 0) demo_options = Some (Inr rep)" "length (nodes rep) = 1"
    by (rule demo_exploration)
  then have "0 < length (nodes rep)" by simp
  from exploration_tree [OF r(1) this] r(1) show ?thesis by auto
qed



text \<open>
  A search over four answers and \<open>d\<close> levels has at most \<open>(4^(d+1) - 1) / 3\<close>
  nodes, so the node limit cannot stop it when the limit is at least that: the limit 5461 of the
  evidence options is exactly the size of the complete tree of depth 6.\<close>

theorem exploration_size:
  assumes "explore_ps1_max3 executable options = Some (Inr rep)"
  shows "3 * length (nodes rep) < 4 ^ (max_branch_depth options + 1) \<and>
    (4 ^ (max_branch_depth options + 1) \<le> 3 * max_nodes options + 1 \<longrightarrow> termination_reason rep \<noteq> node_limit)"
  using explore_node_limit [OF assms] tree_size_closed [of "max_branch_depth options"] by linarith

theorem exploration_size_witness:
  "\<exists>rep. explore_ps1_max3 (demo_exe 0) demo_options = Some (Inr rep) \<and> length (nodes rep) \<le> 5"
proof -
  obtain rep where r: "explore_ps1_max3 (demo_exe 0) demo_options = Some (Inr rep)" "length (nodes rep) = 1"
    by (rule demo_exploration)
  from exploration_size [OF r(1)] r(1) show ?thesis by (auto simp: demo_options_def)
qed

text \<open>
  The recursion of the search needs no more levels than the branch depth: from any node, extra
  levels change nothing.\<close>

theorem visit_levels_suffice:
  "visit (max_branch_depth options - va_depth args + k) options args ex =
   visit (max_branch_depth options - va_depth args) options args ex"
  by (rule visit_enough_levels) simp_all

end
