(* ===== verification/Ordered_Map.thy ===== *)
theory Ordered_Map
  imports Prelude
begin

text \<open>
  \<^verbatim>\<open>std::map\<close> as the session and the resolver use it: an association list in ascending
  key order.  \<open>om_put\<close> is \<open>m[k] = v\<close>, lookup is \<^const>\<open>map_of\<close> (\<open>find\<close>), \<open>om_floor\<close> is
  the value before \<open>upper_bound(k)\<close> with a default when there is none, and
  \<open>om_erase_before\<close> erases from the front while the key is below a bound.
\<close>

type_synonym ('k, 'v) om = "('k \<times> 'v) list"

fun om_put :: "'k::linorder \<Rightarrow> 'v \<Rightarrow> ('k, 'v) om \<Rightarrow> ('k, 'v) om" where
  "om_put k v [] = [(k, v)]"
| "om_put k v ((a, b) # m) =
     (if k < a then (k, v) # (a, b) # m
      else if k = a then (k, v) # m
      else (a, b) # om_put k v m)"

fun om_floor :: "'v \<Rightarrow> 'k::linorder \<Rightarrow> ('k, 'v) om \<Rightarrow> 'v" where
  "om_floor d k [] = d"
| "om_floor d k ((a, b) # m) = (if a \<le> k then om_floor b k m else d)"

definition om_erase_before :: "'k::linorder \<Rightarrow> ('k, 'v) om \<Rightarrow> ('k, 'v) om" where
  "om_erase_before k m = dropWhile (\<lambda>p. fst p < k) m"

definition om_ok :: "('k::linorder, 'v) om \<Rightarrow> bool" where
  "om_ok m \<longleftrightarrow> sorted_wrt (<) (map fst m)"

lemma om_ok_Nil [simp]: "om_ok []"
  by (simp add: om_ok_def)

lemma om_ok_Cons: "om_ok ((a, b) # m) \<longleftrightarrow> (\<forall>k\<in>fst ` set m. a < k) \<and> om_ok m"
  by (simp add: om_ok_def)

lemma keys_om_put: "fst ` set (om_put k v m) = insert k (fst ` set m)"
  by (induction k v m rule: om_put.induct) auto

lemma map_of_om_put: "map_of (om_put k v m) = (map_of m)(k \<mapsto> v)"
  by (induction k v m rule: om_put.induct) (auto simp: fun_eq_iff)

lemma om_ok_put [simp]: "om_ok m \<Longrightarrow> om_ok (om_put k v m)"
proof (induction k v m rule: om_put.induct)
  case (2 k v a b m)
  consider "k < a" | "k = a" | "a < k" by force
  then show ?case
    using 2 by cases (auto simp: om_ok_Cons keys_om_put)
qed (simp add: om_ok_Cons)

lemma om_floor_out: "\<forall>j\<in>fst ` set m. k < j \<Longrightarrow> om_floor d k m = d"
  by (cases m) auto

lemma om_floor_put_above: "k' < k \<Longrightarrow> om_floor d k' (om_put k v m) = om_floor d k' m"
  by (induction k v m arbitrary: d rule: om_put.induct) auto

lemma om_floor_put_same: "om_ok m \<Longrightarrow> om_floor d k (om_put k v m) = v"
proof (induction k v m arbitrary: d rule: om_put.induct)
  case (2 k v a b m)
  consider "k < a" | "k = a" | "a < k" by force
  then show ?case
    using 2 by cases (auto simp: om_ok_Cons intro: om_floor_out)
qed simp

lemma om_floor_put_agreeing:
  assumes "om_ok m" "om_floor d k m = v" "k \<le> k'"
  shows "om_floor d k' (om_put k v m) = om_floor d k' m"
  using assms
proof (induction k v m arbitrary: d rule: om_put.induct)
  case (2 k v a b m)
  consider "k < a" | "k = a" | "a < k" by force
  then show ?case
    using 2 by cases (auto simp: om_ok_Cons om_floor_out)
qed simp

lemma om_floor_mem: "om_ok m \<Longrightarrow> map_of m k = Some v \<Longrightarrow> om_floor d k m = v"
proof (induction m arbitrary: d)
  case (Cons p m)
  obtain a b where p: "p = (a, b)" by force
  show ?case
  proof (cases "k = a")
    case True
    then show ?thesis
      using Cons.prems by (auto simp: p om_ok_Cons intro: om_floor_out)
  next
    case False
    then have "map_of m k = Some v" "a < k"
      using Cons.prems by (auto simp: p om_ok_Cons dest: map_of_SomeD)
        (metis fst_conv image_eqI map_of_SomeD)
    then show ?thesis
      using Cons by (auto simp: p om_ok_Cons)
  qed
qed simp

lemma om_ok_erase_before [simp]: "om_ok m \<Longrightarrow> om_ok (om_erase_before k m)"
  by (induction m) (auto simp: om_erase_before_def om_ok_Cons)

lemma map_of_erase_before:
  assumes "om_ok m"
  shows "map_of (om_erase_before k m) x = (if x < k then None else map_of m x)"
  using assms
proof (induction m)
  case (Cons p m)
  obtain a b where p: "p = (a, b)" by force
  show ?case
  proof (cases "a < k")
    case True
    then show ?thesis
      using Cons by (auto simp: om_erase_before_def p om_ok_Cons)
  next
    case False
    moreover have "x < k \<Longrightarrow> x \<notin> fst ` set m"
      using Cons.prems False by (auto simp: p om_ok_Cons)
    ultimately show ?thesis
      by (auto simp: om_erase_before_def p map_of_eq_None_iff)
  qed
qed (simp add: om_erase_before_def)

end
