(* ===== verification/Sha256.thy ===== *)
theory Sha256
  imports Prelude
begin

text \<open>
  SHA-256, from \<^verbatim>\<open>src/src/core/sha256.h\<close> and \<^verbatim>\<open>sha256.cpp\<close>.  A hasher is the
  record of the class: eight state words, the 64-byte buffer (stale bytes included), its
  fill level, the byte count modulo 2 to the 64 and the finalised flag.  The operations
  are \<open>transform\<close>, \<open>update\<close>, \<open>finalize\<close>, the one-shot \<open>sha256\<close> and the hexadecimal
  printer.  \<open>pad\<close> and \<open>absorb\<close> are the specification of the standard: padding, then
  a fold of the compression function over the 64-byte blocks; \<open>push_byte\<close> is the
  byte-at-a-time form of the copy loop, on which chunking does not matter.
\<close>

section \<open>Constants and the compression function\<close>

type_synonym Sha256Digest = "u8 list"

definition sha256_k :: "u32 list" where
  "sha256_k = concat [
    [0x428a2f98, 0x71374491, 0xb5c0fbcf, 0xe9b5dba5, 0x3956c25b, 0x59f111f1, 0x923f82a4, 0xab1c5ed5],
    [0xd807aa98, 0x12835b01, 0x243185be, 0x550c7dc3, 0x72be5d74, 0x80deb1fe, 0x9bdc06a7, 0xc19bf174],
    [0xe49b69c1, 0xefbe4786, 0x0fc19dc6, 0x240ca1cc, 0x2de92c6f, 0x4a7484aa, 0x5cb0a9dc, 0x76f988da],
    [0x983e5152, 0xa831c66d, 0xb00327c8, 0xbf597fc7, 0xc6e00bf3, 0xd5a79147, 0x06ca6351, 0x14292967],
    [0x27b70a85, 0x2e1b2138, 0x4d2c6dfc, 0x53380d13, 0x650a7354, 0x766a0abb, 0x81c2c92e, 0x92722c85],
    [0xa2bfe8a1, 0xa81a664b, 0xc24b8b70, 0xc76c51a3, 0xd192e819, 0xd6990624, 0xf40e3585, 0x106aa070],
    [0x19a4c116, 0x1e376c08, 0x2748774c, 0x34b0bcb5, 0x391c0cb3, 0x4ed8aa4a, 0x5b9cca4f, 0x682e6ff3],
    [0x748f82ee, 0x78a5636f, 0x84c87814, 0x8cc70208, 0x90befffa, 0xa4506ceb, 0xbef9a3f7, 0xc67178f2]]"

definition sha256_iv :: "u32 list" where
  "sha256_iv = [0x6a09e667, 0xbb67ae85, 0x3c6ef372, 0xa54ff53a,
                0x510e527f, 0x9b05688c, 0x1f83d9ab, 0x5be0cd19]"

definition rotr :: "u32 \<Rightarrow> nat \<Rightarrow> u32" where
  "rotr x n = (drop_bit n x) OR (push_bit (32 - n) x)"

definition load_big_endian :: "u8 list \<Rightarrow> nat \<Rightarrow> u32" where
  "load_big_endian block i =
     (let o' = i * 4 in
      push_bit 24 (ucast (block ! o')) OR push_bit 16 (ucast (block ! (o' + 1))) OR
      push_bit 8 (ucast (block ! (o' + 2))) OR ucast (block ! (o' + 3)))"

definition schedule_word :: "nat \<Rightarrow> u32 list \<Rightarrow> u32 list" where
  "schedule_word i w =
     (let s0 = rotr (w ! (i - 15)) 7 XOR rotr (w ! (i - 15)) 18 XOR drop_bit 3 (w ! (i - 15));
          s1 = rotr (w ! (i - 2)) 17 XOR rotr (w ! (i - 2)) 19 XOR drop_bit 10 (w ! (i - 2))
      in w[i := w ! (i - 16) + s0 + w ! (i - 7) + s1])"

definition message_schedule :: "u8 list \<Rightarrow> u32 list" where
  "message_schedule block =
     fold schedule_word [16..<64] (map (load_big_endian block) [0..<16] @ replicate 48 0)"

type_synonym working = "u32 \<times> u32 \<times> u32 \<times> u32 \<times> u32 \<times> u32 \<times> u32 \<times> u32"

fun compress_round :: "u32 list \<Rightarrow> nat \<Rightarrow> working \<Rightarrow> working" where
  "compress_round w i (a, b, c, d, e, f, g, h) =
     (let s1 = rotr e 6 XOR rotr e 11 XOR rotr e 25;
          ch = (e AND f) XOR ((NOT e) AND g);
          temp1 = h + s1 + ch + sha256_k ! i + w ! i;
          s0 = rotr a 2 XOR rotr a 13 XOR rotr a 22;
          maj = (a AND b) XOR (a AND c) XOR (b AND c);
          temp2 = s0 + maj
      in (temp1 + temp2, a, b, c, d + temp1, e, f, g))"

definition compress_words :: "u32 list \<Rightarrow> u8 list \<Rightarrow> u32 list" where
  "compress_words st block =
     (let w = message_schedule block;
          (a, b, c, d, e, f, g, h) = fold (compress_round w) [0..<64]
            (st ! 0, st ! 1, st ! 2, st ! 3, st ! 4, st ! 5, st ! 6, st ! 7)
      in [st ! 0 + a, st ! 1 + b, st ! 2 + c, st ! 3 + d,
          st ! 4 + e, st ! 5 + f, st ! 6 + g, st ! 7 + h])"

section \<open>The hasher\<close>

record Sha256Hasher =
  sha_state :: "u32 list"
  sha_buffer :: "u8 list"
  buffer_size :: nat
  total_bytes :: u64
  sha_finalized :: bool

definition new_hasher :: Sha256Hasher where
  "new_hasher = \<lparr>sha_state = sha256_iv, sha_buffer = replicate 64 0, buffer_size = 0,
                 total_bytes = 0, sha_finalized = False\<rparr>"

definition transform_buffer :: "Sha256Hasher \<Rightarrow> Sha256Hasher" where
  "transform_buffer h = h\<lparr>sha_state := compress_words (sha_state h) (sha_buffer h)\<rparr>"

definition copy_into :: "'a list \<Rightarrow> nat \<Rightarrow> 'a list \<Rightarrow> 'a list" where
  "copy_into dst at src = take at dst @ src @ drop (at + length src) dst"

text \<open>
  One turn of the copy loop: \<open>take\<close> bytes move to the buffer, and a full buffer is
  compressed and emptied.
\<close>

definition update_turn :: "nat \<Rightarrow> u8 list \<Rightarrow> Sha256Hasher \<Rightarrow> Sha256Hasher" where
  "update_turn n bytes h =
     (let h1 = h\<lparr>sha_buffer := copy_into (sha_buffer h) (buffer_size h) (take n bytes),
                 buffer_size := buffer_size h + n\<rparr>
      in if buffer_size h1 = 64 then (transform_buffer h1)\<lparr>buffer_size := 0\<rparr> else h1)"

text \<open>
  The loop of \<open>update\<close>.  Every turn that starts with room in the buffer consumes a
  byte and leaves room again; a buffer with no room at the loop's head, which the
  invariant \<open>hasher_ok\<close> excludes, would not make progress, and the model stops there.
\<close>

function update_loop :: "u8 list \<Rightarrow> Sha256Hasher \<Rightarrow> Sha256Hasher" where
  "update_loop bytes h =
     (if bytes = [] then h
      else let n = min (64 - buffer_size h) (length bytes) in
        if n = 0 then h
        else update_loop (drop n bytes) (update_turn n bytes h))"
  by pat_completeness auto
termination
  by (relation "measure (\<lambda>(bytes, h). length bytes)") auto

declare update_loop.simps [simp del]

definition hasher_update :: "Sha256Hasher \<Rightarrow> u8 list \<Rightarrow> unit result \<times> Sha256Hasher" where
  "hasher_update h bytes =
     (if sha_finalized h
      then (failure invalid_argument ''SHA-256 hasher is already finalized'', h)
      else (success (),
            update_loop bytes (h\<lparr>total_bytes := total_bytes h + of_nat (length bytes)\<rparr>)))"

definition fill_zero :: "u8 list \<Rightarrow> nat \<Rightarrow> nat \<Rightarrow> u8 list" where
  "fill_zero buf from until = take from buf @ replicate (until - from) 0 @ drop until buf"

definition length_bytes :: "u64 \<Rightarrow> u8 list" where
  "length_bytes n = map (\<lambda>i. ucast (drop_bit (8 * (7 - i)) n)) [0..<8]"

definition digest_bytes :: "u32 list \<Rightarrow> Sha256Digest" where
  "digest_bytes st =
     concat (map (\<lambda>w. [ucast (drop_bit 24 w), ucast (drop_bit 16 w), ucast (drop_bit 8 w), ucast w])
                 st)"

definition append_marker :: "Sha256Hasher \<Rightarrow> Sha256Hasher" where
  "append_marker h =
     h\<lparr>sha_finalized := True, sha_buffer := (sha_buffer h)[buffer_size h := 0x80],
       buffer_size := buffer_size h + 1\<rparr>"

definition spill_block :: "Sha256Hasher \<Rightarrow> Sha256Hasher" where
  "spill_block h =
     (if 56 < buffer_size h
      then (transform_buffer (h\<lparr>sha_buffer := fill_zero (sha_buffer h) (buffer_size h) 64\<rparr>))
             \<lparr>buffer_size := 0\<rparr>
      else h)"

definition hasher_finalize :: "Sha256Hasher \<Rightarrow> Sha256Digest result \<times> Sha256Hasher" where
  "hasher_finalize h =
     (if sha_finalized h
      then (failure invalid_argument ''SHA-256 hasher is already finalized'', h)
      else
        let bit_length = total_bytes h * 8;
            h1 = spill_block (append_marker h);
            h2 = h1\<lparr>sha_buffer := copy_into (fill_zero (sha_buffer h1) (buffer_size h1) 56) 56
                                    (length_bytes bit_length)\<rparr>;
            h3 = transform_buffer h2
        in (success (digest_bytes (sha_state h3)), h3))"

definition sha256 :: "u8 list \<Rightarrow> Sha256Digest" where
  "sha256 bytes =
     (case fst (hasher_finalize (snd (hasher_update new_hasher bytes))) of
        Inr digest \<Rightarrow> digest
      | Inl _ \<Rightarrow> replicate 32 0)"

definition hex_digit :: "nat \<Rightarrow> char" where
  "hex_digit n = ''0123456789abcdef'' ! n"

definition hex_byte :: "u8 \<Rightarrow> string" where
  "hex_byte b = [hex_digit (unat b div 16), hex_digit (unat b mod 16)]"

definition sha256_hex :: "Sha256Digest \<Rightarrow> string" where
  "sha256_hex digest = concat (map hex_byte digest)"

section \<open>Invariant\<close>

definition hasher_ok :: "Sha256Hasher \<Rightarrow> bool" where
  "hasher_ok h \<longleftrightarrow> length (sha_state h) = 8 \<and> length (sha_buffer h) = 64 \<and> buffer_size h < 64"

lemma length_compress_words [simp]: "length (compress_words st block) = 8"
  by (simp add: compress_words_def Let_def split: prod.splits)

lemma length_copy_into [simp]:
  "at + length src \<le> length dst \<Longrightarrow> length (copy_into dst at src) = length dst"
  by (simp add: copy_into_def)

lemma hasher_ok_new: "hasher_ok new_hasher"
  by (simp add: hasher_ok_def new_hasher_def sha256_iv_def)

section \<open>The copy loop, byte by byte\<close>

definition push_byte :: "u8 \<Rightarrow> Sha256Hasher \<Rightarrow> Sha256Hasher" where
  "push_byte b h = update_turn 1 [b] h"

lemma copy_into_Nil [simp]: "copy_into dst at [] = dst"
  by (simp add: copy_into_def)

lemma copy_into_singleton: "at < length dst \<Longrightarrow> copy_into dst at [x] = dst[at := x]"
  by (simp add: copy_into_def upd_conv_take_nth_drop)

lemma copy_into_Cons:
  "at + length (x # src) \<le> length dst \<Longrightarrow>
   copy_into dst at (x # src) = copy_into (dst[at := x]) (Suc at) src"
  by (simp add: copy_into_def take_Suc_conv_app_nth add.commute)

lemma hasher_ok_update_turn:
  assumes "hasher_ok h" "0 < n" "n \<le> 64 - buffer_size h" "n \<le> length bytes"
  shows "hasher_ok (update_turn n bytes h)"
  using assms by (auto simp: hasher_ok_def update_turn_def Let_def transform_buffer_def)

lemma hasher_ok_push_byte: "hasher_ok h \<Longrightarrow> hasher_ok (push_byte b h)"
  unfolding push_byte_def by (rule hasher_ok_update_turn) (auto simp: hasher_ok_def)

lemma update_turn_Suc:
  assumes "hasher_ok h" "Suc n \<le> 64 - buffer_size h" "Suc n \<le> length (b # bytes)" "0 < n"
  shows "update_turn (Suc n) (b # bytes) h = update_turn n bytes (push_byte b h)"
proof -
  have room: "buffer_size h + Suc n \<le> 64" and len: "length (sha_buffer h) = 64"
    using assms by (auto simp: hasher_ok_def)
  have "push_byte b h =
      h\<lparr>sha_buffer := (sha_buffer h)[buffer_size h := b], buffer_size := Suc (buffer_size h)\<rparr>"
    using room len assms(4)
    by (simp add: push_byte_def update_turn_def Let_def copy_into_singleton)
  then show ?thesis
    using room len assms(3)
    by (simp add: update_turn_def Let_def copy_into_Cons)
qed

lemma update_turn_fold:
  assumes "hasher_ok h" "0 < n" "n \<le> 64 - buffer_size h" "n \<le> length bytes"
  shows "update_turn n bytes h = fold push_byte (take n bytes) h"
  using assms
proof (induction n arbitrary: bytes h)
  case 0
  then show ?case by simp
next
  case (Suc n)
  then obtain b rest where bytes: "bytes = b # rest"
    by (cases bytes) auto
  show ?case
  proof (cases "n = 0")
    case True
    then show ?thesis
      by (simp add: bytes push_byte_def update_turn_def)
  next
    case False
    have ok: "hasher_ok (push_byte b h)"
      using Suc.prems by (intro hasher_ok_push_byte) simp
    have "buffer_size (push_byte b h) = Suc (buffer_size h)"
      using Suc.prems False by (simp add: push_byte_def update_turn_def Let_def)
    then have "update_turn n rest (push_byte b h) = fold push_byte (take n rest) (push_byte b h)"
      using Suc.prems False by (intro Suc.IH ok) (auto simp: bytes)
    then show ?thesis
      using Suc.prems False update_turn_Suc [of h n b rest] by (simp add: bytes)
  qed
qed

lemma hasher_ok_fold: "hasher_ok h \<Longrightarrow> hasher_ok (fold push_byte bs h)"
  by (induction bs arbitrary: h) (auto intro: hasher_ok_push_byte)

lemma update_loop_fold: "hasher_ok h \<Longrightarrow> update_loop bytes h = fold push_byte bytes h"
proof (induction bytes h rule: update_loop.induct)
  case (1 bytes h)
  define n where "n = min (64 - buffer_size h) (length bytes)"
  show ?case
  proof (cases "bytes = []")
    case True
    then show ?thesis by (subst update_loop.simps) simp
  next
    case False
    have n: "0 < n" "n \<le> 64 - buffer_size h" "n \<le> length bytes"
      using False "1.prems" by (auto simp: n_def hasher_ok_def)
    have "update_loop bytes h = update_loop (drop n bytes) (update_turn n bytes h)"
      using False n(1) by (subst update_loop.simps) (simp only: Let_def n_def [symmetric] if_False neq0_conv [symmetric])
    also have "\<dots> = fold push_byte (drop n bytes) (update_turn n bytes h)"
      using "1.IH" [OF False n_def] n hasher_ok_update_turn [OF "1.prems" n] by simp
    also have "\<dots> = fold push_byte (take n bytes @ drop n bytes) h"
      by (simp only: fold_append o_apply update_turn_fold [OF "1.prems" n])
    finally show ?thesis by simp
  qed
qed

lemma push_byte_total: "push_byte b (h\<lparr>total_bytes := t\<rparr>) = (push_byte b h)\<lparr>total_bytes := t\<rparr>"
  by (simp add: push_byte_def update_turn_def Let_def transform_buffer_def)

lemma fold_push_byte_total:
  "fold push_byte bs (h\<lparr>total_bytes := t\<rparr>) = (fold push_byte bs h)\<lparr>total_bytes := t\<rparr>"
  by (induction bs arbitrary: h) (simp_all add: push_byte_total)

lemma push_byte_fields [simp]:
  "total_bytes (push_byte b h) = total_bytes h"
  "sha_finalized (push_byte b h) = sha_finalized h"
  by (simp_all add: push_byte_def update_turn_def Let_def transform_buffer_def)

lemma fold_push_byte_fields [simp]:
  "total_bytes (fold push_byte bs h) = total_bytes h"
  "sha_finalized (fold push_byte bs h) = sha_finalized h"
  by (induction bs arbitrary: h) simp_all

lemma hasher_ok_total [simp]: "hasher_ok (h\<lparr>total_bytes := t\<rparr>) = hasher_ok h"
  by (simp add: hasher_ok_def)

lemma hasher_update_fold:
  assumes "hasher_ok h" "\<not> sha_finalized h"
  shows "hasher_update h bs =
    (success (), (fold push_byte bs h)\<lparr>total_bytes := total_bytes h + of_nat (length bs)\<rparr>)"
  using assms by (simp add: hasher_update_def update_loop_fold fold_push_byte_total)

section \<open>The padded message and its blocks\<close>

fun blocks :: "u8 list \<Rightarrow> u8 list list" where
  "blocks bs = (if length bs < 64 then [] else take 64 bs # blocks (drop 64 bs))"

declare blocks.simps [simp del]

definition absorb :: "u32 list \<Rightarrow> u8 list \<Rightarrow> u32 list" where
  "absorb st bs = foldl compress_words st (blocks bs)"

definition pad :: "u8 list \<Rightarrow> u8 list" where
  "pad bs = bs @ [0x80] @ replicate ((119 - length bs mod 64) mod 64) 0
            @ length_bytes (of_nat (8 * length bs))"

lemma blocks_short: "length bs < 64 \<Longrightarrow> blocks bs = []"
  by (simp add: blocks.simps)

lemma blocks_block_append: "length b = 64 \<Longrightarrow> blocks (b @ bs) = b # blocks bs"
  by (simp add: blocks.simps [of "b @ bs"])

lemma blocks_append:
  "64 dvd length xs \<Longrightarrow> blocks (xs @ ys) = blocks xs @ blocks ys"
proof (induction xs rule: blocks.induct)
  case (1 xs)
  show ?case
  proof (cases "length xs < 64")
    case True
    then show ?thesis using 1 by (auto simp: blocks_short dest: dvd_imp_le)
  next
    case False
    moreover have "64 dvd length (drop 64 xs)"
      using 1 False by (simp add: dvd_diff_nat)
    ultimately show ?thesis
      using 1 by (simp add: blocks.simps [of "xs @ ys"] blocks.simps [of xs])
  qed
qed

definition whole :: "nat \<Rightarrow> nat" where
  "whole n = 64 * (n div 64)"

lemma whole_le: "whole n \<le> n" and whole_mod: "n - whole n = n mod 64"
  by (simp_all add: whole_def minus_mult_div_eq_mod)

lemma dvd_take_whole: "64 dvd length (take (whole (length bs)) bs)"
proof -
  have "length (take (whole (length bs)) bs) = whole (length bs)"
    using whole_le [of "length bs"] by simp
  then show ?thesis by (simp add: whole_def)
qed

lemma absorb_append:
  assumes "64 dvd length xs"
  shows "absorb st (xs @ ys) = absorb (absorb st xs) ys"
  by (simp add: absorb_def blocks_append [OF assms])

lemma absorb_block: "length b = 64 \<Longrightarrow> absorb st b = compress_words st b"
  using blocks_block_append [of b "[]"] by (simp add: absorb_def blocks_short)

lemma absorb_take_whole:
  "absorb st bs = absorb st (take (whole (length bs)) bs)"
proof -
  have "length (drop (whole (length bs)) bs) < 64"
    by (simp add: whole_mod)
  moreover have "64 dvd length (take (whole (length bs)) bs)"
    by (rule dvd_take_whole)
  ultimately show ?thesis
    using absorb_append [of "take (whole (length bs)) bs" st "drop (whole (length bs)) bs"]
    by (simp add: absorb_def blocks_short)
qed

text \<open>\<open>holds h bs\<close>: the hasher has read exactly the message \<open>bs\<close>.\<close>

definition holds :: "Sha256Hasher \<Rightarrow> u8 list \<Rightarrow> bool" where
  "holds h bs \<longleftrightarrow> hasher_ok h \<and> sha_state h = absorb sha256_iv bs \<and>
     buffer_size h = length bs mod 64 \<and>
     take (buffer_size h) (sha_buffer h) = drop (whole (length bs)) bs"

lemma holds_new: "holds new_hasher []"
  by (simp add: holds_def hasher_ok_new) (simp add: new_hasher_def absorb_def blocks_short)

lemma whole_Suc:
  "whole (Suc n) = (if Suc (n mod 64) = 64 then whole n + 64 else whole n)"
  unfolding whole_def by (simp add: div_Suc mod_Suc)

lemma absorb_snoc:
  "absorb st (bs @ [b]) =
     (if Suc (length bs mod 64) = 64
      then compress_words (absorb st bs) (drop (whole (length bs)) bs @ [b])
      else absorb st bs)"
proof (cases "Suc (length bs mod 64) = 64")
  case True
  let ?n = "whole (length bs)"
  have "bs @ [b] = take ?n bs @ (drop ?n bs @ [b])"
    by simp
  moreover have "64 dvd length (take ?n bs)"
    by (rule dvd_take_whole)
  moreover have "length (drop ?n bs @ [b]) = 64"
    using True by (simp add: whole_mod)
  ultimately show ?thesis
    using True absorb_append [of "take ?n bs" st "drop ?n bs @ [b]"]
    by (metis absorb_block absorb_take_whole)
next
  case False
  then have "whole (length (bs @ [b])) = whole (length bs)"
    by (simp add: whole_Suc)
  then have "take (whole (length (bs @ [b]))) (bs @ [b]) = take (whole (length bs)) bs"
    using whole_le [of "length bs"] by simp
  then show ?thesis
    using False absorb_take_whole [of st "bs @ [b]"] absorb_take_whole [of st bs] by simp
qed

lemma holds_push_byte:
  assumes "holds h bs"
  shows "holds (push_byte b h) (bs @ [b])"
proof -
  have ok: "hasher_ok h" and st: "sha_state h = absorb sha256_iv bs"
    and size: "buffer_size h = length bs mod 64"
    and pend: "take (buffer_size h) (sha_buffer h) = drop (whole (length bs)) bs"
    and len: "length (sha_buffer h) = 64" and room: "buffer_size h < 64"
    using assms by (auto simp: holds_def hasher_ok_def)
  have ok': "hasher_ok (push_byte b h)"
    using ok by (rule hasher_ok_push_byte)
  have buf: "take (Suc (buffer_size h)) ((sha_buffer h)[buffer_size h := b])
      = drop (whole (length bs)) bs @ [b]"
    using pend room len by (simp add: take_Suc_conv_app_nth)
  show ?thesis
  proof (cases "Suc (buffer_size h) = 64")
    case True
    have full: "(sha_buffer h)[buffer_size h := b] = drop (whole (length bs)) bs @ [b]"
      using buf True len by simp
    have wh: "whole (Suc (length bs)) = Suc (length bs)"
      using True size whole_mod [of "Suc (length bs)"] whole_le [of "Suc (length bs)"]
      by (simp add: mod_Suc)
    show ?thesis
      using True size st full len room ok' wh
      by (simp add: holds_def push_byte_def update_turn_def Let_def copy_into_singleton
          transform_buffer_def absorb_snoc mod_Suc)
  next
    case False
    then show ?thesis
      using size st buf len room ok' whole_le [of "length bs"]
      by (simp add: holds_def push_byte_def update_turn_def Let_def copy_into_singleton
          absorb_snoc mod_Suc whole_Suc)
  qed
qed

lemma holds_fold: "holds h bs \<Longrightarrow> holds (fold push_byte xs h) (bs @ xs)"
proof (induction xs arbitrary: h bs)
  case (Cons x xs)
  from Cons.IH [OF holds_push_byte [OF Cons.prems, of x]] show ?case by simp
qed simp

lemma holds_total [simp]: "holds (h\<lparr>total_bytes := t\<rparr>) bs = holds h bs"
  by (simp add: holds_def)

lemma length_length_bytes [simp]: "length (length_bytes n) = 8"
  by (simp add: length_bytes_def)

lemma fill_zero_upto:
  assumes "from \<le> until" "until \<le> length buf"
  shows "length (fill_zero buf from until) = length buf"
    and "take until (fill_zero buf from until) = take from buf @ replicate (until - from) 0"
  using assms by (simp_all add: fill_zero_def)

lemma copy_into_end:
  "at + length src = length dst \<Longrightarrow> copy_into dst at src = take at dst @ src"
  by (simp add: copy_into_def)

lemma finalize_small:
  assumes "\<not> sha_finalized h" "buffer_size h < 56" "length (sha_buffer h) = 64"
  shows "fst (hasher_finalize h) = success (digest_bytes (compress_words (sha_state h)
    (take (buffer_size h) (sha_buffer h) @ [0x80] @ replicate (55 - buffer_size h) 0
     @ length_bytes (total_bytes h * 8))))"
  using assms
  by (simp add: hasher_finalize_def append_marker_def spill_block_def transform_buffer_def Let_def
      copy_into_end fill_zero_upto take_Suc_conv_app_nth)

lemma finalize_large:
  assumes "\<not> sha_finalized h" "56 \<le> buffer_size h" "buffer_size h < 64"
    "length (sha_buffer h) = 64"
  shows "fst (hasher_finalize h) = success (digest_bytes (compress_words
    (compress_words (sha_state h)
      (take (buffer_size h) (sha_buffer h) @ [0x80] @ replicate (63 - buffer_size h) 0))
    (replicate 56 0 @ length_bytes (total_bytes h * 8))))"
proof -
  let ?b = "(sha_buffer h)[buffer_size h := 0x80]"
  have "fill_zero ?b (Suc (buffer_size h)) 64
      = take (buffer_size h) (sha_buffer h) @ [0x80] @ replicate (63 - buffer_size h) 0"
    using assms by (simp add: fill_zero_def take_Suc_conv_app_nth)
  then show ?thesis
    using assms
    by (simp add: hasher_finalize_def append_marker_def spill_block_def transform_buffer_def Let_def
        copy_into_end fill_zero_upto)
qed

lemma absorb_two_blocks:
  assumes "length a = 64" "length b = 64"
  shows "absorb st (a @ b) = compress_words (compress_words st a) b"
  using assms by (simp add: absorb_append absorb_block)

lemma finalize_holds:
  assumes "holds h bs" "\<not> sha_finalized h" "total_bytes h = of_nat (length bs)"
  shows "fst (hasher_finalize h) = success (digest_bytes (absorb sha256_iv (pad bs)))"
proof -
  let ?n = "whole (length bs)" and ?r = "length bs mod 64"
  have size: "buffer_size h = ?r" and len: "length (sha_buffer h) = 64"
    and st: "sha_state h = absorb sha256_iv bs"
    and pend: "take ?r (sha_buffer h) = drop ?n bs"
    using assms(1) by (auto simp: holds_def hasher_ok_def)
  have bits: "total_bytes h * 8 = of_nat (8 * length bs)"
    using assms(3) by (simp add: mult.commute)
  have lr: "length (drop ?n bs) = ?r" by (simp add: whole_mod)
  define tl where "tl = drop ?n bs @ [0x80] @ replicate ((119 - ?r) mod 64) 0
            @ length_bytes (of_nat (8 * length bs))"
  have "pad bs = take ?n bs @ tl"
    by (simp add: pad_def tl_def flip: append_assoc)
  then have "absorb sha256_iv (pad bs) = absorb (absorb sha256_iv (take ?n bs)) tl"
    by (simp only: absorb_append [OF dvd_take_whole])
  then have split: "absorb sha256_iv (pad bs) = absorb (sha_state h) tl"
    by (simp only: st absorb_take_whole [of sha256_iv bs, symmetric])
  show ?thesis
  proof (cases "?r < 56")
    case True
    then have "119 - ?r = 64 + (55 - ?r)" by simp
    then have "(119 - ?r) mod 64 = (64 + (55 - ?r)) mod 64" by (rule arg_cong)
    also have "\<dots> = (55 - ?r) mod 64" by (rule mod_add_self1)
    also have "\<dots> = 55 - ?r" by (rule mod_less) simp
    finally have z: "(119 - ?r) mod 64 = 55 - ?r" .
    have "absorb (sha_state h) tl = compress_words (sha_state h) tl"
      using True by (intro absorb_block) (simp add: tl_def z lr whole_mod)
    moreover have "buffer_size h < 56"
      using True size by simp
    ultimately show ?thesis
      by (simp only: finalize_small [OF assms(2) _ len] split size pend bits tl_def z)
  next
    case False
    have r: "?r < 64" by simp
    then have "119 - ?r = (63 - ?r) + 56" "119 - ?r < 64" using False by simp_all
    then have z: "(119 - ?r) mod 64 = (63 - ?r) + 56" by simp
    let ?a = "drop ?n bs @ [0x80] @ replicate (63 - ?r) 0"
    let ?b = "replicate 56 0 @ length_bytes (of_nat (8 * length bs))"
    have "tl = ?a @ ?b"
      unfolding tl_def z replicate_add by simp
    moreover have "length ?a = 64"
      using False r lr by simp
    ultimately have "absorb (sha_state h) tl = compress_words (compress_words (sha_state h) ?a) ?b"
      by (simp only: absorb_two_blocks length_append length_replicate length_length_bytes)
    moreover have "56 \<le> buffer_size h" "buffer_size h < 64"
      using False size by simp_all
    ultimately show ?thesis
      by (simp only: finalize_large [OF assms(2) _ _ len] split size pend bits append_assoc)
  qed
qed

lemma hasher_update_holds:
  assumes "holds h bs" "\<not> sha_finalized h" "total_bytes h = of_nat (length bs)"
  shows "holds (snd (hasher_update h xs)) (bs @ xs)"
    and "\<not> sha_finalized (snd (hasher_update h xs))"
    and "total_bytes (snd (hasher_update h xs)) = of_nat (length (bs @ xs))"
proof -
  have "hasher_ok h" using assms(1) by (simp add: holds_def)
  note upd = hasher_update_fold [OF this assms(2), of xs]
  show "holds (snd (hasher_update h xs)) (bs @ xs)"
    by (simp only: upd snd_conv holds_total holds_fold [OF assms(1)])
  show "\<not> sha_finalized (snd (hasher_update h xs))"
    by (simp add: upd assms(2))
  show "total_bytes (snd (hasher_update h xs)) = of_nat (length (bs @ xs))"
    by (simp add: upd assms(3))
qed

lemma digest_length: "length (digest_bytes st) = 4 * length st"
  by (induction st) (simp_all add: digest_bytes_def)

lemma length_absorb [simp]: "length st = 8 \<Longrightarrow> length (absorb st bs) = 8"
proof -
  have "length st = 8 \<Longrightarrow> length (foldl compress_words st xs) = 8" for xs
    by (induction xs arbitrary: st) simp_all
  then show "length st = 8 \<Longrightarrow> length (absorb st bs) = 8"
    by (simp add: absorb_def)
qed

lemma sha256_eq: "sha256 bs = digest_bytes (absorb sha256_iv (pad bs))"
proof -
  let ?h = "snd (hasher_update new_hasher bs)"
  have h0: "\<not> sha_finalized new_hasher" "total_bytes new_hasher = of_nat (length [])"
    by (simp_all add: new_hasher_def)
  show ?thesis
    using finalize_holds [of ?h bs] hasher_update_holds [OF holds_new h0, of bs]
    by (simp add: sha256_def)
qed

lemma length_sha256 [simp]: "length (sha256 bs) = 32"
  by (simp add: sha256_eq digest_length sha256_iv_def)

section \<open>Hexadecimal form\<close>

definition lower_hex :: "char \<Rightarrow> bool" where
  "lower_hex c \<longleftrightarrow> c \<in> set ''0123456789abcdef''"

lemma hex_digit_lower: "n < 16 \<Longrightarrow> lower_hex (hex_digit n)"
  unfolding lower_hex_def hex_digit_def by (rule nth_mem) simp

lemma hex_byte_lower: "c \<in> set (hex_byte b) \<Longrightarrow> lower_hex c"
proof -
  have "unat b < 256" using unsigned_less [of b] by simp
  then show "c \<in> set (hex_byte b) \<Longrightarrow> lower_hex c"
    by (auto simp: hex_byte_def intro!: hex_digit_lower)
qed

lemma length_sha256_hex [simp]: "length (sha256_hex d) = 2 * length d"
  by (induction d) (simp_all add: sha256_hex_def hex_byte_def)

lemma sha256_hex_lower: "list_all lower_hex (sha256_hex d)"
  by (auto simp: sha256_hex_def list_all_iff dest: hex_byte_lower)

lemma hex_digit_inj: "\<lbrakk>m < 16; n < 16; hex_digit m = hex_digit n\<rbrakk> \<Longrightarrow> m = n"
proof -
  have "distinct ''0123456789abcdef''" by simp
  then show "\<lbrakk>m < 16; n < 16; hex_digit m = hex_digit n\<rbrakk> \<Longrightarrow> m = n"
    unfolding hex_digit_def by (subst (asm) nth_eq_iff_index_eq) simp_all
qed

lemma hex_byte_inj: "hex_byte a = hex_byte b \<longleftrightarrow> a = b"
proof
  assume eq: "hex_byte a = hex_byte b"
  have "unat a < 256" "unat b < 256"
    using unsigned_less [of a] unsigned_less [of b] by simp_all
  then have "unat a div 16 = unat b div 16" "unat a mod 16 = unat b mod 16"
    using eq by (auto simp: hex_byte_def intro!: hex_digit_inj)
  then have "unat a = unat b"
    by (metis div_mult_mod_eq)
  then show "a = b" by (simp only: word_unat_eq_iff)
qed simp

lemma sha256_hex_inj: "sha256_hex d = sha256_hex e \<longleftrightarrow> d = e"
proof (induction d arbitrary: e)
  case Nil
  then show ?case by (cases e) (auto simp: sha256_hex_def hex_byte_def)
next
  case (Cons a d)
  then show ?case
    proof (cases e)
    case (Cons b e')
    have "hex_byte a @ x = hex_byte b @ y \<longleftrightarrow> a = b \<and> x = y" for x y
      using hex_byte_inj [of a b] by (auto simp: hex_byte_def)
    then show ?thesis
      using Cons.IH [of e'] by (simp add: Cons sha256_hex_def)
  qed (simp add: sha256_hex_def hex_byte_def)
qed

end
