(* ===== verification/Rollback.thy ===== *)
theory Rollback
  imports Ordered_Map Sha256
begin

text \<open>
  The rollback session of \<^verbatim>\<open>src/src/core/rollback.h\<close> and \<^verbatim>\<open>rollback.cpp\<close>.  The
  simulation behind \<open>IRollbackSimulation\<close> is a record of three functions over its own
  state; the session keeps that state, the retained frames, the remote inputs, the local
  and remote state hashes, the first frame of disagreement and the telemetry.
\<close>

section \<open>Inputs, the simulation interface and the generator\<close>

record RollbackInput =
  buttons :: u32
  axis_x :: u16
  axis_y :: u16

definition no_input :: RollbackInput where
  "no_input = \<lparr>buttons = 0, axis_x = 0, axis_y = 0\<rparr>"

record 's IRollbackSimulation =
  save_state :: "'s \<Rightarrow> u8 list"
  load_state :: "u8 list \<Rightarrow> 's \<Rightarrow> unit result \<times> 's"
  step_frame :: "RollbackInput \<Rightarrow> RollbackInput \<Rightarrow> bool \<Rightarrow> 's \<Rightarrow> unit result \<times> 's"

definition next_u32 :: "u64 \<Rightarrow> u32 \<times> u64" where
  "next_u32 s =
     (let s' = s + 0x9e3779b97f4a7c15;
          z1 = (s' XOR drop_bit 30 s') * 0xbf58476d1ce4e5b9;
          z2 = (z1 XOR drop_bit 27 z1) * 0x94d049bb133111eb;
          z3 = z2 XOR drop_bit 31 z2
      in (ucast (drop_bit 32 z3), s'))"

section \<open>The session\<close>

record FrameRecord =
  snapshot_before :: "u8 list"
  local_input :: RollbackInput
  remote_used :: RollbackInput
  predicted_remote :: bool

record RollbackTelemetry =
  predicted_frames :: u64
  last_rollback_depth :: u32
  max_rollback_depth :: u32

record 's RollbackSession =
  simulation :: 's
  max_rollback_frames :: u32
  current_frame :: u64
  frames :: "(u64, FrameRecord) om"
  remote_inputs :: "(u64, RollbackInput) om"
  state_hashes :: "(u64, string) om"
  remote_hashes :: "(u64, string) om"
  desync_frame :: "u64 option"
  telemetry :: RollbackTelemetry

definition new_session :: "'s \<Rightarrow> u32 \<Rightarrow> 's RollbackSession" where
  "new_session s max_frames =
     \<lparr>simulation = s, max_rollback_frames = max_frames, current_frame = 0, frames = [],
      remote_inputs = [], state_hashes = [], remote_hashes = [], desync_frame = None,
      telemetry = \<lparr>predicted_frames = 0, last_rollback_depth = 0, max_rollback_depth = 0\<rparr>\<rparr>"

definition remote_for_frame :: "'s RollbackSession \<Rightarrow> u64 \<Rightarrow> RollbackInput" where
  "remote_for_frame x frame = om_floor no_input frame (remote_inputs x)"

definition has_exact_remote :: "'s RollbackSession \<Rightarrow> u64 \<Rightarrow> bool" where
  "has_exact_remote x frame \<longleftrightarrow> map_of (remote_inputs x) frame \<noteq> None"

definition hash_state :: "'s IRollbackSimulation \<Rightarrow> 's \<Rightarrow> string" where
  "hash_state sim s = sha256_hex (sha256 (save_state sim s))"

definition hash_current_state :: "'s IRollbackSimulation \<Rightarrow> 's RollbackSession \<Rightarrow> string" where
  "hash_current_state sim x = hash_state sim (simulation x)"

fun first_mismatch :: "(u64, string) om \<Rightarrow> (u64, string) om \<Rightarrow> u64 option" where
  "first_mismatch [] hashes = None"
| "first_mismatch ((frame, remote_hash) # rest) hashes =
     (case map_of hashes frame of
        Some h \<Rightarrow> if h \<noteq> remote_hash then Some frame else first_mismatch rest hashes
      | None \<Rightarrow> first_mismatch rest hashes)"

definition recompute_desync :: "'s RollbackSession \<Rightarrow> 's RollbackSession" where
  "recompute_desync x = x\<lparr>desync_frame := first_mismatch (remote_hashes x) (state_hashes x)\<rparr>"

definition first_retained :: "'s RollbackSession \<Rightarrow> u64" where
  "first_retained x =
     (if ucast (max_rollback_frames x) < current_frame x
      then current_frame x - ucast (max_rollback_frames x) else 0)"

definition prune_rollback_history :: "'s RollbackSession \<Rightarrow> 's RollbackSession" where
  "prune_rollback_history x = x\<lparr>frames := om_erase_before (first_retained x) (frames x)\<rparr>"

definition restore_failed_detail :: string where
  "restore_failed_detail = ''frame step failed and rollback restore also failed: ''"

definition record_frame ::
  "'s IRollbackSimulation \<Rightarrow> FrameRecord \<Rightarrow> 's RollbackSession \<Rightarrow> 's RollbackSession" where
  "record_frame sim r x =
     (let frame = current_frame x in
      x\<lparr>frames := om_put frame r (frames x),
        state_hashes := om_put frame (hash_current_state sim x) (state_hashes x),
        telemetry := (if predicted_remote r
          then (telemetry x)\<lparr>predicted_frames := predicted_frames (telemetry x) + 1\<rparr>
          else telemetry x),
        current_frame := frame + 1\<rparr>)"

definition advance ::
  "'s IRollbackSimulation \<Rightarrow> RollbackInput \<Rightarrow> 's RollbackSession
     \<Rightarrow> unit result \<times> 's RollbackSession" where
  "advance sim inp x =
     (let frame = current_frame x;
          snapshot = save_state sim (simulation x);
          remote = remote_for_frame x frame;
          predicted = \<not> has_exact_remote x frame
      in case step_frame sim inp remote True (simulation x) of
           (Inl (e, d), s1) \<Rightarrow>
             (case load_state sim snapshot s1 of
                (Inl (e2, d2), s2) \<Rightarrow>
                  (failure e2 (restore_failed_detail @ d2), x\<lparr>simulation := s2\<rparr>)
              | (Inr _, s2) \<Rightarrow> (failure e d, x\<lparr>simulation := s2\<rparr>))
         | (Inr _, s1) \<Rightarrow>
             (success (),
              prune_rollback_history (recompute_desync (record_frame sim
                \<lparr>snapshot_before = snapshot, local_input = inp, remote_used = remote,
                 predicted_remote = predicted\<rparr> (x\<lparr>simulation := s1\<rparr>)))))"

text \<open>One turn of the replay loop, up to the hash of the replayed frame.\<close>

definition refresh_record ::
  "'s IRollbackSimulation \<Rightarrow> u64 \<Rightarrow> FrameRecord \<Rightarrow> 's RollbackSession \<Rightarrow> FrameRecord" where
  "refresh_record sim f r x =
     r\<lparr>snapshot_before := save_state sim (simulation x),
       remote_used := remote_for_frame x f,
       predicted_remote := \<not> has_exact_remote x f\<rparr>"

definition replay_frame ::
  "'s IRollbackSimulation \<Rightarrow> u64 \<Rightarrow> 's RollbackSession \<Rightarrow> unit result \<times> 's RollbackSession" where
  "replay_frame sim f x =
     (case map_of (frames x) f of
        None \<Rightarrow> (failure invalid_argument ''rollback history is incomplete for replay'', x)
      | Some r \<Rightarrow>
          let r' = refresh_record sim f r x;
              x1 = x\<lparr>frames := om_put f r' (frames x)\<rparr>
          in case step_frame sim (local_input r') (remote_used r') False (simulation x1) of
               (Inl e, s1) \<Rightarrow> (Inl e, x1\<lparr>simulation := s1\<rparr>)
             | (Inr _, s1) \<Rightarrow>
                 let x2 = x1\<lparr>simulation := s1\<rparr> in
                 (success (),
                  x2\<lparr>state_hashes := om_put f (hash_current_state sim x2) (state_hashes x2)\<rparr>))"

lemma replay_frame_fields [simp]:
  "current_frame (snd (replay_frame sim f x)) = current_frame x"
  "max_rollback_frames (snd (replay_frame sim f x)) = max_rollback_frames x"
  "remote_inputs (snd (replay_frame sim f x)) = remote_inputs x"
  "remote_hashes (snd (replay_frame sim f x)) = remote_hashes x"
  "telemetry (snd (replay_frame sim f x)) = telemetry x"
  by (simp_all add: replay_frame_def Let_def split: option.split prod.split sum.split)

lemma unat_next:
  assumes "(f :: 'a::len word) < c"
  shows "unat (f + 1) = Suc (unat f)"
proof -
  have "unat f < unat c" "unat c < 2 ^ LENGTH('a)"
    using assms unsigned_less [of c] by (simp_all add: word_less_nat_alt)
  then have "unat f + unat (1 :: 'a word) < 2 ^ LENGTH('a)"
    by (simp only: unsigned_1)
  then show ?thesis
    by (simp only: unat_add_lem) simp
qed

lemma distance_decreases:
  assumes "(f :: u64) < c"
  shows "unat (c - (f + 1)) < unat (c - f)"
proof -
  have "unat (c - (f + 1)) = unat c - Suc (unat f)"
    using inc_le [OF assms] by (simp add: unat_sub unat_next [OF assms])
  moreover have "unat (c - f) = unat c - unat f"
    using assms by (simp add: unat_sub order_less_imp_le)
  ultimately show ?thesis
    using assms by (simp add: word_less_nat_alt)
qed

lemma replay_frame_current:
  "replay_frame sim f x = (r, x1) \<Longrightarrow> current_frame x1 = current_frame x"
  using replay_frame_fields(1) [of sim f x] by simp

function replay_loop ::
  "'s IRollbackSimulation \<Rightarrow> u64 \<Rightarrow> 's RollbackSession \<Rightarrow> unit result \<times> 's RollbackSession" where
  "replay_loop sim f x =
     (if f < current_frame x
      then (case replay_frame sim f x of
              (Inl e, x1) \<Rightarrow> (Inl e, x1)
            | (Inr _, x1) \<Rightarrow> replay_loop sim (f + 1) x1)
      else (success (), x))"
  by pat_completeness auto

termination
  by (relation "measure (\<lambda>(sim, f, x). unat (current_frame x - f))")
    (auto dest!: sym [THEN replay_frame_current] simp: distance_decreases)

declare replay_loop.simps [simp del]

definition restore_session ::
  "'s IRollbackSimulation \<Rightarrow> 's RollbackSession \<Rightarrow> 's RollbackSession \<Rightarrow> 's RollbackSession" where
  "restore_session sim original x =
     x\<lparr>simulation := snd (load_state sim (save_state sim (simulation original)) (simulation x)),
       frames := frames original,
       remote_inputs := remote_inputs original,
       state_hashes := state_hashes original,
       desync_frame := desync_frame original,
       telemetry := telemetry original\<rparr>"

definition note_depth :: "u64 \<Rightarrow> RollbackTelemetry \<Rightarrow> RollbackTelemetry" where
  "note_depth depth64 t =
     t\<lparr>last_rollback_depth := ucast depth64,
       max_rollback_depth := max (max_rollback_depth t) (ucast depth64)\<rparr>"

definition replay_from ::
  "'s IRollbackSimulation \<Rightarrow> u64 \<Rightarrow> RollbackInput \<Rightarrow> FrameRecord \<Rightarrow> 's RollbackSession
     \<Rightarrow> unit result \<times> 's RollbackSession" where
  "replay_from sim frame remote r x =
     (let x1 = x\<lparr>remote_inputs := om_put frame remote (remote_inputs x)\<rparr> in
      case load_state sim (snapshot_before r) (simulation x1) of
        (Inl e, s1) \<Rightarrow>
          (Inl e, x\<lparr>simulation := snd (load_state sim (save_state sim (simulation x)) s1)\<rparr>)
      | (Inr _, s1) \<Rightarrow>
          (case replay_loop sim frame (x1\<lparr>simulation := s1\<rparr>) of
             (Inl e, x2) \<Rightarrow> (Inl e, restore_session sim x x2)
           | (Inr _, x2) \<Rightarrow>
               (success (),
                recompute_desync
                  (x2\<lparr>telemetry := note_depth (current_frame x - frame) (telemetry x2)\<rparr>))))"

definition submit_remote_input ::
  "'s IRollbackSimulation \<Rightarrow> u64 \<Rightarrow> RollbackInput \<Rightarrow> 's RollbackSession
     \<Rightarrow> unit result \<times> 's RollbackSession" where
  "submit_remote_input sim frame remote x =
     (if current_frame x \<le> frame
      then (success (), x\<lparr>remote_inputs := om_put frame remote (remote_inputs x)\<rparr>)
      else if ucast (max_rollback_frames x) < current_frame x - frame
      then (failure invalid_argument ''remote input arrived outside the retained rollback window'', x)
      else case map_of (frames x) frame of
        None \<Rightarrow>
          (failure invalid_argument ''rollback snapshot is not retained for corrected frame'', x)
      | Some r \<Rightarrow>
          if remote_used r = remote
          then (success (),
                x\<lparr>remote_inputs := om_put frame remote (remote_inputs x),
                  frames := om_put frame (r\<lparr>predicted_remote := False\<rparr>) (frames x)\<rparr>)
          else replay_from sim frame remote r x)"

definition isxdigit :: "char \<Rightarrow> bool" where
  "isxdigit c \<longleftrightarrow> c \<in> set ''0123456789abcdefABCDEF''"

definition submit_remote_hash ::
  "u64 \<Rightarrow> string \<Rightarrow> 's RollbackSession \<Rightarrow> unit result \<times> 's RollbackSession" where
  "submit_remote_hash frame hash_hex x =
     (if length hash_hex \<noteq> 64 \<or> \<not> list_all isxdigit hash_hex
      then (failure invalid_argument ''remote state hash must be 64 hexadecimal characters'', x)
      else (success (),
            recompute_desync (x\<lparr>remote_hashes := om_put frame hash_hex (remote_hashes x)\<rparr>)))"

definition state_hash :: "u64 \<Rightarrow> 's RollbackSession \<Rightarrow> string result" where
  "state_hash frame x =
     (case map_of (state_hashes x) frame of
        None \<Rightarrow> failure file_not_found ''state hash is unavailable for requested frame''
      | Some h \<Rightarrow> success h)"

section \<open>The session as a machine\<close>

datatype SessionOp =
    Advance RollbackInput
  | SubmitInput u64 RollbackInput
  | SubmitHash u64 string

fun run_op :: "'s IRollbackSimulation \<Rightarrow> SessionOp \<Rightarrow> 's RollbackSession
    \<Rightarrow> unit result \<times> 's RollbackSession" where
  "run_op sim (Advance inp) x = advance sim inp x"
| "run_op sim (SubmitInput f r) x = submit_remote_input sim f r x"
| "run_op sim (SubmitHash f h) x = submit_remote_hash f h x"

text \<open>
  A run of operations, with the local inputs of the frames that did advance: the frames
  whose step failed leave no trace, and the caller's rejected operations change nothing.
\<close>

fun run_ops :: "'s IRollbackSimulation \<Rightarrow> SessionOp list \<Rightarrow> 's RollbackSession
    \<Rightarrow> 's RollbackSession" where
  "run_ops sim [] x = x"
| "run_ops sim (op' # ops) x = run_ops sim ops (snd (run_op sim op' x))"

fun played :: "'s IRollbackSimulation \<Rightarrow> SessionOp list \<Rightarrow> 's RollbackSession
    \<Rightarrow> RollbackInput list" where
  "played sim [] x = []"
| "played sim (op' # ops) x =
     (case (op', fst (run_op sim op' x)) of
        (Advance inp, Inr _) \<Rightarrow> [inp]
      | _ \<Rightarrow> []) @ played sim ops (snd (run_op sim op' x))"

text \<open>
  The reference: what the simulation does when every frame is played once, in order, with
  the remote inputs known at the end.
\<close>

definition authoritative ::
  "'s IRollbackSimulation \<Rightarrow> 's \<Rightarrow> RollbackInput list \<Rightarrow> (u64, RollbackInput) om \<Rightarrow> nat \<Rightarrow> 's" where
  "authoritative sim s0 ls ri n =
     fold (\<lambda>i s. snd (step_frame sim (ls ! i) (om_floor no_input (of_nat i) ri) True s)) [0..<n] s0"

end
