(* ===== verification/Byte_Codec.thy ===== *)
theory Byte_Codec
  imports Prelude
begin

text \<open>
  Little-endian fields of byte sequences: \<open>le_value\<close> assembles a word from its bytes as
  the parsers do, one shifted OR per byte, and is inverse to \<^const>\<open>le_bytes\<close> on words of
  exactly that width; \<open>subspan\<close> is the sub-range a parser reads at an offset.
\<close>

definition le_value :: "u8 list \<Rightarrow> 'a::len word" where
  "le_value bs = fold (\<lambda>i raw. raw OR push_bit (8 * i) (ucast (bs ! i))) [0..<length bs] 0"

lemma bit_fold_or:
  "bit (fold (\<lambda>i raw. raw OR f i) xs r) n \<longleftrightarrow>
     bit (r :: 'a::len word) n \<or> (\<exists>i\<in>set xs. bit (f i) n)"
  by (induction xs arbitrary: r) (auto simp: bit_or_iff)

lemma bit_le_value:
  assumes "n < LENGTH('a)"
  shows "bit (le_value bs :: 'a::len word) n \<longleftrightarrow> n div 8 < length bs \<and> bit (bs ! (n div 8)) (n mod 8)"
proof -
  have lane: "bit (push_bit (8 * i) (ucast b) :: 'a word) n \<longleftrightarrow> i = n div 8 \<and> bit (b :: u8) (n mod 8)"
    for i and b :: u8
  proof -
    have "bit (push_bit (8 * i) (ucast b) :: 'a word) n \<longleftrightarrow> 8 * i \<le> n \<and> bit b (n - 8 * i)"
      using assms by (auto simp: bit_simps dest: bit_imp_le_length)
    also have "\<dots> \<longleftrightarrow> i = n div 8 \<and> bit b (n mod 8)"
    proof
      assume *: "8 * i \<le> n \<and> bit b (n - 8 * i)"
      then have "n - 8 * i < 8" using bit_imp_le_length [of b "n - 8 * i"] by simp
      then have i: "i = n div 8" using * by linarith
      then have "n - 8 * i = n mod 8" by (simp add: minus_mult_div_eq_mod)
      then show "i = n div 8 \<and> bit b (n mod 8)" using * i by simp
    next
      assume *: "i = n div 8 \<and> bit b (n mod 8)"
      then show "8 * i \<le> n \<and> bit b (n - 8 * i)"
        by (simp add: minus_mult_div_eq_mod)
    qed
    finally show ?thesis .
  qed
  show ?thesis
    unfolding le_value_def bit_fold_or by (auto simp: lane)
qed

lemma le_value_le_bytes:
  assumes "LENGTH('a) = 8 * n"
  shows "le_value (le_bytes n w) = (w :: 'a::len word)"
proof (rule bit_word_eqI)
  fix k
  assume k: "k < LENGTH('a)"
  then have "k div 8 < n" using assms by linarith
  moreover have "8 * (k div 8) + k mod 8 = k" by simp
  ultimately show "bit (le_value (le_bytes n w) :: 'a word) k = bit w k"
    using k by (simp add: bit_le_value bit_byte_at)
qed

lemma le_bytes_le_value:
  assumes "LENGTH('a) = 8 * length bs"
  shows "le_bytes (length bs) (le_value bs :: 'a::len word) = bs"
proof (rule nth_equalityI)
  fix i
  assume i: "i < length (le_bytes (length bs) (le_value bs :: 'a word))"
  show "le_bytes (length bs) (le_value bs :: 'a word) ! i = bs ! i"
  proof (rule bit_word_eqI)
    fix k
    assume "k < LENGTH(8)"
    then show "bit (le_bytes (length bs) (le_value bs :: 'a word) ! i) k = bit (bs ! i) k"
      using i assms by (simp add: bit_byte_at bit_le_value)
  qed
qed simp

definition subspan :: "nat \<Rightarrow> nat \<Rightarrow> 'a list \<Rightarrow> 'a list" where
  "subspan off n xs = take n (drop off xs)"

lemma length_subspan [simp]: "off + n \<le> length xs \<Longrightarrow> length (subspan off n xs) = n"
  by (simp add: subspan_def)

lemma subspan_append_skip: "length xs \<le> off \<Longrightarrow> subspan off n (xs @ ys) = subspan (off - length xs) n ys"
  by (simp add: subspan_def)

lemma subspan_append_take: "length xs = n \<Longrightarrow> subspan 0 n (xs @ ys) = xs"
  by (simp add: subspan_def)

lemma subspan_join: "subspan off n xs @ subspan (off + n) m xs = subspan off (n + m) xs"
  unfolding subspan_def by (metis add.commute drop_drop take_add)

lemma subspan_Cons: "0 < off \<Longrightarrow> subspan off n (x # xs) = subspan (off - 1) n xs"
  by (simp add: subspan_def drop_Cons')

lemma subspan_drop: "off + n = m \<Longrightarrow> subspan off n xs @ drop m xs = drop off xs"
  by (auto simp: subspan_def add.commute simp flip: drop_drop)

lemma le_bytes_subspan:
  assumes "LENGTH('a) = 8 * n" "off + n \<le> length bs"
  shows "le_bytes n (le_value (subspan off n bs) :: 'a::len word) = subspan off n bs"
  using le_bytes_le_value [of "subspan off n bs", where ?'a = 'a] assms by simp

end
