(* ===== verification/Rollback_Props.thy ===== *)
theory Rollback_Props
  imports Rollback Byte_Codec
begin

text \<open>
  Correctness of the rollback session: whatever order inputs and hashes arrive in, the
  simulation is where the authoritative run would be, every retained frame and every
  stored hash belongs to that run, and a failed operation changes none of it.  The laws
  the session relies on are the locale \<open>rollback_simulation\<close>, interpreted on the
  simulation the project's tests use.
\<close>

section \<open>What the session expects of a simulation\<close>

locale rollback_simulation =
  fixes sim :: "'s IRollbackSimulation"
    and sim_ok :: "'s \<Rightarrow> bool"
  assumes load_save: "\<lbrakk>sim_ok s; sim_ok t\<rbrakk> \<Longrightarrow>
      fst (load_state sim (save_state sim s) t) = Inr () \<and>
      save_state sim (snd (load_state sim (save_state sim s) t)) = save_state sim s"
    and load_ok: "sim_ok t \<Longrightarrow> sim_ok (snd (load_state sim b t))"
    and step_ok: "sim_ok s \<Longrightarrow> sim_ok (snd (step_frame sim l r e s))"
    and step_deterministic: "\<lbrakk>sim_ok s; sim_ok t; save_state sim s = save_state sim t;
        fst (step_frame sim l r e s) = Inr ()\<rbrakk> \<Longrightarrow>
      save_state sim (snd (step_frame sim l r e s)) = save_state sim (snd (step_frame sim l r e' t))"

section \<open>The invariant\<close>

definition frame_good ::
  "'s IRollbackSimulation \<Rightarrow> 's \<Rightarrow> RollbackInput list \<Rightarrow> 's RollbackSession
     \<Rightarrow> u64 \<Rightarrow> FrameRecord \<Rightarrow> bool" where
  "frame_good sim s0 ls x g r \<longleftrightarrow>
     snapshot_before r = save_state sim (authoritative sim s0 ls (remote_inputs x) (unat g)) \<and>
     remote_used r = remote_for_frame x g \<and>
     (predicted_remote r \<longleftrightarrow> \<not> has_exact_remote x g)"

definition retained :: "'s RollbackSession \<Rightarrow> u64 \<Rightarrow> bool" where
  "retained x g \<longleftrightarrow>
     g < current_frame x \<and> unat (current_frame x) - unat g \<le> unat (max_rollback_frames x)"

definition maps_ok :: "'s RollbackSession \<Rightarrow> bool" where
  "maps_ok x \<longleftrightarrow> om_ok (frames x) \<and> om_ok (remote_inputs x) \<and> om_ok (state_hashes x) \<and>
     om_ok (remote_hashes x)"

definition synced ::
  "'s IRollbackSimulation \<Rightarrow> ('s \<Rightarrow> bool) \<Rightarrow> 's \<Rightarrow> RollbackInput list \<Rightarrow> nat
     \<Rightarrow> 's RollbackSession \<Rightarrow> bool" where
  "synced sim sim_ok s0 ls k x \<longleftrightarrow>
     sim_ok s0 \<and> sim_ok (simulation x) \<and> maps_ok x \<and> length ls = unat (current_frame x) \<and>
     save_state sim (simulation x) =
       save_state sim (authoritative sim s0 ls (remote_inputs x) k) \<and>
     (\<forall>g. (map_of (frames x) g \<noteq> None) = retained x g) \<and>
     (\<forall>g r. map_of (frames x) g = Some r \<longrightarrow>
        local_input r = ls ! unat g \<and> (unat g < k \<longrightarrow> frame_good sim s0 ls x g r)) \<and>
     (\<forall>g. (map_of (state_hashes x) g \<noteq> None) = (g < current_frame x)) \<and>
     (\<forall>g. unat g < k \<longrightarrow> map_of (state_hashes x) g =
        Some (hash_state sim (authoritative sim s0 ls (remote_inputs x) (Suc (unat g)))))"

definition session_inv ::
  "'s IRollbackSimulation \<Rightarrow> ('s \<Rightarrow> bool) \<Rightarrow> 's \<Rightarrow> RollbackInput list
     \<Rightarrow> 's RollbackSession \<Rightarrow> bool" where
  "session_inv sim sim_ok s0 ls x \<longleftrightarrow>
     synced sim sim_ok s0 ls (unat (current_frame x)) x \<and>
     desync_frame x = first_mismatch (remote_hashes x) (state_hashes x)"

lemma syncedD:
  assumes "synced sim sim_ok s0 ls k x"
  shows "sim_ok s0" "sim_ok (simulation x)" "maps_ok x" "length ls = unat (current_frame x)"
    "save_state sim (simulation x) =
       save_state sim (authoritative sim s0 ls (remote_inputs x) k)"
    "(map_of (frames x) g \<noteq> None) = retained x g"
    "map_of (frames x) g = Some r \<Longrightarrow> local_input r = ls ! unat g"
    "map_of (frames x) g = Some r \<Longrightarrow> unat g < k \<Longrightarrow> frame_good sim s0 ls x g r"
    "(map_of (state_hashes x) g \<noteq> None) = (g < current_frame x)"
    "unat g < k \<Longrightarrow> map_of (state_hashes x) g =
       Some (hash_state sim (authoritative sim s0 ls (remote_inputs x) (Suc (unat g))))"
  using assms unfolding synced_def by blast+

lemma syncedI:
  assumes "sim_ok s0" "sim_ok (simulation x)" "maps_ok x" "length ls = unat (current_frame x)"
    and "save_state sim (simulation x) =
       save_state sim (authoritative sim s0 ls (remote_inputs x) k)"
    and "\<And>g. (map_of (frames x) g \<noteq> None) = retained x g"
    and "\<And>g r. map_of (frames x) g = Some r \<Longrightarrow> local_input r = ls ! unat g"
    and "\<And>g r. map_of (frames x) g = Some r \<Longrightarrow> unat g < k \<Longrightarrow> frame_good sim s0 ls x g r"
    and "\<And>g. (map_of (state_hashes x) g \<noteq> None) = (g < current_frame x)"
    and "\<And>g. unat g < k \<Longrightarrow> map_of (state_hashes x) g =
       Some (hash_state sim (authoritative sim s0 ls (remote_inputs x) (Suc (unat g))))"
  shows "synced sim sim_ok s0 ls k x"
  using assms unfolding synced_def by blast

section \<open>The authoritative run\<close>

lemma authoritative_0 [simp]: "authoritative sim s0 ls ri 0 = s0"
  by (simp add: authoritative_def)

lemma authoritative_Suc:
  "authoritative sim s0 ls ri (Suc n) =
     snd (step_frame sim (ls ! n) (om_floor no_input (of_nat n) ri) True
       (authoritative sim s0 ls ri n))"
  by (simp add: authoritative_def)

lemma authoritative_cong:
  assumes "\<And>i. i < n \<Longrightarrow> ls ! i = ls' ! i"
    and "\<And>i. i < n \<Longrightarrow> om_floor no_input (of_nat i) ri = om_floor no_input (of_nat i) ri'"
  shows "authoritative sim s0 ls ri n = authoritative sim s0 ls' ri' n"
  using assms by (induction n) (simp_all add: authoritative_Suc)

lemma of_nat_less_frame: "i < unat (f :: u64) \<Longrightarrow> of_nat i < f"
  using unsigned_less [of f] by (simp add: word_less_nat_alt unat_of_nat)

lemma authoritative_put_late:
  "n \<le> unat frame \<Longrightarrow>
   authoritative sim s0 ls (om_put frame remote ri) n = authoritative sim s0 ls ri n"
  by (rule authoritative_cong) (auto intro!: om_floor_put_above of_nat_less_frame)

lemma authoritative_append:
  "n \<le> length ls \<Longrightarrow> authoritative sim s0 (ls @ [l]) ri n = authoritative sim s0 ls ri n"
  by (rule authoritative_cong) (auto simp: nth_append)

lemma remote_for_put_late:
  "g < frame \<Longrightarrow>
   remote_for_frame (x\<lparr>remote_inputs := om_put frame remote (remote_inputs x)\<rparr>) g
     = remote_for_frame x g"
  by (simp add: remote_for_frame_def om_floor_put_above)

section \<open>Preservation\<close>

lemma replay_loop_preserves:
  assumes "\<And>f x. P x \<Longrightarrow> P (snd (replay_frame sim f x))" "P x"
  shows "P (snd (replay_loop sim f x))"
  using assms
proof (induction sim f x rule: replay_loop.induct)
  case (1 sim f x)
  obtain r x1 where rf: "replay_frame sim f x = (r, x1)" by force
  have P1: "P x1"
    using "1.prems"(1) [OF "1.prems"(2), of f] by (simp add: rf)
  show ?case
  proof (cases "f < current_frame x")
    case lt: True
    show ?thesis
    proof (cases r)
      case (Inl e)
      then show ?thesis
        using lt P1 by (subst replay_loop.simps) (simp add: rf)
    next
      case (Inr u)
      then show ?thesis
        using lt "1.IH" [OF lt rf [symmetric] Inr "1.prems"(1) P1]
        by (subst replay_loop.simps) (simp add: rf)
    qed
  next
    case False
    then show ?thesis
      using "1.prems"(2) by (subst replay_loop.simps) simp
  qed
qed

lemma replay_loop_reaches:
  assumes "\<And>f x x'. \<lbrakk>Q (unat f) x; f < current_frame x; replay_frame sim f x = (Inr (), x')\<rbrakk>
      \<Longrightarrow> Q (Suc (unat f)) x'"
    and "Q (unat f) x" "f \<le> current_frame x" "replay_loop sim f x = (Inr (), x')"
  shows "Q (unat (current_frame x')) x'"
  using assms
proof (induction sim f x rule: replay_loop.induct)
  case (1 sim f x)
  obtain r x1 where rf: "replay_frame sim f x = (r, x1)" by force
  show ?case
  proof (cases "f < current_frame x")
    case lt: True
    then obtain u where r: "r = Inr u"
      using "1.prems"(4) by (subst (asm) replay_loop.simps) (auto simp: rf split: sum.splits)
    have loop: "replay_loop sim (f + 1) x1 = (Inr (), x')"
      using "1.prems"(4) lt by (subst (asm) replay_loop.simps) (simp add: rf r)
    have "Q (unat (f + 1)) x1"
      using "1.prems"(1) [OF "1.prems"(2) lt] by (simp add: rf r unat_next [OF lt])
    moreover have "f + 1 \<le> current_frame x1"
      using inc_le [OF lt] replay_frame_current [OF rf] by simp
    ultimately show ?thesis
      using "1.IH" [OF lt rf [symmetric] r] "1.prems"(1) loop by blast
  next
    case False
    then have "replay_loop sim f x = (success (), x)"
      by (subst replay_loop.simps) simp
    then have "x' = x" "current_frame x = f"
      using "1.prems"(3,4) False by auto
    then show ?thesis
      using "1.prems"(2) by simp
  qed
qed

lemma session_fields_replay_loop [simp]:
  "current_frame (snd (replay_loop sim f x)) = current_frame x"
  "max_rollback_frames (snd (replay_loop sim f x)) = max_rollback_frames x"
  "remote_inputs (snd (replay_loop sim f x)) = remote_inputs x"
  "remote_hashes (snd (replay_loop sim f x)) = remote_hashes x"
  "telemetry (snd (replay_loop sim f x)) = telemetry x"
  by (rule replay_loop_preserves [where P = "\<lambda>y. current_frame y = current_frame x"]
      replay_loop_preserves [where P = "\<lambda>y. max_rollback_frames y = max_rollback_frames x"]
      replay_loop_preserves [where P = "\<lambda>y. remote_inputs y = remote_inputs x"]
      replay_loop_preserves [where P = "\<lambda>y. remote_hashes y = remote_hashes x"]
      replay_loop_preserves [where P = "\<lambda>y. telemetry y = telemetry x"]; simp)+

context rollback_simulation
begin

lemma authoritative_ok: "sim_ok s0 \<Longrightarrow> sim_ok (authoritative sim s0 ls ri n)"
  by (induction n) (simp_all add: authoritative_Suc step_ok)

lemma replay_frame_ok:
  "sim_ok (simulation x) \<Longrightarrow> sim_ok (simulation (snd (replay_frame sim f x)))"
  using step_ok [of "simulation x"]
  by (auto simp: replay_frame_def Let_def split: option.split prod.split sum.split)
    (metis snd_conv)+

lemma replay_frame_synced:
  assumes sy: "synced sim sim_ok s0 ls (unat f) x" and lt: "f < current_frame x"
    and rf: "replay_frame sim f x = (Inr (), x')"
  shows "synced sim sim_ok s0 ls (Suc (unat f)) x'"
proof -
  let ?A = "authoritative sim s0 ls (remote_inputs x)"
  obtain r where r: "map_of (frames x) f = Some r"
    using rf by (cases "map_of (frames x) f") (auto simp: replay_frame_def)
  define r' where "r' = refresh_record sim f r x"
  define s1 where "s1 = snd (step_frame sim (local_input r') (remote_used r') False (simulation x))"
  have stepped: "fst (step_frame sim (local_input r') (remote_used r') False (simulation x)) = Inr ()"
    and x': "x' = x\<lparr>frames := om_put f r' (frames x), simulation := s1,
        state_hashes := om_put f (hash_state sim s1) (state_hashes x)\<rparr>"
    using rf by (auto simp: replay_frame_def r Let_def r'_def s1_def hash_current_state_def
        split: prod.splits sum.splits)
  have loc: "local_input r' = ls ! unat f"
    using syncedD(7) [OF sy r] by (simp add: r'_def refresh_record_def)
  have rem: "remote_used r' = om_floor no_input f (remote_inputs x)"
    by (simp add: r'_def refresh_record_def remote_for_frame_def)
  have "save_state sim s1 = save_state sim (snd (step_frame sim (local_input r') (remote_used r')
      True (?A (unat f))))"
    unfolding s1_def
    by (rule step_deterministic [OF syncedD(2) [OF sy] authoritative_ok [OF syncedD(1) [OF sy]]
          syncedD(5) [OF sy] stepped])
  then have s1: "save_state sim s1 = save_state sim (?A (Suc (unat f)))"
    by (simp add: authoritative_Suc loc rem)
  have keep: "remote_inputs x' = remote_inputs x" "current_frame x' = current_frame x"
    "simulation x' = s1" "retained x' = retained x"
    by (simp_all add: x' retained_def fun_eq_iff)
  have good: "frame_good sim s0 ls x' g q = frame_good sim s0 ls x g q" for g q
    by (simp add: frame_good_def remote_for_frame_def has_exact_remote_def keep)
  have r'good: "frame_good sim s0 ls x f r'"
    using syncedD(5) [OF sy] by (simp add: frame_good_def r'_def refresh_record_def)
  show ?thesis
  proof (rule syncedI)
    show "sim_ok s0" by (rule syncedD(1) [OF sy])
    show "sim_ok (simulation x')"
      using syncedD(2) [OF sy] by (simp add: keep s1_def step_ok)
    show "maps_ok x'"
      using syncedD(3) [OF sy] by (simp add: maps_ok_def x')
    show "length ls = unat (current_frame x')"
      using syncedD(4) [OF sy] by (simp add: keep)
    show "save_state sim (simulation x')
        = save_state sim (authoritative sim s0 ls (remote_inputs x') (Suc (unat f)))"
      by (simp add: keep s1)
    show "(map_of (frames x') g \<noteq> None) = retained x' g" for g
      using syncedD(6) [OF sy, of g] syncedD(6) [OF sy, of f] r
      by (auto simp: keep(4)) (auto simp: x' map_of_om_put split: if_splits)
    show "local_input q = ls ! unat g" if "map_of (frames x') g = Some q" for g q
      using that syncedD(7) [OF sy, of g q] loc by (auto simp: x' map_of_om_put split: if_splits)
    show "frame_good sim s0 ls x' g q"
      if "map_of (frames x') g = Some q" "unat g < Suc (unat f)" for g q
    proof -
      have "g = f \<or> unat g < unat f"
        using that(2) by (auto simp: less_Suc_eq word_unat_eq_iff)
      then show ?thesis
        using that syncedD(8) [OF sy, of g q] r'good unfolding good
        by (auto simp: x' map_of_om_put split: if_splits)
    qed
    show "(map_of (state_hashes x') g \<noteq> None) = (g < current_frame x')" for g
      using syncedD(9) [OF sy, of g] lt by (auto simp: x' map_of_om_put)
    show "map_of (state_hashes x') g = Some (hash_state sim
        (authoritative sim s0 ls (remote_inputs x') (Suc (unat g))))"
      if "unat g < Suc (unat f)" for g
      using that syncedD(10) [OF sy, of g] s1
      by (auto simp: x' map_of_om_put less_Suc_eq word_unat_eq_iff hash_state_def)
  qed
qed

lemma replay_loop_ok:
  "sim_ok (simulation x) \<Longrightarrow> sim_ok (simulation (snd (replay_loop sim f x)))"
  by (rule replay_loop_preserves [where P = "\<lambda>y. sim_ok (simulation y)"]) (rule replay_frame_ok)

lemma replay_loop_synced:
  assumes "synced sim sim_ok s0 ls (unat f) x" "f \<le> current_frame x"
    and "replay_loop sim f x = (Inr (), x')"
  shows "synced sim sim_ok s0 ls (unat (current_frame x')) x'"
  using replay_frame_synced assms
  by (rule replay_loop_reaches [where Q = "\<lambda>k y. synced sim sim_ok s0 ls k y"])

lemma restore_inv:
  assumes inv: "session_inv sim sim_ok s0 ls x" and ok: "sim_ok (simulation y)"
    and same: "current_frame y = current_frame x" "max_rollback_frames y = max_rollback_frames x"
      "remote_hashes y = remote_hashes x"
  shows "session_inv sim sim_ok s0 ls (restore_session sim x y)"
proof -
  have ok_x: "sim_ok (simulation x)"
    using inv by (simp add: session_inv_def synced_def)
  have "restore_session sim x y
      = x\<lparr>simulation := snd (load_state sim (save_state sim (simulation x)) (simulation y))\<rparr>"
    using same by (simp add: restore_session_def)
  then show ?thesis
    using inv load_save [OF ok_x ok] load_ok [OF ok]
    by (simp add: session_inv_def synced_def frame_good_def retained_def maps_ok_def
        remote_for_frame_def has_exact_remote_def)
qed

lemma load_authoritative:
  assumes "synced sim sim_ok s0 ls k x" "map_of (frames x) g = Some r" "unat g < k"
  shows "fst (load_state sim (snapshot_before r) (simulation x)) = Inr ()"
    and "save_state sim (snd (load_state sim (snapshot_before r) (simulation x)))
      = save_state sim (authoritative sim s0 ls (remote_inputs x) (unat g))"
    and "sim_ok (snd (load_state sim (snapshot_before r) (simulation x)))"
proof -
  have "snapshot_before r
      = save_state sim (authoritative sim s0 ls (remote_inputs x) (unat g))"
    using syncedD(8) [OF assms] by (simp add: frame_good_def)
  then show "fst (load_state sim (snapshot_before r) (simulation x)) = Inr ()"
    and "save_state sim (snd (load_state sim (snapshot_before r) (simulation x)))
      = save_state sim (authoritative sim s0 ls (remote_inputs x) (unat g))"
    and "sim_ok (snd (load_state sim (snapshot_before r) (simulation x)))"
    using load_save [OF authoritative_ok [OF syncedD(1) [OF assms(1)]] syncedD(2) [OF assms(1)]]
      load_ok [OF syncedD(2) [OF assms(1)]] by simp_all
qed

text \<open>Correcting a past input leaves the run before that frame as it was.\<close>

lemma corrected_synced:
  assumes sy: "synced sim sim_ok s0 ls (unat (current_frame x)) x"
    and lt: "frame < current_frame x"
    and s1: "sim_ok s1"
      "save_state sim s1 = save_state sim (authoritative sim s0 ls (remote_inputs x) (unat frame))"
  shows "synced sim sim_ok s0 ls (unat frame)
    (x\<lparr>remote_inputs := om_put frame remote (remote_inputs x), simulation := s1\<rparr>)"
    (is "synced _ _ _ _ _ ?y")
proof (rule syncedI)
  have below: "unat g < unat (current_frame x)" if "unat g < unat frame" for g :: u64
    using that lt by (simp add: word_less_nat_alt)
  show "sim_ok s0" by (rule syncedD(1) [OF sy])
  show "sim_ok (simulation ?y)" by (simp add: s1)
  show "maps_ok ?y" using syncedD(3) [OF sy] by (simp add: maps_ok_def)
  show "length ls = unat (current_frame ?y)" using syncedD(4) [OF sy] by simp
  show "save_state sim (simulation ?y)
      = save_state sim (authoritative sim s0 ls (remote_inputs ?y) (unat frame))"
    by (simp add: s1 authoritative_put_late)
  show "(map_of (frames ?y) g \<noteq> None) = retained ?y g" for g
    using syncedD(6) [OF sy, of g] by (simp add: retained_def)
  show "local_input r = ls ! unat g" if "map_of (frames ?y) g = Some r" for g r
    using syncedD(7) [OF sy, of g r] that by simp
  show "frame_good sim s0 ls ?y g r" if "map_of (frames ?y) g = Some r" "unat g < unat frame" for g r
    using syncedD(8) [OF sy, of g r] that below [of g]
    by (auto simp: frame_good_def authoritative_put_late remote_for_frame_def has_exact_remote_def
        om_floor_put_above map_of_om_put word_less_nat_alt)
  show "(map_of (state_hashes ?y) g \<noteq> None) = (g < current_frame ?y)" for g
    using syncedD(9) [OF sy, of g] by simp
  show "map_of (state_hashes ?y) g = Some (hash_state sim
      (authoritative sim s0 ls (remote_inputs ?y) (Suc (unat g))))" if "unat g < unat frame" for g
    using syncedD(10) [OF sy, of g] that below [of g] by (simp add: authoritative_put_late Suc_leI)
qed

lemma replay_from_inv:
  assumes inv: "session_inv sim sim_ok s0 ls x"
    and r: "map_of (frames x) frame = Some r" and lt: "frame < current_frame x"
  shows "session_inv sim sim_ok s0 ls (snd (replay_from sim frame remote r x))"
proof -
  have sy: "synced sim sim_ok s0 ls (unat (current_frame x)) x"
    using inv by (simp add: session_inv_def)
  have ltn: "unat frame < unat (current_frame x)"
    using lt by (simp add: word_less_nat_alt)
  define s1 where "s1 = snd (load_state sim (snapshot_before r) (simulation x))"
  define y where
    "y = x\<lparr>remote_inputs := om_put frame remote (remote_inputs x), simulation := s1\<rparr>"
  note load = load_authoritative [OF sy r ltn, folded s1_def]
  have ld: "load_state sim (snapshot_before r) (simulation x) = (Inr (), s1)"
    using load(1) by (simp add: s1_def prod_eq_iff)
  have sy1: "synced sim sim_ok s0 ls (unat frame) y"
    unfolding y_def by (rule corrected_synced [OF sy lt load(3,2)])
  obtain res z where loop: "replay_loop sim frame y = (res, z)" by force
  have z: "current_frame z = current_frame x" "max_rollback_frames z = max_rollback_frames x"
    "remote_hashes z = remote_hashes x" "sim_ok (simulation z)"
    using session_fields_replay_loop [of sim frame y] replay_loop_ok [OF syncedD(2) [OF sy1], of frame]
    unfolding loop snd_conv by (simp_all add: y_def)
  show ?thesis
  proof (cases res)
    case (Inl e)
    then show ?thesis
      using restore_inv [OF inv z(4,1,2,3)] loop
      by (simp add: replay_from_def Let_def ld y_def)
  next
    case (Inr u)
    then have "synced sim sim_ok s0 ls (unat (current_frame z)) z"
      using replay_loop_synced [OF sy1, of z] lt loop by (simp add: y_def)
    then show ?thesis
      using Inr loop
      by (simp add: replay_from_def Let_def ld y_def session_inv_def recompute_desync_def
          synced_def frame_good_def retained_def maps_ok_def remote_for_frame_def
          has_exact_remote_def)
  qed
qed

lemma confirmed_inv:
  assumes inv: "session_inv sim sim_ok s0 ls x"
    and r: "map_of (frames x) frame = Some r" and lt: "frame < current_frame x"
    and same: "remote_used r = remote"
  shows "session_inv sim sim_ok s0 ls
    (x\<lparr>remote_inputs := om_put frame remote (remote_inputs x),
       frames := om_put frame (r\<lparr>predicted_remote := False\<rparr>) (frames x)\<rparr>)"
    (is "session_inv _ _ _ _ ?y")
proof -
  have sy: "synced sim sim_ok s0 ls (unat (current_frame x)) x"
    using inv by (simp add: session_inv_def)
  have ri: "om_ok (remote_inputs x)"
    using syncedD(3) [OF sy] by (simp add: maps_ok_def)
  have good: "frame_good sim s0 ls x frame r"
    using syncedD(8) [OF sy r] lt by (simp add: word_less_nat_alt)
  then have now: "om_floor no_input frame (remote_inputs x) = remote"
    using same by (simp add: frame_good_def remote_for_frame_def)
  have floor: "om_floor no_input g (om_put frame remote (remote_inputs x))
      = om_floor no_input g (remote_inputs x)" for g
    using om_floor_put_above [of g frame] om_floor_put_agreeing [OF ri now, of g] by (cases "g < frame") auto
  have auth: "authoritative sim s0 ls (om_put frame remote (remote_inputs x)) n
      = authoritative sim s0 ls (remote_inputs x) n" for n
    by (rule authoritative_cong) (simp_all add: floor)
  have ret: "retained ?y = retained x"
    by (simp add: retained_def fun_eq_iff)
  have "synced sim sim_ok s0 ls (unat (current_frame ?y)) ?y"
  proof (rule syncedI)
    show "sim_ok s0" by (rule syncedD(1) [OF sy])
    show "sim_ok (simulation ?y)" using syncedD(2) [OF sy] by simp
    show "maps_ok ?y" using syncedD(3) [OF sy] by (simp add: maps_ok_def)
    show "length ls = unat (current_frame ?y)" using syncedD(4) [OF sy] by simp
    show "save_state sim (simulation ?y)
        = save_state sim (authoritative sim s0 ls (remote_inputs ?y) (unat (current_frame ?y)))"
      using syncedD(5) [OF sy] by (simp add: auth)
    show "(map_of (frames ?y) g \<noteq> None) = retained ?y g" for g
      using syncedD(6) [OF sy, of g] syncedD(6) [OF sy, of frame] r
      unfolding ret by (simp add: map_of_om_put)
    show "local_input q = ls ! unat g" if "map_of (frames ?y) g = Some q" for g q
      using that syncedD(7) [OF sy, of g q] syncedD(7) [OF sy r]
      by (auto simp: map_of_om_put split: if_splits)
    show "frame_good sim s0 ls ?y g q"
      if "map_of (frames ?y) g = Some q" "unat g < unat (current_frame ?y)" for g q
      using that syncedD(8) [OF sy, of g q] good
      by (auto simp: frame_good_def auth floor remote_for_frame_def has_exact_remote_def
          map_of_om_put split: if_splits)
    show "(map_of (state_hashes ?y) g \<noteq> None) = (g < current_frame ?y)" for g
      using syncedD(9) [OF sy, of g] by simp
    show "map_of (state_hashes ?y) g = Some (hash_state sim
        (authoritative sim s0 ls (remote_inputs ?y) (Suc (unat g))))"
      if "unat g < unat (current_frame ?y)" for g
      using that syncedD(10) [OF sy, of g] by (simp add: auth)
  qed
  then show ?thesis
    using inv by (simp add: session_inv_def)
qed

lemma future_inv:
  assumes inv: "session_inv sim sim_ok s0 ls x" and le: "current_frame x \<le> frame"
  shows "session_inv sim sim_ok s0 ls
    (x\<lparr>remote_inputs := om_put frame remote (remote_inputs x)\<rparr>)" (is "session_inv _ _ _ _ ?y")
proof -
  have sy: "synced sim sim_ok s0 ls (unat (current_frame x)) x"
    using inv by (simp add: session_inv_def)
  have le': "unat (current_frame x) \<le> unat frame"
    using le by (simp add: word_le_nat_alt)
  have auth: "authoritative sim s0 ls (om_put frame remote (remote_inputs x)) n
      = authoritative sim s0 ls (remote_inputs x) n" if "n \<le> unat (current_frame x)" for n
    using that le' by (intro authoritative_put_late) simp
  have "synced sim sim_ok s0 ls (unat (current_frame ?y)) ?y"
  proof (rule syncedI)
    show "sim_ok s0" by (rule syncedD(1) [OF sy])
    show "sim_ok (simulation ?y)" using syncedD(2) [OF sy] by simp
    show "maps_ok ?y" using syncedD(3) [OF sy] by (simp add: maps_ok_def)
    show "length ls = unat (current_frame ?y)" using syncedD(4) [OF sy] by simp
    show "save_state sim (simulation ?y)
        = save_state sim (authoritative sim s0 ls (remote_inputs ?y) (unat (current_frame ?y)))"
      using syncedD(5) [OF sy] by (simp add: auth)
    show "(map_of (frames ?y) g \<noteq> None) = retained ?y g" for g
      using syncedD(6) [OF sy, of g] by (simp add: retained_def)
    show "local_input q = ls ! unat g" if "map_of (frames ?y) g = Some q" for g q
      using that syncedD(7) [OF sy, of g q] by simp
    show "frame_good sim s0 ls ?y g q"
      if "map_of (frames ?y) g = Some q" "unat g < unat (current_frame ?y)" for g q
    proof -
      have "g < frame" "unat g \<le> unat (current_frame x)"
        using that le' by (simp_all add: word_less_nat_alt)
      then show ?thesis
        using that syncedD(8) [OF sy, of g q]
        by (simp add: frame_good_def auth remote_for_frame_def has_exact_remote_def
            om_floor_put_above map_of_om_put)
    qed
    show "(map_of (state_hashes ?y) g \<noteq> None) = (g < current_frame ?y)" for g
      using syncedD(9) [OF sy, of g] by simp
    show "map_of (state_hashes ?y) g = Some (hash_state sim
        (authoritative sim s0 ls (remote_inputs ?y) (Suc (unat g))))"
      if "unat g < unat (current_frame ?y)" for g
      using that syncedD(10) [OF sy, of g] by (simp add: auth Suc_leI)
  qed
  then show ?thesis
    using inv by (simp add: session_inv_def)
qed

lemma submit_remote_input_inv:
  assumes "session_inv sim sim_ok s0 ls x"
  shows "session_inv sim sim_ok s0 ls (snd (submit_remote_input sim frame remote x))"
  using assms future_inv [OF assms, of frame] confirmed_inv [OF assms, of frame]
    replay_from_inv [OF assms, of frame]
  by (auto simp: submit_remote_input_def not_le split: option.split)

lemma submit_remote_hash_inv:
  assumes "session_inv sim sim_ok s0 ls x"
  shows "session_inv sim sim_ok s0 ls (snd (submit_remote_hash frame h x))"
  using assms
  by (auto simp: submit_remote_hash_def recompute_desync_def session_inv_def synced_def
      frame_good_def retained_def maps_ok_def remote_for_frame_def has_exact_remote_def)

lemma failed_step_inv:
  assumes inv: "session_inv sim sim_ok s0 ls x" and ok: "sim_ok s1"
  shows "session_inv sim sim_ok s0 ls
    (x\<lparr>simulation := snd (load_state sim (save_state sim (simulation x)) s1)\<rparr>)"
proof -
  have ok_x: "sim_ok (simulation x)"
    using inv by (simp add: session_inv_def synced_def)
  show ?thesis
    using inv load_save [OF ok_x ok] load_ok [OF ok]
    by (simp add: session_inv_def synced_def frame_good_def retained_def maps_ok_def
        remote_for_frame_def has_exact_remote_def)
qed

text \<open>A frame that stepped: recorded, hashed, counted, and the history pruned.\<close>

lemma unat_first_retained:
  "unat (first_retained x) = unat (current_frame x) - unat (max_rollback_frames x)"
proof -
  have "unat (max_rollback_frames x) < 2 ^ 32"
    using unsigned_less [of "max_rollback_frames x", where ?'a = nat] by simp
  then have "unat (ucast (max_rollback_frames x) :: u64) = unat (max_rollback_frames x)"
    by (simp add: unsigned_ucast_eq take_bit_nat_eq_self_iff)
  then show ?thesis
    by (auto simp: first_retained_def word_less_nat_alt unat_sub word_le_nat_alt)
qed

lemma advanced_synced:
  assumes sy: "synced sim sim_ok s0 ls (unat (current_frame x)) x"
    and room: "unat (current_frame x) + 1 < 2 ^ 64"
    and stepped: "fst (step_frame sim inp (remote_for_frame x (current_frame x)) True
        (simulation x)) = Inr ()"
    and s1: "s1 = snd (step_frame sim inp (remote_for_frame x (current_frame x)) True (simulation x))"
    and r: "r = \<lparr>snapshot_before = save_state sim (simulation x), local_input = inp,
      remote_used = remote_for_frame x (current_frame x),
      predicted_remote = (\<not> has_exact_remote x (current_frame x))\<rparr>"
    and y: "y = prune_rollback_history (recompute_desync (record_frame sim r (x\<lparr>simulation := s1\<rparr>)))"
  shows "synced sim sim_ok s0 (ls @ [inp]) (unat (current_frame y)) y"
proof -
  let ?c = "current_frame x" and ?A = "authoritative sim s0 ls (remote_inputs x)"
    and ?A' = "authoritative sim s0 (ls @ [inp]) (remote_inputs x)"
  have cur: "current_frame y = ?c + 1" and ri: "remote_inputs y = remote_inputs x"
    and sim: "simulation y = s1" and mx: "max_rollback_frames y = max_rollback_frames x"
    and rh: "remote_hashes y = remote_hashes x"
    and hs: "state_hashes y = om_put ?c (hash_state sim s1) (state_hashes x)"
    by (simp_all add: y prune_rollback_history_def recompute_desync_def record_frame_def Let_def
        hash_current_state_def)
  have fr: "frames y = om_erase_before (first_retained y) (om_put ?c r (frames x))"
    by (simp add: y prune_rollback_history_def recompute_desync_def record_frame_def Let_def
        first_retained_def)
  have cur': "unat (current_frame y) = Suc (unat ?c)"
    using room by (simp add: cur unat_word_ariths)
  have len: "length ls = unat ?c"
    by (rule syncedD(4) [OF sy])
  have old: "?A' n = ?A n" if "n \<le> unat ?c" for n
    using that len by (simp add: authoritative_append)
  have "save_state sim s1 = save_state sim (snd (step_frame sim inp
      (remote_for_frame x ?c) True (?A (unat ?c))))"
    unfolding s1
    by (rule step_deterministic [OF syncedD(2) [OF sy] authoritative_ok [OF syncedD(1) [OF sy]]
          syncedD(5) [OF sy] stepped])
  then have saved: "save_state sim s1 = save_state sim (?A' (Suc (unat ?c)))"
    by (simp add: authoritative_Suc old remote_for_frame_def nth_append len)
  have look: "map_of (frames y) g = (if g < first_retained y then None
      else if g = ?c then Some r else map_of (frames x) g)" for g
    using syncedD(3) [OF sy] by (simp add: fr map_of_erase_before maps_ok_def map_of_om_put)
  have ret: "retained y g \<longleftrightarrow> \<not> g < first_retained y \<and> (g = ?c \<or> retained x g)" for g
  proof -
    have "g < current_frame y \<longleftrightarrow> g = ?c \<or> g < ?c"
      by (auto simp: word_less_nat_alt cur' less_Suc_eq word_unat_eq_iff)
    moreover have "g < first_retained y \<longleftrightarrow>
        unat g < Suc (unat ?c) - unat (max_rollback_frames x)"
      by (simp add: word_less_nat_alt unat_first_retained cur' mx)
    ultimately show ?thesis
      by (auto simp: retained_def cur' mx word_less_nat_alt)
  qed
  have before: "g = ?c \<or> unat g < unat ?c" if "unat g < unat (current_frame y)" for g
    using that by (auto simp: cur' less_Suc_eq word_unat_eq_iff)
  have good: "frame_good sim s0 (ls @ [inp]) y g q" if "frame_good sim s0 ls x g q" "unat g \<le> unat ?c" for g q
    using that by (simp add: frame_good_def ri old remote_for_frame_def has_exact_remote_def)
  show ?thesis
  proof (rule syncedI)
    show "sim_ok s0" by (rule syncedD(1) [OF sy])
    show "sim_ok (simulation y)"
      using syncedD(2) [OF sy] by (simp add: sim s1 step_ok)
    show "maps_ok y"
      using syncedD(3) [OF sy] by (simp add: maps_ok_def fr hs ri rh)
    show "length (ls @ [inp]) = unat (current_frame y)"
      by (simp add: len cur')
    show "save_state sim (simulation y) = save_state sim
        (authoritative sim s0 (ls @ [inp]) (remote_inputs y) (unat (current_frame y)))"
      by (simp add: sim ri cur' saved)
    show "(map_of (frames y) g \<noteq> None) = retained y g" for g
      using syncedD(6) [OF sy, of g] by (simp add: look ret)
    show "local_input q = (ls @ [inp]) ! unat g" if "map_of (frames y) g = Some q" for g q
    proof (cases "g = ?c")
      case True
      then show ?thesis using that by (auto simp: look r nth_append len split: if_splits)
    next
      case False
      then have q: "map_of (frames x) g = Some q"
        using that by (simp add: look split: if_splits)
      then have "g < ?c"
        using syncedD(6) [OF sy, of g] by (simp add: retained_def)
      then show ?thesis
        using syncedD(7) [OF sy q] by (simp add: nth_append len word_less_nat_alt)
    qed
    show "frame_good sim s0 (ls @ [inp]) y g q"
      if "map_of (frames y) g = Some q" "unat g < unat (current_frame y)" for g q
      using before [OF that(2)]
    proof
      assume "g = ?c"
      then have "q = r" using that(1) by (simp add: look split: if_splits)
      moreover have "frame_good sim s0 ls x ?c r"
        using syncedD(5) [OF sy] by (simp add: frame_good_def r)
      ultimately show ?thesis using good \<open>g = ?c\<close> by simp
    next
      assume lt: "unat g < unat ?c"
      then have "map_of (frames x) g = Some q"
        using that(1) by (auto simp: look split: if_splits)
      then show ?thesis
        using syncedD(8) [OF sy _ lt] lt good by simp
    qed
    show "(map_of (state_hashes y) g \<noteq> None) = (g < current_frame y)" for g
      using syncedD(9) [OF sy, of g]
      by (auto simp: hs map_of_om_put word_less_nat_alt cur' less_Suc_eq word_unat_eq_iff)
    show "map_of (state_hashes y) g = Some (hash_state sim
        (authoritative sim s0 (ls @ [inp]) (remote_inputs y) (Suc (unat g))))"
      if "unat g < unat (current_frame y)" for g
      using before [OF that]
    proof
      assume "g = ?c"
      then show ?thesis using saved by (simp add: hs map_of_om_put ri hash_state_def)
    next
      assume lt: "unat g < unat ?c"
      then have "g \<noteq> ?c" by auto
      then show ?thesis
        using syncedD(10) [OF sy lt] old [of "Suc (unat g)"] lt
        by (simp add: hs map_of_om_put ri Suc_leI)
    qed
  qed
qed

lemma advance_inv:
  assumes inv: "session_inv sim sim_ok s0 ls x" and room: "unat (current_frame x) + 1 < 2 ^ 64"
  shows "session_inv sim sim_ok s0
    (case fst (advance sim inp x) of Inr _ \<Rightarrow> ls @ [inp] | Inl _ \<Rightarrow> ls) (snd (advance sim inp x))"
proof -
  have sy: "synced sim sim_ok s0 ls (unat (current_frame x)) x"
    using inv by (simp add: session_inv_def)
  obtain res s1 where st:
    "step_frame sim inp (remote_for_frame x (current_frame x)) True (simulation x) = (res, s1)"
    by force
  have ok1: "sim_ok s1"
    using step_ok [OF syncedD(2) [OF sy], of inp "remote_for_frame x (current_frame x)" True]
    by (simp add: st)
  show ?thesis
  proof (cases res)
    case (Inl ed)
    obtain e d where ed: "ed = (e, d)" by force
    have ld: "fst (load_state sim (save_state sim (simulation x)) s1) = Inr ()"
      using load_save [OF syncedD(2) [OF sy] ok1] by simp
    show ?thesis
      using failed_step_inv [OF inv ok1] ld
      by (cases "load_state sim (save_state sim (simulation x)) s1")
        (simp add: advance_def st Inl ed Let_def)
  next
    case (Inr u)
    let ?r = "\<lparr>snapshot_before = save_state sim (simulation x), local_input = inp,
      remote_used = remote_for_frame x (current_frame x),
      predicted_remote = (\<not> has_exact_remote x (current_frame x))\<rparr>"
    let ?y = "prune_rollback_history (recompute_desync (record_frame sim ?r (x\<lparr>simulation := s1\<rparr>)))"
    have "synced sim sim_ok s0 (ls @ [inp]) (unat (current_frame ?y)) ?y"
      by (rule advanced_synced [OF sy room _ _ refl refl]) (simp_all add: st Inr)
    moreover have "desync_frame ?y = first_mismatch (remote_hashes ?y) (state_hashes ?y)"
      by (simp add: prune_rollback_history_def recompute_desync_def)
    ultimately show ?thesis
      by (simp add: advance_def st Inr Let_def session_inv_def)
  qed
qed

lemma new_session_inv: "sim_ok s0 \<Longrightarrow> session_inv sim sim_ok s0 [] (new_session s0 m)"
  by (simp add: session_inv_def new_session_def synced_def maps_ok_def retained_def)

lemma run_op_inv:
  assumes "session_inv sim sim_ok s0 ls x" "unat (current_frame x) + 1 < 2 ^ 64"
  shows "session_inv sim sim_ok s0
    (ls @ (case (op', fst (run_op sim op' x)) of (Advance inp, Inr _) \<Rightarrow> [inp] | _ \<Rightarrow> []))
    (snd (run_op sim op' x))"
proof (cases op')
  case (Advance inp)
  then show ?thesis
    using advance_inv [OF assms, of inp] by (auto split: sum.splits)
next
  case (SubmitInput f r)
  then show ?thesis using submit_remote_input_inv [OF assms(1)] by simp
next
  case (SubmitHash f h)
  then show ?thesis using submit_remote_hash_inv [OF assms(1)] by simp
qed

lemma run_op_frame:
  assumes "session_inv sim sim_ok s0 ls x" "unat (current_frame x) + 1 < 2 ^ 64"
  shows "unat (current_frame (snd (run_op sim op' x))) \<le> unat (current_frame x) + 1"
proof -
  have len: "length ks = unat (current_frame y)" if "session_inv sim sim_ok s0 ks y" for ks y
    using that by (simp add: session_inv_def synced_def)
  show ?thesis
    using len [OF run_op_inv [OF assms, of op']] len [OF assms(1)]
    by (auto split: SessionOp.splits sum.splits)
qed

lemma run_ops_inv:
  assumes "session_inv sim sim_ok s0 ls x" "unat (current_frame x) + length ops < 2 ^ 64"
  shows "session_inv sim sim_ok s0 (ls @ played sim ops x) (run_ops sim ops x)"
  using assms
proof (induction ops arbitrary: ls x)
  case (Cons op' ops)
  have room: "unat (current_frame x) + 1 < 2 ^ 64"
    using Cons.prems(2) by simp
  have "unat (current_frame (snd (run_op sim op' x))) + length ops < 2 ^ 64"
    using run_op_frame [OF Cons.prems(1) room, of op'] Cons.prems(2) by simp
  from Cons.IH [OF run_op_inv [OF Cons.prems(1) room, of op'] this] show ?case
    by simp
qed simp

end

section \<open>Replays are silent\<close>

lemma submit_remote_input_preserves:
  assumes load: "\<And>b s. P s \<Longrightarrow> P (snd (load_state sim b s))"
    and silent: "\<And>l r s. P s \<Longrightarrow> P (snd (step_frame sim l r False s))"
    and P: "P (simulation x)"
  shows "P (simulation (snd (submit_remote_input sim frame remote x)))"
proof -
  have frame: "P (simulation (snd (replay_frame sim f y)))" if "P (simulation y)" for f y
    using silent [OF that]
    by (auto simp: replay_frame_def Let_def that split: option.split prod.split sum.split)
      (metis snd_conv)+
  have loop: "P (simulation (snd (replay_loop sim f y)))" if "P (simulation y)" for f y
    by (rule replay_loop_preserves [where P = "\<lambda>y. P (simulation y)"]) (use frame that in auto)
  have "P (simulation (snd (replay_from sim frame remote r x)))" for r
  proof -
    obtain res s1 where ld: "load_state sim (snapshot_before r) (simulation x) = (res, s1)"
      by force
    have s1: "P s1"
      using load [OF P, of "snapshot_before r"] by (simp add: ld)
    let ?y = "x\<lparr>remote_inputs := om_put frame remote (remote_inputs x), simulation := s1\<rparr>"
    obtain res2 z where rl: "replay_loop sim frame ?y = (res2, z)" by force
    have z: "P (simulation z)"
      using loop [of ?y frame] s1 by (simp add: rl)
    show ?thesis
      using load [OF z] load [OF s1] z rl
      by (cases res; cases res2)
        (simp_all add: replay_from_def Let_def ld restore_session_def recompute_desync_def)
  qed
  then show ?thesis
    using P by (simp add: submit_remote_input_def split: option.split)
qed

section \<open>Desynchronisation\<close>

lemma first_mismatch_None:
  "first_mismatch rs hs = None \<longleftrightarrow>
   (\<forall>(f, h) \<in> set rs. map_of hs f = None \<or> map_of hs f = Some h)"
  by (induction rs hs rule: first_mismatch.induct) (auto split: option.splits)

lemma first_mismatch_Some:
  assumes "first_mismatch rs hs = Some f" "om_ok rs"
  shows "\<exists>h h'. map_of rs f = Some h \<and> map_of hs f = Some h' \<and> h \<noteq> h' \<and>
    (\<forall>g h1 h2. g < f \<longrightarrow> map_of rs g = Some h1 \<longrightarrow> map_of hs g = Some h2 \<longrightarrow> h1 = h2)"
  using assms
proof (induction rs hs rule: first_mismatch.induct)
  case (2 frame rh rest hs)
  have ok: "om_ok rest" and low: "\<And>g h. map_of rest g = Some h \<Longrightarrow> frame < g"
    using "2.prems"(2) by (auto simp: om_ok_Cons dest!: map_of_SomeD)
  show ?case
  proof (cases "map_of hs frame = None \<or> map_of hs frame = Some rh")
    case True
    then have "first_mismatch rest hs = Some f"
      using "2.prems"(1) by auto
    then have "\<exists>h h'. map_of rest f = Some h \<and> map_of hs f = Some h' \<and> h \<noteq> h' \<and>
      (\<forall>g h1 h2. g < f \<longrightarrow> map_of rest g = Some h1 \<longrightarrow> map_of hs g = Some h2 \<longrightarrow> h1 = h2)"
      using "2.IH" ok True by (cases "map_of hs frame") auto
    then show ?thesis
      using True low by (fastforce split: if_splits)
  next
    case False
    then obtain h' where "map_of hs frame = Some h'" "h' \<noteq> rh" by auto
    then have "f = frame" using "2.prems"(1) by simp
    then show ?thesis
      using \<open>map_of hs frame = Some h'\<close> \<open>h' \<noteq> rh\<close> low
      by (auto dest: low split: if_splits) (metis less_asym low)
  qed
qed simp

section \<open>Late inputs are accepted, failures leave no trace\<close>

lemma replay_loop_total:
  assumes "\<And>l r s. fst (step_frame sim l r False s) = Inr ()"
    and "\<forall>g. f \<le> g \<and> g < current_frame x \<longrightarrow> map_of (frames x) g \<noteq> None"
  shows "fst (replay_loop sim f x) = Inr ()"
  using assms
proof (induction sim f x rule: replay_loop.induct)
  case (1 sim f x)
  show ?case
  proof (cases "f < current_frame x")
    case lt: True
    then obtain r where r: "map_of (frames x) f = Some r"
      using "1.prems"(2) by auto
    obtain s1 where st: "step_frame sim (local_input (refresh_record sim f r x))
        (remote_used (refresh_record sim f r x)) False (simulation x) = (Inr (), s1)"
      using "1.prems"(1) by (metis prod.collapse)
    obtain x1 where rf: "replay_frame sim f x = (Inr (), x1)"
      and x1: "frames x1 = om_put f (refresh_record sim f r x) (frames x)"
        "current_frame x1 = current_frame x"
      by (simp add: replay_frame_def r Let_def st)
    have "f \<le> g" if "f + 1 \<le> g" for g
      using that lt by (simp add: word_le_nat_alt unat_next [OF lt])
    then have "\<forall>g. f + 1 \<le> g \<and> g < current_frame x1 \<longrightarrow> map_of (frames x1) g \<noteq> None"
      using "1.prems"(2) by (simp add: x1 map_of_om_put)
    then have "fst (replay_loop sim (f + 1) x1) = Inr ()"
      using "1.IH" [OF lt rf [symmetric] refl] "1.prems"(1) by blast
    then show ?thesis
      using lt by (subst replay_loop.simps) (simp add: rf)
  next
    case False
    then show ?thesis by (subst replay_loop.simps) simp
  qed
qed

context rollback_simulation
begin

lemma late_input_accepted:
  assumes total: "\<And>l r s. fst (step_frame sim l r False s) = Inr ()"
    and inv: "session_inv sim sim_ok s0 ls x" and ret: "retained x frame"
  shows "fst (submit_remote_input sim frame remote x) = Inr ()"
proof -
  have sy: "synced sim sim_ok s0 ls (unat (current_frame x)) x"
    using inv by (simp add: session_inv_def)
  have lt: "frame < current_frame x" and win: "unat (current_frame x) - unat frame
      \<le> unat (max_rollback_frames x)"
    using ret by (simp_all add: retained_def)
  obtain r where r: "map_of (frames x) frame = Some r"
    using syncedD(6) [OF sy, of frame] ret by auto
  have later: "map_of (frames x) g \<noteq> None" if "frame \<le> g" "g < current_frame x" for g
  proof -
    have "unat frame \<le> unat g" using that by (simp add: word_le_nat_alt)
    then have "retained x g" using that win by (simp add: retained_def)
    then show ?thesis using syncedD(6) [OF sy, of g] by simp
  qed
  have "unat (max_rollback_frames x) < 2 ^ 32"
    using unsigned_less [of "max_rollback_frames x", where ?'a = nat] by simp
  then have up: "unat (ucast (max_rollback_frames x) :: u64) = unat (max_rollback_frames x)"
    by (simp add: unsigned_ucast_eq take_bit_nat_eq_self_iff)
  have window: "\<not> ucast (max_rollback_frames x) < current_frame x - frame"
    using win lt by (simp add: word_less_nat_alt up unat_sub order_less_imp_le)
  define s1 where "s1 = snd (load_state sim (snapshot_before r) (simulation x))"
  have ld: "load_state sim (snapshot_before r) (simulation x) = (Inr (), s1)"
    using load_authoritative(1) [OF sy r] lt
    by (simp add: s1_def prod_eq_iff word_less_nat_alt)
  let ?y = "x\<lparr>remote_inputs := om_put frame remote (remote_inputs x), simulation := s1\<rparr>"
  have "fst (replay_loop sim frame ?y) = Inr ()"
    by (rule replay_loop_total) (auto simp: total later)
  then have "fst (replay_from sim frame remote r x) = Inr ()"
    by (auto simp: replay_from_def Let_def ld split: prod.splits)
  then show ?thesis
    using lt window r by (simp add: submit_remote_input_def)
qed

lemma failed_submission_restores:
  assumes inv: "session_inv sim sim_ok s0 ls x"
    and fail: "fst (submit_remote_input sim frame remote x) = Inl e"
  shows "snd (submit_remote_input sim frame remote x)
      = x\<lparr>simulation := simulation (snd (submit_remote_input sim frame remote x))\<rparr>"
    and "save_state sim (simulation (snd (submit_remote_input sim frame remote x)))
      = save_state sim (simulation x)"
proof -
  let ?y = "snd (submit_remote_input sim frame remote x)"
  have inv_y: "session_inv sim sim_ok s0 ls ?y"
    by (rule submit_remote_input_inv [OF inv])
  have same: "?y = x\<lparr>simulation := simulation ?y\<rparr>"
  proof -
    have "snd (replay_from sim frame remote r x)
        = x\<lparr>simulation := simulation (snd (replay_from sim frame remote r x))\<rparr>"
      if "fst (replay_from sim frame remote r x) = Inl e" for r
    proof -
      obtain res s1 where ld: "load_state sim (snapshot_before r) (simulation x) = (res, s1)"
        by force
      let ?z = "x\<lparr>remote_inputs := om_put frame remote (remote_inputs x), simulation := s1\<rparr>"
      obtain res2 z where rl: "replay_loop sim frame ?z = (res2, z)" by force
      have z: "current_frame z = current_frame x" "max_rollback_frames z = max_rollback_frames x"
        "remote_hashes z = remote_hashes x"
        using session_fields_replay_loop [of sim frame ?z] unfolding rl snd_conv by simp_all
      show ?thesis
        using that z rl
        by (cases res; cases res2) (simp_all add: replay_from_def Let_def ld restore_session_def)
    qed
    then show ?thesis
      using fail by (auto simp: submit_remote_input_def split: if_splits option.splits)
  qed
  then show "?y = x\<lparr>simulation := simulation ?y\<rparr>" .
  have "remote_inputs ?y = remote_inputs x" "current_frame ?y = current_frame x"
    using arg_cong [OF same, of remote_inputs] arg_cong [OF same, of current_frame] by simp_all
  then show "save_state sim (simulation ?y) = save_state sim (simulation x)"
    using inv inv_y by (simp add: session_inv_def synced_def)
qed

end

context rollback_simulation
begin

lemma run_from_new:
  assumes "sim_ok s0" "length ops < 2 ^ 64"
  shows "session_inv sim sim_ok s0 (played sim ops (new_session s0 m))
           (run_ops sim ops (new_session s0 m))"
  using run_ops_inv [OF new_session_inv [OF assms(1)], of m ops] assms(2)
  by (simp add: new_session_def)

end

definition hashes_differ :: "'s RollbackSession \<Rightarrow> u64 \<Rightarrow> bool" where
  "hashes_differ x f \<longleftrightarrow>
     (case (map_of (remote_hashes x) f, map_of (state_hashes x) f) of
        (Some h, Some h') \<Rightarrow> h \<noteq> h'
      | _ \<Rightarrow> False)"

lemma desync_frame_least:
  assumes "desync_frame x = first_mismatch (remote_hashes x) (state_hashes x)"
    and ok: "om_ok (remote_hashes x)"
  shows "case desync_frame x of
      None \<Rightarrow> \<not> (\<exists>f. hashes_differ x f)
    | Some f \<Rightarrow> hashes_differ x f \<and> \<not> (\<exists>g<f. hashes_differ x g)"
proof (cases "desync_frame x")
  case None
  then show ?thesis
    using assms(1) first_mismatch_None [of "remote_hashes x" "state_hashes x"]
    by (fastforce simp: hashes_differ_def split: option.splits dest: map_of_SomeD)
next
  case (Some f)
  then show ?thesis
    using first_mismatch_Some [OF _ ok, of "state_hashes x" f] assms(1)
    by (auto simp: hashes_differ_def split: option.splits)
qed

text \<open>C's \<open>toupper\<close> on ASCII, for stating what an upper-case digest does.\<close>

definition toupper :: "char \<Rightarrow> char" where
  "toupper c = (case map_of (zip ''abcdefghijklmnopqrstuvwxyz'' ''ABCDEFGHIJKLMNOPQRSTUVWXYZ'') c of
     Some u \<Rightarrow> u | None \<Rightarrow> c)"

lemma lower_hex_upper: "lower_hex c \<Longrightarrow> isxdigit (toupper c)"
proof -
  have "list_all (\<lambda>c. isxdigit (toupper c)) ''0123456789abcdef''"
    by code_simp
  then show "lower_hex c \<Longrightarrow> isxdigit (toupper c)"
    unfolding lower_hex_def by (simp only: list_all_iff)
qed

lemma upper_changes: "c \<in> set ''abcdef'' \<Longrightarrow> toupper c \<noteq> c"
proof -
  have "list_all (\<lambda>c. toupper c \<noteq> c) ''abcdef''"
    by code_simp
  then show "c \<in> set ''abcdef'' \<Longrightarrow> toupper c \<noteq> c"
    unfolding list_all_iff by blast
qed

lemma submit_success_remote_inputs:
  assumes "submit_remote_input sim frame remote x = (Inr u, y)"
  shows "remote_inputs y = om_put frame remote (remote_inputs x)"
proof -
  have "remote_inputs z = om_put frame remote (remote_inputs x)"
    if "replay_from sim frame remote r x = (Inr v, z)" for r v z
  proof -
    obtain res s1 where ld: "load_state sim (snapshot_before r) (simulation x) = (res, s1)"
      by force
    let ?y = "x\<lparr>remote_inputs := om_put frame remote (remote_inputs x), simulation := s1\<rparr>"
    obtain res2 w where rl: "replay_loop sim frame ?y = (res2, w)" by force
    have "remote_inputs w = om_put frame remote (remote_inputs x)"
      using session_fields_replay_loop(3) [of sim frame ?y] unfolding rl by simp
    then show ?thesis
      using that rl
      by (cases res; cases res2) (auto simp: replay_from_def Let_def ld recompute_desync_def)
  qed
  then show ?thesis
    using assms by (auto simp: submit_remote_input_def split: if_splits option.splits)
qed

section \<open>The simulation of the tests\<close>

text \<open>
  \<open>TestSimulation\<close> of \<^verbatim>\<open>src/tests/test_rollback.cpp\<close>: a 64-bit value saved as eight
  little-endian bytes, a log of the side-effect flags, and an injected failure of the
  next load.  It keeps the session's laws as long as no failure is injected.
\<close>

record TestSimulation =
  test_value :: u64
  emitted_side_effects :: nat
  side_effect_flags :: "bool list"
  fail_next_load :: bool

definition decode_i64 :: "u8 list \<Rightarrow> u64" where
  "decode_i64 bs = fold (\<lambda>i raw. raw OR push_bit (8 * i) (ucast (bs ! i))) [0..<8] 0"

definition test_load :: "u8 list \<Rightarrow> TestSimulation \<Rightarrow> unit result \<times> TestSimulation" where
  "test_load bs s =
     (if length bs \<noteq> 8 then (failure invalid_argument ''test state must contain eight bytes'', s)
      else if fail_next_load s
      then (failure io_error ''injected restore failure after mutation'',
            s\<lparr>fail_next_load := False, test_value := - 777777\<rparr>)
      else (success (), s\<lparr>test_value := decode_i64 bs\<rparr>))"

definition test_step ::
  "RollbackInput \<Rightarrow> RollbackInput \<Rightarrow> bool \<Rightarrow> TestSimulation \<Rightarrow> unit result \<times> TestSimulation" where
  "test_step l r e s =
     (success (),
      s\<lparr>test_value := test_value s + ucast (buttons l) + ucast (buttons r) * 10
          + scast (axis_x l) + scast (axis_y r),
        side_effect_flags := side_effect_flags s @ [e],
        emitted_side_effects := emitted_side_effects s + (if e then 1 else 0)\<rparr>)"

definition test_simulation :: "TestSimulation IRollbackSimulation" where
  "test_simulation = \<lparr>save_state = \<lambda>s. le_bytes 8 (test_value s), load_state = test_load,
                      step_frame = test_step\<rparr>"

lemma decode_le_bytes: "decode_i64 (le_bytes 8 v) = v"
  using le_value_le_bytes [of 8 v] by (simp add: decode_i64_def le_value_def)

lemma le_bytes_inj: "le_bytes 8 (v :: u64) = le_bytes 8 w \<longleftrightarrow> v = w"
  by (metis decode_le_bytes)

interpretation tests: rollback_simulation test_simulation "\<lambda>s. \<not> fail_next_load s"
  by unfold_locales
    (auto simp: test_simulation_def test_load_def test_step_def decode_le_bytes le_bytes_inj)

lemma advance_test_succeeds: "fst (advance test_simulation i x) = Inr ()"
  by (simp add: advance_def Let_def test_simulation_def test_step_def)

lemma advance_test_fields:
  "current_frame (snd (advance test_simulation i x)) = current_frame x + 1"
  "max_rollback_frames (snd (advance test_simulation i x)) = max_rollback_frames x"
  "remote_inputs (snd (advance test_simulation i x)) = remote_inputs x"
  "simulation (snd (advance test_simulation i x))
     = snd (test_step i (remote_for_frame x (current_frame x)) True (simulation x))"
  by (simp_all add: advance_def Let_def test_simulation_def test_step_def record_frame_def
      prune_rollback_history_def recompute_desync_def)

lemma step_test_succeeds: "fst (step_frame test_simulation l r e s) = Inr ()"
  by (simp add: test_simulation_def test_step_def)

end
