(* ===== verification/Sha256_Vector.thy ===== *)
theory Sha256_Vector
  imports Sha256
begin

text \<open>
  The known-answer test of the standard for the message \<open>abc\<close>, evaluated in the kernel:
  the message schedule in six strides of eight words, then the compression in eight
  strides of eight rounds, so that each evaluation stays small.
\<close>


definition abc_words :: "u32 list" where "abc_words = [0x61626380, 0x0, 0x0, 0x0, 0x0, 0x0, 0x0,
    0x0, 0x0, 0x0, 0x0, 0x0, 0x0, 0x0, 0x0, 0x18, 0x61626380, 0xf0000, 0x7da86405, 0x600003c6,
    0x3e9d7b78, 0x183fc00, 0x12dcbfdb, 0xe2e2c38e, 0xc8215c1a, 0xb73679a2, 0xe5bc3909, 0x32663c5b,
    0x9d209d67, 0xec8726cb, 0x702138a4, 0xd3b7973b, 0x93f5997f, 0x3b68ba73, 0xaff4ffc1,
    0xf10a5c62, 0xa8b3996, 0x72af830a, 0x9409e33e, 0x24641522, 0x9f47bf94, 0xf0a64f5a, 0x3e246a79,
    0x27333ba3, 0xc4763f2, 0x840abf27, 0x7a290d5d, 0x65c43da, 0xfb3e89cb, 0xcc7617db, 0xb9e66c34,
    0xa9993667, 0x84badedd, 0xc21462bc, 0x1487472c, 0xb20f7a99, 0xef57b9cd, 0xebe6b238,
    0x9fe3095e, 0x78bc8d4b, 0xa43fcf15, 0x668b2ff8, 0xeeaba2cc, 0x12b1edeb]"

lemmas round_simps = rotr_def Let_def sha256_k_def abc_words_def

lemma sched_16: "fold schedule_word [16..<24] [0x61626380, 0x0, 0x0, 0x0, 0x0, 0x0, 0x0, 0x0, 0x0,
    0x0, 0x0, 0x0, 0x0, 0x0, 0x0, 0x18, 0x0, 0x0, 0x0, 0x0, 0x0, 0x0, 0x0, 0x0, 0x0, 0x0, 0x0,
    0x0, 0x0, 0x0, 0x0, 0x0, 0x0, 0x0, 0x0, 0x0, 0x0, 0x0, 0x0, 0x0, 0x0, 0x0, 0x0, 0x0, 0x0, 0x0,
    0x0, 0x0, 0x0, 0x0, 0x0, 0x0, 0x0, 0x0, 0x0, 0x0, 0x0, 0x0, 0x0, 0x0, 0x0, 0x0, 0x0, 0x0] =
    [0x61626380, 0x0, 0x0, 0x0, 0x0, 0x0, 0x0, 0x0, 0x0, 0x0, 0x0, 0x0, 0x0, 0x0, 0x0, 0x18,
    0x61626380, 0xf0000, 0x7da86405, 0x600003c6, 0x3e9d7b78, 0x183fc00, 0x12dcbfdb, 0xe2e2c38e,
    0x0, 0x0, 0x0, 0x0, 0x0, 0x0, 0x0, 0x0, 0x0, 0x0, 0x0, 0x0, 0x0, 0x0, 0x0, 0x0, 0x0, 0x0, 0x0,
    0x0, 0x0, 0x0, 0x0, 0x0, 0x0, 0x0, 0x0, 0x0, 0x0, 0x0, 0x0, 0x0, 0x0, 0x0, 0x0, 0x0, 0x0, 0x0,
    0x0, 0x0]"
 by (simp add: upt_conv_Cons schedule_word_def rotr_def Let_def)

lemma sched_24: "fold schedule_word [24..<32] [0x61626380, 0x0, 0x0, 0x0, 0x0, 0x0, 0x0, 0x0, 0x0,
    0x0, 0x0, 0x0, 0x0, 0x0, 0x0, 0x18, 0x61626380, 0xf0000, 0x7da86405, 0x600003c6, 0x3e9d7b78,
    0x183fc00, 0x12dcbfdb, 0xe2e2c38e, 0x0, 0x0, 0x0, 0x0, 0x0, 0x0, 0x0, 0x0, 0x0, 0x0, 0x0, 0x0,
    0x0, 0x0, 0x0, 0x0, 0x0, 0x0, 0x0, 0x0, 0x0, 0x0, 0x0, 0x0, 0x0, 0x0, 0x0, 0x0, 0x0, 0x0, 0x0,
    0x0, 0x0, 0x0, 0x0, 0x0, 0x0, 0x0, 0x0, 0x0] = [0x61626380, 0x0, 0x0, 0x0, 0x0, 0x0, 0x0, 0x0,
    0x0, 0x0, 0x0, 0x0, 0x0, 0x0, 0x0, 0x18, 0x61626380, 0xf0000, 0x7da86405, 0x600003c6,
    0x3e9d7b78, 0x183fc00, 0x12dcbfdb, 0xe2e2c38e, 0xc8215c1a, 0xb73679a2, 0xe5bc3909, 0x32663c5b,
    0x9d209d67, 0xec8726cb, 0x702138a4, 0xd3b7973b, 0x0, 0x0, 0x0, 0x0, 0x0, 0x0, 0x0, 0x0, 0x0,
    0x0, 0x0, 0x0, 0x0, 0x0, 0x0, 0x0, 0x0, 0x0, 0x0, 0x0, 0x0, 0x0, 0x0, 0x0, 0x0, 0x0, 0x0, 0x0,
    0x0, 0x0, 0x0, 0x0]"
 by (simp add: upt_conv_Cons schedule_word_def rotr_def Let_def)

lemma sched_32: "fold schedule_word [32..<40] [0x61626380, 0x0, 0x0, 0x0, 0x0, 0x0, 0x0, 0x0, 0x0,
    0x0, 0x0, 0x0, 0x0, 0x0, 0x0, 0x18, 0x61626380, 0xf0000, 0x7da86405, 0x600003c6, 0x3e9d7b78,
    0x183fc00, 0x12dcbfdb, 0xe2e2c38e, 0xc8215c1a, 0xb73679a2, 0xe5bc3909, 0x32663c5b, 0x9d209d67,
    0xec8726cb, 0x702138a4, 0xd3b7973b, 0x0, 0x0, 0x0, 0x0, 0x0, 0x0, 0x0, 0x0, 0x0, 0x0, 0x0,
    0x0, 0x0, 0x0, 0x0, 0x0, 0x0, 0x0, 0x0, 0x0, 0x0, 0x0, 0x0, 0x0, 0x0, 0x0, 0x0, 0x0, 0x0, 0x0,
    0x0, 0x0] = [0x61626380, 0x0, 0x0, 0x0, 0x0, 0x0, 0x0, 0x0, 0x0, 0x0, 0x0, 0x0, 0x0, 0x0, 0x0,
    0x18, 0x61626380, 0xf0000, 0x7da86405, 0x600003c6, 0x3e9d7b78, 0x183fc00, 0x12dcbfdb,
    0xe2e2c38e, 0xc8215c1a, 0xb73679a2, 0xe5bc3909, 0x32663c5b, 0x9d209d67, 0xec8726cb,
    0x702138a4, 0xd3b7973b, 0x93f5997f, 0x3b68ba73, 0xaff4ffc1, 0xf10a5c62, 0xa8b3996, 0x72af830a,
    0x9409e33e, 0x24641522, 0x0, 0x0, 0x0, 0x0, 0x0, 0x0, 0x0, 0x0, 0x0, 0x0, 0x0, 0x0, 0x0, 0x0,
    0x0, 0x0, 0x0, 0x0, 0x0, 0x0, 0x0, 0x0, 0x0, 0x0]"
 by (simp add: upt_conv_Cons schedule_word_def rotr_def Let_def)

lemma sched_40: "fold schedule_word [40..<48] [0x61626380, 0x0, 0x0, 0x0, 0x0, 0x0, 0x0, 0x0, 0x0,
    0x0, 0x0, 0x0, 0x0, 0x0, 0x0, 0x18, 0x61626380, 0xf0000, 0x7da86405, 0x600003c6, 0x3e9d7b78,
    0x183fc00, 0x12dcbfdb, 0xe2e2c38e, 0xc8215c1a, 0xb73679a2, 0xe5bc3909, 0x32663c5b, 0x9d209d67,
    0xec8726cb, 0x702138a4, 0xd3b7973b, 0x93f5997f, 0x3b68ba73, 0xaff4ffc1, 0xf10a5c62, 0xa8b3996,
    0x72af830a, 0x9409e33e, 0x24641522, 0x0, 0x0, 0x0, 0x0, 0x0, 0x0, 0x0, 0x0, 0x0, 0x0, 0x0,
    0x0, 0x0, 0x0, 0x0, 0x0, 0x0, 0x0, 0x0, 0x0, 0x0, 0x0, 0x0, 0x0] = [0x61626380, 0x0, 0x0, 0x0,
    0x0, 0x0, 0x0, 0x0, 0x0, 0x0, 0x0, 0x0, 0x0, 0x0, 0x0, 0x18, 0x61626380, 0xf0000, 0x7da86405,
    0x600003c6, 0x3e9d7b78, 0x183fc00, 0x12dcbfdb, 0xe2e2c38e, 0xc8215c1a, 0xb73679a2, 0xe5bc3909,
    0x32663c5b, 0x9d209d67, 0xec8726cb, 0x702138a4, 0xd3b7973b, 0x93f5997f, 0x3b68ba73,
    0xaff4ffc1, 0xf10a5c62, 0xa8b3996, 0x72af830a, 0x9409e33e, 0x24641522, 0x9f47bf94, 0xf0a64f5a,
    0x3e246a79, 0x27333ba3, 0xc4763f2, 0x840abf27, 0x7a290d5d, 0x65c43da, 0x0, 0x0, 0x0, 0x0, 0x0,
    0x0, 0x0, 0x0, 0x0, 0x0, 0x0, 0x0, 0x0, 0x0, 0x0, 0x0]"
 by (simp add: upt_conv_Cons schedule_word_def rotr_def Let_def)

lemma sched_48: "fold schedule_word [48..<56] [0x61626380, 0x0, 0x0, 0x0, 0x0, 0x0, 0x0, 0x0, 0x0,
    0x0, 0x0, 0x0, 0x0, 0x0, 0x0, 0x18, 0x61626380, 0xf0000, 0x7da86405, 0x600003c6, 0x3e9d7b78,
    0x183fc00, 0x12dcbfdb, 0xe2e2c38e, 0xc8215c1a, 0xb73679a2, 0xe5bc3909, 0x32663c5b, 0x9d209d67,
    0xec8726cb, 0x702138a4, 0xd3b7973b, 0x93f5997f, 0x3b68ba73, 0xaff4ffc1, 0xf10a5c62, 0xa8b3996,
    0x72af830a, 0x9409e33e, 0x24641522, 0x9f47bf94, 0xf0a64f5a, 0x3e246a79, 0x27333ba3, 0xc4763f2,
    0x840abf27, 0x7a290d5d, 0x65c43da, 0x0, 0x0, 0x0, 0x0, 0x0, 0x0, 0x0, 0x0, 0x0, 0x0, 0x0, 0x0,
    0x0, 0x0, 0x0, 0x0] = [0x61626380, 0x0, 0x0, 0x0, 0x0, 0x0, 0x0, 0x0, 0x0, 0x0, 0x0, 0x0, 0x0,
    0x0, 0x0, 0x18, 0x61626380, 0xf0000, 0x7da86405, 0x600003c6, 0x3e9d7b78, 0x183fc00,
    0x12dcbfdb, 0xe2e2c38e, 0xc8215c1a, 0xb73679a2, 0xe5bc3909, 0x32663c5b, 0x9d209d67,
    0xec8726cb, 0x702138a4, 0xd3b7973b, 0x93f5997f, 0x3b68ba73, 0xaff4ffc1, 0xf10a5c62, 0xa8b3996,
    0x72af830a, 0x9409e33e, 0x24641522, 0x9f47bf94, 0xf0a64f5a, 0x3e246a79, 0x27333ba3, 0xc4763f2,
    0x840abf27, 0x7a290d5d, 0x65c43da, 0xfb3e89cb, 0xcc7617db, 0xb9e66c34, 0xa9993667, 0x84badedd,
    0xc21462bc, 0x1487472c, 0xb20f7a99, 0x0, 0x0, 0x0, 0x0, 0x0, 0x0, 0x0, 0x0]"
 by (simp add: upt_conv_Cons schedule_word_def rotr_def Let_def)

lemma sched_56: "fold schedule_word [56..<64] [0x61626380, 0x0, 0x0, 0x0, 0x0, 0x0, 0x0, 0x0, 0x0,
    0x0, 0x0, 0x0, 0x0, 0x0, 0x0, 0x18, 0x61626380, 0xf0000, 0x7da86405, 0x600003c6, 0x3e9d7b78,
    0x183fc00, 0x12dcbfdb, 0xe2e2c38e, 0xc8215c1a, 0xb73679a2, 0xe5bc3909, 0x32663c5b, 0x9d209d67,
    0xec8726cb, 0x702138a4, 0xd3b7973b, 0x93f5997f, 0x3b68ba73, 0xaff4ffc1, 0xf10a5c62, 0xa8b3996,
    0x72af830a, 0x9409e33e, 0x24641522, 0x9f47bf94, 0xf0a64f5a, 0x3e246a79, 0x27333ba3, 0xc4763f2,
    0x840abf27, 0x7a290d5d, 0x65c43da, 0xfb3e89cb, 0xcc7617db, 0xb9e66c34, 0xa9993667, 0x84badedd,
    0xc21462bc, 0x1487472c, 0xb20f7a99, 0x0, 0x0, 0x0, 0x0, 0x0, 0x0, 0x0, 0x0] = [0x61626380,
    0x0, 0x0, 0x0, 0x0, 0x0, 0x0, 0x0, 0x0, 0x0, 0x0, 0x0, 0x0, 0x0, 0x0, 0x18, 0x61626380,
    0xf0000, 0x7da86405, 0x600003c6, 0x3e9d7b78, 0x183fc00, 0x12dcbfdb, 0xe2e2c38e, 0xc8215c1a,
    0xb73679a2, 0xe5bc3909, 0x32663c5b, 0x9d209d67, 0xec8726cb, 0x702138a4, 0xd3b7973b,
    0x93f5997f, 0x3b68ba73, 0xaff4ffc1, 0xf10a5c62, 0xa8b3996, 0x72af830a, 0x9409e33e, 0x24641522,
    0x9f47bf94, 0xf0a64f5a, 0x3e246a79, 0x27333ba3, 0xc4763f2, 0x840abf27, 0x7a290d5d, 0x65c43da,
    0xfb3e89cb, 0xcc7617db, 0xb9e66c34, 0xa9993667, 0x84badedd, 0xc21462bc, 0x1487472c,
    0xb20f7a99, 0xef57b9cd, 0xebe6b238, 0x9fe3095e, 0x78bc8d4b, 0xa43fcf15, 0x668b2ff8,
    0xeeaba2cc, 0x12b1edeb]"
 by (simp add: upt_conv_Cons schedule_word_def rotr_def Let_def)

lemma round_0: "fold (compress_round abc_words) [0..<8] (0x6a09e667, 0xbb67ae85, 0x3c6ef372,
    0xa54ff53a, 0x510e527f, 0x9b05688c, 0x1f83d9ab, 0x5be0cd19) = (0x85a07b5f, 0xe5030380,
    0x2b4209f5, 0x4409a6a, 0xc657a79, 0x9b27a401, 0x714260ad, 0x43ada245)"
 by (simp add: upt_conv_Cons round_simps)

lemma round_8: "fold (compress_round abc_words) [8..<16] (0x85a07b5f, 0xe5030380, 0x2b4209f5,
    0x4409a6a, 0xc657a79, 0x9b27a401, 0x714260ad, 0x43ada245) = (0xb0fa238e, 0xc0645fde,
    0xd932eb16, 0x87912990, 0x7590dcd, 0xb92f20c, 0x745a48de, 0x1e578218)"
 by (simp add: upt_conv_Cons round_simps)

lemma round_16: "fold (compress_round abc_words) [16..<24] (0xb0fa238e, 0xc0645fde, 0xd932eb16,
    0x87912990, 0x7590dcd, 0xb92f20c, 0x745a48de, 0x1e578218) = (0xc5d53d8d, 0xa7a3623f,
    0xc2606d6d, 0x9dc68b63, 0xaa47c347, 0x49f5114a, 0xe1257970, 0x8ada8930)"
 by (simp add: upt_conv_Cons round_simps)

lemma round_24: "fold (compress_round abc_words) [24..<32] (0xc5d53d8d, 0xa7a3623f, 0xc2606d6d,
    0x9dc68b63, 0xaa47c347, 0x49f5114a, 0xe1257970, 0x8ada8930) = (0x73b33bf5, 0xea992a22,
    0xa0060b30, 0x363482c9, 0xba591112, 0x109ab3a, 0xade79437, 0x6112a3b7)"
 by (simp add: upt_conv_Cons round_simps)

lemma round_32: "fold (compress_round abc_words) [32..<40] (0x73b33bf5, 0xea992a22, 0xa0060b30,
    0x363482c9, 0xba591112, 0x109ab3a, 0xade79437, 0x6112a3b7) = (0x79ea687a, 0x6dc57a8a,
    0x34df1604, 0x41a65cb1, 0x1efbc0a0, 0xf0781bc8, 0xa507a53d, 0x772a26b)"
 by (simp add: upt_conv_Cons round_simps)

lemma round_40: "fold (compress_round abc_words) [40..<48] (0x79ea687a, 0x6dc57a8a, 0x34df1604,
    0x41a65cb1, 0x1efbc0a0, 0xf0781bc8, 0xa507a53d, 0x772a26b) = (0x4172328d, 0xa14c14b0,
    0x72ab4b91, 0x26628815, 0xfecf0bc6, 0xd57b94a9, 0xb7755da1, 0xa80f11f0)"
 by (simp add: upt_conv_Cons round_simps)

lemma round_48: "fold (compress_round abc_words) [48..<56] (0x4172328d, 0xa14c14b0, 0x72ab4b91,
    0x26628815, 0xfecf0bc6, 0xd57b94a9, 0xb7755da1, 0xa80f11f0) = (0x38cc9913, 0x3ec45cdb,
    0xf5702fdb, 0x101fd28f, 0x54cb266b, 0xe50e1b4f, 0x9f4787c3, 0x529e7d00)"
 by (simp add: upt_conv_Cons round_simps)

lemma round_56: "fold (compress_round abc_words) [56..<64] (0x38cc9913, 0x3ec45cdb, 0xf5702fdb,
    0x101fd28f, 0x54cb266b, 0xe50e1b4f, 0x9f4787c3, 0x529e7d00) = (0x506e3058, 0xd39a2165,
    0x4d24d6c, 0xb85e2ce9, 0x5ef50f24, 0xfb121210, 0x948d25b6, 0x961f4894)"
 by (simp add: upt_conv_Cons round_simps)

definition abc_message :: "u8 list" where
  "abc_message = [0x61, 0x62, 0x63]"

definition abc_block :: "u8 list" where
  "abc_block = [0x61, 0x62, 0x63, 0x80] @ replicate 59 0 @ [0x18]"

lemma replicate_numeral: "replicate (numeral k) x = x # replicate (pred_numeral k) x"
  by (simp add: numeral_eq_Suc)

lemma pad_abc: "pad abc_message = abc_block"
  by (simp add: pad_def abc_message_def abc_block_def length_bytes_def upt_conv_Cons
      replicate_numeral)

lemma first_words_abc:
  "map (load_big_endian abc_block) [0..<16] = [0x61626380, 0x0, 0x0, 0x0, 0x0, 0x0, 0x0, 0x0, 0x0,
    0x0, 0x0, 0x0, 0x0, 0x0, 0x0, 0x18]"
  by (simp add: upt_conv_Cons load_big_endian_def abc_block_def Let_def replicate_numeral)

lemma message_schedule_abc: "message_schedule abc_block = abc_words"
proof -
  have strides: "[16..<64] = [16..<24] @ [24..<32] @ [32..<40] @ [40..<48] @ [48..<56] @ [56..<64]"
    by (simp add: upt_conv_Cons)
  have zeros: "[0x61626380, 0x0, 0x0, 0x0, 0x0, 0x0, 0x0, 0x0, 0x0, 0x0, 0x0, 0x0, 0x0, 0x0, 0x0,
    0x18] @ replicate 48 0 = [0x61626380, 0x0, 0x0, 0x0, 0x0, 0x0, 0x0, 0x0, 0x0, 0x0, 0x0, 0x0,
    0x0, 0x0, 0x0, 0x18, 0x0, 0x0, 0x0, 0x0, 0x0, 0x0, 0x0, 0x0, 0x0, 0x0, 0x0, 0x0, 0x0, 0x0,
    0x0, 0x0, 0x0, 0x0, 0x0, 0x0, 0x0, 0x0, 0x0, 0x0, 0x0, 0x0, 0x0, 0x0, 0x0, 0x0, 0x0, 0x0, 0x0,
    0x0, 0x0, 0x0, 0x0, 0x0, 0x0, 0x0, 0x0, 0x0, 0x0, 0x0, 0x0, 0x0, 0x0, 0x0]"
    by (simp add: replicate_numeral)
  show ?thesis
    unfolding message_schedule_def first_words_abc zeros strides fold_append o_apply
      sched_16 sched_24 sched_32 sched_40 sched_48 sched_56 abc_words_def ..
qed

lemma compress_abc:
  "compress_words sha256_iv abc_block = [0xba7816bf, 0x8f01cfea, 0x414140de, 0x5dae2223,
    0xb00361a3, 0x96177a9c, 0xb410ff61, 0xf20015ad]"
proof -
  have strides: "[0..<64] = [0..<8] @ [8..<16] @ [16..<24] @ [24..<32] @ [32..<40]
      @ [40..<48] @ [48..<56] @ [56..<64]"
    by (simp add: upt_conv_Cons)
  have "fold (compress_round abc_words) [0..<64] (0x6a09e667, 0xbb67ae85, 0x3c6ef372, 0xa54ff53a,
    0x510e527f, 0x9b05688c, 0x1f83d9ab, 0x5be0cd19) = (0x506e3058, 0xd39a2165, 0x4d24d6c,
    0xb85e2ce9, 0x5ef50f24, 0xfb121210, 0x948d25b6, 0x961f4894)"
    unfolding strides fold_append o_apply
      round_0 round_8 round_16 round_24 round_32 round_40 round_48 round_56 ..
  then show ?thesis
    by (simp add: compress_words_def message_schedule_abc Let_def sha256_iv_def)
qed

lemma sha256_abc:
  "sha256_hex (sha256 abc_message) =
    ''ba7816bf8f01cfea414140de5dae2223b00361a396177a9cb410ff61f20015ad''"
proof -
  have "length abc_block = 64"
    by (simp add: abc_block_def)
  then show ?thesis
    by (simp add: sha256_eq pad_abc absorb_block compress_abc digest_bytes_def sha256_hex_def
        hex_byte_def hex_digit_def)
qed

end
