(* ===== verification/Session_Spec.thy ===== *)
theory Session_Spec
  imports Rollback_Props Sha256_Vector
begin

text \<open>
  Properties of the hash and of the rollback session, each with a witness that applies it
  at a concrete input.
\<close>

section \<open>SHA-256\<close>

text \<open>C14.
  Hashing any message in one call is the standard's algorithm: pad the message to whole
  blocks, fold the compression function over them from the initial state, write the
  eight words big-endian.
\<close>

theorem sha256_standard:
  "sha256 bs = digest_bytes (absorb sha256_iv (pad bs)) \<and>
   64 dvd length (pad bs) \<and> length (sha256 bs) = 32"
proof -
  have "length (pad bs) = length bs + 9 + (119 - length bs mod 64) mod 64"
    by (simp add: pad_def)
  moreover have "64 dvd n + 9 + (119 - n mod 64) mod 64" for n :: nat
  proof -
    define q r where "q = n div 64" and "r = n mod 64"
    have n: "n = 64 * q + r" and r: "r < 64" by (simp_all add: q_def r_def)
    have "(119 - r) mod 64 = (if r < 56 then 55 - r else 119 - r)"
    proof (cases "r < 56")
      case True
      then have "119 - r = 64 + (55 - r)" by simp
      then have "(119 - r) mod 64 = (55 - r) mod 64" by (metis mod_add_self1)
      then show ?thesis using True by simp
    next
      case False
      then have "119 - r < 64" by simp
      then show ?thesis using False by (simp only: mod_less if_False)
    qed
    then have "n + 9 + (119 - r) mod 64 = 64 * (q + (if r < 56 then 1 else 2))"
      using n r by auto
    then show ?thesis
      unfolding r_def by (metis dvd_triv_left)
  qed
  ultimately show ?thesis
    by (simp add: sha256_eq [symmetric])
qed

text \<open>
  Feeding a message in two pieces leaves the hasher exactly where one piece would have
  left it, wherever the cut falls.
\<close>

theorem update_chunking:
  assumes "hasher_ok h" and "\<not> sha_finalized h"
  shows "hasher_update (snd (hasher_update h a)) b = hasher_update h (a @ b)"
proof -
  have "hasher_ok (snd (hasher_update h a))" "\<not> sha_finalized (snd (hasher_update h a))"
    using assms by (simp_all add: hasher_update_fold hasher_ok_fold)
  then show ?thesis
    using assms by (simp add: hasher_update_fold fold_push_byte_total add.assoc)
qed

theorem update_chunking_witness:
  "hasher_update (snd (hasher_update new_hasher [1, 2])) [3]
     = hasher_update new_hasher [1, 2, 3]"
  using update_chunking [of new_hasher "[1, 2]" "[3]"] hasher_ok_new
  by (simp add: new_hasher_def)

text \<open>
  A hasher gives its digest once: after \<open>finalize\<close>, a second \<open>finalize\<close> and any further
  \<open>update\<close> are refused and change nothing.
\<close>

theorem finalize_once:
  "let h' = snd (hasher_finalize h);
       e = (invalid_argument, ''SHA-256 hasher is already finalized'')
   in hasher_finalize h' = (Inl e, h') \<and> hasher_update h' bs = (Inl e, h')"
proof -
  have "sha_finalized (snd (hasher_finalize h))"
    by (simp add: hasher_finalize_def append_marker_def spill_block_def transform_buffer_def Let_def)
  then show ?thesis
    by (simp add: Let_def hasher_finalize_def [of "snd (hasher_finalize h)"] hasher_update_def)
qed

section \<open>The rollback session\<close>

text \<open>C11.
  For every simulation that keeps the interface's laws and every sequence of operations
  from a fresh session, in whatever order inputs, corrections and hashes arrive and
  whichever operations fail: the simulation is where the authoritative run of the inputs
  known now would be, the retained frames are exactly those within the window and carry
  that run's snapshots and inputs, every frame's stored hash is the hash of that run, and
  \<open>desync_frame\<close> is recomputed from the stored hashes.
\<close>

theorem rollback_invariant:
  assumes "rollback_simulation sim sim_ok" and "sim_ok s0" and "length ops < 2 ^ 64"
  shows "session_inv sim sim_ok s0 (played sim ops (new_session s0 m))
           (run_ops sim ops (new_session s0 m))"
  using assms by (rule rollback_simulation.run_from_new)

definition demo_sim :: TestSimulation where
  "demo_sim = \<lparr>test_value = 0, emitted_side_effects = 0, side_effect_flags = [],
               fail_next_load = False\<rparr>"

definition press :: "u32 \<Rightarrow> RollbackInput" where
  "press b = \<lparr>buttons = b, axis_x = 0, axis_y = 0\<rparr>"

theorem rollback_invariant_witness:
  "session_inv test_simulation (\<lambda>s. \<not> fail_next_load s) demo_sim
     (played test_simulation [Advance (press 1), SubmitInput 0 (press 2)] (new_session demo_sim 8))
     (run_ops test_simulation [Advance (press 1), SubmitInput 0 (press 2)] (new_session demo_sim 8))"
  by (rule rollback_invariant [OF tests.rollback_simulation_axioms])
    (simp_all add: demo_sim_def)

text \<open>C12.
  Two sessions that started from the same state, played the same local inputs and hold
  the same remote inputs are in the same saved state, with the same hash for every frame,
  whatever was predicted, corrected or rejected on the way.
\<close>

theorem rollback_converges:
  assumes sim: "rollback_simulation sim sim_ok" "sim_ok s0"
    and len: "length ops < 2 ^ 64" "length ops' < 2 ^ 64"
    and x: "x = run_ops sim ops (new_session s0 m)"
    and y: "y = run_ops sim ops' (new_session s0 m')"
    and locals: "played sim ops (new_session s0 m) = played sim ops' (new_session s0 m')"
    and remotes: "remote_inputs x = remote_inputs y"
  shows "save_state sim (simulation x) = save_state sim (simulation y) \<and>
    map_of (state_hashes x) = map_of (state_hashes y)"
proof (intro conjI)
  let ?ls = "played sim ops (new_session s0 m)"
  have ix: "synced sim sim_ok s0 ?ls (unat (current_frame x)) x"
    using rollback_simulation.run_from_new [OF sim len(1), of m] by (simp add: session_inv_def x)
  have iy: "synced sim sim_ok s0 ?ls (unat (current_frame y)) y"
    using rollback_simulation.run_from_new [OF sim len(2), of m'] by (simp add: session_inv_def y locals)
  have cur: "current_frame x = current_frame y"
    using syncedD(4) [OF ix] syncedD(4) [OF iy] by (simp add: word_unat_eq_iff)
  show "save_state sim (simulation x) = save_state sim (simulation y)"
    using syncedD(5) [OF ix] syncedD(5) [OF iy] by (simp add: cur remotes)
  show "map_of (state_hashes x) = map_of (state_hashes y)"
  proof
    fix g
    show "map_of (state_hashes x) g = map_of (state_hashes y) g"
      using syncedD(9,10) [OF ix, of g] syncedD(9,10) [OF iy, of g]
      by (cases "g < current_frame y") (simp_all add: cur remotes word_less_nat_alt)
  qed
qed

definition demo_advanced :: "TestSimulation RollbackSession" where
  "demo_advanced = snd (advance test_simulation (press 1) (new_session demo_sim 8))"

lemma demo_correction:
  "fst (submit_remote_input test_simulation 0 (press 2) demo_advanced) = Inr ()"
proof (rule tests.late_input_accepted)
  show "session_inv test_simulation (\<lambda>s. \<not> fail_next_load s) demo_sim [press 1] demo_advanced"
    using tests.run_from_new [of demo_sim "[Advance (press 1)]" 8]
    by (simp add: advance_test_succeeds demo_sim_def demo_advanced_def)
  show "retained demo_advanced 0"
    by (simp add: retained_def demo_advanced_def advance_test_fields new_session_def)
qed (rule step_test_succeeds)

theorem rollback_converges_witness:
  "save_state test_simulation (simulation (run_ops test_simulation
       [Advance (press 1), SubmitInput 0 (press 2)] (new_session demo_sim 8)))
   = save_state test_simulation (simulation (run_ops test_simulation
       [SubmitInput 0 (press 2), Advance (press 1)] (new_session demo_sim 8)))"
proof -
  let ?late = "[Advance (press 1), SubmitInput 0 (press 2)]"
    and ?early = "[SubmitInput 0 (press 2), Advance (press 1)]"
  have differ: "no_input \<noteq> press 2"
    by (simp add: no_input_def press_def)
  have played: "played test_simulation ?late (new_session demo_sim 8)
      = played test_simulation ?early (new_session demo_sim 8)"
    by (simp add: advance_test_succeeds)
  have remotes: "remote_inputs (run_ops test_simulation ?late (new_session demo_sim 8))
      = remote_inputs (run_ops test_simulation ?early (new_session demo_sim 8))"
    using submit_success_remote_inputs [of test_simulation 0 "press 2" demo_advanced]
      demo_correction
    by (cases "submit_remote_input test_simulation 0 (press 2) demo_advanced")
      (simp add: advance_test_fields submit_remote_input_def demo_advanced_def new_session_def)
  show ?thesis
    using rollback_converges [OF tests.rollback_simulation_axioms _ _ _ refl refl played remotes]
    by (simp add: demo_sim_def)
qed

text \<open>
  A correction is never lost for want of history: on every session the operations can
  reach, if the simulation itself does not refuse a frame, an input for any past frame
  within the rollback window is accepted, replay included.
\<close>

theorem late_input_liveness:
  assumes sim: "rollback_simulation sim sim_ok" "sim_ok s0"
    and len: "length ops < 2 ^ 64"
    and total: "\<And>l r s. fst (step_frame sim l r False s) = Inr ()"
    and x: "x = run_ops sim ops (new_session s0 m)"
    and late: "frame < current_frame x"
      "unat (current_frame x) - unat frame \<le> unat (max_rollback_frames x)"
  shows "fst (submit_remote_input sim frame remote x) = Inr ()"
  using rollback_simulation.late_input_accepted [OF sim(1) total
      rollback_simulation.run_from_new [OF sim len, of m, folded x]] late
  by (simp add: retained_def)

theorem late_input_liveness_witness:
  "fst (submit_remote_input test_simulation 0 (press 2)
     (run_ops test_simulation [Advance (press 1)] (new_session demo_sim 8))) = Inr ()"
  by (rule late_input_liveness [OF tests.rollback_simulation_axioms _ _ _ refl])
    (simp_all add: step_test_succeeds advance_test_fields new_session_def demo_sim_def)

text \<open>C13.
  A refused submission leaves no trace: every field of the session is as before and the
  simulation saves to the same bytes, even when the replay stopped half way.
\<close>

theorem failed_submission:
  assumes sim: "rollback_simulation sim sim_ok" "sim_ok s0" and len: "length ops < 2 ^ 64"
    and x: "x = run_ops sim ops (new_session s0 m)"
    and y: "submit_remote_input sim frame remote x = (Inl e, y)"
  shows "y = x\<lparr>simulation := simulation y\<rparr> \<and>
    save_state sim (simulation y) = save_state sim (simulation x)"
  using rollback_simulation.failed_submission_restores [OF sim(1)
      rollback_simulation.run_from_new [OF sim len, of m, folded x], of frame remote e]
  by (simp add: y)

theorem failed_submission_witness:
  "let x = run_ops test_simulation [Advance (press 1)] (new_session demo_sim 0);
       y = snd (submit_remote_input test_simulation 0 (press 2) x)
   in fst (submit_remote_input test_simulation 0 (press 2) x) =
        failure invalid_argument ''remote input arrived outside the retained rollback window'' \<and>
      save_state test_simulation (simulation y) = save_state test_simulation (simulation x)"
proof -
  let ?x = "run_ops test_simulation [Advance (press 1)] (new_session demo_sim 0)"
  have refused: "submit_remote_input test_simulation 0 (press 2) ?x =
      (failure invalid_argument ''remote input arrived outside the retained rollback window'', ?x)"
    by (simp add: submit_remote_input_def advance_test_fields new_session_def)
  then show ?thesis
    using failed_submission [OF tests.rollback_simulation_axioms _ _ refl refused]
    by (simp add: demo_sim_def Let_def)
qed

text \<open>
  Replays have no side effects: whatever part of the simulation's state neither loading
  nor an unemitted step changes, such as the count of emitted effects, is the same after
  a remote input as before it, accepted or refused.
\<close>

theorem silent_replay:
  assumes "\<And>b s. emitted (snd (load_state sim b s)) = emitted s"
    and "\<And>l r s. emitted (snd (step_frame sim l r False s)) = emitted s"
  shows "emitted (simulation (snd (submit_remote_input sim frame remote x)))
    = emitted (simulation x)"
  by (rule submit_remote_input_preserves [where P = "\<lambda>s. emitted s = emitted (simulation x)"])
    (simp_all add: assms)

theorem silent_replay_witness:
  "emitted_side_effects (simulation (run_ops test_simulation
     [Advance (press 1), SubmitInput 0 (press 2)] (new_session demo_sim 8))) = 1"
proof -
  have "emitted_side_effects (simulation (snd (submit_remote_input test_simulation 0 (press 2)
      (snd (advance test_simulation (press 1) (new_session demo_sim 8))))))
    = emitted_side_effects (simulation (snd (advance test_simulation (press 1)
        (new_session demo_sim 8))))"
    by (rule silent_replay) (simp_all add: test_simulation_def test_load_def test_step_def)
  then show ?thesis
    by (simp add: advance_test_fields test_step_def new_session_def demo_sim_def)
qed

text \<open>
  \<open>desync_frame\<close> names the first frame for which both peers' hashes are known and differ,
  and is empty exactly when there is none.
\<close>

theorem desync_frame_first:
  assumes sim: "rollback_simulation sim sim_ok" "sim_ok s0" and len: "length ops < 2 ^ 64"
    and x: "x = run_ops sim ops (new_session s0 m)"
  shows "case desync_frame x of
      None \<Rightarrow> \<not> (\<exists>f. hashes_differ x f)
    | Some f \<Rightarrow> hashes_differ x f \<and> \<not> (\<exists>g<f. hashes_differ x g)"
proof (rule desync_frame_least)
  show "desync_frame x = first_mismatch (remote_hashes x) (state_hashes x)"
    and "om_ok (remote_hashes x)"
    using rollback_simulation.run_from_new [OF sim len, of m]
    by (simp_all add: x session_inv_def synced_def maps_ok_def)
qed

theorem desync_frame_first_witness:
  "case desync_frame (run_ops test_simulation [] (new_session demo_sim 8)) of
      None \<Rightarrow> \<not> (\<exists>f. hashes_differ (run_ops test_simulation [] (new_session demo_sim 8)) f)
    | Some f \<Rightarrow> False"
proof -
  have "desync_frame (run_ops test_simulation [] (new_session demo_sim 8)) = None"
    by (simp add: new_session_def)
  then show ?thesis
    using desync_frame_first [OF tests.rollback_simulation_axioms _ _ refl, of demo_sim "[]" 8]
    by (simp add: demo_sim_def)
qed

text \<open>
  The session compares hashes as text: a peer that reports the same digest in upper-case
  hexadecimal, which \<open>submit_remote_hash\<close> accepts, is reported as desynchronised.
\<close>

theorem uppercase_digest_desyncs:
  assumes "map_of (state_hashes x) f = Some (sha256_hex d)" and "length d = 32"
    and "remote_hashes x = []" and "\<exists>c\<in>set (sha256_hex d). c \<in> set ''abcdef''"
  shows "fst (submit_remote_hash f (map toupper (sha256_hex d)) x) = Inr () \<and>
    desync_frame (snd (submit_remote_hash f (map toupper (sha256_hex d)) x)) = Some f"
proof -
  have "list_all isxdigit (map toupper (sha256_hex d))"
    using sha256_hex_lower [of d] by (auto simp: list_all_iff lower_hex_upper)
  moreover have "map toupper (sha256_hex d) \<noteq> sha256_hex d"
    using assms(4) upper_changes by (auto simp: map_eq_conv [of _ _ "\<lambda>c. c", simplified])
  ultimately show ?thesis
    using assms(1-3) by (simp add: submit_remote_hash_def recompute_desync_def)
qed

theorem uppercase_digest_desyncs_witness:
  "let x = (new_session demo_sim 8)\<lparr>state_hashes := [(0, sha256_hex (replicate 32 0xab))]\<rparr>
   in desync_frame (snd (submit_remote_hash 0 (map toupper (sha256_hex (replicate 32 0xab))) x))
      = Some 0"
  using uppercase_digest_desyncs [of "(new_session demo_sim 8)\<lparr>state_hashes :=
      [(0, sha256_hex (replicate 32 0xab))]\<rparr>" 0 "replicate 32 0xab"]
  by (simp add: new_session_def sha256_hex_def hex_byte_def hex_digit_def Let_def replicate_numeral)

end
