(* ===== verification/Network_Protocol.thy ===== *)
theory Network_Protocol
  imports Byte_Codec Rollback
begin

text \<open>
  The wire format and the control queue of \<^verbatim>\<open>src/src/core/network_protocol.h\<close> and
  \<^verbatim>\<open>network_protocol.cpp\<close>: packets, their serialisation and parsing, and the queue that
  retransmits session and control packets until they are acknowledged.
\<close>

section \<open>Packets\<close>

text \<open>
  The enumeration has a fixed underlying byte, so a value outside the enumerators is
  possible; it is \<open>unnamed_kind\<close>, the case \<open>valid_kind\<close> rejects.
\<close>

datatype NetworkPacketKind =
    kind_input
  | kind_ping
  | kind_pong
  | kind_session_hello
  | kind_session_accept
  | kind_disconnect
  | unnamed_kind u8

record NetworkPacket =
  packet_kind :: NetworkPacketKind
  sequence :: u32
  ack :: u32
  packet_frame :: u64
  timestamp_ms :: u64
  packet_input :: RollbackInput
  payload :: "u8 list"

definition packet_magic :: "u8 list" where
  "packet_magic = [0x4A, 0x52, 0x42, 0x4B]"

definition protocol_version :: u8 where "protocol_version = 1"

definition fixed_packet_size :: nat where "fixed_packet_size = 42"

definition max_payload_size :: nat where "max_payload_size = 1024"

fun valid_kind :: "NetworkPacketKind \<Rightarrow> bool" where
  "valid_kind (unnamed_kind _) = False"
| "valid_kind _ = True"

fun kind_byte :: "NetworkPacketKind \<Rightarrow> u8" where
  "kind_byte kind_input = 0"
| "kind_byte kind_ping = 1"
| "kind_byte kind_pong = 2"
| "kind_byte kind_session_hello = 3"
| "kind_byte kind_session_accept = 4"
| "kind_byte kind_disconnect = 5"
| "kind_byte (unnamed_kind b) = b"

definition kind_of_byte :: "u8 \<Rightarrow> NetworkPacketKind" where
  "kind_of_byte b =
     (if b = 0 then kind_input
      else if b = 1 then kind_ping
      else if b = 2 then kind_pong
      else if b = 3 then kind_session_hello
      else if b = 4 then kind_session_accept
      else if b = 5 then kind_disconnect
      else unnamed_kind b)"

definition is_reliable_control :: "NetworkPacketKind \<Rightarrow> bool" where
  "is_reliable_control k \<longleftrightarrow>
     k = kind_session_hello \<or> k = kind_session_accept \<or> k = kind_disconnect"

section \<open>Serialisation and parsing\<close>

definition append_u16 :: "u8 list \<Rightarrow> u16 \<Rightarrow> u8 list" where
  "append_u16 out v = out @ le_bytes 2 v"

definition append_u32 :: "u8 list \<Rightarrow> u32 \<Rightarrow> u8 list" where
  "append_u32 out v = out @ le_bytes 4 v"

definition append_u64 :: "u8 list \<Rightarrow> u64 \<Rightarrow> u8 list" where
  "append_u64 out v = out @ le_bytes 8 v"

definition serialize_network_packet :: "NetworkPacket \<Rightarrow> u8 list result" where
  "serialize_network_packet p =
     (if \<not> valid_kind (packet_kind p)
      then failure invalid_argument ''network packet kind is invalid''
      else if max_payload_size < length (payload p) \<or> 65535 < length (payload p)
      then failure invalid_argument ''network packet payload exceeds 1024 bytes''
      else
        let b0 = packet_magic @ [protocol_version] @ [kind_byte (packet_kind p)];
            b1 = append_u16 b0 0;
            b2 = append_u32 b1 (sequence p);
            b3 = append_u32 b2 (ack p);
            b4 = append_u64 b3 (packet_frame p);
            b5 = append_u64 b4 (timestamp_ms p);
            b6 = append_u32 b5 (buttons (packet_input p));
            b7 = append_u16 b6 (axis_x (packet_input p));
            b8 = append_u16 b7 (axis_y (packet_input p));
            b9 = append_u16 b8 (of_nat (length (payload p)))
        in success (b9 @ payload p))"

definition read_field :: "nat \<Rightarrow> string \<Rightarrow> u8 list \<Rightarrow> nat \<Rightarrow> 'a::len word result \<times> nat" where
  "read_field n detail bytes off =
     (if length bytes < off + n then (failure unsupported_format detail, off)
      else (success (le_value (subspan off n bytes)), off + n))"

definition read_u16 :: "u8 list \<Rightarrow> nat \<Rightarrow> u16 result \<times> nat" where
  "read_u16 = read_field 2 ''network packet is truncated while reading u16''"

definition read_u32 :: "u8 list \<Rightarrow> nat \<Rightarrow> u32 result \<times> nat" where
  "read_u32 = read_field 4 ''network packet is truncated while reading u32''"

definition read_u64 :: "u8 list \<Rightarrow> nat \<Rightarrow> u64 result \<times> nat" where
  "read_u64 = read_field 8 ''network packet is truncated while reading u64''"

definition bad_packet :: "string \<Rightarrow> NetworkPacket result" where
  "bad_packet detail = failure unsupported_format detail"

text \<open>The fields after the reserved bits, with the checks on the payload length.\<close>

definition parse_fields :: "u8 list \<Rightarrow> NetworkPacketKind \<Rightarrow> nat \<Rightarrow> NetworkPacket result" where
  "parse_fields bytes kind off =
     (let (sequence', o1) = read_u32 bytes off;
          (ack', o2) = read_u32 bytes o1;
          (frame', o3) = read_u64 bytes o2;
          (timestamp', o4) = read_u64 bytes o3;
          (buttons', o5) = read_u32 bytes o4;
          (axis_x', o6) = read_u16 bytes o5;
          (axis_y', o7) = read_u16 bytes o6;
          (payload_size, o8) = read_u16 bytes o7
      in case (sequence', ack', frame', timestamp', buttons', axis_x', axis_y', payload_size) of
           (Inr s, Inr a, Inr f, Inr t, Inr b, Inr x, Inr y, Inr n) \<Rightarrow>
             if max_payload_size < unat n
             then bad_packet ''network packet payload exceeds 1024 bytes''
             else if o8 + unat n \<noteq> length bytes
             then bad_packet ''network packet length does not match payload size''
             else success \<lparr>packet_kind = kind, sequence = s, ack = a, packet_frame = f,
                    timestamp_ms = t,
                    packet_input = \<lparr>buttons = b, axis_x = x, axis_y = y\<rparr>,
                    payload = drop o8 bytes\<rparr>
         | _ \<Rightarrow> bad_packet ''network packet contains a truncated field'')"

definition parse_network_packet :: "u8 list \<Rightarrow> NetworkPacket result" where
  "parse_network_packet bytes =
     (if length bytes < fixed_packet_size
      then bad_packet ''network packet is shorter than fixed header''
      else if take 4 bytes \<noteq> packet_magic
      then bad_packet ''network packet magic is invalid''
      else if bytes ! 4 \<noteq> protocol_version
      then bad_packet ''network packet protocol version is unsupported''
      else if kind_byte kind_disconnect < bytes ! 5
      then bad_packet ''network packet kind is invalid''
      else if \<not> valid_kind (kind_of_byte (bytes ! 5))
      then bad_packet ''network packet kind is invalid''
      else
        case read_u16 bytes 6 of
          (Inl (e, d), _) \<Rightarrow> failure e d
        | (Inr reserved, off) \<Rightarrow>
            if reserved \<noteq> 0 then bad_packet ''network packet reserved bits are non-zero''
            else parse_fields bytes (kind_of_byte (bytes ! 5)) off)"

section \<open>The control queue\<close>

record PendingPacket =
  pending_packet :: NetworkPacket
  last_send_ms :: u64

record ControlReliabilityQueue =
  retry_interval_ms :: u64
  pending :: "(u32, PendingPacket) om"

definition track ::
  "NetworkPacket \<Rightarrow> u64 \<Rightarrow> ControlReliabilityQueue \<Rightarrow> unit result \<times> ControlReliabilityQueue" where
  "track p now q =
     (if \<not> is_reliable_control (packet_kind p)
      then (failure invalid_argument
              ''only session/control packets may enter reliable retransmission queue'', q)
      else if map_of (pending q) (sequence p) \<noteq> None
      then (failure invalid_argument ''reliable packet sequence is already pending'', q)
      else (success (),
            q\<lparr>pending := om_put (sequence p) \<lparr>pending_packet = p, last_send_ms = now\<rparr> (pending q)\<rparr>))"

definition acknowledge :: "u32 \<Rightarrow> ControlReliabilityQueue \<Rightarrow> ControlReliabilityQueue" where
  "acknowledge s q = q\<lparr>pending := filter (\<lambda>e. fst e \<noteq> s) (pending q)\<rparr>"

definition is_due :: "u64 \<Rightarrow> u64 \<Rightarrow> PendingPacket \<Rightarrow> bool" where
  "is_due interval now e \<longleftrightarrow> \<not> now < last_send_ms e \<and> \<not> now - last_send_ms e < interval"

fun due_loop ::
  "u64 \<Rightarrow> u64 \<Rightarrow> (u32, PendingPacket) om \<Rightarrow> NetworkPacket list \<times> (u32, PendingPacket) om" where
  "due_loop interval now [] = ([], [])"
| "due_loop interval now ((s, e) # rest) =
     (let (due, rest') = due_loop interval now rest in
      if is_due interval now e
      then (pending_packet e # due, (s, e\<lparr>last_send_ms := now\<rparr>) # rest')
      else (due, (s, e) # rest'))"

definition due_retransmits ::
  "u64 \<Rightarrow> ControlReliabilityQueue \<Rightarrow> NetworkPacket list \<times> ControlReliabilityQueue" where
  "due_retransmits now q =
     (let (due, pending') = due_loop (retry_interval_ms q) now (pending q)
      in (due, q\<lparr>pending := pending'\<rparr>))"

section \<open>Parsing and serialising are inverse\<close>

lemma kind_of_kind_byte: "valid_kind k \<Longrightarrow> kind_of_byte (kind_byte k) = k"
  by (cases k) (simp_all add: kind_of_byte_def)

lemma kind_byte_of_byte: "kind_byte (kind_of_byte b) = b"
  by (simp add: kind_of_byte_def)

lemma kind_byte_le: "valid_kind k \<Longrightarrow> \<not> 5 < kind_byte k"
  by (cases k) simp_all

lemma read_field_value:
  "off + n \<le> length bytes \<Longrightarrow>
   read_field n detail bytes off = (success (le_value (subspan off n bytes)), off + n)"
  by (simp add: read_field_def)

lemma parse_fields_8:
  assumes "42 \<le> length bytes"
  shows "parse_fields bytes k 8 =
    (let n = le_value (subspan 40 2 bytes) :: u16 in
     if max_payload_size < unat n
     then bad_packet ''network packet payload exceeds 1024 bytes''
     else if 42 + unat n \<noteq> length bytes
     then bad_packet ''network packet length does not match payload size''
     else success \<lparr>packet_kind = k, sequence = le_value (subspan 8 4 bytes),
       ack = le_value (subspan 12 4 bytes), packet_frame = le_value (subspan 16 8 bytes),
       timestamp_ms = le_value (subspan 24 8 bytes),
       packet_input = \<lparr>buttons = le_value (subspan 32 4 bytes),
         axis_x = le_value (subspan 36 2 bytes), axis_y = le_value (subspan 38 2 bytes)\<rparr>,
       payload = drop 42 bytes\<rparr>)"
  using assms
  by (simp add: parse_fields_def read_u16_def read_u32_def read_u64_def read_field_value Let_def)

definition packet_image :: "NetworkPacket \<Rightarrow> u8 list" where
  "packet_image p = packet_magic @ [protocol_version, kind_byte (packet_kind p)] @ le_bytes 2 (0 :: u16) @
     le_bytes 4 (sequence p) @ le_bytes 4 (ack p) @ le_bytes 8 (packet_frame p) @
     le_bytes 8 (timestamp_ms p) @ le_bytes 4 (buttons (packet_input p)) @
     le_bytes 2 (axis_x (packet_input p)) @ le_bytes 2 (axis_y (packet_input p)) @
     le_bytes 2 (of_nat (length (payload p)) :: u16) @ payload p"

lemma serialize_image:
  "serialize_network_packet p = Inr bs \<longleftrightarrow>
     valid_kind (packet_kind p) \<and> length (payload p) \<le> 1024 \<and> bs = packet_image p"
  by (auto simp: serialize_network_packet_def max_payload_size_def Let_def append_u16_def
      append_u32_def append_u64_def packet_image_def)

lemma parse_image:
  "parse_network_packet bs = Inr p \<longleftrightarrow>
     42 \<le> length bs \<and> take 4 bs = packet_magic \<and> bs ! 4 = protocol_version \<and>
     \<not> 5 < bs ! 5 \<and> valid_kind (kind_of_byte (bs ! 5)) \<and> (le_value (subspan 6 2 bs) :: u16) = 0 \<and>
     parse_fields bs (kind_of_byte (bs ! 5)) 8 = Inr p"
  by (auto simp: parse_network_packet_def fixed_packet_size_def bad_packet_def read_u16_def
      read_field_def not_less)

lemma parse_of_serialize:
  assumes "valid_kind (packet_kind p)" "length (payload p) \<le> 1024"
  shows "parse_network_packet (packet_image p) = Inr p"
proof -
  have n: "unat (of_nat (length (payload p)) :: u16) = length (payload p)"
    using assms(2) by (simp add: unat_of_nat)
  have len: "length (packet_image p) = 42 + length (payload p)"
    by (simp add: packet_image_def packet_magic_def)
  have fields:
    "subspan 6 2 (packet_image p) = le_bytes 2 (0 :: u16)"
    "subspan 8 4 (packet_image p) = le_bytes 4 (sequence p)"
    "subspan 12 4 (packet_image p) = le_bytes 4 (ack p)"
    "subspan 16 8 (packet_image p) = le_bytes 8 (packet_frame p)"
    "subspan 24 8 (packet_image p) = le_bytes 8 (timestamp_ms p)"
    "subspan 32 4 (packet_image p) = le_bytes 4 (buttons (packet_input p))"
    "subspan 36 2 (packet_image p) = le_bytes 2 (axis_x (packet_input p))"
    "subspan 38 2 (packet_image p) = le_bytes 2 (axis_y (packet_input p))"
    "subspan 40 2 (packet_image p) = le_bytes 2 (of_nat (length (payload p)) :: u16)"
    "drop 42 (packet_image p) = payload p"
    "take 4 (packet_image p) = packet_magic"
    "packet_image p ! 4 = protocol_version" "packet_image p ! 5 = kind_byte (packet_kind p)"
    by (simp_all add: packet_image_def subspan_append_skip subspan_append_take subspan_Cons packet_magic_def
        nth_Cons')
  show ?thesis
    unfolding parse_image
    using assms kind_byte_le [OF assms(1)]
    by (simp add: fields len kind_of_kind_byte parse_fields_8 n le_value_le_bytes max_payload_size_def)
qed

lemma image_of_parsed:
  assumes "parse_network_packet bs = Inr p"
  shows "valid_kind (packet_kind p) \<and> length (payload p) \<le> 1024 \<and> bs = packet_image p"
proof -
  note h = assms [unfolded parse_image]
  let ?n = "le_value (subspan 40 2 bs) :: u16"
  have len: "42 \<le> length bs" using h by simp
  have p: "p = \<lparr>packet_kind = kind_of_byte (bs ! 5), sequence = le_value (subspan 8 4 bs),
       ack = le_value (subspan 12 4 bs), packet_frame = le_value (subspan 16 8 bs),
       timestamp_ms = le_value (subspan 24 8 bs),
       packet_input = \<lparr>buttons = le_value (subspan 32 4 bs),
         axis_x = le_value (subspan 36 2 bs), axis_y = le_value (subspan 38 2 bs)\<rparr>,
       payload = drop 42 bs\<rparr>"
    and n: "unat ?n \<le> 1024" "42 + unat ?n = length bs"
    using h by (auto simp: parse_fields_8 [OF len] Let_def max_payload_size_def bad_packet_def
        split: if_splits)
  have "length bs - 42 = unat ?n"
    using n(2) by simp
  then have size: "of_nat (length bs - 42) = ?n"
    by simp
  have "subspan 4 2 bs = [bs ! 4, bs ! 5]"
    using len by (simp add: subspan_def take_Suc_conv_app_nth numeral_2_eq_2 nth_drop)
  moreover have "le_bytes 2 (0 :: u16) = subspan 6 2 bs"
    using le_bytes_subspan [where ?'a = 16, of 2 6 bs] h len by simp
  moreover have "subspan 0 4 bs = packet_magic" using h by (simp add: subspan_def)
  ultimately have "packet_image p = subspan 0 4 bs @ subspan 4 2 bs @ subspan 6 2 bs @ subspan 8 4 bs @
      subspan 12 4 bs @ subspan 16 8 bs @ subspan 24 8 bs @ subspan 32 4 bs @ subspan 36 2 bs @
      subspan 38 2 bs @ subspan 40 2 bs @ drop 42 bs"
    using h len by (simp add: packet_image_def p le_bytes_subspan kind_byte_of_byte size)
  also have "\<dots> = bs" by (simp add: subspan_drop)
  finally show ?thesis
    using h n by (simp add: p)
qed

section \<open>The queue's invariant and pacing\<close>

definition queue_ok :: "ControlReliabilityQueue \<Rightarrow> bool" where
  "queue_ok q \<longleftrightarrow> om_ok (pending q) \<and>
     (\<forall>(s, e) \<in> set (pending q). sequence (pending_packet e) = s \<and>
        is_reliable_control (packet_kind (pending_packet e)))"

lemma due_loop_spec:
  "fst (due_loop interval now ps) =
     map (pending_packet \<circ> snd) (filter (is_due interval now \<circ> snd) ps)"
  "snd (due_loop interval now ps) =
     map (\<lambda>(s, e). (s, if is_due interval now e then e\<lparr>last_send_ms := now\<rparr> else e)) ps"
  by (induction interval now ps rule: due_loop.induct) (auto simp: Let_def split: prod.splits)

lemma due_loop_keys: "map fst (snd (due_loop interval now ps)) = map fst ps"
  by (simp add: due_loop_spec split_def comp_def)

lemma set_om_put: "set (om_put k v m) \<subseteq> insert (k, v) (set m)"
  by (induction k v m rule: om_put.induct) auto

lemma queue_ok_track: "queue_ok q \<Longrightarrow> queue_ok (snd (track p now q))"
  using set_om_put [of "sequence p" "\<lparr>pending_packet = p, last_send_ms = now\<rparr>" "pending q"]
  by (auto simp: queue_ok_def track_def)

lemma om_ok_filter: "om_ok m \<Longrightarrow> om_ok (filter P m)"
  by (induction m) (auto simp: om_ok_Cons)

lemma queue_ok_acknowledge: "queue_ok q \<Longrightarrow> queue_ok (acknowledge s q)"
  by (auto simp: queue_ok_def acknowledge_def om_ok_filter)

lemma queue_ok_due: "queue_ok q \<Longrightarrow> queue_ok (snd (due_retransmits now q))"
  using due_loop_keys [of "retry_interval_ms q" now "pending q"]
  by (auto simp: queue_ok_def due_retransmits_def split_def om_ok_def Let_def due_loop_spec comp_def)

inductive queue_reaches :: "u64 \<Rightarrow> ControlReliabilityQueue \<Rightarrow> bool" for interval where
  queue_new: "queue_reaches interval \<lparr>retry_interval_ms = interval, pending = []\<rparr>"
| queue_track: "queue_reaches interval q \<Longrightarrow> queue_reaches interval (snd (track p now q))"
| queue_ack: "queue_reaches interval q \<Longrightarrow> queue_reaches interval (acknowledge s q)"
| queue_due: "queue_reaches interval q \<Longrightarrow> queue_reaches interval (snd (due_retransmits now q))"

lemma queue_reaches_ok: "queue_reaches interval q \<Longrightarrow> queue_ok q \<and> retry_interval_ms q = interval"
proof (induction rule: queue_reaches.induct)
  case queue_new
  then show ?case by (simp add: queue_ok_def)
next
  case (queue_track q p now)
  then show ?case using queue_ok_track [of q p now] by (simp add: track_def)
next
  case (queue_ack q s)
  then show ?case using queue_ok_acknowledge [of q s] by (simp add: acknowledge_def)
next
  case (queue_due q now)
  then show ?case using queue_ok_due [of q now]
    by (simp add: due_retransmits_def Let_def split_def)
qed

lemma not_due_again:
  assumes "now \<le> later" "later - now < interval"
  shows "\<not> is_due interval later (if is_due interval now e then e\<lparr>last_send_ms := now\<rparr> else e)
     \<or> \<not> is_due interval now e"
  using assms by (simp add: is_due_def)

end
