(* ===== verification/Semver.thy ===== *)
theory Semver
  imports Prelude
begin

text \<open>
  Semantic versions, from \<^verbatim>\<open>src/src/core/semver.h\<close> and \<^verbatim>\<open>semver.cpp\<close>: the parser
  of versions and requirements, the printer, the comparison and the matching of a
  requirement.  \<open>from_chars\<close> is the C++ library's parser of an unsigned 64-bit decimal.
\<close>

record SemanticVersion =
  major :: u32
  minor :: u32
  patch :: u32

datatype VersionRequirementKind = any | exact | at_least | compatible_major

record VersionRequirement =
  requirement_kind :: VersionRequirementKind
  requirement_version :: SemanticVersion

definition zero_version :: SemanticVersion where
  "zero_version = \<lparr>major = 0, minor = 0, patch = 0\<rparr>"

section \<open>Decimal numbers\<close>

definition is_digit :: "char \<Rightarrow> bool" where
  "is_digit c \<longleftrightarrow> 48 \<le> (of_char c :: nat) \<and> (of_char c :: nat) \<le> 57"

definition digit_value :: "char \<Rightarrow> nat" where
  "digit_value c = of_char c - 48"

definition digit_char :: "nat \<Rightarrow> char" where
  "digit_char n = char_of (48 + n)"

definition decimal_value :: "string \<Rightarrow> nat" where
  "decimal_value ds = foldl (\<lambda>v c. 10 * v + digit_value c) 0 ds"

fun decimal :: "nat \<Rightarrow> string" where
  "decimal n = (if n < 10 then [digit_char n] else decimal (n div 10) @ [digit_char (n mod 10)])"

declare decimal.simps [simp del]

text \<open>
  \<open>std::from_chars\<close> on an unsigned 64-bit integer: the longest prefix of digits; no digit
  is an error, and so is a value that does not fit; otherwise the value and the rest.
\<close>

definition from_chars_u64 :: "string \<Rightarrow> (nat \<times> string) option" where
  "from_chars_u64 text =
     (let ds = takeWhile is_digit text in
      if ds = [] \<or> 2 ^ 64 \<le> decimal_value ds then None
      else Some (decimal_value ds, dropWhile is_digit text))"

section \<open>Versions\<close>

definition parse_component :: "string \<Rightarrow> u32 result" where
  "parse_component text =
     (if text = [] then failure invalid_argument ''empty semantic version component''
      else if 1 < length text \<and> hd text = CHR ''0''
      then failure invalid_argument ''semantic version components must not contain leading zeroes''
      else case from_chars_u64 text of
        None \<Rightarrow> failure invalid_argument ''invalid semantic version component''
      | Some (v, rest) \<Rightarrow>
          if rest \<noteq> [] \<or> 2 ^ 32 - 1 < v
          then failure invalid_argument ''invalid semantic version component''
          else success (of_nat v))"

text \<open>\<open>text.find('.', from)\<close>, as the text before and after the first dot.\<close>

fun split_dot :: "string \<Rightarrow> (string \<times> string) option" where
  "split_dot [] = None"
| "split_dot (c # cs) =
     (if c = CHR ''.'' then Some ([], cs)
      else case split_dot cs of None \<Rightarrow> None | Some (a, b) \<Rightarrow> Some (c # a, b))"

definition parse_semver :: "string \<Rightarrow> SemanticVersion result" where
  "parse_semver text =
     (case split_dot text of
        None \<Rightarrow> failure invalid_argument ''semantic version must contain major.minor.patch''
      | Some (t1, rest) \<Rightarrow>
          (case split_dot rest of
             None \<Rightarrow> failure invalid_argument
               ''semantic version must contain exactly three numeric components''
           | Some (t2, t3) \<Rightarrow>
               if split_dot t3 \<noteq> None
               then failure invalid_argument
                 ''semantic version must contain exactly three numeric components''
               else case parse_component t1 of
                 Inl (e, d) \<Rightarrow> failure e d
               | Inr v1 \<Rightarrow>
                   (case parse_component t2 of
                      Inl (e, d) \<Rightarrow> failure e d
                    | Inr v2 \<Rightarrow>
                        (case parse_component t3 of
                           Inl (e, d) \<Rightarrow> failure e d
                         | Inr v3 \<Rightarrow> success \<lparr>major = v1, minor = v2, patch = v3\<rparr>))))"

definition to_string :: "SemanticVersion \<Rightarrow> string" where
  "to_string v = decimal (unat (major v)) @ ''.'' @ decimal (unat (minor v)) @ ''.'' @
                 decimal (unat (patch v))"

definition requirement_of ::
  "VersionRequirementKind \<Rightarrow> string \<Rightarrow> VersionRequirement result" where
  "requirement_of kind text =
     (case parse_semver text of
        Inl (e, d) \<Rightarrow> failure e d
      | Inr v \<Rightarrow> success \<lparr>requirement_kind = kind, requirement_version = v\<rparr>)"

definition parse_version_requirement :: "string \<Rightarrow> VersionRequirement result" where
  "parse_version_requirement text =
     (if text = [] then success \<lparr>requirement_kind = any, requirement_version = zero_version\<rparr>
      else if take 2 text = ''>='' then requirement_of at_least (drop 2 text)
      else if take 1 text = ''='' then requirement_of exact (drop 1 text)
      else if take 1 text = ''^'' then requirement_of compatible_major (drop 1 text)
      else failure invalid_argument ''unsupported semantic version requirement operator'')"

definition compare_semver :: "SemanticVersion \<Rightarrow> SemanticVersion \<Rightarrow> int" where
  "compare_semver l r =
     (if major l \<noteq> major r then (if major l < major r then - 1 else 1)
      else if minor l \<noteq> minor r then (if minor l < minor r then - 1 else 1)
      else if patch l \<noteq> patch r then (if patch l < patch r then - 1 else 1)
      else 0)"

definition matches :: "VersionRequirement \<Rightarrow> SemanticVersion \<Rightarrow> bool" where
  "matches req v =
     (case requirement_kind req of
        any \<Rightarrow> True
      | exact \<Rightarrow> compare_semver v (requirement_version req) = 0
      | at_least \<Rightarrow> 0 \<le> compare_semver v (requirement_version req)
      | compatible_major \<Rightarrow> major v = major (requirement_version req) \<and>
          0 \<le> compare_semver v (requirement_version req))"

section \<open>Decimal round trip\<close>

lemma of_digit_char: "n < 10 \<Longrightarrow> (of_char (digit_char n) :: nat) = 48 + n"
  by (simp add: digit_char_def)

lemma is_digit_char [simp]: "n < 10 \<Longrightarrow> is_digit (digit_char n)"
  by (simp add: is_digit_def of_digit_char)

lemma digit_value_char [simp]: "n < 10 \<Longrightarrow> digit_value (digit_char n) = n"
  by (simp add: digit_value_def of_digit_char)

lemma digit_char_value: "is_digit c \<Longrightarrow> digit_char (digit_value c) = c"
  by (simp add: is_digit_def digit_char_def digit_value_def)

lemma digit_value_less: "is_digit c \<Longrightarrow> digit_value c < 10"
  by (auto simp: is_digit_def digit_value_def)

lemma decimal_value_snoc [simp]: "decimal_value (ds @ [c]) = 10 * decimal_value ds + digit_value c"
  by (simp add: decimal_value_def)

lemma decimal_value_decimal [simp]: "decimal_value (decimal n) = n"
proof (induction n rule: decimal.induct)
  case (1 n)
  show ?case
  proof (cases "n < 10")
    case True
    then show ?thesis by (subst decimal.simps) (simp add: decimal_value_def)
  next
    case False
    then show ?thesis using 1 by (subst decimal.simps) simp
  qed
qed

lemma decimal_digits: "list_all is_digit (decimal n)"
proof (induction n rule: decimal.induct)
  case (1 n)
  then show ?case by (subst decimal.simps) simp
qed

lemma decimal_not_Nil [simp]: "decimal n \<noteq> []"
  by (subst decimal.simps) simp

lemma digit_zero: "digit_char 0 = CHR ''0''"
  by code_simp

lemma digit_char_zero_iff: "n < 10 \<Longrightarrow> digit_char n = CHR ''0'' \<longleftrightarrow> n = 0"
  by (metis digit_value_char digit_zero zero_less_numeral)

lemma hd_decimal: "0 < n \<Longrightarrow> hd (decimal n) \<noteq> CHR ''0''"
proof (induction n rule: decimal.induct)
  case (1 n)
  show ?case
  proof (cases "n < 10")
    case True
    then show ?thesis
      using 1 by (subst decimal.simps) (simp add: digit_char_zero_iff)
  next
    case False
    then show ?thesis
      using 1 by (subst decimal.simps) simp
  qed
qed

lemma length_decimal_zero: "1 < length (decimal n) \<Longrightarrow> 0 < n"
  by (cases "n = 0") (simp_all add: decimal.simps [of 0])

lemma decimal_of_value:
  assumes "list_all is_digit ds" "ds \<noteq> []" "1 < length ds \<Longrightarrow> hd ds \<noteq> CHR ''0''"
  shows "decimal (decimal_value ds) = ds"
  using assms
proof (induction ds rule: rev_induct)
  case (snoc c ds)
  have c: "is_digit c" using snoc.prems(1) by simp
  note v = digit_value_less [OF c] digit_char_value [OF c]
  show ?case
  proof (cases "ds = []")
    case True
    then show ?thesis
      using v by (simp add: decimal_value_def decimal.simps)
  next
    case False
    have IH: "decimal (decimal_value ds) = ds"
      using snoc False by auto
    have "hd ds \<noteq> CHR ''0''"
      using snoc.prems(3) False by simp
    then have pos: "0 < decimal_value ds"
      using IH by (cases "decimal_value ds") (auto simp: decimal.simps [of 0] digit_zero)
    then have "\<not> 10 * decimal_value ds + digit_value c < 10" by simp
    then show ?thesis
      using v IH by (subst decimal.simps) simp
  qed
qed simp

lemma takeWhile_digits: "list_all is_digit ds \<Longrightarrow> takeWhile is_digit ds = ds"
  and dropWhile_digits: "list_all is_digit ds \<Longrightarrow> dropWhile is_digit ds = []"
  by (simp_all add: list_all_iff takeWhile_eq_all_conv)

lemma parse_component_iff: "parse_component t = Inr v \<longleftrightarrow> t = decimal (unat v)"
proof
  assume "t = decimal (unat v)"
  moreover have "unat v < 2 ^ 32"
    using unsigned_less [of v, where ?'a = nat] by simp
  ultimately show "parse_component t = Inr v"
    using decimal_digits [of "unat v"] hd_decimal [OF length_decimal_zero, of "unat v"]
    by (auto simp: parse_component_def from_chars_u64_def Let_def takeWhile_digits dropWhile_digits)
next
  assume h: "parse_component t = Inr v"
  let ?ds = "takeWhile is_digit t"
  have t: "dropWhile is_digit t = []" "t \<noteq> []" "1 < length t \<Longrightarrow> hd t \<noteq> CHR ''0''"
    "v = of_nat (decimal_value ?ds)" "decimal_value ?ds < 2 ^ 32"
    using h by (auto simp: parse_component_def from_chars_u64_def Let_def split: if_splits)
  have all: "?ds = t" using t(1) by (metis append_Nil2 takeWhile_dropWhile_id)
  then have "list_all is_digit t" by (metis list_all_iff set_takeWhileD)
  then have "decimal (decimal_value t) = t"
    using t by (intro decimal_of_value) auto
  moreover have "unat v = decimal_value t"
    using t(4,5) by (simp add: all unat_of_nat)
  ultimately show "t = decimal (unat v)" by simp
qed

section \<open>Version round trip\<close>

lemma split_dot_Some: "split_dot t = Some (a, b) \<longleftrightarrow> t = a @ ''.'' @ b \<and> CHR ''.'' \<notin> set a"
proof (induction t arbitrary: a)
  case (Cons c cs)
  show ?case
    using Cons [of "tl a"] by (cases a) (auto split: option.splits)
qed simp

lemma split_dot_None: "split_dot t = None \<longleftrightarrow> CHR ''.'' \<notin> set t"
  by (induction t) (auto split: option.splits)

lemma no_dot_decimal: "CHR ''.'' \<notin> set (decimal n)"
proof
  assume "CHR ''.'' \<in> set (decimal n)"
  then have "is_digit (CHR ''.'')" using decimal_digits [of n] by (auto simp: list_all_iff)
  then show False by (simp add: is_digit_def)
qed

lemma parse_semver_iff: "parse_semver t = Inr v \<longleftrightarrow> t = to_string v"
proof
  assume "t = to_string v"
  then have s1: "split_dot t = Some (decimal (unat (major v)),
        decimal (unat (minor v)) @ ''.'' @ decimal (unat (patch v)))"
    and s2: "split_dot (decimal (unat (minor v)) @ ''.'' @ decimal (unat (patch v)))
      = Some (decimal (unat (minor v)), decimal (unat (patch v)))"
    and s3: "split_dot (decimal (unat (patch v))) = None"
    by (simp_all only: split_dot_Some split_dot_None to_string_def no_dot_decimal simp_thms
        not_False_eq_True)
  have p: "parse_component (decimal (unat w)) = Inr w" for w
    by (simp only: parse_component_iff)
  show "parse_semver t = Inr v"
    unfolding parse_semver_def s1 by (simp add: s2 s3 p del: append.simps)
next
  assume "parse_semver t = Inr v"
  then show "t = to_string v"
    by (auto simp: parse_semver_def to_string_def parse_component_iff split_dot_Some
        split: option.splits sum.splits if_splits prod.splits)
qed

section \<open>Order\<close>

definition version_key :: "SemanticVersion \<Rightarrow> nat \<times> nat \<times> nat" where
  "version_key v = (unat (major v), unat (minor v), unat (patch v))"

definition lex_less :: "nat \<times> nat \<times> nat \<Rightarrow> nat \<times> nat \<times> nat \<Rightarrow> bool" where
  "lex_less x y \<longleftrightarrow> (x, y) \<in> less_than <*lex*> less_than <*lex*> less_than"

lemma compare_semver_lex:
  "compare_semver l r = (if version_key l = version_key r then 0
     else if lex_less (version_key l) (version_key r) then - 1 else 1)"
  by (auto simp: compare_semver_def version_key_def lex_less_def word_less_nat_alt
      word_unat_eq_iff)

lemma version_key_inj: "version_key l = version_key r \<longleftrightarrow> l = r"
  by (cases l; cases r) (simp add: version_key_def word_unat_eq_iff)

end
