(* ===== verification/Mod_Resolver.thy ===== *)
theory Mod_Resolver
  imports Ordered_Map Semver "HOL-Library.List_Lexorder" "HOL-Library.Char_ord"
begin

text \<open>
  The mod set resolver and the session policy: the data of \<^verbatim>\<open>src/src/core/mod_runtime.h\<close>,
  \<open>resolve_mod_set\<close> of \<^verbatim>\<open>mod_resolver.cpp\<close> and \<open>validate_mod_session\<close> of
  \<^verbatim>\<open>mod_policy.cpp\<close>.  A \<open>std::set\<close> of ids is an ascending list, strings are ordered
  bytewise, and a pointer to a mod that may be null is an option.  The depth-first
  inclusion and the ordering loop carry fuel; \<open>None\<close> is running out of it, which the
  properties show does not happen with the fuel \<open>resolve_mod_set\<close> gives.
\<close>

section \<open>Data\<close>

datatype ModKind = data_mod | native_mod

record ModDependency =
  dep_id :: string
  dep_requirement :: VersionRequirement

record ModManifest =
  mod_id :: string
  mod_name :: string
  mod_version :: SemanticVersion
  api_version :: SemanticVersion
  mod_kind :: ModKind
  gameplay :: bool
  mod_entry :: string
  dependencies :: "ModDependency list"
  conflicts :: "string list"

record DiscoveredMod =
  manifest :: ModManifest
  mod_root :: string

record ResolvedModSet =
  load_order :: "DiscoveredMod option list"
  diagnostics :: "string list"

record ModSetHashes =
  mod_set_hash :: string
  gameplay_hash :: string

datatype ModSessionMode = offline | ranked | custom | unnamed_mode

record ModSessionPolicy =
  mode :: ModSessionMode
  required_mod_set_hash :: string

definition kModApiVersion :: SemanticVersion where
  "kModApiVersion = \<lparr>major = 1, minor = 0, patch = 0\<rparr>"

section \<open>Inclusion\<close>

datatype VisitState = visiting | done_visit

type_synonym visits = "string \<Rightarrow> VisitState option"
type_synonym inclusion = "visits \<times> string list"
type_synonym by_id = "(string, DiscoveredMod) om"

fun index_catalog :: "DiscoveredMod list \<Rightarrow> by_id \<Rightarrow> by_id result" where
  "index_catalog [] m = success m"
| "index_catalog (d # ds) m =
     (if map_of m (mod_id (manifest d)) \<noteq> None
      then failure invalid_argument
        (''duplicate mod id in resolver catalog: '' @ mod_id (manifest d))
      else index_catalog ds (om_put (mod_id (manifest d)) d m))"

definition incompatible_api :: "ModManifest \<Rightarrow> bool" where
  "incompatible_api m \<longleftrightarrow> major (api_version m) \<noteq> major kModApiVersion \<or>
     0 < compare_semver (api_version m) kModApiVersion"

definition api_error :: "string \<Rightarrow> ModManifest \<Rightarrow> unit result" where
  "api_error i m = failure invalid_argument
     (''mod '' @ i @ '' requires incompatible API '' @ to_string (api_version m) @ '' (host '' @
      to_string kModApiVersion @ '')'')"

definition missing_dependency :: "string \<Rightarrow> string \<Rightarrow> unit result" where
  "missing_dependency i d = failure invalid_argument
     (''mod '' @ i @ '' requires missing dependency '' @ d)"

definition bad_dependency :: "string \<Rightarrow> string \<Rightarrow> SemanticVersion \<Rightarrow> unit result" where
  "bad_dependency i d v = failure invalid_argument
     (''mod '' @ i @ '' dependency '' @ d @ '' has incompatible version '' @ to_string v)"

text \<open>\<open>include_mod\<close> and its loop over the dependencies of one mod.\<close>

function include_mod :: "nat \<Rightarrow> by_id \<Rightarrow> string \<Rightarrow> inclusion \<Rightarrow> (unit result \<times> inclusion) option"
  and include_deps :: "nat \<Rightarrow> by_id \<Rightarrow> string \<Rightarrow> ModDependency list \<Rightarrow> inclusion
     \<Rightarrow> (unit result \<times> inclusion) option" where
  "include_mod 0 ids i st = None"
| "include_mod (Suc n) ids i (visit, enabled) =
     (case map_of ids i of
        None \<Rightarrow> Some (failure invalid_argument (''missing required mod: '' @ i), (visit, enabled))
      | Some d \<Rightarrow>
          (case visit i of
             Some visiting \<Rightarrow>
               Some (failure invalid_argument (''mod dependency cycle detected at: '' @ i),
                     (visit, enabled))
           | Some done_visit \<Rightarrow> Some (success (), (visit, enabled))
           | None \<Rightarrow>
               if incompatible_api (manifest d)
               then Some (api_error i (manifest d), (visit, enabled))
               else
                 (case include_deps n ids i (dependencies (manifest d))
                         (visit(i \<mapsto> visiting), insort_insert i enabled) of
                    None \<Rightarrow> None
                  | Some (Inl e, st) \<Rightarrow> Some (Inl e, st)
                  | Some (Inr _, (visit', enabled')) \<Rightarrow>
                      Some (success (), (visit'(i \<mapsto> done_visit), enabled')))))"
| "include_deps n ids i [] st = Some (success (), st)"
| "include_deps n ids i (dep # deps) st =
     (case map_of ids (dep_id dep) of
        None \<Rightarrow> Some (missing_dependency i (dep_id dep), st)
      | Some d \<Rightarrow>
          if \<not> matches (dep_requirement dep) (mod_version (manifest d))
          then Some (bad_dependency i (dep_id dep) (mod_version (manifest d)), st)
          else
            (case include_mod n ids (dep_id dep) st of
               None \<Rightarrow> None
             | Some (Inl e, st') \<Rightarrow> Some (Inl e, st')
             | Some (Inr _, st') \<Rightarrow> include_deps n ids i deps st'))"
  by pat_completeness auto
termination
  by (relation "measures [\<lambda>x. case x of Inl (n, _) \<Rightarrow> n | Inr (n, _) \<Rightarrow> n,
        \<lambda>x. case x of Inl _ \<Rightarrow> 0 | Inr (_, _, _, deps, _) \<Rightarrow> Suc (length deps)]") auto

fun include_all :: "nat \<Rightarrow> by_id \<Rightarrow> string list \<Rightarrow> inclusion
    \<Rightarrow> (unit result \<times> inclusion) option" where
  "include_all n ids [] st = Some (success (), st)"
| "include_all n ids (r # rs) st =
     (case include_mod n ids r st of
        None \<Rightarrow> None
      | Some (Inl e, st') \<Rightarrow> Some (Inl e, st')
      | Some (Inr _, st') \<Rightarrow> include_all n ids rs st')"

section \<open>Conflicts\<close>

text \<open>\<open>by_id.at(id)\<close>; every enabled id is in the map, so it does not throw.\<close>

definition manifest_at :: "by_id \<Rightarrow> string \<Rightarrow> ModManifest" where
  "manifest_at ids i = manifest (the (map_of ids i))"

fun find_conflict :: "by_id \<Rightarrow> string list \<Rightarrow> string list \<Rightarrow> (string \<times> string) option" where
  "find_conflict ids enabled [] = None"
| "find_conflict ids enabled (i # rest) =
     (case find (\<lambda>c. c \<in> set enabled) (conflicts (manifest_at ids i)) of
        Some c \<Rightarrow> Some (i, c)
      | None \<Rightarrow> find_conflict ids enabled rest)"

section \<open>Load order\<close>

definition om_get :: "'v \<Rightarrow> 'k \<Rightarrow> ('k, 'v) om \<Rightarrow> 'v" where
  "om_get d k m = (case map_of m k of Some v \<Rightarrow> v | None \<Rightarrow> d)"

type_synonym edges = "(string, nat) om \<times> (string, string list) om"

definition add_edge :: "string list \<Rightarrow> string \<Rightarrow> ModDependency \<Rightarrow> edges \<Rightarrow> edges" where
  "add_edge enabled i dep g =
     (if dep_id dep \<notin> set enabled then g
      else (om_put i (om_get 0 i (fst g) + 1) (fst g),
            om_put (dep_id dep) (om_get [] (dep_id dep) (snd g) @ [i]) (snd g)))"

definition add_mod_edges :: "by_id \<Rightarrow> string list \<Rightarrow> string \<Rightarrow> edges \<Rightarrow> edges" where
  "add_mod_edges ids enabled i g =
     fold (add_edge enabled i) (dependencies (manifest_at ids i)) g"

definition build_edges :: "by_id \<Rightarrow> string list \<Rightarrow> edges" where
  "build_edges ids enabled =
     (let (indegree, dependents) = fold (add_mod_edges ids enabled) enabled
            (fold (\<lambda>i m. om_put i 0 m) enabled [], [])
      in (indegree, map (\<lambda>(k, l). (k, sort l)) dependents))"

definition initial_ready :: "(string, nat) om \<Rightarrow> string list" where
  "initial_ready indegree =
     fold (\<lambda>(i, degree) ready. if degree = 0 then insort_insert i ready else ready) indegree []"

fun release :: "string list \<Rightarrow> (string, nat) om \<times> string list \<Rightarrow> (string, nat) om \<times> string list" where
  "release [] s = s"
| "release (x # xs) (indegree, ready) =
     (let degree = om_get 0 x indegree;
          degree' = (if 0 < degree then degree - 1 else degree)
      in release xs (om_put x degree' indegree,
                     if degree' = 0 then insort_insert x ready else ready))"

fun order_loop :: "nat \<Rightarrow> (string, string list) om \<Rightarrow> (string, nat) om \<Rightarrow> string list
    \<Rightarrow> string list \<Rightarrow> string list option" where
  "order_loop 0 dependents indegree ready order = None"
| "order_loop (Suc n) dependents indegree ready order =
     (case ready of
        [] \<Rightarrow> Some order
      | i # rest \<Rightarrow>
          (case map_of dependents i of
             None \<Rightarrow> order_loop n dependents indegree rest (order @ [i])
           | Some l \<Rightarrow>
               let (indegree', ready') = release l (indegree, rest)
               in order_loop n dependents indegree' ready' (order @ [i])))"

definition order_mods :: "by_id \<Rightarrow> string list \<Rightarrow> ResolvedModSet result option" where
  "order_mods ids enabled =
     (let (indegree, dependents) = build_edges ids enabled in
      case order_loop (Suc (length enabled)) dependents indegree (initial_ready indegree) [] of
        None \<Rightarrow> None
      | Some order \<Rightarrow>
          if length order \<noteq> length enabled
          then Some (failure invalid_argument ''mod dependency cycle detected'')
          else Some (success \<lparr>load_order = map (\<lambda>i. map_of ids i) order, diagnostics = []\<rparr>))"

definition resolve_mod_set :: "DiscoveredMod list \<Rightarrow> string list \<Rightarrow> ResolvedModSet result option" where
  "resolve_mod_set catalog requested =
     (case index_catalog catalog [] of
        Inl (e, d) \<Rightarrow> Some (failure e d)
      | Inr ids \<Rightarrow>
          (case include_all (Suc (length ids)) ids requested (Map.empty, []) of
             None \<Rightarrow> None
           | Some (Inl (e, d), _) \<Rightarrow> Some (failure e d)
           | Some (Inr _, (visit, enabled)) \<Rightarrow>
               (case find_conflict ids enabled enabled of
                  Some (i, c) \<Rightarrow> Some (failure invalid_argument
                    (''mod conflict: '' @ i @ '' conflicts with '' @ c))
                | None \<Rightarrow> order_mods ids enabled)))"

section \<open>Session policy\<close>

definition validate_mod_session ::
  "ResolvedModSet \<Rightarrow> ModSetHashes \<Rightarrow> ModSessionPolicy \<Rightarrow> unit result" where
  "validate_mod_session mods hashes policy =
     (if None \<in> set (load_order mods)
      then failure invalid_argument ''resolved mod set contains a null mod''
      else case mode policy of
        offline \<Rightarrow> success ()
      | ranked \<Rightarrow>
          (case find (\<lambda>m. gameplay (manifest (the m))) (load_order mods) of
             Some m \<Rightarrow> failure invalid_argument
               (''ranked sessions reject gameplay mod: '' @ mod_id (manifest (the m)))
           | None \<Rightarrow> success ())
      | custom \<Rightarrow>
          if required_mod_set_hash policy \<noteq> [] \<and>
             mod_set_hash hashes \<noteq> required_mod_set_hash policy
          then failure invalid_argument
            (''custom session mod-set hash mismatch: expected '' @ required_mod_set_hash policy @
             '', got '' @ mod_set_hash hashes)
          else success ()
      | unnamed_mode \<Rightarrow> failure invalid_argument ''unknown mod session mode'')"

end
