(* ===== verification/Mod_Resolver_Props.thy ===== *)
theory Mod_Resolver_Props
  imports Mod_Resolver
begin

text \<open>
  The resolver's inclusion returns within its fuel, and on success leaves a set of mods
  that is closed under dependencies and has a dependency order; the ordering loop keeps,
  for every mod, the number of its dependencies still to load, so it ends with all of
  them, each after what it depends on.
\<close>

abbreviation deps_of :: "by_id \<Rightarrow> string \<Rightarrow> string list" where
  "deps_of ids i \<equiv> map dep_id (dependencies (manifest_at ids i))"

definition deps_before :: "by_id \<Rightarrow> string list \<Rightarrow> bool" where
  "deps_before ids ord \<longleftrightarrow>
     (\<forall>xs x ys. ord = xs @ x # ys \<longrightarrow> set (deps_of ids x) \<subseteq> set xs)"

lemma deps_before_Nil [simp]: "deps_before ids []"
  by (simp add: deps_before_def)

lemma deps_before_snoc:
  "deps_before ids (ord @ [i]) \<longleftrightarrow> deps_before ids ord \<and> set (deps_of ids i) \<subseteq> set ord"
proof
  assume h: "deps_before ids (ord @ [i])"
  have "set (deps_of ids x) \<subseteq> set xs" if "ord = xs @ x # ys" for xs x ys
    using h that unfolding deps_before_def by (metis append_Cons append_assoc)
  then show "deps_before ids ord \<and> set (deps_of ids i) \<subseteq> set ord"
    using h unfolding deps_before_def by blast
next
  assume h: "deps_before ids ord \<and> set (deps_of ids i) \<subseteq> set ord"
  have "set (deps_of ids x) \<subseteq> set xs" if "ord @ [i] = xs @ x # ys" for xs x ys
  proof (cases ys rule: rev_cases)
    case Nil
    then show ?thesis using that h by simp
  next
    case (snoc zs z)
    then show ?thesis using that h unfolding deps_before_def by auto
  qed
  then show "deps_before ids (ord @ [i])"
    unfolding deps_before_def by blast
qed

lemma deps_before_closed:
  "deps_before ids ord \<Longrightarrow> x \<in> set ord \<Longrightarrow> set (deps_of ids x) \<subseteq> set ord"
  by (metis deps_before_def in_set_conv_decomp le_supI1 set_append order.trans Un_upper1)

section \<open>Inclusion\<close>

definition unvisited :: "by_id \<Rightarrow> visits \<Rightarrow> nat" where
  "unvisited ids visit = card {i \<in> fst ` set ids. visit i = None}"

lemma unvisited_mark:
  assumes "map_of ids i = Some d" "visit i = None"
  shows "unvisited ids visit = Suc (unvisited ids (visit(i \<mapsto> s)))"
proof -
  have i: "i \<in> fst ` set ids"
    using assms(1) by (force dest: map_of_SomeD)
  have "{j \<in> fst ` set ids. visit j = None} =
      insert i {j \<in> fst ` set ids. (visit(i \<mapsto> s)) j = None}"
    using i assms(2) by auto
  then show ?thesis
    by (simp add: unvisited_def card_insert_if)
qed

lemma unvisited_set_le: "unvisited ids (visit(i \<mapsto> s)) \<le> unvisited ids visit"
  unfolding unvisited_def by (rule card_mono) auto

lemma include_returns:
  "unvisited ids (fst st) < n \<Longrightarrow>
     \<exists>r st'. include_mod n ids i st = Some (r, st') \<and> unvisited ids (fst st') \<le> unvisited ids (fst st)"
  "unvisited ids (fst st) < n \<Longrightarrow>
     \<exists>r st'. include_deps n ids i deps st = Some (r, st') \<and>
       unvisited ids (fst st') \<le> unvisited ids (fst st)"
proof (induction n ids i st and n ids i deps st rule: include_mod_include_deps.induct)
  case (2 n ids i visit enabled)
  show ?case
  proof (cases "map_of ids i")
    case (Some d)
    show ?thesis
    proof (cases "visit i = None \<and> \<not> incompatible_api (manifest d)")
      case True
      let ?st = "(visit(i \<mapsto> visiting), insort_insert i enabled)"
      have less: "unvisited ids (fst ?st) < n"
        and le: "unvisited ids (fst ?st) \<le> unvisited ids visit"
        using "2.prems" unvisited_mark [OF Some, of visit visiting] True by simp_all
      obtain r v' e' where rec: "include_deps n ids i (dependencies (manifest d)) ?st
            = Some (r, (v', e'))" "unvisited ids v' \<le> unvisited ids (fst ?st)"
        using "2.IH" [OF Some] True less by (metis fst_conv prod.collapse)
      have "unvisited ids (v'(i \<mapsto> done_visit)) \<le> unvisited ids visit"
        using unvisited_set_le [of ids v' i done_visit] rec(2) le by linarith
      then show ?thesis
        using Some True rec le by (cases r) auto
    next
      case False
      then show ?thesis
        using Some by (auto split: option.split VisitState.split)
    qed
  qed simp
next
  case (4 n ids i dep deps st)
  show ?case
  proof (cases "map_of ids (dep_id dep)")
    case (Some d)
    show ?thesis
    proof (cases "matches (dep_requirement dep) (mod_version (manifest d))")
      case True
      obtain r st1 where rec: "include_mod n ids (dep_id dep) st = Some (r, st1)"
        "unvisited ids (fst st1) \<le> unvisited ids (fst st)"
        using "4.IH"(1) [OF Some] True "4.prems" by auto
      show ?thesis
      proof (cases r)
        case (Inl e)
        then show ?thesis using Some True rec by simp
      next
        case (Inr u)
        have "unvisited ids (fst st1) < n" using rec(2) "4.prems" by simp
        then obtain r2 st2 where "include_deps n ids i deps st1 = Some (r2, st2)"
          "unvisited ids (fst st2) \<le> unvisited ids (fst st1)"
          using "4.IH"(2) [OF Some _ rec(1) refl Inr] True by auto
        then show ?thesis using Some True rec Inr by simp
      qed
    qed (simp add: Some)
  qed simp
qed simp_all

definition included :: "by_id \<Rightarrow> inclusion \<Rightarrow> string list \<Rightarrow> bool" where
  "included ids st ord \<longleftrightarrow>
     sorted (snd st) \<and> distinct (snd st) \<and> set (snd st) = dom (fst st) \<and>
     (\<forall>i \<in> dom (fst st). \<exists>d. map_of ids i = Some d \<and> \<not> incompatible_api (manifest d)) \<and>
     distinct ord \<and> set ord = {i. fst st i = Some done_visit} \<and> deps_before ids ord \<and>
     (\<forall>i \<in> set ord. \<forall>dep \<in> set (dependencies (manifest_at ids i)).
        matches (dep_requirement dep) (mod_version (manifest_at ids (dep_id dep))))"

lemma included_visiting:
  assumes inc: "included ids (visit, enabled) ord" and d: "map_of ids i = Some d"
    and ok: "visit i = None" "\<not> incompatible_api (manifest d)"
  shows "included ids (visit(i \<mapsto> visiting), insort_insert i enabled) ord"
proof -
  have "{j. (visit(i \<mapsto> visiting)) j = Some done_visit} = {j. visit j = Some done_visit}"
    using ok(1) by auto
  then show ?thesis
    using inc d ok(2) by (simp add: included_def sorted_insort_insert distinct_insort_insert
        set_insort_insert)
qed

lemma included_done:
  assumes inc: "included ids (visit, enabled) ord" and v: "visit i = Some visiting"
    and deps: "\<forall>dep \<in> set (dependencies (manifest_at ids i)). visit (dep_id dep) = Some done_visit \<and>
      matches (dep_requirement dep) (mod_version (manifest_at ids (dep_id dep)))"
  shows "included ids (visit(i \<mapsto> done_visit), enabled) (ord @ [i])"
proof -
  have "{j. (visit(i \<mapsto> done_visit)) j = Some done_visit} = insert i {j. visit j = Some done_visit}"
    by auto
  moreover have "i \<notin> set ord" using inc v by (simp add: included_def)
  moreover have "set (deps_of ids i) \<subseteq> set ord"
    using inc deps by (auto simp: included_def)
  moreover have "dom (visit(i \<mapsto> done_visit)) = dom visit"
    using v by auto
  ultimately show ?thesis
    using inc deps by (simp add: included_def deps_before_snoc)
qed

lemma include_sound:
  "\<lbrakk>include_mod n ids i st = Some (Inr (), st'); included ids st ord\<rbrakk> \<Longrightarrow>
     \<exists>zs. included ids st' (ord @ zs) \<and>
       (\<forall>x. fst st' x = Some visiting \<longleftrightarrow> fst st x = Some visiting) \<and>
       fst st' i = Some done_visit"
  "\<lbrakk>include_deps n ids i deps st = Some (Inr (), st'); included ids st ord\<rbrakk> \<Longrightarrow>
     \<exists>zs. included ids st' (ord @ zs) \<and>
       (\<forall>x. fst st' x = Some visiting \<longleftrightarrow> fst st x = Some visiting) \<and>
       (\<forall>dep \<in> set deps. fst st' (dep_id dep) = Some done_visit \<and>
          matches (dep_requirement dep) (mod_version (manifest_at ids (dep_id dep))))"
proof (induction n ids i st and n ids i deps st arbitrary: st' ord and st' ord
    rule: include_mod_include_deps.induct)
  case (2 n ids i visit enabled)
  obtain d where d: "map_of ids i = Some d"
    using "2.prems"(1) by (auto split: option.splits)
  show ?case
  proof (cases "visit i")
    case None
    have api: "\<not> incompatible_api (manifest d)"
      using "2.prems"(1) d None by (auto simp: api_error_def split: if_splits)
    let ?st = "(visit(i \<mapsto> visiting), insort_insert i enabled)"
    obtain v' e' where rec: "include_deps n ids i (dependencies (manifest d)) ?st
        = Some (Inr (), (v', e'))" and st': "st' = (v'(i \<mapsto> done_visit), e')"
      using "2.prems"(1) d None api by (auto split: option.splits prod.splits sum.splits)
    from "2.IH" [OF d None api rec included_visiting [OF "2.prems"(2) d None api]]
    obtain zs where zs: "included ids (v', e') (ord @ zs)"
      "\<forall>x. v' x = Some visiting \<longleftrightarrow> (visit(i \<mapsto> visiting)) x = Some visiting"
      "\<forall>dep \<in> set (dependencies (manifest d)). v' (dep_id dep) = Some done_visit \<and>
         matches (dep_requirement dep) (mod_version (manifest_at ids (dep_id dep)))"
      by auto
    have "v' i = Some visiting" using zs(2) by simp
    then have "included ids st' (ord @ (zs @ [i]))"
      using included_done [OF zs(1), of i] zs(3) d by (simp add: st' manifest_at_def)
    moreover have "\<forall>x. fst st' x = Some visiting \<longleftrightarrow> visit x = Some visiting"
      using zs(2) None by (auto simp: st')
    ultimately show ?thesis by (intro exI [of _ "zs @ [i]"]) (simp add: st')
  next
    case (Some s)
    then show ?thesis
      using "2.prems" d by (cases s) (auto intro!: exI [of _ "[]"])
  qed
next
  case (4 n ids i dep deps st)
  obtain d where d: "map_of ids (dep_id dep) = Some d"
    and m: "matches (dep_requirement dep) (mod_version (manifest d))"
    using "4.prems"(1) by (auto simp: missing_dependency_def bad_dependency_def
        split: option.splits if_splits)
  obtain st1 where r1: "include_mod n ids (dep_id dep) st = Some (Inr (), st1)"
    and r2: "include_deps n ids i deps st1 = Some (Inr (), st')"
    using "4.prems"(1) d m by (auto split: option.splits prod.splits sum.splits)
  from "4.IH"(1) [OF d _ r1 "4.prems"(2)] m
  obtain zs where zs: "included ids st1 (ord @ zs)"
    "\<forall>x. fst st1 x = Some visiting \<longleftrightarrow> fst st x = Some visiting"
    "fst st1 (dep_id dep) = Some done_visit" by auto
  from "4.IH"(2) [OF d _ r1 refl refl r2 zs(1)] m
  obtain ys where ys: "included ids st' ((ord @ zs) @ ys)"
    "\<forall>x. fst st' x = Some visiting \<longleftrightarrow> fst st1 x = Some visiting"
    "\<forall>dep \<in> set deps. fst st' (dep_id dep) = Some done_visit \<and>
       matches (dep_requirement dep) (mod_version (manifest_at ids (dep_id dep)))" by auto
  have "dep_id dep \<in> set (ord @ zs)"
    using zs(1,3) by (simp add: included_def)
  then have "fst st' (dep_id dep) = Some done_visit"
    using ys(1) by (auto simp: included_def)
  then show ?case
    using ys zs(2) m d by (intro exI [of _ "zs @ ys"]) (simp add: manifest_at_def)
qed (auto intro!: exI [of _ "[]"])

lemma include_all_sound:
  "\<lbrakk>include_all n ids rs st = Some (Inr (), st'); included ids st ord\<rbrakk> \<Longrightarrow>
     \<exists>zs. included ids st' (ord @ zs) \<and>
       (\<forall>x. fst st' x = Some visiting \<longleftrightarrow> fst st x = Some visiting) \<and>
       (\<forall>r \<in> set rs. fst st' r = Some done_visit)"
proof (induction n ids rs st arbitrary: ord rule: include_all.induct)
  case (1 n ids st)
  then show ?case by (auto intro!: exI [of _ "[]"])
next
  case (2 n ids r rs st)
  obtain st1 where r1: "include_mod n ids r st = Some (Inr (), st1)"
    and r2: "include_all n ids rs st1 = Some (Inr (), st')"
    using "2.prems"(1) by (auto split: option.splits prod.splits sum.splits)
  from include_sound(1) [OF r1 "2.prems"(2)]
  obtain zs where zs: "included ids st1 (ord @ zs)"
    "\<forall>x. fst st1 x = Some visiting \<longleftrightarrow> fst st x = Some visiting" "fst st1 r = Some done_visit"
    by auto
  from "2.IH" [OF r1 refl refl r2 zs(1)]
  obtain ys where ys: "included ids st' ((ord @ zs) @ ys)"
    "\<forall>x. fst st' x = Some visiting \<longleftrightarrow> fst st1 x = Some visiting"
    "\<forall>r \<in> set rs. fst st' r = Some done_visit" by auto
  have "r \<in> set (ord @ zs)" using zs(1,3) by (simp add: included_def)
  then have "fst st' r = Some done_visit" using ys(1) by (auto simp: included_def)
  then show ?case
    using ys zs(2) by (intro exI [of _ "zs @ ys"]) simp
qed

lemma include_all_returns:
  "unvisited ids (fst st) < n \<Longrightarrow> include_all n ids rs st \<noteq> None"
proof (induction n ids rs st rule: include_all.induct)
  case (2 n ids r rs st)
  obtain res st1 where rec: "include_mod n ids r st = Some (res, st1)"
    "unvisited ids (fst st1) \<le> unvisited ids (fst st)"
    using include_returns(1) [OF "2.prems"] by blast
  show ?case
  proof (cases res)
    case (Inr u)
    have "unvisited ids (fst st1) < n" using rec(2) "2.prems" by simp
    then show ?thesis using "2.IH" [OF rec(1) refl Inr] rec(1) Inr by simp
  qed (simp add: rec)
qed simp

section \<open>Edges\<close>

lemma om_get_put [simp]: "om_get d x (om_put k v m) = (if x = k then v else om_get d x m)"
  by (simp add: om_get_def map_of_om_put)

abbreviation edge_count :: "string list \<Rightarrow> ModDependency list \<Rightarrow> nat" where
  "edge_count enabled deps \<equiv> length (filter (\<lambda>dep. dep_id dep \<in> set enabled) deps)"

lemma fold_add_edge:
  "om_get 0 x (fst (fold (add_edge en i) deps g)) =
     om_get 0 x (fst g) + (if x = i then edge_count en deps else 0)"
  "count_list (om_get [] d (snd (fold (add_edge en i) deps g))) x =
     count_list (om_get [] d (snd g)) x +
     (if x = i \<and> d \<in> set en then count_list (map dep_id deps) d else 0)"
  "fst ` set (fst (fold (add_edge en i) deps g)) \<subseteq> insert i (fst ` set (fst g))"
  "om_ok (fst g) \<Longrightarrow> om_ok (fst (fold (add_edge en i) deps g))"
  "fst ` set (fst g) \<subseteq> fst ` set (fst (fold (add_edge en i) deps g))"
proof (induction deps arbitrary: g)
  case (Cons dep deps)
  {
    case 1
    show ?case by (simp add: Cons.IH(1)) (simp add: add_edge_def)
  next
    case 2
    show ?case by (simp add: Cons.IH(2)) (auto simp: add_edge_def)
  next
    case 3
    show ?case
      using Cons.IH(3) [of "add_edge en i dep g"]
      by (auto simp: add_edge_def keys_om_put split: if_splits)
  next
    case 4
    then show ?case by (simp add: Cons.IH(4)) (simp add: Cons.IH(4) add_edge_def)
  next
    case 5
    show ?case
      using Cons.IH(5) [of "add_edge en i dep g"]
      by (auto simp: add_edge_def keys_om_put split: if_splits)
  }
qed auto

lemma fold_add_mod_edges:
  assumes "distinct is"
  shows "om_get 0 x (fst (fold (add_mod_edges ids en) is g)) = om_get 0 x (fst g) +
      (if x \<in> set is then edge_count en (dependencies (manifest_at ids x)) else 0)"
    and "count_list (om_get [] d (snd (fold (add_mod_edges ids en) is g))) x =
      count_list (om_get [] d (snd g)) x +
      (if x \<in> set is \<and> d \<in> set en then count_list (deps_of ids x) d else 0)"
    and "fst ` set (fst (fold (add_mod_edges ids en) is g)) \<subseteq> set is \<union> fst ` set (fst g)"
    and "om_ok (fst g) \<Longrightarrow> om_ok (fst (fold (add_mod_edges ids en) is g))"
    and "fst ` set (fst g) \<subseteq> fst ` set (fst (fold (add_mod_edges ids en) is g))"
  using assms
proof (induction "is" arbitrary: g)
  case (Cons i "is")
  {
    case 1
    then show ?case by (simp add: Cons.IH(1)) (auto simp: add_mod_edges_def fold_add_edge(1))
  next
    case 2
    then show ?case by (simp add: Cons.IH(2)) (auto simp: add_mod_edges_def fold_add_edge(2))
  next
    case 3
    then show ?case
      using Cons.IH(3) [of "add_mod_edges ids en i g"]
        fold_add_edge(3) [of en i "dependencies (manifest_at ids i)" g]
      by (auto simp: add_mod_edges_def)
  next
    case 4
    then have "om_ok (fst (add_mod_edges ids en i g))"
      by (simp add: add_mod_edges_def fold_add_edge(4))
    from Cons.IH(4) [OF this] 4(2) show ?case by simp
  next
    case 5
    then show ?case
      using Cons.IH(5) [of "add_mod_edges ids en i g"]
        fold_add_edge(5) [of g en i "dependencies (manifest_at ids i)"]
      by (auto simp: add_mod_edges_def)
  }
qed simp_all

lemma fold_zero:
  "om_get 0 x (fold (\<lambda>i m. om_put i 0 m) is m) = (if x \<in> set is then 0 else om_get (0 :: nat) x m)"
  "fst ` set (fold (\<lambda>i m. om_put i (0 :: nat) m) is m) = set is \<union> fst ` set m"
  "om_ok m \<Longrightarrow> om_ok (fold (\<lambda>i m. om_put i (0 :: nat) m) is m)"
  by (induction "is" arbitrary: m) (auto simp: keys_om_put)

lemma om_get_map: "om_get [] k (map (\<lambda>(k, l). (k, f l)) m) =
    (case map_of m k of None \<Rightarrow> [] | Some l \<Rightarrow> f l)"
  by (induction m) (auto simp: om_get_def)

lemma count_list_insort: "count_list (insort y xs) x = count_list (y # xs) x"
  by (induction xs) auto

lemma count_list_sort: "count_list (sort xs) x = count_list xs x"
  by (induction xs) (auto simp: count_list_insort)

lemma map_of_map_values: "map_of (map (\<lambda>(k, l). (k, f l)) m) k = map_option f (map_of m k)"
  by (induction m) auto

lemma build_edges_spec:
  assumes en: "distinct enabled" and g: "build_edges ids enabled = (indegree, dependents)"
  shows "x \<in> set enabled \<Longrightarrow>
      om_get 0 x indegree = edge_count enabled (dependencies (manifest_at ids x))"
    and "count_list (om_get [] d dependents) x =
      (if x \<in> set enabled \<and> d \<in> set enabled then count_list (deps_of ids x) d else 0)"
    and "om_ok indegree" and "fst ` set indegree = set enabled"
proof -
  let ?zero = "fold (\<lambda>i m. om_put i (0 :: nat) m) enabled []"
  let ?g = "fold (add_mod_edges ids enabled) enabled (?zero, [])"
  have ind: "indegree = fst ?g" and dep: "dependents = map (\<lambda>(k, l). (k, sort l)) (snd ?g)"
    using g by (auto simp: build_edges_def Let_def split: prod.splits)
  note spec = fold_add_mod_edges [OF en, where ids = ids and en = enabled and g = "(?zero, [])"]
  show "x \<in> set enabled \<Longrightarrow>
      om_get 0 x indegree = edge_count enabled (dependencies (manifest_at ids x))"
    by (simp add: ind spec(1) fold_zero(1))
  have "om_get [] d dependents = sort (om_get [] d (snd ?g))"
    by (simp add: dep om_get_def map_of_map_values split: option.split)
  then show "count_list (om_get [] d dependents) x =
      (if x \<in> set enabled \<and> d \<in> set enabled then count_list (deps_of ids x) d else 0)"
    by (simp add: count_list_sort spec(2)) (simp add: om_get_def)
  show "om_ok indegree"
    unfolding ind by (rule spec(4)) (simp add: fold_zero(3))
  show "fst ` set indegree = set enabled"
    using spec(3,5) unfolding ind by (auto simp: fold_zero(2))
qed

lemma initial_ready_spec:
  "set (initial_ready ind) = {i. (i, 0) \<in> set ind}" "sorted (initial_ready ind)"
  "distinct (initial_ready ind)"
proof -
  have h: "set (fold (\<lambda>(i, degree) ready. if degree = 0 then insort_insert i ready else ready) xs r)
      = {i. (i, 0 :: nat) \<in> set xs} \<union> set r \<and>
    (sorted r \<longrightarrow> sorted (fold (\<lambda>(i, degree) ready.
        if degree = (0 :: nat) then insort_insert i ready else ready) xs r)) \<and>
    (distinct r \<longrightarrow> distinct (fold (\<lambda>(i, degree) ready.
        if degree = (0 :: nat) then insort_insert i ready else ready) xs r))" for xs and r :: "string list"
    by (induction xs arbitrary: r)
      (auto simp: set_insort_insert sorted_insort_insert distinct_insort_insert split: if_splits)
  show "set (initial_ready ind) = {i. (i, 0) \<in> set ind}" "sorted (initial_ready ind)"
    "distinct (initial_ready ind)"
    using h [of ind "[]"] by (simp_all add: initial_ready_def)
qed

section \<open>The ordering loop\<close>

lemma release_spec:
  assumes "release l (ind, ready) = (ind', ready')"
  shows "om_get 0 x ind' = om_get 0 x ind - count_list l x"
    and "set ready' = set ready \<union> {x \<in> set l. om_get 0 x ind' = 0}"
    and "sorted ready \<Longrightarrow> sorted ready'" and "distinct ready \<Longrightarrow> distinct ready'"
  using assms
proof (induction l "(ind, ready)" arbitrary: ind ready x rule: release.induct)
  case (2 y l ind ready)
  let ?d = "om_get 0 y ind"
  let ?d' = "if 0 < ?d then ?d - 1 else ?d"
  let ?ready = "if ?d' = 0 then insort_insert y ready else ready"
  {
    case prems: 1
    have "release l (om_put y ?d' ind, ?ready) = (ind', ready')"
      using prems by (simp add: Let_def)
    from "2.hyps"(1) [OF refl refl this] show ?case by auto
  next
    case prems: 2
    have rec: "release l (om_put y ?d' ind, ?ready) = (ind', ready')"
      using prems by (simp add: Let_def)
    from "2.hyps"(1) [OF refl refl rec, where x = y]
    have y: "om_get 0 y ind' = ?d' - count_list l y" by simp
    have "?d' = 0 \<Longrightarrow> om_get 0 y ind' = 0" using y by simp
    moreover have "om_get 0 y ind' = 0 \<Longrightarrow> y \<notin> set l \<Longrightarrow> ?d' = 0"
      using y by (simp add: count_list_0_iff)
    ultimately show ?case
      using "2.hyps"(2) [OF refl refl rec] by (auto simp: set_insort_insert split: if_splits)
  next
    case prems: 3
    then have rec: "release l (om_put y ?d' ind, ?ready) = (ind', ready')"
      by (simp add: Let_def)
    show ?case
      by (rule "2.hyps"(3) [OF refl refl _ rec]) (simp add: prems(1) sorted_insort_insert)
  next
    case prems: 4
    then have rec: "release l (om_put y ?d' ind, ?ready) = (ind', ready')"
      by (simp add: Let_def)
    show ?case
      by (rule "2.hyps"(4) [OF refl refl _ rec]) (simp add: prems(1) distinct_insort_insert)
  }
qed auto

text \<open>
  What holds at the head of the loop: \<open>indegree\<close> counts, for each enabled mod, the
  dependencies not yet in the order, \<open>ready\<close> holds the waiting mods with none left.
\<close>

definition pending_deps :: "by_id \<Rightarrow> string list \<Rightarrow> string \<Rightarrow> nat" where
  "pending_deps ids order x = length (filter (\<lambda>d. d \<notin> set order) (deps_of ids x))"

definition loop_inv ::
  "by_id \<Rightarrow> string list \<Rightarrow> (string, nat) om \<Rightarrow> string list \<Rightarrow> string list \<Rightarrow> bool" where
  "loop_inv ids enabled indegree ready order \<longleftrightarrow>
     distinct order \<and> set order \<subseteq> set enabled \<and> sorted ready \<and> distinct ready \<and>
     (\<forall>x \<in> set enabled. om_get 0 x indegree = pending_deps ids order x) \<and>
     set ready = {x \<in> set enabled. pending_deps ids order x = 0 \<and> x \<notin> set order} \<and>
     deps_before ids order"

lemma pending_deps_snoc:
  "i \<notin> set order \<Longrightarrow>
   pending_deps ids (order @ [i]) x = pending_deps ids order x - count_list (deps_of ids x) i"
proof -
  assume i: "i \<notin> set order"
  have "length (filter (\<lambda>d. d \<notin> set (order @ [i])) xs) + count_list xs i
      = length (filter (\<lambda>d. d \<notin> set order) xs)" for xs
    using i by (induction xs) auto
  from this [of "deps_of ids x"] show ?thesis
    unfolding pending_deps_def by linarith
qed

lemma pending_deps_0: "pending_deps ids order x = 0 \<longleftrightarrow> set (deps_of ids x) \<subseteq> set order"
  by (auto simp: pending_deps_def filter_empty_conv)

lemma loop_inv_step:
  assumes inv: "loop_inv ids enabled indegree (i # rest) order"
    and cnt: "\<And>x. count_list l x = (if x \<in> set enabled then count_list (deps_of ids x) i else 0)"
    and rel: "release l (indegree, rest) = (indegree', ready')"
  shows "loop_inv ids enabled indegree' ready' (order @ [i])"
proof -
  note h = inv [unfolded loop_inv_def]
  have i: "i \<in> set enabled" "pending_deps ids order i = 0" "i \<notin> set order" "i \<notin> set rest"
    using h by auto
  have rest: "set rest = {x \<in> set enabled. pending_deps ids order x = 0 \<and> x \<notin> set order \<and> x \<noteq> i}"
    using h by auto
  have closed: "x \<notin> set order \<and> x \<noteq> i" if "x \<in> set l" for x
  proof -
    have "i \<in> set (deps_of ids x)"
      using that cnt [of x] by (metis count_notin count_list_0_iff)
    then show ?thesis
      using i h deps_before_closed [of ids order x] pending_deps_0 [of ids order i] by blast
  qed
  have ind': "om_get 0 x indegree' = pending_deps ids (order @ [i]) x" if "x \<in> set enabled" for x
    using that h release_spec(1) [OF rel, of x] cnt [of x] by (simp add: pending_deps_snoc i(3))
  have same: "pending_deps ids (order @ [i]) x = pending_deps ids order x" if "x \<in> set enabled" "x \<notin> set l" for x
    using that cnt [of x] by (simp add: pending_deps_snoc i(3) count_list_0_iff)
  have inl: "x \<in> set enabled" if "x \<in> set l" for x
    using that cnt [of x] by (metis count_list_0_iff)
  have ready': "set ready' = {x \<in> set enabled. pending_deps ids (order @ [i]) x = 0 \<and>
      x \<notin> set (order @ [i])}" (is "_ = ?R")
  proof
    show "set ready' \<subseteq> ?R"
    proof
      fix x assume "x \<in> set ready'"
      then consider "x \<in> set rest" | "x \<in> set l" "om_get 0 x indegree' = 0"
        using release_spec(2) [OF rel] by auto
      then show "x \<in> ?R"
      proof cases
        case 1
        then show ?thesis using rest by (simp add: pending_deps_snoc i(3))
      next
        case 2
        then show ?thesis using inl closed ind' by auto
      qed
    qed
    show "?R \<subseteq> set ready'"
    proof
      fix x assume x: "x \<in> ?R"
      show "x \<in> set ready'"
      proof (cases "x \<in> set l")
        case True
        then show ?thesis using x ind' release_spec(2) [OF rel] by auto
      next
        case False
        then show ?thesis using x same rest release_spec(2) [OF rel] by auto
      qed
    qed
  qed
  show ?thesis
    unfolding loop_inv_def
    using h i ind' ready' release_spec(3,4) [OF rel] pending_deps_0 [of ids order i]
    by (auto simp: deps_before_snoc)
qed

lemma order_loop_inv:
  assumes "loop_inv ids enabled indegree ready order"
    and "\<And>d x. d \<in> set enabled \<Longrightarrow> count_list (om_get [] d dependents) x =
      (if x \<in> set enabled then count_list (deps_of ids x) d else 0)"
    and "length enabled - length order < n"
  shows "\<exists>order' indegree'. order_loop n dependents indegree ready order = Some order' \<and>
    loop_inv ids enabled indegree' [] order'"
  using assms(1,3)
proof (induction n arbitrary: indegree ready order)
  case (Suc n)
  show ?case
  proof (cases ready)
    case Nil
    then show ?thesis using Suc.prems(1) by auto
  next
    case (Cons i rest)
    have i: "i \<in> set enabled" "i \<notin> set order" "distinct order" "set order \<subseteq> set enabled"
      using Suc.prems(1) by (auto simp: loop_inv_def Cons)
    have "length (order @ [i]) \<le> length enabled"
    proof -
      have "length (order @ [i]) = card (set (order @ [i]))"
        using i by (simp add: distinct_card)
      also have "\<dots> \<le> card (set enabled)"
        using i by (intro card_mono) auto
      finally show ?thesis using card_length [of enabled] by simp
    qed
    then have less: "length enabled - length (order @ [i]) < n"
      using Suc.prems(2) by simp
    obtain ind' ready' where rel: "release (om_get [] i dependents) (indegree, rest) = (ind', ready')"
      by force
    have "loop_inv ids enabled ind' ready' (order @ [i])"
      by (rule loop_inv_step [OF Suc.prems(1) [unfolded Cons] assms(2) [OF i(1)] rel])
    from Suc.IH [OF this less] show ?thesis
      using rel by (auto simp: Cons om_get_def Let_def split: option.splits)
  qed
qed simp

lemma loop_end_complete:
  assumes inv: "loop_inv ids enabled indegree [] order"
    and ord: "set ord = set enabled" "deps_before ids ord"
  shows "set order = set enabled"
proof (rule ccontr)
  assume "set order \<noteq> set enabled"
  then have "\<exists>x \<in> set ord. x \<notin> set order"
    using inv ord(1) by (auto simp: loop_inv_def)
  then obtain xs x ys where first: "ord = xs @ x # ys" "x \<notin> set order" "\<forall>y \<in> set xs. y \<in> set order"
    using split_list_first_prop [of ord "\<lambda>x. x \<notin> set order"] by blast
  then have "set (deps_of ids x) \<subseteq> set order"
    using ord(2) unfolding deps_before_def by blast
  then have "x \<in> {x \<in> set enabled. pending_deps ids order x = 0 \<and> x \<notin> set order}"
    using first ord(1) by (auto simp: pending_deps_0)
  then show False
    using inv by (auto simp: loop_inv_def)
qed

section \<open>The whole resolver\<close>

lemma index_catalog_spec:
  "index_catalog ds m = Inr ids \<Longrightarrow> om_ok m \<Longrightarrow>
   (\<forall>i d. map_of m i = Some d \<longrightarrow> mod_id (manifest d) = i \<and> d \<in> C) \<Longrightarrow> set ds \<subseteq> C \<Longrightarrow>
   om_ok ids \<and> (\<forall>i d. map_of ids i = Some d \<longrightarrow> mod_id (manifest d) = i \<and> d \<in> C)"
proof (induction ds m rule: index_catalog.induct)
  case (2 d ds m)
  have fresh: "map_of m (mod_id (manifest d)) = None"
    using "2.prems"(1) by (auto split: if_splits)
  show ?case
    by (rule "2.IH") (use "2.prems" fresh in \<open>auto simp: map_of_om_put\<close>)
qed simp

lemma find_conflict_None:
  "find_conflict ids en is = None \<Longrightarrow> i \<in> set is \<Longrightarrow> c \<in> set (conflicts (manifest_at ids i)) \<Longrightarrow>
   c \<notin> set en"
  by (induction ids en "is" rule: find_conflict.induct)
    (auto simp: find_None_iff split: option.splits)

lemma order_mods_spec:
  assumes en: "distinct enabled" "sorted enabled"
    and ord: "set ord = set enabled" "deps_before ids ord"
  shows "\<exists>order. order_mods ids enabled = Some (success \<lparr>load_order = map (map_of ids) order,
      diagnostics = []\<rparr>) \<and> distinct order \<and> set order = set enabled \<and> deps_before ids order"
proof -
  obtain ind dep where g: "build_edges ids enabled = (ind, dep)" by force
  note spec = build_edges_spec [OF en(1) g]
  have closed: "set (deps_of ids x) \<subseteq> set enabled" if "x \<in> set enabled" for x
    using deps_before_closed [OF ord(2), of x] ord(1) that by simp
  have all: "om_get 0 x ind = pending_deps ids [] x" if x: "x \<in> set enabled" for x
  proof -
    have "filter (\<lambda>dep. dep_id dep \<in> set enabled) (dependencies (manifest_at ids x))
        = dependencies (manifest_at ids x)"
      using closed [OF x] by (auto simp: filter_id_conv)
    then show ?thesis by (simp add: spec(1) x pending_deps_def)
  qed
  have "(x, 0) \<in> set ind \<longleftrightarrow> x \<in> set enabled \<and> pending_deps ids [] x = 0" for x
  proof -
    have d: "distinct (map fst ind)"
      using spec(3) by (simp add: om_ok_def strict_sorted_iff)
    have "(x, 0) \<in> set ind \<longleftrightarrow> map_of ind x = Some 0"
      using d by simp
    also have "\<dots> \<longleftrightarrow> x \<in> fst ` set ind \<and> om_get 0 x ind = 0"
    proof -
      have "x \<in> fst ` set ind \<longleftrightarrow> map_of ind x \<noteq> None"
        by (simp add: map_of_eq_None_iff)
      then show ?thesis by (cases "map_of ind x") (simp_all add: om_get_def)
    qed
    finally show ?thesis using all by (auto simp: spec(4))
  qed
  then have "loop_inv ids enabled ind (initial_ready ind) []"
    using all by (auto simp: loop_inv_def initial_ready_spec)
  from order_loop_inv [OF this, of dep "Suc (length enabled)"]
  obtain order ind' where loop: "order_loop (Suc (length enabled)) dep ind (initial_ready ind) []
      = Some order" and inv: "loop_inv ids enabled ind' [] order"
    using spec(2) by auto
  have all_loaded: "set order = set enabled"
    by (rule loop_end_complete [OF inv ord])
  moreover have "distinct order" "deps_before ids order"
    using inv by (simp_all add: loop_inv_def)
  moreover have "length order = length enabled"
    using all_loaded \<open>distinct order\<close> en(1) by (metis distinct_card)
  ultimately show ?thesis
    by (intro exI [of _ order]) (simp add: order_mods_def g loop del: order_loop.simps)
qed

definition mod_ok_in :: "DiscoveredMod list \<Rightarrow> DiscoveredMod list \<Rightarrow> DiscoveredMod \<Rightarrow> bool" where
  "mod_ok_in before all' d \<longleftrightarrow> \<not> incompatible_api (manifest d) \<and>
     (\<forall>dep \<in> set (dependencies (manifest d)). \<exists>d' \<in> set before.
        mod_id (manifest d') = dep_id dep \<and>
        matches (dep_requirement dep) (mod_version (manifest d'))) \<and>
     (\<forall>d' \<in> set all'. mod_id (manifest d') \<notin> set (conflicts (manifest d)))"

lemma included_new: "included ids (Map.empty, []) []"
  by (simp add: included_def)

lemma inclusion_ordered:
  assumes "include_all n ids requested (Map.empty, []) = Some (Inr (), (visit, enabled))"
  obtains ord where "set ord = set enabled" "deps_before ids ord" "distinct enabled"
    "sorted enabled" "set requested \<subseteq> set enabled"
    "\<forall>i \<in> set enabled. \<exists>d. map_of ids i = Some d \<and> \<not> incompatible_api (manifest d)"
    "\<forall>i \<in> set enabled. \<forall>dep \<in> set (dependencies (manifest_at ids i)).
        matches (dep_requirement dep) (mod_version (manifest_at ids (dep_id dep)))"
proof -
  from include_all_sound [OF assms included_new]
  obtain ord where inc: "included ids (visit, enabled) ord"
    and nov: "\<forall>x. visit x \<noteq> Some visiting"
    and req: "\<forall>r \<in> set requested. visit r = Some done_visit" by auto
  have "visit x = Some done_visit \<longleftrightarrow> x \<in> dom visit" for x
    using nov [rule_format, of x] by (cases "visit x"; cases "the (visit x)") auto
  then have set: "set ord = set enabled"
    using inc by (auto simp: included_def)
  show ?thesis
    by (rule that [of ord]) (use inc set req in \<open>auto simp: included_def\<close>)
qed

lemma include_all_index_returns:
  "include_all (Suc (length ids)) ids requested (Map.empty, []) \<noteq> None"
proof (rule include_all_returns)
  have "card (fst ` set ids) \<le> length ids"
    by (metis card_length image_set length_map)
  then show "unvisited ids (fst (Map.empty, [])) < Suc (length ids)"
    by (simp add: unvisited_def)
qed

lemma resolve_returns: "resolve_mod_set catalog requested \<noteq> None"
proof (cases "index_catalog catalog []")
  case (Inr ids)
  obtain res visit enabled where inc: "include_all (Suc (length ids)) ids requested (Map.empty, [])
      = Some (res, (visit, enabled))"
    using include_all_index_returns [of ids requested] by (cases "include_all (Suc (length ids)) ids requested (Map.empty, [])") auto
  show ?thesis
  proof (cases res)
    case (Inr u)
    then have "include_all (Suc (length ids)) ids requested (Map.empty, [])
        = Some (Inr (), (visit, enabled))" using inc by simp
    then obtain ord where "set ord = set enabled" "deps_before ids ord" "distinct enabled"
      "sorted enabled" by (rule inclusion_ordered)
    from order_mods_spec [OF this(3,4,1,2)] show ?thesis
      using \<open>index_catalog catalog [] = Inr ids\<close> inc Inr
      by (auto simp: resolve_mod_set_def split: option.split)
  qed (auto simp: resolve_mod_set_def Inr inc split: prod.split)
qed (auto simp: resolve_mod_set_def split: prod.split)

lemma resolve_success:
  assumes "resolve_mod_set catalog requested = Some (Inr r)"
  shows "\<exists>mods. load_order r = map Some mods \<and> distinct (map (mod_id \<circ> manifest) mods) \<and>
    set mods \<subseteq> set catalog \<and> set requested \<subseteq> (mod_id \<circ> manifest) ` set mods \<and>
    (\<forall>xs d ys. mods = xs @ d # ys \<longrightarrow> mod_ok_in xs mods d)"
proof -
  obtain ids where ids: "index_catalog catalog [] = Inr ids"
    using assms by (auto simp: resolve_mod_set_def split: sum.splits prod.splits)
  obtain visit enabled where inc: "include_all (Suc (length ids)) ids requested (Map.empty, [])
      = Some (Inr (), (visit, enabled))" and nc: "find_conflict ids enabled enabled = None"
    and om: "order_mods ids enabled = Some (Inr r)"
    using assms ids by (auto simp: resolve_mod_set_def split: option.splits sum.splits prod.splits)
  from inc obtain ord where ord: "set ord = set enabled" "deps_before ids ord" "distinct enabled"
    "sorted enabled" "set requested \<subseteq> set enabled"
    and known: "\<forall>i \<in> set enabled. \<exists>d. map_of ids i = Some d \<and> \<not> incompatible_api (manifest d)"
    and sat: "\<forall>i \<in> set enabled. \<forall>dep \<in> set (dependencies (manifest_at ids i)).
        matches (dep_requirement dep) (mod_version (manifest_at ids (dep_id dep)))"
    by (rule inclusion_ordered)
  from order_mods_spec [OF ord(3,4,1,2)] om
  obtain order where r: "load_order r = map (map_of ids) order" and o: "distinct order"
    "set order = set enabled" "deps_before ids order" by auto
  have idx: "mod_id (manifest d) = i \<and> d \<in> set catalog" if "map_of ids i = Some d" for i d
    using index_catalog_spec [OF ids _ _ subset_refl] that by auto
  define mods where "mods = map (\<lambda>i. the (map_of ids i)) order"
  have the: "map_of ids i = Some (the (map_of ids i))" "mod_id (manifest (the (map_of ids i))) = i"
    "manifest_at ids i = manifest (the (map_of ids i))" if "i \<in> set order" for i
    using known that o(2) idx by (auto simp: manifest_at_def)
  have ids_of: "map (mod_id \<circ> manifest) mods = order"
    by (simp add: mods_def comp_def the(2) map_idI)
  have ok: "mod_ok_in xs mods d" if split: "mods = xs @ d # ys" for xs d ys
  proof -
    define as i bs where "as = map (mod_id \<circ> manifest) xs" and "i = mod_id (manifest d)"
      and "bs = map (mod_id \<circ> manifest) ys"
    have ord_split: "order = as @ i # bs"
      using ids_of split by (simp add: as_def i_def bs_def)
    then have i: "i \<in> set order" by simp
    have "mods ! length xs = d" using split by simp
    moreover have "order ! length xs = i" "length xs < length order"
      using ord_split by (simp_all add: as_def nth_append)
    ultimately have d: "d = the (map_of ids i)" by (simp add: mods_def)
    have before: "set (deps_of ids i) \<subseteq> set as"
      using o(3) ord_split unfolding deps_before_def by blast
    have xs: "xs = map (\<lambda>i. the (map_of ids i)) as"
    proof -
      have "take (length xs) mods = map (\<lambda>i. the (map_of ids i)) (take (length as) order)"
        by (simp add: mods_def take_map as_def)
      then show ?thesis using split ord_split by simp
    qed
    show ?thesis
      unfolding mod_ok_in_def
    proof (intro conjI ballI)
      show "\<not> incompatible_api (manifest d)"
        using known i o(2) d by fastforce
    next
      fix dep assume dep: "dep \<in> set (dependencies (manifest d))"
      then have dep': "dep \<in> set (dependencies (manifest_at ids i))"
        using the(3) [OF i] d by simp
      then have mem: "dep_id dep \<in> set as" using before by auto
      then have mo: "dep_id dep \<in> set order" using ord_split by simp
      have "matches (dep_requirement dep) (mod_version (manifest (the (map_of ids (dep_id dep)))))"
        using sat dep' i o(2) the(3) [OF mo] by metis
      then show "\<exists>d' \<in> set xs. mod_id (manifest d') = dep_id dep \<and>
          matches (dep_requirement dep) (mod_version (manifest d'))"
        using mem the(2) [OF mo] xs by (intro bexI [of _ "the (map_of ids (dep_id dep))"]) auto
    next
      fix d' assume "d' \<in> set mods"
      then obtain j where j: "j \<in> set order" "d' = the (map_of ids j)"
        by (auto simp: mods_def)
      have "c \<notin> set enabled" if "c \<in> set (conflicts (manifest d))" for c
        using find_conflict_None [OF nc, of i c] that i o(2) d by (simp add: manifest_at_def)
      then show "mod_id (manifest d') \<notin> set (conflicts (manifest d))"
        using j o(2) the(2) by auto
    qed
  qed
  have "load_order r = map Some mods"
    using the(1) by (simp add: r mods_def)
  moreover have "set mods \<subseteq> set catalog"
    using idx the(1) by (auto simp: mods_def)
  moreover have "set requested \<subseteq> (mod_id \<circ> manifest) ` set mods"
    using ord(5) o(2) ids_of by (metis set_map)
  ultimately show ?thesis
    using ids_of o(1) ok by (intro exI [of _ mods]) auto
qed

end
