(* ===== verification/Support_Spec.thy ===== *)
theory Support_Spec
  imports Network_Protocol Mod_Resolver_Props
begin

text \<open>
  Properties of the wire protocol, the version parser and the mod resolver, each with a
  witness that applies it at a concrete input.
\<close>

section \<open>Network protocol\<close>

text \<open>C16.
  The wire format is canonical: a byte sequence parses to a packet exactly when that
  packet serialises to that byte sequence.  So parsing inverts serialising, nothing else
  parses, and no two byte sequences mean the same packet.
\<close>

theorem packet_codec_inverse:
  "parse_network_packet bs = Inr p \<longleftrightarrow> serialize_network_packet p = Inr bs"
  using image_of_parsed [of bs p] parse_of_serialize [of p] by (auto simp: serialize_image)




section \<open>Semantic versions\<close>

text \<open>
  A text parses to a version exactly when it is that version's printed form: three
  decimal 32-bit numbers without leading zeroes, separated by dots.
\<close>

theorem semver_roundtrip:
  "parse_semver t = Inr v \<longleftrightarrow> t = to_string v"
  by (rule parse_semver_iff)

section \<open>Mod resolver\<close>

text \<open>C15.
  A resolved set is right: it holds distinct mods of the catalog and every requested id;
  each mod comes after a mod of the right version for each of its dependencies, was
  written for a compatible interface, and no mod of the set conflicts with another.
\<close>

theorem resolver_sound:
  assumes "resolve_mod_set catalog requested = Some (Inr r)"
  shows "\<exists>mods. load_order r = map Some mods \<and> distinct (map (mod_id \<circ> manifest) mods) \<and>
    set mods \<subseteq> set catalog \<and> set requested \<subseteq> (mod_id \<circ> manifest) ` set mods \<and>
    (\<forall>xs d ys. mods = xs @ d # ys \<longrightarrow> mod_ok_in xs mods d)"
  using assms by (rule resolve_success)

definition demo_mod :: "string \<Rightarrow> ModDependency list \<Rightarrow> DiscoveredMod" where
  "demo_mod i deps = \<lparr>manifest = \<lparr>mod_id = i, mod_name = i, mod_version = kModApiVersion,
     api_version = kModApiVersion, mod_kind = data_mod, gameplay = False, mod_entry = [],
     dependencies = deps, conflicts = []\<rparr>, mod_root = i\<rparr>"

definition demo_base :: DiscoveredMod where "demo_base = demo_mod ''b'' []"

definition demo_top :: DiscoveredMod where
  "demo_top = demo_mod ''a'' [\<lparr>dep_id = ''b'',
     dep_requirement = \<lparr>requirement_kind = any, requirement_version = zero_version\<rparr>\<rparr>]"

lemma demo_resolved:
  "resolve_mod_set [demo_top, demo_base] [''a''] =
     Some (Inr \<lparr>load_order = [Some demo_base, Some demo_top], diagnostics = []\<rparr>)"
  by code_simp

theorem resolver_sound_witness:
  "mod_ok_in [demo_base] [demo_base, demo_top] demo_top"
proof -
  obtain mods where "[Some demo_base, Some demo_top] = map Some mods"
    and ok: "\<forall>xs d ys. mods = xs @ d # ys \<longrightarrow> mod_ok_in xs mods d"
    using resolver_sound [OF demo_resolved] unfolding ResolvedModSet.select_convs
    by (elim exE conjE) (rule that)
  then have "mods = [demo_base] @ demo_top # []"
    by (cases mods; cases "tl mods") simp_all
  then show ?thesis
    using ok [rule_format, of "[demo_base]" demo_top "[]"] by simp
qed

text \<open>C17.
  The resolver always returns, with an error or a set: its recursion and its loop stop
  within the fuel they are given.  Once inclusion has succeeded the ordering loop loads
  every enabled mod, so its own check for a dependency cycle never fires.
\<close>

theorem resolver_total:
  "resolve_mod_set catalog requested \<noteq> None \<and>
   (case include_all n ids requested (Map.empty, []) of
      Some (Inr _, (visit, enabled)) \<Rightarrow>
        (case order_mods ids enabled of
           Some (Inr r) \<Rightarrow> length (load_order r) = length enabled
         | _ \<Rightarrow> False)
    | _ \<Rightarrow> True)"
proof (intro conjI)
  show "resolve_mod_set catalog requested \<noteq> None" by (rule resolve_returns)
  have "\<exists>r. order_mods ids enabled = Some (Inr r) \<and> length (load_order r) = length enabled"
    if "include_all n ids requested (Map.empty, []) = Some (Inr u, (visit, enabled))"
    for u visit enabled
  proof -
    have "include_all n ids requested (Map.empty, []) = Some (Inr (), (visit, enabled))"
      using that by simp
    then obtain ord where ord: "set ord = set enabled" "deps_before ids ord" "distinct enabled"
      "sorted enabled" by (rule inclusion_ordered)
    from order_mods_spec [OF ord(3,4,1,2)] obtain order where o:
      "order_mods ids enabled = Some (success \<lparr>load_order = map (map_of ids) order, diagnostics = []\<rparr>)"
      "distinct order" "set order = set enabled" by blast
    have "length order = length enabled"
      using o(2,3) ord(3) by (metis distinct_card)
    then show ?thesis using o(1) by simp
  qed
  then show "case include_all n ids requested (Map.empty, []) of
      Some (Inr _, (visit, enabled)) \<Rightarrow>
        (case order_mods ids enabled of
           Some (Inr r) \<Rightarrow> length (load_order r) = length enabled
         | _ \<Rightarrow> False)
    | _ \<Rightarrow> True"
    by (fastforce split: option.split prod.split sum.split)
qed

end
