(* ===== verification/Direct_Session.thy ===== *)
theory Direct_Session
  imports Network_Protocol
begin

text \<open>
  The datagram transport and the direct session of \<^verbatim>\<open>src/src/core/network_transport.h\<close>.
  The operating system's socket is a parameter: a record of what \<open>sendto\<close> and
  \<open>recvfrom\<close> return on an abstract socket state.  So is the floating-point update of the
  round-trip figures.  Everything above them, the packet layer, the handshake, the
  heartbeat, the reconnection and the disconnection, is modelled.  The receive loop of
  \<open>poll\<close> carries fuel, one unit per datagram taken from the socket; \<open>None\<close> is fuel that ran
  out.
\<close>

section \<open>Transport\<close>

definition kNetworkTransportMaxDatagram :: nat where
  "kNetworkTransportMaxDatagram = 1200"

record NetworkEndpoint =
  ipv4 :: "u8 list"
  port :: u16

record UdpDatagram =
  datagram_source :: NetworkEndpoint
  datagram_bytes :: "u8 list"

record ReceivedNetworkPacket =
  received_source :: NetworkEndpoint
  received_packet :: NetworkPacket

datatype Received = would_block | receive_error | datagram UdpDatagram

record ('n, 'r) Environment =
  sendto :: "NetworkEndpoint \<Rightarrow> u8 list \<Rightarrow> 'n \<Rightarrow> bool \<times> 'n"
  recvfrom :: "'n \<Rightarrow> Received \<times> 'n"
  record_rtt :: "u64 \<Rightarrow> 'r \<Rightarrow> 'r"

record 'n UdpNetworkTransport =
  transport_socket :: "'n option"
  transport_local :: NetworkEndpoint

definition is_open :: "'n UdpNetworkTransport \<Rightarrow> bool" where
  "is_open t \<longleftrightarrow> transport_socket t \<noteq> None"

definition send_datagram ::
  "('n, 'r) Environment \<Rightarrow> NetworkEndpoint \<Rightarrow> u8 list \<Rightarrow> 'n UdpNetworkTransport
     \<Rightarrow> unit result \<times> 'n UdpNetworkTransport" where
  "send_datagram env destination bytes t =
     (case transport_socket t of
        None \<Rightarrow> (failure backend_unavailable ''UDP socket is closed'', t)
      | Some n \<Rightarrow>
          if port destination = 0
          then (failure invalid_argument ''UDP destination port must be non-zero'', t)
          else if kNetworkTransportMaxDatagram < length bytes
          then (failure invalid_argument ''UDP datagram exceeds transport limit'', t)
          else
            let (sent, n') = sendto env destination bytes n;
                t' = t\<lparr>transport_socket := Some n'\<rparr>
            in if sent then (success (), t')
               else (failure io_error ''UDP datagram send failed'', t'))"

definition receive_datagram ::
  "('n, 'r) Environment \<Rightarrow> 'n UdpNetworkTransport
     \<Rightarrow> UdpDatagram option result \<times> 'n UdpNetworkTransport" where
  "receive_datagram env t =
     (case transport_socket t of
        None \<Rightarrow> (failure backend_unavailable ''UDP socket is closed'', t)
      | Some n \<Rightarrow>
          let (r, n') = recvfrom env n; t' = t\<lparr>transport_socket := Some n'\<rparr> in
          case r of
            would_block \<Rightarrow> (success None, t')
          | receive_error \<Rightarrow> (failure io_error ''UDP datagram receive failed'', t')
          | datagram d \<Rightarrow>
              (success (Some (d\<lparr>datagram_bytes :=
                  take kNetworkTransportMaxDatagram (datagram_bytes d)\<rparr>)), t'))"

definition send_packet ::
  "('n, 'r) Environment \<Rightarrow> NetworkEndpoint \<Rightarrow> NetworkPacket \<Rightarrow> 'n UdpNetworkTransport
     \<Rightarrow> unit result \<times> 'n UdpNetworkTransport" where
  "send_packet env destination p t =
     (case serialize_network_packet p of
        Inl (e, d) \<Rightarrow> (failure e d, t)
      | Inr bytes \<Rightarrow> send_datagram env destination bytes t)"

definition receive_packet ::
  "('n, 'r) Environment \<Rightarrow> 'n UdpNetworkTransport
     \<Rightarrow> ReceivedNetworkPacket option result \<times> 'n UdpNetworkTransport" where
  "receive_packet env t =
     (case receive_datagram env t of
        (Inl (e, d), t') \<Rightarrow> (failure e d, t')
      | (Inr None, t') \<Rightarrow> (success None, t')
      | (Inr (Some d), t') \<Rightarrow>
          (case parse_network_packet (datagram_bytes d) of
             Inl (e, detail) \<Rightarrow> (failure e detail, t')
           | Inr p \<Rightarrow>
               (success (Some \<lparr>received_source = datagram_source d, received_packet = p\<rparr>), t')))"

section \<open>The session's state\<close>

datatype DirectSessionRole = host_role | client_role

record DirectSessionTiming =
  timing_retry_ms :: u64
  heartbeat_interval_ms :: u64
  liveness_timeout_ms :: u64
  reconnect_timeout_ms :: u64

datatype DirectSessionState = idle | connecting | connected | reconnecting | disconnected

datatype NetworkConnectionState = net_connected | net_reconnecting | net_disconnected

record 'r NetworkTelemetry =
  packets_sent :: u64
  packets_received :: u64
  packets_lost :: u64
  connection_state :: NetworkConnectionState
  rtt_figures :: 'r

record ('n, 'r) DirectUdpSession =
  role :: DirectSessionRole
  session_state :: DirectSessionState
  timing :: DirectSessionTiming
  transport :: "'n UdpNetworkTransport"
  remote :: "NetworkEndpoint option"
  reliability :: "ControlReliabilityQueue option"
  net_telemetry :: "'r NetworkTelemetry"
  next_sequence :: u32
  hello_sequence :: u32
  last_peer_receive_ms :: u64
  last_heartbeat_send_ms :: u64
  reconnect_started_ms :: u64
  has_peer_receive_time :: bool

definition check_timing :: "DirectSessionTiming \<Rightarrow> unit result" where
  "check_timing t =
     (if heartbeat_interval_ms t = 0 \<or> liveness_timeout_ms t = 0 \<or> reconnect_timeout_ms t = 0
      then failure invalid_argument
        ''direct-session heartbeat/liveness/reconnect timing must be non-zero''
      else if liveness_timeout_ms t < heartbeat_interval_ms t
      then failure invalid_argument
        ''direct-session liveness timeout must not be shorter than heartbeat interval''
      else success ())"

text \<open>\<open>bind\<close>, given what binding the socket returned.\<close>

definition bind_session ::
  "DirectSessionRole \<Rightarrow> DirectSessionTiming \<Rightarrow> 'n UdpNetworkTransport result \<Rightarrow> 'r
     \<Rightarrow> ('n, 'r) DirectUdpSession result" where
  "bind_session r t bound figures =
     (case check_timing t of
        Inl (e, d) \<Rightarrow> failure e d
      | Inr _ \<Rightarrow>
          (case bound of
             Inl (e, d) \<Rightarrow> failure e d
           | Inr tr \<Rightarrow> success \<lparr>role = r, session_state = idle, timing = t, transport = tr,
               remote = None,
               reliability = Some \<lparr>retry_interval_ms = timing_retry_ms t, pending = []\<rparr>,
               net_telemetry = \<lparr>packets_sent = 0, packets_received = 0, packets_lost = 0,
                 connection_state = net_disconnected, rtt_figures = figures\<rparr>,
               next_sequence = 1, hello_sequence = 0, last_peer_receive_ms = 0,
               last_heartbeat_send_ms = 0, reconnect_started_ms = 0,
               has_peer_receive_time = False\<rparr>))"

definition interval_elapsed :: "u64 \<Rightarrow> u64 \<Rightarrow> u64 \<Rightarrow> bool" where
  "interval_elapsed now since interval \<longleftrightarrow> since \<le> now \<and> interval \<le> now - since"

definition set_connection ::
  "NetworkConnectionState \<Rightarrow> ('n, 'r) DirectUdpSession \<Rightarrow> ('n, 'r) DirectUdpSession" where
  "set_connection c s = s\<lparr>net_telemetry := (net_telemetry s)\<lparr>connection_state := c\<rparr>\<rparr>"

definition count_sent :: "('n, 'r) DirectUdpSession \<Rightarrow> ('n, 'r) DirectUdpSession" where
  "count_sent s = s\<lparr>net_telemetry := (net_telemetry s)
     \<lparr>packets_sent := packets_sent (net_telemetry s) + 1\<rparr>\<rparr>"

definition count_received :: "('n, 'r) DirectUdpSession \<Rightarrow> ('n, 'r) DirectUdpSession" where
  "count_received s = s\<lparr>net_telemetry := (net_telemetry s)
     \<lparr>packets_received := packets_received (net_telemetry s) + 1\<rparr>\<rparr>"

definition count_lost :: "('n, 'r) DirectUdpSession \<Rightarrow> ('n, 'r) DirectUdpSession" where
  "count_lost s = s\<lparr>net_telemetry := (net_telemetry s)
     \<lparr>packets_lost := packets_lost (net_telemetry s) + 1\<rparr>\<rparr>"

definition mark_connected :: "u64 \<Rightarrow> ('n, 'r) DirectUdpSession \<Rightarrow> ('n, 'r) DirectUdpSession" where
  "mark_connected now s =
     (set_connection net_connected s)\<lparr>session_state := connected, last_peer_receive_ms := now,
       last_heartbeat_send_ms := now, reconnect_started_ms := 0, has_peer_receive_time := True\<rparr>"

definition refresh_peer_liveness ::
  "u64 \<Rightarrow> ('n, 'r) DirectUdpSession \<Rightarrow> ('n, 'r) DirectUdpSession" where
  "refresh_peer_liveness now s =
     s\<lparr>last_peer_receive_ms := now, has_peer_receive_time := True\<rparr>"

definition mark_disconnected :: "('n, 'r) DirectUdpSession \<Rightarrow> ('n, 'r) DirectUdpSession" where
  "mark_disconnected s =
     (set_connection net_disconnected s)\<lparr>session_state := disconnected, reconnect_started_ms := 0\<rparr>"

text \<open>
  \<open>reliability_->track\<close> and \<open>acknowledge\<close>; a session made by \<open>bind\<close> always has the queue,
  as the invariant below shows.
\<close>

definition track_packet ::
  "NetworkPacket \<Rightarrow> u64 \<Rightarrow> ('n, 'r) DirectUdpSession \<Rightarrow> unit result \<times> ('n, 'r) DirectUdpSession" where
  "track_packet p now s =
     (let (r, q) = track p now (the (reliability s)) in (r, s\<lparr>reliability := Some q\<rparr>))"

definition acknowledge_packet ::
  "u32 \<Rightarrow> ('n, 'r) DirectUdpSession \<Rightarrow> ('n, 'r) DirectUdpSession" where
  "acknowledge_packet n s = s\<lparr>reliability := Some (acknowledge n (the (reliability s)))\<rparr>"

definition take_sequence :: "('n, 'r) DirectUdpSession \<Rightarrow> u32 \<times> ('n, 'r) DirectUdpSession" where
  "take_sequence s = (next_sequence s, s\<lparr>next_sequence := next_sequence s + 1\<rparr>)"

definition control_packet :: "NetworkPacketKind \<Rightarrow> u32 \<Rightarrow> u32 \<Rightarrow> u64 \<Rightarrow> NetworkPacket" where
  "control_packet k s a t = \<lparr>packet_kind = k, sequence = s, ack = a, packet_frame = 0,
     timestamp_ms = t, packet_input = no_input, payload = []\<rparr>"

text \<open>\<open>transport_.send_packet(*remote_, packet)\<close> and the count of a packet sent.\<close>

definition transmit ::
  "('n, 'r) Environment \<Rightarrow> NetworkEndpoint \<Rightarrow> NetworkPacket \<Rightarrow> ('n, 'r) DirectUdpSession
     \<Rightarrow> unit result \<times> ('n, 'r) DirectUdpSession" where
  "transmit env destination p s =
     (case send_packet env destination p (transport s) of
        (Inl e, t) \<Rightarrow> (Inl e, s\<lparr>transport := t\<rparr>)
      | (Inr _, t) \<Rightarrow> (success (), count_sent (s\<lparr>transport := t\<rparr>)))"

definition send_control_packet ::
  "('n, 'r) Environment \<Rightarrow> NetworkPacket \<Rightarrow> ('n, 'r) DirectUdpSession
     \<Rightarrow> unit result \<times> ('n, 'r) DirectUdpSession" where
  "send_control_packet env p s =
     (case remote s of
        None \<Rightarrow> (failure invalid_argument ''direct-session peer is not selected'', s)
      | Some destination \<Rightarrow> transmit env destination p s)"

definition send_new_hello ::
  "('n, 'r) Environment \<Rightarrow> u64 \<Rightarrow> ('n, 'r) DirectUdpSession
     \<Rightarrow> unit result \<times> ('n, 'r) DirectUdpSession" where
  "send_new_hello env now s =
     (let (n, s1) = take_sequence s;
          hello = control_packet kind_session_hello n 0 now;
          s2 = s1\<lparr>hello_sequence := n\<rparr>
      in case track_packet hello now s2 of
           (Inl e, s3) \<Rightarrow> (Inl e, s3)
         | (Inr _, s3) \<Rightarrow> send_control_packet env hello s3)"

definition begin_reconnect ::
  "('n, 'r) Environment \<Rightarrow> u64 \<Rightarrow> ('n, 'r) DirectUdpSession
     \<Rightarrow> unit result \<times> ('n, 'r) DirectUdpSession" where
  "begin_reconnect env now s =
     (if remote s = None
      then (failure invalid_argument ''direct-session reconnect requires pinned peer'', s)
      else
        let s1 = count_lost (set_connection net_reconnecting s);
            s2 = s1\<lparr>session_state := reconnecting, reconnect_started_ms := now,
                    last_heartbeat_send_ms := now\<rparr>
        in if role s = client_role then send_new_hello env now s2 else (success (), s2))"

definition send_heartbeat ::
  "('n, 'r) Environment \<Rightarrow> u64 \<Rightarrow> ('n, 'r) DirectUdpSession
     \<Rightarrow> unit result \<times> ('n, 'r) DirectUdpSession" where
  "send_heartbeat env now s =
     (let (n, s1) = take_sequence s in
      case send_control_packet env (control_packet kind_ping n 0 now) s1 of
        (Inl e, s2) \<Rightarrow> (Inl e, s2)
      | (Inr _, s2) \<Rightarrow> (success (), s2\<lparr>last_heartbeat_send_ms := now\<rparr>))"

section \<open>Operations\<close>

definition connect ::
  "('n, 'r) Environment \<Rightarrow> NetworkEndpoint \<Rightarrow> u64 \<Rightarrow> ('n, 'r) DirectUdpSession
     \<Rightarrow> unit result \<times> ('n, 'r) DirectUdpSession" where
  "connect env peer now s =
     (if role s \<noteq> client_role
      then (failure invalid_argument ''only a direct-session client initiates connect'', s)
      else if port peer = 0
      then (failure invalid_argument ''direct-session remote port must be non-zero'', s)
      else if session_state s = connected \<or> session_state s = connecting \<or>
              session_state s = reconnecting
      then (failure invalid_argument ''direct-session connect is already active'', s)
      else
        case send_new_hello env now (s\<lparr>remote := Some peer\<rparr>) of
          (Inl e, s1) \<Rightarrow>
            let s2 = (if hello_sequence s1 \<noteq> 0 then acknowledge_packet (hello_sequence s1) s1 else s1)
            in (Inl e, s2\<lparr>hello_sequence := 0, remote := None\<rparr>)
        | (Inr _, s1) \<Rightarrow>
            (success (), (set_connection net_reconnecting s1)\<lparr>session_state := connecting\<rparr>))"

fun retransmit_all ::
  "('n, 'r) Environment \<Rightarrow> NetworkEndpoint \<Rightarrow> NetworkPacket list \<Rightarrow> ('n, 'r) DirectUdpSession
     \<Rightarrow> unit result \<times> ('n, 'r) DirectUdpSession" where
  "retransmit_all env destination [] s = (success (), s)"
| "retransmit_all env destination (p # ps) s =
     (case transmit env destination p s of
        (Inl e, s1) \<Rightarrow> (Inl e, s1)
      | (Inr _, s1) \<Rightarrow> retransmit_all env destination ps s1)"

definition retransmit_due ::
  "('n, 'r) Environment \<Rightarrow> u64 \<Rightarrow> ('n, 'r) DirectUdpSession
     \<Rightarrow> unit result \<times> ('n, 'r) DirectUdpSession" where
  "retransmit_due env now s =
     (case remote s of
        Some destination \<Rightarrow>
          if session_state s \<noteq> disconnected
          then
            let (due, q) = due_retransmits now (the (reliability s))
            in retransmit_all env destination due (s\<lparr>reliability := Some q\<rparr>)
          else (success (), s)
      | None \<Rightarrow> (success (), s))"

text \<open>Which packets the loop looks at, and the peer a waiting host pins.\<close>

definition admit ::
  "NetworkEndpoint \<Rightarrow> NetworkPacket \<Rightarrow> ('n, 'r) DirectUdpSession
     \<Rightarrow> ('n, 'r) DirectUdpSession option" where
  "admit source p s =
     (if session_state s = disconnected then None
      else if role s = host_role \<and> session_state s = idle
      then (if packet_kind p \<noteq> kind_session_hello then None else Some (s\<lparr>remote := Some source\<rparr>))
      else if remote s \<noteq> Some source then None
      else Some s)"

definition note_received ::
  "NetworkPacket \<Rightarrow> ('n, 'r) DirectUdpSession \<Rightarrow> ('n, 'r) DirectUdpSession" where
  "note_received p s =
     (let s1 = count_received s in if ack p \<noteq> 0 then acknowledge_packet (ack p) s1 else s1)"

definition answer_hello ::
  "('n, 'r) Environment \<Rightarrow> u64 \<Rightarrow> NetworkPacket \<Rightarrow> ('n, 'r) DirectUdpSession
     \<Rightarrow> unit result \<times> ('n, 'r) DirectUdpSession" where
  "answer_hello env now p s =
     (let (n, s1) = take_sequence s;
          accept = control_packet kind_session_accept n (sequence p) now
      in case track_packet accept now s1 of
           (Inl e, s2) \<Rightarrow> (Inl e, s2)
         | (Inr _, s2) \<Rightarrow>
             (case send_control_packet env accept s2 of
                (Inl e, s3) \<Rightarrow> (Inl e, acknowledge_packet n s3)
              | (Inr _, s3) \<Rightarrow> (success (), mark_connected now s3)))"

definition accept_session ::
  "('n, 'r) Environment \<Rightarrow> u64 \<Rightarrow> NetworkPacket \<Rightarrow> ('n, 'r) DirectUdpSession
     \<Rightarrow> unit result \<times> ('n, 'r) DirectUdpSession" where
  "accept_session env now p s =
     (if ack p \<noteq> hello_sequence s then (success (), s)
      else
        let s1 = mark_connected now (acknowledge_packet (hello_sequence s) s);
            (n, s2) = take_sequence s1
        in send_control_packet env (control_packet kind_ping n (sequence p) now) s2)"

definition note_pong ::
  "('n, 'r) Environment \<Rightarrow> u64 \<Rightarrow> NetworkPacket \<Rightarrow> ('n, 'r) DirectUdpSession
     \<Rightarrow> ('n, 'r) DirectUdpSession" where
  "note_pong env now p s =
     (if timestamp_ms p \<le> now
      then s\<lparr>net_telemetry := (net_telemetry s)
        \<lparr>rtt_figures := record_rtt env (now - timestamp_ms p) (rtt_figures (net_telemetry s))\<rparr>\<rparr>
      else s)"

text \<open>A packet from the peer on a connected session; \<open>Some\<close> is a packet delivered.\<close>

definition connected_packet ::
  "('n, 'r) Environment \<Rightarrow> u64 \<Rightarrow> NetworkPacket \<Rightarrow> ('n, 'r) DirectUdpSession
     \<Rightarrow> NetworkPacket option result \<times> ('n, 'r) DirectUdpSession" where
  "connected_packet env now p s =
     (let s1 = refresh_peer_liveness now s in
      if packet_kind p = kind_ping
      then
        let (n, s2) = take_sequence s1 in
        (case send_control_packet env (control_packet kind_pong n (sequence p) (timestamp_ms p)) s2 of
           (Inl e, s3) \<Rightarrow> (Inl e, s3)
         | (Inr _, s3) \<Rightarrow> (success None, s3))
      else if packet_kind p = kind_pong then (success None, note_pong env now p s1)
      else if packet_kind p = kind_session_hello \<or> packet_kind p = kind_session_accept
      then (success None, s1)
      else (success (Some p), s1))"

definition nothing_delivered ::
  "unit result \<times> ('n, 'r) DirectUdpSession
     \<Rightarrow> NetworkPacket option result \<times> ('n, 'r) DirectUdpSession" where
  "nothing_delivered x = (case x of (Inl e, s) \<Rightarrow> (Inl e, s) | (Inr _, s) \<Rightarrow> (success None, s))"

definition handle_packet ::
  "('n, 'r) Environment \<Rightarrow> u64 \<Rightarrow> NetworkPacket \<Rightarrow> ('n, 'r) DirectUdpSession
     \<Rightarrow> NetworkPacket option result \<times> ('n, 'r) DirectUdpSession" where
  "handle_packet env now p s =
     (if (session_state s = connected \<or> session_state s = reconnecting) \<and>
         packet_kind p = kind_disconnect
      then (success None, mark_disconnected s)
      else if role s = host_role \<and> packet_kind p = kind_session_hello
      then nothing_delivered (answer_hello env now p s)
      else if role s = client_role \<and>
         (session_state s = connecting \<or> session_state s = reconnecting) \<and>
         packet_kind p = kind_session_accept
      then nothing_delivered (accept_session env now p s)
      else if session_state s \<noteq> connected then (success None, s)
      else connected_packet env now p s)"

fun receive_loop ::
  "nat \<Rightarrow> ('n, 'r) Environment \<Rightarrow> u64 \<Rightarrow> NetworkPacket list \<Rightarrow> ('n, 'r) DirectUdpSession
     \<Rightarrow> (NetworkPacket list result \<times> ('n, 'r) DirectUdpSession) option" where
  "receive_loop 0 env now delivered s = None"
| "receive_loop (Suc fuel) env now delivered s =
     (case receive_packet env (transport s) of
        (Inl (e, d), t) \<Rightarrow> Some (failure e d, s\<lparr>transport := t\<rparr>)
      | (Inr None, t) \<Rightarrow> Some (success delivered, s\<lparr>transport := t\<rparr>)
      | (Inr (Some r), t) \<Rightarrow>
          let s0 = s\<lparr>transport := t\<rparr> in
          case admit (received_source r) (received_packet r) s0 of
            None \<Rightarrow> receive_loop fuel env now delivered s0
          | Some s1 \<Rightarrow>
              (case handle_packet env now (received_packet r) (note_received (received_packet r) s1) of
                 (Inl (e, d), s2) \<Rightarrow> Some (failure e d, s2)
               | (Inr None, s2) \<Rightarrow> receive_loop fuel env now delivered s2
               | (Inr (Some p), s2) \<Rightarrow> receive_loop fuel env now (delivered @ [p]) s2))"

text \<open>The timers after the loop: liveness, heartbeat, reconnection.\<close>

definition liveness_check ::
  "('n, 'r) Environment \<Rightarrow> u64 \<Rightarrow> ('n, 'r) DirectUdpSession
     \<Rightarrow> unit result \<times> ('n, 'r) DirectUdpSession" where
  "liveness_check env now s =
     (if session_state s = connected \<and> remote s \<noteq> None
      then
        if has_peer_receive_time s \<and>
           interval_elapsed now (last_peer_receive_ms s) (liveness_timeout_ms (timing s))
        then begin_reconnect env now s
        else if interval_elapsed now (last_heartbeat_send_ms s) (heartbeat_interval_ms (timing s))
        then send_heartbeat env now s
        else (success (), s)
      else (success (), s))"

definition reconnect_expired :: "u64 \<Rightarrow> ('n, 'r) DirectUdpSession \<Rightarrow> bool" where
  "reconnect_expired now s \<longleftrightarrow> session_state s = reconnecting \<and>
     interval_elapsed now (reconnect_started_ms s) (reconnect_timeout_ms (timing s))"

definition finish_poll ::
  "('n, 'r) Environment \<Rightarrow> u64 \<Rightarrow> NetworkPacket list \<Rightarrow> ('n, 'r) DirectUdpSession
     \<Rightarrow> NetworkPacket list result \<times> ('n, 'r) DirectUdpSession" where
  "finish_poll env now delivered s =
     (case liveness_check env now s of
        (Inl (e, d), s1) \<Rightarrow> (failure e d, s1)
      | (Inr _, s1) \<Rightarrow>
          (success delivered, if reconnect_expired now s1 then mark_disconnected s1 else s1))"

definition poll ::
  "nat \<Rightarrow> ('n, 'r) Environment \<Rightarrow> u64 \<Rightarrow> ('n, 'r) DirectUdpSession
     \<Rightarrow> (NetworkPacket list result \<times> ('n, 'r) DirectUdpSession) option" where
  "poll fuel env now s =
     (if reliability s = None
      then Some (failure backend_unavailable ''direct UDP session is not bound'', s)
      else if reconnect_expired now s then Some (success [], mark_disconnected s)
      else
        case retransmit_due env now s of
          (Inl (e, d), s1) \<Rightarrow> Some (failure e d, s1)
        | (Inr _, s1) \<Rightarrow>
            (case receive_loop fuel env now [] s1 of
               None \<Rightarrow> None
             | Some (Inl (e, d), s2) \<Rightarrow> Some (failure e d, s2)
             | Some (Inr delivered, s2) \<Rightarrow> Some (finish_poll env now delivered s2)))"

definition send_gameplay ::
  "('n, 'r) Environment \<Rightarrow> NetworkPacket \<Rightarrow> ('n, 'r) DirectUdpSession
     \<Rightarrow> unit result \<times> ('n, 'r) DirectUdpSession" where
  "send_gameplay env p s =
     (case remote s of
        None \<Rightarrow> (failure invalid_argument ''direct-session gameplay send requires connection'', s)
      | Some destination \<Rightarrow>
          if session_state s \<noteq> connected
          then (failure invalid_argument ''direct-session gameplay send requires connection'', s)
          else if is_reliable_control (packet_kind p)
          then (failure invalid_argument
                 ''direct-session control packets are owned by the session state machine'', s)
          else transmit env destination p s)"

definition disconnect ::
  "('n, 'r) Environment \<Rightarrow> u64 \<Rightarrow> ('n, 'r) DirectUdpSession
     \<Rightarrow> unit result \<times> ('n, 'r) DirectUdpSession" where
  "disconnect env now s =
     (case remote s of
        None \<Rightarrow> (failure invalid_argument ''direct-session disconnect requires connection'', s)
      | Some destination \<Rightarrow>
          if session_state s \<noteq> connected
          then (failure invalid_argument ''direct-session disconnect requires connection'', s)
          else
            let (n, s1) = take_sequence s in
            (case transmit env destination (control_packet kind_disconnect n 0 now) s1 of
               (Inl e, s2) \<Rightarrow> (Inl e, s2)
             | (Inr _, s2) \<Rightarrow> (success (), mark_disconnected s2)))"

end
