(* ===== verification/Direct_Session_Props.thy ===== *)
theory Direct_Session_Props
  imports Direct_Session
begin

text \<open>
  The invariant of the direct session, kept by every operation on every path, failures
  included; what a poll delivers; and the deadlines a successful poll has enforced.
  \<open>same_core\<close> is the frame rule of everything that only talks to the transport and the
  queue.
\<close>

section \<open>Frames\<close>

definition queue_some :: "('n, 'r) DirectUdpSession \<Rightarrow> bool" where
  "queue_some s \<longleftrightarrow> (\<exists>q. reliability s = Some q \<and> queue_ok q)"

definition same_core :: "('n, 'r) DirectUdpSession \<Rightarrow> ('n, 'r) DirectUdpSession \<Rightarrow> bool" where
  "same_core s s' \<longleftrightarrow> role s' = role s \<and> session_state s' = session_state s \<and>
     timing s' = timing s \<and> remote s' = remote s \<and>
     connection_state (net_telemetry s') = connection_state (net_telemetry s) \<and>
     last_peer_receive_ms s' = last_peer_receive_ms s \<and>
     reconnect_started_ms s' = reconnect_started_ms s \<and>
     has_peer_receive_time s' = has_peer_receive_time s \<and> (queue_some s \<longrightarrow> queue_some s')"

lemma same_core_refl [simp]: "same_core s s"
  by (simp add: same_core_def)

lemma same_core_trans: "same_core s t \<Longrightarrow> same_core t u \<Longrightarrow> same_core s u"
  by (auto simp: same_core_def)

lemma same_core_updates [simp]:
  "same_core s (s\<lparr>transport := t\<rparr>)" "same_core s (count_sent s)" "same_core s (count_received s)"
  "same_core s (s\<lparr>next_sequence := n\<rparr>)" "same_core s (s\<lparr>hello_sequence := n\<rparr>)"
  "same_core s (s\<lparr>last_heartbeat_send_ms := w\<rparr>)" "same_core s (snd (take_sequence s))"
  by (simp_all add: same_core_def queue_some_def count_sent_def count_received_def take_sequence_def)

lemma same_core_acknowledge [simp]: "same_core s (acknowledge_packet n s)"
  by (auto simp: same_core_def queue_some_def acknowledge_packet_def intro: queue_ok_acknowledge)

lemma same_core_track: "track_packet p now s = (r, s') \<Longrightarrow> same_core s s'"
  using queue_ok_track [of "the (reliability s)" p now]
  by (auto simp: same_core_def queue_some_def track_packet_def split: prod.splits)

lemma same_core_transmit: "transmit env d p s = (r, s') \<Longrightarrow> same_core s s'"
  by (auto simp: transmit_def split: prod.splits sum.splits
      intro: same_core_trans [OF same_core_updates(1) same_core_updates(2)])

lemma same_core_control: "send_control_packet env p s = (r, s') \<Longrightarrow> same_core s s'"
  by (auto simp: send_control_packet_def split: option.splits dest: same_core_transmit)

lemma same_core_hello: "send_new_hello env now s = (r, s') \<Longrightarrow> same_core s s'"
proof -
  assume h: "send_new_hello env now s = (r, s')"
  let ?s2 = "(snd (take_sequence s))\<lparr>hello_sequence := next_sequence s\<rparr>"
  have s2: "same_core s ?s2"
    by (rule same_core_trans [OF same_core_updates(7) same_core_updates(5)])
  obtain r3 s3 where tr: "track_packet (control_packet kind_session_hello (next_sequence s) 0 now)
      now ?s2 = (r3, s3)" by force
  have s3: "same_core s s3"
    by (rule same_core_trans [OF s2 same_core_track [OF tr]])
  show ?thesis
    using h tr s3 same_core_trans [OF s3 same_core_control]
    by (cases r3) (auto simp: send_new_hello_def take_sequence_def Let_def)
qed

lemma same_core_heartbeat: "send_heartbeat env now s = (r, s') \<Longrightarrow> same_core s s'"
proof -
  assume h: "send_heartbeat env now s = (r, s')"
  obtain r1 s1 where tr: "send_control_packet env
      (control_packet kind_ping (next_sequence s) 0 now) (snd (take_sequence s)) = (r1, s1)"
    by force
  have s1: "same_core s s1"
    by (rule same_core_trans [OF same_core_updates(7) same_core_control [OF tr]])
  show ?thesis
    using h tr s1 same_core_trans [OF s1 same_core_updates(6)]
    by (cases r1) (auto simp: send_heartbeat_def take_sequence_def Let_def)
qed

lemma same_core_retransmit_all: "retransmit_all env d ps s = (r, s') \<Longrightarrow> same_core s s'"
proof (induction env d ps s arbitrary: r s' rule: retransmit_all.induct)
  case (2 env d p ps s)
  obtain r1 s1 where tr: "transmit env d p s = (r1, s1)" by force
  show ?case
  proof (cases r1)
    case (Inl e)
    then show ?thesis using 2 tr same_core_transmit [OF tr] by simp
  next
    case (Inr u)
    then have "same_core s1 s'" using 2 tr by simp
    then show ?thesis using same_core_trans [OF same_core_transmit [OF tr]] by blast
  qed
qed simp

lemma same_core_retransmit_due:
  assumes "queue_some s" and h: "retransmit_due env now s = (r, s')"
  shows "same_core s s'"
proof -
  let ?q = "snd (due_retransmits now (the (reliability s)))"
  have "queue_some (s\<lparr>reliability := Some ?q\<rparr>)"
    using assms(1) queue_ok_due by (auto simp: queue_some_def)
  then have "same_core s (s\<lparr>reliability := Some ?q\<rparr>)"
    by (simp add: same_core_def)
  then show ?thesis
    using h same_core_retransmit_all same_core_trans
    by (fastforce simp: retransmit_due_def split: option.splits if_splits prod.splits)
qed

lemma same_core_note_received: "same_core s (note_received p s)"
  by (simp add: note_received_def Let_def
      same_core_trans [OF same_core_updates(3) same_core_acknowledge])

section \<open>The invariant\<close>

definition connection_of :: "DirectSessionState \<Rightarrow> NetworkConnectionState" where
  "connection_of st = (case st of
     idle \<Rightarrow> net_disconnected | connecting \<Rightarrow> net_reconnecting | connected \<Rightarrow> net_connected
   | reconnecting \<Rightarrow> net_reconnecting | disconnected \<Rightarrow> net_disconnected)"

definition direct_ok :: "('n, 'r) DirectUdpSession \<Rightarrow> bool" where
  "direct_ok s \<longleftrightarrow> queue_some s \<and>
     (session_state s \<in> {connecting, connected, reconnecting} \<longrightarrow> remote s \<noteq> None) \<and>
     (session_state s = connecting \<longrightarrow> role s = client_role) \<and>
     (session_state s = connected \<longrightarrow> has_peer_receive_time s) \<and>
     connection_state (net_telemetry s) = connection_of (session_state s) \<and>
     reconnect_timeout_ms (timing s) \<noteq> 0"

lemma direct_ok_same_core: "direct_ok s \<Longrightarrow> same_core s s' \<Longrightarrow> direct_ok s'"
  by (auto simp: direct_ok_def same_core_def)

lemma mark_connected_ok:
  "queue_some s \<Longrightarrow> remote s \<noteq> None \<Longrightarrow> reconnect_timeout_ms (timing s) \<noteq> 0 \<Longrightarrow>
   direct_ok (mark_connected now s)"
  by (simp add: direct_ok_def mark_connected_def set_connection_def queue_some_def connection_of_def)

lemma mark_disconnected_ok: "direct_ok s \<Longrightarrow> direct_ok (mark_disconnected s)"
  by (simp add: direct_ok_def mark_disconnected_def set_connection_def queue_some_def
      connection_of_def)

lemma bind_session_ok: "bind_session r t bound figures = Inr s \<Longrightarrow> direct_ok s"
  by (auto simp: bind_session_def check_timing_def direct_ok_def queue_some_def queue_ok_def
      connection_of_def split: sum.splits prod.splits if_splits)

lemma begin_reconnect_ok:
  assumes ok: "direct_ok s" and h: "begin_reconnect env now s = (r, s')"
  shows "direct_ok s' \<and> (r = Inr () \<longrightarrow> session_state s' = reconnecting \<and>
    reconnect_started_ms s' = now \<and> timing s' = timing s)"
proof (cases "remote s = None")
  case True
  then show ?thesis using ok h by (auto simp: begin_reconnect_def)
next
  case False
  let ?s = "(count_lost (set_connection net_reconnecting s))\<lparr>session_state := reconnecting,
     reconnect_started_ms := now, last_heartbeat_send_ms := now\<rparr>"
  have s: "direct_ok ?s" "session_state ?s = reconnecting" "reconnect_started_ms ?s = now"
    "timing ?s = timing s"
    using ok False by (simp_all add: direct_ok_def count_lost_def set_connection_def queue_some_def
        connection_of_def)
  show ?thesis
  proof (cases "role s = client_role")
    case True
    then have "send_new_hello env now ?s = (r, s')"
      using h False by (simp add: begin_reconnect_def Let_def)
    note same = same_core_hello [OF this]
    then show ?thesis
      using direct_ok_same_core [OF s(1) same] s(2-4) unfolding same_core_def by simp
  next
    case False
    then show ?thesis
      using h \<open>remote s \<noteq> None\<close> s by (simp add: begin_reconnect_def Let_def)
  qed
qed

lemma connect_ok:
  assumes ok: "direct_ok s" and h: "connect env peer now s = (r, s')"
  shows "direct_ok s'"
proof (cases "role s = client_role \<and> port peer \<noteq> 0 \<and> session_state s \<in> {idle, disconnected}")
  case True
  let ?s = "s\<lparr>remote := Some peer\<rparr>"
  obtain r1 s1 where hello: "send_new_hello env now ?s = (r1, s1)" by force
  note same = same_core_hello [OF hello]
  have s1: "role s1 = client_role" "session_state s1 \<in> {idle, disconnected}" "queue_some s1"
    "remote s1 = Some peer" "timing s1 = timing s"
    "connection_state (net_telemetry s1) = net_disconnected"
    using same ok True
    by (auto simp: same_core_def direct_ok_def queue_some_def connection_of_def)
  have ack: "queue_some (acknowledge_packet n s1)" for n
    using same_core_acknowledge [of s1 n] s1(3) by (simp add: same_core_def)
  have run: "connect env peer now s = (case r1 of
      Inl e \<Rightarrow> (Inl e, (if hello_sequence s1 \<noteq> 0 then acknowledge_packet (hello_sequence s1) s1 else s1)
         \<lparr>hello_sequence := 0, remote := None\<rparr>)
    | Inr _ \<Rightarrow> (success (), (set_connection net_reconnecting s1)\<lparr>session_state := connecting\<rparr>))"
    using True hello by (cases r1; cases "session_state s") (simp_all add: connect_def)
  have dropped: "direct_ok (t\<lparr>hello_sequence := 0, remote := None\<rparr>)" if "same_core s1 t" for t
  proof -
    have t: "queue_some t" "session_state t = session_state s1" "timing t = timing s"
      "connection_state (net_telemetry t) = net_disconnected"
      using that s1 by (simp_all add: same_core_def)
    have "session_state t = idle \<or> session_state t = disconnected"
      using t(2) s1(2) by simp
    then show ?thesis
      using t ok by (elim disjE) (simp_all add: direct_ok_def queue_some_def connection_of_def)
  qed
  show ?thesis
  proof (cases r1)
    case (Inl e)
    then have "s' = (if hello_sequence s1 \<noteq> 0 then acknowledge_packet (hello_sequence s1) s1 else s1)
        \<lparr>hello_sequence := 0, remote := None\<rparr>"
      using h unfolding run by simp
    then show ?thesis
      using dropped [OF same_core_refl] dropped [OF same_core_acknowledge] by simp
  next
    case (Inr u)
    have "direct_ok ((set_connection net_reconnecting s1)\<lparr>session_state := connecting\<rparr>)"
      using s1 ok by (simp add: direct_ok_def set_connection_def queue_some_def connection_of_def)
    then show ?thesis
      using h run Inr by simp
  qed
next
  case False
  then have "snd (connect env peer now s) = s"
    by (cases "role s"; cases "session_state s"; cases "port peer = 0") (simp_all add: connect_def)
  then show ?thesis
    using ok h by simp
qed

lemma admit_ok: "direct_ok s \<Longrightarrow> admit source p s = Some s' \<Longrightarrow>
    direct_ok s' \<and> session_state s' \<noteq> disconnected \<and> remote s' = Some source \<and> timing s' = timing s \<and>
    (role s' = host_role \<or> session_state s' \<noteq> idle \<or> role s' = client_role)"
  by (cases "role s") (auto simp: admit_def direct_ok_def queue_some_def split: if_splits)

lemma nothing_delivered_fst [simp]:
  "nothing_delivered (r, s) = (case r of Inl e \<Rightarrow> (Inl e, s) | Inr _ \<Rightarrow> (success None, s))"
  by (simp add: nothing_delivered_def)

lemma answer_hello_ok:
  assumes ok: "direct_ok s" "remote s \<noteq> None" and h: "answer_hello env now p s = (r, s')"
  shows "direct_ok s' \<and> timing s' = timing s \<and> remote s' = remote s \<and> role s' = role s"
proof -
  let ?a = "control_packet kind_session_accept (next_sequence s) (sequence p) now"
  obtain r2 s2 where tr: "track_packet ?a now (snd (take_sequence s)) = (r2, s2)" by force
  obtain r3 s3 where sd: "send_control_packet env ?a s2 = (r3, s3)" by force
  have c2: "same_core s s2"
    by (rule same_core_trans [OF same_core_updates(7) same_core_track [OF tr]])
  have c3: "same_core s s3"
    by (rule same_core_trans [OF c2 same_core_control [OF sd]])
  have c4: "same_core s (acknowledge_packet n s3)" for n
    by (rule same_core_trans [OF c3 same_core_acknowledge])
  have s3: "queue_some s3" "remote s3 = remote s" "timing s3 = timing s" "role s3 = role s"
    using c3 ok(1) by (simp_all add: same_core_def direct_ok_def)
  have mc: "direct_ok (mark_connected now s3)"
    using s3 ok by (intro mark_connected_ok) (simp_all add: direct_ok_def)
  have frame: "timing t = timing s \<and> remote t = remote s \<and> role t = role s" if "same_core s t" for t
    using that by (simp add: same_core_def)
  have eq: "(r, s') = (case r2 of Inl e \<Rightarrow> (Inl e, s2) | Inr _ \<Rightarrow>
      (case r3 of Inl e \<Rightarrow> (Inl e, acknowledge_packet (next_sequence s) s3)
       | Inr _ \<Rightarrow> (success (), mark_connected now s3)))"
    using h [symmetric] tr sd
    by (cases r2; cases r3) (simp_all add: answer_hello_def take_sequence_def Let_def)
  show ?thesis
    using eq mc s3 frame [OF c2] frame [OF c4] direct_ok_same_core [OF ok(1) c2]
      direct_ok_same_core [OF ok(1) c4]
    by (cases r2; cases r3) (simp_all add: mark_connected_def set_connection_def)
qed

lemma accept_session_ok:
  assumes ok: "direct_ok s" "remote s \<noteq> None" and h: "accept_session env now p s = (r, s')"
  shows "direct_ok s' \<and> timing s' = timing s \<and> remote s' = remote s \<and> role s' = role s"
proof (cases "ack p = hello_sequence s")
  case True
  let ?a = "acknowledge_packet (hello_sequence s) s"
  let ?s1 = "mark_connected now ?a"
  have a: "queue_some ?a" "remote ?a = remote s" "timing ?a = timing s" "role ?a = role s"
    using same_core_acknowledge [of s "hello_sequence s"] ok(1)
    by (simp_all add: same_core_def direct_ok_def)
  have s1: "direct_ok ?s1"
    using a ok by (intro mark_connected_ok) (simp_all add: direct_ok_def)
  have f1: "timing ?s1 = timing s" "remote ?s1 = remote s" "role ?s1 = role s"
    using a by (simp_all add: mark_connected_def set_connection_def)
  have "send_control_packet env (control_packet kind_ping (next_sequence ?s1) (sequence p) now)
      (snd (take_sequence ?s1)) = (r, s')"
    using h True by (simp add: accept_session_def Let_def take_sequence_def)
  then have same: "same_core ?s1 s'"
    using same_core_trans [OF same_core_updates(7) same_core_control] by blast
  then show ?thesis
    using direct_ok_same_core [OF s1 same] f1 by (simp add: same_core_def)
next
  case False
  then show ?thesis using ok h by (simp add: accept_session_def)
qed

lemma refresh_ok: "direct_ok s \<Longrightarrow> direct_ok (refresh_peer_liveness now s)"
  by (simp add: direct_ok_def refresh_peer_liveness_def queue_some_def)

lemma connected_packet_ok:
  assumes ok: "direct_ok s" and h: "connected_packet env now p s = (r, s')"
  shows "direct_ok s' \<and> timing s' = timing s \<and> remote s' = remote s \<and> role s' = role s"
proof -
  let ?s1 = "refresh_peer_liveness now s"
  have s1: "direct_ok ?s1" by (rule refresh_ok [OF ok])
  have f1: "timing ?s1 = timing s" "remote ?s1 = remote s" "role ?s1 = role s"
    by (simp_all add: refresh_peer_liveness_def)
  show ?thesis
  proof (cases "packet_kind p = kind_ping")
    case True
    obtain r3 s3 where sd: "send_control_packet env (control_packet kind_pong (next_sequence ?s1)
        (sequence p) (timestamp_ms p)) (snd (take_sequence ?s1)) = (r3, s3)" by force
    have c: "same_core ?s1 s3"
      by (rule same_core_trans [OF same_core_updates(7) same_core_control [OF sd]])
    have "s' = s3"
      using h sd True by (cases r3) (simp_all add: connected_packet_def Let_def take_sequence_def)
    then show ?thesis
      using c direct_ok_same_core [OF s1 c] f1 by (simp add: same_core_def)
  next
    case False
    have "same_core ?s1 (note_pong env now p ?s1)"
      by (simp add: note_pong_def same_core_def queue_some_def)
    then have "same_core ?s1 s'"
      using h False by (auto simp: connected_packet_def Let_def split: if_splits)
    then show ?thesis
      using direct_ok_same_core [OF s1] f1 by (simp add: same_core_def)
  qed
qed

lemma handle_packet_ok:
  assumes ok: "direct_ok s" "remote s \<noteq> None" and h: "handle_packet env now p s = (r, s')"
  shows "direct_ok s' \<and> timing s' = timing s \<and> remote s' = remote s \<and> role s' = role s"
proof -
  have nd: "P s'" if "nothing_delivered x = (r, s')" "P (snd x)" for x and P
    using that by (cases x; cases "fst x") auto
  have md: "timing (mark_disconnected s) = timing s" "remote (mark_disconnected s) = remote s"
    "role (mark_disconnected s) = role s"
    by (simp_all add: mark_disconnected_def set_connection_def)
  let ?P = "\<lambda>t. direct_ok t \<and> timing t = timing s \<and> remote t = remote s \<and> role t = role s"
  consider (a) "s' = mark_disconnected s" | (b) "nothing_delivered (answer_hello env now p s) = (r, s')"
    | (c) "nothing_delivered (accept_session env now p s) = (r, s')" | (d) "s' = s"
    | (e) "connected_packet env now p s = (r, s')"
    using h unfolding handle_packet_def by (auto split: if_splits)
  then show ?thesis
  proof cases
    case a
    then show ?thesis using mark_disconnected_ok [OF ok(1)] md by simp
  next
    case b
    show ?thesis
      by (rule nd [OF b, of ?P]) (metis answer_hello_ok [OF ok] prod.collapse)
  next
    case c
    show ?thesis
      by (rule nd [OF c, of ?P]) (metis accept_session_ok [OF ok] prod.collapse)
  next
    case d
    then show ?thesis using ok by simp
  next
    case e
    then show ?thesis using connected_packet_ok [OF ok(1) e] by simp
  qed
qed

section \<open>A whole poll\<close>

text \<open>What the transport and every handled packet keep, the loop keeps.\<close>

lemma receive_loop_rule:
  assumes "receive_loop fuel env now delivered s = Some (r, s')" "I s"
    and transport: "\<And>s t. I s \<Longrightarrow> I (s\<lparr>transport := t\<rparr>)"
    and packet: "\<And>s source p s1 y s2. I s \<Longrightarrow> admit source p s = Some s1 \<Longrightarrow>
      handle_packet env now p (note_received p s1) = (y, s2) \<Longrightarrow> I s2"
  shows "I s'"
  using assms(1,2)
proof (induction fuel arbitrary: delivered s)
  case (Suc fuel)
  obtain x t where rp: "receive_packet env (transport s) = (x, t)" by force
  let ?s0 = "s\<lparr>transport := t\<rparr>"
  have s0: "I ?s0" by (rule transport [OF Suc.prems(2)])
  consider (stop) "s' = ?s0" | (skip) rc where "x = Inr (Some rc)"
      "receive_loop fuel env now delivered ?s0 = Some (r, s')"
    | (packet) rc s1 where "x = Inr (Some rc)"
      "admit (received_source rc) (received_packet rc) ?s0 = Some s1"
  proof (cases x)
    case (Inl e)
    then show ?thesis using Suc.prems(1) rp that(1) by (cases e) simp
  next
    case (Inr o1)
    show ?thesis
    proof (cases o1)
      case None
      then show ?thesis using Suc.prems(1) rp Inr that(1) by simp
    next
      case (Some rc)
      show ?thesis
        using Suc.prems(1) rp Inr Some that(2,3)
        by (cases "admit (received_source rc) (received_packet rc) ?s0") (simp_all add: Let_def)
    qed
  qed
  then show ?case
  proof cases
    case stop
    then show ?thesis using s0 by simp
  next
    case (skip rc)
    then show ?thesis using Suc.IH [OF skip(2) s0] by simp
  next
    case (packet rc s1)
    let ?p = "received_packet rc"
    obtain y s2 where hp: "handle_packet env now ?p (note_received ?p s1) = (y, s2)" by force
    have s2: "I s2" by (rule assms(4) [OF s0 packet(2) hp])
    show ?thesis
    proof (cases y)
      case (Inl e)
      then have "s' = s2"
        using Suc.prems(1) rp packet hp by (cases e) (simp add: Let_def)
      then show ?thesis using s2 by simp
    next
      case (Inr o2)
      obtain d' where "receive_loop fuel env now d' s2 = Some (r, s')"
        using Suc.prems(1) rp packet hp Inr by (cases o2) (auto simp: Let_def)
      from Suc.IH [OF this s2] show ?thesis .
    qed
  qed
qed simp

text \<open>A packet that is let in meets a well-formed session whose peer sent it.\<close>

lemma admitted_ok:
  assumes ok: "direct_ok s" and ad: "admit source p s = Some s1"
  shows "direct_ok (note_received p s1)" "remote (note_received p s1) \<noteq> None"
    "session_state (note_received p s1) \<noteq> disconnected" "timing (note_received p s1) = timing s"
  using admit_ok [OF ok ad] direct_ok_same_core [OF _ same_core_note_received, of s1 p]
    same_core_note_received [of s1 p]
  by (auto simp: same_core_def)

lemma receive_loop_ok:
  assumes "receive_loop fuel env now delivered s = Some (r, s')" "direct_ok s"
  shows "direct_ok s' \<and> timing s' = timing s"
proof (rule receive_loop_rule [OF assms(1), of "\<lambda>t. direct_ok t \<and> timing t = timing s"])
  show "direct_ok s \<and> timing s = timing s" using assms(2) by simp
  show "direct_ok (t\<lparr>transport := x\<rparr>) \<and> timing (t\<lparr>transport := x\<rparr>) = timing s"
    if "direct_ok t \<and> timing t = timing s" for t x
    using that direct_ok_same_core [OF conjunct1 [OF that] same_core_updates(1) [of t x]] by simp
  fix t source p s1 y s2
  assume t: "direct_ok t \<and> timing t = timing s" and "admit source p t = Some s1"
    and "handle_packet env now p (note_received p s1) = (y, s2)"
  then show "direct_ok s2 \<and> timing s2 = timing s"
    using handle_packet_ok admitted_ok by metis
qed

lemma liveness_check_ok:
  assumes ok: "direct_ok s" and h: "liveness_check env now s = (r, s')"
  shows "direct_ok s' \<and> (r = Inr () \<longrightarrow>
    \<not> (session_state s' = connected \<and>
       interval_elapsed now (last_peer_receive_ms s') (liveness_timeout_ms (timing s'))))"
proof (cases "session_state s = connected")
  case True
  then have s: "remote s \<noteq> None" "has_peer_receive_time s"
    using ok by (simp_all add: direct_ok_def)
  show ?thesis
  proof (cases "interval_elapsed now (last_peer_receive_ms s) (liveness_timeout_ms (timing s))")
    case expired: True
    then have "begin_reconnect env now s = (r, s')"
      using h True s by (simp add: liveness_check_def)
    from begin_reconnect_ok [OF ok this] show ?thesis by auto
  next
    case False
    show ?thesis
    proof (cases "interval_elapsed now (last_heartbeat_send_ms s) (heartbeat_interval_ms (timing s))")
      case beat: True
      then have "send_heartbeat env now s = (r, s')"
        using h True s False by (simp add: liveness_check_def)
      note same = same_core_heartbeat [OF this]
      show ?thesis
        using direct_ok_same_core [OF ok same] same False by (simp add: same_core_def)
    next
      case no_beat: False
      then show ?thesis using h True s False ok by (simp add: liveness_check_def)
    qed
  qed
next
  case False
  then show ?thesis using h ok by (simp add: liveness_check_def)
qed

lemma finish_poll_ok:
  assumes ok: "direct_ok s" and h: "finish_poll env now delivered s = (r, s')"
  shows "direct_ok s' \<and> (\<forall>ps. r = Inr ps \<longrightarrow> ps = delivered \<and> \<not> reconnect_expired now s' \<and>
    \<not> (session_state s' = connected \<and>
       interval_elapsed now (last_peer_receive_ms s') (liveness_timeout_ms (timing s'))))"
proof -
  obtain x s1 where lc: "liveness_check env now s = (x, s1)" by force
  note s1 = liveness_check_ok [OF ok lc]
  show ?thesis
  proof (cases x)
    case (Inl e)
    then show ?thesis using h lc s1 by (cases e) (auto simp: finish_poll_def)
  next
    case (Inr u)
    show ?thesis
    proof (cases "reconnect_expired now s1")
      case True
      then have "s' = mark_disconnected s1" "r = Inr delivered"
        using h lc Inr by (simp_all add: finish_poll_def)
      then show ?thesis
        using mark_disconnected_ok [of s1] s1
        by (simp add: reconnect_expired_def mark_disconnected_def set_connection_def)
    next
      case False
      then show ?thesis
        using h lc Inr s1 by (auto simp: finish_poll_def)
    qed
  qed
qed

lemma poll_ok:
  assumes ok: "direct_ok s" and h: "poll fuel env now s = Some (r, s')"
  shows "direct_ok s' \<and> (\<forall>ps. r = Inr ps \<longrightarrow> \<not> reconnect_expired now s' \<and>
    \<not> (session_state s' = connected \<and>
       interval_elapsed now (last_peer_receive_ms s') (liveness_timeout_ms (timing s'))))"
proof -
  have rel: "reliability s \<noteq> None" "queue_some s"
    using ok by (auto simp: direct_ok_def queue_some_def)
  show ?thesis
  proof (cases "reconnect_expired now s")
    case True
    then have "s' = mark_disconnected s"
      using h rel by (simp add: poll_def)
    then show ?thesis
      using mark_disconnected_ok [OF ok]
      by (simp add: reconnect_expired_def mark_disconnected_def set_connection_def)
  next
    case False
    obtain x s1 where rt: "retransmit_due env now s = (x, s1)" by force
    have s1: "direct_ok s1"
      by (rule direct_ok_same_core [OF ok same_core_retransmit_due [OF rel(2) rt]])
    show ?thesis
    proof (cases x)
      case (Inl e)
      then show ?thesis using h rel False rt s1 by (cases e) (auto simp: poll_def)
    next
      case (Inr u)
      obtain y s2 where rl: "receive_loop fuel env now [] s1 = Some (y, s2)"
        using h rel False rt Inr by (cases "receive_loop fuel env now [] s1") (auto simp: poll_def)
      note s2 = receive_loop_ok [OF rl s1]
      show ?thesis
      proof (cases y)
        case (Inl e)
        then show ?thesis using h rel False rt Inr rl s2 by (cases e) (auto simp: poll_def)
      next
        case y: (Inr delivered)
        then have "finish_poll env now delivered s2 = (r, s')"
          using h rel False rt Inr rl by (simp add: poll_def)
        from finish_poll_ok [OF _ this] s2 show ?thesis by blast
      qed
    qed
  qed
qed

lemma send_gameplay_ok:
  assumes "direct_ok s" "send_gameplay env p s = (r, s')"
  shows "direct_ok s'"
  using assms direct_ok_same_core [OF assms(1) same_core_transmit]
  by (auto simp: send_gameplay_def split: option.splits if_splits)

lemma disconnect_ok:
  assumes ok: "direct_ok s" and h: "disconnect env now s = (r, s')"
  shows "direct_ok s'"
proof (cases "remote s \<noteq> None \<and> session_state s = connected")
  case True
  then obtain peer where peer: "remote s = Some peer" by auto
  obtain x s2 where tr: "transmit env peer (control_packet kind_disconnect (next_sequence s) 0 now)
      (snd (take_sequence s)) = (x, s2)" by force
  have s2: "direct_ok s2"
    by (rule direct_ok_same_core [OF ok same_core_trans [OF same_core_updates(7) same_core_transmit [OF tr]]])
  show ?thesis
    using h True peer tr s2 mark_disconnected_ok [OF s2]
    by (cases x) (auto simp: disconnect_def take_sequence_def Let_def)
next
  case False
  then have "s' = s" using h by (auto simp: disconnect_def split: option.splits)
  then show ?thesis using ok by simp
qed

section \<open>What is delivered\<close>

lemma parsed_kind_valid: "parse_network_packet bs = Inr p \<Longrightarrow> valid_kind (packet_kind p)"
  using image_of_parsed by blast

lemma received_valid:
  "receive_packet env t = (Inr (Some r), t') \<Longrightarrow> valid_kind (packet_kind (received_packet r))"
  by (auto simp: receive_packet_def dest: parsed_kind_valid split: prod.splits sum.splits option.splits)

lemma nothing_delivered_None: "nothing_delivered x \<noteq> (Inr (Some p), s)"
  by (cases x; cases "fst x") auto

lemma connected_packet_delivers:
  assumes "connected_packet env now p s = (Inr (Some q), s')"
  shows "q = p \<and> packet_kind p \<notin> {kind_ping, kind_pong, kind_session_hello, kind_session_accept}"
  using assms by (auto simp: connected_packet_def Let_def split: if_splits prod.splits sum.splits)

lemma handle_packet_delivers:
  assumes h: "handle_packet env now p s = (Inr (Some q), s')" and v: "valid_kind (packet_kind p)"
  shows "q = p \<and> packet_kind p = kind_input \<and> session_state s = connected"
proof -
  have c: "session_state s = connected \<and> packet_kind p \<noteq> kind_disconnect \<and>
      connected_packet env now p s = (Inr (Some q), s')"
    using h unfolding handle_packet_def by (auto simp: nothing_delivered_None split: if_splits)
  then show ?thesis
    using connected_packet_delivers [of env now p s q s'] v by (cases "packet_kind p") auto
qed

lemma receive_loop_delivers:
  assumes "receive_loop fuel env now delivered s = Some (Inr ps, s')"
    and "\<forall>p \<in> set delivered. packet_kind p = kind_input"
  shows "\<forall>p \<in> set ps. packet_kind p = kind_input"
  using assms
proof (induction fuel arbitrary: delivered s)
  case (Suc fuel)
  obtain x t where rp: "receive_packet env (transport s) = (x, t)" by force
  let ?s0 = "s\<lparr>transport := t\<rparr>"
  show ?case
  proof (cases x)
    case (Inl e)
    then show ?thesis using Suc.prems(1) rp by (cases e) simp
  next
    case (Inr o1)
    show ?thesis
    proof (cases o1)
      case None
      then show ?thesis using Suc.prems rp Inr by simp
    next
      case (Some rc)
      show ?thesis
      proof (cases "admit (received_source rc) (received_packet rc) ?s0")
        case None
        then have "receive_loop fuel env now delivered ?s0 = Some (Inr ps, s')"
          using Suc.prems(1) rp Inr Some by (simp add: Let_def)
        from Suc.IH [OF this Suc.prems(2)] show ?thesis .
      next
        case ad: (Some s1)
        obtain y s2 where hp: "handle_packet env now (received_packet rc)
            (note_received (received_packet rc) s1) = (y, s2)" by force
        show ?thesis
        proof (cases y)
          case y: (Inl e)
          then show ?thesis using Suc.prems(1) rp Inr Some ad hp by (cases e) (simp add: Let_def)
        next
          case y: (Inr o2)
          show ?thesis
          proof (cases o2)
            case None
            then have "receive_loop fuel env now delivered s2 = Some (Inr ps, s')"
              using Suc.prems(1) rp Inr Some ad hp y by (simp add: Let_def)
            from Suc.IH [OF this Suc.prems(2)] show ?thesis .
          next
            case q: (Some q)
            have k: "packet_kind q = kind_input"
              using handle_packet_delivers [of env now "received_packet rc" _ q s2] hp y q
                received_valid [of env "transport s" rc t] rp Inr Some by auto
            have l: "receive_loop fuel env now (delivered @ [q]) s2 = Some (Inr ps, s')"
              using Suc.prems(1) rp Inr Some ad hp y q by (simp add: Let_def)
            have "\<forall>p \<in> set (delivered @ [q]). packet_kind p = kind_input"
              using k Suc.prems(2) by auto
            from Suc.IH [OF l this] show ?thesis .
          qed
        qed
      qed
    qed
  qed
qed simp

lemma finish_poll_delivers:
  assumes "finish_poll env now delivered s = (Inr ps, s')"
  shows "ps = delivered"
proof -
  obtain x s1 where lc: "liveness_check env now s = (x, s1)" by force
  show ?thesis
  proof (cases x)
    case (Inl e)
    then show ?thesis using assms lc by (cases e) (simp add: finish_poll_def)
  next
    case (Inr u)
    then show ?thesis using assms lc by (simp add: finish_poll_def)
  qed
qed

lemma poll_delivers:
  assumes "poll fuel env now s = Some (Inr ps, s')"
  shows "\<forall>p \<in> set ps. packet_kind p = kind_input"
proof (cases "reconnect_expired now s")
  case True
  then have "ps = []" using assms by (simp add: poll_def split: if_splits)
  then show ?thesis by simp
next
  case False
  obtain x s1 where rt: "retransmit_due env now s = (x, s1)" by force
  have rel: "reliability s \<noteq> None"
    using assms by (simp add: poll_def split: if_splits)
  obtain u where x: "x = Inr u"
    using assms False rt rel by (cases x) (auto simp: poll_def)
  obtain y s2 where rl: "receive_loop fuel env now [] s1 = Some (y, s2)"
    using assms False rt rel x by (cases "receive_loop fuel env now [] s1") (auto simp: poll_def)
  obtain delivered where y: "y = Inr delivered"
    using assms False rt rel x rl by (cases y) (auto simp: poll_def)
  have "finish_poll env now delivered s2 = (Inr ps, s')"
    using assms False rt rel x rl y by (simp add: poll_def)
  then show ?thesis
    using receive_loop_delivers [OF rl [unfolded y]] finish_poll_delivers by fastforce
qed

section \<open>Fuel\<close>

text \<open>
  A finite backlog: a measure of the socket that every datagram taken decreases and no
  datagram sent increases.  Then one unit of fuel more than the backlog is enough.
\<close>

definition finite_backlog :: "('n, 'r) Environment \<Rightarrow> ('n \<Rightarrow> nat) \<Rightarrow> bool" where
  "finite_backlog env m \<longleftrightarrow>
     (\<forall>n d n'. recvfrom env n = (datagram d, n') \<longrightarrow> m n' < m n) \<and>
     (\<forall>e b n. m (snd (sendto env e b n)) \<le> m n)"

definition backlog :: "('n \<Rightarrow> nat) \<Rightarrow> ('n, 'r) DirectUdpSession \<Rightarrow> nat" where
  "backlog m s = (case transport_socket (transport s) of None \<Rightarrow> 0 | Some n \<Rightarrow> m n)"

lemma backlog_updates [simp]:
  "backlog m (count_sent s) = backlog m s" "backlog m (count_received s) = backlog m s"
  "backlog m (mark_connected now s) = backlog m s" "backlog m (mark_disconnected s) = backlog m s"
  "backlog m (acknowledge_packet a s) = backlog m s" "backlog m (s\<lparr>next_sequence := q\<rparr>) = backlog m s"
  "backlog m (refresh_peer_liveness now s) = backlog m s" "backlog m (note_pong env now p s) = backlog m s"
  "backlog m (s\<lparr>remote := x\<rparr>) = backlog m s" "backlog m (note_received p s) = backlog m s"
  by (simp_all add: backlog_def count_sent_def count_received_def mark_connected_def
      mark_disconnected_def set_connection_def acknowledge_packet_def refresh_peer_liveness_def
      note_pong_def note_received_def Let_def)

lemma backlog_track: "track_packet p now s = (r, s') \<Longrightarrow> backlog m s' = backlog m s"
  by (auto simp: track_packet_def backlog_def split: prod.splits)

lemma backlog_transmit:
  assumes fin: "finite_backlog env m" and h: "transmit env d p s = (r, s')"
  shows "backlog m s' \<le> backlog m s"
proof -
  have sent: "m n' \<le> m n" if "sendto env d b n = (ok, n')" for b n ok n'
    using fin that unfolding finite_backlog_def by (metis snd_conv)
  obtain x t where sp: "send_packet env d p (transport s) = (x, t)" by force
  have "backlog m (s\<lparr>transport := t\<rparr>) \<le> backlog m s"
    using sp sent by (auto simp: send_packet_def send_datagram_def backlog_def Let_def
        split: sum.splits option.splits if_splits prod.splits)
  then show ?thesis
    using h sp by (cases x) (auto simp: transmit_def)
qed

lemma backlog_control:
  "finite_backlog env m \<Longrightarrow> send_control_packet env p s = (r, s') \<Longrightarrow> backlog m s' \<le> backlog m s"
  by (auto simp: send_control_packet_def split: option.splits dest: backlog_transmit)

lemma backlog_answer_hello:
  assumes fin: "finite_backlog env m" and h: "answer_hello env now p s = (r, s')"
  shows "backlog m s' \<le> backlog m s"
proof -
  let ?a = "control_packet kind_session_accept (next_sequence s) (sequence p) now"
  obtain r2 s2 where tr: "track_packet ?a now (s\<lparr>next_sequence := next_sequence s + 1\<rparr>) = (r2, s2)"
    by force
  obtain r3 s3 where sd: "send_control_packet env ?a s2 = (r3, s3)" by force
  show ?thesis
    using h [symmetric] tr sd backlog_track [OF tr, of m] backlog_control [OF fin sd]
    by (cases r2; cases r3) (simp_all add: answer_hello_def take_sequence_def Let_def)
qed

lemma backlog_accept_session:
  assumes fin: "finite_backlog env m" and h: "accept_session env now p s = (r, s')"
  shows "backlog m s' \<le> backlog m s"
proof (cases "ack p = hello_sequence s")
  case True
  then show ?thesis
    using h backlog_control [OF fin] by (fastforce simp: accept_session_def take_sequence_def Let_def)
qed (use h in \<open>simp add: accept_session_def\<close>)

lemma backlog_connected_packet:
  assumes fin: "finite_backlog env m" and h: "connected_packet env now p s = (r, s')"
  shows "backlog m s' \<le> backlog m s"
proof (cases "packet_kind p = kind_ping")
  case True
  let ?s1 = "refresh_peer_liveness now s"
  obtain r3 s3 where sd: "send_control_packet env (control_packet kind_pong (next_sequence ?s1)
      (sequence p) (timestamp_ms p)) (?s1\<lparr>next_sequence := next_sequence ?s1 + 1\<rparr>) = (r3, s3)"
    by force
  have "s' = s3"
    using h sd True by (cases r3) (simp_all add: connected_packet_def Let_def take_sequence_def)
  then show ?thesis using backlog_control [OF fin sd] by simp
next
  case False
  then show ?thesis using h by (auto simp: connected_packet_def Let_def split: if_splits)
qed

lemma backlog_handle_packet:
  assumes fin: "finite_backlog env m" and h: "handle_packet env now p s = (r, s')"
  shows "backlog m s' \<le> backlog m s"
proof -
  have nd: "s' = snd x" if "nothing_delivered x = (r, s')" for x
    using that by (cases x; cases "fst x") auto
  consider (a) "s' = mark_disconnected s" | (b) "s' = snd (answer_hello env now p s)"
    | (c) "s' = snd (accept_session env now p s)" | (d) "s' = s"
    | (e) "connected_packet env now p s = (r, s')"
    using h nd unfolding handle_packet_def by (auto split: if_splits)
  then show ?thesis
  proof cases
    case b
    then show ?thesis using backlog_answer_hello [OF fin] by (metis prod.collapse)
  next
    case c
    then show ?thesis using backlog_accept_session [OF fin] by (metis prod.collapse)
  next
    case e
    then show ?thesis by (rule backlog_connected_packet [OF fin])
  qed simp_all
qed

lemma admit_backlog: "admit source p s = Some s' \<Longrightarrow> backlog m s' = backlog m s"
  by (auto simp: admit_def split: if_splits)

lemma receive_packet_backlog:
  assumes "finite_backlog env m" "receive_packet env (transport s) = (Inr (Some r), t)"
  shows "backlog m (s\<lparr>transport := t\<rparr>) < backlog m s"
proof -
  obtain n d n' where "transport_socket (transport s) = Some n" "recvfrom env n = (datagram d, n')"
    "t = (transport s)\<lparr>transport_socket := Some n'\<rparr>"
    using assms(2) by (auto simp: receive_packet_def receive_datagram_def Let_def
        split: option.splits prod.splits Received.splits sum.splits)
  then show ?thesis
    using assms(1) by (auto simp: finite_backlog_def backlog_def)
qed

lemma receive_loop_returns:
  assumes fin: "finite_backlog env m" and "backlog m s < fuel"
  shows "receive_loop fuel env now delivered s \<noteq> None"
  using assms(2)
proof (induction fuel arbitrary: delivered s)
  case (Suc fuel)
  obtain x t where rp: "receive_packet env (transport s) = (x, t)" by force
  let ?s0 = "s\<lparr>transport := t\<rparr>"
  show ?case
  proof (cases x)
    case (Inl e)
    then show ?thesis using rp by (cases e) simp
  next
    case (Inr o1)
    show ?thesis
    proof (cases o1)
      case None
      then show ?thesis using rp Inr by simp
    next
      case (Some rc)
      have s0: "backlog m ?s0 < fuel"
        using receive_packet_backlog [OF fin] rp Inr Some Suc.prems by fastforce
      show ?thesis
      proof (cases "admit (received_source rc) (received_packet rc) ?s0")
        case None
        then show ?thesis using Suc.IH [OF s0] rp Inr Some by (simp add: Let_def)
      next
        case ad: (Some s1)
        obtain y s2 where hp: "handle_packet env now (received_packet rc)
            (note_received (received_packet rc) s1) = (y, s2)" by force
        have "backlog m s2 < fuel"
          using backlog_handle_packet [OF fin hp] admit_backlog [OF ad, of m] s0 by simp
        note IH = Suc.IH [OF this]
        show ?thesis
        proof (cases y)
          case y: (Inl e)
          then show ?thesis using rp Inr Some ad hp by (cases e) (simp add: Let_def)
        next
          case y: (Inr o2)
          then show ?thesis using IH rp Inr Some ad hp by (cases o2) (simp_all add: Let_def)
        qed
      qed
    qed
  qed
qed simp

end
