(* ===== verification/Direct_Lifecycle.thy ===== *)
theory Direct_Lifecycle
  imports Direct_Session_Props
begin

text \<open>
  The direct session refines a life cycle: \<open>lifecycle r\<close> is the abstract machine of a
  session of role \<open>r\<close>, and every operation moves the concrete session along it.
\<close>

section \<open>The abstract machine\<close>

inductive lifecycle :: "DirectSessionRole \<Rightarrow> DirectSessionState \<Rightarrow> DirectSessionState \<Rightarrow> bool"
  for r where
  life_accept: "r = host_role \<Longrightarrow> lifecycle r idle connected"
| life_request: "r = client_role \<Longrightarrow> lifecycle r idle connecting"
| life_retry: "r = client_role \<Longrightarrow> lifecycle r disconnected connecting"
| life_joined: "r = client_role \<Longrightarrow> lifecycle r connecting connected"
| life_lost: "lifecycle r connected reconnecting"
| life_rejoined: "lifecycle r reconnecting connected"
| life_closed: "lifecycle r connected disconnected"
| life_expired: "lifecycle r reconnecting disconnected"

inductive_simps lifecycle_from_disconnected: "lifecycle r disconnected st"

text \<open>The closure of a host's life cycle: only a client leaves \<open>disconnected\<close>.\<close>

lemma host_stays_disconnected:
  "(lifecycle host_role)\<^sup>*\<^sup>* disconnected st \<Longrightarrow> st = disconnected"
  by (induction rule: rtranclp_induct) (simp_all add: lifecycle_from_disconnected)

section \<open>The simulation\<close>

definition evolves :: "('n, 'r) DirectUdpSession \<Rightarrow> ('n, 'r) DirectUdpSession \<Rightarrow> bool" where
  "evolves s s' \<longleftrightarrow> role s' = role s \<and>
     (lifecycle (role s))\<^sup>*\<^sup>* (session_state s) (session_state s')"

lemma evolves_refl [simp]: "evolves s s"
  by (simp add: evolves_def)

lemma evolves_trans: "evolves s t \<Longrightarrow> evolves t u \<Longrightarrow> evolves s u"
  unfolding evolves_def by (auto intro: rtranclp_trans)

lemma evolves_step:
  "role s' = role s \<Longrightarrow> lifecycle (role s) (session_state s) (session_state s') \<Longrightarrow> evolves s s'"
  by (simp add: evolves_def r_into_rtranclp)

lemma evolves_core: "same_core s s' \<Longrightarrow> evolves s s'"
  by (simp add: evolves_def same_core_def)

lemma evolves_disconnect:
  "session_state s \<in> {connected, reconnecting} \<Longrightarrow> evolves s (mark_disconnected s)"
  by (intro evolves_step) (auto simp: mark_disconnected_def set_connection_def lifecycle.simps)

lemma evolves_connected:
  assumes "direct_ok s" "role s' = role s" "session_state s' \<in> {session_state s, connected}"
    and "session_state s = disconnected \<or> (session_state s = idle \<and> role s = client_role) \<longrightarrow>
      session_state s' = session_state s"
  shows "evolves s s'"
proof (cases "session_state s' = session_state s")
  case True
  then show ?thesis using assms(2) by (simp add: evolves_def)
next
  case False
  then have c: "session_state s' = connected" "session_state s \<noteq> connected" using assms(3) by auto
  then have "lifecycle (role s) (session_state s) connected"
    using assms False by (cases "session_state s"; cases "role s")
      (auto simp: lifecycle.simps direct_ok_def)
  then show ?thesis using c assms(2) by (intro evolves_step) simp_all
qed

lemma answer_hello_state:
  assumes h: "answer_hello env now p s = (r, s')"
  shows "session_state s' \<in> {session_state s, connected}"
proof -
  let ?a = "control_packet kind_session_accept (next_sequence s) (sequence p) now"
  obtain r2 s2 where tr: "track_packet ?a now (snd (take_sequence s)) = (r2, s2)" by force
  obtain r3 s3 where sd: "send_control_packet env ?a s2 = (r3, s3)" by force
  have c2: "same_core s s2"
    by (rule same_core_trans [OF same_core_updates(7) same_core_track [OF tr]])
  have c3: "same_core s s3"
    by (rule same_core_trans [OF c2 same_core_control [OF sd]])
  show ?thesis
    using h [symmetric] tr sd c2 c3 same_core_trans [OF c3 same_core_acknowledge]
    by (cases r2; cases r3) (simp_all add: answer_hello_def take_sequence_def Let_def same_core_def
        mark_connected_def)
qed

lemma accept_session_state:
  assumes h: "accept_session env now p s = (r, s')"
  shows "session_state s' \<in> {session_state s, connected}"
proof (cases "ack p = hello_sequence s")
  case True
  let ?s1 = "mark_connected now (acknowledge_packet (hello_sequence s) s)"
  have "send_control_packet env (control_packet kind_ping (next_sequence ?s1) (sequence p) now)
      (snd (take_sequence ?s1)) = (r, s')"
    using h True by (simp add: accept_session_def Let_def take_sequence_def)
  then have "same_core ?s1 s'"
    using same_core_trans [OF same_core_updates(7) same_core_control] by blast
  then show ?thesis by (simp add: same_core_def mark_connected_def)
next
  case False
  then show ?thesis using h by (simp add: accept_session_def)
qed

lemma connected_packet_state:
  assumes h: "connected_packet env now p s = (r, s')"
  shows "session_state s' = session_state s"
proof (cases "packet_kind p = kind_ping")
  case True
  let ?s1 = "refresh_peer_liveness now s"
  obtain r3 s3 where sd: "send_control_packet env (control_packet kind_pong (next_sequence ?s1)
      (sequence p) (timestamp_ms p)) (snd (take_sequence ?s1)) = (r3, s3)" by force
  have "same_core ?s1 s3"
    by (rule same_core_trans [OF same_core_updates(7) same_core_control [OF sd]])
  moreover have "s' = s3"
    using h sd True by (cases r3) (simp_all add: connected_packet_def Let_def take_sequence_def)
  ultimately show ?thesis by (simp add: same_core_def refresh_peer_liveness_def)
next
  case False
  then show ?thesis
    using h by (auto simp: connected_packet_def note_pong_def refresh_peer_liveness_def Let_def
        split: if_splits)
qed

lemma evolves_handle:
  assumes ok: "direct_ok s" "remote s \<noteq> None" and live: "session_state s \<noteq> disconnected"
    and h: "handle_packet env now p s = (r, s')"
  shows "evolves s s'"
proof -
  note roles = handle_packet_ok [OF ok h]
  consider (a) "s' = mark_disconnected s" "session_state s \<in> {connected, reconnecting}"
    | (b) "role s = host_role" "nothing_delivered (answer_hello env now p s) = (r, s')"
    | (c) "session_state s \<in> {connecting, reconnecting}"
      "nothing_delivered (accept_session env now p s) = (r, s')" | (d) "s' = s"
    | (e) "connected_packet env now p s = (r, s')"
    using h unfolding handle_packet_def by (auto split: if_splits)
  then show ?thesis
  proof cases
    case a
    then show ?thesis using evolves_disconnect by simp
  next
    case b
    then have "s' = snd (answer_hello env now p s)"
      by (cases "answer_hello env now p s"; cases "fst (answer_hello env now p s)") auto
    then have "session_state s' \<in> {session_state s, connected}"
      using answer_hello_state by (metis prod.collapse)
    then show ?thesis using evolves_connected [OF ok(1)] roles live b(1) by simp
  next
    case c
    then have "s' = snd (accept_session env now p s)"
      by (cases "accept_session env now p s"; cases "fst (accept_session env now p s)") auto
    then have "session_state s' \<in> {session_state s, connected}"
      using accept_session_state by (metis prod.collapse)
    then show ?thesis using evolves_connected [OF ok(1)] roles live c(1) by auto
  next
    case d
    then show ?thesis by simp
  next
    case e
    then show ?thesis using connected_packet_state [OF e] roles by (simp add: evolves_def)
  qed
qed

lemma evolves_admit: "admit source p s = Some s' \<Longrightarrow> evolves s s'"
  by (auto simp: admit_def evolves_def split: if_splits)


lemma evolves_receive_loop:
  assumes "receive_loop fuel env now delivered s = Some (r, s')" "direct_ok s"
  shows "evolves s s'"
proof -
  have "direct_ok s' \<and> evolves s s'"
  proof (rule receive_loop_rule [OF assms(1), of "\<lambda>t. direct_ok t \<and> evolves s t"])
    show "direct_ok s \<and> evolves s s" using assms(2) by simp
    show "direct_ok (t\<lparr>transport := x\<rparr>) \<and> evolves s (t\<lparr>transport := x\<rparr>)"
      if "direct_ok t \<and> evolves s t" for t x
      using that direct_ok_same_core [OF _ same_core_updates(1)]
        evolves_trans [OF _ evolves_core [OF same_core_updates(1)]] by blast
    fix t source p s1 y s2
    assume t: "direct_ok t \<and> evolves s t" and ad: "admit source p t = Some s1"
      and hp: "handle_packet env now p (note_received p s1) = (y, s2)"
    note n = admitted_ok [OF conjunct1 [OF t] ad]
    have "evolves t (note_received p s1)"
      by (rule evolves_trans [OF evolves_admit [OF ad] evolves_core [OF same_core_note_received]])
    then have "evolves s (note_received p s1)" using t evolves_trans by blast
    then show "direct_ok s2 \<and> evolves s s2"
      using handle_packet_ok [OF n(1,2) hp] evolves_trans [OF _ evolves_handle [OF n(1-3) hp]] by blast
  qed
  then show ?thesis by simp
qed

lemma evolves_begin_reconnect:
  assumes "session_state s = connected" and h: "begin_reconnect env now s = (r, s')"
  shows "evolves s s'"
proof (cases "remote s = None")
  case True
  then show ?thesis using h by (simp add: begin_reconnect_def)
next
  case False
  let ?s = "(count_lost (set_connection net_reconnecting s))\<lparr>session_state := reconnecting,
     reconnect_started_ms := now, last_heartbeat_send_ms := now\<rparr>"
  have "evolves s ?s"
    using assms(1) by (intro evolves_step) (simp_all add: count_lost_def set_connection_def lifecycle.simps)
  moreover have "evolves ?s s'"
  proof (cases "role s = client_role")
    case True
    then have "send_new_hello env now ?s = (r, s')"
      using h False by (simp add: begin_reconnect_def Let_def)
    then show ?thesis by (rule evolves_core [OF same_core_hello])
  next
    case not_client: False
    then have "s' = ?s" using h False by (simp add: begin_reconnect_def Let_def)
    then show ?thesis by simp
  qed
  ultimately show ?thesis by (rule evolves_trans)
qed

lemma evolves_liveness_check:
  assumes h: "liveness_check env now s = (r, s')"
  shows "evolves s s'"
proof -
  consider "s' = s" | "session_state s = connected" "begin_reconnect env now s = (r, s')"
    | "send_heartbeat env now s = (r, s')"
    using h unfolding liveness_check_def by (auto split: if_splits)
  then show ?thesis
    by cases (auto intro: evolves_begin_reconnect evolves_core [OF same_core_heartbeat])
qed

lemma evolves_finish_poll:
  assumes h: "finish_poll env now delivered s = (r, s')"
  shows "evolves s s'"
proof -
  obtain x s1 where lc: "liveness_check env now s = (x, s1)" by force
  note s1 = evolves_liveness_check [OF lc]
  have "s' = s1 \<or> (s' = mark_disconnected s1 \<and> session_state s1 = reconnecting)"
    using h lc by (cases x) (auto simp: finish_poll_def reconnect_expired_def split: if_splits)
  then show ?thesis
    using s1 evolves_trans [OF s1 evolves_disconnect] by auto
qed

lemma evolves_poll:
  assumes ok: "direct_ok s" and h: "poll fuel env now s = Some (r, s')"
  shows "evolves s s'"
proof -
  obtain q where q: "reliability s = Some q" and qs: "queue_some s"
    using ok by (auto simp: direct_ok_def queue_some_def)
  show ?thesis
  proof (cases "reconnect_expired now s")
    case True
    then show ?thesis
      using h q evolves_disconnect [of s] by (auto simp: poll_def reconnect_expired_def)
  next
    case False
    obtain x s1 where rt: "retransmit_due env now s = (x, s1)" by force
    note same = same_core_retransmit_due [OF qs rt]
    note s1 = direct_ok_same_core [OF ok same] evolves_core [OF same]
    show ?thesis
    proof (cases x)
      case (Inl e)
      then show ?thesis using h q False rt s1 by (cases e) (auto simp: poll_def)
    next
      case (Inr u)
      obtain y s2 where rl: "receive_loop fuel env now [] s1 = Some (y, s2)"
        using h q False rt Inr by (cases "receive_loop fuel env now [] s1") (simp_all add: poll_def, force)
      have s2: "evolves s s2"
        by (rule evolves_trans [OF s1(2) evolves_receive_loop [OF rl s1(1)]])
      show ?thesis
      proof (cases y)
        case (Inl e)
        then show ?thesis using h q False rt Inr rl s2 by (cases e) (auto simp: poll_def)
      next
        case y: (Inr delivered)
        then have "finish_poll env now delivered s2 = (r, s')"
          using h q False rt Inr rl by (simp add: poll_def)
        then show ?thesis using evolves_trans [OF s2 evolves_finish_poll] by blast
      qed
    qed
  qed
qed

lemma evolves_connect:
  assumes h: "connect env peer now s = (r, s')"
  shows "evolves s s'"
proof (cases "role s = client_role \<and> port peer \<noteq> 0 \<and> session_state s \<in> {idle, disconnected}")
  case True
  let ?s = "s\<lparr>remote := Some peer\<rparr>"
  obtain r1 s1 where hello: "send_new_hello env now ?s = (r1, s1)" by force
  have s1: "role s1 = role s" "session_state s1 = session_state s"
    using same_core_hello [OF hello] by (simp_all add: same_core_def)
  have "s' = (if hello_sequence s1 \<noteq> 0 then acknowledge_packet (hello_sequence s1) s1 else s1)
        \<lparr>hello_sequence := 0, remote := None\<rparr> \<or>
      s' = (set_connection net_reconnecting s1)\<lparr>session_state := connecting\<rparr>"
    using h hello True by (cases r1) (auto simp: connect_def Let_def)
  then have st: "role s' = role s" "session_state s' = session_state s \<or> session_state s' = connecting"
    using s1 by (auto simp: acknowledge_packet_def set_connection_def)
  have "lifecycle (role s) (session_state s) connecting"
    using True life_request life_retry by auto
  then show ?thesis
    using st evolves_step [OF st(1)] by (auto simp: evolves_def)
next
  case False
  then have "s' = s"
    using h by (cases "role s"; cases "session_state s"; cases "port peer = 0") (simp_all add: connect_def)
  then show ?thesis by simp
qed

lemma evolves_send: "send_gameplay env p s = (r, s') \<Longrightarrow> evolves s s'"
  by (auto simp: send_gameplay_def split: option.splits if_splits
      intro: evolves_core [OF same_core_transmit])

lemma evolves_disconnect_op:
  assumes h: "disconnect env now s = (r, s')"
  shows "evolves s s'"
proof (cases "remote s \<noteq> None \<and> session_state s = connected")
  case True
  then obtain peer where peer: "remote s = Some peer" by auto
  obtain x s2 where tr: "transmit env peer (control_packet kind_disconnect (next_sequence s) 0 now)
      (snd (take_sequence s)) = (x, s2)" by force
  have s2: "same_core s s2"
    by (rule same_core_trans [OF same_core_updates(7) same_core_transmit [OF tr]])
  have "s' = s2 \<or> s' = mark_disconnected s2"
    using h True peer tr by (cases x) (auto simp: disconnect_def take_sequence_def Let_def)
  then show ?thesis
    using evolves_core [OF s2] evolves_trans [OF evolves_core [OF s2] evolves_disconnect] s2 True
    by (auto simp: same_core_def)
next
  case False
  then have "s' = s" using h by (auto simp: disconnect_def split: option.splits)
  then show ?thesis by simp
qed

end
