(* ===== verification/Net_Spec.thy ===== *)
theory Net_Spec
  imports Direct_Lifecycle
begin

text \<open>
  Properties of the direct session and the online controller, each with a witness.
  Witnesses run on \<open>queue_env\<close>, a network that delivers a given list of datagrams and
  takes whatever is sent.
\<close>

section \<open>Reachable sessions\<close>

text \<open>
  A session made by \<open>bind\<close>, driven by its four operations in any order with any clock;
  between operations the socket changes in any way (\<open>step_world\<close>).
\<close>

inductive direct_step ::
  "('n, 'r) Environment \<Rightarrow> ('n, 'r) DirectUdpSession \<Rightarrow> ('n, 'r) DirectUdpSession \<Rightarrow> bool"
  for env where
  step_connect: "connect env peer now s = (r, s') \<Longrightarrow> direct_step env s s'"
| step_poll: "poll fuel env now s = Some (x, s') \<Longrightarrow> direct_step env s s'"
| step_send: "send_gameplay env p s = (r, s') \<Longrightarrow> direct_step env s s'"
| step_disconnect: "disconnect env now s = (r, s') \<Longrightarrow> direct_step env s s'"
| step_world: "direct_step env s (s\<lparr>transport := t\<rparr>)"

inductive direct_reaches :: "('n, 'r) Environment \<Rightarrow> ('n, 'r) DirectUdpSession \<Rightarrow> bool" for env where
  direct_bind: "bind_session r t bound figures = Inr s \<Longrightarrow> direct_reaches env s"
| direct_next: "direct_reaches env s \<Longrightarrow> direct_step env s s' \<Longrightarrow> direct_reaches env s'"

lemma direct_step_ok: "direct_step env s s' \<Longrightarrow> direct_ok s \<Longrightarrow> direct_ok s' \<and> evolves s s'"
proof (induction rule: direct_step.induct)
  case (step_connect peer now s r s')
  show ?case
    using connect_ok [OF step_connect.prems step_connect.hyps] evolves_connect [OF step_connect.hyps]
    by simp
next
  case (step_poll fuel now s x s')
  show ?case
    using poll_ok [OF step_poll.prems step_poll.hyps] evolves_poll [OF step_poll.prems step_poll.hyps]
    by simp
next
  case (step_send p s r s')
  show ?case
    using send_gameplay_ok [OF step_send.prems step_send.hyps] evolves_send [OF step_send.hyps] by simp
next
  case (step_disconnect now s r s')
  show ?case
    using disconnect_ok [OF step_disconnect.prems step_disconnect.hyps]
      evolves_disconnect_op [OF step_disconnect.hyps] by simp
next
  case (step_world s t)
  show ?case
    using direct_ok_same_core [OF step_world.prems same_core_updates(1)]
      evolves_core [OF same_core_updates(1)] by blast
qed

lemma direct_reaches_ok: "direct_reaches env s \<Longrightarrow> direct_ok s"
proof (induction rule: direct_reaches.induct)
  case (direct_bind r t bound figures s)
  then show ?case by (rule bind_session_ok)
next
  case (direct_next s s')
  then show ?case using direct_step_ok by blast
qed


section \<open>Polling ends\<close>

lemma receive_loop_more_fuel:
  "receive_loop fuel env now ps s = Some r \<Longrightarrow> receive_loop (fuel + k) env now ps s = Some r"
proof (induction fuel arbitrary: ps s)
  case (Suc fuel)
  obtain x t where rp: "receive_packet env (transport s) = (x, t)" by force
  show ?case
  proof (cases x)
    case (Inl e)
    then show ?thesis using Suc.prems rp by (cases e) simp
  next
    case (Inr o1)
    show ?thesis
    proof (cases o1)
      case None
      then show ?thesis using Suc.prems rp Inr by simp
    next
      case (Some rc)
      show ?thesis
      proof (cases "admit (received_source rc) (received_packet rc) (s\<lparr>transport := t\<rparr>)")
        case None
        then show ?thesis
          using Suc.prems Suc.IH [of ps "s\<lparr>transport := t\<rparr>"] rp Inr Some by (simp add: Let_def)
      next
        case ad: (Some s1)
        obtain y s2 where hp: "handle_packet env now (received_packet rc)
            (note_received (received_packet rc) s1) = (y, s2)" by force
        show ?thesis
        proof (cases y)
          case y: (Inl e)
          then show ?thesis using Suc.prems rp Inr Some ad hp by (cases e) (simp add: Let_def)
        next
          case y: (Inr o2)
          then show ?thesis
            using Suc.prems Suc.IH [of ps s2] Suc.IH [of "ps @ [the o2]" s2] rp Inr Some ad hp
            by (cases o2) (simp_all add: Let_def)
        qed
      qed
    qed
  qed
qed simp

lemma poll_more_fuel:
  assumes p: "poll fuel env now s = Some r"
  shows "poll (fuel + k) env now s = Some r"
proof (cases "reliability s = None \<or> reconnect_expired now s")
  case True
  then show ?thesis using p by (auto simp: poll_def)
next
  case False
  then obtain q where bound: "reliability s = Some q" and live: "\<not> reconnect_expired now s"
    by auto
  obtain x s1 where rt: "retransmit_due env now s = (x, s1)" by force
  show ?thesis
  proof (cases x)
    case (Inl e)
    then show ?thesis using p bound live rt by (cases e) (simp add: poll_def)
  next
    case (Inr u)
    obtain y where rl: "receive_loop fuel env now [] s1 = Some y"
      using p bound live rt Inr by (cases "receive_loop fuel env now [] s1") (simp_all add: poll_def)
    then show ?thesis
      using p bound live rt Inr receive_loop_more_fuel [OF rl, of k] by (simp add: poll_def)
  qed
qed

lemma backlog_retransmit_all:
  assumes fin: "finite_backlog env m" and "retransmit_all env d ps s = (r, s')"
  shows "backlog m s' \<le> backlog m s"
  using assms
proof (induction env d ps s arbitrary: r s' rule: retransmit_all.induct)
  case (2 env d p ps s)
  obtain r1 s1 where tr: "transmit env d p s = (r1, s1)" by force
  have first: "backlog m s1 \<le> backlog m s" by (rule backlog_transmit [OF 2(2) tr])
  show ?case
  proof (cases r1)
    case (Inl e)
    then show ?thesis using 2 tr first by simp
  next
    case (Inr u)
    then have "backlog m s' \<le> backlog m s1" using 2 tr by simp
    then show ?thesis using first by simp
  qed
qed simp

lemma backlog_retransmit_due:
  assumes fin: "finite_backlog env m" and h: "retransmit_due env now s = (r, s')"
  shows "backlog m s' \<le> backlog m s"
proof (cases "remote s \<noteq> None \<and> session_state s \<noteq> disconnected")
  case True
  then obtain d where "remote s = Some d" by auto
  then have "backlog m s' \<le> backlog m (s\<lparr>reliability := Some (snd (due_retransmits now (the (reliability s))))\<rparr>)"
    using True h backlog_retransmit_all [OF fin] by (simp add: retransmit_due_def split_def Let_def)
  then show ?thesis by (simp add: backlog_def)
next
  case False
  then show ?thesis using h by (auto simp: retransmit_due_def split: option.splits if_splits)
qed

lemma poll_returns_fuel:
  assumes fin: "finite_backlog env m" and enough: "backlog m s < fuel"
  shows "poll fuel env now s \<noteq> None"
proof (cases "reliability s = None \<or> reconnect_expired now s")
  case True
  then show ?thesis by (auto simp: poll_def)
next
  case False
  then obtain q where bound: "reliability s = Some q" and live: "\<not> reconnect_expired now s"
    by auto
  obtain x s1 where rt: "retransmit_due env now s = (x, s1)" by force
  have "backlog m s1 < fuel" using backlog_retransmit_due [OF fin rt] enough by simp
  then obtain y s2 where rl: "receive_loop fuel env now [] s1 = Some (y, s2)"
    using receive_loop_returns [OF fin] by fastforce
  show ?thesis
    using bound live rt rl by (cases x; cases y) (auto simp: poll_def)
qed

text \<open>C28.
  Polling ends: when the socket holds finitely many datagrams, so that every one taken
  leaves fewer and sending adds none, one poll returns, and its result does not depend on
  the fuel once there is more of it than datagrams waiting.
\<close>

theorem direct_poll_returns:
  assumes "finite_backlog env m"
  shows "\<exists>r. \<forall>fuel > backlog m s. poll fuel env now s = Some r"
proof -
  obtain r where r: "poll (Suc (backlog m s)) env now s = Some r"
    using poll_returns_fuel [OF assms, of s "Suc (backlog m s)" now] by auto
  have "poll fuel env now s = Some r" if "backlog m s < fuel" for fuel
    using poll_more_fuel [OF r, of "fuel - Suc (backlog m s)"] that by simp
  then show ?thesis by blast
qed

section \<open>A network of two mailboxes\<close>

text \<open>
  A socket is its inbox and its outbox; what one end has sent is posted to the other with
  the sender's endpoint as source.
\<close>

type_synonym mailbox = "UdpDatagram list \<times> (NetworkEndpoint \<times> u8 list) list"

definition mailbox_env :: "(mailbox, 'r) Environment" where
  "mailbox_env = \<lparr>sendto = (\<lambda>e b (inbox, outbox). (True, (inbox, outbox @ [(e, b)]))),
     recvfrom = (\<lambda>(inbox, outbox). case inbox of
        [] \<Rightarrow> (would_block, ([], outbox)) | d # ds \<Rightarrow> (datagram d, (ds, outbox))),
     record_rtt = (\<lambda>x r. r)\<rparr>"

definition mailbox_transport :: "NetworkEndpoint \<Rightarrow> mailbox \<Rightarrow> mailbox UdpNetworkTransport" where
  "mailbox_transport here n = \<lparr>transport_socket = Some n, transport_local = here\<rparr>"

lemma mailbox_finite: "finite_backlog mailbox_env (\<lambda>(inbox, outbox). length inbox)"
  by (auto simp: finite_backlog_def mailbox_env_def split: list.splits)

abbreviation packet_ok :: "NetworkPacket \<Rightarrow> bool" where
  "packet_ok p \<equiv> valid_kind (packet_kind p) \<and> length (payload p) \<le> 1024"

lemma serialize_ok: "packet_ok p \<Longrightarrow> serialize_network_packet p = Inr (packet_image p)"
  by (simp add: serialize_image)

lemma length_packet_image: "length (packet_image p) = 42 + length (payload p)"
  by (simp add: packet_image_def packet_magic_def)

lemma mailbox_send:
  assumes "packet_ok p" "port d \<noteq> 0" "transport_socket (transport s) = Some (i, out)"
  shows "transmit mailbox_env d p s = (Inr (), count_sent (s\<lparr>transport :=
    (transport s)\<lparr>transport_socket := Some (i, out @ [(d, packet_image p)])\<rparr>\<rparr>))"
  using assms by (simp add: transmit_def send_packet_def serialize_ok send_datagram_def
      kNetworkTransportMaxDatagram_def length_packet_image mailbox_env_def)

lemma mailbox_receive:
  assumes "packet_ok p"
  shows "receive_packet mailbox_env
      \<lparr>transport_socket = Some (\<lparr>datagram_source = e, datagram_bytes = packet_image p\<rparr> # ds, out),
       transport_local = l\<rparr> = (Inr (Some \<lparr>received_source = e, received_packet = p\<rparr>),
      \<lparr>transport_socket = Some (ds, out), transport_local = l\<rparr>)"
    "receive_packet mailbox_env (t\<lparr>transport_socket :=
       Some (\<lparr>datagram_source = e, datagram_bytes = packet_image p\<rparr> # ds, out)\<rparr>) =
      (Inr (Some \<lparr>received_source = e, received_packet = p\<rparr>), t\<lparr>transport_socket := Some (ds, out)\<rparr>)"
  using assms by (simp_all add: receive_packet_def receive_datagram_def mailbox_env_def
      kNetworkTransportMaxDatagram_def length_packet_image parse_of_serialize)

lemma mailbox_receive_none:
  "receive_packet mailbox_env \<lparr>transport_socket = Some ([], out), transport_local = l\<rparr> =
     (Inr None, \<lparr>transport_socket = Some ([], out), transport_local = l\<rparr>)"
  "receive_packet mailbox_env (t\<lparr>transport_socket := Some ([], out)\<rparr>) =
     (Inr None, t\<lparr>transport_socket := Some ([], out)\<rparr>)"
  by (simp_all add: receive_packet_def receive_datagram_def mailbox_env_def)

lemma control_packet_ok: "valid_kind k \<Longrightarrow> packet_ok (control_packet k s a t)"
  by (simp add: control_packet_def)

lemma control_packet_fields [simp]:
  "packet_kind (control_packet k s a t) = k" "sequence (control_packet k s a t) = s"
  "ack (control_packet k s a t) = a" "timestamp_ms (control_packet k s a t) = t"
  by (simp_all add: control_packet_def)

definition outbox :: "(mailbox, 'r) DirectUdpSession \<Rightarrow> (NetworkEndpoint \<times> u8 list) list" where
  "outbox s = (case transport_socket (transport s) of None \<Rightarrow> [] | Some n \<Rightarrow> snd n)"

definition post :: "NetworkEndpoint \<Rightarrow> (mailbox, 'r) DirectUdpSession \<Rightarrow>
    (mailbox, 'r) DirectUdpSession \<Rightarrow> (mailbox, 'r) DirectUdpSession" where
  "post source a b = b\<lparr>transport := (transport b)\<lparr>transport_socket :=
     Some (map (\<lambda>(d, bs). \<lparr>datagram_source = source, datagram_bytes = bs\<rparr>) (outbox a), [])\<rparr>\<rparr>"

definition fresh_session :: "DirectSessionRole \<Rightarrow> DirectSessionTiming \<Rightarrow> NetworkEndpoint \<Rightarrow> 'r
    \<Rightarrow> (mailbox, 'r) DirectUdpSession \<Rightarrow> bool" where
  "fresh_session r t here figures s \<longleftrightarrow>
     bind_session r t (Inr (mailbox_transport here ([], []))) figures = Inr s \<and> timing_retry_ms t \<noteq> 0"

lemma fresh_timing:
  assumes "fresh_session r t here figures s"
  shows "heartbeat_interval_ms t \<noteq> 0" "liveness_timeout_ms t \<noteq> 0" "reconnect_timeout_ms t \<noteq> 0"
    "timing_retry_ms t \<noteq> 0"
  using assms by (auto simp: fresh_session_def bind_session_def check_timing_def split: if_splits sum.splits)

lemma fresh_fields:
  assumes "fresh_session r t here figures s"
  shows "s = \<lparr>role = r, session_state = idle, timing = t, transport = mailbox_transport here ([], []),
    remote = None, reliability = Some \<lparr>retry_interval_ms = timing_retry_ms t, pending = []\<rparr>,
    net_telemetry = \<lparr>packets_sent = 0, packets_received = 0, packets_lost = 0,
      connection_state = net_disconnected, rtt_figures = figures\<rparr>,
    next_sequence = 1, hello_sequence = 0, last_peer_receive_ms = 0, last_heartbeat_send_ms = 0,
    reconnect_started_ms = 0, has_peer_receive_time = False\<rparr>"
  using assms by (auto simp: fresh_session_def bind_session_def split: if_splits sum.splits)

abbreviation "hello_at now \<equiv> control_packet kind_session_hello 1 0 now"
abbreviation "accept_at now \<equiv> control_packet kind_session_accept 1 1 now"
abbreviation "ping_at now \<equiv> control_packet kind_ping 2 1 now"
abbreviation "pong_at now \<equiv> control_packet kind_pong 2 2 now"

lemma not_elapsed [simp]: "interval \<noteq> 0 \<Longrightarrow> \<not> interval_elapsed now now interval"
  by (simp add: interval_elapsed_def)

lemma not_due_now [simp]: "interval \<noteq> 0 \<Longrightarrow> \<not> is_due interval now \<lparr>pending_packet = p, last_send_ms = now\<rparr>"
  by (simp add: is_due_def word_neq_0_conv)

lemma client_connects:
  assumes "fresh_session client_role t here figures c" "port there \<noteq> 0"
  shows "\<exists>c1. connect mailbox_env there now c = (Inr (), c1) \<and> session_state c1 = connecting \<and>
    role c1 = client_role \<and> timing c1 = t \<and> hello_sequence c1 = 1 \<and> next_sequence c1 = 2 \<and>
    remote c1 = Some there \<and>
    transport c1 = mailbox_transport here ([], [(there, packet_image (hello_at now))]) \<and>
    reliability c1 = Some \<lparr>retry_interval_ms = timing_retry_ms t,
      pending = [(1, \<lparr>pending_packet = hello_at now, last_send_ms = now\<rparr>)]\<rparr>"
  unfolding fresh_fields [OF assms(1)]
  by (simp add: connect_def send_new_hello_def take_sequence_def track_packet_def track_def
      is_reliable_control_def send_control_packet_def mailbox_send control_packet_ok assms(2)
      mailbox_transport_def set_connection_def count_sent_def Let_def)

lemma post_single:
  "outbox a = [(d, bs)] \<Longrightarrow> post e a b = b\<lparr>transport := (transport b)\<lparr>transport_socket :=
     Some ([\<lparr>datagram_source = e, datagram_bytes = bs\<rparr>], [])\<rparr>\<rparr>"
  by (simp add: post_def)

lemma host_answers:
  assumes h: "fresh_session host_role t here figures h" and c1: "outbox c1 = [(here, packet_image (hello_at now))]"
    and "port peer \<noteq> 0"
  shows "\<exists>h1. poll 2 mailbox_env now (post peer c1 h) = Some (Inr [], h1) \<and>
    session_state h1 = connected \<and> role h1 = host_role \<and> timing h1 = t \<and> next_sequence h1 = 2 \<and>
    remote h1 = Some peer \<and> last_peer_receive_ms h1 = now \<and> last_heartbeat_send_ms h1 = now \<and>
    transport h1 = mailbox_transport here ([], [(peer, packet_image (accept_at now))]) \<and>
    reliability h1 = Some \<lparr>retry_interval_ms = timing_retry_ms t,
      pending = [(1, \<lparr>pending_packet = accept_at now, last_send_ms = now\<rparr>)]\<rparr>"
  unfolding fresh_fields [OF h]
  using fresh_timing [OF h] assms(3)
  by (simp add: poll_def post_single [OF c1] reconnect_expired_def retransmit_due_def numeral_2_eq_2
      mailbox_receive mailbox_receive_none control_packet_ok mailbox_transport_def admit_def
      note_received_def count_received_def handle_packet_def answer_hello_def take_sequence_def
      track_packet_def track_def is_reliable_control_def send_control_packet_def mailbox_send
      nothing_delivered_def mark_connected_def set_connection_def count_sent_def finish_poll_def
      liveness_check_def Let_def)

lemma client_joins:
  assumes c1: "session_state c1 = connecting" "role c1 = client_role" "timing c1 = t"
      "hello_sequence c1 = 1" "next_sequence c1 = 2" "remote c1 = Some peer"
      "reliability c1 = Some \<lparr>retry_interval_ms = timing_retry_ms t,
        pending = [(1, \<lparr>pending_packet = hello_at now, last_send_ms = now\<rparr>)]\<rparr>"
    and out: "outbox h1 = [(here, packet_image (accept_at now))]" and "port peer \<noteq> 0"
    and t: "fresh_session r t here figures c"
  shows "\<exists>c2. poll 2 mailbox_env now (post peer h1 c1) = Some (Inr [], c2) \<and>
    session_state c2 = connected \<and> role c2 = client_role \<and> timing c2 = t \<and>
    remote c2 = Some peer \<and> last_peer_receive_ms c2 = now \<and> last_heartbeat_send_ms c2 = now \<and>
    outbox c2 = [(peer, packet_image (ping_at now))] \<and>
    reliability c2 = Some \<lparr>retry_interval_ms = timing_retry_ms t, pending = []\<rparr>"
  unfolding post_single [OF out]
  using fresh_timing [OF t] assms(9)
  by (simp add: poll_def c1 reconnect_expired_def retransmit_due_def numeral_2_eq_2
      mailbox_receive mailbox_receive_none control_packet_ok mailbox_transport_def admit_def
      note_received_def count_received_def handle_packet_def accept_session_def take_sequence_def
      acknowledge_packet_def acknowledge_def send_control_packet_def mailbox_send due_retransmits_def
      nothing_delivered_def mark_connected_def set_connection_def count_sent_def finish_poll_def
      liveness_check_def outbox_def Let_def)

lemma host_settles:
  assumes h1: "session_state h1 = connected" "role h1 = host_role" "timing h1 = t"
      "next_sequence h1 = 2" "remote h1 = Some peer" "last_peer_receive_ms h1 = now" "last_heartbeat_send_ms h1 = now"
      "reliability h1 = Some \<lparr>retry_interval_ms = timing_retry_ms t,
        pending = [(1, \<lparr>pending_packet = accept_at now, last_send_ms = now\<rparr>)]\<rparr>"
    and out: "outbox c2 = [(here, packet_image (ping_at now))]" and "port peer \<noteq> 0"
    and t: "fresh_session r t here figures h"
  shows "\<exists>h2. poll 2 mailbox_env now (post peer c2 h1) = Some (Inr [], h2) \<and>
    session_state h2 = connected \<and> role h2 = host_role \<and> timing h2 = t \<and>
    remote h2 = Some peer \<and> last_peer_receive_ms h2 = now \<and> last_heartbeat_send_ms h2 = now \<and>
    outbox h2 = [(peer, packet_image (pong_at now))] \<and>
    reliability h2 = Some \<lparr>retry_interval_ms = timing_retry_ms t, pending = []\<rparr>"
  unfolding post_single [OF out]
  using fresh_timing [OF t] assms(10)
  by (simp add: poll_def h1 reconnect_expired_def retransmit_due_def numeral_2_eq_2
      mailbox_receive mailbox_receive_none control_packet_ok mailbox_transport_def admit_def
      note_received_def count_received_def handle_packet_def connected_packet_def take_sequence_def
      refresh_peer_liveness_def outbox_def
      acknowledge_packet_def acknowledge_def send_control_packet_def mailbox_send due_retransmits_def
      nothing_delivered_def mark_connected_def set_connection_def count_sent_def finish_poll_def
      liveness_check_def Let_def)

lemma client_settles:
  assumes c2: "session_state c2 = connected" "role c2 = client_role" "timing c2 = t"
      "remote c2 = Some peer" "last_peer_receive_ms c2 = now" "last_heartbeat_send_ms c2 = now"
      "reliability c2 = Some \<lparr>retry_interval_ms = timing_retry_ms t, pending = []\<rparr>"
    and out: "outbox h2 = [(here, packet_image (pong_at now))]"
    and t: "fresh_session r t here figures c"
  shows "\<exists>c3. poll 2 mailbox_env now (post peer h2 c2) = Some (Inr [], c3) \<and>
    session_state c3 = connected \<and> remote c3 = Some peer \<and>
    transport_socket (transport c3) = Some ([], []) \<and> pending (the (reliability c3)) = []"
  unfolding post_single [OF out]
  using fresh_timing [OF t]
  by (simp add: poll_def c2 reconnect_expired_def retransmit_due_def numeral_2_eq_2
      mailbox_receive mailbox_receive_none control_packet_ok admit_def note_pong_def
      note_received_def count_received_def handle_packet_def connected_packet_def
      refresh_peer_liveness_def acknowledge_packet_def acknowledge_def due_retransmits_def
      finish_poll_def liveness_check_def Let_def)

lemma input_delivered:
  assumes a: "session_state a = connected" "remote a = Some there" "port there \<noteq> 0"
      "transport_socket (transport a) = Some (inb, [])"
    and b: "session_state b = connected" "timing b = t" "remote b = Some peer"
      "last_peer_receive_ms b = now" "last_heartbeat_send_ms b = now"
      "reliability b = Some \<lparr>retry_interval_ms = timing_retry_ms t, pending = []\<rparr>"
    and t: "fresh_session r t here figures c"
    and p: "packet_ok p" "packet_kind p = kind_input"
  shows "\<exists>a' b'. send_gameplay mailbox_env p a = (Inr (), a') \<and>
    poll 2 mailbox_env now (post peer a' b) = Some (Inr [p], b')"
proof -
  obtain a' where a': "send_gameplay mailbox_env p a = (Inr (), a')"
      "outbox a' = [(there, packet_image p)]"
    using a p by (simp add: send_gameplay_def is_reliable_control_def mailbox_send outbox_def count_sent_def)
  have "\<exists>b'. poll 2 mailbox_env now (post peer a' b) = Some (Inr [p], b')"
    unfolding post_single [OF a'(2)]
    using fresh_timing [OF t] p
    by (simp add: poll_def b reconnect_expired_def retransmit_due_def numeral_2_eq_2
        mailbox_receive mailbox_receive_none admit_def
        note_received_def count_received_def handle_packet_def connected_packet_def
        refresh_peer_liveness_def acknowledge_packet_def acknowledge_def due_retransmits_def
        finish_poll_def liveness_check_def Let_def)
  then show ?thesis using a'(1) by blast
qed


section \<open>Properties of the direct session\<close>

text \<open>C27.
  The handshake over a network that loses nothing: the client's hello, the host's accept,
  the client's ping and the host's pong connect both ends and leave no control packet
  awaiting acknowledgement, and every input packet the client then sends is what the host's
  next poll delivers, unchanged.
\<close>

theorem direct_handshake:
  assumes h: "fresh_session host_role th he fh h" and c: "fresh_session client_role tc ce fc c"
    and ports: "port he \<noteq> 0" "port ce \<noteq> 0"
  shows "\<exists>c1 h1 c2 h2 c3.
    connect mailbox_env he now c = (Inr (), c1) \<and>
    poll 2 mailbox_env now (post ce c1 h) = Some (Inr [], h1) \<and>
    poll 2 mailbox_env now (post he h1 c1) = Some (Inr [], c2) \<and>
    poll 2 mailbox_env now (post ce c2 h1) = Some (Inr [], h2) \<and>
    poll 2 mailbox_env now (post he h2 c2) = Some (Inr [], c3) \<and>
    session_state h2 = connected \<and> session_state c3 = connected \<and>
    pending (the (reliability h2)) = [] \<and> pending (the (reliability c3)) = [] \<and>
    (\<forall>p. packet_ok p \<and> packet_kind p = kind_input \<longrightarrow>
      (\<exists>c4 h3. send_gameplay mailbox_env p c3 = (Inr (), c4) \<and>
        poll 2 mailbox_env now (post ce c4 h2) = Some (Inr [p], h3)))"
proof -
  obtain c1 where c1: "connect mailbox_env he now c = (Inr (), c1)" "session_state c1 = connecting"
    "role c1 = client_role" "timing c1 = tc" "hello_sequence c1 = 1" "next_sequence c1 = 2"
    "remote c1 = Some he" "outbox c1 = [(he, packet_image (hello_at now))]"
    "reliability c1 = Some \<lparr>retry_interval_ms = timing_retry_ms tc,
      pending = [(1, \<lparr>pending_packet = hello_at now, last_send_ms = now\<rparr>)]\<rparr>"
    using client_connects [OF c ports(1), of now] by (auto simp: outbox_def mailbox_transport_def)
  obtain h1 where h1: "poll 2 mailbox_env now (post ce c1 h) = Some (Inr [], h1)"
    "session_state h1 = connected" "role h1 = host_role" "timing h1 = th" "next_sequence h1 = 2"
    "remote h1 = Some ce" "last_peer_receive_ms h1 = now" "last_heartbeat_send_ms h1 = now"
    "outbox h1 = [(ce, packet_image (accept_at now))]"
    "reliability h1 = Some \<lparr>retry_interval_ms = timing_retry_ms th,
      pending = [(1, \<lparr>pending_packet = accept_at now, last_send_ms = now\<rparr>)]\<rparr>"
    using host_answers [OF h c1(8) ports(2)] by (auto simp: outbox_def mailbox_transport_def)
  obtain c2 where c2: "poll 2 mailbox_env now (post he h1 c1) = Some (Inr [], c2)"
    "session_state c2 = connected" "role c2 = client_role" "timing c2 = tc" "remote c2 = Some he"
    "last_peer_receive_ms c2 = now" "last_heartbeat_send_ms c2 = now"
    "outbox c2 = [(he, packet_image (ping_at now))]"
    "reliability c2 = Some \<lparr>retry_interval_ms = timing_retry_ms tc, pending = []\<rparr>"
    using client_joins [OF c1(2-7) c1(9) h1(9) ports(1) c] by blast
  obtain h2 where h2: "poll 2 mailbox_env now (post ce c2 h1) = Some (Inr [], h2)"
    "session_state h2 = connected" "timing h2 = th" "remote h2 = Some ce"
    "last_peer_receive_ms h2 = now" "last_heartbeat_send_ms h2 = now"
    "outbox h2 = [(ce, packet_image (pong_at now))]"
    "reliability h2 = Some \<lparr>retry_interval_ms = timing_retry_ms th, pending = []\<rparr>"
    using host_settles [OF h1(2-8) h1(10) c2(8) ports(2) h] by blast
  obtain c3 where c3: "poll 2 mailbox_env now (post he h2 c2) = Some (Inr [], c3)"
    "session_state c3 = connected" "remote c3 = Some he"
    "transport_socket (transport c3) = Some ([], [])" "pending (the (reliability c3)) = []"
    using client_settles [OF c2(2-7) c2(9) h2(7) c] by blast
  have "\<exists>c4 h3. send_gameplay mailbox_env p c3 = (Inr (), c4) \<and>
      poll 2 mailbox_env now (post ce c4 h2) = Some (Inr [p], h3)"
    if "packet_ok p" "packet_kind p = kind_input" for p
    by (rule input_delivered [OF c3(2,3) ports(1) c3(4) h2(2-6) h2(8) h that])
  then show ?thesis
    using c1(1) h1(1) c2(1) h2(1) c3(1) h2(2) c3(2) c3(5) h2(8)
    by (intro exI [of _ c1] exI [of _ h1] exI [of _ c2] exI [of _ h2] exI [of _ c3]) simp
qed

text \<open>C26.
  What a poll promises on every reachable session, whatever the network does: it delivers
  input packets only; when it returns normally no connected session is past its liveness
  deadline and no reconnecting one past its reconnection deadline; and the state it leaves
  is consistent: a live session has a peer, only a client is connecting, the reported
  connection state is that of the session, and the control queue is well formed.
\<close>

theorem direct_poll_contract:
  assumes "direct_reaches env s" "poll fuel env now s = Some (r, s')"
  shows "(\<forall>ps. r = Inr ps \<longrightarrow>
      (\<forall>p \<in> set ps. packet_kind p = kind_input) \<and>
      \<not> (session_state s' = connected \<and>
        interval_elapsed now (last_peer_receive_ms s') (liveness_timeout_ms (timing s'))) \<and>
      \<not> (session_state s' = reconnecting \<and>
        interval_elapsed now (reconnect_started_ms s') (reconnect_timeout_ms (timing s')))) \<and>
    (session_state s' \<in> {connecting, connected, reconnecting} \<longrightarrow> remote s' \<noteq> None) \<and>
    (session_state s' = connecting \<longrightarrow> role s' = client_role) \<and>
    connection_state (net_telemetry s') = connection_of (session_state s') \<and>
    (\<exists>q. reliability s' = Some q \<and> queue_ok q)"
proof -
  note ok = poll_ok [OF direct_reaches_ok [OF assms(1)] assms(2)]
  have "\<forall>p \<in> set ps. packet_kind p = kind_input" if "r = Inr ps" for ps
    using poll_delivers assms(2) that by blast
  then show ?thesis
    using ok by (auto simp: direct_ok_def queue_some_def reconnect_expired_def)
qed


definition near :: NetworkEndpoint where "near = \<lparr>ipv4 = [127, 0, 0, 1], port = 9000\<rparr>"
definition far :: NetworkEndpoint where "far = \<lparr>ipv4 = [10, 0, 0, 2], port = 9001\<rparr>"

definition default_timing :: DirectSessionTiming where
  "default_timing = \<lparr>timing_retry_ms = 100, heartbeat_interval_ms = 500,
     liveness_timeout_ms = 2000, reconnect_timeout_ms = 5000\<rparr>"

definition demo_session :: "DirectSessionRole \<Rightarrow> NetworkEndpoint \<Rightarrow> (mailbox, nat) DirectUdpSession" where
  "demo_session r here =
     (case bind_session r default_timing (Inr (mailbox_transport here ([], []))) 0 of Inr s \<Rightarrow> s)"

lemma demo_fresh: "fresh_session r default_timing here 0 (demo_session r here)"
  by (simp add: fresh_session_def demo_session_def bind_session_def check_timing_def default_timing_def)

lemma demo_reaches: "direct_reaches mailbox_env (post e a (demo_session r here))"
proof -
  have "bind_session r default_timing (Inr (mailbox_transport here ([], []))) 0 =
      Inr (demo_session r here)"
    using demo_fresh [of r here] by (simp add: fresh_session_def)
  from direct_next [OF direct_bind [OF this] step_world] show ?thesis
    unfolding post_def .
qed


theorem direct_handshake_witness:
  "\<exists>c1 h1 c2. connect mailbox_env near 40 (demo_session client_role far) = (Inr (), c1) \<and>
     poll 2 mailbox_env 40 (post far c1 (demo_session host_role near)) = Some (Inr [], h1) \<and>
     poll 2 mailbox_env 40 (post near h1 c1) = Some (Inr [], c2)"
  using direct_handshake [OF demo_fresh [of host_role near] demo_fresh [of client_role far], of 40]
  by (simp add: near_def far_def) blast

theorem direct_poll_contract_witness:
  "\<exists>s'. poll 2 mailbox_env 40 (post far (snd (connect mailbox_env near 40 (demo_session client_role far)))
     (demo_session host_role near)) = Some (Inr [], s') \<and> session_state s' = connected \<and>
     remote s' \<noteq> None \<and> connection_state (net_telemetry s') = connection_of connected"
proof -
  have "port near \<noteq> 0" "port far \<noteq> 0" by (simp_all add: near_def far_def)
  then obtain c1 where c1: "connect mailbox_env near 40 (demo_session client_role far) = (Inr (), c1)"
      "outbox c1 = [(near, packet_image (hello_at 40))]"
    using client_connects [OF demo_fresh [of client_role far], of near 40] by (auto simp: outbox_def mailbox_transport_def)
  obtain h1 where h1: "poll 2 mailbox_env 40 (post far c1 (demo_session host_role near)) = Some (Inr [], h1)"
      "session_state h1 = connected"
    using host_answers [OF demo_fresh c1(2) \<open>port far \<noteq> 0\<close>] by auto
  show ?thesis
    using direct_poll_contract [OF demo_reaches h1(1)] h1 c1(1) by (auto simp: connection_of_def)
qed

theorem direct_poll_returns_witness:
  "\<exists>r. \<forall>fuel > 0. poll fuel mailbox_env 40 (demo_session host_role near) = Some r"
  using direct_poll_returns [OF mailbox_finite, of "demo_session host_role near" 40]
  by (simp add: demo_session_def bind_session_def check_timing_def default_timing_def backlog_def
      mailbox_transport_def)


end
