(* ===== verification/Online_Session.thy ===== *)
theory Online_Session
  imports Direct_Session Semver
begin

text \<open>
  The online controller of \<^verbatim>\<open>src/src/core/online_session.h\<close> and
  \<^verbatim>\<open>online_session.cpp\<close>: the parser and printer of direct endpoints, and the
  controller that owns a direct session and keeps the view the front end reads.  Binding
  the socket is a parameter; the round-trip figures stay abstract, and the loss
  percentage, a floating-point quotient of two counters of the view, is left out.
\<close>

section \<open>Endpoints\<close>

definition is_space :: "char \<Rightarrow> bool" where
  "is_space c \<longleftrightarrow> (of_char c :: nat) \<in> {9, 10, 11, 12, 13, 32}"

fun decimal_loop :: "u32 \<Rightarrow> string \<Rightarrow> u32 \<Rightarrow> string \<Rightarrow> u32 result" where
  "decimal_loop maximum detail value [] = success value"
| "decimal_loop maximum detail value (ch # rest) =
     (if \<not> is_digit ch then failure invalid_argument detail
      else
        let digit = of_nat (digit_value ch) in
        if (maximum - digit) div 10 < value then failure invalid_argument detail
        else decimal_loop maximum detail (value * 10 + digit) rest)"

definition parse_decimal :: "string \<Rightarrow> u32 \<Rightarrow> string \<Rightarrow> u32 result" where
  "parse_decimal text maximum detail =
     (if text = [] then failure invalid_argument detail
      else decimal_loop maximum detail 0 text)"

text \<open>\<open>string_view::find\<close> of a character from a position; \<open>None\<close> is \<open>npos\<close>.\<close>

definition find_from :: "char \<Rightarrow> nat \<Rightarrow> string \<Rightarrow> nat option" where
  "find_from c begin text =
     (let rest = drop begin text; n = length (takeWhile (\<lambda>x. x \<noteq> c) rest) in
      if n < length rest then Some (begin + n) else None)"

definition bad_endpoint :: "'a result" where
  "bad_endpoint = failure invalid_argument ''direct endpoint must use A.B.C.D:PORT''"

fun octet_loop :: "string \<Rightarrow> nat \<Rightarrow> nat \<Rightarrow> u8 list \<Rightarrow> u8 list result" where
  "octet_loop address 0 begin octets = success octets"
| "octet_loop address (Suc left) begin octets =
     (let dot = find_from (CHR ''.'') begin address; last = (left = 0) in
      if (last \<and> dot \<noteq> None) \<or> (\<not> last \<and> dot = None) then bad_endpoint
      else
        let end = (if last then length address else the dot) in
        case parse_decimal (take (end - begin) (drop begin address)) 255
            ''direct endpoint IPv4 octet is invalid'' of
          Inl (e, d) \<Rightarrow> failure e d
        | Inr value \<Rightarrow> octet_loop address left (end + 1) (octets @ [ucast value]))"

definition parse_direct_endpoint :: "string \<Rightarrow> NetworkEndpoint result" where
  "parse_direct_endpoint text =
     (if list_ex is_space text then bad_endpoint
      else
        case find_from (CHR '':'') 0 text of
          None \<Rightarrow> bad_endpoint
        | Some colon \<Rightarrow>
            if colon = 0 \<or> length text \<le> colon + 1 \<or> find_from (CHR '':'') (colon + 1) text \<noteq> None
            then bad_endpoint
            else
              case octet_loop (take colon text) 4 0 [] of
                Inl (e, d) \<Rightarrow> failure e d
              | Inr octets \<Rightarrow>
                  (case parse_decimal (drop (colon + 1) text) 65535 ''direct endpoint port is invalid'' of
                     Inl _ \<Rightarrow> failure invalid_argument ''direct endpoint port is invalid''
                   | Inr p \<Rightarrow>
                       if p = 0 then failure invalid_argument ''direct endpoint port is invalid''
                       else success \<lparr>ipv4 = octets, port = ucast p\<rparr>))"

definition format_direct_endpoint :: "NetworkEndpoint \<Rightarrow> string" where
  "format_direct_endpoint e =
     decimal (unat (ipv4 e ! 0)) @ ''.'' @ decimal (unat (ipv4 e ! 1)) @ ''.'' @
     decimal (unat (ipv4 e ! 2)) @ ''.'' @ decimal (unat (ipv4 e ! 3)) @ '':'' @
     decimal (unat (port e))"

section \<open>The controller\<close>

datatype OnlineSessionState =
  online_inactive | online_waiting_for_peer | online_connecting | online_connected
| online_reconnecting | online_disconnected | online_faulted

record 'r OnlineSessionViewState =
  view_state :: OnlineSessionState
  view_role :: "DirectSessionRole option"
  view_local_endpoint :: "NetworkEndpoint option"
  view_remote_endpoint :: "NetworkEndpoint option"
  view_figures :: 'r
  view_packets_sent :: u64
  view_packets_received :: u64
  view_packets_lost :: u64
  can_send_gameplay :: bool
  last_error :: ErrorCode
  last_error_detail :: string

record ('n, 'r) OnlineSessionController =
  session :: "('n, 'r) DirectUdpSession option"
  view :: "'r OnlineSessionViewState"

definition initial_view :: "'r \<Rightarrow> 'r OnlineSessionViewState" where
  "initial_view figures = \<lparr>view_state = online_inactive, view_role = None,
     view_local_endpoint = None, view_remote_endpoint = None, view_figures = figures,
     view_packets_sent = 0, view_packets_received = 0, view_packets_lost = 0,
     can_send_gameplay = False, last_error = err_none, last_error_detail = []\<rparr>"

definition new_controller :: "'r \<Rightarrow> ('n, 'r) OnlineSessionController" where
  "new_controller figures = \<lparr>session = None, view = initial_view figures\<rparr>"

text \<open>The switch of \<open>refresh_view\<close>; an idle session waits exactly if the view's role is host.\<close>

definition online_state ::
  "DirectSessionRole option \<Rightarrow> DirectSessionState \<Rightarrow> OnlineSessionState" where
  "online_state r st = (case st of
     idle \<Rightarrow> if r = Some host_role then online_waiting_for_peer else online_inactive
   | connecting \<Rightarrow> online_connecting
   | connected \<Rightarrow> online_connected
   | reconnecting \<Rightarrow> online_reconnecting
   | disconnected \<Rightarrow> online_disconnected)"

definition refresh_view ::
  "('n, 'r) OnlineSessionController \<Rightarrow> ('n, 'r) OnlineSessionController" where
  "refresh_view c =
     (case session c of
        None \<Rightarrow> c
      | Some s \<Rightarrow>
          let st = online_state (view_role (view c)) (session_state s); t = net_telemetry s in
          c\<lparr>view := (view c)\<lparr>view_state := st,
             view_local_endpoint := Some (transport_local (transport s)),
             view_remote_endpoint := remote s,
             view_figures := rtt_figures t,
             view_packets_sent := packets_sent t,
             view_packets_received := packets_received t,
             view_packets_lost := packets_lost t,
             can_send_gameplay := (st = online_connected)\<rparr>\<rparr>)"

definition set_fault ::
  "ErrorCode \<Rightarrow> string \<Rightarrow> ('n, 'r) OnlineSessionController \<Rightarrow> ('n, 'r) OnlineSessionController" where
  "set_fault e d c = c\<lparr>view := (view c)\<lparr>view_state := online_faulted, can_send_gameplay := False,
     last_error := e, last_error_detail := d\<rparr>\<rparr>"

definition set_role ::
  "DirectSessionRole \<Rightarrow> ('n, 'r) OnlineSessionController \<Rightarrow> ('n, 'r) OnlineSessionController" where
  "set_role r c = c\<lparr>view := (view c)\<lparr>view_role := Some r\<rparr>\<rparr>"

definition online_host ::
  "(NetworkEndpoint \<Rightarrow> 'n UdpNetworkTransport result) \<Rightarrow> 'r \<Rightarrow> NetworkEndpoint \<Rightarrow> DirectSessionTiming
     \<Rightarrow> ('n, 'r) OnlineSessionController \<Rightarrow> unit result \<times> ('n, 'r) OnlineSessionController" where
  "online_host bind_socket figures local t c =
     (if view_state (view c) \<noteq> online_inactive
      then (failure invalid_argument ''online session is already active'', c)
      else
        case bind_session host_role t (bind_socket local) figures of
          Inl (e, d) \<Rightarrow> (failure e d, set_fault e d c)
        | Inr s \<Rightarrow> (success (), refresh_view (set_role host_role (c\<lparr>session := Some s\<rparr>))))"

definition online_join ::
  "('n, 'r) Environment \<Rightarrow> (NetworkEndpoint \<Rightarrow> 'n UdpNetworkTransport result) \<Rightarrow> 'r
     \<Rightarrow> NetworkEndpoint \<Rightarrow> NetworkEndpoint \<Rightarrow> DirectSessionTiming \<Rightarrow> u64
     \<Rightarrow> ('n, 'r) OnlineSessionController \<Rightarrow> unit result \<times> ('n, 'r) OnlineSessionController" where
  "online_join env bind_socket figures local peer t now c =
     (if view_state (view c) \<noteq> online_inactive
      then (failure invalid_argument ''online session is already active'', c)
      else if port peer = 0
      then (failure invalid_argument ''online join remote port must be non-zero'', c)
      else
        case bind_session client_role t (bind_socket local) figures of
          Inl (e, d) \<Rightarrow> (failure e d, set_fault e d c)
        | Inr s \<Rightarrow>
            (case connect env peer now s of
               (Inl (e, d), s') \<Rightarrow>
                 (failure e d, set_fault e d (set_role client_role (c\<lparr>session := Some s'\<rparr>)))
             | (Inr _, s') \<Rightarrow>
                 (success (), refresh_view (set_role client_role (c\<lparr>session := Some s'\<rparr>)))))"

definition online_poll ::
  "nat \<Rightarrow> ('n, 'r) Environment \<Rightarrow> u64 \<Rightarrow> ('n, 'r) OnlineSessionController
     \<Rightarrow> (NetworkPacket list result \<times> ('n, 'r) OnlineSessionController) option" where
  "online_poll fuel env now c =
     (case session c of
        None \<Rightarrow> Some (failure invalid_argument ''online poll requires active session'', c)
      | Some s \<Rightarrow>
          (case poll fuel env now s of
             None \<Rightarrow> None
           | Some (Inl (e, d), s') \<Rightarrow> Some (failure e d, set_fault e d (c\<lparr>session := Some s'\<rparr>))
           | Some (Inr packets, s') \<Rightarrow>
               Some (success packets, refresh_view (c\<lparr>session := Some s'\<rparr>))))"

text \<open>What \<open>send\<close> and \<open>disconnect\<close> do with the session's answer.\<close>

definition finish_request ::
  "unit result \<times> ('n, 'r) DirectUdpSession \<Rightarrow> ('n, 'r) OnlineSessionController
     \<Rightarrow> unit result \<times> ('n, 'r) OnlineSessionController" where
  "finish_request x c =
     (case x of
        (Inl (e, d), s) \<Rightarrow>
          if e = invalid_argument then (failure e d, c\<lparr>session := Some s\<rparr>)
          else (failure e d, set_fault e d (c\<lparr>session := Some s\<rparr>))
      | (Inr _, s) \<Rightarrow> (success (), refresh_view (c\<lparr>session := Some s\<rparr>)))"

definition online_send ::
  "('n, 'r) Environment \<Rightarrow> NetworkPacket \<Rightarrow> ('n, 'r) OnlineSessionController
     \<Rightarrow> unit result \<times> ('n, 'r) OnlineSessionController" where
  "online_send env p c =
     (case session c of
        Some s \<Rightarrow>
          if view_state (view c) \<noteq> online_connected
          then (failure invalid_argument ''online gameplay send requires connection'', c)
          else finish_request (send_gameplay env p s) c
      | None \<Rightarrow> (failure invalid_argument ''online gameplay send requires connection'', c))"

definition online_disconnect ::
  "('n, 'r) Environment \<Rightarrow> u64 \<Rightarrow> ('n, 'r) OnlineSessionController
     \<Rightarrow> unit result \<times> ('n, 'r) OnlineSessionController" where
  "online_disconnect env now c =
     (case session c of
        Some s \<Rightarrow>
          if view_state (view c) \<noteq> online_connected
          then (failure invalid_argument ''online disconnect requires connection'', c)
          else finish_request (disconnect env now s) c
      | None \<Rightarrow> (failure invalid_argument ''online disconnect requires connection'', c))"

definition online_reset ::
  "'r \<Rightarrow> ('n, 'r) OnlineSessionController \<Rightarrow> ('n, 'r) OnlineSessionController" where
  "online_reset figures c = c\<lparr>session := None, view := initial_view figures\<rparr>"

end
