(* ===== verification/Online_Props.thy ===== *)
theory Online_Props
  imports Online_Session Direct_Lifecycle
begin

text \<open>
  Lemmas on the endpoint parser and the online controller: the digit loop against the
  value of its digits, the four octets against the text between dots, and the view against
  the session.
\<close>

section \<open>Digits\<close>

lemma digit_less_10: "is_digit c \<Longrightarrow> digit_value c \<le> 9"
  unfolding is_digit_def digit_value_def by linarith

lemma len32: "LENGTH(32) = 32" by simp

lemma unat_of_nat_len: "n < 2 ^ LENGTH('a) \<Longrightarrow> unat (of_nat n :: 'a::len word) = n"
  by (simp add: unat_of_nat)

lemma foldl_decimal_ge: "v \<le> foldl (\<lambda>v c. 10 * v + digit_value c) v ds"
proof (induction ds arbitrary: v)
  case (Cons c ds)
  have "v \<le> 10 * v + digit_value c" by simp
  also have "\<dots> \<le> foldl (\<lambda>v c. 10 * v + digit_value c) (10 * v + digit_value c) ds" by (rule Cons)
  finally show ?case by simp
qed simp

lemma digit_step:
  fixes m v :: u32
  assumes "9 \<le> unat m" "d \<le> 9"
  shows "\<not> (m - of_nat d) div 10 < v \<longleftrightarrow> 10 * unat v + d \<le> unat m"
proof -
  have d: "unat (of_nat d :: u32) = d" using assms(2) by (simp add: unat_of_nat)
  have "unat (m - of_nat d) = unat m - d"
    using assms by (subst unat_sub) (auto simp: word_le_nat_alt d)
  then have "unat ((m - of_nat d) div 10) = (unat m - d) div 10"
    by (simp add: unat_div)
  then have "\<not> (m - of_nat d) div 10 < v \<longleftrightarrow> unat v \<le> (unat m - d) div 10"
    by (simp add: word_less_nat_alt not_less)
  also have "\<dots> \<longleftrightarrow> 10 * unat v + d \<le> unat m"
    using assms by linarith
  finally show ?thesis .
qed

lemma decimal_loop_iff:
  fixes maximum :: u32
  assumes "9 \<le> unat maximum"
  shows "unat u \<le> unat maximum \<Longrightarrow> decimal_loop maximum detail u ds = Inr w \<longleftrightarrow>
    list_all is_digit ds \<and> foldl (\<lambda>v c. 10 * v + digit_value c) (unat u) ds \<le> unat maximum \<and>
    unat w = foldl (\<lambda>v c. 10 * v + digit_value c) (unat u) ds"
proof (induction ds arbitrary: u)
  case Nil
  then show ?case by (auto simp: word_unat_eq_iff)
next
  case (Cons c ds)
  show ?case
  proof (cases "is_digit c")
    case True
    let ?d = "of_nat (digit_value c) :: u32"
    have step: "\<not> (maximum - ?d) div 10 < u \<longleftrightarrow> 10 * unat u + digit_value c \<le> unat maximum"
      by (rule digit_step [OF assms digit_less_10 [OF True]])
    show ?thesis
    proof (cases "10 * unat u + digit_value c \<le> unat maximum")
      case ok: True
      have "unat maximum < 2 ^ 32" using unsigned_less [of maximum] by simp
      then have fits: "10 * unat u + digit_value c < 2 ^ 32" using ok by linarith
      have "u * 10 + ?d = of_nat (10 * unat u + digit_value c)" by (simp add: algebra_simps)
      then have "unat (u * 10 + ?d) = 10 * unat u + digit_value c"
        using unat_of_nat_len [where 'a = 32, of "10 * unat u + digit_value c"] fits
        by (metis len32)
      then show ?thesis
        using Cons.IH [of "u * 10 + ?d"] step ok True by (simp add: Let_def)
    next
      case False
      have "10 * unat u + digit_value c \<le>
          foldl (\<lambda>v c. 10 * v + digit_value c) (10 * unat u + digit_value c) ds"
        by (rule foldl_decimal_ge)
      then show ?thesis using step False True by (simp add: Let_def)
    qed
  qed simp
qed

lemma parse_decimal_iff:
  assumes "9 \<le> unat maximum"
  shows "parse_decimal t maximum detail = Inr w \<longleftrightarrow>
    t \<noteq> [] \<and> list_all is_digit t \<and> decimal_value t \<le> unat maximum \<and> unat w = decimal_value t"
  using decimal_loop_iff [OF assms, of 0 detail t w]
  by (auto simp: parse_decimal_def decimal_value_def)

section \<open>Finding separators\<close>

lemma find_from_split:
  "find_from c b t = Some i \<longleftrightarrow>
     (\<exists>x y. drop b t = x @ c # y \<and> c \<notin> set x \<and> i = b + length x)"
proof
  assume h: "find_from c b t = Some i"
  let ?x = "takeWhile (\<lambda>x. x \<noteq> c) (drop b t)" and ?y = "dropWhile (\<lambda>x. x \<noteq> c) (drop b t)"
  have i: "i = b + length ?x" "length ?x < length (drop b t)"
    using h by (auto simp: find_from_def Let_def split: if_splits)
  have "?y \<noteq> []"
    using i(2) by (metis append_Nil2 less_irrefl takeWhile_dropWhile_id)
  then have "?y = c # tl ?y"
    using hd_dropWhile [of "\<lambda>x. x \<noteq> c" "drop b t"] by (cases ?y) auto
  then have "drop b t = ?x @ c # tl ?y"
    using takeWhile_dropWhile_id by metis
  moreover have "c \<notin> set ?x" by (metis set_takeWhileD)
  ultimately show "\<exists>x y. drop b t = x @ c # y \<and> c \<notin> set x \<and> i = b + length x"
    using i(1) by blast
next
  assume "\<exists>x y. drop b t = x @ c # y \<and> c \<notin> set x \<and> i = b + length x"
  then obtain x y where xy: "drop b t = x @ c # y" "c \<notin> set x" "i = b + length x" by blast
  have "takeWhile (\<lambda>z. z \<noteq> c) (x @ c # y) = x"
    using xy(2) by (subst takeWhile_append2) auto
  then show "find_from c b t = Some i"
    using xy by (simp add: find_from_def Let_def)
qed

lemma find_from_None: "find_from c b t = None \<longleftrightarrow> c \<notin> set (drop b t)"
proof
  assume "find_from c b t = None"
  then have "\<not> length (takeWhile (\<lambda>x. x \<noteq> c) (drop b t)) < length (drop b t)"
    by (auto simp: find_from_def Let_def split: if_splits)
  then have "takeWhile (\<lambda>x. x \<noteq> c) (drop b t) = drop b t"
    by (metis length_takeWhile_le less_le takeWhile_eq_take take_all)
  then show "c \<notin> set (drop b t)" by (metis set_takeWhileD)
next
  assume "c \<notin> set (drop b t)"
  then show "find_from c b t = None"
    using find_from_split [of c b t] by (cases "find_from c b t") force+
qed

lemma find_from_shift: "find_from c (b + k) t = map_option ((+) b) (find_from c k (drop b t))"
  by (simp add: find_from_def Let_def add.commute)

lemma split_unique:
  "x @ c # y = x' @ c # y' \<Longrightarrow> c \<notin> set x \<Longrightarrow> c \<notin> set x' \<Longrightarrow> x = x' \<and> y = y'"
proof (induction x arbitrary: x')
  case Nil
  then show ?case by (cases x') auto
next
  case (Cons a x)
  then show ?case by (cases x') auto
qed

section \<open>Octets\<close>

definition octet :: "string \<Rightarrow> u8 \<Rightarrow> bool" where
  "octet t v \<longleftrightarrow> t \<noteq> [] \<and> list_all is_digit t \<and> decimal_value t \<le> 255 \<and> unat v = decimal_value t"

lemma parse_octet: "(\<exists>w. parse_decimal t 255 detail = Inr w \<and> v = ucast w) \<longleftrightarrow> octet t v"
proof -
  have eq: "unat (ucast w :: u8) = decimal_value t" if "unat w = decimal_value t" "decimal_value t \<le> 255"
    for w :: u32
    using that by (simp add: unsigned_ucast_eq take_bit_nat_eq_self)
  show ?thesis
  proof
    assume "\<exists>w. parse_decimal t 255 detail = Inr w \<and> v = ucast w"
    then show "octet t v" using eq by (auto simp: parse_decimal_iff octet_def)
  next
    assume o: "octet t v"
    let ?w = "of_nat (decimal_value t) :: u32"
    have w: "unat ?w = decimal_value t" using o by (simp add: octet_def unat_of_nat)
    then have "parse_decimal t 255 detail = Inr ?w"
      using o by (simp add: parse_decimal_iff octet_def)
    moreover have "v = ucast ?w"
      using eq [OF w] o by (simp add: octet_def word_unat_eq_iff)
    ultimately show "\<exists>w. parse_decimal t 255 detail = Inr w \<and> v = ucast w" by blast
  qed
qed

lemma octet_no_dot: "octet t v \<Longrightarrow> CHR ''.'' \<notin> set t"
  by (auto simp: octet_def list_all_iff is_digit_def)

abbreviation "octet_error \<equiv> ''direct endpoint IPv4 octet is invalid''"

lemma octet_loop_Suc:
  "octet_loop t (Suc n) b os =
     (let dot = find_from (CHR ''.'') b t; end = (if n = 0 then length t else the dot) in
      if (n = 0) = (dot \<noteq> None) then bad_endpoint
      else case parse_decimal (take (end - b) (drop b t)) 255 octet_error of
        Inl (e, d) \<Rightarrow> failure e d
      | Inr v \<Rightarrow> octet_loop t n (Suc end) (os @ [ucast v]))"
  by (cases "find_from (CHR ''.'') b t"; cases "n = 0"; simp add: Let_def cong: sum.case_cong)

declare octet_loop.simps(2) [simp del]

lemma octet_loop_shift:
  "octet_loop t n (b + k) os = octet_loop (drop b t) n k os"
proof (induction n arbitrary: k os)
  case (Suc n)
  note f = find_from_shift [of "CHR ''.''" b k t]
  have d: "drop (b + k) t = drop k (drop b t)" by (simp add: add.commute)
  show ?case
  proof (cases "find_from (CHR ''.'') k (drop b t)")
    case None
    then show ?thesis
      unfolding octet_loop_Suc f d
      by (cases "n = 0") (simp_all add: Let_def add.commute cong: sum.case_cong)
  next
    case (Some i)
    have "octet_loop t n (Suc (b + i)) os' = octet_loop (drop b t) n (Suc i) os'" for os'
      using Suc [of "Suc i" os'] by simp
    then show ?thesis
      unfolding octet_loop_Suc f d Some
      by (cases "n = 0") (simp_all add: Let_def add.commute cong: sum.case_cong)
  qed
qed simp

lemma octet_loop_last:
  "octet_loop t (Suc 0) 0 os = Inr r \<longleftrightarrow> (\<exists>v. octet t v \<and> r = os @ [v])"
proof (cases "CHR ''.'' \<in> set t")
  case True
  then have "find_from (CHR ''.'') 0 t \<noteq> None" by (simp add: find_from_None)
  then show ?thesis
    unfolding octet_loop_Suc using True octet_no_dot by (auto simp: bad_endpoint_def Let_def)
next
  case False
  then have f: "find_from (CHR ''.'') 0 t = None" by (simp add: find_from_None)
  show ?thesis
    unfolding parse_octet [symmetric, where detail = octet_error] octet_loop_Suc
    by (cases "parse_decimal t 255 octet_error") (auto simp: f Let_def)
qed

lemma octet_loop_more:
  "octet_loop t (Suc (Suc k)) 0 os = Inr r \<longleftrightarrow>
     (\<exists>x y v. t = x @ CHR ''.'' # y \<and> octet x v \<and> octet_loop y (Suc k) 0 (os @ [v]) = Inr r)"
proof (cases "find_from (CHR ''.'') 0 t")
  case None
  then have "CHR ''.'' \<notin> set t" by (simp add: find_from_None)
  with None show ?thesis
    unfolding octet_loop_Suc [of t "Suc k"] by (auto simp: bad_endpoint_def Let_def)
next
  case (Some i)
  then obtain x y where t: "t = x @ CHR ''.'' # y" and x: "CHR ''.'' \<notin> set x" and i: "i = length x"
    by (auto simp: find_from_split)
  let ?p = "parse_decimal x 255 octet_error"
  have rest: "octet_loop t (Suc k) (Suc (length x)) os' = octet_loop y (Suc k) 0 os'" for os'
    using octet_loop_shift [of t "Suc k" "Suc (length x)" 0 os'] by (simp add: t)
  have "octet_loop t (Suc (Suc k)) 0 os =
      (case ?p of Inl (e, d) \<Rightarrow> failure e d
       | Inr v \<Rightarrow> octet_loop t (Suc k) (Suc (length x)) (os @ [ucast v]))"
    unfolding octet_loop_Suc [of t "Suc k"] using Some by (simp add: Let_def i t cong: sum.case_cong)
  then have "octet_loop t (Suc (Suc k)) 0 os = Inr r \<longleftrightarrow>
      (\<exists>w. ?p = Inr w \<and> octet_loop y (Suc k) 0 (os @ [ucast w]) = Inr r)"
    unfolding rest by (cases ?p) auto
  also have "\<dots> \<longleftrightarrow> (\<exists>v. octet x v \<and> octet_loop y (Suc k) 0 (os @ [v]) = Inr r)"
    unfolding parse_octet [symmetric, where detail = octet_error] by blast
  also have "\<dots> \<longleftrightarrow> (\<exists>x' y' v. t = x' @ CHR ''.'' # y' \<and> octet x' v \<and>
      octet_loop y' (Suc k) 0 (os @ [v]) = Inr r)"
  proof
    assume "\<exists>x' y' v. t = x' @ CHR ''.'' # y' \<and> octet x' v \<and> octet_loop y' (Suc k) 0 (os @ [v]) = Inr r"
    then obtain x' y' v where h: "t = x' @ CHR ''.'' # y'" "octet x' v"
        "octet_loop y' (Suc k) 0 (os @ [v]) = Inr r" by blast
    have "x = x' \<and> y = y'"
      by (rule split_unique [OF h(1) [unfolded t] x octet_no_dot [OF h(2)]])
    then show "\<exists>v. octet x v \<and> octet_loop y (Suc k) 0 (os @ [v]) = Inr r" using h by blast
  qed (use t in blast)
  finally show ?thesis .
qed


section \<open>Endpoints\<close>

definition port_text :: "string \<Rightarrow> u16 \<Rightarrow> bool" where
  "port_text t v \<longleftrightarrow> t \<noteq> [] \<and> list_all is_digit t \<and> decimal_value t \<le> 65535 \<and>
     unat v = decimal_value t"

lemma parse_port: "(\<exists>w. parse_decimal t 65535 detail = Inr w \<and> v = ucast w) \<longleftrightarrow> port_text t v"
proof -
  have eq: "unat (ucast w :: u16) = decimal_value t" if "unat w = decimal_value t" "decimal_value t \<le> 65535"
    for w :: u32
    using that by (simp add: unsigned_ucast_eq take_bit_nat_eq_self)
  show ?thesis
  proof
    assume "\<exists>w. parse_decimal t 65535 detail = Inr w \<and> v = ucast w"
    then show "port_text t v" using eq by (auto simp: parse_decimal_iff port_text_def)
  next
    assume o: "port_text t v"
    let ?w = "of_nat (decimal_value t) :: u32"
    have w: "unat ?w = decimal_value t" using o by (simp add: port_text_def unat_of_nat)
    then have "parse_decimal t 65535 detail = Inr ?w"
      using o by (simp add: parse_decimal_iff port_text_def)
    moreover have "v = ucast ?w"
      using eq [OF w] o by (simp add: port_text_def word_unat_eq_iff)
    ultimately show "\<exists>w. parse_decimal t 65535 detail = Inr w \<and> v = ucast w" by blast
  qed
qed

lemma port_zero: "parse_decimal t 65535 detail = Inr w \<Longrightarrow> (ucast w :: u16) = 0 \<longleftrightarrow> w = 0"
  by (auto simp: parse_decimal_iff word_unat_eq_iff unsigned_ucast_eq take_bit_nat_eq_self)

text \<open>The text of an endpoint, given the texts of its five numbers.\<close>

definition endpoint_text :: "string \<Rightarrow> string \<Rightarrow> string \<Rightarrow> string \<Rightarrow> string \<Rightarrow> string" where
  "endpoint_text a b c d p =
     a @ CHR ''.'' # b @ CHR ''.'' # c @ CHR ''.'' # d @ CHR '':'' # p"

lemma octets_4: "octet_loop t 4 0 [] = Inr r \<longleftrightarrow>
  (\<exists>a b c d w x y z. t = a @ CHR ''.'' # b @ CHR ''.'' # c @ CHR ''.'' # d \<and>
     octet a w \<and> octet b x \<and> octet c y \<and> octet d z \<and> r = [w, x, y, z])"
proof -
  have "(4 :: nat) = Suc (Suc (Suc (Suc 0)))" by simp
  show ?thesis
    unfolding \<open>(4 :: nat) = Suc (Suc (Suc (Suc 0)))\<close> octet_loop_more octet_loop_last by simp blast
qed

lemma digits_clean:
  "list_all is_digit t \<Longrightarrow> \<not> list_ex is_space t"
  "list_all is_digit t \<Longrightarrow> CHR '':'' \<notin> set t"
  by (auto simp: list_all_iff list_ex_iff is_digit_def is_space_def)

lemma octet_digits: "octet t v \<Longrightarrow> list_all is_digit t \<and> t \<noteq> []"
  by (simp add: octet_def)

lemma endpoint_text_clean:
  assumes "octet a w" "octet b x" "octet c y" "octet d z" "port_text p v"
  shows "\<not> list_ex is_space (endpoint_text a b c d p)"
    "CHR '':'' \<notin> set (a @ CHR ''.'' # b @ CHR ''.'' # c @ CHR ''.'' # d)" "CHR '':'' \<notin> set p"
  using assms octet_digits digits_clean
  by (auto simp: endpoint_text_def port_text_def is_space_def)

lemma parse_endpoint_iff:
  "parse_direct_endpoint t = Inr e \<longleftrightarrow>
     (\<exists>a b c d p w x y z. t = endpoint_text a b c d p \<and> ipv4 e = [w, x, y, z] \<and>
        octet a w \<and> octet b x \<and> octet c y \<and> octet d z \<and> port_text p (port e) \<and> port e \<noteq> 0)"
proof (cases "list_ex is_space t \<or> find_from (CHR '':'') 0 t = None")
  case True
  then have "CHR '':'' \<notin> set t \<or> list_ex is_space t" by (auto simp: find_from_None)
  moreover have "parse_direct_endpoint t \<noteq> Inr e"
    using True by (auto simp: parse_direct_endpoint_def bad_endpoint_def)
  ultimately show ?thesis
    using endpoint_text_clean(1) by (auto simp: endpoint_text_def)
next
  case False
  then obtain l r where t: "t = l @ CHR '':'' # r" and l: "CHR '':'' \<notin> set l"
      and f: "find_from (CHR '':'') 0 t = Some (length l)"
    by (auto simp: find_from_split)
  have clean: "\<not> list_ex is_space t" using False by simp
  let ?P = "parse_decimal r 65535 ''direct endpoint port is invalid''"
  have "parse_direct_endpoint t = Inr e \<longleftrightarrow> l \<noteq> [] \<and> r \<noteq> [] \<and> CHR '':'' \<notin> set r \<and>
      (\<exists>os w. octet_loop l 4 0 [] = Inr os \<and> ?P = Inr w \<and> w \<noteq> 0 \<and> e = \<lparr>ipv4 = os, port = ucast w\<rparr>)"
  proof -
    have "parse_direct_endpoint t = Inr e \<longleftrightarrow>
        \<not> (length l = 0 \<or> length t \<le> length l + 1 \<or> find_from (CHR '':'') (length l + 1) t \<noteq> None) \<and>
        (\<exists>os w. octet_loop (take (length l) t) 4 0 [] = Inr os \<and>
          parse_decimal (drop (length l + 1) t) 65535 ''direct endpoint port is invalid'' = Inr w \<and>
          w \<noteq> 0 \<and> e = \<lparr>ipv4 = os, port = ucast w\<rparr>)"
      using clean f by (auto simp: parse_direct_endpoint_def bad_endpoint_def split: sum.splits)
    also have "find_from (CHR '':'') (length l + 1) t \<noteq> None \<longleftrightarrow> CHR '':'' \<in> set r"
      using find_from_None [of "CHR '':''" "length l + 1" t] by (simp add: t)
    finally show ?thesis by (simp add: t)
  qed
  also have "\<dots> \<longleftrightarrow> l \<noteq> [] \<and> r \<noteq> [] \<and> CHR '':'' \<notin> set r \<and> port e \<noteq> 0 \<and> port_text r (port e) \<and>
      octet_loop l 4 0 [] = Inr (ipv4 e)"
  proof -
    have "(\<exists>w. ?P = Inr w \<and> w \<noteq> 0 \<and> v = ucast w) \<longleftrightarrow> port_text r v \<and> v \<noteq> 0" for v
      unfolding parse_port [symmetric, where detail = "''direct endpoint port is invalid''"]
      by (cases ?P) (auto dest: port_zero)
    moreover have "e = \<lparr>ipv4 = os, port = v\<rparr> \<longleftrightarrow> ipv4 e = os \<and> port e = v" for os v
      by (cases e) auto
    ultimately show ?thesis by metis
  qed
  also have "\<dots> \<longleftrightarrow> (\<exists>a b c d p w x y z. t = endpoint_text a b c d p \<and> ipv4 e = [w, x, y, z] \<and>
        octet a w \<and> octet b x \<and> octet c y \<and> octet d z \<and> port_text p (port e) \<and> port e \<noteq> 0)"
    (is "?L = ?R")
  proof
    assume ?L
    then have "octet_loop l 4 0 [] = Inr (ipv4 e)" by blast
    then obtain a b c d w x y z where "l = a @ CHR ''.'' # b @ CHR ''.'' # c @ CHR ''.'' # d"
        "octet a w" "octet b x" "octet c y" "octet d z" "ipv4 e = [w, x, y, z]"
      unfolding octets_4 by blast
    moreover from this have "t = endpoint_text a b c d r" by (simp add: t endpoint_text_def)
    ultimately show ?R using \<open>?L\<close> by blast
  next
    assume ?R
    then obtain a b c d p w x y z where h: "t = endpoint_text a b c d p" "ipv4 e = [w, x, y, z]"
        "octet a w" "octet b x" "octet c y" "octet d z" "port_text p (port e)" "port e \<noteq> 0" by blast
    define m where "m = a @ CHR ''.'' # b @ CHR ''.'' # c @ CHR ''.'' # d"
    have m: "octet_loop m 4 0 [] = Inr (ipv4 e)"
      unfolding octets_4 m_def h(2) using h(3-6) by blast
    have "l @ CHR '':'' # r = m @ CHR '':'' # p" using h(1) by (simp add: t endpoint_text_def m_def)
    from split_unique [OF this l endpoint_text_clean(2) [OF h(3-7), folded m_def]]
    have lr: "l = m" "r = p" by simp_all
    have "m \<noteq> []" "p \<noteq> []" using h(7) by (simp_all add: m_def port_text_def)
    then show ?L
      unfolding lr using m h(7,8) endpoint_text_clean(3) [OF h(3-7)] by blast
  qed
  finally show ?thesis .
qed

lemma octet_decimal: "octet (decimal (unat v)) v"
proof -
  have "unat v < 2 ^ LENGTH(8)" by (rule unsigned_less)
  then show ?thesis using decimal_digits [of "unat v"] by (simp add: octet_def)
qed

lemma port_text_decimal: "port_text (decimal (unat v)) v"
proof -
  have "unat v < 2 ^ LENGTH(16)" by (rule unsigned_less)
  then show ?thesis using decimal_digits [of "unat v"] by (simp add: port_text_def)
qed

lemma format_parses:
  assumes "length (ipv4 e) = 4" "port e \<noteq> 0"
  shows "parse_direct_endpoint (format_direct_endpoint e) = Inr e"
proof -
  obtain w x y z where e: "ipv4 e = [w, x, y, z]"
    using assms(1) by (auto simp: length_Suc_conv eval_nat_numeral)
  have "format_direct_endpoint e = endpoint_text (decimal (unat w)) (decimal (unat x))
      (decimal (unat y)) (decimal (unat z)) (decimal (unat (port e)))"
    by (simp add: format_direct_endpoint_def endpoint_text_def e)
  then show ?thesis
    using e octet_decimal port_text_decimal assms(2) unfolding parse_endpoint_iff by blast
qed


text \<open>A printed endpoint whose port is zero is refused.\<close>

lemma format_port_zero:
  assumes e: "ipv4 e = [w, x, y, z]" and "port e = 0"
  shows "parse_direct_endpoint (format_direct_endpoint e) =
    failure invalid_argument ''direct endpoint port is invalid''"
proof -
  define m where "m = decimal (unat w) @ CHR ''.'' # decimal (unat x) @ CHR ''.'' #
      decimal (unat y) @ CHR ''.'' # decimal (unat z)"
  have t: "format_direct_endpoint e = m @ CHR '':'' # decimal 0"
    by (simp add: format_direct_endpoint_def m_def e assms(2))
  have p0: "port_text (decimal 0) 0" using port_text_decimal [of 0] by simp
  note clean = endpoint_text_clean [OF octet_decimal [of w] octet_decimal [of x]
      octet_decimal [of y] octet_decimal [of z] p0]
  have sp: "\<not> list_ex is_space (m @ CHR '':'' # decimal 0)"
    using clean(1) by (simp add: endpoint_text_def m_def)
  have f: "find_from (CHR '':'') 0 (m @ CHR '':'' # decimal 0) = Some (length m)"
    using clean(2) [folded m_def] by (auto simp: find_from_split)
  have g: "find_from (CHR '':'') (Suc (length m)) (m @ CHR '':'' # decimal 0) = None"
    using clean(3) by (simp add: find_from_None)
  have o: "octet_loop m 4 0 [] = Inr [w, x, y, z]"
    unfolding octets_4 m_def using octet_decimal by blast
  have d: "parse_decimal (decimal 0) 65535 ''direct endpoint port is invalid'' = Inr 0"
    using decimal_digits [of 0] by (simp add: parse_decimal_iff)
  have "m \<noteq> []" by (simp add: m_def)
  then show ?thesis
    unfolding t using sp f g o d by (simp add: parse_direct_endpoint_def)
qed

section \<open>The view\<close>

definition view_agrees ::
  "'r OnlineSessionViewState \<Rightarrow> ('n, 'r) DirectUdpSession \<Rightarrow> bool" where
  "view_agrees v s \<longleftrightarrow> view_state v = online_state (view_role v) (session_state s) \<and>
     view_remote_endpoint v = remote s \<and>
     view_packets_sent v = packets_sent (net_telemetry s) \<and>
     view_packets_received v = packets_received (net_telemetry s) \<and>
     view_packets_lost v = packets_lost (net_telemetry s)"

definition online_ok :: "('n, 'r) OnlineSessionController \<Rightarrow> bool" where
  "online_ok c \<longleftrightarrow>
     (can_send_gameplay (view c) \<longleftrightarrow> view_state (view c) = online_connected) \<and>
     (case session c of
        None \<Rightarrow> view_state (view c) \<in> {online_inactive, online_faulted}
      | Some s \<Rightarrow> direct_ok s \<and> view_role (view c) = Some (role s) \<and>
          (view_state (view c) \<noteq> online_faulted \<longrightarrow> view_agrees (view c) s))"

lemma online_state_not_faulted [simp]: "online_state r st \<noteq> online_faulted"
  by (cases st) (simp_all add: online_state_def)

lemma refresh_view_ok:
  "session c = Some s \<Longrightarrow> direct_ok s \<Longrightarrow> view_role (view c) = Some (role s) \<Longrightarrow>
   online_ok (refresh_view c)"
  by (simp add: online_ok_def refresh_view_def view_agrees_def Let_def)

lemma set_fault_ok:
  "(\<And>s. session c = Some s \<Longrightarrow> direct_ok s \<and> view_role (view c) = Some (role s)) \<Longrightarrow>
   online_ok (set_fault e d c)"
  by (simp add: online_ok_def set_fault_def split: option.split)

lemma online_ok_session:
  "online_ok c \<Longrightarrow> session c = Some s \<Longrightarrow> direct_ok s \<and> view_role (view c) = Some (role s)"
  by (simp add: online_ok_def)

lemma set_fault_same_ok: "online_ok c \<Longrightarrow> online_ok (set_fault e d c)"
  by (rule set_fault_ok) (rule online_ok_session)

lemma bind_session_role: "bind_session r t bound figures = Inr s \<Longrightarrow> role s = r"
  by (auto simp: bind_session_def split: sum.splits prod.splits)

lemma online_host_ok:
  assumes ok: "online_ok c" and h: "online_host bs figures here t c = (r, c')"
  shows "online_ok c'"
proof (cases "view_state (view c) = online_inactive")
  case True
  show ?thesis
  proof (cases "bind_session host_role t (bs here) figures")
    case (Inl e)
    then show ?thesis
      using h True set_fault_same_ok [OF ok] by (cases e) (auto simp: online_host_def)
  next
    case (Inr s)
    then have "c' = refresh_view (set_role host_role (c\<lparr>session := Some s\<rparr>))"
      using h True by (simp add: online_host_def)
    then show ?thesis
      using bind_session_ok [OF Inr] bind_session_role [OF Inr]
      by (simp add: set_role_def refresh_view_ok)
  qed
next
  case False
  then show ?thesis using ok h by (simp add: online_host_def)
qed

lemma online_join_ok:
  assumes ok: "online_ok c" and h: "online_join env bs figures here peer t now c = (r, c')"
  shows "online_ok c'"
proof (cases "view_state (view c) = online_inactive \<and> port peer \<noteq> 0")
  case True
  show ?thesis
  proof (cases "bind_session client_role t (bs here) figures")
    case (Inl e)
    then show ?thesis
      using h True set_fault_same_ok [OF ok] by (cases e) (auto simp: online_join_def)
  next
    case (Inr s)
    obtain x s1 where cn: "connect env peer now s = (x, s1)" by force
    have s1: "direct_ok s1" "role s1 = client_role"
      using connect_ok [OF bind_session_ok [OF Inr] cn] evolves_connect [OF cn] bind_session_role [OF Inr]
      by (simp_all add: evolves_def)
    let ?c = "set_role client_role (c\<lparr>session := Some s1\<rparr>)"
    have "session ?c = Some s1" "view_role (view ?c) = Some (role s1)"
      using s1(2) by (simp_all add: set_role_def)
    moreover have "c' = refresh_view ?c \<or> (\<exists>e d. c' = set_fault e d ?c)"
      using h True Inr cn by (cases x) (auto simp: online_join_def)
    ultimately show ?thesis
      using refresh_view_ok [of ?c s1] set_fault_ok [of ?c] s1(1) by auto
  qed
next
  case False
  then show ?thesis using ok h by (cases "view_state (view c) = online_inactive") (simp_all add: online_join_def)
qed

lemma online_poll_ok:
  assumes ok: "online_ok c" and h: "online_poll fuel env now c = Some (r, c')"
  shows "online_ok c'"
proof (cases "session c")
  case None
  then show ?thesis using ok h by (simp add: online_poll_def)
next
  case (Some s)
  note s = online_ok_session [OF ok Some]
  obtain x s1 where p: "poll fuel env now s = Some (x, s1)"
    using h Some by (cases "poll fuel env now s") (auto simp: online_poll_def)
  have s1: "direct_ok s1" "view_role (view c) = Some (role s1)"
    using poll_ok [OF conjunct1 [OF s] p] evolves_poll [OF conjunct1 [OF s] p] s
    by (simp_all add: evolves_def)
  have "c' = refresh_view (c\<lparr>session := Some s1\<rparr>) \<or> (\<exists>e d. c' = set_fault e d (c\<lparr>session := Some s1\<rparr>))"
    using h Some p by (cases x) (auto simp: online_poll_def)
  then show ?thesis
    using refresh_view_ok [of "c\<lparr>session := Some s1\<rparr>" s1] set_fault_ok [of "c\<lparr>session := Some s1\<rparr>"] s1
    by auto
qed

text \<open>A refused request changes nothing the view shows.\<close>

definition same_shown :: "('n, 'r) DirectUdpSession \<Rightarrow> ('n, 'r) DirectUdpSession \<Rightarrow> bool" where
  "same_shown s s' \<longleftrightarrow> session_state s' = session_state s \<and> remote s' = remote s \<and>
     net_telemetry s' = net_telemetry s"

lemma transmit_failed: "transmit env d p s = (Inl e, s') \<Longrightarrow> same_shown s s'"
  by (auto simp: transmit_def same_shown_def split: prod.splits sum.splits)

lemma send_failed: "send_gameplay env p s = (Inl e, s') \<Longrightarrow> same_shown s s'"
  by (auto simp: send_gameplay_def same_shown_def dest: transmit_failed [unfolded same_shown_def]
      split: option.splits if_splits)

lemma disconnect_failed:
  assumes "disconnect env now s = (Inl e, s')"
  shows "same_shown s s'"
proof (cases "remote s \<noteq> None \<and> session_state s = connected")
  case True
  then obtain d where d: "remote s = Some d" by auto
  obtain x s1 where tr: "transmit env d (control_packet kind_disconnect (next_sequence s) 0 now)
      (s\<lparr>next_sequence := next_sequence s + 1\<rparr>) = (x, s1)" by force
  have "x = Inl e \<and> s' = s1"
    using assms True d tr by (cases x) (auto simp: disconnect_def take_sequence_def)
  then show ?thesis
    using transmit_failed [of env d _ "s\<lparr>next_sequence := next_sequence s + 1\<rparr>" e s1] tr
    by (simp add: same_shown_def)
next
  case False
  then show ?thesis using assms by (auto simp: disconnect_def same_shown_def split: option.splits)
qed

lemma finish_request_ok:
  assumes ok: "online_ok c" and s: "session c = Some s" and s1: "direct_ok s1" "role s1 = role s"
    and failed: "\<And>e. x = Inl e \<Longrightarrow> same_shown s s1" and h: "finish_request (x, s1) c = (r, c')"
  shows "online_ok c'"
proof -
  let ?c = "c\<lparr>session := Some s1\<rparr>"
  have role: "view_role (view ?c) = Some (role s1)" using online_ok_session [OF ok s] s1(2) by simp
  note good = refresh_view_ok [of ?c s1, OF _ s1(1) role] set_fault_ok [of ?c]
  show ?thesis
  proof (cases x)
    case (Inl e)
    have "online_ok ?c"
      using ok s s1 failed [OF Inl]
      by (auto simp: online_ok_def view_agrees_def same_shown_def)
    moreover have "c' = ?c \<or> (\<exists>a d. c' = set_fault a d ?c)"
      using h Inl by (cases e) (auto simp: finish_request_def split: if_splits)
    ultimately show ?thesis using set_fault_same_ok by auto
  next
    case (Inr u)
    then show ?thesis using h good(1) by (simp add: finish_request_def)
  qed
qed

lemma online_send_ok:
  assumes ok: "online_ok c" and h: "online_send env p c = (r, c')"
  shows "online_ok c'"
proof (cases "session c \<noteq> None \<and> view_state (view c) = online_connected")
  case True
  then obtain s where s: "session c = Some s" by auto
  obtain x s1 where x: "send_gameplay env p s = (x, s1)" by force
  have "direct_ok s1" "role s1 = role s"
    using send_gameplay_ok [OF conjunct1 [OF online_ok_session [OF ok s]] x] evolves_send [OF x]
    by (simp_all add: evolves_def)
  moreover have "finish_request (x, s1) c = (r, c')"
    using h True s x by (simp add: online_send_def)
  ultimately show ?thesis
    using finish_request_ok [OF ok s] send_failed x by metis
next
  case False
  then show ?thesis using ok h by (auto simp: online_send_def split: option.splits)
qed

lemma online_disconnect_ok:
  assumes ok: "online_ok c" and h: "online_disconnect env now c = (r, c')"
  shows "online_ok c'"
proof (cases "session c \<noteq> None \<and> view_state (view c) = online_connected")
  case True
  then obtain s where s: "session c = Some s" by auto
  obtain x s1 where x: "disconnect env now s = (x, s1)" by force
  have "direct_ok s1" "role s1 = role s"
    using disconnect_ok [OF conjunct1 [OF online_ok_session [OF ok s]] x] evolves_disconnect_op [OF x]
    by (simp_all add: evolves_def)
  moreover have "finish_request (x, s1) c = (r, c')"
    using h True s x by (simp add: online_disconnect_def)
  ultimately show ?thesis
    using finish_request_ok [OF ok s] disconnect_failed x by metis
next
  case False
  then show ?thesis using ok h by (auto simp: online_disconnect_def split: option.splits)
qed

lemma initial_ok: "session c = None \<Longrightarrow> view c = initial_view f \<Longrightarrow> online_ok c"
  by (simp add: online_ok_def initial_view_def)

end
