(* ===== verification/Online_Spec.thy ===== *)
theory Online_Spec
  imports Net_Spec Online_Props
begin

text \<open>
  Properties of direct endpoints and of the online controller, each with a witness.
\<close>

section \<open>Endpoints\<close>

text \<open>
  The endpoint parser accepts exactly four decimal numbers of at most 255 between dots, a
  colon and a decimal number from 1 to 65535, with leading zeros and nothing else allowed,
  and yields their values.
\<close>

theorem endpoint_grammar:
  "parse_direct_endpoint t = Inr e \<longleftrightarrow>
     (\<exists>a b c d p w x y z. t = endpoint_text a b c d p \<and> ipv4 e = [w, x, y, z] \<and>
        octet a w \<and> octet b x \<and> octet c y \<and> octet d z \<and> port_text p (port e) \<and> port e \<noteq> 0)"
  by (rule parse_endpoint_iff)

text \<open>
  Printing an endpoint and parsing the text gives the endpoint back, unless its port is
  zero, and then the parser refuses it.
\<close>

theorem endpoint_roundtrip:
  "parse_direct_endpoint (format_direct_endpoint \<lparr>ipv4 = [w, x, y, z], port = p\<rparr>) =
     (if p = 0 then failure invalid_argument ''direct endpoint port is invalid''
      else Inr \<lparr>ipv4 = [w, x, y, z], port = p\<rparr>)"
proof (cases "p = 0")
  case True
  then show ?thesis using format_port_zero [of "\<lparr>ipv4 = [w, x, y, z], port = p\<rparr>"] by simp
next
  case False
  then show ?thesis using format_parses [of "\<lparr>ipv4 = [w, x, y, z], port = p\<rparr>"] by simp
qed

section \<open>The controller\<close>






text \<open>C32.
  One datagram that does not parse, from anyone, faults the controller while the session
  stays as it was; and the fault does not last: the next poll that goes well takes the view
  out of \<open>faulted\<close> without a reset, with the old error still shown.
\<close>

theorem stray_datagram_fault:
  assumes s: "session c = Some s" "reliability s \<noteq> None" "\<not> reconnect_expired now s"
      "retransmit_due env now s = (Inr (), s1)"
    and stray: "receive_datagram env (transport s1) = (Inr (Some d), t)"
      "parse_network_packet (datagram_bytes d) = Inl (e, detail)"
  shows "\<exists>c1. online_poll (Suc fuel) env now c = Some (failure e detail, c1) \<and>
     view_state (view c1) = online_faulted \<and> session c1 = Some (s1\<lparr>transport := t\<rparr>) \<and>
     (\<forall>fuel' env' now' ps s2. poll fuel' env' now' (s1\<lparr>transport := t\<rparr>) = Some (Inr ps, s2) \<longrightarrow>
       (\<exists>c2. online_poll fuel' env' now' c1 = Some (Inr ps, c2) \<and>
         view_state (view c2) = online_state (view_role (view c)) (session_state s2) \<and>
         view_state (view c2) \<noteq> online_faulted \<and> last_error (view c2) = e))"
proof -
  have "receive_packet env (transport s1) = (failure e detail, t)"
    using stray by (simp add: receive_packet_def)
  then have p: "poll (Suc fuel) env now s = Some (failure e detail, s1\<lparr>transport := t\<rparr>)"
    using s(2-4) by (auto simp: poll_def)
  let ?c1 = "set_fault e detail (c\<lparr>session := Some (s1\<lparr>transport := t\<rparr>)\<rparr>)"
  have "online_poll (Suc fuel) env now c = Some (failure e detail, ?c1)"
    using s(1) p by (simp add: online_poll_def)
  moreover have "\<exists>c2. online_poll fuel' env' now' ?c1 = Some (Inr ps, c2) \<and>
         view_state (view c2) = online_state (view_role (view c)) (session_state s2) \<and>
         view_state (view c2) \<noteq> online_faulted \<and> last_error (view c2) = e"
    if "poll fuel' env' now' (s1\<lparr>transport := t\<rparr>) = Some (Inr ps, s2)" for fuel' env' now' ps s2
    using that by (simp add: online_poll_def set_fault_def refresh_view_def Let_def)
  ultimately show ?thesis
    by (intro exI [of _ ?c1]) (simp add: set_fault_def)
qed

theorem stray_datagram_fault_witness:
  "let s = (demo_session host_role near)\<lparr>transport := mailbox_transport near
       ([\<lparr>datagram_source = far, datagram_bytes = []\<rparr>], [])\<rparr>;
       c = (new_controller 0)\<lparr>session := Some s\<rparr> in
   \<exists>e detail c1. online_poll 1 mailbox_env 40 c = Some (failure e detail, c1) \<and>
     view_state (view c1) = online_faulted"
proof -
  let ?d = "\<lparr>datagram_source = far, datagram_bytes = []\<rparr>"
  let ?s = "(demo_session host_role near)\<lparr>transport := mailbox_transport near ([?d], [])\<rparr>"
  let ?c = "(new_controller 0)\<lparr>session := Some ?s\<rparr>"
  obtain e detail where p: "parse_network_packet (datagram_bytes ?d) = Inl (e, detail)"
    by (simp add: parse_network_packet_def fixed_packet_size_def bad_packet_def)
  have d: "receive_datagram mailbox_env (transport ?s) = (Inr (Some ?d), mailbox_transport near ([], []))"
    by (simp add: receive_datagram_def mailbox_env_def mailbox_transport_def)
  have "session ?c = Some ?s" "reliability ?s \<noteq> None" "\<not> reconnect_expired 40 ?s"
      "retransmit_due mailbox_env 40 ?s = (Inr (), ?s)"
    by (simp_all add: fresh_fields [OF demo_fresh] reconnect_expired_def retransmit_due_def)
  from stray_datagram_fault [OF this d p, of 0] show ?thesis
    by (auto simp: Let_def)
qed

end
