(* ===== verification/Input.thy ===== *)
theory Input
  imports Ordered_Map "HOL-Library.List_Lexorder" "HOL-Library.Char_ord"
begin

text \<open>
  Input mapping, from \<^verbatim>\<open>src/src/core/input.h\<close> and \<^verbatim>\<open>input.cpp\<close>: the names of
  actions, kinds and devices, the text of a binding, the default bindings, the resolution
  of a frame of device states into actions, the capture of a new binding, and the device
  registry.  A floating-point number is a value of an abstract type with the comparisons
  and constants the code uses (\<open>FloatOps\<close>); a \<open>std::set\<close> of strings is the list of its
  elements in order.
\<close>

definition input_player_count :: nat where
  "input_player_count = 2"

datatype GameAction =
  act_up | act_down | act_left | act_right | act_attack_light | act_attack_medium
| act_attack_heavy | act_stand | act_start | act_coin | act_pause

datatype BindingKind = keyboard_key | gamepad_button | gamepad_axis

datatype DeviceKind = dev_keyboard | dev_xinput | dev_hid

record InputBinding =
  binding_device :: string
  binding_kind :: BindingKind
  binding_code :: string

section \<open>The order of actions\<close>

fun action_index :: "GameAction \<Rightarrow> nat" where
  "action_index act_up = 0"
| "action_index act_down = 1"
| "action_index act_left = 2"
| "action_index act_right = 3"
| "action_index act_attack_light = 4"
| "action_index act_attack_medium = 5"
| "action_index act_attack_heavy = 6"
| "action_index act_stand = 7"
| "action_index act_start = 8"
| "action_index act_coin = 9"
| "action_index act_pause = 10"

lemma action_index_inj: "action_index a = action_index b \<longleftrightarrow> a = b"
  by (cases a; cases b) simp_all

instantiation GameAction :: linorder
begin

definition less_eq_GameAction :: "GameAction \<Rightarrow> GameAction \<Rightarrow> bool" where
  "less_eq_GameAction a b \<longleftrightarrow> action_index a \<le> action_index b"

definition less_GameAction :: "GameAction \<Rightarrow> GameAction \<Rightarrow> bool" where
  "less_GameAction a b \<longleftrightarrow> action_index a < action_index b"

instance
  by standard (auto simp: less_eq_GameAction_def less_GameAction_def action_index_inj)

end

definition all_game_actions :: "GameAction list" where
  "all_game_actions = [act_up, act_down, act_left, act_right, act_attack_light,
     act_attack_medium, act_attack_heavy, act_stand, act_start, act_coin, act_pause]"

section \<open>Names\<close>

fun action_to_string :: "GameAction \<Rightarrow> string" where
  "action_to_string act_up = ''up''"
| "action_to_string act_down = ''down''"
| "action_to_string act_left = ''left''"
| "action_to_string act_right = ''right''"
| "action_to_string act_attack_light = ''attack_light''"
| "action_to_string act_attack_medium = ''attack_medium''"
| "action_to_string act_attack_heavy = ''attack_heavy''"
| "action_to_string act_stand = ''stand''"
| "action_to_string act_start = ''start''"
| "action_to_string act_coin = ''coin''"
| "action_to_string act_pause = ''pause''"

definition game_action_from_string :: "string \<Rightarrow> GameAction result" where
  "game_action_from_string value =
     (case find (\<lambda>a. action_to_string a = value) all_game_actions of
        Some a \<Rightarrow> success a
      | None \<Rightarrow> failure invalid_settings (''unknown game action: '' @ value))"

fun kind_to_string :: "BindingKind \<Rightarrow> string" where
  "kind_to_string keyboard_key = ''key''"
| "kind_to_string gamepad_button = ''button''"
| "kind_to_string gamepad_axis = ''axis''"

definition binding_kind_from_string :: "string \<Rightarrow> BindingKind result" where
  "binding_kind_from_string value =
     (if value = ''key'' then success keyboard_key
      else if value = ''button'' then success gamepad_button
      else if value = ''axis'' then success gamepad_axis
      else failure invalid_settings (''unknown binding kind: '' @ value))"

fun device_kind_to_string :: "DeviceKind \<Rightarrow> string" where
  "device_kind_to_string dev_keyboard = ''keyboard''"
| "device_kind_to_string dev_xinput = ''xinput''"
| "device_kind_to_string dev_hid = ''hid''"

section \<open>The text of a binding\<close>

definition serialize_binding :: "InputBinding \<Rightarrow> string" where
  "serialize_binding b =
     binding_device b @ ''|'' @ kind_to_string (binding_kind b) @ ''|'' @ binding_code b"

text \<open>\<open>find('|', from)\<close>, as the text before and after the first separator.\<close>

fun split_bar :: "string \<Rightarrow> (string \<times> string) option" where
  "split_bar [] = None"
| "split_bar (c # cs) =
     (if c = CHR ''|'' then Some ([], cs)
      else case split_bar cs of None \<Rightarrow> None | Some (a, b) \<Rightarrow> Some (c # a, b))"

definition parse_binding :: "string \<Rightarrow> InputBinding result" where
  "parse_binding value =
     (case split_bar value of
        None \<Rightarrow> failure invalid_settings ''binding is missing kind separator''
      | Some (device, rest) \<Rightarrow>
          (case split_bar rest of
             None \<Rightarrow> failure invalid_settings ''binding is missing code separator''
           | Some (kind_text, code) \<Rightarrow>
               if device = [] \<or> code = []
               then failure invalid_settings ''binding device/code cannot be empty''
               else case binding_kind_from_string kind_text of
                 Inl (e, d) \<Rightarrow> failure e d
               | Inr k \<Rightarrow> success \<lparr>binding_device = device, binding_kind = k,
                   binding_code = code\<rparr>))"

section \<open>Settings\<close>

record PlayerInputSettings =
  selected_device :: string
  bindings :: "(GameAction, InputBinding) om"

type_synonym InputSettings = "PlayerInputSettings list"

definition key_binding :: "string \<Rightarrow> InputBinding" where
  "key_binding code = \<lparr>binding_device = ''keyboard:default'', binding_kind = keyboard_key,
     binding_code = code\<rparr>"

definition default_bindings :: "nat \<Rightarrow> (GameAction, InputBinding) om" where
  "default_bindings player_index =
     (if player_index = 0
      then [(act_up, key_binding ''ArrowUp''), (act_down, key_binding ''ArrowDown''),
            (act_left, key_binding ''ArrowLeft''), (act_right, key_binding ''ArrowRight''),
            (act_attack_light, key_binding ''Z''), (act_attack_medium, key_binding ''X''),
            (act_attack_heavy, key_binding ''C''), (act_stand, key_binding ''A''),
            (act_start, key_binding ''Enter''), (act_coin, key_binding ''RightShift''),
            (act_pause, key_binding ''Escape'')]
      else [(act_up, key_binding ''W''), (act_down, key_binding ''S''),
            (act_left, key_binding ''A''), (act_right, key_binding ''D''),
            (act_attack_light, key_binding ''F''), (act_attack_medium, key_binding ''G''),
            (act_attack_heavy, key_binding ''H''), (act_stand, key_binding ''R''),
            (act_start, key_binding ''Enter''), (act_coin, key_binding ''Tab''),
            (act_pause, key_binding ''Escape'')])"

definition default_input :: InputSettings where
  "default_input = map (\<lambda>player. \<lparr>selected_device = ''keyboard:default'',
     bindings = default_bindings player\<rparr>) [0..<input_player_count]"

section \<open>Frames\<close>

record 'f FloatOps =
  f_less :: "'f \<Rightarrow> 'f \<Rightarrow> bool"
  f_le :: "'f \<Rightarrow> 'f \<Rightarrow> bool"
  f_neg :: "'f \<Rightarrow> 'f"
  f_abs :: "'f \<Rightarrow> 'f"
  f_zero :: 'f
  f_hundredth :: 'f
  f_one :: 'f

record 'f InputDeviceState =
  state_device_id :: string
  state_kind :: DeviceKind
  pressed_codes :: "string list"
  device_axes :: "(string, 'f) om"

type_synonym 'f InputFrame = "'f InputDeviceState list"

type_synonym ResolvedPlayerInput = "(GameAction, bool) om"

definition action_pressed :: "ResolvedPlayerInput \<Rightarrow> GameAction \<Rightarrow> bool" where
  "action_pressed actions action = (case map_of actions action of None \<Rightarrow> False | Some b \<Rightarrow> b)"

definition find_device :: "'f InputFrame \<Rightarrow> string \<Rightarrow> 'f InputDeviceState option" where
  "find_device frame i = find (\<lambda>d. state_device_id d = i) frame"

definition binding_active ::
  "'f FloatOps \<Rightarrow> InputBinding \<Rightarrow> 'f InputDeviceState \<Rightarrow> 'f \<Rightarrow> bool" where
  "binding_active ops b d threshold =
     (case binding_kind b of
        keyboard_key \<Rightarrow> state_kind d = dev_keyboard \<and> binding_code b \<in> set (pressed_codes d)
      | gamepad_button \<Rightarrow> state_kind d \<noteq> dev_keyboard \<and> binding_code b \<in> set (pressed_codes d)
      | gamepad_axis \<Rightarrow>
          if state_kind d = dev_keyboard \<or> length (binding_code b) < 2 then False
          else
            let direction = last (binding_code b) in
            if direction \<noteq> CHR ''+'' \<and> direction \<noteq> CHR ''-'' then False
            else case map_of (device_axes d) (butlast (binding_code b)) of
              None \<Rightarrow> False
            | Some v \<Rightarrow>
                if direction = CHR ''+'' then f_le ops threshold v
                else f_le ops v (f_neg ops threshold))"

definition f_clamp :: "'f FloatOps \<Rightarrow> 'f \<Rightarrow> 'f \<Rightarrow> 'f \<Rightarrow> 'f" where
  "f_clamp ops v lo hi = (if f_less ops v lo then lo else if f_less ops hi v then hi else v)"

definition axis_limit :: "'f FloatOps \<Rightarrow> 'f \<Rightarrow> 'f" where
  "axis_limit ops axis_threshold =
     f_clamp ops (f_abs ops axis_threshold) (f_hundredth ops) (f_one ops)"

definition resolve_binding ::
  "'f FloatOps \<Rightarrow> 'f InputFrame \<Rightarrow> 'f \<Rightarrow> GameAction \<times> InputBinding \<Rightarrow> ResolvedPlayerInput
     \<Rightarrow> ResolvedPlayerInput" where
  "resolve_binding ops frame threshold ab actions =
     (case find_device frame (binding_device (snd ab)) of
        None \<Rightarrow> actions
      | Some d \<Rightarrow> om_put (fst ab) (binding_active ops (snd ab) d threshold) actions)"

definition resolve_player ::
  "'f FloatOps \<Rightarrow> 'f InputFrame \<Rightarrow> 'f \<Rightarrow> PlayerInputSettings \<Rightarrow> ResolvedPlayerInput" where
  "resolve_player ops frame threshold p =
     fold (resolve_binding ops frame threshold) (bindings p)
       (fold (\<lambda>a. om_put a False) all_game_actions [])"

definition resolve_player_actions ::
  "'f FloatOps \<Rightarrow> InputSettings \<Rightarrow> 'f InputFrame \<Rightarrow> 'f \<Rightarrow> ResolvedPlayerInput list" where
  "resolve_player_actions ops settings frame axis_threshold =
     map (resolve_player ops frame (axis_limit ops axis_threshold)) settings"

section \<open>Capturing a binding\<close>

definition old_axis :: "'f FloatOps \<Rightarrow> 'f InputDeviceState option \<Rightarrow> string \<Rightarrow> 'f" where
  "old_axis ops before axis =
     (case before of
        None \<Rightarrow> f_zero ops
      | Some d \<Rightarrow> (case map_of (device_axes d) axis of None \<Rightarrow> f_zero ops | Some v \<Rightarrow> v))"

fun capture_axis ::
  "'f FloatOps \<Rightarrow> 'f \<Rightarrow> 'f InputDeviceState option \<Rightarrow> (string, 'f) om \<Rightarrow> string option" where
  "capture_axis ops threshold before [] = None"
| "capture_axis ops threshold before ((axis, v) # rest) =
     (let old = old_axis ops before axis in
      if f_le ops threshold v \<and> f_less ops old threshold then Some (axis @ ''+'')
      else if f_le ops v (f_neg ops threshold) \<and> f_less ops (f_neg ops threshold) old
      then Some (axis @ ''-'')
      else capture_axis ops threshold before rest)"

definition newly_pressed :: "'f InputDeviceState option \<Rightarrow> string \<Rightarrow> bool" where
  "newly_pressed before code \<longleftrightarrow>
     (case before of None \<Rightarrow> True | Some d \<Rightarrow> code \<notin> set (pressed_codes d))"

definition capture_binding ::
  "'f FloatOps \<Rightarrow> string \<Rightarrow> 'f InputFrame \<Rightarrow> 'f InputFrame \<Rightarrow> 'f \<Rightarrow> InputBinding result" where
  "capture_binding ops i previous current axis_threshold =
     (case find_device current i of
        None \<Rightarrow> failure invalid_argument (''capture device is not present: '' @ i)
      | Some d \<Rightarrow>
          let before = find_device previous i in
          case find (newly_pressed before) (pressed_codes d) of
            Some code \<Rightarrow> success \<lparr>binding_device = i,
              binding_kind = (if state_kind d = dev_keyboard then keyboard_key else gamepad_button),
              binding_code = code\<rparr>
          | None \<Rightarrow>
              (case (if state_kind d \<noteq> dev_keyboard
                     then capture_axis ops (axis_limit ops axis_threshold) before (device_axes d)
                     else None) of
                 Some code \<Rightarrow> success \<lparr>binding_device = i, binding_kind = gamepad_axis,
                   binding_code = code\<rparr>
               | None \<Rightarrow> failure invalid_argument ''no newly activated control to capture''))"

section \<open>The device registry\<close>

record InputDeviceInfo =
  info_id :: string
  info_name :: string
  info_kind :: DeviceKind

datatype DeviceChangeKind = device_connected | device_disconnected

record InputDeviceChange =
  change_kind :: DeviceChangeKind
  change_device :: InputDeviceInfo

type_synonym InputDeviceRegistry = "InputDeviceInfo list"

definition registry_contains :: "string \<Rightarrow> InputDeviceRegistry \<Rightarrow> bool" where
  "registry_contains i devices \<longleftrightarrow> list_ex (\<lambda>d. info_id d = i) devices"

text \<open>\<open>std::unique\<close> by id: of each run of equal ids the first stays.\<close>

fun unique_ids :: "InputDeviceInfo list \<Rightarrow> InputDeviceInfo list" where
  "unique_ids [] = []"
| "unique_ids [d] = [d]"
| "unique_ids (d # e # ds) =
     (if info_id d = info_id e then unique_ids (d # ds) else d # unique_ids (e # ds))"

definition clean_devices :: "InputDeviceInfo list \<Rightarrow> InputDeviceInfo list" where
  "clean_devices devices =
     unique_ids (sort_key info_id (filter (\<lambda>d. info_id d \<noteq> []) devices))"

text \<open>
  The final \<open>std::sort\<close> is by id and then kind.  The ids of the changes are distinct
  (lemma \<open>changes_distinct\<close> below), so ties, which it may reorder, do not occur; the model
  sorts by id.
\<close>

definition device_changes ::
  "InputDeviceRegistry \<Rightarrow> InputDeviceInfo list \<Rightarrow> InputDeviceChange list" where
  "device_changes old devices =
     (let gone = filter (\<lambda>d. \<not> registry_contains (info_id d) devices) old;
          came = filter (\<lambda>d. \<not> registry_contains (info_id d) old) devices
      in sort_key (\<lambda>c. info_id (change_device c))
           (map (\<lambda>d. \<lparr>change_kind = device_disconnected, change_device = d\<rparr>) gone @
            map (\<lambda>d. \<lparr>change_kind = device_connected, change_device = d\<rparr>) came))"

definition registry_refresh ::
  "InputDeviceInfo list \<Rightarrow> InputDeviceRegistry \<Rightarrow> InputDeviceChange list \<times> InputDeviceRegistry" where
  "registry_refresh listed devices =
     (let now = clean_devices listed in (device_changes devices now, now))"

end
