(* ===== verification/Ascii_Text.thy ===== *)
theory Ascii_Text
  imports Prelude
begin

text \<open>
  Text the way the C++ library reads it in the C locale: white space, case, trimming,
  splitting at a character, the lines of a stream.
\<close>

definition ascii_space :: "char \<Rightarrow> bool" where
  "ascii_space c \<longleftrightarrow> (of_char c :: nat) \<in> {9, 10, 11, 12, 13, 32}"

definition trim_ascii :: "string \<Rightarrow> string" where
  "trim_ascii s = rev (dropWhile ascii_space (rev (dropWhile ascii_space s)))"

definition to_upper :: "char \<Rightarrow> char" where
  "to_upper c = (let n = of_char c :: nat in if 97 \<le> n \<and> n \<le> 122 then char_of (n - 32) else c)"

definition to_lower :: "char \<Rightarrow> char" where
  "to_lower c = (let n = of_char c :: nat in if 65 \<le> n \<and> n \<le> 90 then char_of (n + 32) else c)"

definition ascii_upper :: "string \<Rightarrow> string" where
  "ascii_upper = map to_upper"

definition ascii_lower :: "string \<Rightarrow> string" where
  "ascii_lower = map to_lower"

text \<open>The pieces between the occurrences of a character, empty ones included.\<close>

fun split_on :: "char \<Rightarrow> string \<Rightarrow> string list" where
  "split_on c [] = [[]]"
| "split_on c (x # xs) =
     (if x = c then [] # split_on c xs
      else case split_on c xs of [] \<Rightarrow> [[x]] | p # ps \<Rightarrow> (x # p) # ps)"

text \<open>\<open>std::getline\<close> until the stream ends.\<close>

fun read_lines :: "string \<Rightarrow> string \<Rightarrow> string list" where
  "read_lines line [] = (if line = [] then [] else [line])"
| "read_lines line (c # cs) =
     (if c = CHR 0x0A then line # read_lines [] cs else read_lines (line @ [c]) cs)"

section \<open>Splitting\<close>

lemma split_on_nonempty [simp]: "split_on c s \<noteq> []"
  by (cases s) (auto split: list.splits)

lemma split_on_join: "concat (map ((#) c) (split_on c s)) = c # s"
  by (induction s) (auto split: list.splits)

lemma split_on_pieces: "p \<in> set (split_on c s) \<Longrightarrow> c \<notin> set p"
proof (induction s arbitrary: p)
  case (Cons x s)
  then show ?case by (cases "split_on c s") (auto split: if_splits)
qed simp

lemma split_on_subset: "p \<in> set (split_on c s) \<Longrightarrow> x \<in> set p \<Longrightarrow> x \<in> set s"
proof (induction s arbitrary: p)
  case (Cons y s)
  obtain a l where "split_on c s = a # l" by (metis split_on_nonempty list.exhaust)
  then show ?case using Cons by (fastforce split: if_splits)
qed simp

lemma split_on_map:
  assumes "\<And>x. f x = c \<longleftrightarrow> x = c"
  shows "split_on c (map f s) = map (map f) (split_on c s)"
  using assms by (induction s) (auto split: list.splits)

section \<open>Case\<close>

lemma to_upper_idem [simp]: "to_upper (to_upper c) = to_upper c"
  by (auto simp: to_upper_def Let_def)

lemma ascii_upper_idem [simp]: "ascii_upper (ascii_upper s) = ascii_upper s"
  by (simp add: ascii_upper_def comp_def)

lemma to_upper_fixed:
  assumes "\<not> (97 \<le> (of_char d :: nat) \<and> of_char d \<le> (122 :: nat))"
    "\<not> (65 \<le> (of_char d :: nat) \<and> of_char d \<le> (90 :: nat))"
  shows "to_upper c = d \<longleftrightarrow> c = d"
  using assms by (auto simp: to_upper_def Let_def)

end
