(* ===== verification/Settings.thy ===== *)
theory Settings
  imports Input Semver Ascii_Text
begin

text \<open>
  The application settings, from \<^verbatim>\<open>src/src/core/settings.h\<close> and
  \<^verbatim>\<open>settings.cpp\<close>: validation, the names of the enumerations, the parser of
  the settings file and the writer.  An enumeration that the parser fills by a cast from
  \<open>int\<close> is an integer here, as any value of it can occur; the file system is a parameter of
  the writer.
\<close>

datatype AspectRatio = ratio_4_3 | ratio_16_9 | ratio_16_10 | ratio_21_9 | ratio_32_9
datatype DisplayMode = windowed | fullscreen | borderless
datatype HudSafeArea = safe_16_9 | expanded

type_synonym TextureFilter = int
type_synonym Msaa = int
type_synonym UiScale = int

record GraphicsSettings =
  width :: int
  height :: int
  aspect_ratio :: AspectRatio
  texture_filter :: TextureFilter
  msaa :: Msaa
  display_mode :: DisplayMode
  vsync :: bool
  ui_scale :: UiScale
  hud_safe_area :: HudSafeArea

record AudioSettings =
  master_volume :: int
  music_volume :: int
  effects_volume :: int
  mute_when_unfocused :: bool

record AppSettings =
  install_root :: string
  graphics :: GraphicsSettings
  audio :: AudioSettings
  input_settings :: InputSettings

definition default_graphics :: GraphicsSettings where
  "default_graphics = \<lparr>width = 1920, height = 1080, aspect_ratio = ratio_16_9,
     texture_filter = 16, msaa = 4, display_mode = windowed, vsync = True, ui_scale = 0,
     hud_safe_area = safe_16_9\<rparr>"

definition default_audio :: AudioSettings where
  "default_audio = \<lparr>master_volume = 100, music_volume = 100, effects_volume = 100,
     mute_when_unfocused = False\<rparr>"

definition default_settings :: AppSettings where
  "default_settings = \<lparr>install_root = [], graphics = default_graphics, audio = default_audio,
     input_settings = default_input\<rparr>"

section \<open>Validation\<close>

definition valid_filter :: "TextureFilter \<Rightarrow> bool" where
  "valid_filter f \<longleftrightarrow> f \<in> {0, 2, 4, 8, 16}"

definition valid_msaa :: "Msaa \<Rightarrow> bool" where
  "valid_msaa m \<longleftrightarrow> m \<in> {0, 2, 4, 8}"

definition valid_ui_scale :: "UiScale \<Rightarrow> bool" where
  "valid_ui_scale s \<longleftrightarrow> s \<in> {0, 75, 80, 90, 100, 110, 125, 150}"

definition validate_graphics :: "GraphicsSettings \<Rightarrow> bool" where
  "validate_graphics s \<longleftrightarrow> 640 \<le> width s \<and> width s \<le> 7680 \<and> 480 \<le> height s \<and>
     height s \<le> 4320 \<and> valid_filter (texture_filter s) \<and> valid_msaa (msaa s) \<and>
     valid_ui_scale (ui_scale s)"

definition valid_volume :: "int \<Rightarrow> bool" where
  "valid_volume v \<longleftrightarrow> 0 \<le> v \<and> v \<le> 100"

definition validate_audio :: "AudioSettings \<Rightarrow> bool" where
  "validate_audio s \<longleftrightarrow> valid_volume (master_volume s) \<and> valid_volume (music_volume s) \<and>
     valid_volume (effects_volume s)"

definition validate_input :: "InputSettings \<Rightarrow> bool" where
  "validate_input players \<longleftrightarrow>
     list_all (\<lambda>p. selected_device p \<noteq> [] \<and>
       list_all (\<lambda>(a, b). binding_device b \<noteq> [] \<and> binding_code b \<noteq> []) (bindings p)) players"

section \<open>Names\<close>

fun aspect_to_string :: "AspectRatio \<Rightarrow> string" where
  "aspect_to_string ratio_4_3 = ''4:3''"
| "aspect_to_string ratio_16_9 = ''16:9''"
| "aspect_to_string ratio_16_10 = ''16:10''"
| "aspect_to_string ratio_21_9 = ''21:9''"
| "aspect_to_string ratio_32_9 = ''32:9''"

definition aspect_ratio_from_string :: "string \<Rightarrow> AspectRatio result" where
  "aspect_ratio_from_string v =
     (if v = ''4:3'' then success ratio_4_3
      else if v = ''16:9'' then success ratio_16_9
      else if v = ''16:10'' then success ratio_16_10
      else if v = ''21:9'' then success ratio_21_9
      else if v = ''32:9'' then success ratio_32_9
      else failure invalid_settings (''invalid aspect ratio: '' @ v))"

fun mode_to_string :: "DisplayMode \<Rightarrow> string" where
  "mode_to_string windowed = ''windowed''"
| "mode_to_string fullscreen = ''fullscreen''"
| "mode_to_string borderless = ''borderless''"

definition display_mode_from_string :: "string \<Rightarrow> DisplayMode result" where
  "display_mode_from_string v =
     (if v = ''windowed'' then success windowed
      else if v = ''fullscreen'' then success fullscreen
      else if v = ''borderless'' then success borderless
      else failure invalid_settings (''invalid display mode: '' @ v))"

fun hud_to_string :: "HudSafeArea \<Rightarrow> string" where
  "hud_to_string safe_16_9 = ''safe_16_9''"
| "hud_to_string expanded = ''expanded''"

definition hud_safe_area_from_string :: "string \<Rightarrow> HudSafeArea result" where
  "hud_safe_area_from_string v =
     (if v = ''safe_16_9'' then success safe_16_9
      else if v = ''expanded'' then success expanded
      else failure invalid_settings (''invalid HUD safe area: '' @ v))"

section \<open>Reading\<close>

definition trim_space :: "char \<Rightarrow> bool" where
  "trim_space c \<longleftrightarrow> (of_char c :: nat) \<in> {32, 9, 13, 10}"

definition trim :: "string \<Rightarrow> string" where
  "trim s = rev (dropWhile trim_space (rev (dropWhile trim_space s)))"

text \<open>\<open>std::from_chars\<close> on an \<open>int\<close>: an optional minus sign and the longest run of digits.\<close>

definition from_chars_int :: "string \<Rightarrow> (int \<times> string) option" where
  "from_chars_int text =
     (let negative = (text \<noteq> [] \<and> hd text = CHR ''-'');
          body = (if negative then tl text else text);
          ds = takeWhile is_digit body;
          v = int (decimal_value ds)
      in if ds = [] \<or> (if negative then 2 ^ 31 < v else 2 ^ 31 \<le> v) then None
         else Some (if negative then - v else v, dropWhile is_digit body))"

definition parse_int :: "string \<Rightarrow> int result" where
  "parse_int text =
     (case from_chars_int text of
        None \<Rightarrow> failure invalid_settings (''invalid integer: '' @ text)
      | Some (v, rest) \<Rightarrow>
          if rest \<noteq> [] then failure invalid_settings (''invalid integer: '' @ text)
          else success v)"

definition parse_bool :: "string \<Rightarrow> bool result" where
  "parse_bool text =
     (if text = ''1'' \<or> text = ''true'' then success True
      else if text = ''0'' \<or> text = ''false'' then success False
      else failure invalid_settings (''invalid boolean: '' @ text))"

definition load_binding_key ::
  "nat \<Rightarrow> string \<Rightarrow> string \<Rightarrow> InputSettings \<Rightarrow> InputSettings result" where
  "load_binding_key player action_text value players =
     (if length players \<le> player
      then failure invalid_settings ''input player index is outside supported range''
      else case game_action_from_string action_text of
        Inl (e, d) \<Rightarrow> failure e d
      | Inr action \<Rightarrow>
          (case parse_binding value of
             Inl (e, d) \<Rightarrow> failure e d
           | Inr binding \<Rightarrow>
               let p = players ! player in
               success (players[player := p\<lparr>bindings := om_put action binding (bindings p)\<rparr>])))"

definition set_device :: "nat \<Rightarrow> string \<Rightarrow> AppSettings \<Rightarrow> AppSettings" where
  "set_device player v s =
     s\<lparr>input_settings := (input_settings s)[player := (input_settings s ! player)\<lparr>selected_device := v\<rparr>]\<rparr>"

definition load_binding :: "nat \<Rightarrow> string \<Rightarrow> string \<Rightarrow> AppSettings \<Rightarrow> AppSettings result" where
  "load_binding player action_text v s =
     (case load_binding_key player action_text v (input_settings s) of
        Inl (e, d) \<Rightarrow> failure e d
      | Inr players \<Rightarrow> success (s\<lparr>input_settings := players\<rparr>))"

text \<open>A parsed value is stored, or its error is the error of the file.\<close>

definition store :: "'a result \<Rightarrow> ('a \<Rightarrow> AppSettings) \<Rightarrow> AppSettings result" where
  "store r f = (case r of Inl (e, d) \<Rightarrow> failure e d | Inr v \<Rightarrow> success (f v))"

definition put_graphics :: "(GraphicsSettings \<Rightarrow> GraphicsSettings) \<Rightarrow> AppSettings \<Rightarrow> AppSettings" where
  "put_graphics f s = s\<lparr>graphics := f (graphics s)\<rparr>"

definition put_audio :: "(AudioSettings \<Rightarrow> AudioSettings) \<Rightarrow> AppSettings \<Rightarrow> AppSettings" where
  "put_audio f s = s\<lparr>audio := f (audio s)\<rparr>"

definition load_key :: "string \<Rightarrow> string \<Rightarrow> AppSettings \<Rightarrow> AppSettings result" where
  "load_key key v s =
     (if key = ''install_root'' then success (s\<lparr>install_root := v\<rparr>)
      else if key = ''install_dir'' \<and> install_root s = [] then success (s\<lparr>install_root := v\<rparr>)
      else if key = ''selected_device'' \<or> key = ''selected_device.p1'' then success (set_device 0 v s)
      else if key = ''selected_device.p2'' then success (set_device 1 v s)
      else if take 8 key = ''bind.p1.'' then load_binding 0 (drop 8 key) v s
      else if take 8 key = ''bind.p2.'' then load_binding 1 (drop 8 key) v s
      else if take 5 key = ''bind.'' then load_binding 0 (drop 5 key) v s
      else if key = ''width'' then store (parse_int v) (\<lambda>x. put_graphics (\<lambda>g. g\<lparr>width := x\<rparr>) s)
      else if key = ''height'' then store (parse_int v) (\<lambda>x. put_graphics (\<lambda>g. g\<lparr>height := x\<rparr>) s)
      else if key = ''aspect_ratio''
      then store (aspect_ratio_from_string v) (\<lambda>x. put_graphics (\<lambda>g. g\<lparr>aspect_ratio := x\<rparr>) s)
      else if key = ''texture_filter''
      then store (parse_int v) (\<lambda>x. put_graphics (\<lambda>g. g\<lparr>texture_filter := x\<rparr>) s)
      else if key = ''msaa'' then store (parse_int v) (\<lambda>x. put_graphics (\<lambda>g. g\<lparr>msaa := x\<rparr>) s)
      else if key = ''display_mode''
      then store (display_mode_from_string v) (\<lambda>x. put_graphics (\<lambda>g. g\<lparr>display_mode := x\<rparr>) s)
      else if key = ''fullscreen''
      then store (parse_bool v)
        (\<lambda>x. put_graphics (\<lambda>g. g\<lparr>display_mode := (if x then fullscreen else windowed)\<rparr>) s)
      else if key = ''ui_scale'' then store (parse_int v) (\<lambda>x. put_graphics (\<lambda>g. g\<lparr>ui_scale := x\<rparr>) s)
      else if key = ''hud_safe_area''
      then store (hud_safe_area_from_string v) (\<lambda>x. put_graphics (\<lambda>g. g\<lparr>hud_safe_area := x\<rparr>) s)
      else if key = ''vsync'' then store (parse_bool v) (\<lambda>x. put_graphics (\<lambda>g. g\<lparr>vsync := x\<rparr>) s)
      else if key = ''master_volume''
      then store (parse_int v) (\<lambda>x. put_audio (\<lambda>a. a\<lparr>master_volume := x\<rparr>) s)
      else if key = ''music_volume''
      then store (parse_int v) (\<lambda>x. put_audio (\<lambda>a. a\<lparr>music_volume := x\<rparr>) s)
      else if key = ''effects_volume''
      then store (parse_int v) (\<lambda>x. put_audio (\<lambda>a. a\<lparr>effects_volume := x\<rparr>) s)
      else if key = ''mute_when_unfocused''
      then store (parse_bool v) (\<lambda>x. put_audio (\<lambda>a. a\<lparr>mute_when_unfocused := x\<rparr>) s)
      else success s)"

text \<open>\<open>line.find('=')\<close>, as the text before and after.\<close>

fun split_equals :: "string \<Rightarrow> (string \<times> string) option" where
  "split_equals [] = None"
| "split_equals (c # cs) =
     (if c = CHR ''='' then Some ([], cs)
      else case split_equals cs of None \<Rightarrow> None | Some (a, b) \<Rightarrow> Some (c # a, b))"

definition load_line :: "string \<Rightarrow> AppSettings \<Rightarrow> AppSettings result" where
  "load_line raw s =
     (let line = trim raw in
      if line = [] \<or> hd line = CHR ''#'' \<or> hd line = CHR '';'' then success s
      else case split_equals line of
        None \<Rightarrow> success s
      | Some (k, v) \<Rightarrow> load_key (trim k) (trim v) s)"

fun load_lines :: "string list \<Rightarrow> AppSettings \<Rightarrow> AppSettings result" where
  "load_lines [] s = success s"
| "load_lines (l # ls) s =
     (case load_line l s of Inl (e, d) \<Rightarrow> failure e d | Inr s' \<Rightarrow> load_lines ls s')"

definition check_settings :: "AppSettings \<Rightarrow> unit result" where
  "check_settings s =
     (if \<not> validate_graphics (graphics s)
      then failure invalid_settings ''graphics settings are outside supported ranges''
      else if \<not> validate_audio (audio s)
      then failure invalid_settings ''audio settings are outside supported ranges''
      else if \<not> validate_input (input_settings s)
      then failure invalid_settings ''input settings are invalid''
      else success ())"

text \<open>The content of the file is \<open>None\<close> when it cannot be opened.\<close>

definition load_settings :: "string \<Rightarrow> string option \<Rightarrow> AppSettings result" where
  "load_settings path content =
     (case content of
        None \<Rightarrow> failure file_not_found (''settings file not found: '' @ path)
      | Some text \<Rightarrow>
          (case load_lines (read_lines [] text) default_settings of
             Inl (e, d) \<Rightarrow> failure e d
           | Inr s \<Rightarrow> (case check_settings s of Inl (e, d) \<Rightarrow> failure e d | Inr _ \<Rightarrow> success s)))"

section \<open>Writing\<close>

definition int_to_string :: "int \<Rightarrow> string" where
  "int_to_string i = (if i < 0 then CHR ''-'' # decimal (nat (- i)) else decimal (nat i))"

definition bool_to_string :: "bool \<Rightarrow> string" where
  "bool_to_string b = (if b then ''1'' else ''0'')"

definition bind_prefix :: "nat \<Rightarrow> string" where
  "bind_prefix player = ''bind.p'' @ decimal (player + 1) @ ''.''"

definition binding_lines :: "nat \<Rightarrow> PlayerInputSettings \<Rightarrow> string list" where
  "binding_lines player p =
     concat (map (\<lambda>a. case map_of (bindings p) a of
        None \<Rightarrow> []
      | Some b \<Rightarrow> [bind_prefix player @ action_to_string a @ ''='' @ serialize_binding b]) all_game_actions)"

definition player_lines :: "nat \<Rightarrow> PlayerInputSettings \<Rightarrow> string list" where
  "player_lines player p =
     (''selected_device.p'' @ decimal (player + 1) @ ''='' @ selected_device p) #
     binding_lines player p"

definition settings_lines :: "AppSettings \<Rightarrow> string list" where
  "settings_lines s =
     (let g = graphics s; a = audio s in
      [''# JOJO Recompiled settings'',
       ''install_root='' @ install_root s,
       ''width='' @ int_to_string (width g),
       ''height='' @ int_to_string (height g),
       ''aspect_ratio='' @ aspect_to_string (aspect_ratio g),
       ''texture_filter='' @ int_to_string (texture_filter g),
       ''msaa='' @ int_to_string (msaa g),
       ''display_mode='' @ mode_to_string (display_mode g),
       ''vsync='' @ bool_to_string (vsync g),
       ''ui_scale='' @ int_to_string (ui_scale g),
       ''hud_safe_area='' @ hud_to_string (hud_safe_area g),
       ''master_volume='' @ int_to_string (master_volume a),
       ''music_volume='' @ int_to_string (music_volume a),
       ''effects_volume='' @ int_to_string (effects_volume a),
       ''mute_when_unfocused='' @ bool_to_string (mute_when_unfocused a)] @
      concat (map (\<lambda>player. player_lines player (input_settings s ! player))
        [0..<length (input_settings s)]))"

definition settings_text :: "AppSettings \<Rightarrow> string" where
  "settings_text s = concat (map (\<lambda>l. l @ [CHR 0x0A]) (settings_lines s))"

text \<open>
  The file system of the writer: creating the parent directory if there is one (\<open>Some\<close> is
  the error's message), opening the temporary file, writing it, and replacing the target.
\<close>

record 'w SettingsFiles =
  make_directories :: "'w \<Rightarrow> string option \<times> 'w"
  open_temp :: "'w \<Rightarrow> bool \<times> 'w"
  write_temp :: "string \<Rightarrow> 'w \<Rightarrow> bool \<times> 'w"
  replace_target :: "'w \<Rightarrow> unit result \<times> 'w"

definition save_settings_atomic ::
  "'w SettingsFiles \<Rightarrow> AppSettings \<Rightarrow> 'w \<Rightarrow> unit result \<times> 'w" where
  "save_settings_atomic fs s w =
     (case check_settings s of
        Inl (e, d) \<Rightarrow> (failure e d, w)
      | Inr _ \<Rightarrow>
          (case make_directories fs w of
             (Some message, w1) \<Rightarrow>
               (failure io_error (''failed to create settings directory: '' @ message), w1)
           | (None, w1) \<Rightarrow>
               (case open_temp fs w1 of
                  (False, w2) \<Rightarrow> (failure io_error ''failed to open temporary settings file'', w2)
                | (True, w2) \<Rightarrow>
                    (case write_temp fs (settings_text s) w2 of
                       (False, w3) \<Rightarrow> (failure io_error ''failed while writing settings'', w3)
                     | (True, w3) \<Rightarrow> replace_target fs w3))))"

end
