(* ===== verification/Input_Props.thy ===== *)
theory Input_Props
  imports Input
begin

text \<open>
  Lemmas on the input mapping: names and binding texts parse back, resolution is
  pointwise, a captured control is active, and the registry keeps its devices sorted by
  distinct ids.
\<close>

section \<open>Names\<close>

lemma action_to_string_inj: "action_to_string a = action_to_string b \<longleftrightarrow> a = b"
  by (cases a; cases b) simp_all

lemma set_all_game_actions: "set all_game_actions = UNIV"
proof -
  have "a \<in> set all_game_actions" for a by (cases a) (simp_all add: all_game_actions_def)
  then show ?thesis by blast
qed

lemma all_game_actions_sorted: "sorted_wrt (<) all_game_actions"
  by (simp add: all_game_actions_def less_GameAction_def)

lemma game_action_from_string_iff: "game_action_from_string s = Inr a \<longleftrightarrow> s = action_to_string a"
proof (cases "find (\<lambda>a. action_to_string a = s) all_game_actions")
  case None
  then have "\<forall>b. action_to_string b \<noteq> s" by (simp add: find_None_iff set_all_game_actions)
  moreover have "game_action_from_string s \<noteq> Inr a" using None by (simp add: game_action_from_string_def)
  ultimately show ?thesis by metis
next
  case (Some b)
  then have "action_to_string b = s" by (auto simp: find_Some_iff)
  then show ?thesis using Some by (auto simp: game_action_from_string_def action_to_string_inj)
qed

lemma binding_kind_from_string_iff: "binding_kind_from_string s = Inr k \<longleftrightarrow> s = kind_to_string k"
  by (cases k) (auto simp: binding_kind_from_string_def)

section \<open>Binding texts\<close>

lemma split_bar_iff: "split_bar t = Some (a, b) \<longleftrightarrow> t = a @ CHR ''|'' # b \<and> CHR ''|'' \<notin> set a"
proof (induction t arbitrary: a)
  case (Cons c t)
  show ?case
  proof (cases "c = CHR ''|''")
    case True
    then show ?thesis by (cases a) auto
  next
    case False
    then have "split_bar (c # t) = Some (a, b) \<longleftrightarrow> (\<exists>a'. a = c # a' \<and> split_bar t = Some (a', b))"
      by (cases "split_bar t") auto
    also have "\<dots> \<longleftrightarrow> (\<exists>a'. a = c # a' \<and> t = a' @ CHR ''|'' # b \<and> CHR ''|'' \<notin> set a')"
      using Cons.IH by simp
    also have "\<dots> \<longleftrightarrow> c # t = a @ CHR ''|'' # b \<and> CHR ''|'' \<notin> set a"
      using False by (cases a) auto
    finally show ?thesis .
  qed
qed simp

lemma no_bar_kind: "CHR ''|'' \<notin> set (kind_to_string k)"
  by (cases k) simp_all

definition binding_writable :: "InputBinding \<Rightarrow> bool" where
  "binding_writable b \<longleftrightarrow> binding_device b \<noteq> [] \<and> binding_code b \<noteq> [] \<and>
     CHR ''|'' \<notin> set (binding_device b)"

lemma parse_binding_iff: "parse_binding t = Inr b \<longleftrightarrow> t = serialize_binding b \<and> binding_writable b"
proof
  assume "parse_binding t = Inr b"
  then obtain dev rest kt code where "split_bar t = Some (dev, rest)" "split_bar rest = Some (kt, code)"
      "dev \<noteq> []" "code \<noteq> []" "binding_kind_from_string kt = Inr (binding_kind b)"
      "binding_device b = dev" "binding_code b = code"
    by (auto simp: parse_binding_def split: option.splits if_splits sum.splits)
  then show "t = serialize_binding b \<and> binding_writable b"
    by (auto simp: split_bar_iff binding_kind_from_string_iff serialize_binding_def binding_writable_def)
next
  assume h: "t = serialize_binding b \<and> binding_writable b"
  then have "split_bar t = Some (binding_device b, kind_to_string (binding_kind b) @ CHR ''|'' # binding_code b)"
    by (simp add: split_bar_iff serialize_binding_def binding_writable_def)
  moreover have "split_bar (kind_to_string (binding_kind b) @ CHR ''|'' # binding_code b) =
      Some (kind_to_string (binding_kind b), binding_code b)"
    by (simp add: split_bar_iff no_bar_kind)
  moreover have "binding_kind_from_string (kind_to_string (binding_kind b)) = Inr (binding_kind b)"
    by (simp add: binding_kind_from_string_iff)
  ultimately show "parse_binding t = Inr b"
    using h by (simp add: parse_binding_def binding_writable_def)
qed

section \<open>Resolution\<close>

definition binding_held :: "'f FloatOps \<Rightarrow> 'f InputFrame \<Rightarrow> 'f \<Rightarrow> InputBinding \<Rightarrow> bool" where
  "binding_held ops frame threshold b =
     (case find_device frame (binding_device b) of
        None \<Rightarrow> False | Some d \<Rightarrow> binding_active ops b d threshold)"

lemma action_pressed_put:
  "action_pressed (om_put a v m) x = (if x = a then v else action_pressed m x)"
  by (simp add: action_pressed_def map_of_om_put)

lemma action_pressed_resolve_binding:
  "\<not> action_pressed m (fst ab) \<Longrightarrow> action_pressed (resolve_binding ops frame threshold ab m) x =
     (if x = fst ab then binding_held ops frame threshold (snd ab) else action_pressed m x)"
  by (auto simp: resolve_binding_def binding_held_def action_pressed_put split: option.splits)

lemma fold_resolve_binding:
  "distinct (map fst bs) \<Longrightarrow> (\<And>x. x \<in> fst ` set bs \<Longrightarrow> \<not> action_pressed m x) \<Longrightarrow>
   action_pressed (fold (resolve_binding ops frame threshold) bs m) x =
     (case map_of bs x of None \<Rightarrow> action_pressed m x | Some b \<Rightarrow> binding_held ops frame threshold b)"
proof (induction bs arbitrary: m)
  case (Cons ab bs)
  obtain a b where ab: "ab = (a, b)" by force
  let ?m = "resolve_binding ops frame threshold ab m"
  have m: "action_pressed ?m y = (if y = a then binding_held ops frame threshold b else action_pressed m y)" for y
    using action_pressed_resolve_binding [of m ab ops frame threshold y] Cons.prems(2) ab by simp
  have "\<not> action_pressed ?m y" if "y \<in> fst ` set bs" for y
    using that m Cons.prems ab by auto
  then have "action_pressed (fold (resolve_binding ops frame threshold) bs ?m) x =
      (case map_of bs x of None \<Rightarrow> action_pressed ?m x | Some b \<Rightarrow> binding_held ops frame threshold b)"
    using Cons by simp
  moreover have "map_of bs a = None"
    using Cons.prems(1) ab by (simp add: map_of_eq_None_iff)
  ultimately show ?case
    using m [of x] ab by (auto split: option.splits)
qed simp

lemma all_released: "\<not> action_pressed (fold (\<lambda>a. om_put a False) as m) x" if "\<not> action_pressed m x"
  using that by (induction as arbitrary: m) (simp_all add: action_pressed_put)

lemma resolve_player_pointwise:
  assumes "om_ok (bindings p)"
  shows "action_pressed (resolve_player ops frame threshold p) a =
    (case map_of (bindings p) a of None \<Rightarrow> False | Some b \<Rightarrow> binding_held ops frame threshold b)"
proof -
  have "\<not> action_pressed (fold (\<lambda>a. om_put a False) all_game_actions []) x" for x
    by (rule all_released) (simp add: action_pressed_def)
  moreover have "distinct (map fst (bindings p))"
    using assms by (simp add: om_ok_def strict_sorted_iff)
  ultimately show ?thesis
    unfolding resolve_player_def by (subst fold_resolve_binding) (auto split: option.splits)
qed

section \<open>Capture\<close>

lemma capture_axis_held:
  assumes "capture_axis ops threshold before axes = Some code"
  shows "\<exists>axis v. (axis, v) \<in> set axes \<and>
    (code = axis @ ''+'' \<and> f_le ops threshold v \<or> code = axis @ ''-'' \<and> f_le ops v (f_neg ops threshold))"
  using assms
  by (induction ops threshold before axes rule: capture_axis.induct) (auto simp: Let_def split: if_splits)

lemma capture_active:
  assumes cap: "capture_binding ops i previous current axis_threshold = Inr b"
    and d: "find_device current i = Some d" and axes: "om_ok (device_axes d)" "[] \<notin> fst ` set (device_axes d)"
  shows "binding_active ops b d (axis_limit ops axis_threshold)"
proof (cases "find (newly_pressed (find_device previous i)) (pressed_codes d)")
  case (Some code)
  then have "code \<in> set (pressed_codes d)" by (auto simp: find_Some_iff)
  then show ?thesis
    using cap d Some by (auto simp: capture_binding_def binding_active_def)
next
  case None
  let ?t = "axis_limit ops axis_threshold"
  obtain code where kind: "state_kind d \<noteq> dev_keyboard"
      and code: "capture_axis ops ?t (find_device previous i) (device_axes d) = Some code"
      and b: "b = \<lparr>binding_device = i, binding_kind = gamepad_axis, binding_code = code\<rparr>"
    using cap d None by (auto simp: capture_binding_def split: option.splits if_splits)
  obtain axis v where av: "(axis, v) \<in> set (device_axes d)"
      "code = axis @ ''+'' \<and> f_le ops ?t v \<or> code = axis @ ''-'' \<and> f_le ops v (f_neg ops ?t)"
    using capture_axis_held [OF code] by blast
  have "map_of (device_axes d) axis = Some v"
    using axes(1) av(1) by (simp add: om_ok_def strict_sorted_iff)
  moreover have "axis \<noteq> []" using av(1) axes(2) by force
  ultimately show ?thesis
    using av(2) kind b by (auto simp: binding_active_def Suc_le_eq)
qed

section \<open>The registry\<close>

definition registry_ok :: "InputDeviceRegistry \<Rightarrow> bool" where
  "registry_ok ds \<longleftrightarrow> sorted_wrt (<) (map info_id ds) \<and> [] \<notin> info_id ` set ds"

lemma unique_ids_hd: "ds \<noteq> [] \<Longrightarrow> unique_ids ds \<noteq> [] \<and> hd (unique_ids ds) = hd ds"
  by (induction ds rule: unique_ids.induct) auto

lemma ids_unique_ids: "info_id ` set (unique_ids ds) = info_id ` set ds"
  by (induction ds rule: unique_ids.induct) auto

lemma unique_ids_sorted:
  "sorted (map info_id ds) \<Longrightarrow> sorted_wrt (<) (map info_id (unique_ids ds))"
proof (induction ds rule: unique_ids.induct)
  case (3 d e ds)
  show ?case
  proof (cases "info_id d = info_id e")
    case True
    then show ?thesis using 3 by simp
  next
    case False
    have "info_id d < info_id x" if "x \<in> set (unique_ids (e # ds))" for x
    proof -
      have "info_id x \<in> info_id ` set (e # ds)" using that ids_unique_ids [of "e # ds"] by blast
      then show ?thesis using 3(3) False by auto
    qed
    then show ?thesis using 3 False by simp
  qed
qed simp_all

lemma clean_devices_ok: "registry_ok (clean_devices listed)"
proof -
  let ?s = "sort_key info_id (filter (\<lambda>d. info_id d \<noteq> []) listed)"
  have "sorted_wrt (<) (map info_id (unique_ids ?s))" by (rule unique_ids_sorted [OF sorted_sort_key])
  moreover have "[] \<notin> info_id ` set (unique_ids ?s)" unfolding ids_unique_ids by auto
  ultimately show ?thesis by (simp add: registry_ok_def clean_devices_def)
qed

lemma clean_devices_ids: "info_id ` set (clean_devices listed) = info_id ` set listed - {[]}"
  unfolding clean_devices_def ids_unique_ids by auto

lemma registry_contains_iff: "registry_contains i ds \<longleftrightarrow> i \<in> info_id ` set ds"
  by (auto simp: registry_contains_def list_ex_iff)

lemma registry_distinct: "registry_ok ds \<Longrightarrow> distinct (map info_id ds)"
  by (simp add: registry_ok_def strict_sorted_iff)

lemma changes_distinct:
  assumes "registry_ok old" "registry_ok now"
  shows "sorted_wrt (<) (map (\<lambda>c. info_id (change_device c)) (device_changes old now))"
proof -
  let ?gone = "filter (\<lambda>d. info_id d \<notin> info_id ` set now) old"
  let ?came = "filter (\<lambda>d. info_id d \<notin> info_id ` set old) now"
  let ?k = "\<lambda>c. info_id (change_device c)"
  let ?cs = "map (\<lambda>d. \<lparr>change_kind = device_disconnected, change_device = d\<rparr>) ?gone @
      map (\<lambda>d. \<lparr>change_kind = device_connected, change_device = d\<rparr>) ?came"
  have eq: "device_changes old now = sort_key ?k ?cs"
    by (simp add: device_changes_def registry_contains_iff)
  have "distinct (map info_id ?gone)" "distinct (map info_id ?came)"
    using assms by (simp_all add: registry_distinct distinct_map_filter)
  then have "distinct (map info_id ?gone @ map info_id ?came)" by auto
  moreover have "map ?k ?cs = map info_id ?gone @ map info_id ?came" by (simp add: comp_def)
  ultimately have "distinct (map ?k ?cs)" by (simp only:)
  then have "distinct (map ?k (sort_key ?k ?cs))" by (simp only: distinct_map set_sort distinct_sort)
  then show ?thesis unfolding eq by (simp only: strict_sorted_iff sorted_sort_key simp_thms)
qed

lemma device_changes_exact:
  "\<lparr>change_kind = k, change_device = d\<rparr> \<in> set (device_changes old now) \<longleftrightarrow>
     (k = device_disconnected \<and> d \<in> set old \<and> info_id d \<notin> info_id ` set now) \<or>
     (k = device_connected \<and> d \<in> set now \<and> info_id d \<notin> info_id ` set old)"
  by (auto simp: device_changes_def registry_contains_iff Let_def)

end
