(* ===== verification/Settings_Props.thy ===== *)
theory Settings_Props
  imports Settings Input_Props
begin

text \<open>
  Lemmas on the settings file: texts that trimming keeps, numbers and names that parse
  back, one line at a time, and the whole file, which loads as the settings that were
  written with the default of every action that was not bound.
\<close>

section \<open>Trimmed texts\<close>

definition trimmed :: "string \<Rightarrow> bool" where
  "trimmed t \<longleftrightarrow> t = [] \<or> (\<not> trim_space (hd t) \<and> \<not> trim_space (last t))"

lemma trim_trimmed: "trimmed t \<Longrightarrow> trim t = t"
proof (cases t rule: rev_cases)
  case (snoc u c)
  assume h: "trimmed t"
  then have "dropWhile trim_space t = t"
    by (cases t) (simp_all add: trimmed_def)
  moreover have "\<not> trim_space c" using h snoc by (simp add: trimmed_def)
  ultimately show ?thesis by (simp add: trim_def snoc)
qed (simp add: trim_def)

lemma split_equals_iff: "split_equals t = Some (a, b) \<longleftrightarrow> t = a @ CHR ''='' # b \<and> CHR ''='' \<notin> set a"
proof (induction t arbitrary: a)
  case (Cons c t)
  show ?case
  proof (cases "c = CHR ''=''")
    case True
    then show ?thesis by (cases a) auto
  next
    case False
    then have "split_equals (c # t) = Some (a, b) \<longleftrightarrow> (\<exists>a'. a = c # a' \<and> split_equals t = Some (a', b))"
      by (cases "split_equals t") auto
    also have "\<dots> \<longleftrightarrow> (\<exists>a'. a = c # a' \<and> t = a' @ CHR ''='' # b \<and> CHR ''='' \<notin> set a')"
      using Cons.IH by simp
    also have "\<dots> \<longleftrightarrow> c # t = a @ CHR ''='' # b \<and> CHR ''='' \<notin> set a"
      using False by (cases a) auto
    finally show ?thesis .
  qed
qed simp

definition key_ok :: "string \<Rightarrow> bool" where
  "key_ok k \<longleftrightarrow> k \<noteq> [] \<and> trimmed k \<and> hd k \<notin> {CHR ''#'', CHR '';''} \<and> CHR ''='' \<notin> set k"

lemma load_line_entry:
  assumes k: "key_ok k" and v: "trimmed v"
  shows "load_line (k @ CHR ''='' # v) s = load_key k v s"
proof -
  have "\<not> trim_space (CHR ''='')" by (simp add: trim_space_def)
  then have "trimmed (k @ CHR ''='' # v)"
    using k v by (auto simp: key_ok_def trimmed_def)
  then have t: "trim (k @ CHR ''='' # v) = k @ CHR ''='' # v" by (rule trim_trimmed)
  have "split_equals (k @ CHR ''='' # v) = Some (k, v)"
    using k by (simp add: split_equals_iff key_ok_def)
  moreover have "trim k = k" "trim v = v" using k v by (simp_all add: key_ok_def trim_trimmed)
  ultimately show ?thesis using k t by (simp add: load_line_def key_ok_def)
qed

section \<open>Values\<close>

lemma digit_not_space: "is_digit c \<Longrightarrow> \<not> trim_space c"
  by (auto simp: is_digit_def trim_space_def)

lemma trimmed_decimal: "trimmed (decimal n)"
  using decimal_digits [of n] digit_not_space hd_in_set [of "decimal n"] last_in_set [of "decimal n"]
  by (auto simp: trimmed_def list_all_iff)

lemma trimmed_int: "trimmed (int_to_string i)"
  using trimmed_decimal [of "nat (- i)"] trimmed_decimal [of "nat i"]
  by (auto simp: int_to_string_def trimmed_def trim_space_def)

lemma trimmed_bool: "trimmed (bool_to_string b)"
  by (simp add: bool_to_string_def trimmed_def trim_space_def)

lemma trimmed_names:
  "trimmed (aspect_to_string r)" "trimmed (mode_to_string m)" "trimmed (hud_to_string h)"
    apply (cases r; simp add: trimmed_def trim_space_def)
   apply (cases m; simp add: trimmed_def trim_space_def)
  apply (cases h; simp add: trimmed_def trim_space_def)
  done

lemma parse_int_of_string:
  assumes "- (2 ^ 31) \<le> i" "i < 2 ^ 31"
  shows "parse_int (int_to_string i) = Inr i"
proof (cases "i < 0")
  case True
  have d: "list_all is_digit (decimal (nat (- i)))" by (rule decimal_digits)
  have "from_chars_int (int_to_string i) = Some (i, [])"
    using True assms by (simp add: from_chars_int_def int_to_string_def Let_def
        takeWhile_digits [OF d] dropWhile_digits [OF d])
  then show ?thesis by (simp add: parse_int_def)
next
  case False
  have d: "list_all is_digit (decimal (nat i))" by (rule decimal_digits)
  have "is_digit (hd (decimal (nat i)))"
    using d hd_in_set [of "decimal (nat i)"] by (simp add: list_all_iff)
  then have "hd (decimal (nat i)) \<noteq> CHR ''-''" by (auto simp: is_digit_def)
  then have "from_chars_int (int_to_string i) = Some (i, [])"
    using False assms by (simp add: from_chars_int_def int_to_string_def Let_def
        takeWhile_digits [OF d] dropWhile_digits [OF d])
  then show ?thesis by (simp add: parse_int_def)
qed

lemma parse_small_int: "0 \<le> i \<Longrightarrow> i \<le> 10000 \<Longrightarrow> parse_int (int_to_string i) = Inr i"
  by (rule parse_int_of_string) simp_all

lemma parse_bool_of_string: "parse_bool (bool_to_string b) = Inr b"
  by (simp add: parse_bool_def bool_to_string_def)

lemma names_parse:
  "aspect_ratio_from_string (aspect_to_string r) = Inr r"
  "display_mode_from_string (mode_to_string m) = Inr m"
  "hud_safe_area_from_string (hud_to_string h) = Inr h"
    apply (cases r; simp add: aspect_ratio_from_string_def)
   apply (cases m; simp add: display_mode_from_string_def)
  apply (cases h; simp add: hud_safe_area_from_string_def)
  done

section \<open>Lines\<close>

lemma load_lines_append:
  "load_lines (xs @ ys) s = (case load_lines xs s of Inl (e, d) \<Rightarrow> failure e d | Inr s' \<Rightarrow> load_lines ys s')"
  by (induction xs s rule: load_lines.induct) (auto split: sum.splits)

lemma read_lines_join:
  "\<forall>l \<in> set (x # ls). CHR 0x0A \<notin> set l \<Longrightarrow>
   read_lines acc (x @ CHR 0x0A # concat (map (\<lambda>l. l @ [CHR 0x0A]) ls)) = (acc @ x) # ls"
proof (induction ls arbitrary: x acc)
  case Nil
  then show ?case by (induction x arbitrary: acc) auto
next
  case (Cons l ls)
  have "read_lines acc (x @ CHR 0x0A # rest) = (acc @ x) # read_lines [] rest" if "CHR 0x0A \<notin> set x" for rest
    using that by (induction x arbitrary: acc) auto
  then show ?case using Cons.prems Cons.IH [of l "[]"] by simp
qed

lemma read_lines_text:
  assumes "\<forall>l \<in> set ls. CHR 0x0A \<notin> set l"
  shows "read_lines [] (concat (map (\<lambda>l. l @ [CHR 0x0A]) ls)) = ls"
  using assms read_lines_join [of "hd ls" "tl ls" "[]"] by (cases ls) simp_all

section \<open>Ordered maps are determined by their entries\<close>

lemma om_eqI: "om_ok m \<Longrightarrow> om_ok m' \<Longrightarrow> map_of m = map_of m' \<Longrightarrow> m = m'"
proof -
  assume ok: "om_ok m" "om_ok m'" and eq: "map_of m = map_of m'"
  have keys: "map fst m = map fst m'"
    using ok arg_cong [OF eq, of dom]
    by (intro sorted_distinct_set_unique) (simp_all add: om_ok_def strict_sorted_iff dom_map_of_conv_image_fst)
  have len: "length m = length m'" using keys by (metis length_map)
  show ?thesis
  proof (rule nth_equalityI [OF len])
    fix i assume i: "i < length m"
    have f: "fst (m ! i) = fst (m' ! i)" using keys i len by (metis nth_map)
    have "map_of m (fst (m ! i)) = Some (snd (m ! i))"
      using ok(1) i by (intro map_of_is_SomeI) (simp_all add: om_ok_def strict_sorted_iff)
    moreover have "map_of m' (fst (m' ! i)) = Some (snd (m' ! i))"
      using ok(2) i len by (intro map_of_is_SomeI) (simp_all add: om_ok_def strict_sorted_iff)
    ultimately show "m ! i = m' ! i" using f eq by (simp add: prod_eq_iff)
  qed
qed


section \<open>The whole file\<close>

text \<open>What the writer can put on one line and the reader can take back.\<close>

definition line_text :: "string \<Rightarrow> bool" where
  "line_text t \<longleftrightarrow> trimmed t \<and> CHR 0x0A \<notin> set t"

definition binding_clean :: "InputBinding \<Rightarrow> bool" where
  "binding_clean b \<longleftrightarrow> binding_writable b \<and> line_text (serialize_binding b)"

definition player_clean :: "PlayerInputSettings \<Rightarrow> bool" where
  "player_clean p \<longleftrightarrow> line_text (selected_device p) \<and> om_ok (bindings p) \<and>
     (\<forall>(a, b) \<in> set (bindings p). binding_clean b)"

definition settings_clean :: "AppSettings \<Rightarrow> bool" where
  "settings_clean s \<longleftrightarrow> line_text (install_root s) \<and>
     length (input_settings s) = input_player_count \<and>
     (\<forall>p \<in> set (input_settings s). player_clean p)"

text \<open>The written bindings over the defaults.\<close>

definition put_bound ::
  "(GameAction, InputBinding) om \<Rightarrow> GameAction \<Rightarrow> (GameAction, InputBinding) om
     \<Rightarrow> (GameAction, InputBinding) om" where
  "put_bound m a bs = (case map_of m a of None \<Rightarrow> bs | Some b \<Rightarrow> om_put a b bs)"

definition restored_player :: "nat \<Rightarrow> PlayerInputSettings \<Rightarrow> PlayerInputSettings" where
  "restored_player player p = \<lparr>selected_device = selected_device p,
     bindings = fold (put_bound (bindings p)) all_game_actions (default_bindings player)\<rparr>"

definition restored :: "AppSettings \<Rightarrow> AppSettings" where
  "restored s = s\<lparr>input_settings :=
     map (\<lambda>i. restored_player i (input_settings s ! i)) [0..<length (input_settings s)]\<rparr>"

lemma fold_put_bound:
  "map_of (fold (put_bound m) as bs) x =
     (if x \<in> set as \<and> map_of m x \<noteq> None then map_of m x else map_of bs x)"
  by (induction as arbitrary: bs) (auto simp: put_bound_def map_of_om_put split: option.splits)

lemma om_ok_fold_put_bound: "om_ok bs \<Longrightarrow> om_ok (fold (put_bound m) as bs)"
  by (induction as arbitrary: bs) (auto simp: put_bound_def split: option.splits)

lemma om_ok_default_bindings: "om_ok (default_bindings player)"
  by (simp add: default_bindings_def om_ok_def less_GameAction_def)

lemma restored_bindings:
  "map_of (bindings (restored_player player p)) = map_of (default_bindings player) ++ map_of (bindings p)"
  by (rule ext) (simp add: restored_player_def fold_put_bound set_all_game_actions map_add_def
      split: option.split)

lemma default_bindings_total: "map_of (default_bindings player) a \<noteq> None"
  by (cases a) (simp_all add: default_bindings_def)

lemma restored_player_same:
  assumes "om_ok (bindings p)"
  shows "restored_player player p = p \<longleftrightarrow>
    (\<forall>a. map_of (bindings p) a \<noteq> None)"
proof
  assume "restored_player player p = p"
  then have "map_of (bindings p) = map_of (default_bindings player) ++ map_of (bindings p)"
    using restored_bindings [of player p] by simp
  then show "\<forall>a. map_of (bindings p) a \<noteq> None"
    using default_bindings_total [of player] by (metis map_add_None)
next
  assume total: "\<forall>a. map_of (bindings p) a \<noteq> None"
  have "bindings (restored_player player p) = bindings p"
  proof (rule om_eqI [OF _ assms])
    show "om_ok (bindings (restored_player player p))"
      by (simp add: restored_player_def om_ok_fold_put_bound om_ok_default_bindings)
    show "map_of (bindings (restored_player player p)) = map_of (bindings p)"
      unfolding restored_bindings
    proof (rule ext)
      fix x
      obtain b where "map_of (bindings p) x = Some b" using total by blast
      then show "(map_of (default_bindings player) ++ map_of (bindings p)) x = map_of (bindings p) x"
        by (simp add: map_add_def)
    qed
  qed
  then show "restored_player player p = p"
    by (cases p) (simp add: restored_player_def)
qed

lemma restored_same:
  assumes "\<forall>p \<in> set (input_settings s). om_ok (bindings p)"
  shows "restored s = s \<longleftrightarrow> (\<forall>p \<in> set (input_settings s). \<forall>a. map_of (bindings p) a \<noteq> None)"
proof -
  have "restored s = s \<longleftrightarrow> map (\<lambda>i. restored_player i (input_settings s ! i))
      [0..<length (input_settings s)] = input_settings s"
    by (cases s) (simp add: restored_def)
  also have "\<dots> \<longleftrightarrow> (\<forall>i < length (input_settings s).
      restored_player i (input_settings s ! i) = input_settings s ! i)"
    by (subst list_eq_iff_nth_eq) simp
  also have "\<dots> \<longleftrightarrow> (\<forall>i < length (input_settings s). \<forall>a.
      map_of (bindings (input_settings s ! i)) a \<noteq> None)"
  proof (intro all_cong1 imp_cong refl)
    fix i assume "i < length (input_settings s)"
    then have "input_settings s ! i \<in> set (input_settings s)" by (rule nth_mem)
    then have "om_ok (bindings (input_settings s ! i))" using assms by blast
    then show "restored_player i (input_settings s ! i) = input_settings s ! i \<longleftrightarrow>
        (\<forall>a. map_of (bindings (input_settings s ! i)) a \<noteq> None)" by (rule restored_player_same)
  qed
  finally show ?thesis by (simp only: all_set_conv_all_nth)
qed

section \<open>One player\<close>

lemma load_binding_line:
  assumes p: "player < length (input_settings s)" and b: "binding_clean b"
    and pre: "load_key (pre @ action_to_string a) = load_binding player (action_to_string a)"
      "key_ok (pre @ action_to_string a)"
  shows "load_line (pre @ action_to_string a @ CHR ''='' # serialize_binding b) s =
    Inr (s\<lparr>input_settings := (input_settings s)[player := (input_settings s ! player)
      \<lparr>bindings := om_put a b (bindings (input_settings s ! player))\<rparr>]\<rparr>)"
proof -
  have "load_line ((pre @ action_to_string a) @ CHR ''='' # serialize_binding b) s =
      load_key (pre @ action_to_string a) (serialize_binding b) s"
    using b pre(2) by (intro load_line_entry) (simp_all add: binding_clean_def line_text_def)
  moreover have "parse_binding (serialize_binding b) = Inr b"
    using b by (simp add: parse_binding_iff binding_clean_def)
  ultimately show ?thesis
    using p game_action_from_string_iff [of "action_to_string a" a]
    by (simp add: pre(1) load_binding_def load_binding_key_def Let_def)
qed


lemma action_name_facts:
  "CHR ''='' \<notin> set (action_to_string a)" "CHR 0x0A \<notin> set (action_to_string a)"
  "\<not> trim_space (last (action_to_string a))" "action_to_string a \<noteq> []"
  by (cases a; simp add: trim_space_def)+

lemma bind_key_ok:
  "key_ok (''bind.p1.'' @ action_to_string a)" "key_ok (''bind.p2.'' @ action_to_string a)"
  using action_name_facts [of a] by (simp_all add: key_ok_def trimmed_def trim_space_def [of "CHR ''b''"])

lemma load_key_bind:
  "load_key (''bind.p1.'' @ t) = load_binding 0 t"
  "load_key (''bind.p2.'' @ t) = load_binding 1 t"
  by (simp_all add: fun_eq_iff load_key_def)

lemma decimal_small: "decimal (Suc 0) = ''1''" "decimal (Suc (Suc 0)) = ''2''"
  by code_simp+

lemma load_bind_key:
  assumes "player < input_player_count"
  shows "load_key (bind_prefix player @ action_to_string a) = load_binding player (action_to_string a)"
    "key_ok (bind_prefix player @ action_to_string a)"
  using assms load_key_bind bind_key_ok
  by (auto simp: less_2_cases_iff input_player_count_def bind_prefix_def decimal_small)

lemma load_binding_lines:
  assumes p: "player < input_player_count" "length (input_settings s) = input_player_count"
    and clean: "\<forall>(a, b) \<in> set m. binding_clean b"
  shows "load_lines (concat (map (\<lambda>a. case map_of m a of None \<Rightarrow> []
      | Some b \<Rightarrow> [bind_prefix player @ action_to_string a @ ''='' @ serialize_binding b]) as)) s =
    Inr (s\<lparr>input_settings := (input_settings s)[player := (input_settings s ! player)
      \<lparr>bindings := fold (put_bound m) as (bindings (input_settings s ! player))\<rparr>]\<rparr>)"
  using p(2)
proof (induction as arbitrary: s)
  case Nil
  then show ?case using p(1) by simp
next
  case (Cons a as)
  show ?case
  proof (cases "map_of m a")
    case None
    then show ?thesis using Cons by (simp add: put_bound_def)
  next
    case (Some b)
    then have b: "binding_clean b" using clean map_of_SomeD by fastforce
    let ?s = "s\<lparr>input_settings := (input_settings s)[player := (input_settings s ! player)
      \<lparr>bindings := om_put a b (bindings (input_settings s ! player))\<rparr>]\<rparr>"
    have l: "load_line (bind_prefix player @ action_to_string a @ CHR ''='' # serialize_binding b) s = Inr ?s"
      using p(1) Cons.prems by (intro load_binding_line load_bind_key b) simp_all
    show ?thesis
      using Cons.IH [of ?s] Cons.prems p(1) by (simp add: Some l put_bound_def)
  qed
qed

lemma load_player_lines:
  assumes p: "player < input_player_count" "length (input_settings s) = input_player_count"
    and clean: "player_clean q" and start: "input_settings s ! player = default_input ! player"
  shows "load_lines (player_lines player q) s =
    Inr (s\<lparr>input_settings := (input_settings s)[player := restored_player player q]\<rparr>)"
proof -
  have two: "player = 0 \<or> player = 1" using p(1) by (auto simp: input_player_count_def)
  have line: "load_line (''selected_device.p'' @ decimal (player + 1) @ ''='' @ selected_device q) s =
      Inr (set_device player (selected_device q) s)"
  proof -
    have k: "key_ok (''selected_device.p'' @ decimal (player + 1))"
      using two by (auto simp: decimal_small key_ok_def trimmed_def trim_space_def)
    have "load_line ((''selected_device.p'' @ decimal (player + 1)) @ CHR ''='' # selected_device q) s =
        load_key (''selected_device.p'' @ decimal (player + 1)) (selected_device q) s"
      using clean by (intro load_line_entry k) (simp add: player_clean_def line_text_def)
    also have "\<dots> = Inr (set_device player (selected_device q) s)"
      using two by (auto simp: decimal_small load_key_def)
    finally show ?thesis by simp
  qed
  let ?s = "set_device player (selected_device q) s"
  have s: "length (input_settings ?s) = input_player_count"
      "input_settings ?s ! player = (default_input ! player)\<lparr>selected_device := selected_device q\<rparr>"
    using p start by (simp_all add: set_device_def)
  have d: "bindings (default_input ! player) = default_bindings player"
    using p(1) by (simp add: default_input_def)
  have "load_lines (binding_lines player q) ?s =
      Inr (?s\<lparr>input_settings := (input_settings ?s)[player := (input_settings ?s ! player)
        \<lparr>bindings := fold (put_bound (bindings q)) all_game_actions (bindings (input_settings ?s ! player))\<rparr>]\<rparr>)"
    unfolding binding_lines_def
    by (rule load_binding_lines [OF p(1) s(1)]) (use clean in \<open>simp add: player_clean_def\<close>)
  also have "\<dots> = Inr (s\<lparr>input_settings := (input_settings s)[player := restored_player player q]\<rparr>)"
    unfolding s(2) using p by (simp add: set_device_def d restored_player_def default_input_def)
  finally show ?thesis by (simp only: player_lines_def load_lines.simps line sum.case)
qed

section \<open>The fixed lines\<close>

definition graphics_lines :: "GraphicsSettings \<Rightarrow> string list" where
  "graphics_lines g =
     [''width='' @ int_to_string (width g), ''height='' @ int_to_string (height g),
      ''aspect_ratio='' @ aspect_to_string (aspect_ratio g),
      ''texture_filter='' @ int_to_string (texture_filter g), ''msaa='' @ int_to_string (msaa g),
      ''display_mode='' @ mode_to_string (display_mode g), ''vsync='' @ bool_to_string (vsync g),
      ''ui_scale='' @ int_to_string (ui_scale g), ''hud_safe_area='' @ hud_to_string (hud_safe_area g)]"

definition audio_lines :: "AudioSettings \<Rightarrow> string list" where
  "audio_lines a =
     [''master_volume='' @ int_to_string (master_volume a),
      ''music_volume='' @ int_to_string (music_volume a),
      ''effects_volume='' @ int_to_string (effects_volume a),
      ''mute_when_unfocused='' @ bool_to_string (mute_when_unfocused a)]"

lemma settings_lines_split:
  "settings_lines s = [''# JOJO Recompiled settings'', ''install_root='' @ install_root s] @
     graphics_lines (graphics s) @ audio_lines (audio s) @
     concat (map (\<lambda>player. player_lines player (input_settings s ! player))
        [0..<length (input_settings s)])"
  by (simp add: settings_lines_def graphics_lines_def audio_lines_def Let_def)

lemma field_keys_ok:
  "key_ok ''width''"
  "key_ok ''height''"
  "key_ok ''texture_filter''"
  "key_ok ''msaa''"
  "key_ok ''ui_scale''"
  "key_ok ''master_volume''"
  "key_ok ''music_volume''"
  "key_ok ''effects_volume''"
  "key_ok ''aspect_ratio''"
  "key_ok ''display_mode''"
  "key_ok ''vsync''"
  "key_ok ''hud_safe_area''"
  "key_ok ''mute_when_unfocused''"
  "key_ok ''install_root''"
  by code_simp+

lemma load_fields:
  "trimmed v \<Longrightarrow> load_line (''width='' @ v) s = store (parse_int v) (\<lambda>x. put_graphics (\<lambda>g. g\<lparr>width := x\<rparr>) s)"
  "trimmed v \<Longrightarrow> load_line (''height='' @ v) s = store (parse_int v) (\<lambda>x. put_graphics (\<lambda>g. g\<lparr>height := x\<rparr>) s)"
  "trimmed v \<Longrightarrow> load_line (''texture_filter='' @ v) s = store (parse_int v) (\<lambda>x. put_graphics (\<lambda>g. g\<lparr>texture_filter := x\<rparr>) s)"
  "trimmed v \<Longrightarrow> load_line (''msaa='' @ v) s = store (parse_int v) (\<lambda>x. put_graphics (\<lambda>g. g\<lparr>msaa := x\<rparr>) s)"
  "trimmed v \<Longrightarrow> load_line (''ui_scale='' @ v) s = store (parse_int v) (\<lambda>x. put_graphics (\<lambda>g. g\<lparr>ui_scale := x\<rparr>) s)"
  "trimmed v \<Longrightarrow> load_line (''master_volume='' @ v) s = store (parse_int v) (\<lambda>x. put_audio (\<lambda>a. a\<lparr>master_volume := x\<rparr>) s)"
  "trimmed v \<Longrightarrow> load_line (''music_volume='' @ v) s = store (parse_int v) (\<lambda>x. put_audio (\<lambda>a. a\<lparr>music_volume := x\<rparr>) s)"
  "trimmed v \<Longrightarrow> load_line (''effects_volume='' @ v) s = store (parse_int v) (\<lambda>x. put_audio (\<lambda>a. a\<lparr>effects_volume := x\<rparr>) s)"
  "trimmed v \<Longrightarrow> load_line (''aspect_ratio='' @ v) s = store (aspect_ratio_from_string v) (\<lambda>x. put_graphics (\<lambda>g. g\<lparr>aspect_ratio := x\<rparr>) s)"
  "trimmed v \<Longrightarrow> load_line (''display_mode='' @ v) s = store (display_mode_from_string v) (\<lambda>x. put_graphics (\<lambda>g. g\<lparr>display_mode := x\<rparr>) s)"
  "trimmed v \<Longrightarrow> load_line (''vsync='' @ v) s = store (parse_bool v) (\<lambda>x. put_graphics (\<lambda>g. g\<lparr>vsync := x\<rparr>) s)"
  "trimmed v \<Longrightarrow> load_line (''hud_safe_area='' @ v) s = store (hud_safe_area_from_string v) (\<lambda>x. put_graphics (\<lambda>g. g\<lparr>hud_safe_area := x\<rparr>) s)"
  "trimmed v \<Longrightarrow> load_line (''mute_when_unfocused='' @ v) s = store (parse_bool v) (\<lambda>x. put_audio (\<lambda>a. a\<lparr>mute_when_unfocused := x\<rparr>) s)"
  proof -
  assume v: "trimmed v"
  show "load_line (''width='' @ v) s = store (parse_int v) (\<lambda>x. put_graphics (\<lambda>g. g\<lparr>width := x\<rparr>) s)"
    using load_line_entry [OF field_keys_ok(1) v, of s] by (simp add: load_key_def)
  show "load_line (''height='' @ v) s = store (parse_int v) (\<lambda>x. put_graphics (\<lambda>g. g\<lparr>height := x\<rparr>) s)"
    using load_line_entry [OF field_keys_ok(2) v, of s] by (simp add: load_key_def)
  show "load_line (''texture_filter='' @ v) s = store (parse_int v) (\<lambda>x. put_graphics (\<lambda>g. g\<lparr>texture_filter := x\<rparr>) s)"
    using load_line_entry [OF field_keys_ok(3) v, of s] by (simp add: load_key_def)
  show "load_line (''msaa='' @ v) s = store (parse_int v) (\<lambda>x. put_graphics (\<lambda>g. g\<lparr>msaa := x\<rparr>) s)"
    using load_line_entry [OF field_keys_ok(4) v, of s] by (simp add: load_key_def)
  show "load_line (''ui_scale='' @ v) s = store (parse_int v) (\<lambda>x. put_graphics (\<lambda>g. g\<lparr>ui_scale := x\<rparr>) s)"
    using load_line_entry [OF field_keys_ok(5) v, of s] by (simp add: load_key_def)
  show "load_line (''master_volume='' @ v) s = store (parse_int v) (\<lambda>x. put_audio (\<lambda>a. a\<lparr>master_volume := x\<rparr>) s)"
    using load_line_entry [OF field_keys_ok(6) v, of s] by (simp add: load_key_def)
  show "load_line (''music_volume='' @ v) s = store (parse_int v) (\<lambda>x. put_audio (\<lambda>a. a\<lparr>music_volume := x\<rparr>) s)"
    using load_line_entry [OF field_keys_ok(7) v, of s] by (simp add: load_key_def)
  show "load_line (''effects_volume='' @ v) s = store (parse_int v) (\<lambda>x. put_audio (\<lambda>a. a\<lparr>effects_volume := x\<rparr>) s)"
    using load_line_entry [OF field_keys_ok(8) v, of s] by (simp add: load_key_def)
  show "load_line (''aspect_ratio='' @ v) s = store (aspect_ratio_from_string v) (\<lambda>x. put_graphics (\<lambda>g. g\<lparr>aspect_ratio := x\<rparr>) s)"
    using load_line_entry [OF field_keys_ok(9) v, of s] by (simp add: load_key_def)
  show "load_line (''display_mode='' @ v) s = store (display_mode_from_string v) (\<lambda>x. put_graphics (\<lambda>g. g\<lparr>display_mode := x\<rparr>) s)"
    using load_line_entry [OF field_keys_ok(10) v, of s] by (simp add: load_key_def)
  show "load_line (''vsync='' @ v) s = store (parse_bool v) (\<lambda>x. put_graphics (\<lambda>g. g\<lparr>vsync := x\<rparr>) s)"
    using load_line_entry [OF field_keys_ok(11) v, of s] by (simp add: load_key_def)
  show "load_line (''hud_safe_area='' @ v) s = store (hud_safe_area_from_string v) (\<lambda>x. put_graphics (\<lambda>g. g\<lparr>hud_safe_area := x\<rparr>) s)"
    using load_line_entry [OF field_keys_ok(12) v, of s] by (simp add: load_key_def)
  show "load_line (''mute_when_unfocused='' @ v) s = store (parse_bool v) (\<lambda>x. put_audio (\<lambda>a. a\<lparr>mute_when_unfocused := x\<rparr>) s)"
    using load_line_entry [OF field_keys_ok(13) v, of s] by (simp add: load_key_def)
qed

lemma load_install_root:
  "trimmed v \<Longrightarrow> load_line (''install_root='' @ v) s = Inr (s\<lparr>install_root := v\<rparr>)"
  using load_line_entry [OF field_keys_ok(14), of v s] by (simp add: load_key_def)

lemma load_graphics_lines:
  assumes "validate_graphics g"
  shows "load_lines (graphics_lines g) s = Inr (s\<lparr>graphics := g\<rparr>)"
proof -
  note v = assms [unfolded validate_graphics_def valid_filter_def valid_msaa_def valid_ui_scale_def]
  have i: "parse_int (int_to_string (width g)) = Inr (width g)"
      "parse_int (int_to_string (height g)) = Inr (height g)"
      "parse_int (int_to_string (texture_filter g)) = Inr (texture_filter g)"
      "parse_int (int_to_string (msaa g)) = Inr (msaa g)"
      "parse_int (int_to_string (ui_scale g)) = Inr (ui_scale g)"
    using v by (intro parse_small_int; auto)+
  show ?thesis
    unfolding graphics_lines_def
    by (simp only: load_lines.simps load_fields [OF trimmed_int] load_fields [OF trimmed_bool]
        load_fields [OF trimmed_names(1)] load_fields [OF trimmed_names(2)]
        load_fields [OF trimmed_names(3)] i names_parse parse_bool_of_string store_def sum.case)
      (simp add: put_graphics_def)
qed

lemma load_audio_lines:
  assumes "validate_audio a"
  shows "load_lines (audio_lines a) s = Inr (s\<lparr>audio := a\<rparr>)"
proof -
  note v = assms [unfolded validate_audio_def valid_volume_def]
  have i: "parse_int (int_to_string (master_volume a)) = Inr (master_volume a)"
      "parse_int (int_to_string (music_volume a)) = Inr (music_volume a)"
      "parse_int (int_to_string (effects_volume a)) = Inr (effects_volume a)"
    using v by (intro parse_small_int; auto)+
  show ?thesis
    unfolding audio_lines_def
    by (simp only: load_lines.simps load_fields [OF trimmed_int] load_fields [OF trimmed_bool]
        i parse_bool_of_string store_def sum.case)
      (simp add: put_audio_def)
qed

section \<open>The file\<close>

lemma decimal_no_newline: "CHR 0x0A \<notin> set (decimal n)"
proof
  assume "CHR 0x0A \<in> set (decimal n)"
  then have "is_digit (CHR 0x0A)" using decimal_digits [of n] by (simp add: list_all_iff)
  then show False by (simp add: is_digit_def)
qed

lemma no_newlines:
  "CHR 0x0A \<notin> set (int_to_string i)" "CHR 0x0A \<notin> set (bool_to_string b)"
  "CHR 0x0A \<notin> set (aspect_to_string r)" "CHR 0x0A \<notin> set (mode_to_string m)"
  "CHR 0x0A \<notin> set (hud_to_string h)" "CHR 0x0A \<notin> set (bind_prefix player)"
       apply (simp add: int_to_string_def decimal_no_newline)
      apply (simp add: bool_to_string_def)
     apply (cases r; simp)
    apply (cases m; simp)
   apply (cases h; simp)
  apply (simp add: bind_prefix_def decimal_no_newline)
  done

lemma player_lines_no_newline:
  assumes "player_clean p"
  shows "\<forall>l \<in> set (player_lines player p). CHR 0x0A \<notin> set l"
proof -
  have "CHR 0x0A \<notin> set (serialize_binding b)" if "map_of (bindings p) a = Some b" for a b
    using assms map_of_SomeD [OF that] by (auto simp: player_clean_def binding_clean_def line_text_def)
  then have "\<forall>l \<in> set (binding_lines player p). CHR 0x0A \<notin> set l"
    using no_newlines(6) action_name_facts(2)
    by (auto simp: binding_lines_def split: option.splits)
  then show ?thesis
    using assms by (simp add: player_lines_def player_clean_def line_text_def decimal_no_newline)
qed

lemma settings_lines_no_newline:
  assumes "settings_clean s"
  shows "\<forall>l \<in> set (settings_lines s). CHR 0x0A \<notin> set l"
proof -
  have "\<forall>l \<in> set (player_lines player (input_settings s ! player)). CHR 0x0A \<notin> set l"
    if "player < length (input_settings s)" for player
    using assms that by (intro player_lines_no_newline) (simp add: settings_clean_def)
  moreover have "\<forall>l \<in> set (graphics_lines (graphics s)). CHR 0x0A \<notin> set l"
      "\<forall>l \<in> set (audio_lines (audio s)). CHR 0x0A \<notin> set l"
    by (simp_all add: graphics_lines_def audio_lines_def no_newlines)
  ultimately show ?thesis
    using assms unfolding settings_lines_split by (auto simp: settings_clean_def line_text_def)
qed

lemma restored_valid:
  assumes clean: "player_clean p" and "selected_device p \<noteq> []"
    and valid: "list_all (\<lambda>(a, b). binding_device b \<noteq> [] \<and> binding_code b \<noteq> []) (bindings p)"
  shows "list_all (\<lambda>(a, b). binding_device b \<noteq> [] \<and> binding_code b \<noteq> [])
    (bindings (restored_player player p))"
proof -
  have "binding_device b \<noteq> [] \<and> binding_code b \<noteq> []"
    if "(a, b) \<in> set (bindings (restored_player player p))" for a b
  proof -
    have "om_ok (bindings (restored_player player p))"
      by (simp add: restored_player_def om_ok_fold_put_bound om_ok_default_bindings)
    then have "map_of (bindings (restored_player player p)) a = Some b"
      using that by (simp add: om_ok_def strict_sorted_iff)
    then have "map_of (bindings p) a = Some b \<or> map_of (default_bindings player) a = Some b"
      unfolding restored_bindings by (auto simp: map_add_Some_iff)
    then have "(a, b) \<in> set (bindings p) \<or> (a, b) \<in> set (default_bindings player)"
      using map_of_SomeD by metis
    then show ?thesis
      using valid by (auto simp: list_all_iff default_bindings_def key_binding_def split: if_splits)
  qed
  then show ?thesis by (auto simp: list_all_iff)
qed

lemma restored_checks:
  assumes clean: "settings_clean s" and ok: "check_settings s = Inr ()"
  shows "check_settings (restored s) = Inr ()"
proof -
  have v: "validate_graphics (graphics s)" "validate_audio (audio s)" "validate_input (input_settings s)"
    using ok by (auto simp: check_settings_def split: if_splits)
  have "validate_input (input_settings (restored s))"
  proof -
    have "selected_device (restored_player i p) \<noteq> [] \<and>
        list_all (\<lambda>(a, b). binding_device b \<noteq> [] \<and> binding_code b \<noteq> []) (bindings (restored_player i p))"
      if p: "p \<in> set (input_settings s)" for i p
    proof -
      have "player_clean p" "selected_device p \<noteq> []"
          "list_all (\<lambda>(a, b). binding_device b \<noteq> [] \<and> binding_code b \<noteq> []) (bindings p)"
        using v(3) clean p by (simp_all add: validate_input_def list_all_iff settings_clean_def)
      then show ?thesis using restored_valid by (simp add: restored_player_def)
    qed
    then have "\<forall>i < length (input_settings s).
        selected_device (restored_player i (input_settings s ! i)) \<noteq> [] \<and>
        list_all (\<lambda>(a, b). binding_device b \<noteq> [] \<and> binding_code b \<noteq> [])
          (bindings (restored_player i (input_settings s ! i)))"
      using nth_mem by blast
    then show ?thesis
      by (simp add: validate_input_def restored_def list_all_length)
  qed
  then show ?thesis using v by (simp add: check_settings_def restored_def)
qed

lemma load_settings_text:
  assumes clean: "settings_clean s" and ok: "check_settings s = Inr ()"
  shows "load_settings path (Some (settings_text s)) = Inr (restored s)"
proof -
  have v: "validate_graphics (graphics s)" "validate_audio (audio s)"
    using ok by (auto simp: check_settings_def split: if_splits)
  obtain p q where pq: "input_settings s = [p, q]" and cl: "player_clean p" "player_clean q"
    using clean by (auto simp: settings_clean_def input_player_count_def length_Suc_conv numeral_2_eq_2)
  let ?s0 = "default_settings\<lparr>install_root := install_root s, graphics := graphics s, audio := audio s\<rparr>"
  have len: "length default_input = input_player_count" by (simp add: default_input_def)
  have lines: "settings_lines s = [''# JOJO Recompiled settings'', ''install_root='' @ install_root s] @
      graphics_lines (graphics s) @ audio_lines (audio s) @ player_lines 0 p @ player_lines 1 q"
    unfolding settings_lines_split pq by simp
  have comment: "load_line ''# JOJO Recompiled settings'' default_settings = Inr default_settings"
    by (simp add: load_line_def trim_def trim_space_def)
  have head: "load_lines ([''# JOJO Recompiled settings'', ''install_root='' @ install_root s] @
      graphics_lines (graphics s) @ audio_lines (audio s)) default_settings = Inr ?s0"
    using clean v
    by (simp only: load_lines_append load_lines.simps comment sum.case load_install_root
        settings_clean_def line_text_def load_graphics_lines load_audio_lines)
  have p1: "load_lines (player_lines 0 p) ?s0 =
      Inr (?s0\<lparr>input_settings := default_input[0 := restored_player 0 p]\<rparr>)"
    using load_player_lines [of 0 ?s0 p] cl(1) len
    by (simp add: default_settings_def input_player_count_def)
  let ?s1 = "?s0\<lparr>input_settings := default_input[0 := restored_player 0 p]\<rparr>"
  have p2: "load_lines (player_lines 1 q) ?s1 =
      Inr (?s1\<lparr>input_settings := (input_settings ?s1)[1 := restored_player 1 q]\<rparr>)"
    using load_player_lines [of 1 ?s1 q] cl(2) len by (simp add: input_player_count_def)
  have "default_input[0 := restored_player 0 p, 1 := restored_player 1 q] =
      [restored_player 0 p, restored_player 1 q]"
    by (simp add: default_input_def input_player_count_def upt_rec)
  then have "load_lines (settings_lines s) default_settings = Inr (restored s)"
    using head p1 p2 unfolding lines append_assoc [symmetric]
    by (simp only: load_lines_append sum.case) (simp add: restored_def pq default_settings_def)
  then show ?thesis
    using restored_checks [OF clean ok] read_lines_text [OF settings_lines_no_newline [OF clean]]
    by (simp add: load_settings_def settings_text_def)
qed

end
