(* ===== verification/Settings_Menu.thy ===== *)
theory Settings_Menu
  imports Settings_Props Network_Protocol
begin

text \<open>
  The settings menu, from \<^verbatim>\<open>src/src/core/settings_menu.h\<close> and
  \<^verbatim>\<open>settings_menu.cpp\<close>: a draft of the settings that the pages edit, checked
  operation by operation, committed to the baseline or discarded.  A menu that starts from
  settings the writer accepts commits only such settings.
\<close>

datatype SettingsPage = page_graphics | page_audio | page_controls

record SettingsMenuSession =
  baseline :: AppSettings
  draft :: AppSettings
  page :: SettingsPage
  selected_player :: nat
  dirty :: bool

definition new_menu :: "AppSettings \<Rightarrow> SettingsMenuSession" where
  "new_menu s = \<lparr>baseline = s, draft = s, page = page_graphics, selected_player = 0,
     dirty = False\<rparr>"

definition set_page :: "SettingsPage \<Rightarrow> SettingsMenuSession \<Rightarrow> SettingsMenuSession" where
  "set_page p m = m\<lparr>page := p\<rparr>"

definition validate_player :: "nat \<Rightarrow> unit result" where
  "validate_player player =
     (if input_player_count \<le> player
      then failure invalid_argument ''player index is outside supported range''
      else success ())"

definition select_player ::
  "nat \<Rightarrow> SettingsMenuSession \<Rightarrow> unit result \<times> SettingsMenuSession" where
  "select_player player m =
     (case validate_player player of
        Inl e \<Rightarrow> (Inl e, m)
      | Inr _ \<Rightarrow> (success (), m\<lparr>selected_player := player\<rparr>))"

definition set_graphics ::
  "GraphicsSettings \<Rightarrow> SettingsMenuSession \<Rightarrow> unit result \<times> SettingsMenuSession" where
  "set_graphics g m =
     (if \<not> validate_graphics g
      then (failure invalid_settings ''graphics settings are outside supported ranges'', m)
      else (success (), m\<lparr>draft := (draft m)\<lparr>graphics := g\<rparr>, dirty := True\<rparr>))"

definition set_audio ::
  "AudioSettings \<Rightarrow> SettingsMenuSession \<Rightarrow> unit result \<times> SettingsMenuSession" where
  "set_audio a m =
     (if \<not> validate_audio a
      then (failure invalid_settings ''audio settings are outside supported ranges'', m)
      else (success (), m\<lparr>draft := (draft m)\<lparr>audio := a\<rparr>, dirty := True\<rparr>))"

definition edit_player ::
  "nat \<Rightarrow> (PlayerInputSettings \<Rightarrow> PlayerInputSettings) \<Rightarrow> SettingsMenuSession \<Rightarrow> SettingsMenuSession" where
  "edit_player player f m =
     m\<lparr>draft := (draft m)\<lparr>input_settings :=
         (input_settings (draft m))[player := f (input_settings (draft m) ! player)]\<rparr>,
       dirty := True\<rparr>"

definition select_device ::
  "nat \<Rightarrow> string \<Rightarrow> InputDeviceRegistry \<Rightarrow> SettingsMenuSession
     \<Rightarrow> unit result \<times> SettingsMenuSession" where
  "select_device player i registry m =
     (case validate_player player of
        Inl e \<Rightarrow> (Inl e, m)
      | Inr _ \<Rightarrow>
          if \<not> registry_contains i registry
          then (failure invalid_argument (''selected input device is not connected: '' @ i), m)
          else (success (), edit_player player (\<lambda>p. p\<lparr>selected_device := i\<rparr>) m))"

definition bind_action ::
  "nat \<Rightarrow> GameAction \<Rightarrow> InputBinding \<Rightarrow> SettingsMenuSession \<Rightarrow> unit result \<times> SettingsMenuSession" where
  "bind_action player action b m =
     (case validate_player player of
        Inl e \<Rightarrow> (Inl e, m)
      | Inr _ \<Rightarrow>
          if binding_device b = [] \<or> binding_code b = []
          then (failure invalid_argument ''input binding device/code cannot be empty'', m)
          else (success (), edit_player player (\<lambda>p. p\<lparr>bindings := om_put action b (bindings p)\<rparr>) m))"

definition menu_commit :: "SettingsMenuSession \<Rightarrow> AppSettings \<times> SettingsMenuSession" where
  "menu_commit m = (let m' = m\<lparr>baseline := draft m, dirty := False\<rparr> in (baseline m', m'))"

definition menu_discard :: "SettingsMenuSession \<Rightarrow> SettingsMenuSession" where
  "menu_discard m = m\<lparr>draft := baseline m, dirty := False\<rparr>"

section \<open>The invariant\<close>

definition settings_ok :: "AppSettings \<Rightarrow> bool" where
  "settings_ok s \<longleftrightarrow> check_settings s = Inr () \<and> length (input_settings s) = input_player_count \<and>
     (\<forall>p \<in> set (input_settings s). om_ok (bindings p))"

definition menu_ok :: "SettingsMenuSession \<Rightarrow> bool" where
  "menu_ok m \<longleftrightarrow> settings_ok (baseline m) \<and> settings_ok (draft m) \<and>
     (\<not> dirty m \<longrightarrow> draft m = baseline m) \<and> selected_player m < input_player_count"

definition player_valid :: "PlayerInputSettings \<Rightarrow> bool" where
  "player_valid p \<longleftrightarrow> selected_device p \<noteq> [] \<and>
     (\<forall>(a, b) \<in> set (bindings p). binding_device b \<noteq> [] \<and> binding_code b \<noteq> [])"

lemma check_settings_iff:
  "check_settings s = Inr () \<longleftrightarrow> validate_graphics (graphics s) \<and> validate_audio (audio s) \<and>
     (\<forall>p \<in> set (input_settings s). player_valid p)"
  by (auto simp: check_settings_def validate_input_def player_valid_def list_all_iff)

lemma edit_player_ok:
  assumes ok: "menu_ok m" and p: "player < input_player_count"
    and f: "\<And>q. player_valid q \<Longrightarrow> om_ok (bindings q) \<Longrightarrow> player_valid (f q) \<and> om_ok (bindings (f q))"
  shows "menu_ok (edit_player player f m)"
proof -
  let ?ps = "input_settings (draft m)"
  have q: "player_valid (f (?ps ! player)) \<and> om_ok (bindings (f (?ps ! player)))"
    using ok p by (intro f) (simp_all add: menu_ok_def settings_ok_def check_settings_iff)
  have "\<forall>x \<in> set (?ps[player := f (?ps ! player)]). player_valid x \<and> om_ok (bindings x)"
    using q ok set_update_subset_insert [of ?ps player "f (?ps ! player)"]
    by (auto simp: menu_ok_def settings_ok_def check_settings_iff)
  then show ?thesis
    using ok by (simp add: menu_ok_def settings_ok_def check_settings_iff edit_player_def)
qed

lemma select_device_ok:
  assumes ok: "menu_ok m" and reg: "registry_ok registry"
  shows "menu_ok (snd (select_device player i registry m))"
proof (cases "player < input_player_count \<and> registry_contains i registry")
  case True
  then obtain x where "x \<in> set registry" "info_id x = i"
    by (auto simp: registry_contains_iff)
  then have "i \<noteq> []" using reg by (force simp: registry_ok_def)
  then show ?thesis
    using True edit_player_ok [OF ok, of player "\<lambda>p. p\<lparr>selected_device := i\<rparr>"]
    by (simp add: select_device_def validate_player_def player_valid_def)
next
  case False
  then show ?thesis using ok by (auto simp: select_device_def validate_player_def)
qed

lemma bind_action_ok:
  assumes ok: "menu_ok m"
  shows "menu_ok (snd (bind_action player action b m))"
proof (cases "player < input_player_count \<and> binding_device b \<noteq> [] \<and> binding_code b \<noteq> []")
  case True
  have "player_valid (q\<lparr>bindings := om_put action b (bindings q)\<rparr>)" if "player_valid q" for q
    using that True set_om_put [of action b "bindings q"] by (auto simp: player_valid_def)
  then show ?thesis
    using True edit_player_ok [OF ok, of player "\<lambda>p. p\<lparr>bindings := om_put action b (bindings p)\<rparr>"]
    by (simp add: bind_action_def validate_player_def)
next
  case False
  then show ?thesis using ok by (auto simp: bind_action_def validate_player_def)
qed

text \<open>A menu on a baseline, edited in any order, with registries as \<open>refresh\<close> leaves them.\<close>

inductive menu_reaches :: "AppSettings \<Rightarrow> SettingsMenuSession \<Rightarrow> bool" for s where
  menu_new: "menu_reaches s (new_menu s)"
| menu_paged: "menu_reaches s m \<Longrightarrow> menu_reaches s (set_page p m)"
| menu_player: "menu_reaches s m \<Longrightarrow> menu_reaches s (snd (select_player player m))"
| menu_graphics: "menu_reaches s m \<Longrightarrow> menu_reaches s (snd (set_graphics g m))"
| menu_audio: "menu_reaches s m \<Longrightarrow> menu_reaches s (snd (set_audio a m))"
| menu_device: "menu_reaches s m \<Longrightarrow> registry_ok registry \<Longrightarrow>
    menu_reaches s (snd (select_device player i registry m))"
| menu_bound: "menu_reaches s m \<Longrightarrow> menu_reaches s (snd (bind_action player action b m))"
| menu_committed: "menu_reaches s m \<Longrightarrow> menu_reaches s (snd (menu_commit m))"
| menu_discarded: "menu_reaches s m \<Longrightarrow> menu_reaches s (menu_discard m)"

lemma set_graphics_ok: "menu_ok m \<Longrightarrow> menu_ok (snd (set_graphics g m))"
  by (cases "validate_graphics g")
    (simp_all add: set_graphics_def menu_ok_def settings_ok_def check_settings_iff)

lemma set_audio_ok: "menu_ok m \<Longrightarrow> menu_ok (snd (set_audio a m))"
  by (cases "validate_audio a")
    (simp_all add: set_audio_def menu_ok_def settings_ok_def check_settings_iff)

lemma menu_reaches_ok:
  assumes "menu_reaches s m" "settings_ok s"
  shows "menu_ok m"
  using assms
proof (induction rule: menu_reaches.induct)
  case menu_new
  then show ?case by (simp add: menu_ok_def new_menu_def input_player_count_def)
next
  case (menu_paged m p)
  then show ?case by (simp add: menu_ok_def set_page_def)
next
  case (menu_player m player)
  then show ?case by (simp add: menu_ok_def select_player_def validate_player_def)
next
  case (menu_graphics m g)
  then show ?case by (simp add: set_graphics_ok)
next
  case (menu_audio m a)
  then show ?case by (simp add: set_audio_ok)
next
  case (menu_device m registry player i)
  then show ?case using select_device_ok by simp
next
  case (menu_bound m player action b)
  then show ?case using bind_action_ok by simp
next
  case (menu_committed m)
  then show ?case by (simp add: menu_ok_def menu_commit_def Let_def)
next
  case (menu_discarded m)
  then show ?case by (simp add: menu_ok_def menu_discard_def)
qed

end
