(* ===== verification/Presentation.thy ===== *)
theory Presentation
  imports Settings Complex_Main
begin

text \<open>
  The presentation plan, from \<^verbatim>\<open>src/src/core/presentation.h\<close> and
  \<^verbatim>\<open>presentation.cpp\<close>: the viewport that fits an aspect ratio into the output, the
  HUD's safe area, the fallbacks to what the renderer supports, and the plan built from
  them.  A \<open>double\<close> is a value of an abstract type with the operations the code uses
  (\<open>DoubleOps\<close>: conversion of an integer, division, comparison, a literal).
\<close>

record Extent2D =
  ext_width :: u32
  ext_height :: u32

record RectI =
  rect_x :: int
  rect_y :: int
  rect_width :: u32
  rect_height :: u32

record RendererCapabilities =
  exclusive_supported :: bool
  texture_filters :: "TextureFilter list"
  msaa_modes :: "Msaa list"

record PresentationInputs =
  simulation_resolution :: Extent2D
  desktop_resolution :: Extent2D
  dpi :: u32

record 'd DoubleOps =
  d_of :: "int \<Rightarrow> 'd"
  d_div :: "'d \<Rightarrow> 'd \<Rightarrow> 'd"
  d_less :: "'d \<Rightarrow> 'd \<Rightarrow> bool"
  d_le :: "'d \<Rightarrow> 'd \<Rightarrow> bool"
  d_lit :: "rat \<Rightarrow> 'd"

record 'd CameraAspectPolicy =
  target_aspect :: 'd
  horizontal_extent_scale :: 'd
  vertical_extent_scale :: 'd
  preserve_vertical_extent :: bool

record 'd UiLayout =
  safe_rect :: RectI
  logical_resolution :: Extent2D
  logical_to_pixel_scale :: 'd
  element_scale :: 'd

record 'd PresentationPlan =
  plan_simulation :: Extent2D
  plan_presentation :: Extent2D
  plan_viewport :: RectI
  plan_camera :: "'d CameraAspectPolicy"
  plan_ui :: "'d UiLayout"
  requested_display_mode :: DisplayMode
  applied_display_mode :: DisplayMode
  plan_exclusive :: bool
  display_mode_fallback :: bool
  requested_texture_filter :: TextureFilter
  applied_texture_filter :: TextureFilter
  texture_filter_fallback :: bool
  requested_msaa :: Msaa
  applied_msaa :: Msaa
  msaa_fallback :: bool
  uniform_presentation_scale :: bool

section \<open>Ratios\<close>

record Ratio =
  numerator :: u32
  denominator :: u32

fun ratio_for :: "AspectRatio \<Rightarrow> Ratio" where
  "ratio_for ratio_4_3 = \<lparr>numerator = 4, denominator = 3\<rparr>"
| "ratio_for ratio_16_9 = \<lparr>numerator = 16, denominator = 9\<rparr>"
| "ratio_for ratio_16_10 = \<lparr>numerator = 16, denominator = 10\<rparr>"
| "ratio_for ratio_21_9 = \<lparr>numerator = 21, denominator = 9\<rparr>"
| "ratio_for ratio_32_9 = \<lparr>numerator = 32, denominator = 9\<rparr>"

text \<open>The casts to \<open>int32\<close> read the word as signed (\<open>sint\<close>).\<close>

definition fit_aspect :: "Extent2D \<Rightarrow> Ratio \<Rightarrow> RectI" where
  "fit_aspect output ratio =
     (let w = ucast (ext_width output) :: u64; h = ucast (ext_height output) :: u64;
          n = ucast (numerator ratio) :: u64; d = ucast (denominator ratio) :: u64
      in if h * n \<le> w * d
         then let rw = ucast ((h * n) div d) :: u32
              in \<lparr>rect_x = sint ((ext_width output - rw) div 2), rect_y = 0, rect_width = rw,
                  rect_height = ext_height output\<rparr>
         else let rh = ucast ((w * d) div n) :: u32
              in \<lparr>rect_x = 0, rect_y = sint ((ext_height output - rh) div 2),
                  rect_width = ext_width output, rect_height = rh\<rparr>)"

section \<open>Fallbacks\<close>

definition filter_rank :: "TextureFilter \<Rightarrow> int" where
  "filter_rank f = (if f = 0 then 0 else if f = 2 then 2 else if f = 4 then 4
     else if f = 8 then 8 else if f = 16 then 16 else -1)"

definition msaa_rank :: "Msaa \<Rightarrow> int" where
  "msaa_rank m = (if m = 0 then 0 else if m = 2 then 2 else if m = 4 then 4
     else if m = 8 then 8 else -1)"

text \<open>The loop of \<open>best_filter\<close> and \<open>best_msaa\<close>: the best rank so far and its candidate.\<close>

fun best_loop :: "(int \<Rightarrow> int) \<Rightarrow> int \<Rightarrow> int \<Rightarrow> int option \<Rightarrow> int list \<Rightarrow> int option" where
  "best_loop rank requested_rank best_rank best [] = best"
| "best_loop rank requested_rank best_rank best (c # cs) =
     (let r = rank c in
      if 0 \<le> r \<and> r \<le> requested_rank \<and> best_rank < r
      then best_loop rank requested_rank r (Some c) cs
      else best_loop rank requested_rank best_rank best cs)"

definition best_filter :: "TextureFilter \<Rightarrow> TextureFilter list \<Rightarrow> TextureFilter option" where
  "best_filter requested supported =
     best_loop filter_rank (filter_rank requested) (-1) None supported"

definition best_msaa :: "Msaa \<Rightarrow> Msaa list \<Rightarrow> Msaa option" where
  "best_msaa requested supported =
     best_loop msaa_rank (msaa_rank requested) (-1) None supported"

section \<open>Layout\<close>

definition d_clamp :: "'d DoubleOps \<Rightarrow> 'd \<Rightarrow> 'd \<Rightarrow> 'd \<Rightarrow> 'd" where
  "d_clamp ops v lo hi = (if d_less ops v lo then lo else if d_less ops hi v then hi else v)"

definition ui_element_scale :: "'d DoubleOps \<Rightarrow> UiScale \<Rightarrow> u32 \<Rightarrow> 'd" where
  "ui_element_scale ops setting dots =
     (if setting = 0
      then d_clamp ops (d_div ops (d_of ops (uint dots)) (d_lit ops 96)) (d_lit ops (3 / 4))
             (d_lit ops (3 / 2))
      else d_div ops (d_of ops setting) (d_lit ops 100))"

definition safe_ratio :: Ratio where
  "safe_ratio = \<lparr>numerator = 16, denominator = 9\<rparr>"

definition wider_than_safe :: "Ratio \<Rightarrow> bool" where
  "wider_than_safe r \<longleftrightarrow>
     (ucast (numerator safe_ratio) :: u64) * ucast (denominator r) <
     ucast (numerator r) * ucast (denominator safe_ratio)"

definition make_ui_layout :: "'d DoubleOps \<Rightarrow> GraphicsSettings \<Rightarrow> u32 \<Rightarrow> RectI \<Rightarrow> 'd UiLayout" where
  "make_ui_layout ops g dots viewport =
     (let camera_ratio = ratio_for (aspect_ratio g);
          fits = (hud_safe_area g = safe_16_9 \<and> wider_than_safe camera_ratio);
          inner = fit_aspect \<lparr>ext_width = rect_width viewport, ext_height = rect_height viewport\<rparr>
                    safe_ratio;
          safe = (if fits
                  then \<lparr>rect_x = rect_x viewport + rect_x inner, rect_y = rect_y viewport + rect_y inner,
                        rect_width = rect_width inner, rect_height = rect_height inner\<rparr>
                  else viewport);
          ui_ratio = (if fits then safe_ratio else camera_ratio);
          logical_width = ucast (((1080 :: u64) * ucast (numerator ui_ratio)) div
                                 ucast (denominator ui_ratio)) :: u32
      in \<lparr>safe_rect = safe,
          logical_resolution = \<lparr>ext_width = logical_width, ext_height = 1080\<rparr>,
          logical_to_pixel_scale = d_div ops (d_of ops (uint (rect_height safe))) (d_of ops 1080),
          element_scale = ui_element_scale ops (ui_scale g) dots\<rparr>)"

definition aspect_ratio_value :: "'d DoubleOps \<Rightarrow> AspectRatio \<Rightarrow> 'd" where
  "aspect_ratio_value ops a =
     (let r = ratio_for a in
      if denominator r = 0 then d_lit ops 0
      else d_div ops (d_of ops (uint (numerator r))) (d_of ops (uint (denominator r))))"

definition camera_policy_for :: "'d DoubleOps \<Rightarrow> AspectRatio \<Rightarrow> 'd CameraAspectPolicy" where
  "camera_policy_for ops a =
     (let t = aspect_ratio_value ops a; base = d_div ops (d_lit ops 4) (d_lit ops 3) in
      if d_le ops t (d_lit ops 0)
      then \<lparr>target_aspect = d_lit ops 0, horizontal_extent_scale = d_lit ops 1,
            vertical_extent_scale = d_lit ops 1, preserve_vertical_extent = True\<rparr>
      else \<lparr>target_aspect = t, horizontal_extent_scale = d_div ops t base,
            vertical_extent_scale = d_lit ops 1, preserve_vertical_extent = True\<rparr>)"

definition window_extent :: "GraphicsSettings \<Rightarrow> Extent2D" where
  "window_extent g = \<lparr>ext_width = of_int (width g), ext_height = of_int (height g)\<rparr>"

text \<open>The switch on the display mode: what is applied, the resolution, exclusive, fallback.\<close>

definition apply_display_mode ::
  "GraphicsSettings \<Rightarrow> PresentationInputs \<Rightarrow> RendererCapabilities
     \<Rightarrow> DisplayMode \<times> Extent2D \<times> bool \<times> bool" where
  "apply_display_mode g inputs caps =
     (case display_mode g of
        windowed \<Rightarrow> (windowed, window_extent g, False, False)
      | borderless \<Rightarrow> (borderless, desktop_resolution inputs, False, False)
      | fullscreen \<Rightarrow>
          if exclusive_supported caps then (fullscreen, window_extent g, True, False)
          else (borderless, desktop_resolution inputs, False, True))"

definition build_presentation_plan ::
  "'d DoubleOps \<Rightarrow> GraphicsSettings \<Rightarrow> PresentationInputs \<Rightarrow> RendererCapabilities
     \<Rightarrow> 'd PresentationPlan result" where
  "build_presentation_plan ops g inputs caps =
     (if \<not> validate_graphics g
      then failure invalid_settings ''graphics settings are outside supported ranges''
      else if ext_width (simulation_resolution inputs) = 0 \<or> ext_height (simulation_resolution inputs) = 0
      then failure invalid_argument ''simulation resolution must be non-zero''
      else if ext_width (desktop_resolution inputs) = 0 \<or> ext_height (desktop_resolution inputs) = 0
      then failure invalid_argument ''desktop resolution must be non-zero''
      else if dpi inputs = 0 then failure invalid_argument ''display DPI must be non-zero''
      else case best_filter (texture_filter g) (texture_filters caps) of
        None \<Rightarrow> failure invalid_argument
          ''renderer capabilities do not provide a usable texture-filter mode''
      | Some f \<Rightarrow>
          (case best_msaa (msaa g) (msaa_modes caps) of
             None \<Rightarrow> failure invalid_argument
               ''renderer capabilities do not provide a usable MSAA mode''
           | Some m \<Rightarrow>
               let (mode, output, exclusive, fallback) = apply_display_mode g inputs caps;
                   viewport = fit_aspect output (ratio_for (aspect_ratio g))
               in success \<lparr>plan_simulation = simulation_resolution inputs,
                    plan_presentation = output, plan_viewport = viewport,
                    plan_camera = camera_policy_for ops (aspect_ratio g),
                    plan_ui = make_ui_layout ops g (dpi inputs) viewport,
                    requested_display_mode = display_mode g, applied_display_mode = mode,
                    plan_exclusive = exclusive, display_mode_fallback = fallback,
                    requested_texture_filter = texture_filter g, applied_texture_filter = f,
                    texture_filter_fallback = (f \<noteq> texture_filter g),
                    requested_msaa = msaa g, applied_msaa = m, msaa_fallback = (m \<noteq> msaa g),
                    uniform_presentation_scale = True\<rparr>))"

end
