(* ===== verification/Presentation_Props.thy ===== *)
theory Presentation_Props
  imports Presentation
begin

text \<open>
  What the presentation plan guarantees: the viewport is the largest centred box of the
  aspect ratio inside the output, the safe area lies inside the viewport, and every mode of
  the plan is one the renderer supports, the best one that was asked for.
\<close>

section \<open>The viewport\<close>

lemma uint_wide [simp]:
  fixes a :: u32
  shows "uint (ucast a :: u64) = uint a"
proof -
  have "uint a < 2 ^ 64" using uint_lt2p [of a] by simp
  then show ?thesis by (simp add: unsigned_ucast_eq take_bit_int_eq_self)
qed

lemma wide_product:
  fixes a b :: u32
  shows "uint ((ucast a :: u64) * ucast b) = uint a * uint b"
proof -
  have "uint a < 2 ^ 32" "uint b < 2 ^ 32"
    using uint_lt2p [of a] uint_lt2p [of b] by simp_all
  then have "uint a * uint b < 2 ^ 32 * 2 ^ 32"
    by (intro mult_strict_mono) simp_all
  then have "uint (ucast a :: u64) * uint (ucast b :: u64) < 2 ^ LENGTH(64)" by simp
  then have "uint ((ucast a :: u64) * ucast b) = uint (ucast a :: u64) * uint (ucast b :: u64)"
    by (subst (asm) uint_mult_lem) simp
  then show ?thesis by simp
qed

lemma wide_compare:
  fixes a b c d :: u32
  shows "(ucast a :: u64) * ucast b \<le> ucast c * ucast d \<longleftrightarrow> uint a * uint b \<le> uint c * uint d"
  by (simp add: word_le_def wide_product)

lemma fitted_side:
  fixes h n w d :: u32
  assumes "0 < uint d" "uint h * uint n \<le> uint w * uint d"
  shows "uint (ucast ((ucast h * ucast n :: u64) div ucast d) :: u32) = uint h * uint n div uint d"
    and "uint h * uint n div uint d \<le> uint w"
proof -
  have "uint h * uint n div uint d \<le> uint w * uint d div uint d"
    using assms by (intro zdiv_mono1) simp_all
  then show le: "uint h * uint n div uint d \<le> uint w" using assms by simp
  have lt: "uint h * uint n div uint d < 2 ^ 32"
    using le uint_lt2p [of w] by simp
  have ge: "0 \<le> uint h * uint n div uint d"
    by (simp add: pos_imp_zdiv_nonneg_iff assms)
  show "uint (ucast ((ucast h * ucast n :: u64) div ucast d) :: u32) = uint h * uint n div uint d"
    using lt ge by (simp add: unsigned_ucast_eq uint_div_distrib wide_product take_bit_eq_mod)
qed

lemma centred:
  fixes w v :: u32
  assumes "uint v \<le> uint w"
  shows "sint ((w - v) div 2) = (uint w - uint v) div 2"
proof -
  have d: "uint (w - v) = uint w - uint v"
    using assms by (metis uint_minus_simple_alt word_le_def)
  then have h: "uint ((w - v) div 2) = (uint w - uint v) div 2"
    by (simp add: uint_div_distrib)
  have "uint w < 2 ^ 32" using uint_lt2p [of w] by simp
  then have "uint w - uint v < 2 ^ 32" using uint_ge_0 [of v] by linarith
  then have lt: "uint ((w - v) div 2) < 2 ^ 31" unfolding h by simp
  then have "sint ((w - v) div 2) = uint ((w - v) div 2)"
    by (subst sint_uint) (simp add: signed_take_bit_int_eq_self_iff order_trans [OF _ uint_ge_0])
  then show ?thesis by (simp only: h)
qed

definition ratio_ok :: "Ratio \<Rightarrow> bool" where
  "ratio_ok r \<longleftrightarrow> 0 < uint (numerator r) \<and> 0 < uint (denominator r)"

lemma ratio_for_ok [simp]: "ratio_ok (ratio_for a)"
  by (cases a) (simp_all add: ratio_ok_def)

lemma fit_aspect_wide:
  assumes "ratio_ok r"
    "uint (ext_height out) * uint (numerator r) \<le> uint (ext_width out) * uint (denominator r)"
  defines "v \<equiv> uint (ext_height out) * uint (numerator r) div uint (denominator r)"
  shows "rect_x (fit_aspect out r) = (uint (ext_width out) - v) div 2"
    and "rect_y (fit_aspect out r) = 0"
    and "uint (rect_width (fit_aspect out r)) = v"
    and "rect_height (fit_aspect out r) = ext_height out"
    and "v \<le> uint (ext_width out)"
  using assms fitted_side [of "denominator r" "ext_height out" "numerator r" "ext_width out"]
  by (simp_all add: fit_aspect_def Let_def wide_compare centred ratio_ok_def)

lemma fit_aspect_tall:
  assumes "ratio_ok r"
    "uint (ext_width out) * uint (denominator r) < uint (ext_height out) * uint (numerator r)"
  defines "v \<equiv> uint (ext_width out) * uint (denominator r) div uint (numerator r)"
  shows "rect_x (fit_aspect out r) = 0"
    and "rect_y (fit_aspect out r) = (uint (ext_height out) - v) div 2"
    and "rect_width (fit_aspect out r) = ext_width out"
    and "uint (rect_height (fit_aspect out r)) = v"
    and "v \<le> uint (ext_height out)"
  using assms fitted_side [of "numerator r" "ext_width out" "denominator r" "ext_height out"]
  by (simp_all add: fit_aspect_def Let_def wide_compare centred ratio_ok_def not_le)

text \<open>A rectangle inside an extent whose top left corner is at the given coordinates.\<close>

definition rect_inside :: "RectI \<Rightarrow> int \<Rightarrow> int \<Rightarrow> int \<Rightarrow> int \<Rightarrow> bool" where
  "rect_inside r x y w h \<longleftrightarrow> x \<le> rect_x r \<and> y \<le> rect_y r \<and>
     rect_x r + uint (rect_width r) \<le> x + w \<and> rect_y r + uint (rect_height r) \<le> y + h"

lemma half_fits: "(v :: int) \<le> w \<Longrightarrow> 0 \<le> (w - v) div 2 \<and> (w - v) div 2 + v \<le> w"
  by presburger

lemma half_remainder: "(v :: int) - 2 * (v div 2) = 0 \<or> v - 2 * (v div 2) = 1"
  by presburger

lemma exact_fits:
  fixes a b n d h :: int
  assumes "0 < d" "0 < n" "a * d = b * n" "b \<le> h"
  shows "a \<le> h * n div d"
proof -
  have "a * d \<le> h * n" using assms by (simp add: mult_right_mono)
  then have "a * d div d \<le> h * n div d" using assms by (intro zdiv_mono1) simp_all
  then show ?thesis using assms(1) by simp
qed

lemma fit_aspect_inside:
  assumes "ratio_ok r"
  shows "rect_inside (fit_aspect out r) 0 0 (uint (ext_width out)) (uint (ext_height out))"
proof (cases "uint (ext_height out) * uint (numerator r) \<le> uint (ext_width out) * uint (denominator r)")
  case True
  note f = fit_aspect_wide [OF assms True]
  show ?thesis
    using half_fits [OF f(5)] by (simp add: rect_inside_def f)
next
  case False
  then have t: "uint (ext_width out) * uint (denominator r) < uint (ext_height out) * uint (numerator r)"
    by simp
  note f = fit_aspect_tall [OF assms t]
  show ?thesis
    using half_fits [OF f(5)] by (simp add: rect_inside_def f)
qed

section \<open>The fallbacks\<close>

text \<open>
  \<open>best_loop\<close> returns nothing when no candidate has a rank of at most the requested one,
  and otherwise the first of the candidates of the highest such rank.
\<close>

definition usable :: "(int \<Rightarrow> int) \<Rightarrow> int \<Rightarrow> int \<Rightarrow> bool" where
  "usable rank q c \<longleftrightarrow> 0 \<le> rank c \<and> rank c \<le> q"

lemma best_loop_some:
  assumes "best_loop rank q br best cs = Some c" "best = None \<longleftrightarrow> br = -1" "-1 \<le> br"
    "\<And>b. best = Some b \<Longrightarrow> usable rank q b \<and> rank b = br"
  shows "usable rank q c \<and> br \<le> rank c \<and> (best = Some c \<or> c \<in> set cs) \<and>
    (\<forall>x \<in> set cs. usable rank q x \<longrightarrow> rank x \<le> rank c)"
  using assms
proof (induction cs arbitrary: br best)
  case Nil
  then show ?case by simp
next
  case (Cons a cs)
  show ?case
  proof (cases "0 \<le> rank a \<and> rank a \<le> q \<and> br < rank a")
    case True
    then have "best_loop rank q (rank a) (Some a) cs = Some c"
      using Cons.prems(1) by simp
    then have "usable rank q c \<and> rank a \<le> rank c \<and> (Some a = Some c \<or> c \<in> set cs) \<and>
        (\<forall>x \<in> set cs. usable rank q x \<longrightarrow> rank x \<le> rank c)"
      using True by (intro Cons.IH) (auto simp: usable_def)
    then show ?thesis using True by auto
  next
    case False
    then have "best_loop rank q br best cs = Some c"
      using Cons.prems(1) by (simp only: best_loop.simps Let_def) (simp only: if_False)
    then have "usable rank q c \<and> br \<le> rank c \<and> (best = Some c \<or> c \<in> set cs) \<and>
        (\<forall>x \<in> set cs. usable rank q x \<longrightarrow> rank x \<le> rank c)"
      using Cons.prems(2-4) by (intro Cons.IH)
    then show ?thesis using False by (auto simp: usable_def)
  qed
qed

lemma best_loop_none:
  assumes "best_loop rank q br best cs = None" "best = None" "br = -1"
  shows "\<forall>x \<in> set cs. \<not> usable rank q x"
  using assms
proof (induction cs arbitrary: br best)
  case (Cons a cs)
  have keep: "best_loop rank q b (Some x) ys \<noteq> None" for b x ys
    by (induction ys arbitrary: b x) (simp_all add: Let_def)
  show ?case
    using Cons keep [of "rank a" a cs] by (auto simp: usable_def Let_def split: if_splits)
qed simp

definition best_of :: "(int \<Rightarrow> int) \<Rightarrow> int \<Rightarrow> int list \<Rightarrow> int \<Rightarrow> bool" where
  "best_of rank q cs c \<longleftrightarrow> c \<in> set cs \<and> usable rank (rank q) c \<and>
     (\<forall>x \<in> set cs. usable rank (rank q) x \<longrightarrow> rank x \<le> rank c)"

lemma best_filter_some: "best_filter q cs = Some c \<Longrightarrow> best_of filter_rank q cs c"
  using best_loop_some [of filter_rank "filter_rank q" "-1" None cs c]
  by (simp add: best_filter_def best_of_def)

lemma best_msaa_some: "best_msaa q cs = Some c \<Longrightarrow> best_of msaa_rank q cs c"
  using best_loop_some [of msaa_rank "msaa_rank q" "-1" None cs c]
  by (simp add: best_msaa_def best_of_def)

text \<open>A mode that is asked for and supported is applied: the ranks of the modes are distinct.\<close>

lemma filter_rank_inj: "filter_rank a = filter_rank b \<Longrightarrow> 0 \<le> filter_rank a \<Longrightarrow> a = b"
  by (auto simp: filter_rank_def split: if_splits)

lemma msaa_rank_inj: "msaa_rank a = msaa_rank b \<Longrightarrow> 0 \<le> msaa_rank a \<Longrightarrow> a = b"
  by (auto simp: msaa_rank_def split: if_splits)

lemma best_of_supported:
  assumes "best_of rank q cs c" "q \<in> set cs" "0 \<le> rank q"
  shows "rank c = rank q"
  using assms by (force simp: best_of_def usable_def)

lemma best_filter_exact:
  assumes "validate_graphics g" "best_of filter_rank (texture_filter g) cs c"
  shows "c \<noteq> texture_filter g \<longleftrightarrow> texture_filter g \<notin> set cs"
proof -
  have "0 \<le> filter_rank (texture_filter g)"
    using assms(1) by (auto simp: validate_graphics_def valid_filter_def filter_rank_def)
  then show ?thesis
    using assms(2) best_of_supported [OF assms(2)] filter_rank_inj [of c "texture_filter g"]
    by (auto simp: best_of_def)
qed

lemma best_msaa_exact:
  assumes "validate_graphics g" "best_of msaa_rank (msaa g) cs c"
  shows "c \<noteq> msaa g \<longleftrightarrow> msaa g \<notin> set cs"
proof -
  have "0 \<le> msaa_rank (msaa g)"
    using assms(1) by (auto simp: validate_graphics_def valid_msaa_def msaa_rank_def)
  then show ?thesis
    using assms(2) best_of_supported [OF assms(2)] msaa_rank_inj [of c "msaa g"]
    by (auto simp: best_of_def)
qed

section \<open>The plan\<close>

definition rect_full :: "Extent2D \<Rightarrow> RectI" where
  "rect_full e = \<lparr>rect_x = 0, rect_y = 0, rect_width = ext_width e, rect_height = ext_height e\<rparr>"

lemma safe_ratio_ok [simp]: "ratio_ok safe_ratio"
  by (simp add: ratio_ok_def safe_ratio_def)

lemma safe_rect_inside:
  "rect_inside (safe_rect (make_ui_layout ops g dots v)) (rect_x v) (rect_y v)
     (uint (rect_width v)) (uint (rect_height v))"
  using fit_aspect_inside [OF safe_ratio_ok, of "\<lparr>ext_width = rect_width v, ext_height = rect_height v\<rparr>"]
  by (auto simp: make_ui_layout_def Let_def rect_inside_def)

lemma plan_success:
  assumes "build_presentation_plan ops g inputs caps = Inr p"
  obtains f m mode out exclusive fallback where
    "validate_graphics g" "best_filter (texture_filter g) (texture_filters caps) = Some f"
    "best_msaa (msaa g) (msaa_modes caps) = Some m"
    "apply_display_mode g inputs caps = (mode, out, exclusive, fallback)"
    "plan_presentation p = out" "plan_viewport p = fit_aspect out (ratio_for (aspect_ratio g))"
    "plan_ui p = make_ui_layout ops g (dpi inputs) (plan_viewport p)"
    "applied_texture_filter p = f" "applied_msaa p = m" "applied_display_mode p = mode"
    "plan_exclusive p = exclusive" "display_mode_fallback p = fallback"
    "texture_filter_fallback p = (f \<noteq> texture_filter g)" "msaa_fallback p = (m \<noteq> msaa g)"
proof -
  obtain mode out exclusive fallback where
    a: "apply_display_mode g inputs caps = (mode, out, exclusive, fallback)"
    by (metis prod_cases4)
  have v: "validate_graphics g"
    using assms by (auto simp: build_presentation_plan_def split: if_splits)
  obtain f where f: "best_filter (texture_filter g) (texture_filters caps) = Some f"
    using assms by (cases "best_filter (texture_filter g) (texture_filters caps)")
      (auto simp: build_presentation_plan_def split: if_splits)
  obtain m where m: "best_msaa (msaa g) (msaa_modes caps) = Some m"
    using assms f by (cases "best_msaa (msaa g) (msaa_modes caps)")
      (auto simp: build_presentation_plan_def split: if_splits)
  show thesis
    using assms v f m a
    by (intro that [of f m mode out exclusive fallback])
      (auto simp: build_presentation_plan_def Let_def split: if_splits)
qed

end
