(* ===== verification/App_Spec.thy ===== *)
theory App_Spec
  imports Settings_Menu Presentation_Props
begin

text \<open>
  Properties of the input mapping, the settings, the settings menu and the presentation
  plan, each with a witness.
\<close>

section \<open>Input\<close>

text \<open>
  A binding captured from a device reads back as held: with it bound to any action of the
  player, resolving the frame it was captured from reports the action as pressed, whatever
  the player's other bindings and whether it was a key, a button or an axis direction.
\<close>

theorem captured_binding_held:
  assumes cap: "capture_binding ops i previous current axis_threshold = Inr b"
    and axes: "\<forall>d \<in> set current. om_ok (device_axes d) \<and> [] \<notin> fst ` set (device_axes d)"
    and bs: "om_ok (bindings (settings ! k))" "k < length settings"
  shows "action_pressed (resolve_player_actions ops
      (settings[k := (settings ! k)\<lparr>bindings := om_put a b (bindings (settings ! k))\<rparr>])
      current axis_threshold ! k) a"
proof -
  obtain d where d: "find_device current i = Some d"
    using cap by (auto simp: capture_binding_def split: option.splits)
  then have "d \<in> set current" by (auto simp: find_device_def find_Some_iff)
  then have active: "binding_active ops b d (axis_limit ops axis_threshold)"
    using capture_active [OF cap d] axes by blast
  have dev: "binding_device b = i"
    using cap by (auto simp: capture_binding_def Let_def split: option.splits if_splits)
  let ?p = "(settings ! k)\<lparr>bindings := om_put a b (bindings (settings ! k))\<rparr>"
  have "om_ok (bindings ?p)" using bs by simp
  then show ?thesis
    using active dev d bs
    by (simp add: resolve_player_actions_def resolve_player_pointwise map_of_om_put binding_held_def)
qed

definition percent_ops :: "int FloatOps" where
  "percent_ops = \<lparr>f_less = (<), f_le = (\<le>), f_neg = uminus, f_abs = abs, f_zero = 0,
     f_hundredth = 1, f_one = 100\<rparr>"

definition tilted_pad :: "int InputDeviceState" where
  "tilted_pad = \<lparr>state_device_id = ''pad:0'', state_kind = dev_xinput, pressed_codes = [],
     device_axes = [(''left_x'', -80)]\<rparr>"

theorem captured_binding_held_witness:
  "let b = \<lparr>binding_device = ''pad:0'', binding_kind = gamepad_axis, binding_code = ''left_x-''\<rparr>;
       s = default_input in
   capture_binding percent_ops ''pad:0'' [] [tilted_pad] 50 = Inr b \<and>
   action_pressed (resolve_player_actions percent_ops
     (s[1 := (s ! 1)\<lparr>bindings := om_put act_stand b (bindings (s ! 1))\<rparr>]) [tilted_pad] 50 ! 1) act_stand"
proof -
  let ?b = "\<lparr>binding_device = ''pad:0'', binding_kind = gamepad_axis, binding_code = ''left_x-''\<rparr>"
  have c: "capture_binding percent_ops ''pad:0'' [] [tilted_pad] 50 = Inr ?b"
    by code_simp
  have o: "om_ok (bindings (default_input ! 1))" "1 < length default_input"
    by (simp_all add: default_input_def input_player_count_def om_ok_default_bindings)
  show ?thesis
    using c captured_binding_held [OF c _ o, of act_stand]
    by (simp add: Let_def tilted_pad_def om_ok_def)
qed

text \<open>
  A refresh of the device registry keeps it strictly sorted by distinct, non-empty ids,
  exactly those listed, and reports every device that went or came, once, in the order of
  the ids, and nothing else.
\<close>

theorem registry_refresh_exact:
  assumes "registry_ok old" "registry_refresh listed old = (changes, now)"
  shows "registry_ok now \<and> info_id ` set now = info_id ` set listed - {[]} \<and>
    sorted_wrt (<) (map (\<lambda>c. info_id (change_device c)) changes) \<and>
    (\<forall>k d. \<lparr>change_kind = k, change_device = d\<rparr> \<in> set changes \<longleftrightarrow>
      (k = device_disconnected \<and> d \<in> set old \<and> info_id d \<notin> info_id ` set now) \<or>
      (k = device_connected \<and> d \<in> set now \<and> info_id d \<notin> info_id ` set old))"
proof -
  have eq: "now = clean_devices listed" "changes = device_changes old now"
    using assms by (auto simp: registry_refresh_def Let_def)
  then have "registry_ok now" by (simp add: clean_devices_ok)
  then show ?thesis
    using assms(1) changes_distinct [of old now]
    by (simp only: eq(2) device_changes_exact eq(1) clean_devices_ids simp_thms)
qed

theorem registry_refresh_exact_witness:
  "let kb = \<lparr>info_id = ''kb'', info_name = ''keys'', info_kind = dev_keyboard\<rparr>;
       pad = \<lparr>info_id = ''pad'', info_name = ''pad'', info_kind = dev_xinput\<rparr>;
       (changes, now) = registry_refresh [pad, pad\<lparr>info_id := []\<rparr>, pad] [kb] in
   now = [pad] \<and> changes = [\<lparr>change_kind = device_disconnected, change_device = kb\<rparr>,
     \<lparr>change_kind = device_connected, change_device = pad\<rparr>] \<and> registry_ok now"
proof -
  let ?kb = "\<lparr>info_id = ''kb'', info_name = ''keys'', info_kind = dev_keyboard\<rparr>"
  let ?pad = "\<lparr>info_id = ''pad'', info_name = ''pad'', info_kind = dev_xinput\<rparr>"
  have r: "registry_refresh [?pad, ?pad\<lparr>info_id := []\<rparr>, ?pad] [?kb] =
      ([\<lparr>change_kind = device_disconnected, change_device = ?kb\<rparr>,
        \<lparr>change_kind = device_connected, change_device = ?pad\<rparr>], [?pad])"
    by code_simp
  have "registry_ok [?kb]" by (simp add: registry_ok_def)
  from registry_refresh_exact [OF this r] show ?thesis unfolding Let_def r by simp
qed

section \<open>Settings\<close>




text \<open>
  A settings menu cannot produce settings that the writer rejects: from a valid baseline,
  whatever the pages do and however often they are committed or discarded, saving what a
  commit returns reaches the replacement of the settings file as soon as the file system
  takes the temporary file, and an undisturbed menu commits its baseline.
\<close>

theorem menu_commit_saves:
  assumes m: "menu_reaches s m" "settings_ok s"
    and fs: "make_directories fs w = (None, w1)" "open_temp fs w1 = (True, w2)"
      "write_temp fs (settings_text (draft m)) w2 = (True, w3)"
  shows "save_settings_atomic fs (fst (menu_commit m)) w = replace_target fs w3 \<and>
    (\<not> dirty m \<longrightarrow> fst (menu_commit m) = baseline m) \<and>
    menu_discard (snd (menu_commit m)) = snd (menu_commit m)"
proof -
  have ok: "menu_ok m" using m by (rule menu_reaches_ok)
  then have "check_settings (draft m) = Inr ()" by (simp add: menu_ok_def settings_ok_def)
  moreover have "fst (menu_commit m) = draft m" by (simp add: menu_commit_def Let_def)
  moreover have "menu_discard (snd (menu_commit m)) = snd (menu_commit m)"
    by (simp add: menu_commit_def menu_discard_def Let_def)
  ultimately show ?thesis using fs ok by (simp add: save_settings_atomic_def menu_ok_def)
qed

definition memory_files :: "string SettingsFiles" where
  "memory_files = \<lparr>make_directories = \<lambda>w. (None, w), open_temp = \<lambda>w. (True, w),
     write_temp = \<lambda>t w. (True, t), replace_target = \<lambda>w. (success (), w)\<rparr>"

theorem menu_commit_saves_witness:
  "let m = snd (set_graphics (default_graphics\<lparr>width := 640\<rparr>) (new_menu default_settings)) in
   dirty m \<and> save_settings_atomic memory_files (fst (menu_commit m)) [] =
     (Inr (), settings_text (draft m))"
proof -
  let ?m = "snd (set_graphics (default_graphics\<lparr>width := 640\<rparr>) (new_menu default_settings))"
  have r: "menu_reaches default_settings ?m" by (intro menu_graphics menu_new)
  have ok: "settings_ok default_settings" by code_simp
  have d: "dirty ?m" by code_simp
  show ?thesis
    using menu_commit_saves [OF r ok, of memory_files "[]" "[]" "[]" "settings_text (draft ?m)"] d
    by (simp add: Let_def memory_files_def)
qed

section \<open>Presentation\<close>

text \<open>C34.
  The viewport: for every output size and aspect ratio the box lies inside the output, is
  centred to within a pixel, fills one side, and no box of exactly that ratio inside the
  output is wider or higher; no product or cast on the way overflows.
\<close>

theorem viewport_largest_centred:
  assumes r: "ratio_ok r"
  shows "rect_inside (fit_aspect out r) 0 0 (uint (ext_width out)) (uint (ext_height out)) \<and>
    (rect_width (fit_aspect out r) = ext_width out \<or> rect_height (fit_aspect out r) = ext_height out) \<and>
    (uint (ext_width out) - uint (rect_width (fit_aspect out r))) - 2 * rect_x (fit_aspect out r) \<in> {0, 1} \<and>
    (uint (ext_height out) - uint (rect_height (fit_aspect out r))) - 2 * rect_y (fit_aspect out r) \<in> {0, 1} \<and>
    (\<forall>a b. a \<le> uint (ext_width out) \<longrightarrow> b \<le> uint (ext_height out) \<longrightarrow>
       a * uint (denominator r) = b * uint (numerator r) \<longrightarrow>
       a \<le> uint (rect_width (fit_aspect out r)) \<and> b \<le> uint (rect_height (fit_aspect out r)))"
proof (cases "uint (ext_height out) * uint (numerator r) \<le> uint (ext_width out) * uint (denominator r)")
  case True
  note f = fit_aspect_wide [OF r True]
  show ?thesis
    using fit_aspect_inside [OF r, of out] half_remainder exact_fits r
    by (simp add: f ratio_ok_def)
next
  case False
  then have t: "uint (ext_width out) * uint (denominator r) < uint (ext_height out) * uint (numerator r)"
    by simp
  note f = fit_aspect_tall [OF r t]
  have "b \<le> uint (ext_width out) * uint (denominator r) div uint (numerator r)"
    if "a \<le> uint (ext_width out)" "a * uint (denominator r) = b * uint (numerator r)" for a b
    using that r by (intro exact_fits [of _ _ b a]) (simp_all add: ratio_ok_def)
  then show ?thesis
    using fit_aspect_inside [OF r, of out] half_remainder by (simp add: f)
qed

theorem viewport_largest_centred_witness:
  "fit_aspect \<lparr>ext_width = 1921, ext_height = 1080\<rparr> (ratio_for ratio_4_3) =
     \<lparr>rect_x = 240, rect_y = 0, rect_width = 1440, rect_height = 1080\<rparr> \<and>
   rect_inside (fit_aspect \<lparr>ext_width = 1921, ext_height = 1080\<rparr> (ratio_for ratio_4_3)) 0 0 1921 1080"
  using viewport_largest_centred [OF ratio_for_ok [of ratio_4_3], of "\<lparr>ext_width = 1921, ext_height = 1080\<rparr>"]
  by (simp add: fit_aspect_def)

text \<open>C35.
  A presentation plan asks the renderer only for what it supports: filter and multisampling
  are the best supported modes not above the requested ones, with the fallback flags set
  exactly when the requested mode is missing; exclusive full screen is used only where it
  exists and otherwise becomes borderless, flagged; the viewport lies inside the output and
  the HUD's safe area inside the viewport.
\<close>

theorem presentation_plan_supported:
  assumes "build_presentation_plan ops g inputs caps = Inr p"
  shows "best_of filter_rank (texture_filter g) (texture_filters caps) (applied_texture_filter p) \<and>
    (texture_filter_fallback p \<longleftrightarrow> texture_filter g \<notin> set (texture_filters caps)) \<and>
    best_of msaa_rank (msaa g) (msaa_modes caps) (applied_msaa p) \<and>
    (msaa_fallback p \<longleftrightarrow> msaa g \<notin> set (msaa_modes caps)) \<and>
    (plan_exclusive p \<longleftrightarrow> display_mode g = fullscreen \<and> exclusive_supported caps) \<and>
    applied_display_mode p =
      (if display_mode g = fullscreen \<and> \<not> exclusive_supported caps then borderless else display_mode g) \<and>
    (display_mode_fallback p \<longleftrightarrow> applied_display_mode p \<noteq> display_mode g) \<and>
    rect_inside (plan_viewport p) 0 0 (uint (ext_width (plan_presentation p)))
      (uint (ext_height (plan_presentation p))) \<and>
    rect_inside (safe_rect (plan_ui p)) (rect_x (plan_viewport p)) (rect_y (plan_viewport p))
      (uint (rect_width (plan_viewport p))) (uint (rect_height (plan_viewport p)))"
proof -
  obtain f m mode out exclusive fallback where
    v: "validate_graphics g"
    and fm: "best_filter (texture_filter g) (texture_filters caps) = Some f"
      "best_msaa (msaa g) (msaa_modes caps) = Some m"
    and mode: "apply_display_mode g inputs caps = (mode, out, exclusive, fallback)"
    and p: "plan_presentation p = out" "plan_viewport p = fit_aspect out (ratio_for (aspect_ratio g))"
      "plan_ui p = make_ui_layout ops g (dpi inputs) (plan_viewport p)"
      "applied_texture_filter p = f" "applied_msaa p = m" "applied_display_mode p = mode"
      "plan_exclusive p = exclusive" "display_mode_fallback p = fallback"
      "texture_filter_fallback p = (f \<noteq> texture_filter g)" "msaa_fallback p = (m \<noteq> msaa g)"
    using assms by (rule plan_success)
  note bf = best_filter_some [OF fm(1)] and bm = best_msaa_some [OF fm(2)]
  have "f \<noteq> texture_filter g \<longleftrightarrow> texture_filter g \<notin> set (texture_filters caps)"
    using best_filter_exact [OF v bf] .
  moreover have "m \<noteq> msaa g \<longleftrightarrow> msaa g \<notin> set (msaa_modes caps)"
    using best_msaa_exact [OF v bm] .
  moreover have "exclusive \<longleftrightarrow> display_mode g = fullscreen \<and> exclusive_supported caps"
    "mode = (if display_mode g = fullscreen \<and> \<not> exclusive_supported caps then borderless
       else display_mode g)" "fallback \<longleftrightarrow> mode \<noteq> display_mode g"
    using mode by (auto simp: apply_display_mode_def split: DisplayMode.splits if_splits)
  moreover have "rect_inside (plan_viewport p) 0 0 (uint (ext_width out)) (uint (ext_height out))"
    unfolding p by (rule fit_aspect_inside) simp
  ultimately show ?thesis
    using bf bm safe_rect_inside [of ops g "dpi inputs" "plan_viewport p"]
    by (simp only: p simp_thms)
qed

definition rat_ops :: "rat DoubleOps" where
  "rat_ops = \<lparr>d_of = of_int, d_div = (/), d_less = (<), d_le = (\<le>), d_lit = \<lambda>q. q\<rparr>"

theorem presentation_plan_supported_witness:
  "let g = default_graphics\<lparr>display_mode := fullscreen, aspect_ratio := ratio_32_9\<rparr>;
       caps = \<lparr>exclusive_supported = False, texture_filters = [0, 8, 4], msaa_modes = [0, 4]\<rparr>;
       inputs = \<lparr>simulation_resolution = \<lparr>ext_width = 640, ext_height = 480\<rparr>,
         desktop_resolution = \<lparr>ext_width = 1920, ext_height = 1080\<rparr>, dpi = 96\<rparr> in
   \<exists>p. build_presentation_plan rat_ops g inputs caps = Inr p \<and> applied_texture_filter p = 8 \<and>
     texture_filter_fallback p \<and> \<not> msaa_fallback p \<and> applied_display_mode p = borderless"
proof -
  let ?g = "default_graphics\<lparr>display_mode := fullscreen, aspect_ratio := ratio_32_9\<rparr>"
  let ?caps = "\<lparr>exclusive_supported = False, texture_filters = [0, 8, 4], msaa_modes = [0, 4]\<rparr>"
  let ?inputs = "\<lparr>simulation_resolution = \<lparr>ext_width = 640, ext_height = 480\<rparr>,
         desktop_resolution = \<lparr>ext_width = 1920, ext_height = 1080\<rparr>, dpi = 96\<rparr>"
  have g: "validate_graphics ?g" by code_simp
  obtain p where p: "build_presentation_plan rat_ops ?g ?inputs ?caps = Inr p"
      and a: "applied_texture_filter p = 8"
    using g by (simp add: build_presentation_plan_def best_filter_def best_msaa_def filter_rank_def
        msaa_rank_def Let_def default_graphics_def apply_display_mode_def)
  from presentation_plan_supported [OF p] a p show ?thesis
    by (auto simp: Let_def default_graphics_def)
qed

end
