(* ===== verification/Disc_Media.thy ===== *)
theory Disc_Media
  imports Semver Ascii_Text
begin

text \<open>
  Disc images, from \<^verbatim>\<open>src/src/core/disc_media.h\<close> and
  \<^verbatim>\<open>disc_media.cpp\<close>: the source of logical sectors behind an
  \<^verbatim>\<open>.iso\<close>, \<^verbatim>\<open>.bin\<close> or \<^verbatim>\<open>.cue\<close> file, the reader of its
  sectors, and the cue sheet parser.

  The operating system is the record \<open>MediaFiles\<close>: the size and the content of a file
  (\<open>None\<close> when it cannot be queried or opened), whether a stream can seek to an offset, and
  what \<open>std::filesystem\<close> says of a path on the platform.
\<close>

record MediaFiles =
  media_size :: "string \<Rightarrow> u64 option"
  media_bytes :: "string \<Rightarrow> u8 list option"
  media_text :: "string \<Rightarrow> string option"
  seek_ok :: "u64 \<Rightarrow> bool"
  path_extension :: "string \<Rightarrow> string"
  path_rooted :: "string \<Rightarrow> bool"
  path_components :: "string \<Rightarrow> string list"
  path_beside :: "string \<Rightarrow> string \<Rightarrow> string"

record LogicalSectorSource =
  source_path :: string
  file_offset :: u64
  source_size :: u64
  physical_sector_size :: u32
  user_data_offset :: u32
  logical_sector_count :: u64
  source_format :: string

section \<open>Reading sectors\<close>

definition add_mul_fits :: "u64 \<Rightarrow> u64 \<Rightarrow> u64 \<Rightarrow> u64 \<Rightarrow> u64 \<Rightarrow> bool" where
  "add_mul_fits base a b extra limit =
     (if a \<noteq> 0 \<and> (- 1 - base) div a < b then False
      else let product = a * b in
        if - 1 - product < base then False
        else let offset = base + product in extra \<le> limit \<and> offset \<le> limit - extra)"

definition read_sector ::
  "MediaFiles \<Rightarrow> LogicalSectorSource \<Rightarrow> u8 list \<Rightarrow> u64 \<Rightarrow> u8 list result" where
  "read_sector fs src content lba =
     (let extra = ucast (user_data_offset src) + 2048 in
      if \<not> add_mul_fits (file_offset src) lba (ucast (physical_sector_size src)) extra (source_size src)
      then failure invalid_argument ''physical sector read is outside the track file''
      else
        let physical = file_offset src + lba * ucast (physical_sector_size src) +
                       ucast (user_data_offset src) in
        if \<not> seek_ok fs physical then failure io_error ''cannot seek media track sector''
        else
          let bytes = take 2048 (drop (unat physical) content) in
          if length bytes \<noteq> 2048 then failure io_error ''short read from media track sector''
          else success bytes)"

text \<open>The loop: as many sectors as remain, from the current one.\<close>

fun read_sectors ::
  "MediaFiles \<Rightarrow> LogicalSectorSource \<Rightarrow> u8 list \<Rightarrow> u64 \<Rightarrow> nat \<Rightarrow> u8 list result" where
  "read_sectors fs src content lba 0 = success []"
| "read_sectors fs src content lba (Suc n) =
     (case read_sector fs src content lba of
        Inl e \<Rightarrow> Inl e
      | Inr bytes \<Rightarrow>
          (case read_sectors fs src content (lba + 1) n of
             Inl e \<Rightarrow> Inl e
           | Inr rest \<Rightarrow> success (bytes @ rest)))"

definition read_logical_sectors ::
  "MediaFiles \<Rightarrow> LogicalSectorSource \<Rightarrow> u64 \<Rightarrow> u32 \<Rightarrow> u8 list result" where
  "read_logical_sectors fs src first_lba sector_count =
     (if sector_count = 0 then success []
      else if logical_sector_count src \<le> first_lba \<or>
              logical_sector_count src - first_lba < ucast sector_count
      then failure invalid_argument ''logical sector read is outside the data track''
      else if ucast (physical_sector_size src) < (2048 :: u64) \<or>
              ucast (physical_sector_size src) - 2048 < (ucast (user_data_offset src) :: u64)
      then failure invalid_argument ''invalid logical sector source layout''
      else if - 1 div 2048 < (ucast sector_count :: u64)
      then failure invalid_argument ''logical sector read is too large''
      else case media_bytes fs (source_path src) of
        None \<Rightarrow> failure io_error ''cannot open media track''
      | Some content \<Rightarrow> read_sectors fs src content first_lba (unat sector_count))"

section \<open>Candidates\<close>

definition make_candidate ::
  "MediaFiles \<Rightarrow> string \<Rightarrow> u64 \<Rightarrow> u32 \<Rightarrow> u32 \<Rightarrow> string \<Rightarrow> LogicalSectorSource result" where
  "make_candidate fs path offset sector_size user_offset fmt =
     (case media_size fs path of
        None \<Rightarrow> failure file_not_found (''media track not found: '' @ path)
      | Some len \<Rightarrow>
          if ucast sector_size < (2048 :: u64) \<or>
             ucast sector_size - 2048 < (ucast user_offset :: u64) \<or> len < offset
          then failure unsupported_format ''invalid physical sector layout''
          else
            let count = (len - offset) div ucast sector_size in
            if count \<le> 16 then failure unsupported_format ''media track is too small for ISO9660''
            else success \<lparr>source_path = path, file_offset = offset, source_size = len,
              physical_sector_size = sector_size, user_data_offset = user_offset,
              logical_sector_count = count, source_format = fmt\<rparr>)"

definition iso_magic :: "u8 list" where
  "iso_magic = [0x43, 0x44, 0x30, 0x30, 0x31]"

definition has_iso9660_pvd :: "MediaFiles \<Rightarrow> LogicalSectorSource \<Rightarrow> bool" where
  "has_iso9660_pvd fs src =
     (case read_logical_sectors fs src 16 1 of
        Inl _ \<Rightarrow> False
      | Inr bytes \<Rightarrow> 7 \<le> length bytes \<and> bytes ! 0 = 1 \<and> take 5 (drop 1 bytes) = iso_magic \<and>
          bytes ! 6 = 1)"

text \<open>A candidate counts if its descriptor is found; otherwise the error is the given one.\<close>

definition accept_candidate ::
  "MediaFiles \<Rightarrow> string \<Rightarrow> LogicalSectorSource result \<Rightarrow> LogicalSectorSource result" where
  "accept_candidate fs message candidate =
     (case candidate of
        Inl _ \<Rightarrow> failure unsupported_format message
      | Inr src \<Rightarrow>
          if has_iso9660_pvd fs src then success src else failure unsupported_format message)"

definition cooked_candidate :: "MediaFiles \<Rightarrow> string \<Rightarrow> string \<Rightarrow> LogicalSectorSource result" where
  "cooked_candidate fs path fmt =
     accept_candidate fs ''no cooked ISO9660 PVD found at sector 16''
       (make_candidate fs path 0 2048 0 fmt)"

definition raw_candidate ::
  "MediaFiles \<Rightarrow> string \<Rightarrow> u32 \<Rightarrow> string \<Rightarrow> LogicalSectorSource result" where
  "raw_candidate fs path user_offset fmt =
     accept_candidate fs ''no raw ISO9660 PVD found at sector 16''
       (make_candidate fs path 0 2352 user_offset fmt)"

section \<open>Cue sheets\<close>

fun token_loop :: "bool \<Rightarrow> string \<Rightarrow> string \<Rightarrow> string list" where
  "token_loop quoted token [] = (if token = [] then [] else [token])"
| "token_loop quoted token (ch # cs) =
     (if ch = CHR 0x22 then token_loop (\<not> quoted) token cs
      else if \<not> quoted \<and> ascii_space ch
      then (if token = [] then token_loop quoted [] cs else token # token_loop quoted [] cs)
      else token_loop quoted (token @ [ch]) cs)"

definition split_descriptor_tokens :: "string \<Rightarrow> string list" where
  "split_descriptor_tokens line = token_loop False [] line"

text \<open>\<open>std::from_chars\<close> on an unsigned 32-bit integer that must use the whole text.\<close>

definition parse_unsigned :: "string \<Rightarrow> u32 option" where
  "parse_unsigned text =
     (if text = [] \<or> \<not> list_all is_digit text \<or> 2 ^ 32 \<le> decimal_value text then None
      else Some (of_nat (decimal_value text)))"

definition safe_descriptor_track_path :: "MediaFiles \<Rightarrow> string \<Rightarrow> string \<Rightarrow> string result" where
  "safe_descriptor_track_path fs descriptor name =
     (let relative = map (\<lambda>c. if c = CHR 0x5C then CHR ''/'' else c) name in
      if relative = [] \<or> path_rooted fs relative
      then failure invalid_argument ''descriptor track path must be relative''
      else if ''..'' \<in> set (path_components fs relative)
      then failure invalid_argument ''descriptor track path cannot escape its directory''
      else success (path_beside fs descriptor relative))"

definition parse_msf :: "string \<Rightarrow> u64 option" where
  "parse_msf text =
     (case split_on (CHR '':'') text of
        [m, s, f] \<Rightarrow>
          (case (parse_unsigned m, parse_unsigned s, parse_unsigned f) of
             (Some mm, Some ss, Some ff) \<Rightarrow>
               if 60 \<le> ss \<or> 75 \<le> ff then None
               else Some ((ucast mm * 60 + ucast ss) * 75 + ucast ff)
           | _ \<Rightarrow> None)
      | _ \<Rightarrow> None)"

record CueState =
  current_file :: string
  current_mode :: string
  have_file :: bool
  have_track :: bool
  cue_candidates :: "LogicalSectorSource list"

definition cue_layout :: "string \<Rightarrow> (u32 \<times> u32) option" where
  "cue_layout mode =
     (if mode = ''MODE1/2048'' then Some (2048, 0)
      else if mode = ''MODE1/2352'' then Some (2352, 16)
      else if mode = ''MODE2/2352'' then Some (2352, 24) else None)"

definition cue_index :: "MediaFiles \<Rightarrow> string \<Rightarrow> CueState \<Rightarrow> CueState result" where
  "cue_index fs stamp st =
     (case parse_msf stamp of
        None \<Rightarrow> failure unsupported_format ''invalid CUE INDEX timestamp''
      | Some frames \<Rightarrow>
          (case cue_layout (current_mode st) of
             None \<Rightarrow> success st
           | Some (sector_size, user_offset) \<Rightarrow>
               if - 1 div ucast sector_size < frames
               then failure invalid_argument ''CUE INDEX offset overflows''
               else
                 (case make_candidate fs (current_file st) (frames * ucast sector_size) sector_size
                         user_offset ''cue'' of
                    Inl _ \<Rightarrow> success st
                  | Inr src \<Rightarrow>
                      success (if has_iso9660_pvd fs src
                               then st\<lparr>cue_candidates := cue_candidates st @ [src]\<rparr> else st))))"

definition cue_line :: "MediaFiles \<Rightarrow> string \<Rightarrow> string \<Rightarrow> CueState \<Rightarrow> CueState result" where
  "cue_line fs descriptor line st =
     (let tokens = split_descriptor_tokens line in
      if tokens = [] then success st
      else let command = ascii_upper (hd tokens) in
        if command = ''REM'' then success st
        else if command = ''FILE''
        then if length tokens < 3 then failure unsupported_format ''malformed CUE FILE line''
             else (case safe_descriptor_track_path fs descriptor (tokens ! 1) of
                     Inl (e, d) \<Rightarrow> failure e d
                   | Inr path \<Rightarrow> success (st\<lparr>current_file := path, have_file := True,
                       have_track := False, current_mode := []\<rparr>))
        else if command = ''TRACK''
        then if length tokens < 3 \<or> \<not> have_file st
             then failure unsupported_format ''malformed CUE TRACK line''
             else success (st\<lparr>current_mode := ascii_upper (tokens ! 2), have_track := True\<rparr>)
        else if command = ''INDEX'' \<and> 3 \<le> length tokens \<and> tokens ! 1 = ''01'' \<and> have_file st \<and>
                have_track st
        then cue_index fs (tokens ! 2) st
        else success st)"

fun cue_lines :: "MediaFiles \<Rightarrow> string \<Rightarrow> string list \<Rightarrow> CueState \<Rightarrow> CueState result" where
  "cue_lines fs descriptor [] st = success st"
| "cue_lines fs descriptor (l # ls) st =
     (case cue_line fs descriptor l st of
        Inl e \<Rightarrow> Inl e
      | Inr st' \<Rightarrow> cue_lines fs descriptor ls st')"

definition new_cue :: CueState where
  "new_cue = \<lparr>current_file = [], current_mode = [], have_file = False, have_track = False,
     cue_candidates = []\<rparr>"

definition open_cue_source :: "MediaFiles \<Rightarrow> string \<Rightarrow> LogicalSectorSource result" where
  "open_cue_source fs descriptor =
     (case media_text fs descriptor of
        None \<Rightarrow> failure file_not_found (''CUE descriptor not found: '' @ descriptor)
      | Some text \<Rightarrow>
          (case cue_lines fs descriptor (read_lines [] text) new_cue of
             Inl e \<Rightarrow> Inl e
           | Inr st \<Rightarrow>
               if cue_candidates st = []
               then failure unsupported_format ''CUE has no supported ISO9660 data track''
               else success (last (cue_candidates st))))"

section \<open>Opening\<close>

definition open_bin_source :: "MediaFiles \<Rightarrow> string \<Rightarrow> LogicalSectorSource result" where
  "open_bin_source fs path =
     (case cooked_candidate fs path ''bin-cooked'' of
        Inr src \<Rightarrow> success src
      | Inl _ \<Rightarrow>
          (case raw_candidate fs path 16 ''bin-mode1-2352'' of
             Inr src \<Rightarrow> success src
           | Inl _ \<Rightarrow>
               (case raw_candidate fs path 24 ''bin-mode2-2352'' of
                  Inr src \<Rightarrow> success src
                | Inl _ \<Rightarrow> failure unsupported_format
                    ''BIN does not contain a supported ISO9660 data layout'')))"

definition open_logical_sector_source :: "MediaFiles \<Rightarrow> string \<Rightarrow> LogicalSectorSource result" where
  "open_logical_sector_source fs path =
     (let ext = ascii_lower (path_extension fs path) in
      if ext = ''.iso'' then cooked_candidate fs path ''iso''
      else if ext = ''.cue'' then open_cue_source fs path
      else if ext = ''.bin'' then open_bin_source fs path
      else failure unsupported_format
        (''unsupported PS1 media extension '' @ ext @ ''; expected .iso, .bin, or .cue''))"

end
