(* ===== verification/Iso9660.thy ===== *)
theory Iso9660
  imports Disc_Media
begin

text \<open>
  The ISO 9660 reader, from \<^verbatim>\<open>src/src/core/iso9660.h\<close> and
  \<^verbatim>\<open>iso9660.cpp\<close>: the volume descriptor, extents, directory records, path lookup,
  listing and reading.
\<close>

record DiscFileEntry =
  entry_name :: string
  entry_path :: string
  is_directory :: bool
  extent_lba :: u32
  size_bytes :: u32

record Iso9660Image =
  sectors :: LogicalSectorSource
  root_extent_lba :: u32
  root_size_bytes :: u32

definition le32 :: "u8 list \<Rightarrow> nat \<Rightarrow> u32" where
  "le32 p i = or (ucast (p ! i)) (or (push_bit 8 (ucast (p ! (i + 1))))
     (or (push_bit 16 (ucast (p ! (i + 2)))) (push_bit 24 (ucast (p ! (i + 3))))))"

section \<open>Extents\<close>

text \<open>The sectors that hold a number of bytes.\<close>

definition sectors_for :: "u32 \<Rightarrow> u64" where
  "sectors_for bytes = (ucast bytes + 2048 - 1) div 2048"

definition bounded_extent :: "LogicalSectorSource \<Rightarrow> u32 \<Rightarrow> u32 \<Rightarrow> bool" where
  "bounded_extent src lba bytes =
     (if bytes = 0 then ucast lba \<le> logical_sector_count src
      else ucast lba < logical_sector_count src \<and>
           sectors_for bytes \<le> logical_sector_count src - ucast lba)"

definition read_extent :: "MediaFiles \<Rightarrow> Iso9660Image \<Rightarrow> u32 \<Rightarrow> u32 \<Rightarrow> u8 list result" where
  "read_extent fs img lba bytes =
     (if \<not> bounded_extent (sectors img) lba bytes
      then failure invalid_installation ''ISO9660 extent is outside the logical data track''
      else if bytes = 0 then success []
      else case read_logical_sectors fs (sectors img) (ucast lba) (ucast (sectors_for bytes)) of
        Inl (e, d) \<Rightarrow> failure e d
      | Inr data \<Rightarrow>
          success (take (unat bytes) data @ replicate (unat bytes - length data) 0))"

section \<open>Directories\<close>

definition drop_final_dot :: "string \<Rightarrow> string" where
  "drop_final_dot name = (if name \<noteq> [] \<and> last name = CHR ''.'' then butlast name else name)"

definition normalize_name :: "string \<Rightarrow> string" where
  "normalize_name name = drop_final_dot (takeWhile (\<lambda>c. c \<noteq> CHR '';'') name)"

definition join_path :: "string \<Rightarrow> string \<Rightarrow> string" where
  "join_path parent name =
     (if parent = [] \<or> parent = ''/'' then ''/'' @ name else parent @ ''/'' @ name)"

text \<open>One record at the cursor, whose length byte is not zero: no entry for the special
  records of the directory itself and its parent.\<close>

definition directory_record ::
  "LogicalSectorSource \<Rightarrow> string \<Rightarrow> u8 list \<Rightarrow> nat \<Rightarrow> DiscFileEntry list result" where
  "directory_record src parent_path bytes cursor =
     (let record_len = unat (bytes ! cursor) in
      if record_len < 34 \<or> length bytes < cursor + record_len \<or> 2048 < cursor mod 2048 + record_len
      then failure invalid_installation ''malformed ISO9660 directory record''
      else
        let rec = drop cursor bytes; name_len = unat (rec ! 32) in
        if name_len = 0 \<or> record_len < 33 + name_len
        then failure invalid_installation ''malformed ISO9660 file identifier''
        else if name_len = 1 \<and> (rec ! 33 = 0 \<or> rec ! 33 = 1) then success []
        else
          let name = normalize_name (map (\<lambda>b. char_of (unat b)) (take name_len (drop 33 rec))) in
          if name = [] then failure invalid_installation ''empty ISO9660 file identifier''
          else
            let lba = le32 rec 2; file_size = le32 rec 10 in
            if \<not> bounded_extent src lba file_size
            then failure invalid_installation ''ISO9660 directory entry points outside the data track''
            else success [\<lparr>entry_name = name, entry_path = join_path parent_path name,
              is_directory = (and (rec ! 25) 0x02 \<noteq> 0), extent_lba = lba,
              size_bytes = file_size\<rparr>])"

text \<open>The loop over the records.  A zero length skips to the next sector.\<close>

definition next_cursor :: "nat \<Rightarrow> nat \<Rightarrow> nat" where
  "next_cursor len cursor = min ((cursor div 2048 + 1) * 2048) len"

function directory_loop ::
  "LogicalSectorSource \<Rightarrow> string \<Rightarrow> u8 list \<Rightarrow> nat \<Rightarrow> DiscFileEntry list result" where
  "directory_loop src parent_path bytes cursor =
     (if length bytes \<le> cursor then success []
      else if bytes ! cursor = 0
      then directory_loop src parent_path bytes (next_cursor (length bytes) cursor)
      else case directory_record src parent_path bytes cursor of
        Inl e \<Rightarrow> Inl e
      | Inr new \<Rightarrow>
          (case directory_loop src parent_path bytes (cursor + unat (bytes ! cursor)) of
             Inl e \<Rightarrow> Inl e
           | Inr rest \<Rightarrow> success (new @ rest)))"
  by pat_completeness auto

lemma next_cursor_grows: "cursor < len \<Longrightarrow> cursor < next_cursor len cursor"
  using dividend_less_div_times [of 2048 cursor] by (simp add: next_cursor_def)

termination directory_loop
  by (relation "measure (\<lambda>(src, parent_path, bytes, cursor). length bytes - cursor)")
    (use next_cursor_grows in \<open>auto simp: unat_gt_0 not_le intro!: diff_less_mono2\<close>)

declare directory_loop.simps [simp del]

definition parse_directory ::
  "MediaFiles \<Rightarrow> Iso9660Image \<Rightarrow> u32 \<Rightarrow> u32 \<Rightarrow> string \<Rightarrow> DiscFileEntry list result" where
  "parse_directory fs img lba len parent_path =
     (case read_extent fs img lba len of
        Inl (e, d) \<Rightarrow> failure e d
      | Inr bytes \<Rightarrow> directory_loop (sectors img) parent_path bytes 0)"

section \<open>Lookup\<close>

definition split_virtual_path :: "string \<Rightarrow> string list result" where
  "split_virtual_path path =
     (let parts = split_on (CHR ''/'') path in
      if ''..'' \<in> set parts
      then failure invalid_argument ''parent traversal is not allowed in ISO9660 paths''
      else success (filter (\<lambda>p. p \<noteq> [] \<and> p \<noteq> ''.'') parts))"

definition matching_entry :: "string \<Rightarrow> DiscFileEntry list \<Rightarrow> DiscFileEntry option" where
  "matching_entry part entries = find (\<lambda>e. ascii_upper (entry_name e) = ascii_upper part) entries"

fun find_parts ::
  "MediaFiles \<Rightarrow> Iso9660Image \<Rightarrow> string \<Rightarrow> u32 \<Rightarrow> u32 \<Rightarrow> string \<Rightarrow> DiscFileEntry \<Rightarrow> string list
     \<Rightarrow> DiscFileEntry result" where
  "find_parts fs img path lba len parent found [] = success found"
| "find_parts fs img path lba len parent found (part # rest) =
     (case parse_directory fs img lba len parent of
        Inl (e, d) \<Rightarrow> failure e d
      | Inr entries \<Rightarrow>
          (case matching_entry part entries of
             None \<Rightarrow> failure file_not_found (''ISO9660 path not found: '' @ path)
           | Some e \<Rightarrow>
               if rest \<noteq> [] \<and> \<not> is_directory e
               then failure invalid_argument
                 (''ISO9660 path component is not a directory: '' @ entry_path e)
               else find_parts fs img path (extent_lba e) (size_bytes e) (entry_path e) e rest))"

definition no_entry :: DiscFileEntry where
  "no_entry = \<lparr>entry_name = [], entry_path = [], is_directory = False, extent_lba = 0,
     size_bytes = 0\<rparr>"

definition find_entry :: "MediaFiles \<Rightarrow> Iso9660Image \<Rightarrow> string \<Rightarrow> DiscFileEntry result" where
  "find_entry fs img path =
     (case split_virtual_path path of
        Inl (e, d) \<Rightarrow> failure e d
      | Inr [] \<Rightarrow> failure invalid_argument ''path refers to ISO9660 root''
      | Inr (part # rest) \<Rightarrow>
          find_parts fs img path (root_extent_lba img) (root_size_bytes img) ''/'' no_entry
            (part # rest))"

section \<open>The image\<close>

definition open_iso9660 :: "MediaFiles \<Rightarrow> LogicalSectorSource \<Rightarrow> Iso9660Image result" where
  "open_iso9660 fs src =
     (if logical_sector_count src \<le> 16
      then failure unsupported_format ''data track is too small to contain an ISO9660 PVD''
      else case read_logical_sectors fs src 16 1 of
        Inl (e, d) \<Rightarrow> failure e d
      | Inr pvd \<Rightarrow>
          if length pvd \<noteq> 2048 \<or> pvd ! 0 \<noteq> 1 \<or> take 5 (drop 1 pvd) \<noteq> iso_magic \<or> pvd ! 6 \<noteq> 1
          then failure unsupported_format ''invalid ISO9660 Primary Volume Descriptor''
          else
            let root = drop 156 pvd in
            if root ! 0 < 34 \<or> root ! 32 \<noteq> 1 \<or> root ! 33 \<noteq> 0 \<or> and (root ! 25) 0x02 = 0
            then failure invalid_installation ''invalid ISO9660 root directory record''
            else
              let root_lba = le32 root 2; root_size = le32 root 10 in
              if \<not> bounded_extent src root_lba root_size
              then failure invalid_installation ''ISO9660 root directory is outside the data track''
              else success \<lparr>sectors = src, root_extent_lba = root_lba, root_size_bytes = root_size\<rparr>)"

definition open_iso9660_path :: "MediaFiles \<Rightarrow> string \<Rightarrow> Iso9660Image result" where
  "open_iso9660_path fs path =
     (case open_logical_sector_source fs path of
        Inl (e, d) \<Rightarrow> failure e d
      | Inr src \<Rightarrow> open_iso9660 fs src)"

definition list_iso9660_directory ::
  "MediaFiles \<Rightarrow> Iso9660Image \<Rightarrow> string \<Rightarrow> DiscFileEntry list result" where
  "list_iso9660_directory fs img path =
     (if path = [] \<or> path = ''/''
      then parse_directory fs img (root_extent_lba img) (root_size_bytes img) ''/''
      else case find_entry fs img path of
        Inl (e, d) \<Rightarrow> failure e d
      | Inr entry \<Rightarrow>
          if \<not> is_directory entry
          then failure invalid_argument (''ISO9660 path is not a directory: '' @ entry_path entry)
          else parse_directory fs img (extent_lba entry) (size_bytes entry) (entry_path entry))"

definition read_iso9660_file :: "MediaFiles \<Rightarrow> Iso9660Image \<Rightarrow> string \<Rightarrow> u8 list result" where
  "read_iso9660_file fs img path =
     (case find_entry fs img path of
        Inl (e, d) \<Rightarrow> failure e d
      | Inr entry \<Rightarrow>
          if is_directory entry
          then failure invalid_argument (''ISO9660 path is a directory: '' @ entry_path entry)
          else read_extent fs img (extent_lba entry) (size_bytes entry))"

end
