(* ===== verification/System_Cnf.thy ===== *)
theory System_Cnf
  imports Iso9660 Ps1_Loader
begin

text \<open>
  From a disc image to the boot executable:
  \<^verbatim>\<open>src/src/core/ps1_system_cnf.*\<close> (the boot path of
  \<^verbatim>\<open>SYSTEM.CNF\<close>), the reader of \<^verbatim>\<open>ps1_exe.cpp\<close> and the
  revision check of \<^verbatim>\<open>revision.*\<close>.
\<close>

section \<open>The boot path\<close>

definition ascii_iequals :: "string \<Rightarrow> string \<Rightarrow> bool" where
  "ascii_iequals a b \<longleftrightarrow> ascii_lower a = ascii_lower b"

definition ascii_istarts_with :: "string \<Rightarrow> string \<Rightarrow> bool" where
  "ascii_istarts_with v prefix \<longleftrightarrow>
     length prefix \<le> length v \<and> ascii_iequals (take (length prefix) v) prefix"

definition path_separator :: "char \<Rightarrow> bool" where
  "path_separator c \<longleftrightarrow> c = CHR 0x5C \<or> c = CHR ''/''"

definition slashes :: "string \<Rightarrow> string" where
  "slashes = map (\<lambda>c. if c = CHR 0x5C then CHR ''/'' else c)"

text \<open>The version suffix \<open>;1\<close> is cut off.\<close>

definition drop_version :: "string \<Rightarrow> string" where
  "drop_version v =
     (if 2 \<le> length v \<and> v ! (length v - 2) = CHR '';'' \<and> last v = CHR ''1''
      then take (length v - 2) v else v)"

definition unsafe_component :: "string \<Rightarrow> bool" where
  "unsafe_component c \<longleftrightarrow> c = [] \<or> c = ''.'' \<or> c = ''..''"

definition normalize_cdrom_target :: "string \<Rightarrow> string result" where
  "normalize_cdrom_target v =
     (if \<not> ascii_istarts_with v ''cdrom:''
      then failure unsupported_format ''SYSTEM.CNF BOOT target is not a cdrom path''
      else
        let path = drop 6 v in
        if path = [] \<or> \<not> path_separator (hd path)
        then failure unsupported_format ''SYSTEM.CNF BOOT target is missing a cdrom path separator''
        else
          let target = drop_version (slashes (dropWhile path_separator path)) in
          if target = [] \<or> CHR '':'' \<in> set target
          then failure unsupported_format ''SYSTEM.CNF BOOT target is not a valid ISO9660 path''
          else if list_ex unsafe_component (split_on (CHR ''/'') target)
          then failure unsupported_format
            ''SYSTEM.CNF BOOT target contains an unsafe path component''
          else success (CHR ''/'' # target))"

text \<open>The key and the value of a line that holds an equals sign.\<close>

definition key_value :: "string \<Rightarrow> (string \<times> string) option" where
  "key_value line =
     (if CHR ''='' \<in> set line
      then Some (trim_ascii (takeWhile (\<lambda>c. c \<noteq> CHR ''='') line),
                 trim_ascii (tl (dropWhile (\<lambda>c. c \<noteq> CHR ''='') line)))
      else None)"

text \<open>The boot value found so far: \<open>None\<close> before the first declaration.\<close>

fun cnf_lines :: "string list \<Rightarrow> string option \<Rightarrow> string option result" where
  "cnf_lines [] boot = success boot"
| "cnf_lines (l # ls) boot =
     (case key_value (trim_ascii l) of
        None \<Rightarrow> cnf_lines ls boot
      | Some (key, v) \<Rightarrow>
          if ascii_iequals key ''BOOT''
          then if boot \<noteq> None
               then failure unsupported_format ''SYSTEM.CNF contains multiple BOOT declarations''
               else cnf_lines ls (Some v)
          else cnf_lines ls boot)"

definition parse_ps1_system_cnf :: "string \<Rightarrow> string result" where
  "parse_ps1_system_cnf text =
     (case cnf_lines (split_on (CHR 0x0A) text) None of
        Inl (e, d) \<Rightarrow> failure e d
      | Inr boot \<Rightarrow>
          if boot = None \<or> boot = Some []
          then failure unsupported_format
            ''SYSTEM.CNF does not contain exactly one usable BOOT declaration''
          else (case normalize_cdrom_target (the boot) of
                  Inl (e, d) \<Rightarrow> failure e d
                | Inr path \<Rightarrow> success path))"

definition read_ps1_system_cnf :: "MediaFiles \<Rightarrow> Iso9660Image \<Rightarrow> string result" where
  "read_ps1_system_cnf fs img =
     (case read_iso9660_file fs img ''/SYSTEM.CNF'' of
        Inl (e, d) \<Rightarrow> failure e d
      | Inr bytes \<Rightarrow> parse_ps1_system_cnf (map (\<lambda>b. char_of (unat b)) bytes))"

definition read_ps1_executable ::
  "MediaFiles \<Rightarrow> Iso9660Image \<Rightarrow> string \<Rightarrow> Ps1Executable result" where
  "read_ps1_executable fs img path =
     (case read_iso9660_file fs img path of
        Inl (e, d) \<Rightarrow> failure e d
      | Inr bytes \<Rightarrow> parse_ps1_executable bytes)"

section \<open>Revisions\<close>

record RevisionFileSignature =
  signature_path :: string
  signature_size :: u64
  signature_hash :: u64

record GameRevisionProfile =
  revision_id :: string
  profile_files :: "RevisionFileSignature list"

definition signature_matches :: "RevisionFileSignature \<Rightarrow> u8 list \<Rightarrow> bool" where
  "signature_matches s data \<longleftrightarrow>
     of_nat (length data) = signature_size s \<and> hash_bytes fnv_offset data = signature_hash s"

text \<open>The files of a profile: \<open>None\<close> when all match, else what the first mismatch is.\<close>

fun check_profile ::
  "MediaFiles \<Rightarrow> Iso9660Image \<Rightarrow> string \<Rightarrow> RevisionFileSignature list \<Rightarrow> string option result" where
  "check_profile fs img i [] = success None"
| "check_profile fs img i (s # ss) =
     (case read_iso9660_file fs img (signature_path s) of
        Inl (e, d) \<Rightarrow>
          if e = file_not_found
          then success (Some (''profile '' @ [CHR 0x27] @ i @ [CHR 0x27] @ '' is missing '' @
                 signature_path s))
          else failure e d
      | Inr data \<Rightarrow>
          if \<not> signature_matches s data
          then success (Some (''profile '' @ [CHR 0x27] @ i @ [CHR 0x27] @
                 '' fingerprint mismatch for '' @ signature_path s))
          else check_profile fs img i ss)"

fun match_profiles ::
  "MediaFiles \<Rightarrow> Iso9660Image \<Rightarrow> GameRevisionProfile list \<Rightarrow> string \<Rightarrow> string result" where
  "match_profiles fs img [] first_mismatch =
     failure unknown_revision (''disc image does not match any supported game revision profile'' @
       (if first_mismatch \<noteq> [] then ''; '' @ first_mismatch else []))"
| "match_profiles fs img (p # ps) first_mismatch =
     (if revision_id p = [] \<or> profile_files p = [] then match_profiles fs img ps first_mismatch
      else case check_profile fs img (revision_id p) (profile_files p) of
        Inl (e, d) \<Rightarrow> failure e d
      | Inr None \<Rightarrow> success (revision_id p)
      | Inr (Some m) \<Rightarrow>
          match_profiles fs img ps (if first_mismatch = [] then m else first_mismatch))"

definition identify_game_revision ::
  "MediaFiles \<Rightarrow> Iso9660Image \<Rightarrow> GameRevisionProfile list \<Rightarrow> string result" where
  "identify_game_revision fs img profiles =
     (if profiles = []
      then failure unknown_revision ''no verified revision profiles are registered yet for this game''
      else match_profiles fs img profiles [])"

end
