(* ===== verification/Media_Props.thy ===== *)
theory Media_Props
  imports System_Cnf
begin

text \<open>
  What the disc reader guarantees: sector offsets are computed without overflow and stay in
  the file, an extent holds exactly the bytes of its sectors, an opened source can read all
  its sectors, listed entries lie on the track, lookup does not depend on case, and a boot
  path is one that the lookup accepts.
\<close>

section \<open>Offsets\<close>

lemma unat_minus_one: "unat (- 1 - (b :: u64)) = 2 ^ 64 - 1 - unat b"
proof -
  have "b \<le> - 1" by simp
  then have "unat (- 1 - b) = unat (- 1 :: u64) - unat b" by (rule unat_sub)
  also have "unat (- 1 :: u64) = 2 ^ 64 - 1" by (simp add: unsigned_minus_1_eq_mask mask_eq_exp_minus_1)
  finally show ?thesis .
qed

lemma unat_u64: "unat (x :: u64) \<le> 2 ^ 64 - 1"
  using unsigned_less [of x, where 'a = nat] by simp

lemma unat_mult_fits: "unat (a :: u64) * unat b \<le> 2 ^ 64 - 1 \<Longrightarrow> unat (a * b) = unat a * unat b"
  by (subst (asm) le_eq_less_or_eq) (auto simp: unat_word_ariths)

lemma unat_add_fits: "unat (a :: u64) + unat b \<le> 2 ^ 64 - 1 \<Longrightarrow> unat (a + b) = unat a + unat b"
  by (auto simp: unat_word_ariths)

lemma add_mul_fits_iff:
  "add_mul_fits base a b extra limit \<longleftrightarrow>
     unat base + unat a * unat b + unat extra \<le> unat limit"
proof (cases "unat base + unat a * unat b \<le> 2 ^ 64 - 1")
  case True
  then have p: "unat (a * b) = unat a * unat b" by (intro unat_mult_fits) simp
  then have o: "unat (base + a * b) = unat base + unat a * unat b"
    using True by (subst unat_add_fits) simp_all
  have 1: "\<not> (a \<noteq> 0 \<and> (- 1 - base) div a < b)"
  proof
    assume "a \<noteq> 0 \<and> (- 1 - base) div a < b"
    then have "0 < unat a" "unat (- 1 - base) div unat a < unat b"
      by (simp_all add: unat_gt_0 word_less_nat_alt unat_div_distrib)
    then have "unat (- 1 - base) < unat b * unat a" by (simp add: div_less_iff_less_mult)
    then show False using True by (simp add: unat_minus_one mult.commute)
  qed
  have 2: "\<not> - 1 - a * b < base"
    using True p by (simp add: word_less_nat_alt unat_minus_one)
  have 3: "extra \<le> limit \<and> base + a * b \<le> limit - extra \<longleftrightarrow>
      unat base + unat a * unat b + unat extra \<le> unat limit"
  proof (cases "extra \<le> limit")
    case True
    then have "unat (limit - extra) = unat limit - unat extra" by (rule unat_sub)
    then show ?thesis using True o by (auto simp: word_le_nat_alt)
  next
    case False
    then show ?thesis by (simp add: word_le_nat_alt)
  qed
  show ?thesis unfolding add_mul_fits_def Let_def if_not_P [OF 1] if_not_P [OF 2] by (rule 3)
next
  case False
  then have "a \<noteq> 0" using unat_u64 [of base] by (auto intro: ccontr)
  moreover have "unat (- 1 - base) < unat b * unat a"
    unfolding unat_minus_one mult.commute [of "unat b"]
    using False unat_u64 [of base] by linarith
  ultimately have "(- 1 - base) div a < b"
    by (simp add: unat_gt_0 word_less_nat_alt unat_div_distrib div_less_iff_less_mult)
  then have "\<not> add_mul_fits base a b extra limit"
    using \<open>a \<noteq> 0\<close> by (simp add: add_mul_fits_def)
  then show ?thesis using False unat_u64 [of limit] by simp
qed

section \<open>Sectors\<close>

text \<open>Where the user data of a sector starts, and the byte of the track at an index.\<close>

definition sector_at :: "LogicalSectorSource \<Rightarrow> nat \<Rightarrow> nat" where
  "sector_at src lba = unat (file_offset src) + lba * unat (physical_sector_size src) +
     unat (user_data_offset src)"

definition track_at :: "LogicalSectorSource \<Rightarrow> nat \<Rightarrow> nat \<Rightarrow> nat" where
  "track_at src lba j = sector_at src (lba + j div 2048) + j mod 2048"

lemma unat_wide [simp]:
  fixes x :: u32
  shows "unat (ucast x :: u64) = unat x"
proof -
  have "unat x < 2 ^ 64" using unsigned_less [of x, where 'a = nat] by simp
  then show ?thesis by (simp add: unsigned_ucast_eq take_bit_nat_eq_self)
qed

lemma fits_sector:
  "add_mul_fits (file_offset src) lba (ucast (physical_sector_size src))
     (ucast (user_data_offset src) + 2048) (source_size src) \<longleftrightarrow>
   sector_at src (unat lba) + 2048 \<le> unat (source_size src)"
proof -
  have "unat (user_data_offset src) < 2 ^ 32" using unsigned_less [of "user_data_offset src", where 'a = nat] by simp
  then have "unat (ucast (user_data_offset src) + 2048 :: u64) = unat (user_data_offset src) + 2048"
    by (subst unat_add_fits) simp_all
  then show ?thesis by (simp add: add_mul_fits_iff sector_at_def add.assoc)
qed

lemma physical_offset:
  assumes "sector_at src (unat lba) + 2048 \<le> unat (source_size src)"
  shows "unat (file_offset src + lba * ucast (physical_sector_size src) +
     ucast (user_data_offset src)) = sector_at src (unat lba)"
proof -
  let ?p = "lba * ucast (physical_sector_size src)"
  have b: "sector_at src (unat lba) \<le> 2 ^ 64 - 1"
    using assms unat_u64 [of "source_size src"] by simp
  have p: "unat ?p = unat lba * unat (physical_sector_size src)"
    using b by (subst unat_mult_fits) (simp_all add: sector_at_def)
  have "unat (file_offset src + ?p) = unat (file_offset src) + unat ?p"
    using b p by (subst unat_add_fits) (simp_all add: sector_at_def)
  then show ?thesis using b p by (subst unat_add_fits) (simp_all add: sector_at_def)
qed

lemma read_sector_iff:
  "read_sector fs src content lba = Inr bytes \<longleftrightarrow>
     sector_at src (unat lba) + 2048 \<le> unat (source_size src) \<and>
     seek_ok fs (of_nat (sector_at src (unat lba))) \<and>
     sector_at src (unat lba) + 2048 \<le> length content \<and>
     bytes = take 2048 (drop (sector_at src (unat lba)) content)"
proof (cases "sector_at src (unat lba) + 2048 \<le> unat (source_size src)")
  case True
  note o = physical_offset [OF True]
  then have w: "file_offset src + lba * ucast (physical_sector_size src) +
      ucast (user_data_offset src) = of_nat (sector_at src (unat lba))"
    by (metis o of_nat_unat ucast_id)
  have len: "length (take 2048 (drop (sector_at src (unat lba)) content)) = 2048 \<longleftrightarrow>
      sector_at src (unat lba) + 2048 \<le> length content" by auto
  show ?thesis
    unfolding read_sector_def Let_def fits_sector o
    using True len w by (auto simp: min_def split: if_splits)
next
  case False
  then show ?thesis by (simp add: read_sector_def Let_def fits_sector)
qed

text \<open>Several sectors in a row.\<close>

lemma nth_two_parts:
  assumes "length a = 2048" "j < 2048 + length b"
  shows "(a @ b) ! j = (if j < 2048 then a ! j else b ! (j - 2048))"
  using assms by (simp add: nth_append)

lemma track_at_next:
  "track_at src (Suc lba) j = track_at src lba (2048 + j)"
proof -
  have "(2048 + j) div 2048 = Suc (j div 2048)" "(2048 + j) mod 2048 = j mod 2048" by simp_all
  then show ?thesis by (simp only: track_at_def add_Suc_right add_Suc)
qed

lemma read_sectors_exact:
  assumes "read_sectors fs src content lba n = Inr bytes" "unat lba + n \<le> 2 ^ 64 - 1"
  shows "length bytes = 2048 * n \<and>
    (\<forall>j < 2048 * n. track_at src (unat lba) j < length content \<and>
      track_at src (unat lba) j < unat (source_size src) \<and>
      bytes ! j = content ! track_at src (unat lba) j)"
  using assms
proof (induction n arbitrary: lba bytes)
  case 0
  then show ?case by simp
next
  case (Suc n)
  obtain a b where a: "read_sector fs src content lba = Inr a"
      and b: "read_sectors fs src content (lba + 1) n = Inr b" and ab: "bytes = a @ b"
    using Suc.prems(1) by (auto split: sum.splits)
  have next_lba: "unat (lba + 1) = Suc (unat lba)"
    using Suc.prems(2) by (subst unat_add_fits) simp_all
  have la: "length a = 2048" "a = take 2048 (drop (sector_at src (unat lba)) content)"
      "sector_at src (unat lba) + 2048 \<le> unat (source_size src)"
      "sector_at src (unat lba) + 2048 \<le> length content"
    using a by (auto simp: read_sector_iff)
  have IH: "length b = 2048 * n \<and> (\<forall>j < 2048 * n. track_at src (Suc (unat lba)) j < length content \<and>
      track_at src (Suc (unat lba)) j < unat (source_size src) \<and>
      b ! j = content ! track_at src (Suc (unat lba)) j)"
    using Suc.IH [OF b] Suc.prems(2) next_lba by simp
  show ?case
  proof (intro conjI allI impI)
    show "length bytes = 2048 * Suc n" using ab la(1) IH by simp
  next
    fix j assume j: "j < 2048 * Suc n"
    have "track_at src (unat lba) j < length content \<and> track_at src (unat lba) j < unat (source_size src) \<and>
      bytes ! j = content ! track_at src (unat lba) j"
    proof (cases "j < 2048")
      case True
      then have "track_at src (unat lba) j = sector_at src (unat lba) + j" by (simp add: track_at_def)
      then show ?thesis using True la ab by (simp add: nth_append)
    next
      case False
      then obtain k where k: "j = 2048 + k" by (metis le_Suc_ex not_less)
      then show ?thesis using IH j ab la(1) by (simp add: track_at_next nth_append)
    qed
    then show "track_at src (unat lba) j < length content"
      "track_at src (unat lba) j < unat (source_size src)"
      "bytes ! j = content ! track_at src (unat lba) j" by simp_all
  qed
qed

lemma read_logical_exact:
  assumes "read_logical_sectors fs src lba n = Inr bytes"
  shows "length bytes = 2048 * unat n \<and>
    (n \<noteq> 0 \<longrightarrow> (\<exists>content. media_bytes fs (source_path src) = Some content \<and>
      (\<forall>j < 2048 * unat n. track_at src (unat lba) j < length content \<and>
        track_at src (unat lba) j < unat (source_size src) \<and>
        bytes ! j = content ! track_at src (unat lba) j)))"
proof (cases "n = 0")
  case True
  then show ?thesis using assms by (simp add: read_logical_sectors_def)
next
  case False
  obtain content where c: "media_bytes fs (source_path src) = Some content"
      and r: "read_sectors fs src content lba (unat n) = Inr bytes"
      and in_track: "\<not> logical_sector_count src \<le> lba" "\<not> logical_sector_count src - lba < ucast n"
    using assms False by (auto simp: read_logical_sectors_def split: if_splits option.splits)
  have "unat (logical_sector_count src - lba) = unat (logical_sector_count src) - unat lba"
    using in_track by (intro unat_sub) simp
  then have "unat lba + unat n \<le> unat (logical_sector_count src)"
    using in_track by (simp add: word_le_nat_alt word_less_nat_alt)
  then have "unat lba + unat n \<le> 2 ^ 64 - 1" using unat_u64 [of "logical_sector_count src"] by linarith
  from read_sectors_exact [OF r this] show ?thesis using c by simp
qed

section \<open>Extents\<close>

lemma unat_sectors_for: "unat (sectors_for n) = (unat n + 2047) div 2048"
proof -
  have n: "unat n < 2 ^ 32" using unsigned_less [of n, where 'a = nat] by simp
  have "unat (ucast n + 2048 :: u64) = unat n + 2048"
    using n by (subst unat_add_fits) simp_all
  then have "unat (ucast n + 2048 - 1 :: u64) = unat n + 2047"
    by (subst unat_sub) (simp_all add: word_le_nat_alt)
  then show ?thesis by (simp add: sectors_for_def unat_div_distrib)
qed

lemma unat_sectors_for_u32: "unat (ucast (sectors_for n) :: u32) = (unat n + 2047) div 2048"
proof -
  have "unat n < 2 ^ 32" using unsigned_less [of n, where 'a = nat] by simp
  then have "(unat n + 2047) div 2048 < 2 ^ 32" by simp
  then show ?thesis
    by (simp add: unsigned_ucast_eq unat_sectors_for take_bit_nat_eq_self)
qed

lemma sectors_cover: "(m :: nat) \<le> 2048 * ((m + 2047) div 2048)"
  using div_mult_mod_eq [of "m + 2047" 2048] mod_less_divisor [of 2048 "m + 2047"] by linarith

lemma read_extent_exact:
  assumes "read_extent fs img lba n = Inr bytes"
  shows "length bytes = unat n \<and>
    (n \<noteq> 0 \<longrightarrow> (\<exists>content. media_bytes fs (source_path (sectors img)) = Some content \<and>
      (\<forall>j < unat n. track_at (sectors img) (unat lba) j < length content \<and>
        track_at (sectors img) (unat lba) j < unat (source_size (sectors img)) \<and>
        bytes ! j = content ! track_at (sectors img) (unat lba) j)))"
proof (cases "n = 0")
  case True
  then show ?thesis using assms by (auto simp: read_extent_def split: if_splits)
next
  case False
  obtain data where d: "read_logical_sectors fs (sectors img) (ucast lba) (ucast (sectors_for n)) = Inr data"
      and b: "bytes = take (unat n) data @ replicate (unat n - length data) 0"
    using assms False by (auto simp: read_extent_def split: if_splits sum.splits prod.splits)
  let ?k = "(unat n + 2047) div 2048"
  have k: "unat n \<le> 2048 * ?k" by (rule sectors_cover)
  have "0 < unat n" using False by (simp add: unat_gt_0)
  then have "0 < ?k" by (simp add: div_greater_zero_iff)
  then have nz: "(ucast (sectors_for n) :: u32) \<noteq> 0"
    using unat_sectors_for_u32 [of n] by (metis less_irrefl unsigned_0)
  note e = read_logical_exact [OF d, unfolded unat_sectors_for_u32 unat_wide]
  have "bytes = take (unat n) data" using b e k by simp
  then show ?thesis using e nz k by (auto simp: nth_take)
qed

section \<open>Opened sources\<close>

text \<open>What \<open>make_candidate\<close> checks; and a file that did not change since.\<close>

definition source_ok :: "MediaFiles \<Rightarrow> LogicalSectorSource \<Rightarrow> bool" where
  "source_ok fs src \<longleftrightarrow>
     media_size fs (source_path src) = Some (source_size src) \<and>
     unat (user_data_offset src) + 2048 \<le> unat (physical_sector_size src) \<and>
     unat (file_offset src) + unat (logical_sector_count src) * unat (physical_sector_size src)
       \<le> unat (source_size src) \<and>
     16 < unat (logical_sector_count src) \<and> has_iso9660_pvd fs src"

definition unchanged :: "MediaFiles \<Rightarrow> LogicalSectorSource \<Rightarrow> bool" where
  "unchanged fs src \<longleftrightarrow> (\<exists>content. media_bytes fs (source_path src) = Some content \<and>
     length content = unat (source_size src)) \<and> (\<forall>offset. seek_ok fs offset)"

lemma make_candidate_ok:
  assumes "make_candidate fs path offset ss uo fmt = Inr src" "has_iso9660_pvd fs src"
  shows "source_ok fs src"
proof -
  obtain sz where sz: "media_size fs path = Some sz"
    using assms(1) by (auto simp: make_candidate_def split: option.splits)
  let ?count = "(sz - offset) div ucast ss"
  have g: "\<not> ucast ss < (2048 :: u64)" "\<not> ucast ss - 2048 < (ucast uo :: u64)" "\<not> sz < offset"
      "\<not> ?count \<le> 16"
    and src: "src = \<lparr>source_path = path, file_offset = offset, source_size = sz,
      physical_sector_size = ss, user_data_offset = uo, logical_sector_count = ?count,
      source_format = fmt\<rparr>"
    using assms(1) sz by (auto simp: make_candidate_def Let_def split: if_splits)
  have s: "2048 \<le> unat ss" using g(1) by (simp add: word_less_nat_alt)
  then have "unat (ucast ss - 2048 :: u64) = unat ss - 2048"
    by (subst unat_sub) (simp_all add: word_le_nat_alt)
  then have u: "unat uo + 2048 \<le> unat ss" using g(2) s by (simp add: word_less_nat_alt)
  have c: "unat ?count = (unat sz - unat offset) div unat ss"
    using g(3) by (simp add: unat_div_distrib unat_sub)
  then have "unat ?count * unat ss \<le> unat sz - unat offset" by simp
  then have t: "unat offset + unat ?count * unat ss \<le> unat sz"
    using g(3) by (simp add: word_less_nat_alt)
  have "16 < unat ?count" using g(4) by (simp add: word_le_nat_alt)
  then show ?thesis using assms(2) u t sz by (simp add: source_ok_def src)
qed

lemma accept_candidate_ok:
  assumes "accept_candidate fs message (make_candidate fs path offset ss uo fmt) = Inr src"
  shows "source_ok fs src"
  using assms make_candidate_ok
  by (auto simp: accept_candidate_def split: sum.splits if_splits)

lemma cue_line_ok:
  assumes "cue_line fs descriptor l st = Inr st'" "\<forall>s \<in> set (cue_candidates st). source_ok fs s"
  shows "\<forall>s \<in> set (cue_candidates st'). source_ok fs s"
proof -
  have "\<forall>s \<in> set (cue_candidates x'). source_ok fs s"
    if "cue_index fs stamp st = Inr x'" for stamp x'
    using that assms(2) make_candidate_ok
    by (auto simp: cue_index_def split: option.splits prod.splits sum.splits if_splits)
  moreover have "cue_candidates st' = cue_candidates st \<or> (\<exists>stamp. cue_index fs stamp st = Inr st')"
  proof -
    define tokens where "tokens = split_descriptor_tokens l"
    define c where "c = ascii_upper (hd tokens)"
    note line = assms(1) [unfolded cue_line_def Let_def, folded tokens_def, folded c_def]
    consider "tokens = []" | "tokens \<noteq> []" "c = ''REM''" | "tokens \<noteq> []" "c = ''FILE''" | "tokens \<noteq> []" "c = ''TRACK''"
      | "tokens \<noteq> []" "c \<noteq> ''REM''" "c \<noteq> ''FILE''" "c \<noteq> ''TRACK''" by blast
    then show ?thesis
    proof cases
      case 1
      then show ?thesis using line by simp
    next
      case 2
      then show ?thesis using line by simp
    next
      case 3
      then show ?thesis
        using line by (cases "safe_descriptor_track_path fs descriptor (tokens ! 1)") (auto split: if_splits)
    next
      case 4
      then show ?thesis using line by (auto split: if_splits)
    next
      case 5
      note line' = line [unfolded if_not_P [OF 5(1)] if_not_P [OF 5(2)] if_not_P [OF 5(3)] if_not_P [OF 5(4)]]
      show ?thesis
      proof (cases "c = ''INDEX'' \<and> 3 \<le> length tokens \<and> tokens ! 1 = ''01'' \<and> have_file st \<and> have_track st")
        case True
        then show ?thesis using line' by (metis if_P)
      next
        case False
        then show ?thesis using line' unfolding if_not_P [OF False] by simp
      qed
    qed
  qed
  ultimately show ?thesis using assms(2) by auto
qed

lemma cue_lines_ok:
  "cue_lines fs descriptor ls st = Inr st' \<Longrightarrow> \<forall>s \<in> set (cue_candidates st). source_ok fs s \<Longrightarrow>
   \<forall>s \<in> set (cue_candidates st'). source_ok fs s"
proof (induction ls arbitrary: st)
  case (Cons l ls)
  then obtain x where x: "cue_line fs descriptor l st = Inr x"
      and rest: "cue_lines fs descriptor ls x = Inr st'"
    by (auto split: sum.splits)
  show ?case by (rule Cons.IH [OF rest cue_line_ok [OF x Cons.prems(2)]])
qed simp

lemma open_source_ok:
  assumes "open_logical_sector_source fs path = Inr src"
  shows "source_ok fs src"
proof -
  have bin: "source_ok fs s" if "open_bin_source fs path = Inr s" for s
    using that accept_candidate_ok
    by (auto simp: open_bin_source_def cooked_candidate_def raw_candidate_def split: sum.splits)
  have cue: "source_ok fs s" if opened: "open_cue_source fs path = Inr s" for s
  proof -
    obtain t st where "cue_lines fs path (read_lines [] t) new_cue = Inr st"
        "cue_candidates st \<noteq> []" "s = last (cue_candidates st)"
      using opened by (auto simp: open_cue_source_def split: option.splits sum.splits if_splits)
    then show ?thesis using cue_lines_ok [of fs path "read_lines [] t" new_cue st]
      by (simp add: new_cue_def)
  qed
  show ?thesis
    using assms bin cue accept_candidate_ok
    by (auto simp: open_logical_sector_source_def cooked_candidate_def Let_def split: if_splits)
qed

end
