(* ===== verification/Media_Lookup.thy ===== *)
theory Media_Lookup
  imports Media_Props
begin

text \<open>
  Totality of the readers on an opened source, the entries of a directory, case-insensitive
  lookup, and boot paths.
\<close>

section \<open>Reading an opened source\<close>

lemma sector_in_source:
  assumes "source_ok fs src" "lba < unat (logical_sector_count src)"
  shows "sector_at src lba + 2048 \<le> unat (source_size src)"
proof -
  let ?p = "unat (physical_sector_size src)"
  have "lba * ?p + ?p \<le> unat (logical_sector_count src) * ?p"
    using assms(2) by (metis Suc_leI add.commute mult_Suc mult_le_mono1)
  then show ?thesis using assms(1) by (simp add: source_ok_def sector_at_def)
qed

lemma read_sectors_total:
  assumes "source_ok fs src" "length content = unat (source_size src)" "\<forall>offset. seek_ok fs offset"
    "unat lba + n \<le> unat (logical_sector_count src)"
  shows "\<exists>bytes. read_sectors fs src content lba n = Inr bytes"
  using assms(4)
proof (induction n arbitrary: lba)
  case (Suc n)
  have "unat (lba + 1) = Suc (unat lba)"
    using Suc.prems unat_u64 [of "logical_sector_count src"] by (subst unat_add_fits) simp_all
  then obtain b where "read_sectors fs src content (lba + 1) n = Inr b"
    using Suc.IH [of "lba + 1"] Suc.prems by auto
  moreover obtain a where "read_sector fs src content lba = Inr a"
    using sector_in_source [OF assms(1), of "unat lba"] Suc.prems assms(2,3)
    by (simp add: read_sector_iff)
  ultimately show ?case by simp
qed simp

lemma read_logical_total:
  assumes ok: "source_ok fs src" and same: "unchanged fs src"
    and track: "unat lba + unat n \<le> unat (logical_sector_count src)"
  shows "\<exists>bytes. read_logical_sectors fs src lba n = Inr bytes"
proof (cases "n = 0")
  case True
  then show ?thesis by (simp add: read_logical_sectors_def)
next
  case False
  obtain content where c: "media_bytes fs (source_path src) = Some content"
      "length content = unat (source_size src)" and s: "\<forall>offset. seek_ok fs offset"
    using same by (auto simp: unchanged_def)
  have "0 < unat n" using False by (simp add: unat_gt_0)
  then have l: "\<not> logical_sector_count src \<le> lba" using track by (simp add: word_le_nat_alt)
  then have "unat (logical_sector_count src - lba) = unat (logical_sector_count src) - unat lba"
    by (intro unat_sub) simp
  then have 1: "\<not> logical_sector_count src - lba < ucast n"
    using track by (simp add: word_less_nat_alt)
  have p: "2048 \<le> unat (physical_sector_size src)" using ok by (simp add: source_ok_def)
  then have "unat (ucast (physical_sector_size src) - 2048 :: u64) = unat (physical_sector_size src) - 2048"
    by (subst unat_sub) (simp_all add: word_le_nat_alt)
  moreover have "\<not> unat (physical_sector_size src) - 2048 < unat (user_data_offset src)"
    using ok p unfolding source_ok_def by linarith
  ultimately have 2: "\<not> (ucast (physical_sector_size src) < (2048 :: u64) \<or>
      ucast (physical_sector_size src) - 2048 < (ucast (user_data_offset src) :: u64))"
    using p by (simp add: word_less_nat_alt)
  have "unat (- 1 div 2048 :: u64) = (2 ^ 64 - 1) div 2048"
    by (simp add: unat_div_distrib unsigned_minus_1_eq_mask mask_eq_exp_minus_1)
  moreover have "unat n < 2 ^ 32" using unsigned_less [of n, where 'a = nat] by simp
  ultimately have 3: "\<not> - 1 div 2048 < (ucast n :: u64)" by (simp add: word_less_nat_alt)
  show ?thesis
    using read_sectors_total [OF ok c(2) s track] False l 1 2 3 c(1)
    unfolding read_logical_sectors_def by (simp only: if_False simp_thms option.case)
qed

lemma bounded_extent_iff:
  "bounded_extent src lba n \<longleftrightarrow>
     (if n = 0 then unat lba \<le> unat (logical_sector_count src)
      else unat lba + (unat n + 2047) div 2048 \<le> unat (logical_sector_count src))"
proof (cases "n = 0")
  case True
  then show ?thesis by (simp add: bounded_extent_def word_le_nat_alt)
next
  case False
  then have "0 < (unat n + 2047) div 2048"
    by (simp add: unat_gt_0 div_greater_zero_iff Suc_le_eq)
  moreover have "unat (logical_sector_count src - ucast lba) =
      unat (logical_sector_count src) - unat lba"
    if "(ucast lba :: u64) < logical_sector_count src"
    using unat_sub [of "ucast lba" "logical_sector_count src"] that by simp
  ultimately show ?thesis
    using False by (auto simp: bounded_extent_def word_less_nat_alt word_le_nat_alt unat_sectors_for)
qed

lemma read_extent_total:
  assumes "source_ok fs (sectors img)" "unchanged fs (sectors img)"
    "bounded_extent (sectors img) lba n"
  shows "\<exists>bytes. read_extent fs img lba n = Inr bytes"
proof (cases "n = 0")
  case True
  then show ?thesis using assms(3) by (simp add: read_extent_def)
next
  case False
  then have "unat (ucast lba :: u64) + unat (ucast (sectors_for n) :: u32) \<le>
      unat (logical_sector_count (sectors img))"
    using assms(3) by (simp add: bounded_extent_iff unat_sectors_for_u32)
  then obtain data where
    "read_logical_sectors fs (sectors img) (ucast lba) (ucast (sectors_for n)) = Inr data"
    using read_logical_total [OF assms(1,2)] by blast
  then show ?thesis using assms(3) False by (simp add: read_extent_def)
qed

section \<open>Directories\<close>

definition entry_ok :: "LogicalSectorSource \<Rightarrow> string \<Rightarrow> DiscFileEntry \<Rightarrow> bool" where
  "entry_ok src parent e \<longleftrightarrow> bounded_extent src (extent_lba e) (size_bytes e) \<and>
     entry_name e \<noteq> [] \<and> CHR '';'' \<notin> set (entry_name e) \<and>
     entry_path e = join_path parent (entry_name e)"

lemma normalize_name_clean: "CHR '';'' \<notin> set (normalize_name n)"
  by (auto simp: normalize_name_def drop_final_dot_def dest: in_set_butlastD set_takeWhileD)

lemma directory_record_ok:
  "directory_record src parent bytes cursor = Inr es \<Longrightarrow> \<forall>e \<in> set es. entry_ok src parent e"
  unfolding directory_record_def Let_def
  by (auto simp: entry_ok_def normalize_name_clean split: if_splits)

lemma directory_loop_ok:
  "directory_loop src parent bytes cursor = Inr es \<Longrightarrow> \<forall>e \<in> set es. entry_ok src parent e"
proof (induction src parent bytes cursor arbitrary: es rule: directory_loop.induct)
  case (1 src parent bytes cursor)
  consider (ended) "length bytes \<le> cursor" | (skipped) "\<not> length bytes \<le> cursor" "bytes ! cursor = 0"
    | (rec) "\<not> length bytes \<le> cursor" "bytes ! cursor \<noteq> 0" by blast
  then show ?case
  proof cases
    case ended
    then show ?thesis using 1(3) by (subst (asm) directory_loop.simps) simp
  next
    case skipped
    then have "directory_loop src parent bytes (next_cursor (length bytes) cursor) = Inr es"
      using 1(3) by (subst (asm) directory_loop.simps) simp
    then show ?thesis using 1(1) skipped by blast
  next
    case rec
    then obtain new rest where n: "directory_record src parent bytes cursor = Inr new"
        "directory_loop src parent bytes (cursor + unat (bytes ! cursor)) = Inr rest" "es = new @ rest"
      using 1(3) by (subst (asm) directory_loop.simps) (auto split: sum.splits)
    then show ?thesis using 1(2) [OF rec n(1)] directory_record_ok [OF n(1)] by auto
  qed
qed

lemma parse_directory_ok:
  "parse_directory fs img lba n parent = Inr es \<Longrightarrow> \<forall>e \<in> set es. entry_ok (sectors img) parent e"
  using directory_loop_ok by (auto simp: parse_directory_def split: sum.splits prod.splits)

lemma find_parts_in_track:
  "find_parts fs img path lba n parent found parts = Inr e \<Longrightarrow>
   parts = [] \<longrightarrow> bounded_extent (sectors img) (extent_lba found) (size_bytes found) \<Longrightarrow>
   bounded_extent (sectors img) (extent_lba e) (size_bytes e)"
proof (induction parts arbitrary: lba n parent found)
  case (Cons part rest)
  obtain es x where es: "parse_directory fs img lba n parent = Inr es"
      and x: "matching_entry part es = Some x"
      and r: "find_parts fs img path (extent_lba x) (size_bytes x) (entry_path x) x rest = Inr e"
    using Cons.prems(1) by (auto split: sum.splits option.splits if_splits)
  have "x \<in> set es" using x by (auto simp: matching_entry_def find_Some_iff)
  then have "bounded_extent (sectors img) (extent_lba x) (size_bytes x)"
    using parse_directory_ok [OF es] by (simp add: entry_ok_def)
  then show ?case using Cons.IH [OF r] by simp
qed simp

lemma find_entry_in_track:
  assumes "find_entry fs img path = Inr e"
  shows "bounded_extent (sectors img) (extent_lba e) (size_bytes e)"
proof -
  obtain part rest where "split_virtual_path path = Inr (part # rest)"
      "find_parts fs img path (root_extent_lba img) (root_size_bytes img) ''/'' no_entry (part # rest) = Inr e"
    using assms by (auto simp: find_entry_def simp del: find_parts.simps split: sum.splits list.splits)
  then show ?thesis using find_parts_in_track by blast
qed

section \<open>Case\<close>

text \<open>Results that agree but for the text of an error.\<close>

definition same_outcome :: "'a result \<Rightarrow> 'a result \<Rightarrow> bool" where
  "same_outcome r r' \<longleftrightarrow>
     (case (r, r') of (Inr a, Inr b) \<Rightarrow> a = b | (Inl (e, _), Inl (e', _)) \<Rightarrow> e = e' | _ \<Rightarrow> False)"

lemma same_outcome_refl [simp]: "same_outcome r r"
  by (cases r) (auto simp: same_outcome_def)

lemma same_outcome_failure [simp]: "same_outcome (failure e d) (failure e d')"
  by (simp add: same_outcome_def)

lemma same_outcome_success: "same_outcome r r' \<Longrightarrow> r = Inr a \<longleftrightarrow> r' = Inr a"
  by (auto simp: same_outcome_def split: sum.splits)

lemma same_outcome_error: "same_outcome r r' \<Longrightarrow> r = Inl (e, d) \<Longrightarrow> \<exists>d'. r' = Inl (e, d')"
  by (cases r') (auto simp: same_outcome_def)

lemma matching_entry_upper [simp]: "matching_entry (ascii_upper part) = matching_entry part"
  by (simp add: matching_entry_def fun_eq_iff)

lemma find_parts_upper:
  "same_outcome (find_parts fs img path lba n parent found parts)
     (find_parts fs img path' lba n parent found (map ascii_upper parts))"
proof (induction parts arbitrary: lba n parent found)
  case (Cons part rest)
  show ?case
    using Cons.IH by (auto split: sum.splits option.splits)
qed simp

lemma upper_slash: "to_upper c = CHR ''/'' \<longleftrightarrow> c = CHR ''/''"
  by (rule to_upper_fixed) simp_all

lemma upper_dot: "to_upper c = CHR ''.'' \<longleftrightarrow> c = CHR ''.''"
  by (rule to_upper_fixed) simp_all

lemma upper_dots:
  "ascii_upper p = ''..'' \<longleftrightarrow> p = ''..''" "ascii_upper p = ''.'' \<longleftrightarrow> p = ''.''"
  "ascii_upper p = [] \<longleftrightarrow> p = []"
  by (auto simp: ascii_upper_def map_eq_Cons_conv upper_dot)

lemma split_virtual_path_upper:
  "split_virtual_path (ascii_upper path) =
     (case split_virtual_path path of Inl e \<Rightarrow> Inl e | Inr parts \<Rightarrow> Inr (map ascii_upper parts))"
proof -
  have s: "split_on (CHR ''/'') (ascii_upper path) = map ascii_upper (split_on (CHR ''/'') path)"
    unfolding ascii_upper_def using upper_slash by (rule split_on_map)
  have d: "''..'' \<in> ascii_upper ` set ps \<longleftrightarrow> ''..'' \<in> set ps" for ps
    unfolding image_iff using upper_dots(1) by metis
  show ?thesis
    by (simp add: split_virtual_path_def Let_def s d filter_map comp_def upper_dots)
qed

lemma find_entry_upper: "same_outcome (find_entry fs img path) (find_entry fs img (ascii_upper path))"
proof (cases "split_virtual_path path")
  case (Inl e)
  then show ?thesis by (simp add: find_entry_def split_virtual_path_upper)
next
  case (Inr parts)
  then show ?thesis
    using find_parts_upper [of fs img path "root_extent_lba img" "root_size_bytes img" "''/''" no_entry
        parts "ascii_upper path"]
    by (cases parts) (simp_all add: find_entry_def split_virtual_path_upper)
qed

lemma read_upper:
  "same_outcome (read_iso9660_file fs img path) (read_iso9660_file fs img (ascii_upper path))"
  using find_entry_upper [of fs img path]
  by (cases "find_entry fs img path"; cases "find_entry fs img (ascii_upper path)")
    (auto simp: read_iso9660_file_def same_outcome_def)

section \<open>Boot paths\<close>

lemma normalize_target_safe:
  assumes "normalize_cdrom_target v = Inr path"
  shows "\<exists>parts. parts \<noteq> [] \<and> path = concat (map ((#) (CHR ''/'')) parts) \<and>
    split_virtual_path path = Inr parts \<and> CHR 0x5C \<notin> set path \<and> CHR '':'' \<notin> set path"
proof -
  let ?t = "drop_version (slashes (dropWhile path_separator (drop 6 v)))"
  let ?ps = "split_on (CHR ''/'') ?t"
  have t: "?t \<noteq> []" "CHR '':'' \<notin> set ?t" "\<not> list_ex unsafe_component ?ps" "path = CHR ''/'' # ?t"
    using assms by (auto simp: normalize_cdrom_target_def Let_def split: if_splits)
  have safe: "p \<noteq> [] \<and> p \<noteq> ''.'' \<and> p \<noteq> ''..''" if "p \<in> set ?ps" for p
    using that t(3) by (auto simp: list_ex_iff unsafe_component_def)
  have "split_on (CHR ''/'') path = [] # ?ps" using t(4) by simp
  moreover have "filter (\<lambda>p. p \<noteq> [] \<and> p \<noteq> ''.'') ?ps = ?ps"
    using safe by (intro filter_True) blast
  moreover have "''..'' \<notin> set ?ps" using safe by blast
  ultimately have s: "split_virtual_path path = Inr ?ps"
    by (simp add: split_virtual_path_def Let_def)
  have "CHR 0x5C \<notin> set ?t"
    by (auto simp: drop_version_def slashes_def dest!: in_set_takeD split: if_splits)
  then have "CHR 0x5C \<notin> set path" "CHR '':'' \<notin> set path" using t by auto
  then show ?thesis using s split_on_join [of "CHR ''/''" ?t] t(4) by (intro exI [of _ ?ps]) simp
qed

lemma boot_path_safe:
  assumes "parse_ps1_system_cnf cnf = Inr path"
  shows "\<exists>parts. parts \<noteq> [] \<and> path = concat (map ((#) (CHR ''/'')) parts) \<and>
    split_virtual_path path = Inr parts \<and> CHR 0x5C \<notin> set path \<and> CHR '':'' \<notin> set path"
  using assms normalize_target_safe
  by (auto simp: parse_ps1_system_cnf_def split: sum.splits if_splits prod.splits)

section \<open>Revisions\<close>

lemma check_profile_matches:
  "check_profile fs img i ss = Inr None \<longleftrightarrow>
     (\<forall>s \<in> set ss. \<exists>data. read_iso9660_file fs img (signature_path s) = Inr data \<and>
       signature_matches s data)"
  by (induction ss) (auto split: sum.splits if_splits prod.splits)

lemma check_profile_mismatch:
  "check_profile fs img i ss = Inr (Some m) \<Longrightarrow>
     \<exists>s \<in> set ss. (\<exists>d. read_iso9660_file fs img (signature_path s) = Inl (file_not_found, d)) \<or>
       (\<exists>data. read_iso9660_file fs img (signature_path s) = Inr data \<and> \<not> signature_matches s data)"
  by (induction ss) (auto split: sum.splits if_splits prod.splits)

lemma match_profiles_first:
  "match_profiles fs img profiles m = Inr r \<Longrightarrow>
     \<exists>ps p qs. profiles = ps @ p # qs \<and> revision_id p = r \<and> r \<noteq> [] \<and> profile_files p \<noteq> [] \<and>
       check_profile fs img r (profile_files p) = Inr None \<and>
       (\<forall>q \<in> set ps. revision_id q = [] \<or> profile_files q = [] \<or>
         (\<exists>m'. check_profile fs img (revision_id q) (profile_files q) = Inr (Some m')))"
proof (induction profiles arbitrary: m)
  case (Cons p ps)
  show ?case
  proof (cases "(revision_id p = [] \<or> profile_files p = []) \<or>
      (\<exists>m'. check_profile fs img (revision_id p) (profile_files p) = Inr (Some m'))")
    case True
    then obtain m' where "match_profiles fs img ps m' = Inr r"
      using Cons.prems by (auto split: if_splits)
    from Cons.IH [OF this] obtain as q bs where
      q: "ps = as @ q # bs" "revision_id q = r" "r \<noteq> []" "profile_files q \<noteq> []"
        "check_profile fs img r (profile_files q) = Inr None"
        "\<forall>q \<in> set as. revision_id q = [] \<or> profile_files q = [] \<or>
         (\<exists>m'. check_profile fs img (revision_id q) (profile_files q) = Inr (Some m'))" by blast
    then show ?thesis using True by (intro exI [of _ "p # as"] exI [of _ q] exI [of _ bs]) auto
  next
    case False
    then have "check_profile fs img (revision_id p) (profile_files p) = Inr None" "revision_id p = r"
      using Cons.prems by (auto split: sum.splits option.splits)
    then show ?thesis using False by (intro exI [of _ "[]"] exI [of _ p] exI [of _ ps]) auto
  qed
qed simp

end
