(* ===== verification/Media_Spec.thy ===== *)
theory Media_Spec
  imports Media_Lookup
begin

text \<open>
  Properties of the disc reader, from the sectors of the image to the boot path and the
  revision, each with a witness on a small disc.
\<close>

section \<open>A small disc\<close>

text \<open>Nineteen sectors: sixteen empty ones, the descriptor, the root directory with one
  file \<open>A\<close>, and its three bytes.\<close>

definition demo_record :: "u8 \<Rightarrow> u8 \<Rightarrow> u8 \<Rightarrow> u8 \<Rightarrow> u8 \<Rightarrow> u8 list" where
  "demo_record lba low high flags name =
     [34, 0, lba, 0, 0, 0, 0, 0, 0, lba, low, high, 0, 0, 0, 0, high, low] @ replicate 7 0 @
     [flags] @ replicate 6 0 @ [1, name]"

definition demo_pvd :: "u8 list" where
  "demo_pvd = 1 # iso_magic @ [1] @ replicate 149 0 @ demo_record 17 0 8 2 0 @ replicate 1858 0"

definition demo_directory :: "u8 list" where
  "demo_directory = demo_record 18 3 0 0 65 @ replicate 2014 0"

definition demo_file :: "u8 list" where
  "demo_file = [1, 2, 3] @ replicate 2045 0"

definition demo_disc :: "u8 list" where
  "demo_disc = replicate 32768 0 @ demo_pvd @ demo_directory @ demo_file"

definition demo_files :: MediaFiles where
  "demo_files = \<lparr>media_size = \<lambda>p. Some 38912, media_bytes = \<lambda>p. Some demo_disc,
     media_text = \<lambda>p. None, seek_ok = \<lambda>offset. True, path_extension = \<lambda>p. ''.ISO'',
     path_rooted = \<lambda>p. False, path_components = \<lambda>p. [p], path_beside = \<lambda>p q. q\<rparr>"

definition demo_source :: LogicalSectorSource where
  "demo_source = \<lparr>source_path = ''game'', file_offset = 0, source_size = 38912,
     physical_sector_size = 2048, user_data_offset = 0, logical_sector_count = 19,
     source_format = ''iso''\<rparr>"

definition demo_image :: Iso9660Image where
  "demo_image = \<lparr>sectors = demo_source, root_extent_lba = 17, root_size_bytes = 2048\<rparr>"

definition demo_entry :: DiscFileEntry where
  "demo_entry = \<lparr>entry_name = ''A'', entry_path = ''/A'', is_directory = False, extent_lba = 18,
     size_bytes = 3\<rparr>"

lemma demo_lengths [simp]:
  "length (demo_record a b c d e) = 34" "length demo_pvd = 2048" "length demo_directory = 2048"
  "length demo_file = 2048" "length demo_disc = 38912"
  by (simp_all add: demo_record_def demo_pvd_def demo_directory_def demo_file_def demo_disc_def
      iso_magic_def)

lemma demo_sector:
  assumes "unat lba < 19"
  shows "read_logical_sectors demo_files demo_source lba 1 =
    Inr (take 2048 (drop (2048 * unat lba) demo_disc))"
proof -
  have "\<not> (19 :: u64) \<le> lba" using assms by (simp add: word_le_nat_alt)
  moreover have "\<not> 19 - lba < (1 :: u64)"
  proof -
    have "unat (19 - lba) = 19 - unat lba"
      using assms by (subst unat_sub) (simp_all add: word_le_nat_alt)
    then show ?thesis using assms by (simp add: word_less_nat_alt)
  qed
  moreover have "read_sector demo_files demo_source demo_disc lba =
      Inr (take 2048 (drop (2048 * unat lba) demo_disc))"
    using assms
    by (subst read_sector_iff) (simp add: sector_at_def demo_source_def demo_files_def mult.commute)
  ultimately show ?thesis
    by (simp add: read_logical_sectors_def demo_source_def demo_files_def)
qed

lemma demo_sectors:
  "take 2048 (drop 32768 demo_disc) = demo_pvd" "take 2048 (drop 34816 demo_disc) = demo_directory"
  "take 2048 (drop 36864 demo_disc) = demo_file"
  by (simp_all add: demo_disc_def)

lemma demo_pvd_fields:
  "demo_pvd ! 0 = 1" "take 5 (drop (Suc 0) demo_pvd) = iso_magic" "demo_pvd ! 6 = 1"
  "drop 156 demo_pvd = demo_record 17 0 8 2 0 @ replicate 1858 0"
  by (simp_all add: demo_pvd_def iso_magic_def)

lemma demo_has_pvd: "has_iso9660_pvd demo_files demo_source"
  using demo_sector [of 16] by (simp add: has_iso9660_pvd_def demo_sectors demo_pvd_fields)

lemma demo_opens:
  "open_logical_sector_source demo_files ''game'' = Inr demo_source"
  "open_iso9660 demo_files demo_source = Inr demo_image"
proof -
  have ext: "ascii_lower (path_extension demo_files ''game'') = ''.iso''"
    by (simp add: demo_files_def) code_simp
  have "make_candidate demo_files ''game'' 0 2048 0 ''iso'' = Inr demo_source"
    by (simp add: make_candidate_def demo_files_def demo_source_def)
  then show "open_logical_sector_source demo_files ''game'' = Inr demo_source"
    by (simp add: open_logical_sector_source_def ext cooked_candidate_def accept_candidate_def
        demo_has_pvd)
  show "open_iso9660 demo_files demo_source = Inr demo_image"
    using demo_sector [of 16]
    by (simp add: open_iso9660_def demo_sectors demo_pvd_fields demo_record_def nth_append le32_def Let_def
        demo_image_def bounded_extent_def sectors_for_def demo_source_def)
qed

lemma demo_extent:
  assumes "lba = 17 \<and> n = 2048 \<or> lba = 18 \<and> n = 3"
  shows "read_extent demo_files demo_image lba n =
    Inr (take (unat n) (take 2048 (drop (2048 * unat lba) demo_disc)))"
  using assms demo_sector [of 17] demo_sector [of 18]
  by (auto simp: read_extent_def demo_image_def bounded_extent_def sectors_for_def demo_source_def)

lemma demo_lookup: "find_entry demo_files demo_image ''/a'' = Inr demo_entry"
proof -
  have letter: "char_of (65 :: nat) = CHR ''A''" by code_simp
  have rec: "directory_record demo_source ''/'' demo_directory 0 = Inr [demo_entry]"
    by (simp add: directory_record_def demo_directory_def demo_record_def nth_append letter Let_def le32_def
        normalize_name_def drop_final_dot_def join_path_def bounded_extent_def sectors_for_def
        demo_source_def demo_entry_def)
  have "directory_loop demo_source ''/'' demo_directory 2048 = Inr []"
    by (subst directory_loop.simps) simp
  moreover have "demo_directory ! 34 = 0" "demo_directory ! 0 = 34"
    by (simp_all add: demo_directory_def demo_record_def nth_append)
  ultimately have "directory_loop demo_source ''/'' demo_directory 34 = Inr []"
    by (subst directory_loop.simps) (simp add: next_cursor_def)
  then have "directory_loop demo_source ''/'' demo_directory 0 = Inr [demo_entry]"
    using \<open>demo_directory ! 0 = 34\<close> rec by (subst directory_loop.simps) simp
  then have "parse_directory demo_files demo_image 17 2048 ''/'' = Inr [demo_entry]"
    using demo_extent [of 17 2048] by (simp add: parse_directory_def demo_sectors demo_image_def)
  moreover have "split_virtual_path ''/a'' = Inr [''a'']" by code_simp
  moreover have "matching_entry ''a'' [demo_entry] = Some demo_entry" by code_simp
  ultimately show ?thesis by (simp add: find_entry_def demo_image_def)
qed

lemma disc_read_demo: "read_iso9660_file demo_files demo_image ''/a'' = Inr [1, 2, 3]"
  using demo_extent [of 18 3]
  by (simp add: read_iso9660_file_def demo_lookup demo_sectors) (simp add: demo_entry_def demo_file_def)

lemma demo_unchanged: "unchanged demo_files demo_source"
  by (simp add: unchanged_def demo_files_def demo_source_def)

section \<open>Files\<close>

text \<open>C36.
  A file read from the disc holds exactly the bytes of its sectors: byte by byte, at the
  sector's place in the track (file offset, physical sector size, user data offset) and
  within the size of the track, whatever path through the directories led to it.
\<close>

theorem disc_read_exact:
  assumes "read_iso9660_file fs img path = Inr bytes"
  shows "\<exists>e. find_entry fs img path = Inr e \<and> \<not> is_directory e \<and>
    length bytes = unat (size_bytes e) \<and>
    (\<forall>j < length bytes. \<exists>content. media_bytes fs (source_path (sectors img)) = Some content \<and>
      track_at (sectors img) (unat (extent_lba e)) j < length content \<and>
      track_at (sectors img) (unat (extent_lba e)) j < unat (source_size (sectors img)) \<and>
      bytes ! j = content ! track_at (sectors img) (unat (extent_lba e)) j)"
proof -
  obtain e where e: "find_entry fs img path = Inr e" "\<not> is_directory e"
      and r: "read_extent fs img (extent_lba e) (size_bytes e) = Inr bytes"
    using assms by (auto simp: read_iso9660_file_def split: sum.splits if_splits prod.splits)
  show ?thesis
  proof (cases "size_bytes e = 0")
    case True
    then show ?thesis using e read_extent_exact [OF r] by auto
  next
    case False
    then show ?thesis using e read_extent_exact [OF r] by auto
  qed
qed

text \<open>C37.
  Whatever opens can be read: on an image opened from a disc file, as long as the file does
  not change, a path reads successfully exactly when the lookup finds a file for it; no read
  leaves the track, and no sector offset the directory can name lies outside the file.
\<close>

theorem opened_disc_readable:
  assumes "open_logical_sector_source fs file = Inr src" "open_iso9660 fs src = Inr img"
    and same: "unchanged fs src"
  shows "(\<exists>bytes. read_iso9660_file fs img path = Inr bytes) \<longleftrightarrow>
    (\<exists>e. find_entry fs img path = Inr e \<and> \<not> is_directory e)"
proof -
  have src: "sectors img = src"
    using assms(2) by (auto simp: open_iso9660_def Let_def split: if_splits sum.splits prod.splits)
  have "source_ok fs src" using assms(1) by (rule open_source_ok)
  then have "\<exists>bytes. read_extent fs img (extent_lba e) (size_bytes e) = Inr bytes"
    if "find_entry fs img path = Inr e" for e
    using read_extent_total find_entry_in_track [OF that] same src by blast
  then show ?thesis
    by (auto simp: read_iso9660_file_def split: sum.splits if_splits prod.splits)
qed

theorem opened_disc_readable_witness:
  "\<exists>bytes. read_iso9660_file demo_files demo_image ''/a'' = Inr bytes"
proof -
  have "\<exists>e. find_entry demo_files demo_image ''/a'' = Inr e \<and> \<not> is_directory e"
    by (simp add: demo_lookup demo_entry_def)
  then show ?thesis
    using opened_disc_readable [OF demo_opens demo_unchanged, of "''/a''"] by simp
qed

theorem disc_read_exact_witness:
  "read_iso9660_file demo_files demo_image ''/a'' = Inr [1, 2, 3] \<and>
   track_at demo_source 18 2 = 36866 \<and> demo_disc ! 36866 = 3"
proof -
  have r: "read_iso9660_file demo_files demo_image ''/a'' = Inr [1, 2, 3]"
    by (rule disc_read_demo)
  from disc_read_exact [OF r] obtain e where e: "find_entry demo_files demo_image ''/a'' = Inr e"
    and at: "\<forall>j < length [1, 2, 3 :: u8]. \<exists>content. media_bytes demo_files (source_path (sectors demo_image)) = Some content \<and>
      [1, 2, 3] ! j = content ! track_at (sectors demo_image) (unat (extent_lba e)) j"
    by blast
  have "e = demo_entry" using e demo_lookup by simp
  then have "demo_disc ! track_at demo_source 18 2 = 3"
    using at [rule_format, of 2] by (simp add: demo_files_def demo_image_def demo_entry_def)
  moreover have "track_at demo_source 18 2 = 36866"
    by (simp add: track_at_def sector_at_def demo_source_def)
  ultimately show ?thesis using r by simp
qed

text \<open>
  The lookup does not depend on the case of the path: reading the upper-case path gives the
  same bytes, or fails with the same error code.
\<close>

theorem lookup_ignores_case:
  "same_outcome (read_iso9660_file fs img path) (read_iso9660_file fs img (ascii_upper path))"
  by (rule read_upper)

section \<open>The boot path\<close>

text \<open>C38.
  A boot path taken from \<^verbatim>\<open>SYSTEM.CNF\<close> cannot leave the disc or name its root: it is a
  slash and a component, one or more times, that the reader of the image splits into exactly
  those components; none is empty, a dot or two dots, and no colon or backslash is left.  So
  reading the executable never fails because of the form of the path.
\<close>

theorem boot_path_resolves:
  assumes "parse_ps1_system_cnf cnf = Inr path"
  shows "\<exists>parts. parts \<noteq> [] \<and> path = concat (map ((#) (CHR ''/'')) parts) \<and>
    split_virtual_path path = Inr parts \<and> CHR 0x5C \<notin> set path \<and> CHR '':'' \<notin> set path \<and>
    find_entry fs img path = find_parts fs img path (root_extent_lba img) (root_size_bytes img)
      ''/'' no_entry parts"
proof -
  obtain parts where p: "parts \<noteq> []" "path = concat (map ((#) (CHR ''/'')) parts)"
      "split_virtual_path path = Inr parts" "CHR 0x5C \<notin> set path" "CHR '':'' \<notin> set path"
    using boot_path_safe [OF assms] by blast
  moreover have "find_entry fs img path = find_parts fs img path (root_extent_lba img)
      (root_size_bytes img) ''/'' no_entry parts"
    using p(1,3) by (cases parts) (simp_all add: find_entry_def)
  ultimately show ?thesis by blast
qed

definition demo_cnf :: string where
  "demo_cnf = ''TCB = 4'' @ [CHR 0x0D, CHR 0x0A] @ ''boot=cdrom:'' @ [CHR 0x5C] @ ''DATA'' @
     [CHR 0x5C] @ ''SLPS_010.60;1'' @ [CHR 0x0D, CHR 0x0A]"

theorem boot_path_resolves_witness:
  "parse_ps1_system_cnf demo_cnf = Inr ''/DATA/SLPS_010.60'' \<and>
   (\<exists>parts. parts \<noteq> [] \<and> split_virtual_path ''/DATA/SLPS_010.60'' = Inr parts)"
proof -
  have p: "parse_ps1_system_cnf demo_cnf = Inr ''/DATA/SLPS_010.60''" by code_simp
  from boot_path_resolves [OF p, of demo_files demo_image] p show ?thesis by blast
qed

section \<open>Revisions\<close>

text \<open>
  A revision is only reported for a profile all of whose files are on the disc with the
  expected size and hash, and it is the first such profile: every earlier one that is usable
  has a file that is missing or differs.
\<close>

theorem revision_first_match:
  assumes "identify_game_revision fs img profiles = Inr r"
  shows "\<exists>ps p qs. profiles = ps @ p # qs \<and> revision_id p = r \<and> r \<noteq> [] \<and> profile_files p \<noteq> [] \<and>
    (\<forall>s \<in> set (profile_files p). \<exists>data. read_iso9660_file fs img (signature_path s) = Inr data \<and>
      signature_matches s data) \<and>
    (\<forall>q \<in> set ps. revision_id q = [] \<or> profile_files q = [] \<or>
      (\<exists>s \<in> set (profile_files q).
        (\<exists>d. read_iso9660_file fs img (signature_path s) = Inl (file_not_found, d)) \<or>
        (\<exists>data. read_iso9660_file fs img (signature_path s) = Inr data \<and> \<not> signature_matches s data)))"
proof -
  have "match_profiles fs img profiles [] = Inr r"
    using assms by (auto simp: identify_game_revision_def split: if_splits)
  from match_profiles_first [OF this] obtain ps p qs where
    s: "profiles = ps @ p # qs" "revision_id p = r" "r \<noteq> []" "profile_files p \<noteq> []"
      "check_profile fs img r (profile_files p) = Inr None"
    and before: "\<forall>q \<in> set ps. revision_id q = [] \<or> profile_files q = [] \<or>
      (\<exists>m'. check_profile fs img (revision_id q) (profile_files q) = Inr (Some m'))"
    by blast
  show ?thesis
    using s before check_profile_mismatch check_profile_matches
    by (intro exI [of _ ps] exI [of _ p] exI [of _ qs] conjI ballI) blast+
qed

definition demo_profiles :: "GameRevisionProfile list" where
  "demo_profiles =
     [\<lparr>revision_id = ''missing'', profile_files =
        [\<lparr>signature_path = ''/a'', signature_size = 4, signature_hash = 0\<rparr>]\<rparr>,
      \<lparr>revision_id = ''found'', profile_files =
        [\<lparr>signature_path = ''/A'', signature_size = 3,
          signature_hash = hash_bytes fnv_offset [1, 2, 3]\<rparr>]\<rparr>]"

theorem revision_first_match_witness:
  "identify_game_revision demo_files demo_image demo_profiles = Inr ''found'' \<and>
   (\<exists>ps p qs. demo_profiles = ps @ p # qs \<and> revision_id p = ''found'' \<and> profile_files p \<noteq> [])"
proof -
  have up: "ascii_upper ''/a'' = ''/A''" by code_simp
  have "read_iso9660_file demo_files demo_image ''/a'' = Inr [1, 2, 3]"
    using disc_read_demo .
  moreover from this have "read_iso9660_file demo_files demo_image ''/A'' = Inr [1, 2, 3]"
    using same_outcome_success [OF read_upper [of demo_files demo_image "''/a''"]] up by simp
  ultimately have r: "identify_game_revision demo_files demo_image demo_profiles = Inr ''found''"
    by (simp add: identify_game_revision_def demo_profiles_def signature_matches_def)
  from revision_first_match [OF r] r show ?thesis by blast
qed

end
