(* ===== verification/Training.thy ===== *)
theory Training
  imports Input_Props Sha256
begin

text \<open>
  Training mode, from \<^verbatim>\<open>src/src/core/training.h\<close> and
  \<^verbatim>\<open>training.cpp\<close>: the timeline of frame samples with its frame meter and input
  history, playback with single steps, and the state slots with their integrity check.

  A C++ \<open>int\<close> is an integer (\<open>in_int\<close> says that it fits); a \<open>float\<close> is a value of the abstract
  type of \<open>FloatOps\<close>.
\<close>

datatype FramePhase = phase_neutral | phase_startup | phase_active | phase_recovery

datatype CollisionBoxKind = box_attack | box_vulnerable | box_push

record 'f CollisionBox =
  box_x :: 'f
  box_y :: 'f
  box_width :: 'f
  box_height :: 'f
  box_kind :: CollisionBoxKind
  box_label :: string

record 'f TrainingFrameSample =
  sample_frame :: u64
  sample_phase :: FramePhase
  hitstop_frames :: int
  hitstun_frames :: int
  blockstun_frames :: int
  attacker_recovery_frames :: int
  defender_stun_frames :: int
  cancel_window :: bool
  combo_count :: int
  damage :: int
  scaling_percent :: int
  sample_inputs :: "ResolvedPlayerInput list"
  collision_boxes :: "'f CollisionBox list"

record FrameMeterSegment =
  segment_phase :: FramePhase
  first_frame :: u64
  last_frame :: u64
  segment_label :: string
  segment_icon :: string

record TrainingInputHistoryEntry =
  history_frame :: u64
  history_player :: nat
  history_actions :: "GameAction list"

record 'f TrainingTimeline =
  capacity :: nat
  samples :: "'f TrainingFrameSample list"

section \<open>The timeline\<close>

definition valid_box :: "'f FloatOps \<Rightarrow> 'f CollisionBox \<Rightarrow> bool" where
  "valid_box ops b \<longleftrightarrow> f_le ops (f_zero ops) (box_width b) \<and> f_le ops (f_zero ops) (box_height b) \<and>
     box_label b \<noteq> []"

definition frame_advantage :: "'f TrainingFrameSample \<Rightarrow> int" where
  "frame_advantage s = defender_stun_frames s - attacker_recovery_frames s"

definition valid_counters :: "'f TrainingFrameSample \<Rightarrow> bool" where
  "valid_counters s \<longleftrightarrow> \<not> (hitstop_frames s < 0 \<or> hitstun_frames s < 0 \<or> blockstun_frames s < 0 \<or>
     attacker_recovery_frames s < 0 \<or> defender_stun_frames s < 0 \<or> combo_count s < 0 \<or>
     damage s < 0 \<or> scaling_percent s < 0 \<or> 100 < scaling_percent s)"

text \<open>\<open>push_back\<close>, then \<open>pop_front\<close> while there are more samples than the capacity.\<close>

definition keep_last :: "nat \<Rightarrow> 'a list \<Rightarrow> 'a list" where
  "keep_last n xs = drop (length xs - n) xs"

definition record_sample ::
  "'f FloatOps \<Rightarrow> 'f TrainingFrameSample \<Rightarrow> 'f TrainingTimeline \<Rightarrow> unit result \<times> 'f TrainingTimeline" where
  "record_sample ops s t =
     (if capacity t = 0
      then (failure invalid_argument ''training timeline capacity must be greater than zero'', t)
      else if samples t \<noteq> [] \<and> sample_frame s \<le> sample_frame (last (samples t))
      then (failure invalid_argument ''training frame index must increase monotonically'', t)
      else if \<not> valid_counters s
      then (failure invalid_argument ''training frame contains invalid combat counters'', t)
      else if \<not> list_all (valid_box ops) (collision_boxes s)
      then (failure invalid_argument ''training collision box is invalid'', t)
      else (success (), t\<lparr>samples := keep_last (capacity t) (samples t @ [s])\<rparr>))"

fun meter_semantics :: "FramePhase \<Rightarrow> string \<times> string" where
  "meter_semantics phase_startup = (''Startup'', ''S'')"
| "meter_semantics phase_active = (''Active'', ''A'')"
| "meter_semantics phase_recovery = (''Recovery'', ''R'')"
| "meter_semantics phase_neutral = (''Neutral'', ''N'')"

definition meter_step :: "'f TrainingFrameSample \<Rightarrow> FrameMeterSegment list \<Rightarrow> FrameMeterSegment list" where
  "meter_step s segments =
     (if sample_phase s = phase_neutral then segments
      else if segments = [] \<or> segment_phase (last segments) \<noteq> sample_phase s \<or>
              last_frame (last segments) + 1 \<noteq> sample_frame s
      then let (name, icon) = meter_semantics (sample_phase s) in
        segments @ [\<lparr>segment_phase = sample_phase s, first_frame = sample_frame s,
          last_frame = sample_frame s, segment_label = name, segment_icon = icon\<rparr>]
      else butlast segments @ [(last segments)\<lparr>last_frame := sample_frame s\<rparr>])"

definition frame_meter :: "'f TrainingTimeline \<Rightarrow> FrameMeterSegment list" where
  "frame_meter t = fold meter_step (samples t) []"

definition history_entry :: "'f TrainingFrameSample \<Rightarrow> nat \<Rightarrow> TrainingInputHistoryEntry list" where
  "history_entry s player =
     (let actions = filter (action_pressed (sample_inputs s ! player)) all_game_actions in
      if actions = [] then []
      else [\<lparr>history_frame = sample_frame s, history_player = player, history_actions = actions\<rparr>])"

definition input_history :: "'f TrainingTimeline \<Rightarrow> TrainingInputHistoryEntry list" where
  "input_history t =
     concat (map (\<lambda>s. concat (map (history_entry s) [0..<input_player_count])) (samples t))"

section \<open>Playback\<close>

record TrainingPlaybackControl =
  paused :: bool
  queued_steps :: u32

definition max_queued_steps :: u32 where "max_queued_steps = 8"

definition new_playback :: TrainingPlaybackControl where
  "new_playback = \<lparr>paused = False, queued_steps = 0\<rparr>"

definition set_paused :: "bool \<Rightarrow> TrainingPlaybackControl \<Rightarrow> TrainingPlaybackControl" where
  "set_paused p c = c\<lparr>paused := p, queued_steps := (if \<not> p then 0 else queued_steps c)\<rparr>"

definition request_frame_step ::
  "TrainingPlaybackControl \<Rightarrow> unit result \<times> TrainingPlaybackControl" where
  "request_frame_step c =
     (if \<not> paused c then (failure invalid_argument ''frame step requires paused training playback'', c)
      else (success (),
        c\<lparr>queued_steps := (if queued_steps c < max_queued_steps then queued_steps c + 1
                             else queued_steps c)\<rparr>))"

definition consume_frame_permission :: "TrainingPlaybackControl \<Rightarrow> bool \<times> TrainingPlaybackControl" where
  "consume_frame_permission c =
     (if \<not> paused c then (True, c)
      else if queued_steps c = 0 then (False, c)
      else (True, c\<lparr>queued_steps := queued_steps c - 1\<rparr>))"

section \<open>Snapshots and slots\<close>

record TrainingStateSnapshot =
  snapshot_frame :: u64
  snapshot_state :: "u8 list"
  digest_hex :: string

definition canonical_snapshot_bytes :: "u64 \<Rightarrow> u8 list \<Rightarrow> u8 list" where
  "canonical_snapshot_bytes frame s = le_bytes 8 frame @ s"

definition snapshot_digest :: "u64 \<Rightarrow> u8 list \<Rightarrow> string" where
  "snapshot_digest frame s = sha256_hex (sha256 (canonical_snapshot_bytes frame s))"

definition make_training_snapshot :: "u64 \<Rightarrow> u8 list \<Rightarrow> TrainingStateSnapshot result" where
  "make_training_snapshot frame s =
     success \<lparr>snapshot_frame = frame, snapshot_state = s, digest_hex = snapshot_digest frame s\<rparr>"

definition validate_training_snapshot :: "TrainingStateSnapshot \<Rightarrow> unit result" where
  "validate_training_snapshot x =
     (if digest_hex x = [] then failure invalid_argument ''training snapshot digest is empty''
      else if digest_hex x \<noteq> snapshot_digest (snapshot_frame x) (snapshot_state x)
      then failure invalid_argument ''training snapshot integrity check failed''
      else success ())"

record Slot =
  occupied :: bool
  slot_snapshot :: TrainingStateSnapshot

type_synonym TrainingStateSlots = "Slot list"

definition slot_count :: nat where "slot_count = 10"

definition new_slots :: TrainingStateSlots where
  "new_slots = replicate slot_count \<lparr>occupied = False,
     slot_snapshot = \<lparr>snapshot_frame = 0, snapshot_state = [], digest_hex = []\<rparr>\<rparr>"

definition save_slot ::
  "nat \<Rightarrow> TrainingStateSnapshot \<Rightarrow> TrainingStateSlots \<Rightarrow> unit result \<times> TrainingStateSlots" where
  "save_slot slot x slots =
     (if slot_count \<le> slot
      then (failure invalid_argument ''training save slot is outside range 0..9'', slots)
      else case validate_training_snapshot x of
        Inl (e, d) \<Rightarrow> (failure e d, slots)
      | Inr _ \<Rightarrow> (success (), slots[slot := \<lparr>occupied = True, slot_snapshot = x\<rparr>]))"

definition load_slot :: "nat \<Rightarrow> TrainingStateSlots \<Rightarrow> TrainingStateSnapshot result" where
  "load_slot slot slots =
     (if slot_count \<le> slot
      then failure invalid_argument ''training save slot is outside range 0..9''
      else if \<not> occupied (slots ! slot) then failure file_not_found ''training save slot is empty''
      else case validate_training_snapshot (slot_snapshot (slots ! slot)) of
        Inl (e, d) \<Rightarrow> failure e d
      | Inr _ \<Rightarrow> success (slot_snapshot (slots ! slot)))"

section \<open>Invariant of the timeline\<close>

definition in_int :: "int \<Rightarrow> bool" where
  "in_int i \<longleftrightarrow> - (2 ^ 31) \<le> i \<and> i < 2 ^ 31"

definition sample_ok :: "'f FloatOps \<Rightarrow> 'f TrainingFrameSample \<Rightarrow> bool" where
  "sample_ok ops s \<longleftrightarrow> valid_counters s \<and> list_all (valid_box ops) (collision_boxes s)"

definition timeline_ok :: "'f FloatOps \<Rightarrow> 'f TrainingTimeline \<Rightarrow> bool" where
  "timeline_ok ops t \<longleftrightarrow> length (samples t) \<le> capacity t \<and>
     sorted_wrt (<) (map sample_frame (samples t)) \<and> list_all (sample_ok ops) (samples t)"

lemma keep_last_le: "length (keep_last n xs) \<le> n"
  by (simp add: keep_last_def)

lemma keep_last_snoc: "keep_last n (keep_last n xs @ [x]) = keep_last n (xs @ [x])" if "0 < n"
  using that by (cases "length xs < n") (auto simp: keep_last_def Suc_diff_le)

lemma sorted_last_less:
  "sorted_wrt (<) (map f xs) \<Longrightarrow> x \<in> set xs \<Longrightarrow> f x \<le> (f (last xs) :: 'a :: linorder)"
  by (induction xs) (auto simp: less_imp_le)

lemma record_sample_ok:
  assumes ok: "timeline_ok ops t"
  shows "timeline_ok ops (snd (record_sample ops s t))"
proof (cases "fst (record_sample ops s t) = Inr ()")
  case True
  then have c: "samples t \<noteq> [] \<longrightarrow> sample_frame (last (samples t)) < sample_frame s" "sample_ok ops s"
      "snd (record_sample ops s t) = t\<lparr>samples := keep_last (capacity t) (samples t @ [s])\<rparr>"
    by (auto simp: record_sample_def sample_ok_def split: if_splits)
  have "sample_frame x < sample_frame s" if "x \<in> set (samples t)" for x
    using that c(1) ok sorted_last_less [of sample_frame "samples t" x]
    by (auto simp: timeline_ok_def)
  then have "sorted_wrt (<) (map sample_frame (samples t @ [s]))"
    using ok by (simp add: timeline_ok_def sorted_wrt_append)
  then have "sorted_wrt (<) (map sample_frame (keep_last (capacity t) (samples t @ [s])))"
    unfolding keep_last_def drop_map [symmetric] by (rule sorted_wrt_drop)
  moreover have "list_all (sample_ok ops) (keep_last (capacity t) (samples t @ [s]))"
    using ok c(2) by (auto simp: timeline_ok_def list_all_iff keep_last_def dest!: in_set_dropD)
  ultimately show ?thesis
    unfolding c(3) by (simp add: timeline_ok_def keep_last_le)
next
  case False
  then show ?thesis using ok by (auto simp: record_sample_def split: if_splits)
qed

text \<open>Samples recorded one after the other, and those of them that were accepted.\<close>

fun record_all ::
  "'f FloatOps \<Rightarrow> 'f TrainingFrameSample list \<Rightarrow> 'f TrainingTimeline \<Rightarrow> 'f TrainingTimeline" where
  "record_all ops [] t = t"
| "record_all ops (s # ss) t = record_all ops ss (snd (record_sample ops s t))"

fun accepted ::
  "'f FloatOps \<Rightarrow> 'f TrainingFrameSample list \<Rightarrow> 'f TrainingTimeline \<Rightarrow> 'f TrainingFrameSample list" where
  "accepted ops [] t = []"
| "accepted ops (s # ss) t =
     (if fst (record_sample ops s t) = Inr () then [s] else []) @
     accepted ops ss (snd (record_sample ops s t))"

lemma record_all_ok: "timeline_ok ops t \<Longrightarrow> timeline_ok ops (record_all ops ss t)"
  by (induction ss arbitrary: t) (simp_all add: record_sample_ok)

lemma record_all_capacity [simp]: "capacity (record_all ops ss t) = capacity t"
  by (induction ss arbitrary: t) (auto simp: record_sample_def)

lemma record_all_keeps:
  "0 < capacity t \<Longrightarrow> samples t = keep_last (capacity t) xs \<Longrightarrow>
   samples (record_all ops ss t) = keep_last (capacity t) (xs @ accepted ops ss t)"
proof (induction ss arbitrary: t xs)
  case (Cons s ss)
  show ?case
  proof (cases "fst (record_sample ops s t) = Inr ()")
    case True
    then have t: "snd (record_sample ops s t) = t\<lparr>samples := keep_last (capacity t) (samples t @ [s])\<rparr>"
      by (auto simp: record_sample_def split: if_splits)
    have "samples (snd (record_sample ops s t)) = keep_last (capacity t) (xs @ [s])"
      using Cons.prems by (simp add: t keep_last_snoc)
    then show ?thesis
      using Cons.IH [of "snd (record_sample ops s t)" "xs @ [s]"] Cons.prems True by (simp add: t)
  next
    case False
    then have "snd (record_sample ops s t) = t"
      by (auto simp: record_sample_def split: if_splits)
    then show ?thesis using Cons False by simp
  qed
qed simp

lemma set_accepted: "x \<in> set (accepted ops ss t) \<Longrightarrow> x \<in> set ss"
  by (induction ss arbitrary: t) (auto split: if_splits)

section \<open>The frame meter\<close>

text \<open>The frames of a segment, and the phases that a list of segments spells out.\<close>

definition segment_frames :: "FrameMeterSegment \<Rightarrow> (FramePhase \<times> nat) list" where
  "segment_frames g = map (Pair (segment_phase g)) [unat (first_frame g)..<Suc (unat (last_frame g))]"

definition busy_frames :: "'f TrainingFrameSample list \<Rightarrow> (FramePhase \<times> nat) list" where
  "busy_frames ss = map (\<lambda>s. (sample_phase s, unat (sample_frame s)))
     (filter (\<lambda>s. sample_phase s \<noteq> phase_neutral) ss)"

text \<open>Neighbours that could not be one segment: another phase, or a frame between them.\<close>

definition separate :: "FrameMeterSegment \<Rightarrow> FrameMeterSegment \<Rightarrow> bool" where
  "separate g h \<longleftrightarrow> segment_phase g \<noteq> segment_phase h \<or> Suc (unat (last_frame g)) \<noteq> unat (first_frame h)"

definition meter_ok :: "FrameMeterSegment list \<Rightarrow> bool" where
  "meter_ok gs \<longleftrightarrow> (\<forall>g \<in> set gs. segment_phase g \<noteq> phase_neutral \<and> first_frame g \<le> last_frame g) \<and>
     successively separate gs"

lemma meter_step_ok:
  assumes gs: "meter_ok gs" and later: "gs \<noteq> [] \<Longrightarrow> last_frame (last gs) < sample_frame s"
  shows "meter_ok (meter_step s gs) \<and>
    concat (map segment_frames (meter_step s gs)) = concat (map segment_frames gs) @ busy_frames [s] \<and>
    (meter_step s gs \<noteq> [] \<longrightarrow> last_frame (last (meter_step s gs)) \<le> sample_frame s)"
proof (cases "sample_phase s = phase_neutral")
  case True
  then show ?thesis using assms by (auto simp: meter_step_def busy_frames_def)
next
  case busy: False
  obtain name icon where m: "meter_semantics (sample_phase s) = (name, icon)" by fastforce
  show ?thesis
  proof (cases "gs = []")
    case True
    then show ?thesis
      using busy m by (simp add: meter_step_def meter_ok_def busy_frames_def segment_frames_def)
  next
    case False
    then obtain hs g where h: "gs = hs @ [g]" by (metis rev_exhaust)
    have lt: "unat (last_frame g) < unat (sample_frame s)"
      using later False by (simp add: h word_less_nat_alt)
    then have suc: "unat (last_frame g + 1) = Suc (unat (last_frame g))"
      using unsigned_less [of "sample_frame s", where 'a = nat] by (simp add: unat_word_ariths)
    have join: "last_frame g + 1 = sample_frame s \<longleftrightarrow> Suc (unat (last_frame g)) = unat (sample_frame s)"
      by (metis suc unsigned_word_eqI)
    show ?thesis
    proof (cases "segment_phase g = sample_phase s \<and> last_frame g + 1 = sample_frame s")
      case True
      let ?g = "g\<lparr>last_frame := sample_frame s\<rparr>"
      have step: "meter_step s gs = hs @ [?g]" using True busy by (simp add: meter_step_def h)
      have "segment_frames ?g = segment_frames g @ busy_frames [s]"
        using True busy join gs
        by (simp add: segment_frames_def busy_frames_def meter_ok_def h word_le_nat_alt)
      moreover have "meter_ok (hs @ [?g])"
        using gs lt by (auto simp: meter_ok_def h successively_append_iff separate_def word_le_nat_alt)
      ultimately show ?thesis unfolding step by (simp add: h)
    next
      case False
      let ?g = "\<lparr>segment_phase = sample_phase s, first_frame = sample_frame s,
          last_frame = sample_frame s, segment_label = name, segment_icon = icon\<rparr>"
      have step: "meter_step s gs = gs @ [?g]"
        using False busy m by (auto simp: meter_step_def h)
      have "meter_ok (gs @ [?g])"
        using gs False busy join by (auto simp: meter_ok_def h successively_append_iff separate_def)
      moreover have "segment_frames ?g = busy_frames [s]"
        using busy by (simp add: segment_frames_def busy_frames_def)
      ultimately show ?thesis by (simp add: step)
    qed
  qed
qed

lemma fold_meter_ok:
  "meter_ok gs \<Longrightarrow> sorted_wrt (<) (map sample_frame ss) \<Longrightarrow>
   (gs \<noteq> [] \<longrightarrow> (\<forall>s \<in> set ss. last_frame (last gs) < sample_frame s)) \<Longrightarrow>
   meter_ok (fold meter_step ss gs) \<and>
   concat (map segment_frames (fold meter_step ss gs)) = concat (map segment_frames gs) @ busy_frames ss"
proof (induction ss arbitrary: gs)
  case Nil
  then show ?case by (simp add: busy_frames_def)
next
  case (Cons s ss)
  have step: "meter_ok (meter_step s gs) \<and>
      concat (map segment_frames (meter_step s gs)) = concat (map segment_frames gs) @ busy_frames [s] \<and>
      (meter_step s gs \<noteq> [] \<longrightarrow> last_frame (last (meter_step s gs)) \<le> sample_frame s)"
    using Cons.prems by (intro meter_step_ok) auto
  have "busy_frames [s] @ busy_frames ss = busy_frames (s # ss)" by (simp add: busy_frames_def)
  moreover have "meter_step s gs \<noteq> [] \<longrightarrow> (\<forall>x \<in> set ss. last_frame (last (meter_step s gs)) < sample_frame x)"
    using step Cons.prems(2) by auto
  ultimately show ?case
    using Cons.IH [of "meter_step s gs"] step Cons.prems(2) by auto
qed

end
