(* ===== verification/Training_Spec.thy ===== *)
theory Training_Spec
  imports Training
begin

text \<open>
  Properties of training mode, each with a witness.
\<close>

section \<open>The timeline\<close>

definition new_timeline :: "nat \<Rightarrow> 'f TrainingTimeline" where
  "new_timeline n = \<lparr>capacity = n, samples = []\<rparr>"

text \<open>C39.
  A timeline fed any samples, good and bad, holds exactly the latest of the accepted ones, as
  many as its capacity allows, in strictly increasing frame order, with counters in range;
  and the frame advantage of each is computed without overflow.
\<close>

theorem timeline_keeps_latest:
  assumes "0 < n" "\<forall>s \<in> set ss. in_int (attacker_recovery_frames s) \<and> in_int (defender_stun_frames s)"
  shows "samples (record_all ops ss (new_timeline n)) = keep_last n (accepted ops ss (new_timeline n)) \<and>
    timeline_ok ops (record_all ops ss (new_timeline n)) \<and>
    (\<forall>s \<in> set (samples (record_all ops ss (new_timeline n))). in_int (frame_advantage s))"
proof -
  let ?t = "record_all ops ss (new_timeline n)"
  have keeps: "samples ?t = keep_last n (accepted ops ss (new_timeline n))"
    using record_all_keeps [of "new_timeline n" "[]" ops ss] assms(1)
    by (simp add: new_timeline_def keep_last_def)
  have ok: "timeline_ok ops ?t"
    by (rule record_all_ok) (simp add: timeline_ok_def new_timeline_def)
  have "in_int (frame_advantage s)" if "s \<in> set (samples ?t)" for s
  proof -
    have "s \<in> set (accepted ops ss (new_timeline n))"
      using that unfolding keeps keep_last_def by (rule in_set_dropD)
    then have "s \<in> set ss" by (rule set_accepted)
    moreover have "valid_counters s" using that ok by (simp add: timeline_ok_def sample_ok_def list_all_iff)
    ultimately show ?thesis
      using assms(2) by (auto simp: valid_counters_def frame_advantage_def in_int_def)
  qed
  then show ?thesis using keeps ok by blast
qed

text \<open>
  The frame meter is the run-length encoding of the timeline: its segments, written out
  frame by frame, give the phases and frames of the samples that are not neutral, in order
  and without gaps or repetitions, and no two neighbouring segments could be one.
\<close>

theorem frame_meter_runs:
  assumes "timeline_ok ops t"
  shows "concat (map segment_frames (frame_meter t)) = busy_frames (samples t) \<and>
    successively separate (frame_meter t)"
  using fold_meter_ok [of "[]" "samples t"] assms
  by (simp add: frame_meter_def timeline_ok_def meter_ok_def)

definition demo_sample :: "u64 \<Rightarrow> FramePhase \<Rightarrow> int TrainingFrameSample" where
  "demo_sample f p = \<lparr>sample_frame = f, sample_phase = p, hitstop_frames = 0, hitstun_frames = 0,
     blockstun_frames = 0, attacker_recovery_frames = 4, defender_stun_frames = 9,
     cancel_window = False, combo_count = 1, damage = 30, scaling_percent = 90,
     sample_inputs = [[], []], collision_boxes = []\<rparr>"

definition unit_ops :: "int FloatOps" where
  "unit_ops = \<lparr>f_less = (<), f_le = (\<le>), f_neg = uminus, f_abs = abs, f_zero = 0,
     f_hundredth = 1, f_one = 100\<rparr>"

definition demo_samples :: "int TrainingFrameSample list" where
  "demo_samples = [demo_sample 3 phase_active, demo_sample 4 phase_startup, demo_sample 4 phase_active,
     demo_sample 5 phase_startup, demo_sample 6 phase_active]"

lemma demo_recorded:
  "samples (record_all unit_ops demo_samples (new_timeline 3)) =
     [demo_sample 4 phase_startup, demo_sample 5 phase_startup, demo_sample 6 phase_active]"
  by (simp add: demo_samples_def record_sample_def new_timeline_def demo_sample_def valid_counters_def
      keep_last_def)

theorem timeline_keeps_latest_witness:
  "timeline_ok unit_ops (record_all unit_ops demo_samples (new_timeline 3)) \<and>
   in_int (frame_advantage (demo_sample 5 phase_startup))"
proof -
  have "\<forall>s \<in> set demo_samples. in_int (attacker_recovery_frames s) \<and> in_int (defender_stun_frames s)"
    by (simp add: demo_samples_def demo_sample_def in_int_def)
  from timeline_keeps_latest [OF _ this, of 3 unit_ops] show ?thesis
    by (simp add: demo_recorded)
qed

theorem frame_meter_runs_witness:
  "concat (map segment_frames (frame_meter (record_all unit_ops demo_samples (new_timeline 3)))) =
     [(phase_startup, 4), (phase_startup, 5), (phase_active, 6)]"
proof -
  have "timeline_ok unit_ops (record_all unit_ops demo_samples (new_timeline 3))"
    by (rule record_all_ok) (simp add: timeline_ok_def new_timeline_def)
  from frame_meter_runs [OF this] show ?thesis
    by (simp add: demo_recorded busy_frames_def demo_sample_def)
qed

section \<open>State slots\<close>

text \<open>C40.
  Saving a snapshot and loading the slot gives the snapshot back and leaves the other slots
  alone; a snapshot whose frame or state no longer belongs to its digest is refused, and what
  loads from any slot always belongs to its digest.
\<close>

theorem slot_save_load:
  assumes "make_training_snapshot frame st = Inr x" "slot < slot_count" "length slots = slot_count"
  shows "fst (save_slot slot x slots) = Inr () \<and> load_slot slot (snd (save_slot slot x slots)) = Inr x \<and>
    (\<forall>k. k \<noteq> slot \<longrightarrow> load_slot k (snd (save_slot slot x slots)) = load_slot k slots) \<and>
    (\<forall>frame' st'. snapshot_digest frame' st' \<noteq> snapshot_digest frame st \<longrightarrow>
      save_slot slot (x\<lparr>snapshot_frame := frame', snapshot_state := st'\<rparr>) slots =
        (failure invalid_argument ''training snapshot integrity check failed'', slots)) \<and>
    (\<forall>k y. load_slot k slots = Inr y \<longrightarrow> digest_hex y = snapshot_digest (snapshot_frame y) (snapshot_state y))"
proof -
  have x: "x = \<lparr>snapshot_frame = frame, snapshot_state = st, digest_hex = snapshot_digest frame st\<rparr>"
    using assms(1) by (simp add: make_training_snapshot_def)
  have d: "snapshot_digest f s \<noteq> []" for f s
  proof -
    have "length (snapshot_digest f s) = 64" by (simp add: snapshot_digest_def)
    then show ?thesis by auto
  qed
  have ok: "validate_training_snapshot x = Inr ()" using d by (simp add: validate_training_snapshot_def x)
  then have save: "save_slot slot x slots = (Inr (), slots[slot := \<lparr>occupied = True, slot_snapshot = x\<rparr>])"
    using assms(2) by (simp add: save_slot_def)
  have load: "load_slot slot (snd (save_slot slot x slots)) = Inr x"
    using assms(2,3) ok by (simp add: save load_slot_def)
  have tampered: "save_slot slot (x\<lparr>snapshot_frame := f, snapshot_state := s\<rparr>) slots =
      (failure invalid_argument ''training snapshot integrity check failed'', slots)"
    if "snapshot_digest f s \<noteq> snapshot_digest frame st" for f s
    using that d [of frame st] assms(2)
    by (simp add: save_slot_def validate_training_snapshot_def x)
  have "digest_hex y = snapshot_digest (snapshot_frame y) (snapshot_state y)"
    if "load_slot k slots = Inr y" for k y
    using that
    by (auto simp: load_slot_def validate_training_snapshot_def split: if_splits)
  moreover have "load_slot k (snd (save_slot slot x slots)) = load_slot k slots" if "k \<noteq> slot" for k
  proof -
    have same: "slots[slot := \<lparr>occupied = True, slot_snapshot = x\<rparr>] ! k = slots ! k"
      using that by (intro nth_list_update_neq) simp
    show ?thesis unfolding save load_slot_def snd_conv same by (rule refl)
  qed
  moreover have "fst (save_slot slot x slots) = Inr ()" by (simp add: save)
  ultimately show ?thesis using load tampered by blast
qed

theorem slot_save_load_witness:
  "load_slot 9 (snd (save_slot 9 \<lparr>snapshot_frame = 7, snapshot_state = [1, 2],
     digest_hex = snapshot_digest 7 [1, 2]\<rparr> new_slots)) =
   Inr \<lparr>snapshot_frame = 7, snapshot_state = [1, 2], digest_hex = snapshot_digest 7 [1, 2]\<rparr>"
proof -
  have m: "make_training_snapshot 7 [1, 2] = Inr \<lparr>snapshot_frame = 7, snapshot_state = [1, 2],
      digest_hex = snapshot_digest 7 [1, 2]\<rparr>"
    by (simp add: make_training_snapshot_def)
  show ?thesis
    using slot_save_load [OF m, of 9 new_slots] by (simp add: slot_count_def new_slots_def)
qed

end
