(* ===== verification/Outcome.thy ===== *)
theory Outcome
  imports Prelude
begin

text \<open>
  Steps that may fail: the early return of a component that passes on the error of a step.
\<close>

definition on_success :: "'a result \<Rightarrow> ('a \<Rightarrow> 'b result) \<Rightarrow> 'b result" where
  "on_success r f = (case r of Inl (e, d) \<Rightarrow> failure e d | Inr a \<Rightarrow> f a)"

lemma on_success_simps [simp]:
  "on_success (Inr a) f = f a" "on_success (Inl (e, d)) f = failure e d"
  by (simp_all add: on_success_def)

lemma on_success_iff: "on_success r f = Inr b \<longleftrightarrow> (\<exists>a. r = Inr a \<and> f a = Inr b)"
  by (auto simp: on_success_def split: sum.splits)

end
