(* ===== verification/Mod_Manifest.thy ===== *)
theory Mod_Manifest
  imports Mod_Resolver Ascii_Text Outcome
begin

text \<open>
  Reading mods: \<open>parse_mod_manifest\<close> and \<open>discover_mods\<close> of
  \<^verbatim>\<open>src/src/core/mod_runtime.cpp\<close>.  What \<open>std::filesystem\<close> says of a path on the
  platform is the record \<open>ModPaths\<close>; what it reports while the directory is scanned is a
  list of \<open>ModDirectory\<close>.
\<close>

record ModPaths =
  rooted_path :: "string \<Rightarrow> bool"
  path_parts :: "string \<Rightarrow> string list"
  normal_path :: "string \<Rightarrow> string"

section \<open>Words of a manifest\<close>

definition lower_or_digit :: "char \<Rightarrow> bool" where
  "lower_or_digit c \<longleftrightarrow> (let n = of_char c :: nat in 97 \<le> n \<and> n \<le> 122 \<or> 48 \<le> n \<and> n \<le> 57)"

definition valid_mod_id :: "string \<Rightarrow> bool" where
  "valid_mod_id i \<longleftrightarrow> i \<noteq> [] \<and> lower_or_digit (hd i) \<and>
     list_all (\<lambda>c. lower_or_digit c \<or> c = CHR ''.'' \<or> c = CHR ''_'' \<or> c = CHR ''-'') i"

definition safe_relative_path :: "ModPaths \<Rightarrow> string \<Rightarrow> bool" where
  "safe_relative_path ps path =
     (if path = [] \<or> rooted_path ps path then False
      else if ''..'' \<in> set (path_parts ps path) then False
      else
        let normalized = normal_path ps path in
        if normalized = [] \<or> normalized = ''.'' then False
        else ''..'' \<notin> set (path_parts ps normalized))"

definition parse_mod_bool :: "string \<Rightarrow> bool result" where
  "parse_mod_bool v =
     (if v = ''1'' \<or> v = ''true'' then success True
      else if v = ''0'' \<or> v = ''false'' then success False
      else failure invalid_argument ''invalid mod manifest boolean'')"

definition parse_mod_kind :: "string \<Rightarrow> ModKind result" where
  "parse_mod_kind v =
     (if v = ''data'' then success data_mod
      else if v = ''native'' then success native_mod
      else failure invalid_argument (''invalid mod kind: '' @ v))"

definition split_csv :: "string \<Rightarrow> string list" where
  "split_csv v = filter (\<lambda>item. item \<noteq> []) (map trim_ascii (split_on (CHR '','') v))"

definition parse_dependency :: "string \<Rightarrow> ModDependency result" where
  "parse_dependency v =
     (let at = (CHR ''@'' \<in> set v); i = trim_ascii (takeWhile (\<lambda>c. c \<noteq> CHR ''@'') v) in
      if \<not> valid_mod_id i then failure invalid_argument (''invalid dependency mod id: '' @ i)
      else
        let requirement = (if at then trim_ascii (tl (dropWhile (\<lambda>c. c \<noteq> CHR ''@'') v)) else []) in
        if at \<and> requirement = []
        then failure invalid_argument ''dependency version requirement cannot be empty''
        else on_success (parse_version_requirement requirement) (\<lambda>r.
          success \<lparr>dep_id = i, dep_requirement = r\<rparr>))"

definition api_compatible :: "SemanticVersion \<Rightarrow> bool" where
  "api_compatible v \<longleftrightarrow> major v = major kModApiVersion \<and> compare_semver v kModApiVersion \<le> 0"

section \<open>The fields\<close>

definition allowed_keys :: "string list" where
  "allowed_keys = [''id'', ''name'', ''version'', ''api_version'', ''kind'', ''gameplay'', ''entry'',
     ''depends'', ''conflicts'']"

type_synonym manifest_fields = "string \<Rightarrow> string option"

definition manifest_line :: "string \<Rightarrow> nat \<Rightarrow> string \<Rightarrow> manifest_fields \<Rightarrow> manifest_fields result" where
  "manifest_line root number raw kv =
     (let line = trim_ascii raw in
      if line = [] \<or> hd line = CHR ''#'' \<or> hd line = CHR '';'' then success kv
      else if CHR ''='' \<notin> set line
      then failure invalid_argument
        (''invalid mod manifest line '' @ decimal number @ '' in '' @ root)
      else
        let key = trim_ascii (takeWhile (\<lambda>c. c \<noteq> CHR ''='') line);
            v = trim_ascii (tl (dropWhile (\<lambda>c. c \<noteq> CHR ''='') line))
        in if key \<notin> set allowed_keys
           then failure invalid_argument (''unknown mod manifest key: '' @ key)
           else if kv key \<noteq> None
           then failure invalid_argument (''duplicate mod manifest key: '' @ key)
           else success (kv(key \<mapsto> v)))"

fun manifest_lines :: "string \<Rightarrow> nat \<Rightarrow> string list \<Rightarrow> manifest_fields \<Rightarrow> manifest_fields result" where
  "manifest_lines root number [] kv = success kv"
| "manifest_lines root number (l # ls) kv =
     on_success (manifest_line root (number + 1) l kv) (manifest_lines root (number + 1) ls)"

definition required_field :: "manifest_fields \<Rightarrow> string \<Rightarrow> string result" where
  "required_field kv key =
     (if kv key = None \<or> kv key = Some []
      then failure invalid_argument (''missing required mod manifest key: '' @ key)
      else success (the (kv key)))"

section \<open>The manifest\<close>

definition manifest_entry :: "ModPaths \<Rightarrow> string \<Rightarrow> ModKind \<Rightarrow> string option \<Rightarrow> string result" where
  "manifest_entry ps i kind entry =
     (case kind of
        native_mod \<Rightarrow>
          if entry = None \<or> entry = Some []
          then failure invalid_argument (''native mod requires entry: '' @ i)
          else if \<not> safe_relative_path ps (the entry)
          then failure invalid_argument (''unsafe native mod entry path: '' @ the entry)
          else success (normal_path ps (the entry))
      | data_mod \<Rightarrow>
          if entry \<noteq> None
          then failure invalid_argument (''data mod must not declare entry: '' @ i)
          else success [])"

fun parse_dependencies :: "string list \<Rightarrow> ModDependency list result" where
  "parse_dependencies [] = success []"
| "parse_dependencies (item # items) =
     on_success (parse_dependency item) (\<lambda>d.
       on_success (parse_dependencies items) (\<lambda>ds. success (d # ds)))"

fun check_conflicts :: "string list \<Rightarrow> string list result" where
  "check_conflicts [] = success []"
| "check_conflicts (c # cs) =
     (if \<not> valid_mod_id c then failure invalid_argument (''invalid conflict mod id: '' @ c)
      else on_success (check_conflicts cs) (\<lambda>rest. success (c # rest)))"

definition csv_field :: "manifest_fields \<Rightarrow> string \<Rightarrow> string list" where
  "csv_field kv key = (case kv key of None \<Rightarrow> [] | Some v \<Rightarrow> split_csv v)"

definition build_manifest :: "ModPaths \<Rightarrow> manifest_fields \<Rightarrow> ModManifest result" where
  "build_manifest ps kv =
     on_success (required_field kv ''id'') (\<lambda>i.
     on_success (required_field kv ''name'') (\<lambda>name.
     on_success (required_field kv ''version'') (\<lambda>version_text.
     on_success (required_field kv ''api_version'') (\<lambda>api_text.
     on_success (required_field kv ''kind'') (\<lambda>kind_text.
     on_success (required_field kv ''gameplay'') (\<lambda>gameplay_text.
     if \<not> valid_mod_id i then failure invalid_argument (''invalid mod id: '' @ i)
     else
     on_success (parse_semver version_text) (\<lambda>version.
     on_success (parse_semver api_text) (\<lambda>api.
     on_success (parse_mod_kind kind_text) (\<lambda>kind.
     on_success (parse_mod_bool gameplay_text) (\<lambda>is_gameplay.
     if \<not> api_compatible api
     then failure invalid_argument (''mod '' @ i @ '' requires incompatible API '' @ to_string api)
     else
     on_success (manifest_entry ps i kind (kv ''entry'')) (\<lambda>entry.
     on_success (parse_dependencies (csv_field kv ''depends'')) (\<lambda>deps.
     on_success (check_conflicts (csv_field kv ''conflicts'')) (\<lambda>cs.
     success \<lparr>mod_id = i, mod_name = name, mod_version = version, api_version = api,
       mod_kind = kind, gameplay = is_gameplay, mod_entry = entry, dependencies = deps,
       conflicts = cs\<rparr>)))))))))))))"

definition parse_mod_manifest :: "ModPaths \<Rightarrow> string \<Rightarrow> string \<Rightarrow> ModManifest result" where
  "parse_mod_manifest ps text root =
     on_success (manifest_lines root 0 (read_lines [] text) Map.empty) (build_manifest ps)"

section \<open>Discovery\<close>

datatype FileStatus = fs_missing | fs_symlink | fs_directory | fs_regular | fs_other

text \<open>
  What the scan sees of one entry: its path, its status (\<open>Inl\<close> an error message), the path
  of its manifest, the status of that (an error that means absence is \<open>fs_missing\<close>), its text
  (\<open>Inl\<close> when it cannot be opened or read), and the error of the step to the next entry.
\<close>

record ModDirectory =
  dir_path :: string
  dir_status :: "string + FileStatus"
  manifest_path :: string
  manifest_status :: "string + FileStatus"
  manifest_text :: "string result"
  dir_next :: "string option"

definition visit_mod :: "ModPaths \<Rightarrow> ModDirectory \<Rightarrow> DiscoveredMod list result" where
  "visit_mod ps d =
     (case dir_status d of
        Inl m \<Rightarrow> failure io_error (''failed to inspect mod directory: '' @ m)
      | Inr s \<Rightarrow>
          if s = fs_symlink
          then failure invalid_argument (''symlinked mod directory is not allowed: '' @ dir_path d)
          else if s \<noteq> fs_directory then success []
          else case manifest_status d of
            Inl m \<Rightarrow> failure io_error (''failed to inspect mod manifest: '' @ m)
          | Inr t \<Rightarrow>
              if t = fs_missing then success []
              else if t = fs_symlink
              then failure invalid_argument (''symlinked mod manifest is not allowed: '' @ manifest_path d)
              else if t \<noteq> fs_regular
              then failure invalid_argument (''mod manifest is not a regular file: '' @ manifest_path d)
              else on_success (manifest_text d) (\<lambda>t.
                on_success (parse_mod_manifest ps t (dir_path d)) (\<lambda>m.
                  success [\<lparr>manifest = m, mod_root = dir_path d\<rparr>])))"

fun scan_mods :: "ModPaths \<Rightarrow> ModDirectory list \<Rightarrow> DiscoveredMod list result" where
  "scan_mods ps [] = success []"
| "scan_mods ps (d # ds) =
     on_success (visit_mod ps d) (\<lambda>new.
       case dir_next d of
         Some m \<Rightarrow> failure io_error (''failed while scanning mods root: '' @ m)
       | None \<Rightarrow> on_success (scan_mods ps ds) (\<lambda>rest. success (new @ rest)))"

text \<open>\<open>std::sort\<close> by id and then root: no two directories have the same path.\<close>

definition sort_catalog :: "DiscoveredMod list \<Rightarrow> DiscoveredMod list" where
  "sort_catalog ms = sort_key (\<lambda>d. mod_id (manifest d)) (sort_key mod_root ms)"

fun check_duplicates :: "DiscoveredMod list \<Rightarrow> DiscoveredMod list result" where
  "check_duplicates (a # b # ms) =
     (if mod_id (manifest a) = mod_id (manifest b)
      then failure invalid_argument (''duplicate mod id '' @ mod_id (manifest b) @ '' in '' @
        mod_root a @ '' and '' @ mod_root b)
      else on_success (check_duplicates (b # ms)) (\<lambda>rest. success (a # rest)))"
| "check_duplicates ms = success ms"

text \<open>
  The root: the answer to whether it exists (\<open>Inl\<close> an error message), whether it is a
  directory, the error of opening the scan, and its entries.
\<close>

definition discover_mods ::
  "ModPaths \<Rightarrow> string \<Rightarrow> string + bool \<Rightarrow> bool \<Rightarrow> string option \<Rightarrow> ModDirectory list
     \<Rightarrow> DiscoveredMod list result" where
  "discover_mods ps root exists is_dir opened entries =
     (case exists of
        Inl m \<Rightarrow> failure io_error (''failed to inspect mods root: '' @ m)
      | Inr False \<Rightarrow> success []
      | Inr True \<Rightarrow>
          if \<not> is_dir then failure invalid_argument (''mods root is not a directory: '' @ root)
          else case opened of
            Some m \<Rightarrow> failure io_error (''failed while scanning mods root: '' @ m)
          | None \<Rightarrow> on_success (scan_mods ps entries) (\<lambda>ms. check_duplicates (sort_catalog ms)))"

end
