(* ===== verification/Mod_Content.thy ===== *)
theory Mod_Content
  imports Mod_Manifest Sha256
begin

text \<open>
  The files of mods: \<open>build_mod_overlay\<close>, \<open>compute_mod_content_hash\<close> and
  \<open>compute_mod_set_hashes\<close> of \<^verbatim>\<open>src/src/core/mod_content.cpp\<close>.  The directory tree below a
  path and the answers of a file stream are the record \<open>ModFiles\<close>.
\<close>

section \<open>The file system as the code sees it\<close>

text \<open>
  An entry of the recursive scan: its path, its status (\<open>Inl\<close> an error message), its path
  relative to the root in generic form, and the error of the step to the next entry.
\<close>

record TreeEntry =
  te_path :: string
  te_status :: "string + FileStatus"
  te_logical :: string
  te_next :: "string option"

record ModTree =
  tree_status :: "string + FileStatus"
  tree_error :: "string option"
  tree_entries :: "TreeEntry list"

text \<open>
  A file: its size (\<open>Inl\<close> an error message), whether it opens, the buffers that \<open>read\<close> fills,
  and whether the stream ends at the end of the file.
\<close>

record FilePayload =
  payload_size :: "string + u64"
  payload_opens :: bool
  payload_chunks :: "u8 list list"
  payload_eof :: bool

record ModFiles =
  mod_tree :: "string \<Rightarrow> ModTree"
  mod_file :: "string \<Rightarrow> FilePayload"
  data_path :: "string \<Rightarrow> string"

section \<open>Collecting the files\<close>

record ContentFile =
  relative_path :: string
  host_path :: string

definition collect_entry :: "TreeEntry \<Rightarrow> ContentFile list result" where
  "collect_entry e =
     (case te_status e of
        Inl m \<Rightarrow> failure io_error (''failed to inspect mod content: '' @ te_path e @ '': '' @ m)
      | Inr s \<Rightarrow>
          if s = fs_symlink
          then failure invalid_argument (''symlinked mod content is not allowed: '' @ te_path e)
          else if s = fs_regular then
            if te_logical e = [] \<or> te_logical e = ''.''
            then failure invalid_argument (''failed to derive mod content path: '' @ te_path e)
            else if take 3 (te_logical e) = ''../'' \<or> te_logical e = ''..''
            then failure invalid_argument (''mod content escaped its root: '' @ te_path e)
            else success [\<lparr>relative_path = te_logical e, host_path = te_path e\<rparr>]
          else if s \<noteq> fs_directory
          then failure invalid_argument (''unsupported mod filesystem object: '' @ te_path e)
          else success [])"

fun collect_entries :: "TreeEntry list \<Rightarrow> ContentFile list result" where
  "collect_entries [] = success []"
| "collect_entries (e # es) =
     on_success (collect_entry e) (\<lambda>new.
       case te_next e of
         Some m \<Rightarrow> failure io_error (''failed while enumerating mod content: '' @ m)
       | None \<Rightarrow> on_success (collect_entries es) (\<lambda>rest. success (new @ rest)))"

definition collect_regular_files :: "string \<Rightarrow> ModTree \<Rightarrow> ContentFile list result" where
  "collect_regular_files root t =
     (case tree_status t of
        Inl m \<Rightarrow> failure io_error (''failed to inspect mod path: '' @ root @ '': '' @ m)
      | Inr s \<Rightarrow>
          if s = fs_symlink
          then failure invalid_argument (''symlinked mod path is not allowed: '' @ root)
          else if s = fs_missing then success []
          else if s \<noteq> fs_directory
          then failure invalid_argument (''mod path is not a directory: '' @ root)
          else case tree_error t of
            Some m \<Rightarrow> failure io_error (''failed to enumerate mod path: '' @ root @ '': '' @ m)
          | None \<Rightarrow> on_success (collect_entries (tree_entries t)) (\<lambda>files.
              success (sort_key relative_path files)))"

section \<open>Hashing\<close>

type_synonym hash_step = "Sha256Hasher \<Rightarrow> unit result \<times> Sha256Hasher"

definition hash_then :: "hash_step \<Rightarrow> hash_step \<Rightarrow> hash_step" where
  "hash_then f g h = (case f h of (Inl e, h1) \<Rightarrow> (Inl e, h1) | (Inr _, h1) \<Rightarrow> g h1)"

definition feed :: "u8 list \<Rightarrow> hash_step" where
  "feed bs h = hasher_update h bs"

definition feed_u64 :: "u64 \<Rightarrow> hash_step" where
  "feed_u64 v = feed (length_bytes v)"

definition string_bytes :: "string \<Rightarrow> u8 list" where
  "string_bytes s = map of_char s"

definition feed_string :: "string \<Rightarrow> hash_step" where
  "feed_string s = hash_then (feed_u64 (of_nat (length s))) (feed (string_bytes s))"

fun hash_chunks :: "u8 list list \<Rightarrow> hash_step" where
  "hash_chunks [] h = (success (), h)"
| "hash_chunks (c # cs) h =
     (if 0 < length c then hash_then (feed c) (hash_chunks cs) h else hash_chunks cs h)"

definition hash_fail :: "ErrorCode \<Rightarrow> string \<Rightarrow> hash_step" where
  "hash_fail e d h = (failure e d, h)"

definition hash_file_payload :: "string \<Rightarrow> FilePayload \<Rightarrow> hash_step" where
  "hash_file_payload path f =
     (case payload_size f of
        Inl m \<Rightarrow> hash_fail io_error (''failed to read mod file size: '' @ path @ '': '' @ m)
      | Inr n \<Rightarrow> hash_then (feed_u64 n)
          (if \<not> payload_opens f
           then hash_fail file_not_found (''failed to open mod content: '' @ path)
           else hash_then (hash_chunks (payload_chunks f))
             (if \<not> payload_eof f
              then hash_fail io_error (''failed while reading mod content: '' @ path)
              else (\<lambda>h. (success (), h)))))"

definition hash_mod_tuple :: "DiscoveredMod \<Rightarrow> string \<Rightarrow> hash_step" where
  "hash_mod_tuple d content_hash =
     hash_then (feed_string (mod_id (manifest d)))
       (hash_then (feed_string (to_string (mod_version (manifest d)))) (feed_string content_hash))"

definition finish_hex :: "Sha256Hasher \<Rightarrow> string result" where
  "finish_hex h = (case fst (hasher_finalize h) of
     Inl (e, d) \<Rightarrow> failure e d | Inr digest \<Rightarrow> success (sha256_hex digest))"

fun hash_files :: "ModFiles \<Rightarrow> ContentFile list \<Rightarrow> hash_step" where
  "hash_files fs [] h = (success (), h)"
| "hash_files fs (f # rest) h =
     hash_then (hash_then (feed_string (relative_path f))
         (hash_file_payload (host_path f) (mod_file fs (host_path f))))
       (hash_files fs rest) h"

definition compute_mod_content_hash :: "ModFiles \<Rightarrow> DiscoveredMod \<Rightarrow> string result" where
  "compute_mod_content_hash fs d =
     on_success (collect_regular_files (mod_root d) (mod_tree fs (mod_root d))) (\<lambda>files.
       case hash_files fs files new_hasher of
         (Inl (e, m), _) \<Rightarrow> failure e m
       | (Inr _, h) \<Rightarrow> finish_hex h)"

text \<open>The loop over the load order, with the full and the gameplay hasher.\<close>

fun hash_mods :: "ModFiles \<Rightarrow> DiscoveredMod option list \<Rightarrow> Sha256Hasher \<times> Sha256Hasher
    \<Rightarrow> (Sha256Hasher \<times> Sha256Hasher) result" where
  "hash_mods fs [] hs = success hs"
| "hash_mods fs (None # ms) hs =
     failure invalid_argument ''resolved mod set contains a null mod''"
| "hash_mods fs (Some d # ms) (full, play) =
     on_success (compute_mod_content_hash fs d) (\<lambda>content.
       case hash_mod_tuple d content full of
         (Inl (e, m), _) \<Rightarrow> failure e m
       | (Inr _, full1) \<Rightarrow>
           if gameplay (manifest d)
           then case hash_mod_tuple d content play of
                  (Inl (e, m), _) \<Rightarrow> failure e m
                | (Inr _, play1) \<Rightarrow> hash_mods fs ms (full1, play1)
           else hash_mods fs ms (full1, play))"

definition compute_mod_set_hashes :: "ModFiles \<Rightarrow> ResolvedModSet \<Rightarrow> ModSetHashes result" where
  "compute_mod_set_hashes fs mods =
     on_success (hash_mods fs (load_order mods) (new_hasher, new_hasher)) (\<lambda>(full, play).
       on_success (finish_hex full) (\<lambda>full_hash.
         on_success (finish_hex play) (\<lambda>play_hash.
           success \<lparr>mod_set_hash = full_hash, gameplay_hash = play_hash\<rparr>)))"

section \<open>The overlay\<close>

record OverlayEntry =
  overlay_mod :: string
  overlay_host :: string

record OverlayCollision =
  logical_path :: string
  previous_mod_id :: string
  replacing_mod_id :: string

record ModOverlay =
  overlay_files :: "(string, OverlayEntry) om"
  collisions :: "OverlayCollision list"

definition overlay_file :: "string \<Rightarrow> ContentFile \<Rightarrow> ModOverlay \<Rightarrow> ModOverlay" where
  "overlay_file i f o1 =
     (let o2 = (case map_of (overlay_files o1) (relative_path f) of
          None \<Rightarrow> o1
        | Some previous \<Rightarrow> o1\<lparr>collisions := collisions o1 @ [\<lparr>logical_path = relative_path f,
            previous_mod_id = overlay_mod previous, replacing_mod_id = i\<rparr>]\<rparr>)
      in o2\<lparr>overlay_files :=
        om_put (relative_path f) \<lparr>overlay_mod = i, overlay_host = host_path f\<rparr> (overlay_files o2)\<rparr>)"

fun overlay_mods :: "ModFiles \<Rightarrow> DiscoveredMod option list \<Rightarrow> ModOverlay \<Rightarrow> ModOverlay result" where
  "overlay_mods fs [] o1 = success o1"
| "overlay_mods fs (None # ms) o1 =
     failure invalid_argument ''resolved mod set contains a null mod''"
| "overlay_mods fs (Some d # ms) o1 =
     (if mod_kind (manifest d) \<noteq> data_mod then overlay_mods fs ms o1
      else
        let data_root = data_path fs (mod_root d) in
        on_success (collect_regular_files data_root (mod_tree fs data_root)) (\<lambda>files.
          overlay_mods fs ms (fold (overlay_file (mod_id (manifest d))) files o1)))"

definition build_mod_overlay :: "ModFiles \<Rightarrow> ResolvedModSet \<Rightarrow> ModOverlay result" where
  "build_mod_overlay fs mods =
     overlay_mods fs (load_order mods) \<lparr>overlay_files = [], collisions = []\<rparr>"

end
