(* ===== verification/Mod_Content_Props.thy ===== *)
theory Mod_Content_Props
  imports Mod_Content
begin

text \<open>
  The lemmas behind the hashes and the overlay of the mods: what bytes a sequence of hash
  steps has fed to the hasher, the messages of a mod and of a mod set, that a message tells
  what it was made from, and the overlay as the history of the files provided.
\<close>

section \<open>What hash steps feed\<close>

text \<open>The hasher holds the bytes and can go on.\<close>

definition carries :: "Sha256Hasher \<Rightarrow> u8 list \<Rightarrow> bool" where
  "carries h bs \<longleftrightarrow> holds h bs \<and> \<not> sha_finalized h \<and> total_bytes h = of_nat (length bs)"

lemma carries_new: "carries new_hasher []"
  by (simp add: carries_def holds_new) (simp add: new_hasher_def)

text \<open>A successful step feeds the bytes.\<close>

definition feeds :: "hash_step \<Rightarrow> u8 list \<Rightarrow> bool" where
  "feeds f xs \<longleftrightarrow> (\<forall>h bs u h'. carries h bs \<longrightarrow> f h = (Inr u, h') \<longrightarrow> carries h' (bs @ xs))"

named_theorems feed_intros "what hash steps feed"

lemma feeds_feed [feed_intros]: "feeds (feed xs) xs"
proof -
  have "carries h' (bs @ xs)" if "carries h bs" "feed xs h = (Inr u, h')" for h bs u h'
  proof -
    have "h' = snd (hasher_update h xs)" using that(2) by (simp add: feed_def)
    then show ?thesis
      using hasher_update_holds [of h bs xs] that(1) by (simp add: carries_def)
  qed
  then show ?thesis by (auto simp: feeds_def)
qed

lemma feeds_then [feed_intros]: "feeds f xs \<Longrightarrow> feeds g ys \<Longrightarrow> feeds (hash_then f g) (xs @ ys)"
  unfolding feeds_def hash_then_def append_assoc [symmetric]
  by (auto split: prod.splits sum.splits simp del: append_assoc) blast

lemma feeds_skip [feed_intros]: "feeds (\<lambda>h. (success (), h)) []"
  by (simp add: feeds_def)

lemma feeds_fail [feed_intros]: "feeds (hash_fail e d) xs"
  by (simp add: feeds_def hash_fail_def)

section \<open>Messages\<close>

text \<open>A length before every string and file.\<close>

definition block :: "u8 list \<Rightarrow> u8 list" where
  "block bs = length_bytes (of_nat (length bs)) @ bs"

lemma feeds_string [feed_intros]: "feeds (feed_string s) (block (string_bytes s))"
proof -
  have "feeds (feed_string s) (length_bytes (of_nat (length s)) @ string_bytes s)"
    unfolding feed_string_def feed_u64_def by (intro feed_intros)
  then show ?thesis by (simp add: block_def string_bytes_def)
qed

lemma feeds_chunks [feed_intros]: "feeds (hash_chunks cs) (concat cs)"
proof (induction cs)
  case Nil
  then show ?case by (simp add: feeds_def)
next
  case (Cons c cs)
  have "feeds (hash_then (feed c) (hash_chunks cs)) (c @ concat cs)"
    by (intro feed_intros Cons)
  then show ?case using Cons by (auto simp: feeds_def)
qed

definition file_bytes :: "FilePayload \<Rightarrow> u8 list" where
  "file_bytes f = concat (payload_chunks f)"

text \<open>The size that was asked is the size that was read.\<close>

definition steady_file :: "FilePayload \<Rightarrow> bool" where
  "steady_file f \<longleftrightarrow> payload_size f = Inr (of_nat (length (file_bytes f)))"

lemma feeds_file [feed_intros]:
  assumes "steady_file f"
  shows "feeds (hash_file_payload path f) (block (file_bytes f))"
proof -
  let ?read = "hash_then (hash_chunks (payload_chunks f))
             (if \<not> payload_eof f
              then hash_fail io_error (''failed while reading mod content: '' @ path)
              else (\<lambda>h. (success (), h)))"
  have "feeds ?read (concat (payload_chunks f) @ [])"
    by (cases "payload_eof f") (simp_all only: not_True_eq_False not_False_eq_True if_True if_False,
        intro feed_intros, intro feed_intros)
  then have "feeds (if \<not> payload_opens f
           then hash_fail file_not_found (''failed to open mod content: '' @ path) else ?read)
      (file_bytes f)"
    by (simp add: file_bytes_def feeds_fail)
  from feeds_then [OF feeds_feed this] show ?thesis
    using assms by (simp add: hash_file_payload_def steady_file_def feed_u64_def block_def)
qed

type_synonym file_list = "(string \<times> u8 list) list"

definition files_message :: "file_list \<Rightarrow> u8 list" where
  "files_message fs = concat (map (\<lambda>(p, bs). block (string_bytes p) @ block bs) fs)"

definition file_contents :: "ModFiles \<Rightarrow> ContentFile list \<Rightarrow> file_list" where
  "file_contents fs files =
     map (\<lambda>f. (relative_path f, file_bytes (mod_file fs (host_path f)))) files"

lemma feeds_files [feed_intros]:
  assumes "\<And>f. f \<in> set files \<Longrightarrow> steady_file (mod_file fs (host_path f))"
  shows "feeds (hash_files fs files) (files_message (file_contents fs files))"
  using assms
proof (induction files)
  case Nil
  then show ?case by (simp add: feeds_def files_message_def file_contents_def)
next
  case (Cons f files)
  have "feeds (hash_files fs files) (files_message (file_contents fs files))"
    using Cons by simp
  moreover have "steady_file (mod_file fs (host_path f))" using Cons.prems by simp
  ultimately have "feeds (hash_then (hash_then (feed_string (relative_path f))
         (hash_file_payload (host_path f) (mod_file fs (host_path f)))) (hash_files fs files))
      ((block (string_bytes (relative_path f)) @ block (file_bytes (mod_file fs (host_path f))))
         @ files_message (file_contents fs files))"
    by (intro feed_intros)
  then show ?case by (simp add: feeds_def files_message_def file_contents_def)
qed

lemma finish_carries: "carries h bs \<Longrightarrow> finish_hex h = success (sha256_hex (sha256 bs))"
  unfolding carries_def finish_hex_def by (simp add: finalize_holds [of h bs] sha256_eq)

text \<open>The files of a mod.\<close>

definition mod_listing :: "ModFiles \<Rightarrow> DiscoveredMod \<Rightarrow> ContentFile list" where
  "mod_listing fs d = (case collect_regular_files (mod_root d) (mod_tree fs (mod_root d)) of
     Inl _ \<Rightarrow> [] | Inr files \<Rightarrow> files)"

definition mod_content :: "ModFiles \<Rightarrow> DiscoveredMod \<Rightarrow> file_list" where
  "mod_content fs d = file_contents fs (mod_listing fs d)"

definition steady_mod :: "ModFiles \<Rightarrow> DiscoveredMod \<Rightarrow> bool" where
  "steady_mod fs d \<longleftrightarrow> (\<forall>f\<in>set (mod_listing fs d). steady_file (mod_file fs (host_path f)))"

definition content_digest :: "ModFiles \<Rightarrow> DiscoveredMod \<Rightarrow> Sha256Digest" where
  "content_digest fs d = sha256 (files_message (mod_content fs d))"

lemma content_hash:
  assumes "compute_mod_content_hash fs d = Inr h" "steady_mod fs d"
  shows "h = sha256_hex (content_digest fs d)"
proof -
  from assms(1) obtain files where files:
      "collect_regular_files (mod_root d) (mod_tree fs (mod_root d)) = Inr files"
    and h: "(case hash_files fs files new_hasher of
         (Inl (e, m), _) \<Rightarrow> failure e m | (Inr _, h) \<Rightarrow> finish_hex h) = Inr h"
    by (auto simp: compute_mod_content_hash_def on_success_iff)
  then obtain u h' where run: "hash_files fs files new_hasher = (Inr u, h')"
      and fin: "finish_hex h' = Inr h"
    by (auto split: prod.splits sum.splits)
  have "mod_listing fs d = files" by (simp add: mod_listing_def files)
  then have "feeds (hash_files fs files) (files_message (mod_content fs d))"
    using assms(2) by (auto simp: steady_mod_def mod_content_def intro!: feeds_files)
  then have "carries h' ([] @ files_message (mod_content fs d))"
    using carries_new run unfolding feeds_def by blast
  then show ?thesis using fin by (simp add: finish_carries content_digest_def)
qed

section \<open>A message tells what it was made from\<close>

lemma length_bytes_bit:
  assumes "i < 8"
  shows "length_bytes w ! (7 - i) = ucast (drop_bit (8 * i) w)"
proof -
  have "[0..<8] ! (7 - i) = 7 - i" by (subst nth_upt) simp_all
  moreover have "7 - (7 - i) = i" using assms by simp
  ultimately show ?thesis by (simp add: length_bytes_def)
qed

lemma length_bytes_inj: "length_bytes v = length_bytes w \<longleftrightarrow> v = w"
proof
  assume eq: "length_bytes v = length_bytes w"
  have "bit v n = bit w n" if n: "n < 64" for n
  proof -
    have "(ucast (drop_bit (8 * (n div 8)) v) :: u8) = ucast (drop_bit (8 * (n div 8)) w)"
      using n eq length_bytes_bit [of "n div 8" v] length_bytes_bit [of "n div 8" w] by simp
    then have "bit (ucast (drop_bit (8 * (n div 8)) v) :: u8) (n mod 8) =
        bit (ucast (drop_bit (8 * (n div 8)) w) :: u8) (n mod 8)" by (rule arg_cong)
    moreover have "8 * (n div 8) + n mod 8 = n" by simp
    ultimately show ?thesis by (simp add: bit_simps)
  qed
  then show "v = w" by (intro bit_word_eqI) simp
qed simp

definition fits :: "'a list \<Rightarrow> bool" where
  "fits xs \<longleftrightarrow> length xs < 2 ^ 64"

lemma length_word_inj:
  "fits xs \<Longrightarrow> fits ys \<Longrightarrow> (of_nat (length xs) :: u64) = of_nat (length ys)
     \<Longrightarrow> length xs = length ys"
  unfolding fits_def by (drule arg_cong [where f = unat]) (simp add: unat_of_nat take_bit_nat_eq_self)

lemma block_inj:
  assumes "fits xs" "fits ys"
  shows "block xs @ us = block ys @ vs \<longleftrightarrow> xs = ys \<and> us = vs"
proof
  assume "block xs @ us = block ys @ vs"
  then have eq: "length_bytes (of_nat (length xs)) @ (xs @ us) = length_bytes (of_nat (length ys)) @ (ys @ vs)"
    by (simp add: block_def)
  have l: "length_bytes (of_nat (length xs)) = length_bytes (of_nat (length ys))"
    and r: "xs @ us = ys @ vs"
    by (rule append_eq_append_conv [THEN iffD1, OF _ eq, THEN conjunct1], simp)
      (rule append_eq_append_conv [THEN iffD1, OF _ eq, THEN conjunct2], simp)
  have "length xs = length ys"
    using l by (intro length_word_inj assms) (simp only: length_bytes_inj)
  then show "xs = ys \<and> us = vs" using r by simp
qed simp

lemma block_not_Nil [simp]: "block xs \<noteq> []"
  using length_length_bytes [of "of_nat (length xs)"]
  by (metis block_def append_is_Nil_conv list.size(3) zero_neq_numeral)

lemma unat_of_char: "unat (of_char c :: u8) = of_char c"
proof -
  have "(of_char c :: u8) = of_nat (of_char c)" by (rule of_nat_of_char [symmetric])
  moreover have "(of_char c :: nat) < 2 ^ 8" using nat_of_char_less_256 [of c] by simp
  ultimately show ?thesis by (simp add: unat_of_nat take_bit_nat_eq_self)
qed

lemma string_bytes_inj [simp]: "string_bytes s = string_bytes t \<longleftrightarrow> s = t"
proof -
  have "inj (of_char :: char \<Rightarrow> u8)"
  proof (rule injI)
    fix c d :: char assume "of_char c = (of_char d :: u8)"
    then have "unat (of_char c :: u8) = unat (of_char d :: u8)" by simp
    then have "(of_char c :: nat) = of_char d"
      by (simp add: unat_of_char)
    then show "c = d" by simp
  qed
  then show ?thesis by (simp add: string_bytes_def inj_map_eq_map)
qed

lemma fits_string [simp]: "fits (string_bytes s) = fits s"
  by (simp add: fits_def string_bytes_def)

definition fits_files :: "file_list \<Rightarrow> bool" where
  "fits_files fs \<longleftrightarrow> (\<forall>(p, bs)\<in>set fs. fits p \<and> fits bs)"

lemma files_message_inj:
  "fits_files fs \<Longrightarrow> fits_files gs \<Longrightarrow> files_message fs = files_message gs \<longleftrightarrow> fs = gs"
proof (induction fs arbitrary: gs)
  case Nil
  then show ?case by (cases gs) (auto simp: files_message_def)
next
  case (Cons f fs)
  show ?case
  proof (cases gs)
    case Nil
    then show ?thesis by (cases f) (simp add: files_message_def)
  next
    case (Cons g gs')
    obtain p bs q cs where fg: "f = (p, bs)" "g = (q, cs)" by (cases f, cases g) auto
    have fit: "fits p" "fits bs" "fits q" "fits cs" "fits_files fs" "fits_files gs'"
      using Cons.prems \<open>gs = g # gs'\<close> by (auto simp: fg fits_files_def)
    have "files_message (f # fs) = files_message gs \<longleftrightarrow>
        p = q \<and> bs = cs \<and> files_message fs = files_message gs'"
      by (simp add: \<open>gs = g # gs'\<close> files_message_def fg block_inj fit)
    then show ?thesis using Cons.IH [OF fit(5, 6)] by (auto simp: \<open>gs = g # gs'\<close> fg)
  qed
qed

section \<open>Mod sets\<close>

definition mod_message :: "ModFiles \<Rightarrow> DiscoveredMod \<Rightarrow> u8 list" where
  "mod_message fs d = block (string_bytes (mod_id (manifest d))) @
     block (string_bytes (to_string (mod_version (manifest d)))) @
     block (string_bytes (sha256_hex (content_digest fs d)))"

definition set_message :: "ModFiles \<Rightarrow> DiscoveredMod list \<Rightarrow> u8 list" where
  "set_message fs ds = concat (map (mod_message fs) ds)"

lemma set_message_simps [simp]:
  "set_message fs [] = []" "set_message fs (d # ds) = mod_message fs d @ set_message fs ds"
  by (simp_all add: set_message_def)

lemma carries_mod_tuple:
  assumes "compute_mod_content_hash fs d = Inr c" "steady_mod fs d"
    "hash_mod_tuple d c h = (Inr u, h')" "carries h bs"
  shows "carries h' (bs @ mod_message fs d)"
proof -
  have "feeds (hash_mod_tuple d c) (mod_message fs d)"
    unfolding hash_mod_tuple_def mod_message_def content_hash [OF assms(1, 2)]
    by (intro feed_intros)
  then show ?thesis using assms(3, 4) by (auto simp: feeds_def)
qed

lemma hash_mods_carries:
  assumes "hash_mods fs ms (full, play) = Inr (full', play')" "carries full a" "carries play b"
    "\<And>d. Some d \<in> set ms \<Longrightarrow> steady_mod fs d"
  shows "None \<notin> set ms \<and> carries full' (a @ set_message fs (map the ms)) \<and>
    carries play' (b @ set_message fs (filter (\<lambda>d. gameplay (manifest d)) (map the ms)))"
  using assms
proof (induction fs ms "(full, play)" arbitrary: full play a b rule: hash_mods.induct)
  case (3 fs d ms full play)
  have st: "steady_mod fs d" using 3 by simp
  from "3.prems"(1) obtain c where c: "compute_mod_content_hash fs d = Inr c"
    by (auto simp: on_success_iff)
  obtain r full1 where f: "hash_mod_tuple d c full = (r, full1)" by force
  obtain u where r: "r = Inr u"
    using "3.prems"(1) by (cases r) (auto simp: on_success_def c f)
  have cf: "carries full1 (a @ mod_message fs d)"
    using carries_mod_tuple [OF c st] f r "3.prems"(2) by simp
  show ?case
  proof (cases "gameplay (manifest d)")
    case True
    obtain r2 play1 where p: "hash_mod_tuple d c play = (r2, play1)" by force
    obtain u2 where r2: "r2 = Inr u2"
      using "3.prems"(1) True by (cases r2) (auto simp: on_success_def c f r p)
    have cp: "carries play1 (b @ mod_message fs d)"
      using carries_mod_tuple [OF c st] p r2 "3.prems"(3) by simp
    have rest: "hash_mods fs ms (full1, play1) = Inr (full', play')"
      using "3.prems"(1) True by (simp add: on_success_def c f r p r2)
    show ?thesis
      using "3.hyps"(1) [OF f [symmetric, unfolded r] _ True p [symmetric, unfolded r2] _ rest cf cp] 
        "3.prems"(4) True by simp
  next
    case False
    have rest: "hash_mods fs ms (full1, play) = Inr (full', play')"
      using "3.prems"(1) False by (simp add: on_success_def c f r)
    show ?thesis
      using "3.hyps"(2) [OF f [symmetric, unfolded r] _ False rest cf "3.prems"(3)] "3.prems"(4) False
      by simp
  qed
qed simp_all

text \<open>What a mod set hash identifies of a mod.\<close>

definition mod_identity :: "ModFiles \<Rightarrow> DiscoveredMod \<Rightarrow> string \<times> SemanticVersion \<times> Sha256Digest" where
  "mod_identity fs d = (mod_id (manifest d), mod_version (manifest d), content_digest fs d)"

lemma length_decimal: "length (decimal n) \<le> Suc n"
proof (induction n rule: decimal.induct)
  case (1 n)
  then show ?case by (cases "n < 10") (auto simp: decimal.simps [of n])
qed

lemma to_string_inj: "to_string v = to_string w \<longleftrightarrow> v = w"
  by (metis parse_semver_iff sum.inject(2))

lemma fits_version: "fits (to_string v)"
proof -
  have "length (decimal (unat x)) \<le> 2 ^ 32" for x :: u32
    using length_decimal [of "unat x"] unsigned_less [of x, where 'a = nat] by simp
  note this [of "major v"] this [of "minor v"] this [of "patch v"]
  then show ?thesis by (simp add: fits_def to_string_def)
qed

lemma fits_digest: "fits (sha256_hex (sha256 bs))"
  by (simp add: fits_def)

lemma mod_message_inj:
  assumes "fits (mod_id (manifest d))" "fits (mod_id (manifest e))"
  shows "mod_message fs d @ us = mod_message gs e @ vs \<longleftrightarrow>
    mod_identity fs d = mod_identity gs e \<and> us = vs"
  using assms
  by (simp add: mod_message_def mod_identity_def block_inj fits_version fits_digest to_string_inj
      content_digest_def sha256_hex_inj)

lemma set_message_inj:
  assumes "\<And>d. d \<in> set ds \<Longrightarrow> fits (mod_id (manifest d))"
    "\<And>e. e \<in> set es \<Longrightarrow> fits (mod_id (manifest e))"
  shows "set_message fs ds = set_message gs es \<longleftrightarrow> map (mod_identity fs) ds = map (mod_identity gs) es"
  using assms
proof (induction ds arbitrary: es)
  case Nil
  then show ?case by (cases es) (simp_all add: mod_message_def)
next
  case (Cons d ds)
  show ?case
  proof (cases es)
    case Nil
    then show ?thesis by (simp add: mod_message_def)
  next
    case (Cons e es')
    have "set_message fs ds = set_message gs es' \<longleftrightarrow>
        map (mod_identity fs) ds = map (mod_identity gs) es'"
      using Cons.IH [of es'] Cons.prems \<open>es = e # es'\<close> by simp
    then show ?thesis
      using Cons.prems \<open>es = e # es'\<close> by (simp add: mod_message_inj)
  qed
qed

lemma set_hashes:
  assumes "compute_mod_set_hashes fs mods = Inr H"
    "\<And>d. Some d \<in> set (load_order mods) \<Longrightarrow> steady_mod fs d"
  shows "None \<notin> set (load_order mods)"
    "mod_set_hash H = sha256_hex (sha256 (set_message fs (map the (load_order mods))))"
    "gameplay_hash H = sha256_hex (sha256 (set_message fs
       (filter (\<lambda>d. gameplay (manifest d)) (map the (load_order mods)))))"
proof -
  from assms(1) obtain full play where
      run: "hash_mods fs (load_order mods) (new_hasher, new_hasher) = Inr (full, play)"
    and out: "on_success (finish_hex full) (\<lambda>full_hash. on_success (finish_hex play) (\<lambda>play_hash.
           success \<lparr>mod_set_hash = full_hash, gameplay_hash = play_hash\<rparr>)) = Inr H"
    by (auto simp: compute_mod_set_hashes_def on_success_iff)
  note all = hash_mods_carries [OF run carries_new carries_new assms(2), simplified]
  show "None \<notin> set (load_order mods)" using all by simp
  show "mod_set_hash H = sha256_hex (sha256 (set_message fs (map the (load_order mods))))"
    "gameplay_hash H = sha256_hex (sha256 (set_message fs
       (filter (\<lambda>d. gameplay (manifest d)) (map the (load_order mods)))))"
    using out all by (auto simp: on_success_iff finish_carries)
qed

section \<open>The overlay\<close>

text \<open>The files the data mods provide, in load order, and those at one path.\<close>

type_synonym provision = "(string \<times> OverlayEntry) list"

definition data_listing :: "ModFiles \<Rightarrow> DiscoveredMod \<Rightarrow> ContentFile list" where
  "data_listing fs d =
     (case collect_regular_files (data_path fs (mod_root d)) (mod_tree fs (data_path fs (mod_root d))) of
        Inl _ \<Rightarrow> [] | Inr files \<Rightarrow> files)"

definition provided :: "ModFiles \<Rightarrow> DiscoveredMod list \<Rightarrow> provision" where
  "provided fs ds = concat (map (\<lambda>d. map (\<lambda>f. (relative_path f,
       \<lparr>overlay_mod = mod_id (manifest d), overlay_host = host_path f\<rparr>)) (data_listing fs d))
     (filter (\<lambda>d. mod_kind (manifest d) = data_mod) ds))"

definition at_path :: "string \<Rightarrow> provision \<Rightarrow> OverlayEntry list" where
  "at_path p prov = map snd (filter (\<lambda>x. fst x = p) prov)"

definition replacements :: "string \<Rightarrow> OverlayEntry list \<Rightarrow> OverlayCollision list" where
  "replacements p es = map (\<lambda>(a, b). \<lparr>logical_path = p, previous_mod_id = overlay_mod a,
     replacing_mod_id = overlay_mod b\<rparr>) (zip es (tl es))"

definition overlay_of :: "ModOverlay \<Rightarrow> provision \<Rightarrow> bool" where
  "overlay_of o1 prov \<longleftrightarrow> om_ok (overlay_files o1) \<and>
     (\<forall>p. map_of (overlay_files o1) p =
        (if at_path p prov = [] then None else Some (last (at_path p prov)))) \<and>
     (\<forall>p. filter (\<lambda>c. logical_path c = p) (collisions o1) = replacements p (at_path p prov))"

lemma zip_tl_snoc: "es \<noteq> [] \<Longrightarrow> zip (es @ [e]) (tl (es @ [e])) = zip es (tl es) @ [(last es, e)]"
proof (induction es)
  case (Cons x es)
  then show ?case by (cases es) auto
qed simp

lemma overlay_of_file:
  assumes "overlay_of o1 prov"
  shows "overlay_of (overlay_file i f o1)
    (prov @ [(relative_path f, \<lparr>overlay_mod = i, overlay_host = host_path f\<rparr>)])"
proof -
  let ?q = "relative_path f" and ?e = "\<lparr>overlay_mod = i, overlay_host = host_path f\<rparr>"
  have at: "at_path p (prov @ [(?q, ?e)]) = at_path p prov @ (if p = ?q then [?e] else [])" for p
    by (auto simp: at_path_def)
  have repl: "replacements p (es @ [?e]) = replacements p es @ (if es = [] then [] else
      [\<lparr>logical_path = p, previous_mod_id = overlay_mod (last es), replacing_mod_id = i\<rparr>])" for p es
    by (cases "es = []") (simp_all add: replacements_def zip_tl_snoc del: tl_append2)
  have files: "overlay_files (overlay_file i f o1) = om_put ?q ?e (overlay_files o1)"
    by (simp add: overlay_file_def Let_def split: option.splits)
  have coll: "collisions (overlay_file i f o1) = collisions o1 @
      (if at_path ?q prov = [] then [] else [\<lparr>logical_path = ?q,
         previous_mod_id = overlay_mod (last (at_path ?q prov)), replacing_mod_id = i\<rparr>])"
    using assms by (simp add: overlay_file_def overlay_of_def Let_def)
  have none: "replacements p [] = []" for p by (simp add: replacements_def)
  have one: "replacements p [e] = []" for p e by (simp add: replacements_def)
  show ?thesis
    using assms unfolding overlay_of_def files coll at
    by (auto simp: map_of_om_put repl none one)
qed

lemma overlay_of_fold:
  "overlay_of o1 prov \<Longrightarrow> overlay_of (fold (overlay_file i) files o1)
    (prov @ map (\<lambda>f. (relative_path f, \<lparr>overlay_mod = i, overlay_host = host_path f\<rparr>)) files)"
proof (induction files arbitrary: o1 prov)
  case (Cons f files)
  from Cons.IH [OF overlay_of_file [OF Cons.prems, of i f]] show ?case by simp
qed simp

lemma overlay_of_mods:
  "overlay_mods fs ms o1 = Inr o2 \<Longrightarrow> overlay_of o1 prov \<Longrightarrow>
     None \<notin> set ms \<and> overlay_of o2 (prov @ provided fs (map the ms))"
proof (induction fs ms o1 arbitrary: prov rule: overlay_mods.induct)
  case (3 fs d ms o1)
  show ?case
  proof (cases "mod_kind (manifest d) = data_mod")
    case True
    from "3.prems"(1) True obtain files where
        files: "collect_regular_files (data_path fs (mod_root d))
          (mod_tree fs (data_path fs (mod_root d))) = Inr files"
      and rest: "overlay_mods fs ms (fold (overlay_file (mod_id (manifest d))) files o1) = Inr o2"
      by (auto simp: on_success_iff Let_def)
    have "data_listing fs d = files" by (simp add: data_listing_def files)
    then have "provided fs (d # ds) = map (\<lambda>f. (relative_path f,
       \<lparr>overlay_mod = mod_id (manifest d), overlay_host = host_path f\<rparr>)) files @ provided fs ds" for ds
      using True by (simp add: provided_def)
    then show ?thesis
      using "3.IH"(2) [OF _ refl rest overlay_of_fold [OF "3.prems"(2)]] True by simp
  next
    case False
    then show ?thesis
      using "3.IH"(1) [OF False _ "3.prems"(2)] "3.prems"(1) by (simp add: provided_def)
  qed
qed (simp_all add: provided_def)

end
