(* ===== verification/Mods_Spec.thy ===== *)
theory Mods_Spec
  imports Mod_Content_Props
begin

text \<open>
  The properties of mods on disc: what discovery returns, what a mod set hash binds, and what
  the overlay serves.
\<close>

section \<open>Manifests\<close>

definition well_formed_manifest :: "ModPaths \<Rightarrow> ModManifest \<Rightarrow> bool" where
  "well_formed_manifest ps m \<longleftrightarrow>
     valid_mod_id (mod_id m) \<and> mod_name m \<noteq> [] \<and> \<not> incompatible_api m \<and>
     (case mod_kind m of
        data_mod \<Rightarrow> mod_entry m = []
      | native_mod \<Rightarrow> (\<exists>path. safe_relative_path ps path \<and> mod_entry m = normal_path ps path)) \<and>
     list_all (\<lambda>d. valid_mod_id (dep_id d)) (dependencies m) \<and>
     list_all valid_mod_id (conflicts m)"

lemma parse_dependency_id: "parse_dependency v = Inr d \<Longrightarrow> valid_mod_id (dep_id d)"
  by (auto simp: parse_dependency_def Let_def on_success_iff split: if_splits)

lemma parse_dependencies_ids:
  "parse_dependencies items = Inr ds \<Longrightarrow> list_all (\<lambda>d. valid_mod_id (dep_id d)) ds"
  by (induction items arbitrary: ds) (auto simp: on_success_iff dest: parse_dependency_id)

lemma check_conflicts_ids: "check_conflicts cs = Inr xs \<Longrightarrow> list_all valid_mod_id xs"
  by (induction cs arbitrary: xs) (auto simp: on_success_iff split: if_splits)

lemma required_field_iff: "required_field kv key = Inr v \<longleftrightarrow> kv key = Some v \<and> v \<noteq> []"
  by (auto simp: required_field_def)

lemma manifest_entry_kind:
  "manifest_entry ps i kind entry = Inr e \<Longrightarrow>
     (case kind of data_mod \<Rightarrow> e = []
      | native_mod \<Rightarrow> \<exists>path. safe_relative_path ps path \<and> e = normal_path ps path)"
  by (auto simp: manifest_entry_def split: ModKind.splits if_splits)

lemma parsed_manifest: "parse_mod_manifest ps t root = Inr m \<Longrightarrow> well_formed_manifest ps m"
proof -
  assume "parse_mod_manifest ps t root = Inr m"
  then obtain kv where "build_manifest ps kv = Inr m"
    by (auto simp: parse_mod_manifest_def on_success_iff)
  then obtain i name version api kind play entry deps cs where
      parts: "name \<noteq> []" "valid_mod_id i" "api_compatible api"
        "manifest_entry ps i kind (kv ''entry'') = Inr entry"
        "parse_dependencies (csv_field kv ''depends'') = Inr deps"
        "check_conflicts (csv_field kv ''conflicts'') = Inr cs"
    and m: "m = \<lparr>mod_id = i, mod_name = name, mod_version = version, api_version = api,
       mod_kind = kind, gameplay = play, mod_entry = entry, dependencies = deps, conflicts = cs\<rparr>"
    unfolding build_manifest_def on_success_iff required_field_iff
    by (auto simp: on_success_iff split: if_splits)
  have "\<not> incompatible_api m"
    using parts(3) by (auto simp: m incompatible_api_def api_compatible_def)
  then show ?thesis
    using parts(1, 2) manifest_entry_kind [OF parts(4)] parse_dependencies_ids [OF parts(5)]
      check_conflicts_ids [OF parts(6)]
    by (cases kind) (simp_all add: well_formed_manifest_def m)
qed

section \<open>The catalog\<close>

lemma visited_mod: "visit_mod ps d = Inr ms \<Longrightarrow> x \<in> set ms \<Longrightarrow> well_formed_manifest ps (manifest x)"
  by (auto simp: visit_mod_def on_success_iff parsed_manifest split: sum.splits if_splits)

lemma scanned_mods: "scan_mods ps ds = Inr ms \<Longrightarrow> x \<in> set ms \<Longrightarrow> well_formed_manifest ps (manifest x)"
  by (induction ds arbitrary: ms) (auto simp: on_success_iff visited_mod split: option.splits)

definition catalog_id :: "DiscoveredMod \<Rightarrow> string" where
  "catalog_id d = mod_id (manifest d)"

lemma check_duplicates_sorted:
  "check_duplicates ms = Inr out \<Longrightarrow> sorted (map catalog_id ms) \<Longrightarrow>
     out = ms \<and> sorted_wrt (<) (map catalog_id ms)"
proof (induction ms arbitrary: out rule: check_duplicates.induct)
  case (1 a b ms)
  from "1.prems"(1) have ne: "catalog_id a \<noteq> catalog_id b"
    by (auto simp: catalog_id_def split: if_splits)
  then obtain rest where rest: "check_duplicates (b # ms) = Inr rest" "out = a # rest"
    using "1.prems"(1) by (auto simp: catalog_id_def on_success_iff)
  have "sorted (map catalog_id (b # ms))" and less: "catalog_id a < catalog_id b"
    using "1.prems"(2) ne by auto
  then have "rest = b # ms \<and> sorted_wrt (<) (map catalog_id (b # ms))"
    using "1.IH" [of rest] ne [unfolded catalog_id_def] rest(1) by blast
  then show ?case using less rest(2) by (auto intro: less_trans)
qed simp_all

lemma index_catalog_distinct:
  assumes "distinct (map catalog_id ds)" "\<And>d. d \<in> set ds \<Longrightarrow> catalog_id d \<notin> fst ` set m"
  shows "\<exists>m'. index_catalog ds m = Inr m' \<and>
    (\<forall>i. map_of m' i = (case find (\<lambda>d. catalog_id d = i) ds of Some d \<Rightarrow> Some d | None \<Rightarrow> map_of m i))"
  using assms
proof (induction ds arbitrary: m)
  case (Cons d ds)
  have none: "map_of m (mod_id (manifest d)) = None"
    using Cons.prems(2) [of d] by (simp add: catalog_id_def map_of_eq_None_iff)
  let ?m = "om_put (mod_id (manifest d)) d m"
  have "\<exists>m'. index_catalog ds ?m = Inr m' \<and>
    (\<forall>i. map_of m' i = (case find (\<lambda>d. catalog_id d = i) ds of Some d \<Rightarrow> Some d | None \<Rightarrow> map_of ?m i))"
  proof (rule Cons.IH)
    show "distinct (map catalog_id ds)" using Cons.prems(1) by simp
    show "catalog_id e \<notin> fst ` set ?m" if "e \<in> set ds" for e
      using Cons.prems that by (auto simp: keys_om_put simp flip: catalog_id_def) (metis image_eqI)
  qed
  then obtain m' where m': "index_catalog ds ?m = Inr m'" and look: "\<And>i. map_of m' i =
      (case find (\<lambda>d. catalog_id d = i) ds of Some d \<Rightarrow> Some d | None \<Rightarrow> map_of ?m i)" by auto
  have no: "find (\<lambda>e. catalog_id e = catalog_id d) ds = None"
    using Cons.prems(1) by (auto simp: find_None_iff) (metis image_eqI)
  have "map_of m' i = (case find (\<lambda>d. catalog_id d = i) (d # ds) of
      Some d \<Rightarrow> Some d | None \<Rightarrow> map_of m i)" for i
    using no by (cases "catalog_id d = i")
      (auto simp: look map_of_om_put catalog_id_def split: option.splits)
  then show ?case using none m' by auto
qed simp

lemma case_option_self: "(case x of None \<Rightarrow> None | Some d \<Rightarrow> Some d) = x"
  by (cases x) simp_all

lemma find_distinct:
  "distinct (map f xs) \<Longrightarrow> find (\<lambda>x. f x = i) xs = Some x \<longleftrightarrow> x \<in> set xs \<and> f x = i"
  by (induction xs) (auto simp: image_iff)

lemma discovered_parts:
  assumes "discover_mods ps root ex dir op entries = Inr catalog"
  shows "sorted_wrt (<) (map catalog_id catalog)"
    and "x \<in> set catalog \<Longrightarrow> well_formed_manifest ps (manifest x)"
proof -
  consider "catalog = []"
    | ms where "scan_mods ps entries = Inr ms" "check_duplicates (sort_catalog ms) = Inr catalog"
    using assms by (auto simp: discover_mods_def on_success_iff split: sum.splits bool.splits
        if_splits option.splits)
  note cases = this
  have sorted: "sorted (map catalog_id (sort_catalog ms))" for ms
    by (simp add: sort_catalog_def catalog_id_def [abs_def])
  show "sorted_wrt (<) (map catalog_id catalog)"
    using cases check_duplicates_sorted [OF _ sorted] by (metis list.map(1) sorted_wrt.simps(1))
  show "x \<in> set catalog \<Longrightarrow> well_formed_manifest ps (manifest x)"
    using cases check_duplicates_sorted [OF _ sorted]
    by (metis scanned_mods sort_catalog_def set_sort list.set(1) empty_iff)
qed

section \<open>Properties\<close>

text \<open>C22.
  Whatever the mods directory holds, a catalog that discovery returns contains well-formed
  manifests only: valid ids also for dependencies and conflicts, a compatible API version, for
  a native mod the normal form of a safe relative entry path and for a data mod none.  Its ids
  are strictly ascending, so the resolver indexes it without an error, and finds by an id
  exactly the discovered mod that has it.
\<close>

theorem discovered_catalog_typed:
  assumes "discover_mods ps root ex dir op entries = Inr catalog"
  shows "(\<forall>d\<in>set catalog. well_formed_manifest ps (manifest d)) \<and>
    sorted_wrt (<) (map (\<lambda>d. mod_id (manifest d)) catalog) \<and>
    (\<exists>ids. index_catalog catalog [] = Inr ids \<and>
      (\<forall>i d. map_of ids i = Some d \<longleftrightarrow> d \<in> set catalog \<and> mod_id (manifest d) = i))"
proof -
  note parts = discovered_parts [OF assms]
  then have dist: "distinct (map catalog_id catalog)"
    by (simp add: strict_sorted_iff)
  then obtain ids where "index_catalog catalog [] = Inr ids"
      and look: "\<And>i. map_of ids i = find (\<lambda>d. catalog_id d = i) catalog"
    using index_catalog_distinct [of catalog "[]"]
    by (auto simp: case_option_self) (metis case_option_self map_of.simps(1))
  moreover have "map_of ids i = Some d \<longleftrightarrow> d \<in> set catalog \<and> mod_id (manifest d) = i" for i d
    using find_distinct [OF dist] by (simp add: look catalog_id_def)
  ultimately show ?thesis
    using parts by (auto simp: catalog_id_def [abs_def])
qed

definition sample_paths :: ModPaths where
  "sample_paths = \<lparr>rooted_path = (\<lambda>p. p \<noteq> [] \<and> hd p = CHR ''/''),
     path_parts = split_on (CHR ''/''), normal_path = (\<lambda>p. p)\<rparr>"

definition sample_text :: "string \<Rightarrow> string \<Rightarrow> string" where
  "sample_text i tail_text = ''id='' @ i @ ''
name = A mod
version=1.0.0
api_version=1.0.0
gameplay=1
'' @ tail_text"

definition sample_directory :: "string \<Rightarrow> string \<Rightarrow> ModDirectory" where
  "sample_directory path contents = \<lparr>dir_path = path, dir_status = Inr fs_directory,
     manifest_path = path @ ''/mod.ini'', manifest_status = Inr fs_regular,
     manifest_text = Inr contents, dir_next = None\<rparr>"

definition native_text :: string where
  "native_text = sample_text ''z'' ''kind=native
entry=bin/z.dll''"

definition data_text :: string where
  "data_text = sample_text ''a'' ''kind=data
depends=z''"

definition sample_mods :: "ModDirectory list" where
  "sample_mods = [sample_directory ''m/z'' native_text, sample_directory ''m/a'' data_text]"

definition fields_of :: "string \<Rightarrow> (string option list) option" where
  "fields_of t = (case manifest_lines ''m'' 0 (read_lines [] t) Map.empty of
     Inl _ \<Rightarrow> None | Inr kv \<Rightarrow> Some (map kv allowed_keys))"

lemma manifest_lines_root:
  "manifest_lines r n ls kv = Inr kv' \<longleftrightarrow> manifest_lines r' n ls kv = Inr kv'"
proof (induction ls arbitrary: n kv)
  case (Cons l ls)
  have "manifest_line r (n + 1) l kv = Inr k \<longleftrightarrow> manifest_line r' (n + 1) l kv = Inr k" for k
    by (simp add: manifest_line_def Let_def)
  then show ?case using Cons by (simp add: on_success_iff)
qed simp

lemma fields_of_native: "fields_of native_text = Some [Some ''z'', Some ''A mod'', Some ''1.0.0'',
    Some ''1.0.0'', Some ''native'', Some ''1'', Some ''bin/z.dll'', None, None]"
  by code_simp

lemma fields_of_data: "fields_of data_text = Some [Some ''a'', Some ''A mod'', Some ''1.0.0'',
    Some ''1.0.0'', Some ''data'', Some ''1'', None, Some ''z'', None]"
  by code_simp

lemma parse_one: "parse_semver ''1.0.0'' = Inr kModApiVersion"
  by (simp add: parse_semver_iff to_string_def decimal.simps digit_char_def kModApiVersion_def)
    code_simp

lemma parse_of_fields:
  assumes "fields_of t = Some [Some i, Some name, Some ''1.0.0'', Some ''1.0.0'', Some kind,
    Some ''1'', entry, deps, None]"
  obtains kv where "parse_mod_manifest ps t root = build_manifest ps kv"
    "kv ''id'' = Some i" "kv ''name'' = Some name" "kv ''version'' = Some ''1.0.0''"
    "kv ''api_version'' = Some ''1.0.0''" "kv ''kind'' = Some kind" "kv ''gameplay'' = Some ''1''"
    "kv ''entry'' = entry" "kv ''depends'' = deps" "kv ''conflicts'' = None"
proof -
  obtain kv where kv: "manifest_lines ''m'' 0 (read_lines [] t) Map.empty = Inr kv"
      "map kv allowed_keys = [Some i, Some name, Some ''1.0.0'', Some ''1.0.0'', Some kind,
        Some ''1'', entry, deps, None]"
    using assms by (auto simp: fields_of_def split: sum.splits)
  then have "parse_mod_manifest ps t root = build_manifest ps kv"
    using manifest_lines_root [of "''m''" 0 _ Map.empty kv root]
    by (simp add: parse_mod_manifest_def on_success_def)
  then show ?thesis using that kv(2) by (simp add: allowed_keys_def)
qed

lemma sample_words:
  "valid_mod_id ''z''" "valid_mod_id ''a''" "safe_relative_path sample_paths ''bin/z.dll''"
  "normal_path sample_paths ''bin/z.dll'' = ''bin/z.dll''"
  "split_csv ''z'' = [''z'']" "parse_dependency ''z'' = Inr \<lparr>dep_id = ''z'',
     dep_requirement = \<lparr>requirement_kind = any, requirement_version = zero_version\<rparr>\<rparr>"
  by code_simp+

lemma native_parses: "\<exists>m. parse_mod_manifest sample_paths native_text root = Inr m \<and> mod_id m = ''z''"
  by (rule parse_of_fields [OF fields_of_native, of sample_paths root])
    (simp add: build_manifest_def required_field_def on_success_def sample_words parse_one
      parse_mod_kind_def parse_mod_bool_def api_compatible_def compare_semver_def
      manifest_entry_def csv_field_def)

lemma data_parses: "\<exists>m. parse_mod_manifest sample_paths data_text root = Inr m \<and> mod_id m = ''a''"
  by (rule parse_of_fields [OF fields_of_data, of sample_paths root])
    (simp add: build_manifest_def required_field_def on_success_def sample_words parse_one
      parse_mod_kind_def parse_mod_bool_def api_compatible_def compare_semver_def
      manifest_entry_def csv_field_def)

theorem discovered_catalog_typed_witness:
  "\<exists>catalog. discover_mods sample_paths ''m'' (Inr True) True None sample_mods = Inr catalog \<and>
     length catalog = 2 \<and> sorted_wrt (<) (map (\<lambda>d. mod_id (manifest d)) catalog)"
proof -
  obtain z a where "parse_mod_manifest sample_paths native_text ''m/z'' = Inr z" "mod_id z = ''z''"
      "parse_mod_manifest sample_paths data_text ''m/a'' = Inr a" "mod_id a = ''a''"
    using native_parses data_parses by blast
  then have c: "discover_mods sample_paths ''m'' (Inr True) True None sample_mods =
      Inr [\<lparr>manifest = a, mod_root = ''m/a''\<rparr>, \<lparr>manifest = z, mod_root = ''m/z''\<rparr>]"
    by (simp add: discover_mods_def sample_mods_def visit_mod_def sample_directory_def
        on_success_def sort_catalog_def less_eq_list_code less_eq_char_simp)
  then show ?thesis using discovered_catalog_typed [OF c] by simp
qed

text \<open>The mods of a set have steady files and sizes of 64 bits.\<close>

definition steady_set :: "ModFiles \<Rightarrow> ResolvedModSet \<Rightarrow> bool" where
  "steady_set fs mods \<longleftrightarrow> (\<forall>d. Some d \<in> set (load_order mods) \<longrightarrow>
     steady_mod fs d \<and> fits (mod_id (manifest d)) \<and> fits_files (mod_content fs d))"

lemma custom_session_parts:
  assumes "compute_mod_set_hashes fs mods = Inr H" "compute_mod_set_hashes gs others = Inr K"
    and steady: "steady_set fs mods" "steady_set gs others"
  shows "validate_mod_session others K
      \<lparr>mode = custom, required_mod_set_hash = mod_set_hash H\<rparr> = success () \<longleftrightarrow>
    sha256 (set_message fs (map the (load_order mods))) =
      sha256 (set_message gs (map the (load_order others)))"
    and "set_message fs (map the (load_order mods)) = set_message gs (map the (load_order others))
      \<longleftrightarrow> map (\<lambda>m. mod_identity fs (the m)) (load_order mods) =
        map (\<lambda>m. mod_identity gs (the m)) (load_order others)"
    and "\<forall>d e. Some d \<in> set (load_order mods) \<longrightarrow> Some e \<in> set (load_order others) \<longrightarrow>
      (files_message (mod_content fs d) = files_message (mod_content gs e) \<longleftrightarrow>
        mod_content fs d = mod_content gs e)"
proof -
  have s1: "Some d \<in> set (load_order mods) \<Longrightarrow> steady_mod fs d"
    and s2: "Some d \<in> set (load_order others) \<Longrightarrow> steady_mod gs d" for d
    using steady by (auto simp: steady_set_def)
  note h1 = set_hashes [OF assms(1) s1] and h2 = set_hashes [OF assms(2) s2]
  have "mod_set_hash H \<noteq> []"
    using length_sha256_hex [of "sha256 bs" for bs] h1(2) by (metis length_sha256 list.size(3)
        mult_eq_0_iff zero_neq_numeral)
  then show "validate_mod_session others K
      \<lparr>mode = custom, required_mod_set_hash = mod_set_hash H\<rparr> = success () \<longleftrightarrow>
    sha256 (set_message fs (map the (load_order mods))) =
      sha256 (set_message gs (map the (load_order others)))"
    using h2(1) by (auto simp: validate_mod_session_def h1(2) h2(2) sha256_hex_inj)
  have "fits (mod_id (manifest d))" if in_set: "d \<in> set (map the (load_order mods))" for d
  proof -
    obtain m where m: "m \<in> set (load_order mods)" "d = the m" using in_set unfolding set_map by blast
    moreover have "m \<noteq> None" using m(1) set_hashes(1) [OF assms(1) s1] by metis
    ultimately have "Some d \<in> set (load_order mods)" by simp
    then show ?thesis using steady(1) by (simp add: steady_set_def)
  qed
  moreover have "fits (mod_id (manifest d))" if in_set: "d \<in> set (map the (load_order others))" for d
  proof -
    obtain m where m: "m \<in> set (load_order others)" "d = the m" using in_set unfolding set_map by blast
    moreover have "m \<noteq> None" using m(1) set_hashes(1) [OF assms(2) s2] by metis
    ultimately have "Some d \<in> set (load_order others)" by simp
    then show ?thesis using steady(2) by (simp add: steady_set_def)
  qed
  ultimately show "set_message fs (map the (load_order mods)) =
      set_message gs (map the (load_order others))
      \<longleftrightarrow> map (\<lambda>m. mod_identity fs (the m)) (load_order mods) =
        map (\<lambda>m. mod_identity gs (the m)) (load_order others)"
    using set_message_inj [of "map the (load_order mods)" "map the (load_order others)"]
    by (simp add: comp_def)
  show "\<forall>d e. Some d \<in> set (load_order mods) \<longrightarrow> Some e \<in> set (load_order others) \<longrightarrow>
      (files_message (mod_content fs d) = files_message (mod_content gs e) \<longleftrightarrow>
        mod_content fs d = mod_content gs e)"
    using steady by (auto simp: steady_set_def files_message_inj)
qed

text \<open>C23.
  The hash of a mod set binds the mods.  A custom session that requires the hash of one
  machine's mods accepts another machine exactly when the two length-prefixed messages have
  the same SHA-256 digest; the messages are equal exactly when the load orders agree in ids,
  versions and content digests, and the messages of two mods' contents are equal exactly when
  the mods hold the same files with the same bytes.
\<close>

theorem custom_session_binds_mods:
  assumes "compute_mod_set_hashes fs mods = Inr H" "compute_mod_set_hashes gs others = Inr K"
    "steady_set fs mods" "steady_set gs others"
  shows "(validate_mod_session others K
      \<lparr>mode = custom, required_mod_set_hash = mod_set_hash H\<rparr> = success () \<longleftrightarrow>
    sha256 (set_message fs (map the (load_order mods))) =
      sha256 (set_message gs (map the (load_order others)))) \<and>
    (set_message fs (map the (load_order mods)) = set_message gs (map the (load_order others))
      \<longleftrightarrow> map (\<lambda>m. mod_identity fs (the m)) (load_order mods) =
        map (\<lambda>m. mod_identity gs (the m)) (load_order others)) \<and>
    (\<forall>d e. Some d \<in> set (load_order mods) \<longrightarrow> Some e \<in> set (load_order others) \<longrightarrow>
      (files_message (mod_content fs d) = files_message (mod_content gs e) \<longleftrightarrow>
        mod_content fs d = mod_content gs e))"
  using custom_session_parts [OF assms] by blast

lemma overlay_parts:
  assumes "build_mod_overlay fs mods = Inr overlay"
  defines "providers \<equiv> \<lambda>p. at_path p (provided fs (map the (load_order mods)))"
  shows "map_of (overlay_files overlay) p =
      (if providers p = [] then None else Some (last (providers p)))"
    and "filter (\<lambda>c. logical_path c = p) (collisions overlay) =
      map (\<lambda>(a, b). \<lparr>logical_path = p, previous_mod_id = overlay_mod a,
        replacing_mod_id = overlay_mod b\<rparr>) (zip (providers p) (tl (providers p)))"
proof -
  have "overlay_of \<lparr>overlay_files = [], collisions = []\<rparr> []"
    by (simp add: overlay_of_def at_path_def replacements_def)
  then have all: "overlay_of overlay (provided fs (map the (load_order mods)))"
    using overlay_of_mods assms(1) unfolding build_mod_overlay_def by fastforce
  show "map_of (overlay_files overlay) p =
      (if providers p = [] then None else Some (last (providers p)))"
    using all unfolding overlay_of_def providers_def by blast
  show "filter (\<lambda>c. logical_path c = p) (collisions overlay) =
      map (\<lambda>(a, b). \<lparr>logical_path = p, previous_mod_id = overlay_mod a,
        replacing_mod_id = overlay_mod b\<rparr>) (zip (providers p) (tl (providers p)))"
    using all unfolding overlay_of_def providers_def replacements_def by blast
qed

text \<open>C24.
  The overlay serves the last file: at every logical path it has the file of the last data mod
  in load order that provides one, and nothing where none does; and the collisions recorded at
  a path are, in order, each provider with the one that replaced it.
\<close>

theorem overlay_last_wins:
  assumes "build_mod_overlay fs mods = Inr overlay"
  shows "let providers = at_path p (provided fs (map the (load_order mods))) in
    map_of (overlay_files overlay) p = (if providers = [] then None else Some (last providers)) \<and>
    filter (\<lambda>c. logical_path c = p) (collisions overlay) =
      map (\<lambda>(a, b). \<lparr>logical_path = p, previous_mod_id = overlay_mod a,
        replacing_mod_id = overlay_mod b\<rparr>) (zip providers (tl providers))"
  using overlay_parts [OF assms, of p] by (simp add: Let_def)

text \<open>Two data mods with a file each, the second also with a file of the first.\<close>

definition sample_manifest :: "string \<Rightarrow> ModManifest" where
  "sample_manifest i = \<lparr>mod_id = i, mod_name = i, mod_version = kModApiVersion,
     api_version = kModApiVersion, mod_kind = data_mod, gameplay = False, mod_entry = [],
     dependencies = [], conflicts = []\<rparr>"

definition sample_set :: ResolvedModSet where
  "sample_set = \<lparr>load_order = [Some \<lparr>manifest = sample_manifest ''a'', mod_root = ''A''\<rparr>,
     Some \<lparr>manifest = sample_manifest ''b'', mod_root = ''B''\<rparr>], diagnostics = []\<rparr>"

definition sample_entry :: "string \<Rightarrow> string \<Rightarrow> TreeEntry" where
  "sample_entry root f = \<lparr>te_path = root @ ''/'' @ f, te_status = Inr fs_regular, te_logical = f,
     te_next = None\<rparr>"

definition sample_files :: ModFiles where
  "sample_files = \<lparr>
     mod_tree = (\<lambda>root. \<lparr>tree_status = Inr fs_directory, tree_error = None,
       tree_entries = (if root = ''B'' then [sample_entry root ''y'', sample_entry root ''x'']
         else [sample_entry root ''x''])\<rparr>),
     mod_file = (\<lambda>path. \<lparr>payload_size = Inr 3, payload_opens = True,
       payload_chunks = [[1, 2], [3]], payload_eof = True\<rparr>),
     data_path = (\<lambda>root. root)\<rparr>"

lemma sample_overlay: "build_mod_overlay sample_files sample_set = Inr \<lparr>overlay_files =
    [(''x'', \<lparr>overlay_mod = ''b'', overlay_host = ''B/x''\<rparr>),
     (''y'', \<lparr>overlay_mod = ''b'', overlay_host = ''B/y''\<rparr>)],
    collisions = [\<lparr>logical_path = ''x'', previous_mod_id = ''a'', replacing_mod_id = ''b''\<rparr>]\<rparr>"
  by code_simp

theorem overlay_last_wins_witness:
  "last (at_path ''x'' (provided sample_files (map the (load_order sample_set)))) =
     \<lparr>overlay_mod = ''b'', overlay_host = ''B/x''\<rparr>"
  using overlay_last_wins [OF sample_overlay, of "''x''"] by (auto simp: Let_def split: if_splits)

lemma sample_listing:
  "mod_listing sample_files \<lparr>manifest = m, mod_root = ''A''\<rparr> =
    [\<lparr>relative_path = ''x'', host_path = ''A/x''\<rparr>]"
  "mod_listing sample_files \<lparr>manifest = m, mod_root = ''B''\<rparr> =
    [\<lparr>relative_path = ''x'', host_path = ''B/x''\<rparr>, \<lparr>relative_path = ''y'', host_path = ''B/y''\<rparr>]"
  by (code_simp, code_simp)

lemma sample_steady: "steady_set sample_files sample_set"
  unfolding steady_set_def sample_set_def
  by (auto simp: steady_mod_def mod_content_def sample_listing sample_manifest_def fits_def
      steady_file_def file_bytes_def fits_files_def file_contents_def)
    (simp_all add: sample_files_def)

text \<open>Steps on files that open and end run through.\<close>

definition runs :: "hash_step \<Rightarrow> bool" where
  "runs f \<longleftrightarrow> (\<forall>h bs. carries h bs \<longrightarrow> (\<exists>h' cs. f h = (Inr (), h') \<and> carries h' cs))"

lemma runsD: "runs f \<Longrightarrow> carries h bs \<Longrightarrow> \<exists>h' cs. f h = (Inr (), h') \<and> carries h' cs"
  unfolding runs_def by blast

lemma runs_feed: "runs (feed xs)"
  unfolding runs_def
proof (intro allI impI)
  fix h bs assume c: "carries h bs"
  then obtain h' where f: "feed xs h = (Inr (), h')"
    by (auto simp: feed_def hasher_update_def carries_def)
  then show "\<exists>h' cs. feed xs h = (Inr (), h') \<and> carries h' cs"
    using c feeds_feed [of xs] unfolding feeds_def by blast
qed

lemma runs_then: "runs f \<Longrightarrow> runs g \<Longrightarrow> runs (hash_then f g)"
  unfolding runs_def hash_then_def by (fastforce split: prod.splits)

lemma runs_string: "runs (feed_string s)"
  unfolding feed_string_def feed_u64_def by (intro runs_then runs_feed)

lemma runs_chunks: "runs (hash_chunks cs)"
proof (induction cs)
  case Nil
  then show ?case by (auto simp: runs_def)
next
  case (Cons c cs)
  have "runs (hash_then (feed c) (hash_chunks cs))" by (intro runs_then runs_feed Cons)
  then show ?case using Cons by (auto simp: runs_def)
qed

lemma runs_payload: "runs (hash_file_payload path (mod_file sample_files path))"
proof -
  have "runs (hash_then (feed_u64 3) (hash_then (hash_chunks [[1, 2], [3]]) (\<lambda>h. (success (), h))))"
    unfolding feed_u64_def by (intro runs_then runs_feed runs_chunks) (auto simp: runs_def)
  then show ?thesis by (simp add: hash_file_payload_def sample_files_def)
qed

lemma runs_files: "runs (hash_files sample_files files)"
proof (induction files)
  case Nil
  then show ?case by (auto simp: runs_def)
next
  case (Cons f files)
  have "runs (hash_then (hash_then (feed_string (relative_path f))
      (hash_file_payload (host_path f) (mod_file sample_files (host_path f))))
      (hash_files sample_files files))"
    by (intro runs_then runs_string runs_payload Cons)
  then show ?case by (simp add: runs_def)
qed

lemma sample_content:
  assumes "r = ''A'' \<or> r = ''B''"
  shows "\<exists>c. compute_mod_content_hash sample_files \<lparr>manifest = m, mod_root = r\<rparr> = Inr c"
proof -
  have "\<exists>files. collect_regular_files r (mod_tree sample_files r) = Inr files"
    using assms by (auto simp: collect_regular_files_def sample_files_def on_success_def
        collect_entry_def sample_entry_def)
  then obtain files where "collect_regular_files r (mod_tree sample_files r) = Inr files" ..
  moreover obtain h cs where "hash_files sample_files files new_hasher = (Inr (), h)" "carries h cs"
    using runs_files carries_new unfolding runs_def by blast
  ultimately show ?thesis
    by (simp add: compute_mod_content_hash_def on_success_def finish_carries)
qed

lemma runs_tuple: "runs (hash_mod_tuple d c)"
  unfolding hash_mod_tuple_def by (intro runs_then runs_string)

lemma sample_hashes: "\<exists>H. compute_mod_set_hashes sample_files sample_set = Inr H"
proof -
  define m n where "m = \<lparr>manifest = sample_manifest ''a'', mod_root = ''A''\<rparr>"
    and "n = \<lparr>manifest = sample_manifest ''b'', mod_root = ''B''\<rparr>"
  obtain a b where a: "compute_mod_content_hash sample_files m = Inr a"
    and b: "compute_mod_content_hash sample_files n = Inr b"
    using sample_content [of "''A''"] sample_content [of "''B''"] unfolding m_def n_def by blast
  obtain h1 cs where h1: "hash_mod_tuple m a new_hasher = (Inr (), h1)" and c1: "carries h1 cs"
    using runsD [OF runs_tuple [of m a] carries_new] by blast
  obtain h2 ds where h2: "hash_mod_tuple n b h1 = (Inr (), h2)" and c2: "carries h2 ds"
    using runsD [OF runs_tuple [of n b] c1] by blast
  have no: "gameplay (manifest m) = False" "gameplay (manifest n) = False"
    by (simp_all add: sample_manifest_def m_def n_def)
  have "hash_mods sample_files (load_order sample_set) (new_hasher, new_hasher) = Inr (h2, new_hasher)"
    by (simp add: sample_set_def on_success_def a b h1 h2 no flip: m_def n_def)
  then show ?thesis
    unfolding compute_mod_set_hashes_def
    by (simp add: on_success_def finish_carries [OF c2] finish_carries [OF carries_new])
qed

theorem custom_session_binds_mods_witness:
  "\<exists>H. compute_mod_set_hashes sample_files sample_set = Inr H \<and>
     validate_mod_session sample_set H \<lparr>mode = custom, required_mod_set_hash = mod_set_hash H\<rparr> =
       success ()"
proof -
  obtain H where H: "compute_mod_set_hashes sample_files sample_set = Inr H"
    using sample_hashes ..
  then show ?thesis
    using custom_session_binds_mods [OF H H sample_steady sample_steady] by blast
qed

end
