(* ===== verification/Native_Loader.thy ===== *)
theory Native_Loader
  imports Mod_Manifest
begin

text \<open>
  Loading native mods, from \<^verbatim>\<open>src/src/core/native_mod_loader.cpp\<close> and
  \<^verbatim>\<open>src/src/mod_api/jojo_mod_api.h\<close>.  What the platform answers to a path, to opening a
  library and to the calls into it is the record \<open>NativeHost\<close>; the calls the loader makes are
  a trace of events, a call of \<open>on_load\<close> with its outcome.
\<close>

section \<open>The interface of a native mod\<close>

definition JOJO_NATIVE_MOD_ABI_V1 :: u32 where
  "JOJO_NATIVE_MOD_ABI_V1 = 1"

text \<open>A call of \<open>on_load\<close> throws or returns a code; a missing callback is \<open>None\<close>.\<close>

datatype LoadCall = load_throws | load_returns int

record JojoNativeModV1 =
  struct_size :: u32
  abi_version :: u32
  desc_mod_id :: "string option"
  on_load :: "LoadCall option"
  on_unload :: "unit option"

text \<open>The size of the structure with eight-byte pointers.\<close>

definition native_mod_size :: u32 where
  "native_mod_size = 32"

datatype DescriptorCall = getter_throws | getter_returns "JojoNativeModV1 option"

type_synonym handle = nat

record NativeHost =
  nh_paths :: ModPaths
  nh_status :: "string \<Rightarrow> string + FileStatus"
  nh_join :: "string \<Rightarrow> string \<Rightarrow> string"
  nh_open :: "string \<Rightarrow> handle result"
  nh_symbol :: "handle \<Rightarrow> unit result"
  nh_getter :: "handle \<Rightarrow> DescriptorCall"

datatype LibraryEvent =
    library_opened handle
  | load_called handle LoadCall
  | unload_called handle
  | library_closed handle

section \<open>The entry\<close>

definition safe_relative_entry :: "ModPaths \<Rightarrow> string \<Rightarrow> bool" where
  "safe_relative_entry ps entry =
     (if entry = [] \<or> rooted_path ps entry then False
      else
        let normalized = normal_path ps entry in
        if normalized = [] \<or> normalized = ''.'' then False
        else ''..'' \<notin> set (path_parts ps normalized))"

fun entry_components :: "NativeHost \<Rightarrow> string \<Rightarrow> string \<Rightarrow> string list \<Rightarrow> string result" where
  "entry_components host i current [] = success current"
| "entry_components host i current (component # rest) =
     (let next_path = nh_join host current component; is_last = (rest = []) in
      case nh_status host next_path of
        Inl m \<Rightarrow> failure io_error (''failed to inspect native mod entry for '' @ i @ '': '' @ m)
      | Inr s \<Rightarrow>
          if s = fs_symlink
          then failure invalid_argument (''symlinked native mod entry is not allowed: '' @ i)
          else if s = fs_missing
          then failure file_not_found (''native mod entry does not exist: '' @ next_path)
          else if \<not> is_last \<and> s \<noteq> fs_directory
          then failure invalid_argument (''native mod entry parent is not a directory: '' @ next_path)
          else if is_last \<and> s \<noteq> fs_regular
          then failure invalid_argument (''native mod entry is not a regular file: '' @ next_path)
          else entry_components host i next_path rest)"

definition validate_native_entry :: "NativeHost \<Rightarrow> DiscoveredMod \<Rightarrow> string result" where
  "validate_native_entry host d =
     (let i = mod_id (manifest d); entry = mod_entry (manifest d) in
      if \<not> safe_relative_entry (nh_paths host) entry
      then failure invalid_argument (''unsafe native mod entry path for '' @ i @ '': '' @ entry)
      else case nh_status host (mod_root d) of
        Inl m \<Rightarrow> failure io_error (''failed to inspect native mod root for '' @ i @ '': '' @ m)
      | Inr s \<Rightarrow>
          if s = fs_symlink
          then failure invalid_argument (''symlinked native mod root is not allowed: '' @ i)
          else if s \<noteq> fs_directory
          then failure file_not_found (''native mod root is not a directory: '' @ mod_root d)
          else entry_components host i (mod_root d)
            (path_parts (nh_paths host) (normal_path (nh_paths host) entry)))"

section \<open>The session\<close>

record LoadedNativeMod =
  library_handle :: handle
  loaded_id :: string

type_synonym NativeModSession = "LoadedNativeMod list"

definition loaded_mod_ids :: "NativeModSession \<Rightarrow> string list" where
  "loaded_mod_ids s = map loaded_id s"

text \<open>The calls of \<open>unload_all\<close>: last loaded, first unloaded; a throwing callback is ignored.\<close>

definition unload_all :: "NativeModSession \<Rightarrow> LibraryEvent list" where
  "unload_all s =
     concat (map (\<lambda>l. [unload_called (library_handle l), library_closed (library_handle l)]) (rev s))"

text \<open>
  Moving a session into another one: the target unloads what it holds and takes over the
  other's libraries, which is left empty.  Moving an object into itself does nothing.
\<close>

definition move_session :: "bool \<Rightarrow> NativeModSession \<Rightarrow> NativeModSession
    \<Rightarrow> (NativeModSession \<times> NativeModSession) \<times> LibraryEvent list" where
  "move_session same target other =
     (if same then ((target, other), []) else ((other, []), unload_all target))"

text \<open>
  What the code checks of a library's descriptor; the result is the outcome of \<open>on_load\<close>,
  which is called only behind all checks.
\<close>

definition check_descriptor :: "string \<Rightarrow> DescriptorCall \<Rightarrow> LoadCall result" where
  "check_descriptor i c =
     (case c of
        getter_throws \<Rightarrow>
          failure backend_unavailable (''native mod descriptor threw an exception: '' @ i)
      | getter_returns None \<Rightarrow>
          failure backend_unavailable (''native mod returned a null descriptor: '' @ i)
      | getter_returns (Some d) \<Rightarrow>
          if struct_size d < native_mod_size
          then failure backend_unavailable (''native mod descriptor is too small: '' @ i)
          else if abi_version d \<noteq> JOJO_NATIVE_MOD_ABI_V1
          then failure backend_unavailable
            (''native mod ABI mismatch for '' @ i @ '': expected '' @
             decimal (unat JOJO_NATIVE_MOD_ABI_V1) @ '', got '' @ decimal (unat (abi_version d)))
          else if desc_mod_id d \<noteq> Some i
          then failure backend_unavailable (''native mod id does not match manifest: '' @ i)
          else if on_load d = None \<or> on_unload d = None
          then failure backend_unavailable (''native mod callbacks are incomplete: '' @ i)
          else success (the (on_load d)))"

definition show_int :: "int \<Rightarrow> string" where
  "show_int n = (if n < 0 then CHR ''-'' # decimal (nat (- n)) else decimal (nat n))"

definition load_outcome :: "string \<Rightarrow> LoadCall \<Rightarrow> unit result" where
  "load_outcome i c =
     (case c of
        load_throws \<Rightarrow> failure backend_unavailable (''native mod on_load threw an exception: '' @ i)
      | load_returns n \<Rightarrow>
          if n \<noteq> 0
          then failure backend_unavailable
            (''native mod on_load failed for '' @ i @ '' with code '' @ show_int n)
          else success ())"

text \<open>
  One mod of the load order.  A library that is open when a check fails is closed by
  \<open>PendingLibrary\<close>; one that loaded belongs to the session.
\<close>

definition load_library :: "NativeHost \<Rightarrow> string \<Rightarrow> string \<Rightarrow> LoadedNativeMod result \<times> LibraryEvent list"
  where
  "load_library host i path =
     (case nh_open host path of
        Inl (e, m) \<Rightarrow> (failure e m, [])
      | Inr h \<Rightarrow>
          (case nh_symbol host h of
             Inl (e, m) \<Rightarrow> (failure e m, [library_opened h, library_closed h])
           | Inr _ \<Rightarrow>
               (case check_descriptor i (nh_getter host h) of
                  Inl (e, m) \<Rightarrow> (failure e m, [library_opened h, library_closed h])
                | Inr call \<Rightarrow>
                    (case load_outcome i call of
                       Inl (e, m) \<Rightarrow>
                         (failure e m, [library_opened h, load_called h call, library_closed h])
                     | Inr _ \<Rightarrow> (success \<lparr>library_handle = h, loaded_id = i\<rparr>,
                         [library_opened h, load_called h call])))))"

text \<open>The loop: a failure destroys the session, which unloads what it holds.\<close>

fun load_loop :: "NativeHost \<Rightarrow> bool \<Rightarrow> DiscoveredMod option list \<Rightarrow> NativeModSession
    \<Rightarrow> NativeModSession result \<times> LibraryEvent list" where
  "load_loop host allow [] s = (success s, [])"
| "load_loop host allow (None # ms) s =
     (failure invalid_argument ''resolved mod set contains a null mod'', unload_all s)"
| "load_loop host allow (Some d # ms) s =
     (if mod_kind (manifest d) \<noteq> native_mod then load_loop host allow ms s
      else if \<not> allow
      then (failure backend_unavailable
        (''native plugins are disabled; explicit opt-in is required for '' @ mod_id (manifest d)),
        unload_all s)
      else case validate_native_entry host d of
        Inl (e, m) \<Rightarrow> (failure e m, unload_all s)
      | Inr path \<Rightarrow>
          (case load_library host (mod_id (manifest d)) path of
             (Inl (e, m), events) \<Rightarrow> (failure e m, events @ unload_all s)
           | (Inr l, events) \<Rightarrow>
               (case load_loop host allow ms (s @ [l]) of (r, rest) \<Rightarrow> (r, events @ rest))))"

definition load_native_mods ::
  "NativeHost \<Rightarrow> bool \<Rightarrow> ResolvedModSet \<Rightarrow> NativeModSession result \<times> LibraryEvent list" where
  "load_native_mods host allow mods = load_loop host allow (load_order mods) []"

end
