(* ===== verification/Native_Spec.thy ===== *)
theory Native_Spec
  imports Native_Loader
begin

text \<open>
  Libraries as brackets: an automaton that follows the events with the stack of open
  libraries, and the property that the loader never leaves its language.
\<close>

datatype LibraryPhase = fresh | running | stopped

type_synonym open_libraries = "(handle \<times> LibraryPhase) list"

text \<open>
  Only the innermost library is called or closed; it is loaded once, unloaded once and only
  after it was loaded, and not closed while it runs.
\<close>

fun follow :: "LibraryEvent list \<Rightarrow> open_libraries \<Rightarrow> open_libraries option" where
  "follow [] st = Some st"
| "follow (library_opened h # es) st = follow es ((h, fresh) # st)"
| "follow (load_called h call # es) ((k, p) # st) =
     (if k = h \<and> p = fresh
      then follow es ((h, if call = load_returns 0 then running else stopped) # st) else None)"
| "follow (unload_called h # es) ((k, p) # st) =
     (if k = h \<and> p = running then follow es ((h, stopped) # st) else None)"
| "follow (library_closed h # es) ((k, p) # st) =
     (if k = h \<and> p \<noteq> running then follow es st else None)"
| "follow (e # es) [] = None"

definition open_of :: "NativeModSession \<Rightarrow> open_libraries" where
  "open_of s = rev (map (\<lambda>l. (library_handle l, running)) s)"

lemma open_of_snoc [simp]: "open_of (s @ [l]) = (library_handle l, running) # open_of s"
  by (simp add: open_of_def)

lemma follow_append: "follow (es @ fs) st = Option.bind (follow es st) (follow fs)"
  by (induction es st rule: follow.induct) simp_all

lemma follow_unload_all: "follow (unload_all s) (open_of s) = Some []"
  by (induction s rule: rev_induct) (simp_all add: unload_all_def open_of_def)

lemma follow_library:
  "load_library host i path = (r, es) \<Longrightarrow> follow es st =
     Some (case r of Inl _ \<Rightarrow> st | Inr l \<Rightarrow> (library_handle l, running) # st)"
  by (auto simp: load_library_def load_outcome_def split: sum.splits LoadCall.splits if_splits)

lemma library_loaded: "load_library host i path = (Inr l, es) \<Longrightarrow> loaded_id l = i"
  by (auto simp: load_library_def split: sum.splits prod.splits)

definition wanted :: "DiscoveredMod option list \<Rightarrow> DiscoveredMod list" where
  "wanted ms = filter (\<lambda>d. mod_kind (manifest d) = native_mod) (map the ms)"

lemma load_loop_follow:
  "load_loop host allow ms s = (r, es) \<Longrightarrow> follow es (open_of s) =
     Some (case r of Inl _ \<Rightarrow> [] | Inr t \<Rightarrow> open_of t)"
proof (induction host allow ms s arbitrary: r es rule: load_loop.induct)
  case (3 host allow d ms s)
  show ?case
  proof (cases "mod_kind (manifest d) = native_mod \<and> allow")
    case False
    then show ?thesis using 3 by (auto simp: follow_unload_all split: if_splits)
  next
    case True
    show ?thesis
    proof (cases "validate_native_entry host d")
      case (Inl e)
      then show ?thesis using 3 True by (auto simp: follow_unload_all split: prod.splits)
    next
      case (Inr path)
      obtain q ev where lib: "load_library host (mod_id (manifest d)) path = (q, ev)" by force
      show ?thesis
      proof (cases q)
        case (Inl e)
        then show ?thesis
          using "3.prems" True Inr lib follow_library [OF lib, of "open_of s"]
          by (auto simp: follow_append follow_unload_all split: prod.splits)
      next
        case q: (Inr l)
        obtain r2 es2 where rest: "load_loop host allow ms (s @ [l]) = (r2, es2)" by force
        then have "follow es2 (open_of (s @ [l])) = Some (case r2 of Inl _ \<Rightarrow> [] | Inr t \<Rightarrow> open_of t)"
          using "3.IH"(2) [OF _ _ Inr lib [symmetric, unfolded q] refl] True by simp
        then show ?thesis
          using "3.prems" True Inr lib q rest follow_library [OF lib, of "open_of s"]
          by (auto simp: follow_append)
      qed
    qed
  qed
qed (auto simp: follow_unload_all)

lemma load_loop_ids:
  "load_loop host allow ms s = (Inr t, es) \<Longrightarrow> None \<notin> set ms \<and>
     map loaded_id t = map loaded_id s @ map (\<lambda>d. mod_id (manifest d)) (wanted ms) \<and>
     (wanted ms \<noteq> [] \<longrightarrow> allow) \<and>
     (\<forall>d\<in>set (wanted ms). \<exists>path. validate_native_entry host d = Inr path)"
proof (induction host allow ms s arbitrary: es rule: load_loop.induct)
  case (3 host allow d ms s)
  show ?case
  proof (cases "mod_kind (manifest d) = native_mod")
    case False
    then show ?thesis using 3 by (simp add: wanted_def)
  next
    case True
    then have allow using "3.prems" by (auto split: if_splits)
    obtain path where path: "validate_native_entry host d = Inr path"
      using "3.prems" True \<open>allow\<close> by (auto split: sum.splits)
    obtain q ev where lib: "load_library host (mod_id (manifest d)) path = (q, ev)" by force
    obtain l where q: "q = Inr l"
      using "3.prems" True \<open>allow\<close> path lib by (cases q) auto
    obtain es2 where rest: "load_loop host allow ms (s @ [l]) = (Inr t, es2)"
      using "3.prems" True \<open>allow\<close> path lib q by (auto split: prod.splits)
    show ?thesis
      using "3.IH"(2) [OF _ _ path lib [symmetric, unfolded q] refl rest] True \<open>allow\<close> path
        library_loaded [OF lib [unfolded q]] by (simp add: wanted_def)
  qed
qed (simp_all add: wanted_def)

text \<open>C25.
  The native loader keeps its libraries bracketed, whatever the platform, the libraries and
  their callbacks do.  If it fails, every library it opened is closed again, innermost first,
  and \<open>on_unload\<close> ran exactly for those whose \<open>on_load\<close> returned 0, before they were closed.
  If it succeeds, exactly the native mods of the load order are loaded, in that order, each
  from a validated entry and only with the opt-in, and destroying the session closes all.
\<close>

theorem native_libraries_bracketed:
  assumes "load_native_mods host allow mods = (r, events)"
  shows "case r of
      Inl _ \<Rightarrow> follow events [] = Some []
    | Inr s \<Rightarrow> follow (events @ unload_all s) [] = Some [] \<and>
        loaded_mod_ids s = map (\<lambda>d. mod_id (manifest d)) (wanted (load_order mods)) \<and>
        (s \<noteq> [] \<longrightarrow> allow) \<and>
        (\<forall>d\<in>set (wanted (load_order mods)). \<exists>path. validate_native_entry host d = Inr path)"
proof -
  have run: "load_loop host allow (load_order mods) [] = (r, events)"
    using assms by (simp add: load_native_mods_def)
  note f = load_loop_follow [OF run, unfolded open_of_def [of "[]"], simplified]
  show ?thesis
  proof (cases r)
    case (Inl e)
    then show ?thesis using f by simp
  next
    case (Inr s)
    note ids = load_loop_ids [OF run [unfolded Inr]]
    have "s = [] \<longleftrightarrow> wanted (load_order mods) = []"
      using ids by (metis append_Nil list.map_disc_iff list.simps(8))
    then show ?thesis
      using f ids Inr by (simp add: follow_append follow_unload_all loaded_mod_ids_def)
  qed
qed

definition sample_native :: "string \<Rightarrow> DiscoveredMod" where
  "sample_native i = \<lparr>manifest = \<lparr>mod_id = i, mod_name = i, mod_version = kModApiVersion,
     api_version = kModApiVersion, mod_kind = native_mod, gameplay = True, mod_entry = ''x.so'',
     dependencies = [], conflicts = []\<rparr>, mod_root = i\<rparr>"

definition sample_host :: NativeHost where
  "sample_host = \<lparr>
     nh_paths = \<lparr>rooted_path = (\<lambda>p. False), path_parts = (\<lambda>p. [p]), normal_path = (\<lambda>p. p)\<rparr>,
     nh_status = (\<lambda>p. Inr (if length p = 1 then fs_directory else fs_regular)),
     nh_join = (\<lambda>a b. a @ ''/'' @ b),
     nh_open = (\<lambda>p. Inr (length (takeWhile (\<lambda>c. c \<noteq> hd p) ''abcdef''))),
     nh_symbol = (\<lambda>h. Inr ()),
     nh_getter = (\<lambda>h. getter_returns (Some \<lparr>struct_size = 32, abi_version = 1,
       desc_mod_id = Some [''abcdef'' ! h], on_load = Some (load_returns (if h = 2 then - 1 else 0)),
       on_unload = Some ()\<rparr>))\<rparr>"

text \<open>Three libraries, the last of which fails to load.\<close>

lemma sample_run:
  "snd (load_native_mods sample_host True
      \<lparr>load_order = map Some [sample_native ''a'', sample_native ''b'', sample_native ''c''],
       diagnostics = []\<rparr>) =
    [library_opened 0, load_called 0 (load_returns 0), library_opened 1,
     load_called 1 (load_returns 0), library_opened 2, load_called 2 (load_returns (- 1)),
     library_closed 2, unload_called 1, library_closed 1, unload_called 0, library_closed 0]"
  by code_simp

theorem native_libraries_bracketed_witness:
  "follow (snd (load_native_mods sample_host True
      \<lparr>load_order = map Some [sample_native ''a'', sample_native ''b''], diagnostics = []\<rparr>) @
     unload_all (projr (fst (load_native_mods sample_host True
      \<lparr>load_order = map Some [sample_native ''a'', sample_native ''b''], diagnostics = []\<rparr>)))) [] =
    Some []"
proof -
  let ?run = "load_native_mods sample_host True
      \<lparr>load_order = map Some [sample_native ''a'', sample_native ''b''], diagnostics = []\<rparr>"
  obtain r es where run: "?run = (r, es)" by force
  have "\<not> isl (fst ?run)" by code_simp
  then obtain s where "r = Inr s" using run by (cases r) auto
  then show ?thesis using native_libraries_bracketed [OF run] run by simp
qed

end
