(* ===== verification/Conversion_Manifest.thy ===== *)
theory Conversion_Manifest
  imports Outcome Settings_Props Ps1_Loader
begin

text \<open>
  The manifest of a converted game: the structure of \<^verbatim>\<open>src/src/core/conversion.h\<close> and the
  reader, writer and validation of \<^verbatim>\<open>conversion.cpp\<close>.  A manifest file is its text; the
  disk it is on is modelled in the installation theories.
\<close>

section \<open>Data\<close>

record ConversionManifest =
  manifest_version :: string
  converter_version :: string
  platform :: string
  game_id :: string
  source_name :: string
  source_format :: string
  source_size :: u64
  source_hash_fnv1a64 :: string
  revision_id :: string
  system_cnf_path :: string
  boot_executable :: string
  psx_exe_hash_fnv1a64 :: string
  psx_exe_entry :: "u32 option"
  psx_exe_load_address :: "u32 option"
  psx_exe_initial_gp :: "u32 option"
  psx_exe_text_size :: "u32 option"
  psx_exe_stack_base :: "u32 option"
  psx_exe_stack_size :: "u32 option"
  media_status :: string
  executable_status :: string
  mips_analysis_status :: string
  reference_runtime_status :: string
  native_codegen_status :: string
  hardware_runtime_status :: string
  boot_status :: string
  rendering_status :: string
  audio_status :: string
  input_status :: string
  gameplay_status :: string
  hash_hex :: string
  backend :: string
  boot_program_hash_hex :: string
  backend_abi_version :: "u32 option"
  backend_program_hash :: string
  backend_block_count :: "u64 option"
  backend_native_block_count :: "u64 option"
  backend_fallback_block_count :: "u64 option"
  backend_native_code_bytes :: "u64 option"

definition new_manifest :: ConversionManifest where
  "new_manifest = \<lparr>manifest_version = ''2'', converter_version = [], platform = ''playstation'',
     game_id = ''jojo-ps1'', source_name = [], source_format = [], source_size = 0,
     source_hash_fnv1a64 = [], revision_id = [], system_cnf_path = [], boot_executable = [],
     psx_exe_hash_fnv1a64 = [], psx_exe_entry = None, psx_exe_load_address = None,
     psx_exe_initial_gp = None, psx_exe_text_size = None, psx_exe_stack_base = None,
     psx_exe_stack_size = None, media_status = ''pending'', executable_status = ''pending'',
     mips_analysis_status = ''pending'', reference_runtime_status = ''pending'',
     native_codegen_status = ''pending'', hardware_runtime_status = ''pending'',
     boot_status = ''pending'', rendering_status = ''pending'', audio_status = ''pending'',
     input_status = ''pending'', gameplay_status = ''pending'', hash_hex = [],
     backend = ''pending-game-specific-recompiler'', boot_program_hash_hex = [],
     backend_abi_version = None, backend_program_hash = [], backend_block_count = None,
     backend_native_block_count = None, backend_fallback_block_count = None,
     backend_native_code_bytes = None\<rparr>"

section \<open>Values\<close>

definition parse_u64 :: "string \<Rightarrow> u64 result" where
  "parse_u64 t =
     (case from_chars_u64 t of
        Some (n, []) \<Rightarrow> success (of_nat n)
      | _ \<Rightarrow> failure invalid_installation (''invalid unsigned integer in manifest: '' @ t))"

definition parse_u32_decimal :: "string \<Rightarrow> u32 result" where
  "parse_u32_decimal t =
     on_success (parse_u64 t) (\<lambda>n.
       if 0xFFFFFFFF < n then failure invalid_installation ''manifest integer exceeds uint32 range''
       else success (ucast n))"

definition is_lower_hex :: "char \<Rightarrow> bool" where
  "is_lower_hex c \<longleftrightarrow> (let n = of_char c :: nat in 48 \<le> n \<and> n \<le> 57 \<or> 97 \<le> n \<and> n \<le> 102)"

definition hex_digit_value :: "char \<Rightarrow> nat" where
  "hex_digit_value c = (let n = of_char c :: nat in if n \<le> 57 then n - 48 else n - 87)"

definition hex_value :: "string \<Rightarrow> nat" where
  "hex_value ds = foldl (\<lambda>v c. 16 * v + hex_digit_value c) 0 ds"

definition parse_u32_hex_address :: "string \<Rightarrow> u32 result" where
  "parse_u32_hex_address t =
     (if length t \<noteq> 10 \<or> t ! 0 \<noteq> CHR ''0'' \<or> t ! 1 \<noteq> CHR ''x''
      then failure invalid_installation ''invalid 32-bit hexadecimal address in manifest''
      else if \<not> list_all is_lower_hex (drop 2 t)
      then failure invalid_installation ''invalid 32-bit hexadecimal address in manifest''
      else if 2 ^ 32 \<le> hex_value (drop 2 t)
      then failure invalid_installation ''invalid 32-bit hexadecimal address in manifest''
      else success (of_nat (hex_value (drop 2 t))))"

definition format_hex32 :: "u32 \<Rightarrow> string" where
  "format_hex32 v =
     ''0x'' @ map (\<lambda>k. hex_digit (unat (drop_bit (4 * k) v AND 15))) (rev [0..<8])"

definition is_lower_hex_16 :: "string \<Rightarrow> bool" where
  "is_lower_hex_16 t \<longleftrightarrow> length t = 16 \<and> list_all is_lower_hex t"

definition valid_status :: "string \<Rightarrow> bool" where
  "valid_status v \<longleftrightarrow> v = ''pending'' \<or> v = ''verified''"

section \<open>Validation\<close>

definition all_statuses :: "ConversionManifest \<Rightarrow> string list" where
  "all_statuses m = [
     media_status m, executable_status m, mips_analysis_status m, reference_runtime_status m,
     native_codegen_status m, hardware_runtime_status m, boot_status m, rendering_status m,
     audio_status m, input_status m, gameplay_status m]"

definition later_statuses :: "ConversionManifest \<Rightarrow> string list" where
  "later_statuses m = [
     mips_analysis_status m, reference_runtime_status m, native_codegen_status m,
     hardware_runtime_status m, boot_status m, rendering_status m, audio_status m,
     input_status m, gameplay_status m]"

definition missing_evidence :: "ConversionManifest \<Rightarrow> bool" where
  "missing_evidence m \<longleftrightarrow> system_cnf_path m = [] \<or> boot_executable m = [] \<or>
     psx_exe_hash_fnv1a64 m = [] \<or> psx_exe_entry m = None \<or> psx_exe_load_address m = None \<or>
     psx_exe_initial_gp m = None \<or> psx_exe_text_size m = None \<or> psx_exe_stack_base m = None \<or>
     psx_exe_stack_size m = None"

definition validate_v2_manifest :: "ConversionManifest \<Rightarrow> unit result" where
  "validate_v2_manifest m =
     (if manifest_version m \<noteq> ''2''
      then failure invalid_installation ''PS1 manifest_version must be 2''
      else if platform m \<noteq> ''playstation''
      then failure invalid_installation ''PS1 manifest platform must be playstation''
      else if converter_version m = [] \<or> game_id m = [] \<or> source_name m = [] \<or>
        source_format m = [] \<or> source_hash_fnv1a64 m = [] \<or> revision_id m = []
      then failure invalid_installation ''PS1 manifest is missing required identity fields''
      else if \<not> is_lower_hex_16 (source_hash_fnv1a64 m)
      then failure invalid_installation ''PS1 source hash must be 16 lowercase hexadecimal digits''
      else if \<not> list_all valid_status (all_statuses m)
      then failure invalid_installation ''PS1 manifest contains an invalid verification status''
      else if psx_exe_hash_fnv1a64 m \<noteq> [] \<and> \<not> is_lower_hex_16 (psx_exe_hash_fnv1a64 m)
      then failure invalid_installation ''PS-X EXE hash must be 16 lowercase hexadecimal digits''
      else if executable_status m = ''verified'' \<and> media_status m \<noteq> ''verified''
      then failure invalid_installation ''verified executable requires verified media''
      else if executable_status m = ''verified'' \<and> missing_evidence m
      then failure invalid_installation ''verified executable is missing PS-X EXE evidence''
      else if \<exists>s\<in>set (later_statuses m). s = ''verified'' \<and> executable_status m \<noteq> ''verified''
      then failure invalid_installation ''later PS1 verification requires a verified executable''
      else success ())"

definition has_complete_native_backend_metadata :: "ConversionManifest \<Rightarrow> bool" where
  "has_complete_native_backend_metadata m =
     (if boot_program_hash_hex m = [] \<or> backend_abi_version m = None \<or> backend_program_hash m = [] \<or>
        backend_block_count m = None \<or> backend_native_block_count m = None \<or>
        backend_fallback_block_count m = None \<or> backend_native_code_bytes m = None
      then False
      else the (backend_native_block_count m) \<le> the (backend_block_count m) \<and>
        the (backend_fallback_block_count m) =
          the (backend_block_count m) - the (backend_native_block_count m))"

definition validate_v1_manifest :: "ConversionManifest \<Rightarrow> unit result" where
  "validate_v1_manifest m =
     (if manifest_version m \<noteq> ''1'' \<or> converter_version m = [] \<or> source_name m = [] \<or>
        source_format m = [] \<or> hash_hex m = [] \<or> backend m = []
      then failure invalid_installation ''legacy manifest is missing required fields''
      else if backend m = ''native-ready'' \<and> \<not> has_complete_native_backend_metadata m
      then failure invalid_installation
        ''native-ready manifest is missing complete native backend metadata''
      else success ())"

section \<open>Reading\<close>

type_synonym manifest_entries = "(string \<times> string) list"

fun manifest_entries_of :: "string list \<Rightarrow> manifest_entries result" where
  "manifest_entries_of [] = success []"
| "manifest_entries_of (l # ls) =
     (let line = trim l in
      if line = [] \<or> hd line = CHR ''#'' \<or> hd line = CHR '';'' then manifest_entries_of ls
      else case split_equals line of
        None \<Rightarrow> failure invalid_installation (''manifest line is missing '' @ [CHR 0x27, CHR ''='', CHR 0x27])
      | Some (k, v) \<Rightarrow> on_success (manifest_entries_of ls) (\<lambda>es. success ((trim k, trim v) # es)))"

text \<open>The file: its path and its text, \<open>None\<close> when it cannot be opened.\<close>

definition read_manifest_entries :: "string \<Rightarrow> string option \<Rightarrow> manifest_entries result" where
  "read_manifest_entries path file =
     (case file of
        None \<Rightarrow> failure file_not_found (''game manifest not found: '' @ path)
      | Some t \<Rightarrow> manifest_entries_of (read_lines [] t))"

fun detect_loop :: "manifest_entries \<Rightarrow> string option \<Rightarrow> string option result" where
  "detect_loop [] version = success version"
| "detect_loop ((k, v) # es) version =
     (if k \<noteq> ''manifest_version'' then detect_loop es version
      else if version \<noteq> None then failure invalid_installation ''duplicate manifest_version key''
      else detect_loop es (Some v))"

definition detect_manifest_version :: "manifest_entries \<Rightarrow> string result" where
  "detect_manifest_version entries =
     on_success (detect_loop entries None) (\<lambda>version.
       case version of
         None \<Rightarrow> failure invalid_installation ''manifest_version key is missing''
       | Some v \<Rightarrow> success v)"

definition load_v1_entry :: "string \<Rightarrow> string \<Rightarrow> ConversionManifest \<Rightarrow> ConversionManifest result" where
  "load_v1_entry key v m =
     (if key = ''manifest_version'' then success (m\<lparr>manifest_version := v\<rparr>)
      else if key = ''converter_version'' then success (m\<lparr>converter_version := v\<rparr>)
      else if key = ''source_name'' then success (m\<lparr>source_name := v\<rparr>)
      else if key = ''source_format'' then success (m\<lparr>source_format := v\<rparr>)
      else if key = ''source_size'' then on_success (parse_u64 v) (\<lambda>n. success (m\<lparr>source_size := n\<rparr>))
      else if key = ''hash_fnv1a64'' then success (m\<lparr>hash_hex := v\<rparr>)
      else if key = ''revision_id'' then success (m\<lparr>revision_id := v\<rparr>)
      else if key = ''backend'' then success (m\<lparr>backend := v\<rparr>)
      else if key = ''boot_program_hash_fnv1a64'' then success (m\<lparr>boot_program_hash_hex := v\<rparr>)
      else if key = ''backend_abi_version'' then on_success (parse_u32_decimal v) (\<lambda>n. success (m\<lparr>backend_abi_version := Some n\<rparr>))
      else if key = ''backend_program_hash'' then success (m\<lparr>backend_program_hash := v\<rparr>)
      else if key = ''backend_block_count'' then on_success (parse_u64 v) (\<lambda>n. success (m\<lparr>backend_block_count := Some n\<rparr>))
      else if key = ''backend_native_block_count'' then on_success (parse_u64 v) (\<lambda>n. success (m\<lparr>backend_native_block_count := Some n\<rparr>))
      else if key = ''backend_fallback_block_count'' then on_success (parse_u64 v) (\<lambda>n. success (m\<lparr>backend_fallback_block_count := Some n\<rparr>))
      else if key = ''backend_native_code_bytes'' then on_success (parse_u64 v) (\<lambda>n. success (m\<lparr>backend_native_code_bytes := Some n\<rparr>))
      else success m)"

fun load_v1_entries :: "manifest_entries \<Rightarrow> ConversionManifest \<Rightarrow> ConversionManifest result" where
  "load_v1_entries [] m = success m"
| "load_v1_entries ((k, v) # es) m = on_success (load_v1_entry k v m) (load_v1_entries es)"

definition load_v1_manifest :: "manifest_entries \<Rightarrow> ConversionManifest result" where
  "load_v1_manifest entries =
     on_success (load_v1_entries entries (new_manifest\<lparr>manifest_version := ''1''\<rparr>)) (\<lambda>m.
       on_success (validate_v1_manifest m) (\<lambda>_. success m))"

definition parse_optional_hex :: "string \<Rightarrow> u32 option result" where
  "parse_optional_hex v =
     (if v = [] then success None
      else on_success (parse_u32_hex_address v) (\<lambda>n. success (Some n)))"

definition parse_optional_dec :: "string \<Rightarrow> u32 option result" where
  "parse_optional_dec v =
     (if v = [] then success None
      else on_success (parse_u32_decimal v) (\<lambda>n. success (Some n)))"

definition load_v2_entry :: "string \<Rightarrow> string \<Rightarrow> ConversionManifest \<Rightarrow> ConversionManifest result" where
  "load_v2_entry key v m =
     (if key = ''manifest_version'' then success (m\<lparr>manifest_version := v\<rparr>)
      else if key = ''converter_version'' then success (m\<lparr>converter_version := v\<rparr>)
      else if key = ''platform'' then success (m\<lparr>platform := v\<rparr>)
      else if key = ''game_id'' then success (m\<lparr>game_id := v\<rparr>)
      else if key = ''source_name'' then success (m\<lparr>source_name := v\<rparr>)
      else if key = ''source_format'' then success (m\<lparr>source_format := v\<rparr>)
      else if key = ''source_size'' then on_success (parse_u64 v) (\<lambda>n. success (m\<lparr>source_size := n\<rparr>))
      else if key = ''source_hash_fnv1a64'' then success (m\<lparr>source_hash_fnv1a64 := v\<rparr>)
      else if key = ''revision_id'' then success (m\<lparr>revision_id := v\<rparr>)
      else if key = ''system_cnf_path'' then success (m\<lparr>system_cnf_path := v\<rparr>)
      else if key = ''boot_executable'' then success (m\<lparr>boot_executable := v\<rparr>)
      else if key = ''psx_exe_hash_fnv1a64'' then success (m\<lparr>psx_exe_hash_fnv1a64 := v\<rparr>)
      else if key = ''psx_exe_entry'' then on_success (parse_optional_hex v) (\<lambda>n. success (m\<lparr>psx_exe_entry := n\<rparr>))
      else if key = ''psx_exe_load_address'' then on_success (parse_optional_hex v) (\<lambda>n. success (m\<lparr>psx_exe_load_address := n\<rparr>))
      else if key = ''psx_exe_initial_gp'' then on_success (parse_optional_hex v) (\<lambda>n. success (m\<lparr>psx_exe_initial_gp := n\<rparr>))
      else if key = ''psx_exe_text_size'' then on_success (parse_optional_dec v) (\<lambda>n. success (m\<lparr>psx_exe_text_size := n\<rparr>))
      else if key = ''psx_exe_stack_base'' then on_success (parse_optional_hex v) (\<lambda>n. success (m\<lparr>psx_exe_stack_base := n\<rparr>))
      else if key = ''psx_exe_stack_size'' then on_success (parse_optional_dec v) (\<lambda>n. success (m\<lparr>psx_exe_stack_size := n\<rparr>))
      else if key = ''media_status'' then success (m\<lparr>media_status := v\<rparr>)
      else if key = ''executable_status'' then success (m\<lparr>executable_status := v\<rparr>)
      else if key = ''mips_analysis_status'' then success (m\<lparr>mips_analysis_status := v\<rparr>)
      else if key = ''reference_runtime_status'' then success (m\<lparr>reference_runtime_status := v\<rparr>)
      else if key = ''native_codegen_status'' then success (m\<lparr>native_codegen_status := v\<rparr>)
      else if key = ''hardware_runtime_status'' then success (m\<lparr>hardware_runtime_status := v\<rparr>)
      else if key = ''boot_status'' then success (m\<lparr>boot_status := v\<rparr>)
      else if key = ''rendering_status'' then success (m\<lparr>rendering_status := v\<rparr>)
      else if key = ''audio_status'' then success (m\<lparr>audio_status := v\<rparr>)
      else if key = ''input_status'' then success (m\<lparr>input_status := v\<rparr>)
      else if key = ''gameplay_status'' then success (m\<lparr>gameplay_status := v\<rparr>)
      else failure invalid_installation (''unknown key in PS1 manifest v2: '' @ key))"

fun load_v2_entries :: "manifest_entries \<Rightarrow> string list \<Rightarrow> ConversionManifest
    \<Rightarrow> (string list \<times> ConversionManifest) result" where
  "load_v2_entries [] seen m = success (seen, m)"
| "load_v2_entries ((k, v) # es) seen m =
     (if k \<in> set seen
      then failure invalid_installation (''duplicate key in PS1 manifest v2: '' @ k)
      else on_success (load_v2_entry k v m) (load_v2_entries es (k # seen)))"

definition v2_required_keys :: "string list" where
  "v2_required_keys = [
     ''manifest_version'', ''converter_version'', ''platform'', ''game_id'', ''source_name'',
     ''source_format'', ''source_size'', ''source_hash_fnv1a64'', ''revision_id'',
     ''system_cnf_path'', ''boot_executable'', ''psx_exe_hash_fnv1a64'', ''psx_exe_entry'',
     ''psx_exe_load_address'', ''psx_exe_initial_gp'', ''psx_exe_text_size'',
     ''psx_exe_stack_base'', ''psx_exe_stack_size'', ''media_status'', ''executable_status'',
     ''mips_analysis_status'', ''reference_runtime_status'', ''native_codegen_status'',
     ''hardware_runtime_status'', ''boot_status'', ''rendering_status'', ''audio_status'',
     ''input_status'']"

definition load_v2_manifest :: "manifest_entries \<Rightarrow> ConversionManifest result" where
  "load_v2_manifest entries =
     on_success (load_v2_entries entries [] new_manifest) (\<lambda>(seen, m).
       case find (\<lambda>k. k \<notin> set seen) v2_required_keys of
         Some k \<Rightarrow> failure invalid_installation (''PS1 manifest v2 is missing required key: '' @ k)
       | None \<Rightarrow>
           if ''gameplay_status'' \<notin> set seen
           then failure invalid_installation
             ''PS1 manifest v2 is missing required key: gameplay_status''
           else on_success (validate_v2_manifest m) (\<lambda>_. success m))"

definition load_conversion_manifest :: "string \<Rightarrow> string option \<Rightarrow> ConversionManifest result" where
  "load_conversion_manifest path file =
     on_success (read_manifest_entries path file) (\<lambda>entries.
       on_success (detect_manifest_version entries) (\<lambda>version.
         if version = ''1'' then load_v1_manifest entries
         else if version = ''2'' then load_v2_manifest entries
         else failure invalid_installation (''unsupported manifest_version: '' @ version)))"

section \<open>Writing\<close>

definition pair_line :: "string \<times> string \<Rightarrow> string" where
  "pair_line p = fst p @ ''='' @ snd p @ [CHR 0x0A]"

definition optional_hex :: "u32 option \<Rightarrow> string" where
  "optional_hex v = (case v of None \<Rightarrow> [] | Some n \<Rightarrow> format_hex32 n)"

definition optional_dec :: "u32 option \<Rightarrow> string" where
  "optional_dec v = (case v of None \<Rightarrow> [] | Some n \<Rightarrow> decimal (unat n))"

definition when_text :: "string \<Rightarrow> string \<Rightarrow> manifest_entries" where
  "when_text key v = (if v = [] then [] else [(key, v)])"

definition when_number :: "string \<Rightarrow> 'a::len word option \<Rightarrow> manifest_entries" where
  "when_number key v = (case v of None \<Rightarrow> [] | Some n \<Rightarrow> [(key, decimal (unat n))])"

definition v1_pairs :: "ConversionManifest \<Rightarrow> manifest_entries" where
  "v1_pairs m =
     [(''manifest_version'', manifest_version m), (''converter_version'', converter_version m),
      (''source_name'', source_name m), (''source_format'', source_format m),
      (''source_size'', decimal (unat (source_size m))), (''hash_fnv1a64'', hash_hex m),
      (''revision_id'', revision_id m), (''backend'', backend m)] @
     when_text ''boot_program_hash_fnv1a64'' (boot_program_hash_hex m) @
     when_number ''backend_abi_version'' (backend_abi_version m) @
     when_text ''backend_program_hash'' (backend_program_hash m) @
     when_number ''backend_block_count'' (backend_block_count m) @
     when_number ''backend_native_block_count'' (backend_native_block_count m) @
     when_number ''backend_fallback_block_count'' (backend_fallback_block_count m) @
     when_number ''backend_native_code_bytes'' (backend_native_code_bytes m)"

definition v2_pairs :: "ConversionManifest \<Rightarrow> manifest_entries" where
  "v2_pairs m = [
     (''manifest_version'', manifest_version m), (''converter_version'', converter_version m),
     (''platform'', platform m), (''game_id'', game_id m), (''source_name'', source_name m),
     (''source_format'', source_format m), (''source_size'', decimal (unat (source_size m))),
     (''source_hash_fnv1a64'', source_hash_fnv1a64 m), (''revision_id'', revision_id m),
     (''system_cnf_path'', system_cnf_path m), (''boot_executable'', boot_executable m),
     (''psx_exe_hash_fnv1a64'', psx_exe_hash_fnv1a64 m),
     (''psx_exe_entry'', optional_hex (psx_exe_entry m)),
     (''psx_exe_load_address'', optional_hex (psx_exe_load_address m)),
     (''psx_exe_initial_gp'', optional_hex (psx_exe_initial_gp m)),
     (''psx_exe_text_size'', optional_dec (psx_exe_text_size m)),
     (''psx_exe_stack_base'', optional_hex (psx_exe_stack_base m)),
     (''psx_exe_stack_size'', optional_dec (psx_exe_stack_size m)),
     (''media_status'', media_status m), (''executable_status'', executable_status m),
     (''mips_analysis_status'', mips_analysis_status m),
     (''reference_runtime_status'', reference_runtime_status m),
     (''native_codegen_status'', native_codegen_status m),
     (''hardware_runtime_status'', hardware_runtime_status m),
     (''boot_status'', boot_status m), (''rendering_status'', rendering_status m),
     (''audio_status'', audio_status m), (''input_status'', input_status m),
     (''gameplay_status'', gameplay_status m)]"

definition write_v1_manifest :: "ConversionManifest \<Rightarrow> string" where
  "write_v1_manifest m = concat (map pair_line (v1_pairs m))"

definition write_v2_manifest :: "ConversionManifest \<Rightarrow> string" where
  "write_v2_manifest m = concat (map pair_line (v2_pairs m))"

definition validate_manifest :: "ConversionManifest \<Rightarrow> unit result" where
  "validate_manifest m =
     (if manifest_version m = ''1'' then validate_v1_manifest m else validate_v2_manifest m)"

definition manifest_file_text :: "ConversionManifest \<Rightarrow> string" where
  "manifest_file_text m =
     (if manifest_version m = ''1'' then write_v1_manifest m else write_v2_manifest m)"

section \<open>Small decisions of the conversion\<close>

definition required_install_bytes :: "u64 \<Rightarrow> u64 \<Rightarrow> u64 result" where
  "required_install_bytes system_cnf_size executable_size =
     (let reserve = 65536; max_value = - 1 :: u64 in
      if system_cnf_size > max_value - reserve
      then failure invalid_installation ''installation size calculation overflowed''
      else
        let with_system = reserve + system_cnf_size in
        if executable_size > max_value - with_system
        then failure invalid_installation ''installation size calculation overflowed''
        else success (with_system + executable_size))"

definition observed_disc_revisions :: "(string \<times> u64 \<times> string \<times> string) list" where
  "observed_disc_revisions =
     [(''bin'', 666806112, ''b8b5dbf79cdb9fcf'', ''jojo-usa-observed-b8b5dbf79cdb9fcf'')]"

definition identify_observed_disc_revision :: "string \<Rightarrow> u64 \<Rightarrow> string \<Rightarrow> string result" where
  "identify_observed_disc_revision format n hash =
     (case find (\<lambda>(f, s, h, r). f = format \<and> s = n \<and> h = hash) observed_disc_revisions of
        Some (f, s, h, r) \<Rightarrow> success r
      | None \<Rightarrow> failure unknown_revision
          ''disc fingerprint does not match any observed game revision'')"

end
