(* ===== verification/File_Store.thy ===== *)
theory File_Store
  imports Outcome Ascii_Text
begin

text \<open>
  A disk for the installation code: files and directories by path, and the calls of
  \<open>std::filesystem\<close> and of the file streams that the code makes on it.  Every call may fail:
  \<open>disk_error\<close> says which of the calls, counted from the start, the system refuses and with
  which message.  A refused call changes nothing, except that a write leaves a prefix of the
  new contents.  A crash is a call from which on all are refused.  There are no symbolic links,
  and renaming follows POSIX.
\<close>

type_synonym path = "string list"

datatype Node = dir_node | file_node string

record Disk =
  disk_nodes :: "(path \<times> Node) list"
  disk_calls :: nat
  disk_error :: "nat \<Rightarrow> string option"
  disk_torn :: "nat \<Rightarrow> nat"
  disk_free :: u64
  disk_clock :: string

type_synonym 'a step = "Disk \<Rightarrow> 'a \<times> Disk"

definition looks :: "Disk \<Rightarrow> path \<Rightarrow> Node option" where
  "looks d p = map_of (disk_nodes d) p"

definition put_node :: "path \<Rightarrow> Node \<Rightarrow> Disk \<Rightarrow> Disk" where
  "put_node p n d = d\<lparr>disk_nodes := (p, n) # filter (\<lambda>q. fst q \<noteq> p) (disk_nodes d)\<rparr>"

definition drop_node :: "path \<Rightarrow> Disk \<Rightarrow> Disk" where
  "drop_node p d = d\<lparr>disk_nodes := filter (\<lambda>q. fst q \<noteq> p) (disk_nodes d)\<rparr>"

text \<open>A call: the error the system reports, if any.\<close>

definition os_call :: "string option step" where
  "os_call d = (disk_error d (disk_calls d), d\<lparr>disk_calls := Suc (disk_calls d)\<rparr>)"

text \<open>An operation with results that passes on the error of a step, on any state.\<close>

definition and_then ::
  "('s \<Rightarrow> 'a result \<times> 's) \<Rightarrow> ('a \<Rightarrow> 's \<Rightarrow> 'b result \<times> 's) \<Rightarrow> 's \<Rightarrow> 'b result \<times> 's" where
  "and_then f g s = (case f s of (Inl (e, m), s1) \<Rightarrow> (failure e m, s1) | (Inr a, s1) \<Rightarrow> g a s1)"

definition give :: "'a result \<Rightarrow> 's \<Rightarrow> 'a result \<times> 's" where
  "give r s = (r, s)"

section \<open>Questions\<close>

definition fs_question :: "(Node option \<Rightarrow> bool) \<Rightarrow> path \<Rightarrow> (string + bool) step" where
  "fs_question ask p d = (case os_call d of
     (Some m, d1) \<Rightarrow> (Inl m, d1) | (None, d1) \<Rightarrow> (Inr (ask (looks d p)), d1))"

definition fs_exists :: "path \<Rightarrow> (string + bool) step" where
  "fs_exists = fs_question (\<lambda>n. n \<noteq> None)"

definition fs_is_directory :: "path \<Rightarrow> (string + bool) step" where
  "fs_is_directory = fs_question (\<lambda>n. n = Some dir_node)"

definition is_file :: "Node option \<Rightarrow> bool" where
  "is_file n \<longleftrightarrow> (case n of Some (file_node t) \<Rightarrow> True | _ \<Rightarrow> False)"

definition fs_is_regular :: "path \<Rightarrow> (string + bool) step" where
  "fs_is_regular = fs_question is_file"

text \<open>The names in a directory; \<open>Inl\<close> when it cannot be opened.\<close>

definition children :: "(path \<times> Node) list \<Rightarrow> path \<Rightarrow> string list" where
  "children ns p = map (\<lambda>q. last (fst q)) (filter (\<lambda>q. fst q \<noteq> [] \<and> butlast (fst q) = p) ns)"

definition fs_list :: "path \<Rightarrow> (string + string list) step" where
  "fs_list p d = (case os_call d of
     (Some m, d1) \<Rightarrow> (Inl m, d1) | (None, d1) \<Rightarrow> (Inr (children (disk_nodes d) p), d1))"

definition fs_space :: "(string + u64) step" where
  "fs_space d = (case os_call d of (Some m, d1) \<Rightarrow> (Inl m, d1) | (None, d1) \<Rightarrow> (Inr (disk_free d), d1))"

text \<open>
  Reading a file to its end: \<open>None\<close> when it cannot be opened, otherwise the text and whether
  the end was reached without an error.
\<close>

definition fs_read :: "path \<Rightarrow> (string \<times> bool) option step" where
  "fs_read p d = (case os_call d of
     (Some m, d1) \<Rightarrow> (None, d1)
   | (None, d1) \<Rightarrow>
       (case looks d p of
          Some (file_node t) \<Rightarrow>
            (case os_call d1 of
               (Some m, d2) \<Rightarrow> (Some (take (disk_torn d1 (disk_calls d1)) t, False), d2)
             | (None, d2) \<Rightarrow> (Some (t, True), d2))
        | _ \<Rightarrow> (None, d1)))"

section \<open>Changes\<close>

definition parent_ok :: "Disk \<Rightarrow> path \<Rightarrow> bool" where
  "parent_ok d p \<longleftrightarrow> p \<noteq> [] \<and> looks d (butlast p) = Some dir_node"

fun make_directories :: "path list \<Rightarrow> Disk \<Rightarrow> Disk option" where
  "make_directories [] d = Some d"
| "make_directories (p # ps) d =
     (case looks d p of
        None \<Rightarrow> make_directories ps (put_node p dir_node d)
      | Some dir_node \<Rightarrow> make_directories ps d
      | Some (file_node t) \<Rightarrow> None)"

definition prefixes_of :: "path \<Rightarrow> path list" where
  "prefixes_of p = map (\<lambda>n. take n p) [1..<Suc (length p)]"

definition fs_create_directories :: "path \<Rightarrow> string option step" where
  "fs_create_directories p d = (case os_call d of
     (Some m, d1) \<Rightarrow> (Some m, d1)
   | (None, d1) \<Rightarrow>
       (case make_directories (prefixes_of p) d1 of
          None \<Rightarrow> (Some ''Not a directory'', d1)
        | Some d2 \<Rightarrow> (None, d2)))"

definition fs_create_directory :: "path \<Rightarrow> string option step" where
  "fs_create_directory p d = (case os_call d of
     (Some m, d1) \<Rightarrow> (Some m, d1)
   | (None, d1) \<Rightarrow>
       (case looks d p of
          Some dir_node \<Rightarrow> (None, d1)
        | Some (file_node t) \<Rightarrow> (Some ''File exists'', d1)
        | None \<Rightarrow>
            if parent_ok d p then (None, put_node p dir_node d1)
            else (Some ''No such file or directory'', d1)))"

definition below :: "path \<Rightarrow> path \<Rightarrow> bool" where
  "below p q \<longleftrightarrow> take (length p) q = p"

definition move_nodes :: "path \<Rightarrow> path \<Rightarrow> (path \<times> Node) list \<Rightarrow> (path \<times> Node) list" where
  "move_nodes a b ns =
     map (\<lambda>(q, n). (if below a q then b @ drop (length a) q else q, n))
       (filter (\<lambda>q. \<not> below b (fst q)) ns)"

text \<open>A file replaces a file; a directory moves to a name that is free.\<close>

definition fs_rename :: "path \<Rightarrow> path \<Rightarrow> string option step" where
  "fs_rename a b d = (case os_call d of
     (Some m, d1) \<Rightarrow> (Some m, d1)
   | (None, d1) \<Rightarrow>
       if looks d a = None \<or> \<not> parent_ok d b then (Some ''No such file or directory'', d1)
       else if below a b \<or> below b a then (Some ''Invalid argument'', d1)
       else if looks d a = Some dir_node \<and> looks d b \<noteq> None then (Some ''File exists'', d1)
       else if looks d b = Some dir_node then (Some ''Is a directory'', d1)
       else (None, d1\<lparr>disk_nodes := move_nodes a b (disk_nodes d)\<rparr>))"

definition fs_remove :: "path \<Rightarrow> string option step" where
  "fs_remove p d = (case os_call d of
     (Some m, d1) \<Rightarrow> (Some m, d1)
   | (None, d1) \<Rightarrow>
       if children (disk_nodes d) p \<noteq> [] then (Some ''Directory not empty'', d1)
       else (None, drop_node p d1))"

datatype WriteOutcome = not_opened | not_written | written

definition fs_write :: "path \<Rightarrow> string \<Rightarrow> WriteOutcome step" where
  "fs_write p t d = (case os_call d of
     (Some m, d1) \<Rightarrow> (not_opened, d1)
   | (None, d1) \<Rightarrow>
       if \<not> parent_ok d p \<or> looks d p = Some dir_node then (not_opened, d1)
       else case os_call d1 of
         (Some m, d2) \<Rightarrow>
           (not_written, put_node p (file_node (take (disk_torn d1 (disk_calls d1)) t)) d2)
       | (None, d2) \<Rightarrow> (written, put_node p (file_node t) d2))"

section \<open>Paths\<close>

text \<open>
  The components of a path as the library splits a POSIX path: the root, the names, and an
  empty name behind a trailing slash; and its normal form.
\<close>

definition path_of :: "string \<Rightarrow> path" where
  "path_of s =
     (let ps = split_on (CHR ''/'') s; names = filter (\<lambda>p. p \<noteq> []) ps;
          root = (if s \<noteq> [] \<and> hd s = CHR ''/'' then [''/''] else []) in
      root @ names @ (if names \<noteq> [] \<and> last ps = [] then [[]] else []))"

fun normal_loop :: "path \<Rightarrow> path \<Rightarrow> bool \<Rightarrow> path \<times> bool" where
  "normal_loop [] out trailing = (out, trailing)"
| "normal_loop (c # cs) out trailing =
     (if c = ''.'' \<or> c = [] then normal_loop cs out True
      else if c = ''..'' \<and> out \<noteq> [] \<and> last out = ''/'' then normal_loop cs out True
      else if c = ''..'' \<and> out \<noteq> [] \<and> last out \<noteq> ''..'' then normal_loop cs (butlast out) True
      else normal_loop cs (out @ [c]) False)"

definition lexically_normal :: "path \<Rightarrow> path" where
  "lexically_normal p =
     (if p = [] then []
      else case normal_loop p [] False of (out, trailing) \<Rightarrow>
        if out = [] then [''.'']
        else if trailing \<and> last out \<noteq> ''..'' \<and> last out \<noteq> ''/'' then out @ [[]] else out)"

definition path_string :: "path \<Rightarrow> string" where
  "path_string p =
     (if p \<noteq> [] \<and> hd p = ''/'' then CHR ''/'' # concat (map (\<lambda>c. c @ ''/'') (butlast (tl p))) @ last ([] # tl p)
      else concat (map (\<lambda>c. c @ ''/'') (butlast p)) @ last ([] # p))"

definition same_path :: "path \<Rightarrow> path \<Rightarrow> bool" where
  "same_path a b \<longleftrightarrow> lexically_normal a = lexically_normal b"

section \<open>What the calls leave\<close>

lemma map_of_without:
  "map_of (filter (\<lambda>q. fst q \<noteq> p) ns) x = (if x = p then None else map_of ns x)"
  by (induction ns) auto

lemma looks_put [simp]: "looks (put_node p n d) = (looks d)(p \<mapsto> n)"
  by (simp add: looks_def put_node_def map_of_without fun_eq_iff)

lemma looks_drop [simp]: "looks (drop_node p d) = (looks d)(p := None)"
  by (simp add: looks_def drop_node_def map_of_without fun_eq_iff)

lemma looks_calls [simp]: "looks (d\<lparr>disk_calls := n\<rparr>) = looks d"
  by (simp add: looks_def fun_eq_iff)

lemma os_call_state: "os_call d = (r, d1) \<Longrightarrow> disk_nodes d1 = disk_nodes d \<and> looks d1 = looks d"
  by (auto simp: os_call_def looks_def fun_eq_iff)

lemma fs_question_state:
  "fs_question ask p d = (r, d1) \<Longrightarrow>
     disk_nodes d1 = disk_nodes d \<and> looks d1 = looks d \<and> (\<forall>b. r = Inr b \<longrightarrow> b = ask (looks d p))"
  by (auto simp: fs_question_def dest: os_call_state split: prod.splits option.splits)

lemmas fs_exists_state = fs_question_state [of "\<lambda>n. n \<noteq> None", folded fs_exists_def]
lemmas fs_is_directory_state = fs_question_state [of "\<lambda>n. n = Some dir_node", folded fs_is_directory_def]
lemmas fs_is_regular_state = fs_question_state [of is_file, folded fs_is_regular_def]

lemma fs_list_state:
  "fs_list p d = (r, d1) \<Longrightarrow> disk_nodes d1 = disk_nodes d \<and> looks d1 = looks d \<and>
     (\<forall>ns. r = Inr ns \<longrightarrow> ns = children (disk_nodes d) p)"
  by (auto simp: fs_list_def dest: os_call_state split: prod.splits option.splits)

lemma fs_write_state:
  "fs_write p t d = (r, d1) \<Longrightarrow>
     (r = written \<longrightarrow> looks d1 = (looks d)(p \<mapsto> file_node t) \<and> parent_ok d p \<and> looks d p \<noteq> Some dir_node) \<and>
     (looks d1 = looks d \<or> (\<exists>u. looks d1 = (looks d)(p \<mapsto> file_node u) \<and> looks d p \<noteq> Some dir_node))"
  by (auto simp: fs_write_def dest!: os_call_state split: prod.splits option.splits if_splits)

lemma below_append: "below p (p @ q)" by (simp add: below_def)

lemma below_iff: "below p q \<longleftrightarrow> (\<exists>r. q = p @ r)"
  by (metis append_take_drop_id below_append below_def)

lemma map_of_move:
  assumes "\<not> below a b" "\<not> below b a"
  shows "map_of (move_nodes a b ns) q =
    (if below b q then map_of ns (a @ drop (length b) q) else if below a q then None else map_of ns q)"
proof (induction ns)
  case Nil
  then show ?case by (simp add: move_nodes_def)
next
  case (Cons x ns)
  obtain p n where x: "x = (p, n)" by force
  have sep: "\<not> (below a z \<and> below b z)" for z
    using assms by (auto simp: below_iff) (metis append_eq_append_conv2)+
  show ?case
  proof (cases "below b p")
    case True
    then have "move_nodes a b (x # ns) = move_nodes a b ns" by (simp add: move_nodes_def x)
    moreover have "a @ drop (length b) q \<noteq> p" using True sep [of p] by (auto simp: below_append)
    ultimately show ?thesis using Cons True by (auto simp: x)
  next
    case False
    then have m: "move_nodes a b (x # ns) =
        (if below a p then b @ drop (length a) p else p, n) # move_nodes a b ns"
      by (simp add: move_nodes_def x)
    show ?thesis
    proof (cases "below a p")
      case True
      then obtain r where p: "p = a @ r" by (auto simp: below_iff)
      have m': "map_of (move_nodes a b (x # ns)) q =
          (if q = b @ r then Some n else map_of (move_nodes a b ns) q)"
        using True by (simp add: m p)
      show ?thesis
      proof (cases "below b q")
        case True
        then obtain s where "q = b @ s" by (auto simp: below_iff)
        then show ?thesis using Cons unfolding m' by (simp add: x p below_append)
      next
        case False
        then have "q \<noteq> b @ r" by (auto simp: below_append)
        then show ?thesis
          using Cons False unfolding m' by (auto simp: x p below_append)
      qed
    next
      case f: False
      have "a @ drop (length b) q \<noteq> p" using f by (auto simp: below_append)
      then show ?thesis using Cons False f unfolding m by (auto simp: x)
    qed
  qed
qed

lemma fs_rename_state:
  "fs_rename a b d = (r, d1) \<Longrightarrow>
     (if r = None then looks d a \<noteq> None \<and> looks d1 = (\<lambda>q. if below b q then looks d (a @ drop (length b) q)
         else if below a q then None else looks d q)
      else looks d1 = looks d)"
  by (auto simp: fs_rename_def looks_def map_of_move fun_eq_iff dest!: os_call_state
      split: prod.splits option.splits if_splits)

end
