(* ===== verification/Report_Writer.thy ===== *)
theory Report_Writer
  imports Conversion_Manifest File_Store Ps1_Explorer
begin

text \<open>
  The report files, from \<^verbatim>\<open>src/src/core/ps1_boot_report_io.cpp\<close> and
  \<^verbatim>\<open>ps1_max3_report_io.cpp\<close>: the lines of a report in the order the code writes them, and
  saving a report next to its target before replacing it.
\<close>

section \<open>Values\<close>

definition hex32 :: "u32 \<Rightarrow> string" where
  "hex32 v = format_hex32 v"

definition hex64 :: "u64 \<Rightarrow> string" where
  "hex64 v = ''0x'' @ hex16 v"

definition optional_hex32 :: "u32 option \<Rightarrow> string" where
  "optional_hex32 v = (case v of None \<Rightarrow> ''none'' | Some n \<Rightarrow> hex32 n)"

definition optional_u8 :: "u8 option \<Rightarrow> string" where
  "optional_u8 v = (case v of None \<Rightarrow> ''none'' | Some n \<Rightarrow> decimal (unat n))"

definition optional_exception :: "R3000aExceptionCode option \<Rightarrow> string" where
  "optional_exception v = (case v of None \<Rightarrow> ''none'' | Some e \<Rightarrow> decimal (unat (exception_number e)))"

definition show_flag :: "bool \<Rightarrow> string" where
  "show_flag b = (if b then ''1'' else ''0'')"

text \<open>The numbers of the enumerators, which the report prints.\<close>

fun boundary_number :: "R3000aBoundaryCode \<Rightarrow> nat" where
  "boundary_number bnd_none = 0"
| "boundary_number bnd_unsupported_address_space = 1"
| "boundary_number bnd_architectural_operation_unimplemented = 2"
| "boundary_number bnd_cop2_unimplemented = 3"
| "boundary_number bnd_unpredictable_delay_slot_control_transfer = 4"

fun stage_number :: "R3000aStage \<Rightarrow> nat" where
  "stage_number stage_interrupt = 0"
| "stage_number stage_fetch = 1"
| "stage_number stage_decode = 2"
| "stage_number stage_execute = 3"
| "stage_number stage_memory = 4"
| "stage_number stage_cop0 = 5"
| "stage_number stage_cop2 = 6"

fun ps1_boot_stop_reason_name :: "Ps1BootStopReason \<Rightarrow> string" where
  "ps1_boot_stop_reason_name stop_none = ''none''"
| "ps1_boot_stop_reason_name execution_budget_exhausted = ''execution_budget_exhausted''"
| "ps1_boot_stop_reason_name cpu_boundary = ''cpu_boundary''"
| "ps1_boot_stop_reason_name bios_call_unimplemented = ''bios_call_unimplemented''"
| "ps1_boot_stop_reason_name bios_call_unknown = ''bios_call_unknown''"
| "ps1_boot_stop_reason_name mmio_unimplemented = ''mmio_unimplemented''"
| "ps1_boot_stop_reason_name installed_media_missing = ''installed_media_missing''"
| "ps1_boot_stop_reason_name device_command_unimplemented = ''device_command_unimplemented''"
| "ps1_boot_stop_reason_name gpu_command_unimplemented = ''gpu_command_unimplemented''"
| "ps1_boot_stop_reason_name commercial_frame_presented = ''commercial_frame_presented''"
| "ps1_boot_stop_reason_name fatal_runtime_error = ''fatal_runtime_error''"
| "ps1_boot_stop_reason_name diagnostic_stall = ''diagnostic_stall''"

fun ps1_bios_fallback_name :: "Ps1BiosFallback \<Rightarrow> string" where
  "ps1_bios_fallback_name return_zero = ''return_zero''"
| "ps1_bios_fallback_name return_one = ''return_one''"
| "ps1_bios_fallback_name return_minus_one = ''return_minus_one''"
| "ps1_bios_fallback_name preserve_v0 = ''preserve_v0''"

fun ps1_max3_termination_reason_name :: "Ps1Max3TerminationReason \<Rightarrow> string" where
  "ps1_max3_termination_reason_name completed = ''completed''"
| "ps1_max3_termination_reason_name node_limit = ''node_limit''"
| "ps1_max3_termination_reason_name total_retired_limit = ''total_retired_limit''"

fun dependency_kind_name :: "Ps1Max3DependencyKind \<Rightarrow> string" where
  "dependency_kind_name bios_frontier = ''bios_frontier''"
| "dependency_kind_name speculative_mmio = ''speculative_mmio''"

section \<open>The boot report\<close>

type_synonym report_lines = "(string \<times> string) list"

definition prefixed :: "string \<Rightarrow> report_lines \<Rightarrow> report_lines" where
  "prefixed pre ls = map (\<lambda>(k, v). (pre @ k, v)) ls"

text \<open>The entries of a list, each under its index.\<close>

definition indexed :: "string \<Rightarrow> ('a \<Rightarrow> report_lines) \<Rightarrow> 'a list \<Rightarrow> report_lines" where
  "indexed pre f xs =
     concat (map (\<lambda>i. prefixed (pre @ decimal i @ ''_'') (f (xs ! i))) [0..<length xs])"

definition none_lines :: "string \<Rightarrow> string list \<Rightarrow> report_lines" where
  "none_lines pre ks = map (\<lambda>k. (pre @ k, ''none'')) ks"

definition head_lines :: "Ps1BootReport \<Rightarrow> report_lines" where
  "head_lines r = [
     (''format'', if diagnostic_probe_mode r then ''jojo-mega-checkpoint-v1'' else ''jojo-m3a-checkpoint-v1''),
     (''stop_reason'', ps1_boot_stop_reason_name (stop_reason r)),
     (''instructions_retired'', decimal (unat (instructions_retired r))),
     (''last_pc'', hex32 (last_pc r)),
     (''last_opcode'', optional_hex32 (last_opcode r)),
     (''diagnostic_probe_mode'', show_flag (diagnostic_probe_mode r)),
     (''speculative_mmio_count'', decimal (unat (speculative_mmio_count r))),
     (''bios_call_count'', decimal (unat (bios_call_count r))),
     (''interrupts_accepted'', decimal (unat (interrupts_accepted r))),
     (''dma_transfer_count'', decimal (unat (dma_transfer_count r))),
     (''gpu_gp0_command_count'', decimal (unat (gpu_gp0_command_count r))),
     (''gpu_gp1_command_count'', decimal (unat (gpu_gp1_command_count r))),
     (''vram_write_count'', decimal (unat (vram_write_count r))),
     (''presented_frames'', decimal (unat (presented_frames r))),
     (''trace_sample_count'', decimal (length (recent_trace r)))]"

definition trace_lines :: "Ps1TraceSample \<Rightarrow> report_lines" where
  "trace_lines e = [(''pc'', hex32 (trace_pc e)), (''opcode'', optional_hex32 (trace_opcode e))]"

definition bios_lines :: "Ps1BiosCallSummary \<Rightarrow> report_lines" where
  "bios_lines e = [
     (''pc'', hex32 (call_pc e)),
     (''table'', hex32 (call_table e)),
     (''selector'', hex32 (call_selector e)),
     (''a0'', hex32 (call_a0 e)),
     (''a1'', hex32 (call_a1 e)),
     (''a2'', hex32 (call_a2 e)),
     (''a3'', hex32 (call_a3 e)),
     (''ra'', hex32 (call_ra e))]"

definition mmio_lines :: "Ps1MmioSummary \<Rightarrow> report_lines" where
  "mmio_lines e = [
     (''pc'', hex32 (mmio_pc e)),
     (''address'', hex32 (mmio_address e)),
     (''width'', decimal (unat (mmio_width e))),
     (''write'', show_flag (mmio_write e)),
     (''value'', hex32 (mmio_value e)),
     (''speculative'', show_flag (mmio_speculative e))]"

definition cdrom_lines :: "Ps1CdromCommandSummary \<Rightarrow> report_lines" where
  "cdrom_lines e = [
     (''command'', decimal (unat (cd_command e))),
     (''index'', decimal (unat (cd_index e))),
     (''status'', decimal (unat (cd_status e)))]"

definition cpu_lines :: "R3000aDiagnostic \<Rightarrow> report_lines" where
  "cpu_lines c = [
     (''boundary'', decimal (boundary_number (diag_boundary c))),
     (''stage'', decimal (stage_number (diag_stage c))),
     (''pc'', hex32 (diag_pc c)),
     (''opcode'', optional_hex32 (diag_opcode c)),
     (''address'', optional_hex32 (diag_address c)),
     (''write_value'', optional_hex32 (diag_write_value c)),
     (''access_width'', optional_u8 (diag_access_width c)),
     (''coprocessor'', optional_u8 (diag_coprocessor c)),
     (''register_index'', optional_u8 (diag_register_index c)),
     (''exception_code'', optional_exception (diag_exception_code c))]"

definition unsupported_lines :: "Ps1UnsupportedAccess \<Rightarrow> report_lines" where
  "unsupported_lines a = [
     (''guest_address'', hex32 (guest_address a)),
     (''physical_address'', hex32 (physical_address a)),
     (''width'', decimal (unat (width a))),
     (''write'', show_flag (is_write a)),
     (''value'', hex32 (access_value a))]"

definition last_lines :: "string \<Rightarrow> string list \<Rightarrow> ('a \<Rightarrow> report_lines) \<Rightarrow> 'a list \<Rightarrow> report_lines" where
  "last_lines pre ks f xs = (if xs = [] then none_lines pre ks else prefixed pre (f (last xs)))"

definition optional_lines :: "string \<Rightarrow> string list \<Rightarrow> ('a \<Rightarrow> report_lines) \<Rightarrow> 'a option \<Rightarrow> report_lines" where
  "optional_lines pre ks f x = (case x of None \<Rightarrow> none_lines pre ks | Some a \<Rightarrow> prefixed pre (f a))"

definition boot_report_lines :: "Ps1BootReport \<Rightarrow> report_lines" where
  "boot_report_lines r =
     head_lines r @
     indexed ''trace_'' trace_lines (recent_trace r) @
     [(''bios_event_count'', decimal (length (recent_bios_calls r)))] @
     indexed ''bios_event_'' bios_lines (recent_bios_calls r) @
     [(''mmio_event_count'', decimal (length (recent_mmio r)))] @
     indexed ''mmio_event_'' mmio_lines (recent_mmio r) @
     last_lines ''bios_last_''
       [''pc'', ''table'', ''selector'', ''a0'', ''a1'', ''a2'', ''a3'', ''ra'']
       bios_lines (recent_bios_calls r) @
     last_lines ''mmio_last_''
       [''pc'', ''address'', ''width'', ''write'', ''value'', ''speculative''] mmio_lines (recent_mmio r) @
     last_lines ''cdrom_last_'' [''command'', ''index'', ''status''] cdrom_lines
       (recent_cdrom_commands r) @
     optional_lines ''cpu_''
       [''boundary'', ''stage'', ''pc'', ''opcode'', ''address'', ''write_value'', ''access_width'', ''coprocessor'', ''register_index'', ''exception_code''] cpu_lines (cpu_diagnostic r) @
     optional_lines ''unsupported_''
       [''guest_address'', ''physical_address'', ''width'', ''write'', ''value''] unsupported_lines (unsupported_access r)"

definition format_ps1_boot_report :: "Ps1BootReport \<Rightarrow> string" where
  "format_ps1_boot_report r = concat (map pair_line (boot_report_lines r))"

section \<open>The exploration report\<close>

definition decision_lines :: "Ps1Max3Decision \<Rightarrow> report_lines" where
  "decision_lines d = [(''table'', hex32 (dec_table d)), (''selector'', hex32 (dec_selector d)),
     (''fallback'', ps1_bios_fallback_name (dec_fallback d))]"

definition dependency_lines :: "Ps1Max3Dependency \<Rightarrow> report_lines" where
  "dependency_lines d = (''kind'', dependency_kind_name (dep_kind d)) #
     (if dep_kind d = bios_frontier
      then [(''table'', hex32 (dep_table d)), (''selector'', hex32 (dep_selector d)),
        (''address'', ''none''), (''width'', ''none''), (''write'', ''none'')]
      else [(''table'', ''none''), (''selector'', ''none''), (''address'', hex32 (dep_address d)),
        (''width'', decimal (unat (dep_width d))), (''write'', show_flag (dep_write d))])"

definition node_lines :: "Ps1Max3NodeSummary \<Rightarrow> report_lines" where
  "node_lines n = prefixed (''node_'' @ decimal (node_index n) @ ''_'') [
     (''parent'', (case node_parent n of None \<Rightarrow> ''none'' | Some p \<Rightarrow> decimal p)),
     (''depth'', decimal (node_depth n)),
     (''fallback'', (case node_fallback n of None \<Rightarrow> ''none'' | Some f \<Rightarrow> ps1_bios_fallback_name f)),
     (''stop_reason'', ps1_boot_stop_reason_name (node_stop_reason n)),
     (''segment_retired'', decimal (unat (segment_retired n))),
     (''cumulative_retired'', decimal (unat (cumulative_retired n))),
     (''state_hash'', hex64 (node_state_hash n)),
     (''deduplicated'', show_flag (deduplicated n)),
     (''frontier_table'', if node_frontier_table n \<noteq> 0 then hex32 (node_frontier_table n) else ''none''),
     (''frontier_selector'', if node_frontier_table n \<noteq> 0 then hex32 (node_frontier_selector n) else ''none''),
     (''path_presented_frames'', decimal (unat (path_presented_frames n))),
     (''path_vram_write_count'', decimal (unat (path_vram_write_count n))),
     (''path_gpu_gp0_command_count'', decimal (unat (path_gpu_gp0_command_count n))),
     (''path_gpu_gp1_command_count'', decimal (unat (path_gpu_gp1_command_count n))),
     (''path_cdrom_command_count'', decimal (unat (path_cdrom_command_count n))),
     (''path_dma_transfer_count'', decimal (unat (path_dma_transfer_count n))),
     (''path_dependency_count'', decimal (path_dependency_count n))]"

definition max3_head_lines :: "Ps1Max3Report \<Rightarrow> report_lines" where
  "max3_head_lines r = [
     (''format'', ''jojo-max3-checkpoint-v1''),
     (''max_nodes'', decimal (max_nodes (rep_options r))),
     (''max_branch_depth'', decimal (max_branch_depth (rep_options r))),
     (''max_total_retired'', decimal (unat (max_total_retired (rep_options r)))),
     (''segment_instruction_budget'', decimal (unat (instruction_budget (segment_options (rep_options r))))),
     (''trace_capacity'', decimal (trace_capacity (segment_options (rep_options r)))),
     (''diagnostic_mmio_probe'', show_flag (diagnostic_mmio_probe (segment_options (rep_options r)))),
     (''mmio_event_capacity'', decimal (mmio_event_capacity (segment_options (rep_options r)))),
     (''bios_event_capacity'', decimal (bios_event_capacity (segment_options (rep_options r)))),
     (''stagnation_instruction_limit'', decimal (unat (stagnation_instruction_limit (segment_options (rep_options r))))),
     (''termination_reason'', ps1_max3_termination_reason_name (termination_reason r)),
     (''total_retired'', decimal (unat (total_retired r))),
     (''node_count'', decimal (length (nodes r))),
     (''best_node'', decimal (best_node r)),
     (''best_path_count'', decimal (length (best_path r)))]"

definition max3_report_lines :: "Ps1Max3Report \<Rightarrow> report_lines" where
  "max3_report_lines r =
     max3_head_lines r @
     indexed ''best_path_'' decision_lines (best_path r) @
     [(''dependency_count'', decimal (length (dependencies r)))] @
     indexed ''dependency_'' dependency_lines (dependencies r) @
     concat (map node_lines (nodes r)) @
     [(''best_report_begin'', ''1'')] @ boot_report_lines (best_report r) @
     [(''best_report_end'', ''1'')]"

definition format_ps1_max3_report :: "Ps1Max3Report \<Rightarrow> string" where
  "format_ps1_max3_report r = concat (map pair_line (max3_report_lines r))"

section \<open>Saving\<close>

definition append_tmp :: "path \<Rightarrow> path" where
  "append_tmp p = butlast p @ [last p @ ''.tmp'']"

text \<open>The clean-up of the temporary file, whose outcome is ignored.\<close>

definition cleanup_temp :: "path \<Rightarrow> Disk \<Rightarrow> Disk" where
  "cleanup_temp p d = snd (fs_remove p d)"

definition replace_report :: "string \<Rightarrow> path \<Rightarrow> path \<Rightarrow> unit result step" where
  "replace_report message temp dest d = (case fs_rename temp dest d of
     (None, d1) \<Rightarrow> (success (), d1)
   | (Some m, d1) \<Rightarrow> (failure io_error (message @ m), cleanup_temp temp d1))"

definition save_text :: "string \<Rightarrow> path \<Rightarrow> string \<Rightarrow> unit result step" where
  "save_text name p t d =
     (case fs_write (append_tmp p) t d of
        (not_opened, d1) \<Rightarrow> (failure io_error (''failed to open temporary '' @ name), d1)
      | (not_written, d1) \<Rightarrow>
          (failure io_error (''failed to write temporary '' @ name), cleanup_temp (append_tmp p) d1)
      | (written, d1) \<Rightarrow>
          replace_report (''failed to atomically replace '' @ name @ '': '') (append_tmp p) p d1)"

definition report_directory :: "string \<Rightarrow> path \<Rightarrow> unit result step" where
  "report_directory message p d =
     (if butlast p = [] then (success (), d)
      else case fs_create_directories (butlast p) d of
        (Some m, d1) \<Rightarrow> (failure io_error (message @ m), d1)
      | (None, d1) \<Rightarrow> (success (), d1))"

definition save_ps1_boot_report_atomic :: "path \<Rightarrow> Ps1BootReport \<Rightarrow> unit result step" where
  "save_ps1_boot_report_atomic p r d =
     (if p = [] then (failure invalid_argument ''JoJo checkpoint report path cannot be empty'', d)
      else and_then
        (report_directory ''failed to create JoJo checkpoint diagnostics directory: '' p)
        (\<lambda>_. save_text ''JoJo checkpoint report'' p (format_ps1_boot_report r)) d)"

definition save_ps1_max3_report_atomic :: "path \<Rightarrow> Ps1Max3Report \<Rightarrow> unit result step" where
  "save_ps1_max3_report_atomic p r d =
     (if p = [] then (failure invalid_argument ''JoJo MAX3 checkpoint report path cannot be empty'', d)
      else and_then
        (report_directory ''failed to create JoJo MAX3 diagnostics directory: '' p)
        (\<lambda>_. save_text ''JoJo MAX3 checkpoint report'' p (format_ps1_max3_report r)) d)"

end
