(* ===== verification/Fingerprint.thy ===== *)
theory Fingerprint
  imports Disc_Media Ps1_Loader
begin

text \<open>
  The fingerprint of a disc image and the identifiers of input devices, from
  \<^verbatim>\<open>src/src/core/disc_image.cpp\<close> and \<^verbatim>\<open>device_id.cpp\<close>.  Both hash with
  FNV-1a and print sixteen hexadecimal digits (\<open>hex16\<close>).
\<close>

section \<open>Disc images\<close>

text \<open>The text behind the last dot, in lower case; empty without a dot.\<close>

definition lower_ext :: "string \<Rightarrow> string" where
  "lower_ext filename =
     (if CHR ''.'' \<in> set filename
      then ascii_lower (rev (takeWhile (\<lambda>c. c \<noteq> CHR ''.'') (rev filename))) else [])"

definition supported_disc_extension :: "string \<Rightarrow> bool" where
  "supported_disc_extension filename \<longleftrightarrow>
     lower_ext filename = ''iso'' \<or> lower_ext filename = ''bin'' \<or> lower_ext filename = ''cue''"

record DiscFingerprint =
  fingerprint_size :: u64
  fingerprint_fnv1a64 :: u64
  hash_hex :: string
  fingerprint_format :: string

text \<open>The loop over the buffers: the hash and the size so far.\<close>

fun fingerprint_loop :: "u8 list list \<Rightarrow> u64 \<Rightarrow> u64 \<Rightarrow> u64 \<times> u64" where
  "fingerprint_loop [] hash n = (hash, n)"
| "fingerprint_loop (b # bs) hash n =
     fingerprint_loop bs (hash_bytes hash b) (n + of_nat (length b))"

text \<open>
  The file: its name, whether it is a regular file, the buffers that \<open>read\<close> fills one after
  the other (\<open>None\<close> when it cannot be opened), and whether the stream ends at the end of
  the file.
\<close>

definition fingerprint_disc_image ::
  "string \<Rightarrow> string \<Rightarrow> bool \<Rightarrow> u8 list list option \<Rightarrow> bool \<Rightarrow> DiscFingerprint result" where
  "fingerprint_disc_image path filename regular buffers at_end =
     (if \<not> supported_disc_extension filename
      then failure unsupported_format ''supported PS1 formats: .iso, .bin, .cue''
      else if \<not> regular then failure file_not_found (''disc image not found: '' @ path)
      else case buffers of
        None \<Rightarrow> failure io_error (''cannot open disc image: '' @ path)
      | Some bs \<Rightarrow>
          let (hash, n) = fingerprint_loop bs fnv_offset 0 in
          if \<not> at_end then failure io_error ''error while reading disc image''
          else success \<lparr>fingerprint_size = n, fingerprint_fnv1a64 = hash, hash_hex = hex16 hash,
            fingerprint_format = lower_ext filename\<rparr>)"

lemma fingerprint_loop_concat:
  "fingerprint_loop bs hash n = (hash_bytes hash (concat bs), n + of_nat (length (concat bs)))"
  by (induction bs arbitrary: hash n) simp_all

section \<open>Device identifiers\<close>

definition make_xinput_device_id :: "nat \<Rightarrow> string" where
  "make_xinput_device_id index = ''xinput:'' @ decimal index"

definition make_hid_device_id :: "string \<Rightarrow> string" where
  "make_hid_device_id path =
     ''hid:'' @ hex16 (hash_bytes fnv_offset (map (\<lambda>c. of_char (to_lower c)) path))"

end
