(* ===== verification/Installation.thy ===== *)
theory Installation
  imports File_Store Semver
begin

text \<open>
  Installation generations, from \<^verbatim>\<open>src/src/core/ps1_installation.cpp\<close>: a conversion fills
  a staging directory, which a commit renames to its final name before it replaces the pointer
  file that says which generation is active.
\<close>

section \<open>Generation ids\<close>

definition kGenerationPrefix :: string where
  "kGenerationPrefix = ''generation-''"

definition kMaxGenerationNumber :: u32 where
  "kMaxGenerationNumber = 999999"

definition format_generation_id :: "u32 \<Rightarrow> string" where
  "format_generation_id number =
     (let ds = decimal (unat number) in
      kGenerationPrefix @ replicate (6 - length ds) (CHR ''0'') @ ds)"

definition parse_generation_id :: "string \<Rightarrow> u32 option" where
  "parse_generation_id i =
     (if length i \<noteq> length kGenerationPrefix + 6 \<or> take (length kGenerationPrefix) i \<noteq> kGenerationPrefix
      then None
      else
        let digits = drop (length kGenerationPrefix) i in
        if \<not> list_all is_digit digits then None
        else if 2 ^ 32 \<le> decimal_value digits then None
        else
          let number = of_nat (decimal_value digits) in
          if number = 0 \<or> number > kMaxGenerationNumber then None else Some number)"

section \<open>The destination\<close>

fun nearest_existing_directory :: "path \<Rightarrow> path result step" where
  "nearest_existing_directory probe d =
     (if probe = []
      then (failure invalid_installation ''install destination has no existing directory ancestor'', d)
      else case fs_exists probe d of
        (Inl m, d1) \<Rightarrow> (failure io_error (''failed while inspecting install destination: '' @ m), d1)
      | (Inr True, d1) \<Rightarrow>
          (case fs_is_directory probe d1 of
             (Inr True, d2) \<Rightarrow> (success probe, d2)
           | (_, d2) \<Rightarrow> (failure invalid_installation
               ''nearest existing install destination ancestor is not a directory'', d2))
      | (Inr False, d1) \<Rightarrow> nearest_existing_directory (butlast probe) d1)"

declare nearest_existing_directory.simps [simp del]

definition verify_directory_writable :: "path \<Rightarrow> unit result step" where
  "verify_directory_writable directory d =
     (let probe = directory @ [''.jojo-write-probe-'' @ disk_clock d @ ''.tmp''] in
      case fs_write probe [CHR 0x00] d of
        (not_opened, d1) \<Rightarrow> (failure invalid_installation ''install destination is not writable'', d1)
      | (not_written, d1) \<Rightarrow>
          (case fs_remove probe d1 of
             (_, d2) \<Rightarrow> (failure invalid_installation ''install destination write probe failed'', d2))
      | (written, d1) \<Rightarrow>
          (case fs_remove probe d1 of
             (Some m, d2) \<Rightarrow> (failure io_error
               (''failed to remove install destination write probe: '' @ m), d2)
           | (None, d2) \<Rightarrow> (success (), d2)))"

definition check_space :: "u64 \<Rightarrow> unit result step" where
  "check_space required_bytes d =
     (case fs_space d of
        (Inl m, d1) \<Rightarrow>
          (failure io_error (''failed to query installation destination free space: '' @ m), d1)
      | (Inr available, d1) \<Rightarrow>
          if required_bytes > available
          then (failure invalid_installation
            ''installation destination does not have enough free space'', d1)
          else (success (), d1))"

definition check_root :: "path \<Rightarrow> bool result step" where
  "check_root install_root d =
     (case fs_exists install_root d of
        (Inl m, d1) \<Rightarrow> (failure io_error (''failed to inspect installation destination: '' @ m), d1)
      | (Inr False, d1) \<Rightarrow> (success False, d1)
      | (Inr True, d1) \<Rightarrow>
          (case fs_is_directory install_root d1 of
             (Inr True, d2) \<Rightarrow> (success True, d2)
           | (_, d2) \<Rightarrow>
               (failure invalid_installation ''installation destination is not a directory'', d2)))"

definition validate_install_destination :: "path \<Rightarrow> u64 \<Rightarrow> unit result step" where
  "validate_install_destination install_root required_bytes d =
     (if install_root = []
      then (failure invalid_argument ''installation destination cannot be empty'', d)
      else
        and_then (check_root install_root) (\<lambda>root_exists.
        and_then (nearest_existing_directory install_root) (\<lambda>existing.
        and_then (verify_directory_writable (if root_exists then install_root else existing)) (\<lambda>_.
        check_space required_bytes))) d)"

section \<open>A new generation\<close>

text \<open>The loop over the entries of a directory.\<close>

fun highest_name :: "string list \<Rightarrow> u32 \<Rightarrow> u32" where
  "highest_name [] highest = highest"
| "highest_name (name # names) highest =
     highest_name names (case parse_generation_id name of
       None \<Rightarrow> highest | Some n \<Rightarrow> if n > highest then n else highest)"

fun highest_in :: "path list \<Rightarrow> u32 \<Rightarrow> u32 result step" where
  "highest_in [] highest d = (success highest, d)"
| "highest_in (parent # parents) highest d =
     (case fs_exists parent d of
        (Inl m, d1) \<Rightarrow> (failure io_error (''failed to inspect generation directory: '' @ m), d1)
      | (Inr False, d1) \<Rightarrow> highest_in parents highest d1
      | (Inr True, d1) \<Rightarrow>
          (case fs_is_directory parent d1 of
             (Inr True, d2) \<Rightarrow>
               (case fs_list parent d2 of
                  (Inl m, d3) \<Rightarrow>
                    (failure io_error (''failed to enumerate generation directory: '' @ m), d3)
                | (Inr names, d3) \<Rightarrow> highest_in parents (highest_name names highest) d3)
           | (_, d2) \<Rightarrow>
               (failure invalid_installation ''generation container is not a directory'', d2)))"

definition highest_generation_number :: "path \<Rightarrow> u32 result step" where
  "highest_generation_number root = highest_in [root @ [''generations''], root @ [''.staging'']] 0"

record PendingInstallGeneration =
  pending_id :: string
  staging_dir :: path
  final_dir :: path

text \<open>\<open>exists(p, ec) || ec\<close>.\<close>

definition exists_or_error :: "path \<Rightarrow> bool step" where
  "exists_or_error p d = (case fs_exists p d of (Inr False, d1) \<Rightarrow> (False, d1) | (_, d1) \<Rightarrow> (True, d1))"

definition make_staging :: "PendingInstallGeneration \<Rightarrow> PendingInstallGeneration result step" where
  "make_staging g d =
     (let taken = failure invalid_installation ''next installation generation already exists'' in
      case exists_or_error (staging_dir g) d of
        (True, d1) \<Rightarrow> (taken, d1)
      | (False, d1) \<Rightarrow>
          (case exists_or_error (final_dir g) d1 of
             (True, d2) \<Rightarrow> (taken, d2)
           | (False, d2) \<Rightarrow>
               (case fs_create_directory (staging_dir g) d2 of
                  (Some m, d3) \<Rightarrow>
                    (failure io_error (''failed to create installation staging generation: '' @ m), d3)
                | (None, d3) \<Rightarrow> (success g, d3))))"

definition pending_generation :: "path \<Rightarrow> u32 \<Rightarrow> PendingInstallGeneration" where
  "pending_generation root number =
     (let i = format_generation_id number in
      \<lparr>pending_id = i, staging_dir = root @ [''.staging'', i], final_dir = root @ [''generations'', i]\<rparr>)"

text \<open>\<open>create_directories\<close> with the message of its failure.\<close>

definition make_path :: "string \<Rightarrow> path \<Rightarrow> unit result step" where
  "make_path message p d = (case fs_create_directories p d of
     (Some m, d1) \<Rightarrow> (failure io_error (message @ m), d1) | (None, d1) \<Rightarrow> (success (), d1))"

definition begin_install_generation :: "path \<Rightarrow> PendingInstallGeneration result step" where
  "begin_install_generation root d =
     (if root = [] then (failure invalid_argument ''installation destination cannot be empty'', d)
      else
        and_then (make_path ''failed to create staging directory: '' (root @ [''.staging''])) (\<lambda>_.
        and_then (make_path ''failed to create generations directory: '' (root @ [''generations''])) (\<lambda>_.
        and_then (highest_generation_number root) (\<lambda>highest.
          if highest \<ge> kMaxGenerationNumber
          then give (failure invalid_installation ''installation generation sequence is exhausted'')
          else make_staging (pending_generation root (highest + 1))))) d)"

section \<open>The active pointer\<close>

record ActivePointer =
  pointer_format :: string
  pointer_id :: string
  pointer_manifest :: string

definition pointer_line :: "string \<Rightarrow> string list \<Rightarrow> ActivePointer \<Rightarrow> (string list \<times> ActivePointer) result" where
  "pointer_line l seen p =
     (let line = (if l \<noteq> [] \<and> last l = CHR 0x0D then butlast l else l) in
      if line = [] then success (seen, p)
      else if CHR ''='' \<notin> set line \<or> hd line = CHR ''=''
      then failure invalid_installation ''malformed active installation pointer''
      else
        let key = takeWhile (\<lambda>c. c \<noteq> CHR ''='') line;
            v = tl (dropWhile (\<lambda>c. c \<noteq> CHR ''='') line) in
        if key \<in> set seen
        then failure invalid_installation ''duplicate active installation pointer key''
        else if key = ''format'' then success (key # seen, p\<lparr>pointer_format := v\<rparr>)
        else if key = ''generation_id'' then success (key # seen, p\<lparr>pointer_id := v\<rparr>)
        else if key = ''manifest'' then success (key # seen, p\<lparr>pointer_manifest := v\<rparr>)
        else failure invalid_installation ''unknown active installation pointer key'')"

fun pointer_lines :: "string list \<Rightarrow> string list \<Rightarrow> ActivePointer \<Rightarrow> (string list \<times> ActivePointer) result" where
  "pointer_lines [] seen p = success (seen, p)"
| "pointer_lines (l # ls) seen p =
     on_success (pointer_line l seen p) (\<lambda>(seen', p'). pointer_lines ls seen' p')"

definition parse_active_pointer :: "string \<Rightarrow> ActivePointer result" where
  "parse_active_pointer t =
     on_success (pointer_lines (read_lines [] t) []
       \<lparr>pointer_format = [], pointer_id = [], pointer_manifest = []\<rparr>) (\<lambda>(seen, p).
       if length seen \<noteq> 3 \<or> pointer_format p \<noteq> ''1'' \<or> parse_generation_id (pointer_id p) = None \<or>
         pointer_manifest p = []
       then failure invalid_installation ''active installation pointer is incomplete or invalid''
       else success p)"

definition read_active_pointer :: "path \<Rightarrow> ActivePointer result step" where
  "read_active_pointer p d =
     (case fs_read p d of
        (None, d1) \<Rightarrow> (failure file_not_found ''active installation pointer not found'', d1)
      | (Some (t, complete), d1) \<Rightarrow> (parse_active_pointer t, d1))"

record ActiveInstallGeneration =
  active_root :: path
  active_id :: string
  generation_dir :: path
  active_manifest :: path

definition game_manifest :: string where
  "game_manifest = ''game_manifest.ini''"

definition check_active :: "path \<Rightarrow> ActivePointer \<Rightarrow> ActiveInstallGeneration result step" where
  "check_active root p d =
     (let parts = path_of (pointer_manifest p); i = pointer_id p in
      if parts \<noteq> [] \<and> hd parts = ''/'' \<or> ''..'' \<in> set parts
      then (failure invalid_installation ''active manifest path escapes installation root'', d)
      else if \<not> same_path parts [''generations'', i, game_manifest]
      then (failure invalid_installation ''active manifest path does not match generation identity'', d)
      else
        let missing = failure invalid_installation
              ''active installation generation or manifest does not exist'';
            active = \<lparr>active_root = root, active_id = i, generation_dir = root @ [''generations'', i],
              active_manifest = root @ [''generations'', i, game_manifest]\<rparr>
        in case fs_is_directory (generation_dir active) d of
          (Inr True, d1) \<Rightarrow>
            (case fs_is_regular (active_manifest active) d1 of
               (Inr True, d2) \<Rightarrow> (success active, d2)
             | (_, d2) \<Rightarrow> (missing, d2))
        | (_, d1) \<Rightarrow> (missing, d1))"

definition active_pointer_path :: "path \<Rightarrow> path" where
  "active_pointer_path root = root @ [''active_install.ini'']"

definition resolve_active_install_generation :: "path \<Rightarrow> ActiveInstallGeneration result step" where
  "resolve_active_install_generation root d =
     (if root = [] then (failure invalid_argument ''installation destination cannot be empty'', d)
      else and_then (read_active_pointer (active_pointer_path root)) (check_active root) d)"

section \<open>Committing\<close>

definition atomic_replace_file :: "path \<Rightarrow> path \<Rightarrow> unit result step" where
  "atomic_replace_file temp target d = (case fs_rename temp target d of
     (Some m, d1) \<Rightarrow>
       (failure io_error (''failed to atomically replace active installation pointer: '' @ m), d1)
   | (None, d1) \<Rightarrow> (success (), d1))"

definition pointer_text :: "string \<Rightarrow> string" where
  "pointer_text i = ''format=1'' @ [CHR 0x0A] @ ''generation_id='' @ i @ [CHR 0x0A] @
     ''manifest=generations/'' @ i @ ''/game_manifest.ini'' @ [CHR 0x0A]"

definition pointer_temp :: "path \<Rightarrow> path" where
  "pointer_temp root = root @ [''active_install.ini.tmp'']"

definition write_pointer :: "path \<Rightarrow> string \<Rightarrow> unit result step" where
  "write_pointer root i d =
     (case fs_write (pointer_temp root) (pointer_text i) d of
        (not_opened, d1) \<Rightarrow>
          (failure io_error ''failed to create temporary active installation pointer'', d1)
      | (not_written, d1) \<Rightarrow> (failure io_error ''failed while writing active installation pointer'', d1)
      | (written, d1) \<Rightarrow> atomic_replace_file (pointer_temp root) (active_pointer_path root) d1)"

text \<open>The checks on the staging directory and the free final name.\<close>

definition check_staging :: "path \<Rightarrow> path \<Rightarrow> unit result step" where
  "check_staging staging final d =
     (case fs_is_directory staging d of
        (Inr True, d1) \<Rightarrow>
          (case fs_is_regular (staging @ [game_manifest]) d1 of
             (Inr True, d2) \<Rightarrow>
               (case exists_or_error final d2 of
                  (True, d3) \<Rightarrow>
                    (failure invalid_installation ''final installation generation already exists'', d3)
                | (False, d3) \<Rightarrow> (success (), d3))
           | (_, d2) \<Rightarrow>
               (failure invalid_installation ''installation staging generation has no manifest'', d2))
      | (_, d1) \<Rightarrow>
          (failure invalid_installation ''installation staging generation does not exist'', d1))"

definition move_staging :: "path \<Rightarrow> path \<Rightarrow> unit result step" where
  "move_staging staging final d = (case fs_rename staging final d of
     (Some m, d1) \<Rightarrow> (failure io_error (''failed to commit installation generation: '' @ m), d1)
   | (None, d1) \<Rightarrow> (success (), d1))"

definition commit_install_generation :: "path \<Rightarrow> PendingInstallGeneration \<Rightarrow> unit result step" where
  "commit_install_generation root g d =
     (if root = [] \<or> parse_generation_id (pending_id g) = None
      then (failure invalid_argument ''invalid installation generation identity'', d)
      else
        let staging = root @ [''.staging'', pending_id g];
            final = root @ [''generations'', pending_id g] in
        if \<not> same_path (staging_dir g) staging \<or> \<not> same_path (final_dir g) final
        then (failure invalid_installation
          ''installation generation paths do not match install root'', d)
        else
          and_then (check_staging staging final) (\<lambda>_.
          and_then (move_staging staging final) (\<lambda>_.
          write_pointer root (pending_id g))) d)"

end
