(* ===== verification/Conversion.thy ===== *)
theory Conversion
  imports System_Cnf Fingerprint Installation Conversion_Manifest
begin

text \<open>
  The conversion of a disc image into an installation: \<open>convert_image\<close> and the file
  operations of \<^verbatim>\<open>src/src/core/conversion.cpp\<close> on the disk model, and \<open>core_version\<close>.
  The state of a conversion is the disk and the progress reported so far.
\<close>

section \<open>Files\<close>

definition bytes_text :: "u8 list \<Rightarrow> string" where
  "bytes_text bs = map (\<lambda>b. char_of (unat b)) bs"

definition text_bytes :: "string \<Rightarrow> u8 list" where
  "text_bytes t = map of_char t"

definition write_binary_file :: "path \<Rightarrow> u8 list \<Rightarrow> unit result step" where
  "write_binary_file p bytes d =
     (case fs_write p (bytes_text bytes) d of
        (not_opened, d1) \<Rightarrow>
          (failure io_error (''failed to create installed data file: '' @ path_string p), d1)
      | (not_written, d1) \<Rightarrow>
          (failure io_error (''failed while writing installed data file: '' @ path_string p), d1)
      | (written, d1) \<Rightarrow> (success (), d1))"

definition replace_file :: "path \<Rightarrow> path \<Rightarrow> unit result step" where
  "replace_file temp dest d = (case fs_rename temp dest d of
     (Some m, d1) \<Rightarrow> (failure io_error (''failed to replace manifest file: '' @ m), d1)
   | (None, d1) \<Rightarrow> (success (), d1))"

definition with_tmp :: "path \<Rightarrow> path" where
  "with_tmp p = butlast p @ [last p @ ''.tmp'']"

definition write_manifest :: "path \<Rightarrow> ConversionManifest \<Rightarrow> unit result step" where
  "write_manifest p m d =
     (case fs_write (with_tmp p) (manifest_file_text m) d of
        (not_opened, d1) \<Rightarrow> (failure io_error ''failed to create temporary manifest'', d1)
      | (not_written, d1) \<Rightarrow> (failure io_error ''failed while writing manifest'', d1)
      | (written, d1) \<Rightarrow> replace_file (with_tmp p) p d1)"

definition save_conversion_manifest_atomic :: "path \<Rightarrow> ConversionManifest \<Rightarrow> unit result step" where
  "save_conversion_manifest_atomic p m =
     and_then (give (validate_manifest m)) (\<lambda>_.
     and_then (if butlast p \<noteq> [] then make_path ''failed to create manifest directory: '' (butlast p)
        else give (success ())) (\<lambda>_.
     write_manifest p m))"

definition load_manifest_file :: "path \<Rightarrow> ConversionManifest result step" where
  "load_manifest_file p d =
     (case fs_read p d of (file, d1) \<Rightarrow>
        (load_conversion_manifest (path_string p) (map_option fst file), d1))"

section \<open>Progress\<close>

datatype ConversionStage =
    validating_source
  | fingerprinting_source
  | discovering_filesystem
  | identifying_revision
  | reading_system_cnf
  | reading_psx_exe
  | preparing_installation
  | copying_local_data
  | writing_manifest
  | activating_installation
  | completed

record ConversionProgress =
  stage :: ConversionStage
  percent :: int
  message_key :: string

type_synonym conversion = "Disk \<times> ConversionProgress list"

definition report_progress :: "ConversionStage \<Rightarrow> int \<Rightarrow> string \<Rightarrow> conversion \<Rightarrow> unit result \<times> conversion" where
  "report_progress s p k c = (success (), (fst c, snd c @ [\<lparr>stage = s, percent = p, message_key = k\<rparr>]))"

definition on_disk :: "'a result step \<Rightarrow> conversion \<Rightarrow> 'a result \<times> conversion" where
  "on_disk f c = (case f (fst c) of (r, d) \<Rightarrow> (r, (d, snd c)))"

section \<open>The conversion\<close>

definition core_version :: string where
  "core_version = ''0.2.0-production-foundation''"

text \<open>
  The selected image: the files of the disc reader, its path and file name, and what the
  fingerprint reads of it.
\<close>

record SourceImage =
  image_media :: MediaFiles
  image_path :: string
  image_name :: string
  image_regular :: bool
  image_buffers :: "u8 list list option"
  image_at_end :: bool

definition image_fingerprint :: "SourceImage \<Rightarrow> DiscFingerprint result" where
  "image_fingerprint src = fingerprint_disc_image (image_path src) (image_name src)
     (image_regular src) (image_buffers src) (image_at_end src)"

text \<open>The revision of the image: a known profile, else a known fingerprint.\<close>

definition find_revision ::
  "SourceImage \<Rightarrow> GameRevisionProfile list \<Rightarrow> Iso9660Image \<Rightarrow> DiscFingerprint \<Rightarrow> conversion
     \<Rightarrow> string result \<times> conversion" where
  "find_revision src profiles img fp c =
     (case identify_game_revision (image_media src) img profiles of
        Inr r \<Rightarrow> (success r, c)
      | Inl (e, m) \<Rightarrow>
          if e = unknown_revision
          then case identify_observed_disc_revision (fingerprint_format fp) (fingerprint_size fp)
              (DiscFingerprint.hash_hex fp) of
            Inr r \<Rightarrow> (case report_progress identifying_revision 45 ''revision_observed'' c of
                (_, c1) \<Rightarrow> (success r, c1))
          | Inl _ \<Rightarrow> (failure e m, c)
          else (failure e m, c))"

record GameFiles =
  game_fingerprint :: DiscFingerprint
  game_revision :: string
  game_system_cnf :: "u8 list"
  game_boot_path :: string
  game_executable :: Ps1Executable

definition read_game ::
  "SourceImage \<Rightarrow> GameRevisionProfile list \<Rightarrow> conversion \<Rightarrow> GameFiles result \<times> conversion" where
  "read_game src profiles =
     and_then (report_progress fingerprinting_source 15 ''fingerprint_source'') (\<lambda>_.
     and_then (give (image_fingerprint src)) (\<lambda>fp.
     and_then (report_progress discovering_filesystem 30 ''discover_filesystem'') (\<lambda>_.
     and_then (give (open_iso9660_path (image_media src) (image_path src))) (\<lambda>img.
     and_then (report_progress identifying_revision 45 ''identify_revision'') (\<lambda>_.
     and_then (find_revision src profiles img fp) (\<lambda>revision.
     and_then (report_progress reading_system_cnf 55 ''read_system_cnf'') (\<lambda>_.
     and_then (give (read_iso9660_file (image_media src) img ''/SYSTEM.CNF'')) (\<lambda>system_bytes.
     and_then (give (parse_ps1_system_cnf (bytes_text system_bytes))) (\<lambda>boot_path.
     and_then (report_progress reading_psx_exe 65 ''read_psx_exe'') (\<lambda>_.
     and_then (give (read_ps1_executable (image_media src) img boot_path)) (\<lambda>executable.
     give (success \<lparr>game_fingerprint = fp, game_revision = revision, game_system_cnf = system_bytes,
       game_boot_path = boot_path, game_executable = executable\<rparr>))))))))))))"

definition converted_manifest :: "string \<Rightarrow> GameFiles \<Rightarrow> ConversionManifest" where
  "converted_manifest name g =
     (let md = metadata (game_executable g); fp = game_fingerprint g in
      new_manifest\<lparr>converter_version := core_version, source_name := name,
        source_format := fingerprint_format fp, source_size := fingerprint_size fp,
        source_hash_fnv1a64 := DiscFingerprint.hash_hex fp,
        revision_id := game_revision g,
        system_cnf_path := ''/SYSTEM.CNF'', boot_executable := game_boot_path g,
        psx_exe_hash_fnv1a64 := fnv1a64 md, psx_exe_entry := Some (entry_pc md),
        psx_exe_load_address := Some (text_load_address md), psx_exe_initial_gp := Some (initial_gp md),
        psx_exe_text_size := Some (text_size md), psx_exe_stack_base := Some (stack_base md),
        psx_exe_stack_size := Some (stack_size md), media_status := ''verified'',
        executable_status := ''verified''\<rparr>)"

text \<open>What the conversion stages: the local data and the manifest.\<close>

definition stage_game :: "string \<Rightarrow> GameFiles \<Rightarrow> PendingInstallGeneration \<Rightarrow> conversion \<Rightarrow> unit result \<times> conversion"
  where
  "stage_game name g gen =
     and_then (on_disk (make_path ''failed to create staged data directory: ''
       (staging_dir gen @ [''data'']))) (\<lambda>_.
     and_then (on_disk (make_path ''failed to create staged logs directory: ''
       (staging_dir gen @ [''logs'']))) (\<lambda>_.
     and_then (report_progress copying_local_data 82 ''copy_local_data'') (\<lambda>_.
     and_then (on_disk (write_binary_file (staging_dir gen @ [''data'', ''SYSTEM.CNF''])
       (game_system_cnf g))) (\<lambda>_.
     and_then (on_disk (write_binary_file (staging_dir gen @ [''data'', ''boot.psxexe''])
       (file_bytes (game_executable g)))) (\<lambda>_.
     and_then (report_progress writing_manifest 92 ''write_manifest'') (\<lambda>_.
     and_then (on_disk (save_conversion_manifest_atomic (staging_dir gen @ [game_manifest])
       (converted_manifest name g))) (\<lambda>_.
     report_progress activating_installation 97 ''activate_installation'')))))))"

definition install_game :: "path \<Rightarrow> string \<Rightarrow> GameFiles \<Rightarrow> conversion \<Rightarrow> ConversionManifest result \<times> conversion"
  where
  "install_game root name g =
     and_then (give (required_install_bytes (of_nat (length (game_system_cnf g)))
       (of_nat (length (file_bytes (game_executable g)))))) (\<lambda>required.
     and_then (report_progress preparing_installation 72 ''prepare_installation'') (\<lambda>_.
     and_then (on_disk (validate_install_destination root required)) (\<lambda>_.
     and_then (on_disk (begin_install_generation root)) (\<lambda>gen.
     and_then (stage_game name g gen) (\<lambda>_.
     and_then (on_disk (commit_install_generation root gen)) (\<lambda>_.
     and_then (report_progress completed 100 ''conversion_complete'') (\<lambda>_.
     give (success (converted_manifest name g)))))))))"

definition convert_image ::
  "SourceImage \<Rightarrow> path \<Rightarrow> GameRevisionProfile list \<Rightarrow> Disk \<Rightarrow> ConversionManifest result \<times> conversion"
  where
  "convert_image src root profiles d =
     and_then (report_progress validating_source 0 ''validate_source'') (\<lambda>_.
       if root = [] then give (failure invalid_argument ''installation directory cannot be empty'')
       else if \<not> supported_disc_extension (image_path src)
       then give (failure unsupported_format ''supported PS1 formats: .iso, .bin, .cue'')
       else and_then (read_game src profiles) (install_game root (image_name src))) (d, [])"

text \<open>The overload without options.\<close>

definition convert_image_default :: "SourceImage \<Rightarrow> path \<Rightarrow> Disk \<Rightarrow> ConversionManifest result \<times> conversion"
  where
  "convert_image_default src root = convert_image src root []"

end
