(* ===== verification/Installed_Runtime.thy ===== *)
theory Installed_Runtime
  imports Report_Writer Conversion
begin

text \<open>
  Starting an installed game, from \<^verbatim>\<open>src/src/core/runtime.cpp\<close>: what an installation
  directory holds, the checks on the active generation, and the runs that start from its
  executable.  A run that does not return is \<open>None\<close>, as in the boot runtime.
\<close>

section \<open>Reading the active generation\<close>

definition read_local_file :: "path \<Rightarrow> u8 list result step" where
  "read_local_file p d =
     (case fs_read p d of
        (None, d1) \<Rightarrow> (failure file_not_found (''installed PS1 file is missing: '' @ path_string p), d1)
      | (Some (t, complete), d1) \<Rightarrow>
          if \<not> complete
          then (failure io_error (''failed while reading installed PS1 file: '' @ path_string p), d1)
          else (success (text_bytes t), d1))"

definition load_active_ps1_manifest :: "path \<Rightarrow> (ConversionManifest \<times> path) result step" where
  "load_active_ps1_manifest root =
     and_then (resolve_active_install_generation root) (\<lambda>active.
     and_then (load_manifest_file (active_manifest active)) (\<lambda>m.
       if manifest_version m \<noteq> ''2''
       then give (failure invalid_installation
         ''active installation generation is not a PS1 manifest v2 installation'')
       else give (success (m, generation_dir active))))"

definition executable_metadata_matches :: "ConversionManifest \<Rightarrow> Ps1ExeMetadata \<Rightarrow> bool" where
  "executable_metadata_matches m md \<longleftrightarrow>
     psx_exe_hash_fnv1a64 m = fnv1a64 md \<and> psx_exe_entry m = Some (entry_pc md) \<and>
     psx_exe_load_address m = Some (text_load_address md) \<and>
     psx_exe_initial_gp m = Some (initial_gp md) \<and> psx_exe_text_size m = Some (text_size md) \<and>
     psx_exe_stack_base m = Some (stack_base md) \<and> psx_exe_stack_size m = Some (stack_size md)"

record InstallationInfo =
  info_root :: path
  info_generation :: path
  info_manifest :: ConversionManifest

definition load_validated_installed_executable :: "InstallationInfo \<Rightarrow> Ps1Executable result step" where
  "load_validated_installed_executable info =
     and_then (read_local_file (info_generation info @ [''data'', ''boot.psxexe''])) (\<lambda>bytes.
       case parse_ps1_executable bytes of
         Inl (e, m) \<Rightarrow> give (failure invalid_installation (''installed PS-X EXE is invalid: '' @ m))
       | Inr executable \<Rightarrow>
           if \<not> executable_metadata_matches (info_manifest info) (metadata executable)
           then give (failure invalid_installation
             ''installed PS-X EXE does not match the verified manifest metadata'')
           else give (success executable))"

section \<open>Classification and validation\<close>

datatype InstallationKind = absent | legacy_v1 | ps1_m1

definition inspect :: "string \<Rightarrow> path \<Rightarrow> bool result step" where
  "inspect what p d = (case fs_exists p d of
     (Inl m, d1) \<Rightarrow> (failure io_error (''failed to inspect '' @ what @ '': '' @ m), d1)
   | (Inr b, d1) \<Rightarrow> (success b, d1))"

definition inspect_directory :: "path \<Rightarrow> bool \<Rightarrow> unit result step" where
  "inspect_directory root root_exists d =
     (if \<not> root_exists then (success (), d)
      else case fs_is_directory root d of
        (Inl m, d1) \<Rightarrow> (failure io_error (''failed to inspect installation root: '' @ m), d1)
      | (Inr False, d1) \<Rightarrow> (failure invalid_installation ''installation root is not a directory'', d1)
      | (Inr True, d1) \<Rightarrow> (success (), d1))"

definition classify_legacy :: "path \<Rightarrow> InstallationKind result step" where
  "classify_legacy root =
     and_then (inspect ''root installation manifest'' (root @ [game_manifest])) (\<lambda>has_manifest.
       if \<not> has_manifest then give (success absent)
       else and_then (load_manifest_file (root @ [game_manifest])) (\<lambda>legacy.
         if manifest_version legacy = ''1'' then give (success legacy_v1)
         else give (failure invalid_installation
           ''root-level manifest is not a supported legacy v1 installation'')))"

definition classify_installation :: "path \<Rightarrow> InstallationKind result step" where
  "classify_installation root =
     (if root = [] then give (failure invalid_argument ''installation root cannot be empty'')
      else
        and_then (inspect ''installation root'' root) (\<lambda>root_exists.
        and_then (inspect_directory root root_exists) (\<lambda>_.
        and_then (inspect ''active installation pointer'' (active_pointer_path root)) (\<lambda>has_pointer.
          if has_pointer
          then and_then (load_active_ps1_manifest root) (\<lambda>_. give (success ps1_m1))
          else classify_legacy root))))"

definition validate_installation :: "path \<Rightarrow> InstallationInfo result step" where
  "validate_installation root =
     and_then (classify_installation root) (\<lambda>kind.
       case kind of
         absent \<Rightarrow> give (failure invalid_installation ''PS1 installation is absent'')
       | legacy_v1 \<Rightarrow> give (failure invalid_installation
           ''legacy Dreamcast/SH-4 installation detected; reconvert the owned PlayStation image to create a PS1 M1 generation'')
       | ps1_m1 \<Rightarrow>
           and_then (load_active_ps1_manifest root) (\<lambda>(m, gen).
             if platform m \<noteq> ''playstation''
             then give (failure invalid_installation ''active manifest does not target PlayStation'')
             else if media_status m \<noteq> ''verified''
             then give (failure invalid_installation ''PS1 media status is not verified'')
             else if executable_status m \<noteq> ''verified''
             then give (failure invalid_installation ''PS-X EXE status is not verified'')
             else (\<lambda>d. case fs_is_regular (gen @ [''data'', ''SYSTEM.CNF'']) d of
               (Inr True, d1) \<Rightarrow>
                 (let info = \<lparr>info_root = root, info_generation = gen, info_manifest = m\<rparr> in
                  and_then (load_validated_installed_executable info) (\<lambda>_. give (success info)) d1)
             | (_, d1) \<Rightarrow>
                 (failure invalid_installation ''PS1 installation is missing local data/SYSTEM.CNF'', d1))))"

section \<open>Runs\<close>

text \<open>The validated executable of an installation, which every run starts from.\<close>

definition installed_executable :: "path \<Rightarrow> Ps1Executable result step" where
  "installed_executable root =
     and_then (validate_installation root) load_validated_installed_executable"

definition bootstrap_runtime_checkpoint ::
  "path \<Rightarrow> Ps1BootOptions \<Rightarrow> Disk \<Rightarrow> (Ps1BootReport result \<times> Disk) option" where
  "bootstrap_runtime_checkpoint root options d =
     (case installed_executable root d of
        (Inl (e, m), d1) \<Rightarrow> Some (failure e m, d1)
      | (Inr executable, d1) \<Rightarrow>
          (case boot_create executable of
             Inl (e, m) \<Rightarrow> Some (failure e m, d1)
           | Inr runtime \<Rightarrow>
               map_option (\<lambda>(r, rt). (success r, d1)) (boot_run options runtime)))"

definition bootstrap_runtime_checkpoint_to_file ::
  "path \<Rightarrow> path \<Rightarrow> Ps1BootOptions \<Rightarrow> Disk \<Rightarrow> (Ps1BootReport result \<times> Disk) option" where
  "bootstrap_runtime_checkpoint_to_file root report_path options d =
     map_option (\<lambda>(r, d1).
       (case r of
          Inl e \<Rightarrow> (Inl e, d1)
        | Inr rep \<Rightarrow>
            and_then (save_ps1_boot_report_atomic report_path rep) (\<lambda>_. give (success rep)) d1))
       (bootstrap_runtime_checkpoint root options d)"

definition bootstrap_runtime_max3_local_evidence_to_file ::
  "path \<Rightarrow> path \<Rightarrow> Ps1Max3Options \<Rightarrow> Disk \<Rightarrow> (Ps1Max3Report result \<times> Disk) option" where
  "bootstrap_runtime_max3_local_evidence_to_file root report_path options d =
     (case installed_executable root d of
        (Inl (e, m), d1) \<Rightarrow> Some (failure e m, d1)
      | (Inr executable, d1) \<Rightarrow>
          map_option (\<lambda>r.
            (case r of
               Inl (e, m) \<Rightarrow> (failure e m, d1)
             | Inr rep \<Rightarrow>
                 and_then (save_ps1_max3_report_atomic report_path rep) (\<lambda>_. give (success rep)) d1))
            (explore_ps1_max3 executable options))"

definition bootstrap_runtime_local_evidence_to_file ::
  "path \<Rightarrow> path \<Rightarrow> Disk \<Rightarrow> (Ps1BootReport result \<times> Disk) option" where
  "bootstrap_runtime_local_evidence_to_file root report_path d =
     map_option (\<lambda>(r, d1). (map_sum id best_report r, d1))
       (bootstrap_runtime_max3_local_evidence_to_file root report_path
          ps1_max3_local_evidence_options d)"

definition bootstrap_runtime :: "path \<Rightarrow> Disk \<Rightarrow> (unit result \<times> Disk) option" where
  "bootstrap_runtime root d =
     map_option (\<lambda>(r, d1).
       (case r of
          Inl (e, m) \<Rightarrow> (failure e m, d1)
        | Inr rep \<Rightarrow>
            if stop_reason rep = commercial_frame_presented then (success (), d1)
            else (failure backend_unavailable
              (''JoJo PS1 reference checkpoint stopped at '' @
               ps1_boot_stop_reason_name (stop_reason rep) @
               ''; commercial JoJo boot is not verified''), d1)))
       (bootstrap_runtime_checkpoint root (default_boot_options\<lparr>instruction_budget := 10000\<rparr>) d)"

end
