(* ===== verification/Manifest_Props.thy ===== *)
theory Manifest_Props
  imports Conversion_Manifest
begin

text \<open>
  Lemmas on the manifest file: numbers and addresses that parse back, a file of key and value
  lines that reads as those pairs, and the two formats, which load what was written.
\<close>

section \<open>Numbers\<close>

lemma parse_u64_decimal: "parse_u64 (decimal (unat n)) = Inr n"
proof -
  have "unat n < 2 ^ 64" using unsigned_less [of n, where 'a = nat] by simp
  then show ?thesis
    using decimal_digits [of "unat n"]
    by (simp add: parse_u64_def from_chars_u64_def Let_def takeWhile_digits dropWhile_digits)
qed

lemma parse_u32_decimal_u32: "parse_u32_decimal (decimal (unat n)) = Inr n"
proof -
  have n: "unat n < 2 ^ 32" using unsigned_less [of n, where 'a = nat] by simp
  have u: "unat (ucast n :: u64) = unat n" using n by (simp add: unsigned_ucast_eq take_bit_nat_eq_self)
  have "parse_u64 (decimal (unat n)) = Inr (ucast n)"
    using parse_u64_decimal [of "ucast n :: u64"] by (simp only: u)
  moreover have "\<not> (0xFFFFFFFF :: u64) < ucast n"
    using n by (simp add: word_less_nat_alt u)
  moreover have "(ucast (ucast n :: u64) :: u32) = n"
    by transfer simp
  ultimately show ?thesis by (simp add: parse_u32_decimal_def)
qed

lemma hex_digit_facts:
  assumes "n < 16"
  shows "is_lower_hex (hex_digit n)" "hex_digit_value (hex_digit n) = n"
proof -
  have "\<forall>k\<in>set [0..<16]. is_lower_hex (hex_digit k) \<and> hex_digit_value (hex_digit k) = k"
    by code_simp
  then show "is_lower_hex (hex_digit n)" "hex_digit_value (hex_digit n) = n"
    using assms by auto
qed

lemma hex_value_start:
  "foldl (\<lambda>v c. 16 * v + hex_digit_value c) a ds = 16 ^ length ds * a + hex_value ds"
proof (induction ds arbitrary: a)
  case (Cons d ds)
  have "hex_value (d # ds) = 16 ^ length ds * hex_digit_value d + hex_value ds"
    using Cons [of "hex_digit_value d"] by (simp add: hex_value_def)
  then show ?case using Cons [of "16 * a + hex_digit_value d"] by (simp add: algebra_simps)
qed (simp add: hex_value_def)

lemma hex_value_Cons: "hex_value (d # ds) = 16 ^ length ds * hex_digit_value d + hex_value ds"
  using hex_value_start [of "hex_digit_value d" ds] by (simp add: hex_value_def)

lemma hex_value_digits:
  "hex_value (map (\<lambda>k. hex_digit (n div 16 ^ k mod 16)) (rev [0..<m])) = n mod 16 ^ m"
proof (induction m)
  case (Suc m)
  have "n mod 16 ^ Suc m = 16 ^ m * (n div 16 ^ m mod 16) + n mod 16 ^ m"
    using mod_mult2_eq [of n "16 ^ m" 16] by (simp add: mult.commute)
  then show ?case using Suc by (simp add: hex_value_Cons hex_digit_facts)
qed (simp add: hex_value_def)

lemma nibble_value: "unat (drop_bit (4 * k) v AND (15 :: u32)) = unat v div 16 ^ k mod 16"
proof -
  have "(15 :: u32) = mask 4" by (simp add: mask_eq_exp_minus_1)
  then have "drop_bit (4 * k) v AND (15 :: u32) = take_bit 4 (drop_bit (4 * k) v)"
    by (simp only: take_bit_eq_mask)
  then have "unat (drop_bit (4 * k) v AND (15 :: u32)) = take_bit 4 (unat (drop_bit (4 * k) v))"
    by (simp only: unsigned_take_bit_eq)
  also have "\<dots> = take_bit 4 (drop_bit (4 * k) (unat v))"
  proof -
    have "take_bit 32 (unat v) = unat v"
      using unsigned_less [of v, where 'a = nat] by (intro take_bit_nat_eq_self) simp
    then have "unat (drop_bit (4 * k) v) = drop_bit (4 * k) (unat v)"
      using unsigned_drop_bit_eq [of "4 * k" v, where 'a = nat] by simp
    then show ?thesis by (rule arg_cong)
  qed
  also have "\<dots> = unat v div 16 ^ k mod 16"
    by (simp add: take_bit_eq_mod drop_bit_eq_div power_mult)
  finally show ?thesis .
qed

lemma parse_hex_format: "parse_u32_hex_address (format_hex32 v) = Inr v"
proof -
  let ?ds = "map (\<lambda>k. hex_digit (unat v div 16 ^ k mod 16)) (rev [0..<8])"
  have n: "unat v < 2 ^ 32" using unsigned_less [of v, where 'a = nat] by simp
  have f: "format_hex32 v = ''0x'' @ ?ds" by (simp only: format_hex32_def nibble_value)
  have "hex_value ?ds = unat v mod 16 ^ 8" by (rule hex_value_digits)
  also have "\<dots> = unat v" using n by (intro mod_less) simp
  finally have val: "hex_value ?ds = unat v" .
  have low: "list_all is_lower_hex ?ds" by (auto simp: list_all_iff hex_digit_facts simp del: upt_rec_numeral)
  have len: "length ?ds = 8" by simp
  have d: "drop 2 (format_hex32 v) = ?ds" "length (format_hex32 v) = 10"
    "format_hex32 v ! 0 = CHR ''0''" "format_hex32 v ! 1 = CHR ''x''"
    unfolding f by (simp_all only: len length_append append_Cons append_Nil drop_Suc_Cons drop_0
        numeral_2_eq_2 nth_Cons_0 nth_Cons_Suc One_nat_def list.size)
  show ?thesis
    using n by (simp only: parse_u32_hex_address_def d val low) simp
qed

section \<open>Lines\<close>

definition plain_key :: "string \<Rightarrow> bool" where
  "plain_key k \<longleftrightarrow> k \<noteq> [] \<and> line_text k \<and> CHR ''='' \<notin> set k \<and> hd k \<noteq> CHR ''#'' \<and> hd k \<noteq> CHR '';''"

definition clean_pairs :: "manifest_entries \<Rightarrow> bool" where
  "clean_pairs ps \<longleftrightarrow> list_all (\<lambda>(k, v). plain_key k \<and> line_text v) ps"

lemma pair_trimmed:
  assumes "plain_key k" "line_text v"
  shows "trimmed (k @ CHR ''='' # v)"
  using assms by (auto simp: plain_key_def line_text_def trimmed_def trim_space_def)

lemma manifest_entries_pairs:
  "clean_pairs ps \<Longrightarrow> manifest_entries_of (map (\<lambda>(k, v). k @ CHR ''='' # v) ps) = Inr ps"
proof (induction ps)
  case (Cons p ps)
  obtain k v where p: "p = (k, v)" by force
  have kv: "plain_key k" "line_text v" "clean_pairs ps"
    using Cons.prems by (simp_all add: clean_pairs_def p)
  have t: "trim (k @ CHR ''='' # v) = k @ CHR ''='' # v" "trim k = k" "trim v = v"
    using kv by (auto simp: plain_key_def line_text_def intro!: trim_trimmed pair_trimmed)
  have s: "split_equals (k @ CHR ''='' # v) = Some (k, v)"
    using kv(1) by (simp add: split_equals_iff plain_key_def)
  show ?case
    using Cons.IH kv(1,3) by (simp add: p t s Let_def plain_key_def)
qed simp

lemma read_pairs:
  assumes "clean_pairs ps"
  shows "read_manifest_entries path (Some (concat (map pair_line ps))) = Inr ps"
proof -
  let ?ls = "map (\<lambda>(k, v). k @ CHR ''='' # v) ps"
  have "concat (map pair_line ps) = concat (map (\<lambda>l. l @ [CHR 0x0A]) ?ls)"
    by (induction ps) (auto simp: pair_line_def)
  moreover have "\<forall>l\<in>set ?ls. CHR 0x0A \<notin> set l"
    using assms by (auto simp: clean_pairs_def list_all_iff plain_key_def line_text_def)
  ultimately have "read_lines [] (concat (map pair_line ps)) = ?ls" by (simp only: read_lines_text)
  then show ?thesis
    using assms by (simp add: read_manifest_entries_def manifest_entries_pairs)
qed

section \<open>The new format\<close>

lemma when_pairs: "parse_optional_hex (optional_hex h) = Inr h" "parse_optional_dec (optional_dec h) = Inr h"
proof -
  have "format_hex32 n \<noteq> []" for n by (simp add: format_hex32_def)
  then show "parse_optional_hex (optional_hex h) = Inr h"
    by (cases h) (simp_all add: parse_optional_hex_def optional_hex_def parse_hex_format)
  show "parse_optional_dec (optional_dec h) = Inr h"
    by (cases h) (simp_all add: parse_optional_dec_def optional_dec_def parse_u32_decimal_u32)
qed

text \<open>What a file of the new format holds of a manifest.\<close>

definition v2_part :: "ConversionManifest \<Rightarrow> ConversionManifest" where
  "v2_part m = m\<lparr>hash_hex := hash_hex new_manifest, backend := backend new_manifest,
     boot_program_hash_hex := [], backend_abi_version := None, backend_program_hash := [],
     backend_block_count := None, backend_native_block_count := None,
     backend_fallback_block_count := None, backend_native_code_bytes := None\<rparr>"

lemma v2_entries_load:
  "\<exists>seen. load_v2_entries (v2_pairs m) [] new_manifest = Inr (seen, v2_part m) \<and>
     set seen = fst ` set (v2_pairs m)"
  unfolding v2_pairs_def
  apply (simp add: load_v2_entry_def when_pairs parse_u64_decimal)
  apply (rule conjI)
   apply (cases m, simp add: v2_part_def new_manifest_def)
  apply auto
  done

lemma v2_load:
  assumes "validate_v2_manifest m = Inr ()"
  shows "load_v2_manifest (v2_pairs m) = Inr (v2_part m)"
proof -
  obtain seen where run: "load_v2_entries (v2_pairs m) [] new_manifest = Inr (seen, v2_part m)"
    and seen: "set seen = fst ` set (v2_pairs m)" using v2_entries_load by blast
  have "set v2_required_keys \<subseteq> set seen" "''gameplay_status'' \<in> set seen"
    unfolding seen v2_pairs_def v2_required_keys_def by simp_all
  then have none: "find (\<lambda>k. k \<notin> set seen) v2_required_keys = None"
    by (auto simp: find_None_iff)
  have "validate_v2_manifest (v2_part m) = validate_v2_manifest m"
    by (simp add: validate_v2_manifest_def v2_part_def all_statuses_def later_statuses_def
        missing_evidence_def)
  then show ?thesis
    using run none \<open>''gameplay_status'' \<in> set seen\<close> assms by (simp add: load_v2_manifest_def)
qed

section \<open>The legacy format\<close>

definition v1_part :: "ConversionManifest \<Rightarrow> ConversionManifest" where
  "v1_part m = new_manifest\<lparr>manifest_version := ''1'', converter_version := converter_version m,
     source_name := source_name m, source_format := source_format m, source_size := source_size m,
     hash_hex := hash_hex m, revision_id := revision_id m, backend := backend m,
     boot_program_hash_hex := boot_program_hash_hex m, backend_abi_version := backend_abi_version m,
     backend_program_hash := backend_program_hash m, backend_block_count := backend_block_count m,
     backend_native_block_count := backend_native_block_count m,
     backend_fallback_block_count := backend_fallback_block_count m,
     backend_native_code_bytes := backend_native_code_bytes m\<rparr>"

lemma load_v1_entries_append:
  "load_v1_entries (xs @ ys) m = on_success (load_v1_entries xs m) (load_v1_entries ys)"
  by (induction xs m rule: load_v1_entries.induct) (simp_all add: on_success_def split: sum.splits)

lemma load_v1_when:
  "boot_program_hash_hex m = [] \<Longrightarrow> load_v1_entries (when_text ''boot_program_hash_fnv1a64'' t) m =
     Inr (m\<lparr>boot_program_hash_hex := t\<rparr>)"
  "backend_program_hash m = [] \<Longrightarrow> load_v1_entries (when_text ''backend_program_hash'' t) m =
     Inr (m\<lparr>backend_program_hash := t\<rparr>)"
  "backend_abi_version m = None \<Longrightarrow> load_v1_entries (when_number ''backend_abi_version'' n) m =
     Inr (m\<lparr>backend_abi_version := n\<rparr>)"
  "backend_block_count m = None \<Longrightarrow> load_v1_entries (when_number ''backend_block_count'' k) m =
     Inr (m\<lparr>backend_block_count := k\<rparr>)"
  "backend_native_block_count m = None \<Longrightarrow>
     load_v1_entries (when_number ''backend_native_block_count'' k) m =
     Inr (m\<lparr>backend_native_block_count := k\<rparr>)"
  "backend_fallback_block_count m = None \<Longrightarrow>
     load_v1_entries (when_number ''backend_fallback_block_count'' k) m =
     Inr (m\<lparr>backend_fallback_block_count := k\<rparr>)"
  "backend_native_code_bytes m = None \<Longrightarrow>
     load_v1_entries (when_number ''backend_native_code_bytes'' k) m =
     Inr (m\<lparr>backend_native_code_bytes := k\<rparr>)"
  by (simp_all add: when_text_def when_number_def load_v1_entry_def parse_u64_decimal
      parse_u32_decimal_u32 split: option.splits)

lemma v1_entries_load:
  "manifest_version m = ''1'' \<Longrightarrow>
     load_v1_entries (v1_pairs m) (new_manifest\<lparr>manifest_version := ''1''\<rparr>) = Inr (v1_part m)"
  unfolding v1_pairs_def load_v1_entries_append
  by (simp add: load_v1_entry_def parse_u64_decimal load_v1_when new_manifest_def v1_part_def)

lemma v1_load:
  assumes "validate_v1_manifest m = Inr ()"
  shows "load_v1_manifest (v1_pairs m) = Inr (v1_part m)"
proof -
  have one: "manifest_version m = ''1''"
    using assms by (auto simp: validate_v1_manifest_def split: if_splits)
  have "has_complete_native_backend_metadata (v1_part m) = has_complete_native_backend_metadata m"
    by (simp add: has_complete_native_backend_metadata_def v1_part_def)
  then have "validate_v1_manifest (v1_part m) = validate_v1_manifest m"
    using one by (simp add: validate_v1_manifest_def) (simp add: v1_part_def)
  then show ?thesis using v1_entries_load [OF one] assms by (simp add: load_v1_manifest_def)
qed

section \<open>Any manifest\<close>

text \<open>The texts that are free: one trimmed line each.\<close>

definition clean_manifest :: "ConversionManifest \<Rightarrow> bool" where
  "clean_manifest m \<longleftrightarrow> list_all line_text [converter_version m, game_id m, source_name m,
     source_format m, revision_id m, system_cnf_path m, boot_executable m, hash_hex m, backend m,
     boot_program_hash_hex m, backend_program_hash m]"

definition written_part :: "ConversionManifest \<Rightarrow> ConversionManifest" where
  "written_part m = (if manifest_version m = ''1'' then v1_part m else v2_part m)"

lemma line_text_simple: "list_all (\<lambda>c. is_lower_hex c \<or> is_digit c \<or> c = CHR ''x'') t \<Longrightarrow> line_text t"
proof -
  assume all: "list_all (\<lambda>c. is_lower_hex c \<or> is_digit c \<or> c = CHR ''x'') t"
  have ok: "\<not> trim_space c \<and> c \<noteq> CHR 0x0A" if "is_lower_hex c \<or> is_digit c \<or> c = CHR ''x''" for c
    using that by (auto simp: is_lower_hex_def is_digit_def trim_space_def Let_def)
  have "\<not> trim_space c \<and> c \<noteq> CHR 0x0A" if "c \<in> set t" for c
    using all that by (intro ok) (simp add: list_all_iff)
  then show ?thesis
    by (auto simp: line_text_def trimmed_def)
qed

lemma line_text_number: "line_text (decimal n)"
  using decimal_digits [of n] by (intro line_text_simple) (auto simp: list_all_iff)

lemma line_text_hex32: "line_text (format_hex32 v)"
proof (rule line_text_simple)
  have "is_lower_hex (hex_digit (unat v div 16 ^ k mod 16))" for k
    by (simp add: hex_digit_facts)
  moreover have "is_lower_hex (CHR ''0'')" by code_simp
  ultimately show "list_all (\<lambda>c. is_lower_hex c \<or> is_digit c \<or> c = CHR ''x'') (format_hex32 v)"
    unfolding format_hex32_def nibble_value by (auto simp: list_all_iff simp del: upt_rec_numeral)
qed

lemma line_text_optional: "line_text (optional_hex h)" "line_text (optional_dec h)"
  by (cases h; simp add: optional_hex_def optional_dec_def line_text_hex32 line_text_number;
      simp add: line_text_def trimmed_def)+

lemma line_text_valid:
  "valid_status t \<Longrightarrow> line_text t" "is_lower_hex_16 t \<Longrightarrow> line_text t" "line_text []"
proof -
  show "valid_status t \<Longrightarrow> line_text t"
    by (auto simp: valid_status_def line_text_def trimmed_def trim_space_def)
  show "is_lower_hex_16 t \<Longrightarrow> line_text t"
    by (rule line_text_simple) (simp add: is_lower_hex_16_def list_all_iff)
  show "line_text []" by (simp add: line_text_def trimmed_def)
qed

lemma clean_pairs_append: "clean_pairs (xs @ ys) \<longleftrightarrow> clean_pairs xs \<and> clean_pairs ys"
  by (simp add: clean_pairs_def)

lemma clean_pairs_simps [simp]:
  "clean_pairs []" "clean_pairs ((k, v) # ps) \<longleftrightarrow> plain_key k \<and> line_text v \<and> clean_pairs ps"
  by (simp_all add: clean_pairs_def)

lemma plain_keys: "list_all plain_key (''gameplay_status'' # v2_required_keys)"
  "list_all plain_key [''hash_fnv1a64'', ''backend'', ''boot_program_hash_fnv1a64'',
     ''backend_abi_version'', ''backend_program_hash'', ''backend_block_count'',
     ''backend_native_block_count'', ''backend_fallback_block_count'', ''backend_native_code_bytes'']"
  by code_simp+

lemma clean_v2:
  assumes "validate_v2_manifest m = Inr ()" "clean_manifest m"
  shows "clean_pairs (v2_pairs m)"
proof -
  have st: "list_all valid_status (all_statuses m)" "line_text (source_hash_fnv1a64 m)"
    "line_text (psx_exe_hash_fnv1a64 m)" "manifest_version m = ''2''" "platform m = ''playstation''"
    using assms(1) line_text_valid
    by (auto simp: validate_v2_manifest_def split: if_splits)
  have "line_text ''2''" "line_text ''playstation''"
    by (simp_all add: line_text_def trimmed_def trim_space_def)
  then show ?thesis
    using st assms(2) plain_keys(1)
    by (simp add: v2_pairs_def v2_required_keys_def clean_manifest_def all_statuses_def
        line_text_number line_text_optional line_text_valid(1))
qed

lemma clean_when:
  "plain_key k \<Longrightarrow> clean_pairs (when_number k n)"
  "plain_key k \<Longrightarrow> line_text t \<Longrightarrow> clean_pairs (when_text k t)"
  by (cases n; simp add: when_number_def line_text_number) (simp add: when_text_def)

lemma clean_v1:
  assumes "validate_v1_manifest m = Inr ()" "clean_manifest m"
  shows "clean_pairs (v1_pairs m)"
proof -
  have "manifest_version m = ''1''"
    using assms(1) by (auto simp: validate_v1_manifest_def split: if_splits)
  moreover have "line_text ''1''" by (simp add: line_text_def trimmed_def trim_space_def)
  ultimately show ?thesis
    using assms(2) plain_keys
    by (simp add: v1_pairs_def v2_required_keys_def clean_manifest_def clean_pairs_append
        clean_when line_text_number)
qed

lemma detect_single:
  "''manifest_version'' \<notin> fst ` set ps \<Longrightarrow>
     detect_manifest_version ((''manifest_version'', v) # ps) = Inr v"
proof -
  have "''manifest_version'' \<notin> fst ` set ps \<Longrightarrow> detect_loop ps w = Inr w" for w
    by (induction ps w rule: detect_loop.induct) auto
  then show "''manifest_version'' \<notin> fst ` set ps \<Longrightarrow>
     detect_manifest_version ((''manifest_version'', v) # ps) = Inr v"
    by (simp add: detect_manifest_version_def)
qed

lemma detect_pairs:
  "detect_manifest_version (v1_pairs m) = Inr (manifest_version m)"
  "detect_manifest_version (v2_pairs m) = Inr (manifest_version m)"
  unfolding v1_pairs_def v2_pairs_def append_Cons
  by (rule detect_single; auto simp: when_text_def when_number_def split: option.splits)+

theorem load_written:
  assumes "validate_manifest m = Inr ()" "clean_manifest m"
  shows "load_conversion_manifest path (Some (manifest_file_text m)) = Inr (written_part m)"
proof (cases "manifest_version m = ''1''")
  case True
  then have v: "validate_v1_manifest m = Inr ()" using assms(1) by (simp add: validate_manifest_def)
  show ?thesis
    using True v1_load [OF v] detect_pairs(1) [of m] read_pairs [OF clean_v1 [OF v assms(2)]]
    by (simp add: load_conversion_manifest_def manifest_file_text_def write_v1_manifest_def
        written_part_def)
next
  case False
  then have v: "validate_v2_manifest m = Inr ()" using assms(1) by (simp add: validate_manifest_def)
  then have "manifest_version m = ''2''" by (auto simp: validate_v2_manifest_def split: if_splits)
  then show ?thesis
    using False v2_load [OF v] detect_pairs(2) [of m] read_pairs [OF clean_v2 [OF v assms(2)]]
    by (simp add: load_conversion_manifest_def manifest_file_text_def write_v2_manifest_def
        written_part_def)
qed

end
