(* ===== verification/Install_Props.thy ===== *)
theory Install_Props
  imports Installed_Runtime Manifest_Props
begin

text \<open>
  Lemmas on the installation: which paths a step leaves alone, whatever calls fail, what the
  calls return when none fails, and the pointer file, which reads back as what was written.
\<close>

section \<open>Steps that succeed\<close>

lemma and_then_success:
  "and_then f g s = (Inr b, s2) \<longleftrightarrow> (\<exists>a s1. f s = (Inr a, s1) \<and> g a s1 = (Inr b, s2))"
  by (auto simp: and_then_def split: prod.splits sum.splits)

lemma and_then_cases:
  assumes "and_then f g s = (r, s2)"
  obtains (stop) e where "f s = (Inl e, s2)" "r = Inl e"
    | (go) a s1 where "f s = (Inr a, s1)" "g a s1 = (r, s2)"
  using assms by (auto simp: and_then_def split: prod.splits sum.splits)

lemma give_iff [simp]: "give x s = (y, s1) \<longleftrightarrow> y = x \<and> s1 = s"
  by (auto simp: give_def)

lemma on_disk_iff: "on_disk f c = (r, c1) \<longleftrightarrow> (\<exists>d. f (fst c) = (r, d) \<and> c1 = (d, snd c))"
  by (auto simp: on_disk_def split: prod.splits)

lemma report_progress_iff: "report_progress s p k c = (r, c1) \<longleftrightarrow>
     r = success () \<and> c1 = (fst c, snd c @ [\<lparr>stage = s, percent = p, message_key = k\<rparr>])"
  by (auto simp: report_progress_def)

section \<open>Paths that a step leaves alone\<close>

definition leaves :: "(path \<Rightarrow> bool) \<Rightarrow> 'a step \<Rightarrow> bool" where
  "leaves P f \<longleftrightarrow> (\<forall>d r d'. f d = (r, d') \<longrightarrow> (\<forall>p. P p \<longrightarrow> looks d' p = looks d p))"

lemma leavesI: "(\<And>d r d' p. f d = (r, d') \<Longrightarrow> P p \<Longrightarrow> looks d' p = looks d p) \<Longrightarrow> leaves P f"
  by (simp add: leaves_def)

lemma leavesD: "leaves P f \<Longrightarrow> f d = (r, d') \<Longrightarrow> P p \<Longrightarrow> looks d' p = looks d p"
  by (simp add: leaves_def)

named_theorems leaves_intros "steps that leave paths alone"

lemma leaves_and_then [leaves_intros]:
  assumes "leaves P f" "\<And>a. leaves P (g a)"
  shows "leaves P (and_then f g)"
proof (rule leavesI)
  fix d r d' p assume run: "and_then f g d = (r, d')" and p: "P p"
  from run show "looks d' p = looks d p"
    by (cases rule: and_then_cases) (metis assms leavesD p)+
qed

lemma leaves_give [leaves_intros]: "leaves P (give r)"
  by (rule leavesI) simp

lemma leaves_question [leaves_intros]:
  "leaves P (fs_exists p)" "leaves P (fs_is_directory p)" "leaves P (fs_is_regular p)"
  "leaves P (fs_list p)"
     apply (rule leavesI, drule fs_exists_state, simp)
    apply (rule leavesI, drule fs_is_directory_state, simp)
   apply (rule leavesI, drule fs_is_regular_state, simp)
  apply (rule leavesI, drule fs_list_state, simp)
  done

lemma exists_or_error_state:
  "exists_or_error p d = (b, d1) \<Longrightarrow> looks d1 = looks d \<and> disk_nodes d1 = disk_nodes d \<and>
     (\<not> b \<longrightarrow> looks d p = None)"
  by (cases "fs_exists p d") (auto simp: exists_or_error_def dest!: fs_exists_state
      split: sum.splits bool.splits)

lemma leaves_write: "\<not> P p \<Longrightarrow> leaves P (fs_write p t)"
  by (rule leavesI) (drule fs_write_state, auto)

lemma leaves_remove: "\<not> P p \<Longrightarrow> leaves P (fs_remove p)"
  by (rule leavesI) (auto simp: fs_remove_def dest!: os_call_state split: prod.splits option.splits if_splits)

lemma leaves_rename: "(\<And>q. P q \<Longrightarrow> \<not> below a q \<and> \<not> below b q) \<Longrightarrow> leaves P (fs_rename a b)"
  by (rule leavesI) (drule fs_rename_state, auto split: if_splits)

lemma make_directories_state:
  "make_directories ps d = Some d' \<Longrightarrow> p \<notin> set ps \<Longrightarrow> looks d' p = looks d p"
  by (induction ps d rule: make_directories.induct) (auto split: option.splits Node.splits)

lemma leaves_create_directories:
  "(\<And>q. q \<in> set (prefixes_of p) \<Longrightarrow> \<not> P q) \<Longrightarrow> leaves P (fs_create_directories p)"
proof (rule leavesI)
  fix d r d' q assume free: "\<And>q. q \<in> set (prefixes_of p) \<Longrightarrow> \<not> P q"
    and run: "fs_create_directories p d = (r, d')" and q: "P q"
  have "q \<notin> set (prefixes_of p)" using free q by blast
  then show "looks d' q = looks d q"
    using run by (auto simp: fs_create_directories_def dest!: os_call_state
        dest: make_directories_state split: prod.splits option.splits)
qed

lemma leaves_create_directory: "\<not> P p \<Longrightarrow> leaves P (fs_create_directory p)"
  by (rule leavesI) (auto simp: fs_create_directory_def dest!: os_call_state
      split: prod.splits option.splits Node.splits if_splits)

lemma leaves_make_path [leaves_intros]:
  "(\<And>q. q \<in> set (prefixes_of p) \<Longrightarrow> \<not> P q) \<Longrightarrow> leaves P (make_path m p)"
proof (rule leavesI)
  fix d r d' q assume free: "\<And>q. q \<in> set (prefixes_of p) \<Longrightarrow> \<not> P q"
    and run: "make_path m p d = (r, d')" and q: "P q"
  obtain e where "fs_create_directories p d = (e, d')"
    using run by (auto simp: make_path_def split: prod.splits option.splits)
  moreover have "leaves P (fs_create_directories p)" using free by (rule leaves_create_directories)
  ultimately show "looks d' q = looks d q" using q by (blast intro: leavesD)
qed

lemma prefixes_of_iff: "q \<in> set (prefixes_of p) \<longleftrightarrow> q \<noteq> [] \<and> (\<exists>s. p = q @ s)"
proof -
  have "q \<in> set (prefixes_of p) \<longleftrightarrow> (\<exists>n. 1 \<le> n \<and> n \<le> length p \<and> q = take n p)"
    by (auto simp: prefixes_of_def)
  also have "\<dots> \<longleftrightarrow> q \<noteq> [] \<and> (\<exists>s. p = q @ s)"
  proof
    assume "\<exists>n. 1 \<le> n \<and> n \<le> length p \<and> q = take n p"
    then show "q \<noteq> [] \<and> (\<exists>s. p = q @ s)"
      by (metis One_nat_def append_take_drop_id le_zero_eq length_0_conv length_take min.absorb2
          nat.simps(3))
  next
    assume "q \<noteq> [] \<and> (\<exists>s. p = q @ s)"
    then show "\<exists>n. 1 \<le> n \<and> n \<le> length p \<and> q = take n p"
      by (intro exI [of _ "length q"]) (auto simp: Suc_le_eq)
  qed
  finally show ?thesis .
qed

section \<open>The old installation\<close>

text \<open>The pointer and the generation it names.\<close>

definition installed :: "path \<Rightarrow> string \<Rightarrow> path \<Rightarrow> bool" where
  "installed root i q \<longleftrightarrow> q = active_pointer_path root \<or> below (root @ [''generations'', i]) q"

lemma installed_iff:
  "installed root i q \<longleftrightarrow> q = root @ [''active_install.ini''] \<or> (\<exists>s. q = root @ ''generations'' # i # s)"
  by (auto simp: installed_def active_pointer_path_def below_iff)

lemma installed_not:
  "\<not> installed root i (take n root)"
  "x \<noteq> ''active_install.ini'' \<Longrightarrow> \<not> installed root i (root @ [x])"
  "x \<noteq> ''generations'' \<Longrightarrow> \<not> installed root i (root @ x # y # s)"
proof -
  have "installed root i q \<Longrightarrow> length root < length q" for q by (auto simp: installed_iff)
  from this [of "take n root"] show "\<not> installed root i (take n root)" by auto
  show "x \<noteq> ''active_install.ini'' \<Longrightarrow> \<not> installed root i (root @ [x])"
    "x \<noteq> ''generations'' \<Longrightarrow> \<not> installed root i (root @ x # y # s)"
    by (simp_all add: installed_iff)
qed

lemma installed_prefix:
  assumes "q \<in> set (prefixes_of (root @ x # s))" "x \<noteq> ''generations''" "x \<noteq> ''active_install.ini''"
  shows "\<not> installed root i q"
proof -
  obtain t where t: "root @ x # s = q @ t" using assms(1) by (auto simp: prefixes_of_iff)
  have q: "q = take (length q) root @ take (length q - length root) (x # s)"
    using arg_cong [OF t, of "take (length q)"] by simp
  consider "length q \<le> length root" | "length q = Suc (length root)"
    | m where "length q = length root + Suc (Suc m)"
    by (metis add_Suc_right less_imp_Suc_add not_less not_less_eq_eq le_antisym Suc_leI)
  then consider n where "q = take n root" | "q = root @ [x]" | y u where "q = root @ x # y # u"
  proof cases
    case 1
    then show ?thesis using q that(1) [of "length q"] by simp
  next
    case 2
    then show ?thesis using q that(2) by simp
  next
    case (3 m)
    then have "q = root @ x # take (Suc m) s" using q by simp
    then show ?thesis using that(2,3) by (cases s) auto
  qed
  then show ?thesis using assms(2,3) installed_not by cases metis+
qed

lemma installed_child: "x \<noteq> ''active_install.ini'' \<Longrightarrow> \<not> installed root i (take n root @ [x])"
proof (cases "n < length root")
  case True
  then have "length (take n root @ [x]) \<le> length root" by simp
  moreover have "installed root i q \<Longrightarrow> length root < length q" for q by (auto simp: installed_iff)
  ultimately show ?thesis by (meson not_less)
qed (simp add: installed_not)

section \<open>The destination and a new generation\<close>

lemma nearest_prefix:
  "nearest_existing_directory p d = (r, d') \<Longrightarrow>
     looks d' = looks d \<and> (\<forall>q. r = Inr q \<longrightarrow> (\<exists>n. q = take n p))"
proof (induction p d arbitrary: r d' rule: nearest_existing_directory.induct)
  case (1 p d)
  show ?case
  proof (cases "p = []")
    case True
    then show ?thesis using "1.prems" by (auto simp: nearest_existing_directory.simps [of "[]"])
  next
    case False
    obtain a d1 where a: "fs_exists p d = (a, d1)" by force
    then have l1: "looks d1 = looks d" using fs_exists_state by blast
    obtain b d2 where b: "fs_is_directory p d1 = (b, d2)" by force
    then have l2: "looks d2 = looks d1" using fs_is_directory_state by blast
    consider m where "a = Inl m" | "a = Inr True" | "a = Inr False"
      by (cases a) auto
    then show ?thesis
    proof cases
      case 2
      have "\<exists>n. p = take n p" by (metis take_all order_refl)
      then show ?thesis
        using "1.prems" False a b 2 l1 l2
        by (auto simp: nearest_existing_directory.simps [of p] split: sum.splits bool.splits)
    next
      case 3
      then have rec: "nearest_existing_directory (butlast p) d1 = (r, d')"
        using "1.prems" False a by (simp add: nearest_existing_directory.simps [of p])
      have "\<exists>m. take n (butlast p) = take m p" for n by (metis butlast_conv_take take_take)
      then show ?thesis
        using "1.IH" [OF False a [symmetric] 3 refl rec] l1 by auto
    qed (use "1.prems" False a l1 in \<open>auto simp: nearest_existing_directory.simps [of p]\<close>)
  qed
qed

lemma leaves_nearest [leaves_intros]: "leaves P (nearest_existing_directory p)"
  by (rule leavesI) (simp add: nearest_prefix)

lemma leaves_writable:
  assumes "\<not> P (dir @ [''.jojo-write-probe-'' @ c @ ''.tmp''])" "disk_clock d = c"
    "verify_directory_writable dir d = (r, d')" "P p"
  shows "looks d' p = looks d p"
proof -
  let ?probe = "dir @ [''.jojo-write-probe-'' @ c @ ''.tmp'']"
  obtain w d1 where w: "fs_write ?probe [CHR 0x00] d = (w, d1)" by force
  obtain e d2 where e: "fs_remove ?probe d1 = (e, d2)" by force
  have "looks d1 p = looks d p" "looks d2 p = looks d1 p"
    using leavesD [OF leaves_write w] leavesD [OF leaves_remove e] assms(1,4) by blast+
  then show ?thesis
    using assms(2,3) w e
    by (auto simp: verify_directory_writable_def Let_def split: WriteOutcome.splits option.splits)
qed

lemma leaves_space [leaves_intros]: "leaves P (check_space n)"
  by (rule leavesI) (auto simp: check_space_def fs_space_def dest!: os_call_state
      split: prod.splits sum.splits option.splits if_splits)

lemma leaves_root [leaves_intros]: "leaves P (check_root root)"
proof (rule leavesI)
  fix d r d' p assume run: "check_root root d = (r, d')"
  obtain a d1 where a: "fs_exists root d = (a, d1)" by force
  obtain b d2 where b: "fs_is_directory root d1 = (b, d2)" by force
  show "looks d' p = looks d p"
    using run a b fs_exists_state [OF a] fs_is_directory_state [OF b]
    by (auto simp: check_root_def split: sum.splits bool.splits)
qed

lemma leaves_destination [leaves_intros]:
  "leaves (installed root i) (validate_install_destination root n)"
proof (rule leavesI)
  fix d r d' q
  assume run: "validate_install_destination root n d = (r, d')" and q: "installed root i q"
  have probe: "\<not> installed root i (take k root @ [''.jojo-write-probe-'' @ c @ ''.tmp''])" for k c
    by (rule installed_child) simp
  have writable: "leaves (installed root i) (verify_directory_writable (take k root))" for k
  proof (rule leavesI)
    fix d r d' p assume "verify_directory_writable (take k root) d = (r, d')" "installed root i p"
    then show "looks d' p = looks d p" by (rule leaves_writable [where P = "installed root i", OF probe refl])
  qed
  show "looks d' q = looks d q"
  proof (cases "root = []")
    case True
    then show ?thesis using run by (simp add: validate_install_destination_def)
  next
    case False
    with run have "and_then (check_root root) (\<lambda>ex. and_then (nearest_existing_directory root)
        (\<lambda>existing. and_then (verify_directory_writable (if ex then root else existing))
          (\<lambda>_. check_space n))) d = (r, d')"
      by (simp add: validate_install_destination_def)
    then show ?thesis
    proof (cases rule: and_then_cases)
      case (stop e)
      then show ?thesis using leavesD [OF leaves_root] q by blast
    next
      case (go ex d1)
      have l1: "looks d1 q = looks d q" using leavesD [OF leaves_root go(1)] q by blast
      from go(2) show ?thesis
      proof (cases rule: and_then_cases)
        case (stop e)
        then show ?thesis using l1 leavesD [OF leaves_nearest] q by metis
      next
        case (go near d2)
        obtain k where k: "near = take k root" using nearest_prefix [OF go(1)] by blast
        have l2: "looks d2 q = looks d1 q" using nearest_prefix [OF go(1)] by simp
        obtain j where j: "(if ex then root else near) = take j root"
          using k by (metis take_all order_refl)
        have "leaves (installed root i)
            (and_then (verify_directory_writable (take j root)) (\<lambda>_. check_space n))"
          by (intro leaves_and_then writable leaves_space)
        then show ?thesis using go(2) l1 l2 q unfolding j by (metis leavesD)
      qed
    qed
  qed
qed

section \<open>A new generation\<close>

lemma highest_name_ge:
  "h \<le> highest_name ns h \<and> (\<forall>x\<in>set ns. \<forall>m. parse_generation_id x = Some m \<longrightarrow> m \<le> highest_name ns h)"
proof (induction ns arbitrary: h)
  case (Cons y ns)
  define g where "g = (case parse_generation_id y of None \<Rightarrow> h | Some n \<Rightarrow> if n > h then n else h)"
  have "h \<le> g" "\<forall>m. parse_generation_id y = Some m \<longrightarrow> m \<le> g"
    by (auto simp: g_def split: option.splits)
  then show ?case using Cons [of g] by (auto simp flip: g_def intro: order_trans)
qed simp

lemma children_iff:
  "x \<in> set (children ns p) \<longleftrightarrow> (\<exists>n. (p @ [x], n) \<in> set ns)"
proof
  assume "x \<in> set (children ns p)"
  then obtain q n where "(q, n) \<in> set ns" "q \<noteq> []" "butlast q = p" "x = last q"
    by (auto simp: children_def)
  then show "\<exists>n. (p @ [x], n) \<in> set ns" by (metis append_butlast_last_id)
next
  assume "\<exists>n. (p @ [x], n) \<in> set ns"
  then show "x \<in> set (children ns p)" by (force simp: children_def)
qed

lemma looks_child: "looks d (p @ [x]) \<noteq> None \<Longrightarrow> x \<in> set (children (disk_nodes d) p)"
  unfolding children_iff looks_def by (metis map_of_SomeD not_None_eq)

text \<open>Behind the loop over the containers no number found is above the result.\<close>

lemma highest_in_ge:
  "highest_in ps h d = (Inr peak, d') \<Longrightarrow> disk_nodes d' = disk_nodes d \<and> h \<le> peak \<and>
     (\<forall>p\<in>set ps. looks d p \<noteq> None \<longrightarrow>
       (\<forall>x m. looks d (p @ [x]) \<noteq> None \<longrightarrow> parse_generation_id x = Some m \<longrightarrow> m \<le> peak))"
proof (induction ps h d arbitrary: peak d' rule: highest_in.induct)
  case (2 p ps h d)
  obtain a d1 where a: "fs_exists p d = (a, d1)" by force
  note s1 = fs_exists_state [OF a]
  consider (no) "a = Inr False" "highest_in ps h d1 = (Inr peak, d')"
    | (yes) d2 ns d3 where "a = Inr True" "fs_is_directory p d1 = (Inr True, d2)"
        "fs_list p d2 = (Inr ns, d3)" "highest_in ps (highest_name ns h) d3 = (Inr peak, d')"
  proof -
    obtain c d2 where c: "fs_is_directory p d1 = (c, d2)" by force
    obtain l d3 where l: "fs_list p d2 = (l, d3)" by force
    have "a = Inr False \<and> highest_in ps h d1 = (Inr peak, d') \<or> a = Inr True \<and> c = Inr True \<and>
        (\<exists>ns. l = Inr ns \<and> highest_in ps (highest_name ns h) d3 = (Inr peak, d'))"
      using "2.prems" unfolding highest_in.simps a c l prod.case
      by (cases a; cases c; cases l) (simp_all split: bool.splits add: c l)
    then show ?thesis
    proof (elim disjE conjE exE)
      assume "a = Inr False" "highest_in ps h d1 = (Inr peak, d')"
      then show ?thesis by (rule that(1))
    next
      fix ns assume "a = Inr True" "c = Inr True" "l = Inr ns"
        "highest_in ps (highest_name ns h) d3 = (Inr peak, d')"
      then show ?thesis using that(2) [of d2 ns d3] c l by simp
    qed
  qed
  then show ?case
  proof cases
    case no
    then have "disk_nodes d' = disk_nodes d1 \<and> h \<le> peak \<and>
     (\<forall>p\<in>set ps. looks d1 p \<noteq> None \<longrightarrow>
       (\<forall>x m. looks d1 (p @ [x]) \<noteq> None \<longrightarrow> parse_generation_id x = Some m \<longrightarrow> m \<le> peak))"
      using "2.IH"(2) [OF a [symmetric] no(1) refl no(2)] by simp
    then show ?thesis using s1 no by auto
  next
    case yes
    note s2 = fs_is_directory_state [OF yes(2)] and s3 = fs_list_state [OF yes(3)]
    have IH: "disk_nodes d' = disk_nodes d3 \<and> highest_name ns h \<le> peak \<and>
     (\<forall>p\<in>set ps. looks d3 p \<noteq> None \<longrightarrow>
       (\<forall>x m. looks d3 (p @ [x]) \<noteq> None \<longrightarrow> parse_generation_id x = Some m \<longrightarrow> m \<le> peak))"
      using "2.IH"(1) [OF a [symmetric] yes(1) refl yes(2) [symmetric] refl refl yes(3) [symmetric] refl yes(4)] by simp
    have "m \<le> peak" if "looks d (p @ [x]) \<noteq> None" "parse_generation_id x = Some m" for x m
      using looks_child [OF that(1)] that(2) highest_name_ge [of h ns] IH s1 s2 s3
      by (metis order_trans)
    then show ?thesis using IH highest_name_ge [of h ns] s1 s2 s3 by (auto intro: order_trans)
  qed
qed simp

lemma leaves_highest_in [leaves_intros]: "leaves P (highest_in ps h)"
proof (rule leavesI)
  show "highest_in ps h d = (r, d') \<Longrightarrow> looks d' p = looks d p" for d r d' p
  proof (induction ps h d arbitrary: r d' rule: highest_in.induct)
    case (2 q ps h d)
    obtain a d1 where a: "fs_exists q d = (a, d1)" by force
    obtain c d2 where c: "fs_is_directory q d1 = (c, d2)" by force
    obtain l d3 where l: "fs_list q d2 = (l, d3)" by force
    have s: "looks d1 = looks d" "looks d2 = looks d1" "looks d3 = looks d2"
      using fs_exists_state [OF a] fs_is_directory_state [OF c] fs_list_state [OF l] by auto
    consider "a = Inr False" "highest_in ps h d1 = (r, d')"
      | ns where "a = Inr True" "c = Inr True" "l = Inr ns" "highest_in ps (highest_name ns h) d3 = (r, d')"
      | "d' = d1 \<or> d' = d2 \<or> d' = d3"
    proof -
      have "a = Inr False \<and> highest_in ps h d1 = (r, d') \<or> a = Inr True \<and> c = Inr True \<and>
          (\<exists>ns. l = Inr ns \<and> highest_in ps (highest_name ns h) d3 = (r, d')) \<or>
          d' = d1 \<or> d' = d2 \<or> d' = d3"
        using "2.prems" unfolding highest_in.simps a c l prod.case
        by (cases a; cases c; cases l) (simp_all split: bool.splits if_splits add: c l)
      then show ?thesis
        using that(1) that(2) that(3) by (elim disjE conjE exE) simp_all
    qed
    then show ?case
    proof cases
      case 1
      then show ?thesis using "2.IH"(2) [OF a [symmetric] 1(1) refl 1(2)] s by simp
    next
      case (2 ns)
      then show ?thesis
        using "2.IH"(1) [OF a [symmetric] 2(1) refl c [symmetric] 2(2) refl l [symmetric] 2(3) 2(4)] s
        by simp
    qed (use s in auto)
  qed simp
qed

lemma leaves_begin [leaves_intros]: "leaves (installed root i) (begin_install_generation root)"
proof (rule leavesI)
  fix d r d' q assume run: "begin_install_generation root d = (r, d')" and q: "installed root i q"
  have make: "leaves (installed root i) (make_staging (pending_generation root n))" for n
  proof (rule leavesI)
    fix d r d' q assume m: "make_staging (pending_generation root n) d = (r, d')" and q: "installed root i q"
    let ?g = "pending_generation root n"
    obtain a d1 where a: "exists_or_error (staging_dir ?g) d = (a, d1)" by force
    obtain b d2 where b: "exists_or_error (final_dir ?g) d1 = (b, d2)" by force
    obtain c d3 where c: "fs_create_directory (staging_dir ?g) d2 = (c, d3)" by force
    have "\<not> installed root i (staging_dir ?g)"
      by (simp add: pending_generation_def Let_def installed_not)
    then have "looks d3 q = looks d2 q" using leavesD [OF leaves_create_directory c] q by blast
    then show "looks d' q = looks d q"
      using m a b c exists_or_error_state [OF a] exists_or_error_state [OF b]
      by (auto simp: make_staging_def Let_def split: if_splits bool.splits option.splits)
  qed
  have path: "leaves (installed root i) (make_path m (root @ [x]))"
    if "x = ''.staging'' \<or> x = ''generations''" for m x
  proof (rule leaves_make_path)
    fix q assume "q \<in> set (prefixes_of (root @ [x]))"
    then have "length q \<le> Suc (length root) \<and> (length q = Suc (length root) \<longrightarrow> q = root @ [x])"
      by (auto simp: prefixes_of_iff append_eq_append_conv2 Cons_eq_append_conv)
    then show "\<not> installed root i q" using that by (auto simp: installed_iff)
  qed
  show "looks d' q = looks d q"
  proof (cases "root = []")
    case False
    have "leaves (installed root i) (and_then (make_path ''failed to create staging directory: '' (root @ [''.staging''])) (\<lambda>_.
        and_then (make_path ''failed to create generations directory: '' (root @ [''generations''])) (\<lambda>_.
        and_then (highest_generation_number root) (\<lambda>highest.
          if highest \<ge> kMaxGenerationNumber
          then give (failure invalid_installation ''installation generation sequence is exhausted'')
          else make_staging (pending_generation root (highest + 1))))))"
      unfolding highest_generation_number_def
      by (intro leaves_and_then path leaves_highest_in) (simp_all add: make leaves_give)
    then show ?thesis
      using run False q unfolding begin_install_generation_def by (simp only: if_False) (blast dest: leavesD)
  qed (use run in \<open>simp add: begin_install_generation_def\<close>)
qed

end
