(* ===== verification/Install_Commit.thy ===== *)
theory Install_Commit
  imports Install_Props
begin

text \<open>
  Lemmas on one conversion's generation: its fresh id, the pointer file, what a commit leaves
  of the disk at every failure, and what the readers find on a disk whose calls succeed.
\<close>

section \<open>Generation ids\<close>

lemma length_decimal_small: "n \<le> 999999 \<Longrightarrow> length (decimal n) \<le> 6"
proof -
  have step: "n < 10 * k \<Longrightarrow> (\<And>m. m < k \<Longrightarrow> length (decimal m) \<le> l) \<Longrightarrow> 0 < l \<Longrightarrow>
      length (decimal n) \<le> Suc l" for n k l
    by (simp add: decimal.simps [of n] less_mult_imp_div_less mult.commute)
  have d1: "length (decimal m) \<le> 1" if "m < 10" for m using that by (simp add: decimal.simps [of m])
  have d2: "length (decimal m) \<le> 2" if "m < 100" for m using step [of m 10 1] that d1 by simp
  have d3: "length (decimal m) \<le> 3" if "m < 1000" for m using step [of m 100 2] that d2 by simp
  have d4: "length (decimal m) \<le> 4" if "m < 10000" for m using step [of m 1000 3] that d3 by simp
  have d5: "length (decimal m) \<le> 5" if "m < 100000" for m using step [of m 10000 4] that d4 by simp
  show "n \<le> 999999 \<Longrightarrow> length (decimal n) \<le> 6" using step [of n 100000 5] d5 by simp
qed

lemma decimal_value_zeros: "decimal_value (replicate k (CHR ''0'') @ ds) = decimal_value ds"
proof (induction k)
  case (Suc k)
  have "decimal_value (CHR ''0'' # xs) = decimal_value xs" for xs
    by (simp add: decimal_value_def digit_value_def)
  then show ?case using Suc by simp
qed simp

definition generation_number :: "u32 \<Rightarrow> bool" where
  "generation_number n \<longleftrightarrow> 0 < n \<and> n \<le> kMaxGenerationNumber"

lemma generation_number_nat: "generation_number n \<Longrightarrow> unat n \<le> 999999"
  by (simp add: generation_number_def kMaxGenerationNumber_def word_le_nat_alt)

lemma generation_digits:
  assumes "generation_number n"
  shows "\<exists>ds. format_generation_id n = kGenerationPrefix @ ds \<and> length ds = 6 \<and>
    list_all is_digit ds \<and> decimal_value ds = unat n"
proof -
  let ?ds = "replicate (6 - length (decimal (unat n))) (CHR ''0'') @ decimal (unat n)"
  have "length ?ds = 6" using length_decimal_small [OF generation_number_nat [OF assms]] by simp
  moreover have "is_digit (CHR ''0'')" by code_simp
  then have "list_all is_digit ?ds" using decimal_digits [of "unat n"] by (auto simp: list_all_iff)
  ultimately show ?thesis
    by (intro exI [of _ ?ds]) (simp add: format_generation_id_def Let_def decimal_value_zeros)
qed

lemma parse_format_generation: "generation_number n \<Longrightarrow> parse_generation_id (format_generation_id n) = Some n"
proof -
  assume n: "generation_number n"
  obtain ds where ds: "format_generation_id n = kGenerationPrefix @ ds" "length ds = 6"
      "list_all is_digit ds" "decimal_value ds = unat n"
    using generation_digits [OF n] by blast
  have "unat n < 2 ^ 32" using generation_number_nat [OF n] by simp
  then show ?thesis
    using n by (auto simp: parse_generation_id_def ds Let_def generation_number_def)
qed

lemma ten_digits: "10 * a + x = 10 * b + y \<Longrightarrow> x < 10 \<Longrightarrow> y < 10 \<Longrightarrow> a = b \<and> x = y"
  for a b x y :: nat
  by presburger

lemma digits_determined:
  assumes "list_all is_digit ds" "list_all is_digit es" "length ds = length es"
    "decimal_value ds = decimal_value es"
  shows "ds = es"
  using assms(3,1,2,4)
proof (induction ds es rule: rev_induct2)
  case (4 d ds e es)
  have v: "digit_value d < 10" "digit_value e < 10" using 4 by (simp_all add: digit_value_less)
  have "10 * decimal_value ds + digit_value d = 10 * decimal_value es + digit_value e"
    using 4 by simp
  then have eq: "decimal_value ds = decimal_value es" "digit_value d = digit_value e"
    using ten_digits [OF _ v] by blast+
  have "is_digit d" "is_digit e" using 4 by simp_all
  then have "d = e" using eq(2) by (metis digit_char_value)
  moreover have "ds = es" using "4.IH" "4.prems" eq(1) by simp
  ultimately show ?case by simp
qed simp_all

lemma format_parse_generation:
  assumes "parse_generation_id i = Some n"
  shows "generation_number n \<and> i = format_generation_id n"
proof -
  let ?ds = "drop (length kGenerationPrefix) i"
  have p: "length i = length kGenerationPrefix + 6" "take (length kGenerationPrefix) i = kGenerationPrefix"
    "list_all is_digit ?ds" "decimal_value ?ds < 2 ^ 32" "n = of_nat (decimal_value ?ds)"
    and n: "generation_number n"
    using assms by (auto simp: parse_generation_id_def Let_def generation_number_def word_gt_0
        split: if_splits)
  obtain es where es: "format_generation_id n = kGenerationPrefix @ es" "length es = 6"
      "list_all is_digit es" "decimal_value es = unat n"
    using generation_digits [OF n] by blast
  have "unat n = decimal_value ?ds" using p(4,5) by (simp add: unat_of_nat take_bit_nat_eq_self)
  then have "?ds = es" using p(1,3) es by (intro digits_determined) simp_all
  moreover have "i = kGenerationPrefix @ ?ds" using p(2) by (metis append_take_drop_id)
  ultimately show ?thesis using n es(1) by simp
qed

lemma generation_id_chars:
  assumes "parse_generation_id i = Some n"
  shows "CHR ''/'' \<notin> set i" "CHR 0x0A \<notin> set i" "CHR 0x0D \<notin> set i" "i \<noteq> []"
    "i \<noteq> ''.''" "i \<noteq> ''..''" "last i \<noteq> CHR 0x0D"
proof -
  obtain ds where ds: "i = kGenerationPrefix @ ds" "length ds = 6" "list_all is_digit ds"
    using format_parse_generation [OF assms] generation_digits by metis
  have d: "\<not> is_digit (CHR ''/'')" "\<not> is_digit (CHR 0x0A)" "\<not> is_digit (CHR 0x0D)" by code_simp+
  have pre: "CHR ''/'' \<notin> set kGenerationPrefix" "CHR 0x0A \<notin> set kGenerationPrefix"
    "CHR 0x0D \<notin> set kGenerationPrefix" by (simp_all add: kGenerationPrefix_def)
  show "CHR ''/'' \<notin> set i" "CHR 0x0A \<notin> set i" "CHR 0x0D \<notin> set i" "i \<noteq> []"
    using ds(3) d pre by (auto simp: ds(1) list_all_iff kGenerationPrefix_def)
  then show "last i \<noteq> CHR 0x0D" by (metis last_in_set)
  show "i \<noteq> ''.''" "i \<noteq> ''..''" by (simp_all add: ds(1) kGenerationPrefix_def)
qed

section \<open>The pointer file\<close>

lemma split_on_append: "c \<notin> set a \<Longrightarrow> split_on c (a @ c # b) = a # split_on c b"
  by (induction a) (auto split: list.splits)

lemma split_on_none: "c \<notin> set a \<Longrightarrow> split_on c a = [a]"
  by (induction a) auto

definition pointer_target :: "string \<Rightarrow> string" where
  "pointer_target i = ''generations/'' @ i @ ''/game_manifest.ini''"

lemma path_of_target:
  assumes "CHR ''/'' \<notin> set i" "i \<noteq> []"
  shows "path_of (pointer_target i) = [''generations'', i, game_manifest]"
proof -
  have "split_on (CHR ''/'') (pointer_target i) =
      split_on (CHR ''/'') (''generations'' @ CHR ''/'' # (i @ CHR ''/'' # ''game_manifest.ini''))"
    by (simp add: pointer_target_def)
  also have "\<dots> = ''generations'' # i # split_on (CHR ''/'') ''game_manifest.ini''"
    using split_on_append [of "CHR ''/''" "''generations''"] split_on_append [OF assms(1)]
    by (simp del: split_on.simps)
  also have "split_on (CHR ''/'') ''game_manifest.ini'' = [''game_manifest.ini'']" by code_simp
  finally show ?thesis
    using assms(2) by (simp add: path_of_def Let_def game_manifest_def) (simp add: pointer_target_def)
qed

lemma normal_names:
  assumes "\<forall>c\<in>set p. c \<noteq> [] \<and> c \<noteq> ''.'' \<and> c \<noteq> ''..''"
  shows "normal_loop p out tr = (out @ p, if p = [] then tr else False)"
  using assms by (induction p arbitrary: out tr) auto

lemma same_path_names: "same_path p p" by (simp add: same_path_def)

lemma read_pointer_text:
  assumes "parse_generation_id i = Some n"
  shows "parse_active_pointer (pointer_text i) =
    Inr \<lparr>pointer_format = ''1'', pointer_id = i, pointer_manifest = pointer_target i\<rparr>"
proof -
  note c = generation_id_chars [OF assms]
  let ?ls = "[''format=1'', ''generation_id='' @ i, ''manifest='' @ pointer_target i]"
  have "pointer_text i = concat (map (\<lambda>l. l @ [CHR 0x0A]) ?ls)"
    by (simp add: pointer_text_def pointer_target_def)
  moreover have "\<forall>l\<in>set ?ls. CHR 0x0A \<notin> set l" using c by (auto simp: pointer_target_def)
  ultimately have lines: "read_lines [] (pointer_text i) = ?ls" by (simp only: read_lines_text)
  have l1: "pointer_line ''format=1'' [] p = Inr ([''format''], p\<lparr>pointer_format := ''1''\<rparr>)" for p
    by (simp add: pointer_line_def Let_def)
  have l2: "pointer_line (''generation_id='' @ i) [''format''] p =
      Inr ([''generation_id'', ''format''], p\<lparr>pointer_id := i\<rparr>)" for p
    using c by (simp add: pointer_line_def Let_def)
  have l3: "pointer_line (''manifest='' @ pointer_target i) [''generation_id'', ''format''] p =
      Inr ([''manifest'', ''generation_id'', ''format''], p\<lparr>pointer_manifest := pointer_target i\<rparr>)" for p
    by (simp add: pointer_line_def Let_def) (simp add: pointer_target_def)
  have "pointer_target i \<noteq> []" by (simp add: pointer_target_def)
  then show ?thesis
    using assms by (simp only: parse_active_pointer_def lines pointer_lines.simps l1 l2 l3
        on_success_simps prod.case) simp
qed

section \<open>Committing\<close>

lemma check_staging_state:
  assumes "check_staging staging final d = (r, d')"
  shows "looks d' = looks d \<and> (r = Inr () \<longrightarrow> looks d staging = Some dir_node \<and>
    is_file (looks d (staging @ [game_manifest])) \<and> looks d final = None)"
proof -
  obtain a d1 where a: "fs_is_directory staging d = (a, d1)" by force
  obtain b d2 where b: "fs_is_regular (staging @ [game_manifest]) d1 = (b, d2)" by force
  obtain c d3 where c: "exists_or_error final d2 = (c, d3)" by force
  note st = fs_is_directory_state [OF a] fs_is_regular_state [OF b] exists_or_error_state [OF c]
  show ?thesis
    using assms unfolding check_staging_def a prod.case
    by (cases a; cases b; cases c) (use st b c in \<open>auto split: bool.splits sum.splits\<close>)
qed

lemma not_below_other: "x \<noteq> y \<Longrightarrow> \<not> below (root @ x # s) (root @ y # t)"
  by (auto simp: below_iff)

lemma write_pointer_state:
  assumes "write_pointer root i d = (r, d')"
  shows "\<not> below (pointer_temp root) q \<Longrightarrow> \<not> below (active_pointer_path root) q \<Longrightarrow> looks d' q = looks d q"
    and "r \<noteq> Inr () \<Longrightarrow> looks d' (active_pointer_path root) = looks d (active_pointer_path root)"
    and "r = Inr () \<Longrightarrow> looks d' (active_pointer_path root) = Some (file_node (pointer_text i))"
proof -
  let ?t = "pointer_temp root" and ?p = "active_pointer_path root"
  have ne: "?t \<noteq> ?p" "\<not> below ?t ?p" "\<not> below ?p ?t"
    by (auto simp: pointer_temp_def active_pointer_path_def below_iff)
  obtain w d1 where w: "fs_write ?t (pointer_text i) d = (w, d1)" by force
  obtain e d2 where e: "fs_rename ?t ?p d1 = (e, d2)" by force
  note ws = fs_write_state [OF w] and es = fs_rename_state [OF e]
  have d1: "looks d1 q = looks d q" if "q \<noteq> ?t" for q using ws that by auto
  have self: "below q q" for q by (simp add: below_def)
  consider "w \<noteq> written" "d' = d1" "r \<noteq> Inr ()"
    | "w = written" "e = None" "d' = d2" "r = Inr ()" | "w = written" "e \<noteq> None" "d' = d2" "r \<noteq> Inr ()"
    using assms w e
    by (cases w; cases e) (auto simp: write_pointer_def atomic_replace_file_def)
  note cases = this
  show "\<not> below ?t q \<Longrightarrow> \<not> below ?p q \<Longrightarrow> looks d' q = looks d q"
    using cases d1 [of q] es self by cases (auto split: if_splits)
  show "r \<noteq> Inr () \<Longrightarrow> looks d' ?p = looks d ?p"
    using cases d1 [of ?p] es ne by cases (auto split: if_splits)
  show "r = Inr () \<Longrightarrow> looks d' ?p = Some (file_node (pointer_text i))"
    using cases es ws self by cases (auto split: if_splits)
qed

lemma commit_state:
  assumes run: "commit_install_generation root g d = (r, d')"
  defines "staging \<equiv> root @ [''.staging'', pending_id g]"
    and "final \<equiv> root @ [''generations'', pending_id g]"
  shows "r \<noteq> Inr () \<Longrightarrow> looks d' (active_pointer_path root) = looks d (active_pointer_path root)"
    and "looks d (root @ [''generations'', i]) \<noteq> None \<Longrightarrow> below (root @ [''generations'', i]) q \<Longrightarrow>
      looks d' q = looks d q"
    and "r = Inr () \<Longrightarrow> root \<noteq> [] \<and> parse_generation_id (pending_id g) \<noteq> None \<and>
      looks d staging = Some dir_node \<and> is_file (looks d (staging @ [game_manifest])) \<and>
      looks d' (active_pointer_path root) = Some (file_node (pointer_text (pending_id g))) \<and>
      looks d' root = looks d root \<and> (\<forall>s. looks d' (final @ s) = looks d (staging @ s))"
proof -
  let ?p = "active_pointer_path root"
  have far: "\<not> below (pointer_temp root) q" "\<not> below ?p q"
    if "q = root \<or> (\<exists>s. q = root @ ''generations'' # s)" for q
    using that by (auto simp: pointer_temp_def active_pointer_path_def below_iff)
  have off: "\<not> below staging ?p" "\<not> below final ?p" "\<not> below staging root" "\<not> below final root"
    "\<not> below staging (root @ ''generations'' # s)" for s
    by (auto simp: staging_def final_def active_pointer_path_def below_iff)
  consider (early) "looks d' = looks d" "r \<noteq> Inr ()"
    | (late) d1 d2 where "check_staging staging final d = (Inr (), d1)" "fs_rename staging final d1 = (None, d2)"
        "write_pointer root (pending_id g) d2 = (r, d')" "root \<noteq> []" "parse_generation_id (pending_id g) \<noteq> None"
  proof (cases "root = [] \<or> parse_generation_id (pending_id g) = None \<or>
      \<not> same_path (staging_dir g) staging \<or> \<not> same_path (final_dir g) final")
    case True
    then show ?thesis
      using run early by (auto simp: commit_install_generation_def Let_def staging_def final_def split: if_splits)
  next
    case False
    then have "and_then (check_staging staging final) (\<lambda>_. and_then (move_staging staging final)
        (\<lambda>_. write_pointer root (pending_id g))) d = (r, d')"
      using run by (auto simp: commit_install_generation_def Let_def staging_def final_def split: if_splits)
    then show ?thesis
    proof (cases rule: and_then_cases)
      case (stop e)
      then show ?thesis using check_staging_state early by blast
    next
      case (go u d1)
      from go(2) show ?thesis
      proof (cases rule: and_then_cases)
        case (stop e)
        obtain m d2 where m: "fs_rename staging final d1 = (m, d2)" by force
        then have "m \<noteq> None" "d2 = d'" using stop(1) by (auto simp: move_staging_def split: option.splits)
        then have "looks d' = looks d1" using fs_rename_state [OF m] by (simp split: if_splits)
        then show ?thesis using early stop(2) check_staging_state [OF go(1)] by simp
      next
        case (go v d2)
        obtain m d3 where m: "fs_rename staging final d1 = (m, d3)" by force
        then have "m = None" "d3 = d2" using go(1) by (auto simp: move_staging_def split: option.splits)
        then show ?thesis using late m \<open>check_staging staging final d = (Inr u, d1)\<close> go(2) False by simp
      qed
    qed
  qed
  note cases = this
  show "r \<noteq> Inr () \<Longrightarrow> looks d' ?p = looks d ?p"
    using cases
  proof cases
    case (late d1 d2)
    assume "r \<noteq> Inr ()"
    then show ?thesis
      using write_pointer_state(2) [OF late(3)] fs_rename_state [OF late(2)] check_staging_state [OF late(1)] off
      by simp
  qed simp
  show "looks d' q = looks d q"
    if old: "looks d (root @ [''generations'', i]) \<noteq> None" "below (root @ [''generations'', i]) q"
    using cases
  proof cases
    case (late d1 d2)
    obtain s where q: "q = root @ ''generations'' # i # s" using old(2) by (auto simp: below_iff)
    have "looks d final = None" using check_staging_state [OF late(1)] by simp
    then have "i \<noteq> pending_id g" using old(1) by (auto simp: final_def)
    then have "\<not> below final q" by (auto simp: q final_def below_iff)
    moreover have "looks d' q = looks d2 q" using write_pointer_state(1) [OF late(3)] far q by auto
    ultimately show ?thesis
      using fs_rename_state [OF late(2)] check_staging_state [OF late(1)] off q by simp
  qed simp
  show "root \<noteq> [] \<and> parse_generation_id (pending_id g) \<noteq> None \<and>
      looks d staging = Some dir_node \<and> is_file (looks d (staging @ [game_manifest])) \<and>
      looks d' ?p = Some (file_node (pointer_text (pending_id g))) \<and>
      looks d' root = looks d root \<and> (\<forall>s. looks d' (final @ s) = looks d (staging @ s))"
    if ok: "r = Inr ()"
    using cases
  proof cases
    case (late d1 d2)
    have "looks d' (final @ s) = looks d2 (final @ s)" for s
      using write_pointer_state(1) [OF late(3)] far [of "final @ s"] by (simp add: final_def)
    moreover have "looks d2 (final @ s) = looks d1 (staging @ s)" for s
      using fs_rename_state [OF late(2)] by (simp add: below_append)
    moreover have "looks d' root = looks d2 root"
      using write_pointer_state(1) [OF late(3)] far [of root] by simp
    ultimately show ?thesis
      using ok write_pointer_state(3) [OF late(3)] fs_rename_state [OF late(2)]
        check_staging_state [OF late(1)] late(4,5) off by simp
  qed (use ok in simp)
qed

section \<open>Disks whose calls succeed\<close>

definition quiet :: "Disk \<Rightarrow> bool" where
  "quiet d \<longleftrightarrow> disk_error d = (\<lambda>n. None)"

definition calm :: "Disk \<Rightarrow> Disk" where
  "calm d = d\<lparr>disk_error := (\<lambda>n. None)\<rparr>"

definition tick :: "Disk \<Rightarrow> Disk" where
  "tick d = d\<lparr>disk_calls := Suc (disk_calls d)\<rparr>"

lemma quiet_calm [simp]: "quiet (calm d)" "looks (calm d) = looks d"
  by (simp_all add: quiet_def calm_def looks_def fun_eq_iff)

lemma tick_simps [simp]: "quiet (tick d) = quiet d" "looks (tick d) = looks d"
  by (simp_all add: quiet_def tick_def)

lemma quiet_calls:
  assumes "quiet d"
  shows "fs_exists p d = (Inr (looks d p \<noteq> None), tick d)"
    "fs_is_directory p d = (Inr (looks d p = Some dir_node), tick d)"
    "fs_is_regular p d = (Inr (is_file (looks d p)), tick d)"
    "fs_read p d = (case looks d p of Some (file_node t) \<Rightarrow> (Some (t, True), tick (tick d))
       | _ \<Rightarrow> (None, tick d))"
  using assms
  by (auto simp: fs_exists_def fs_is_directory_def fs_is_regular_def fs_question_def os_call_def
      fs_read_def quiet_def tick_def split: option.splits Node.splits)

text \<open>What an installation directory says is active.\<close>

definition active_in :: "(path \<Rightarrow> Node option) \<Rightarrow> path \<Rightarrow> ActiveInstallGeneration \<Rightarrow> bool" where
  "active_in files root a \<longleftrightarrow> root \<noteq> [] \<and>
     (\<exists>t p. files (active_pointer_path root) = Some (file_node t) \<and> parse_active_pointer t = Inr p \<and>
       \<not> (path_of (pointer_manifest p) \<noteq> [] \<and> hd (path_of (pointer_manifest p)) = ''/'') \<and>
       ''..'' \<notin> set (path_of (pointer_manifest p)) \<and>
       same_path (path_of (pointer_manifest p)) [''generations'', pointer_id p, game_manifest] \<and>
       files (root @ [''generations'', pointer_id p]) = Some dir_node \<and>
       is_file (files (root @ [''generations'', pointer_id p, game_manifest])) \<and>
       a = \<lparr>active_root = root, active_id = pointer_id p,
         generation_dir = root @ [''generations'', pointer_id p],
         active_manifest = root @ [''generations'', pointer_id p, game_manifest]\<rparr>)"

lemma check_active_quiet:
  assumes "quiet d"
  shows "check_active root p d = (r, d1) \<Longrightarrow> quiet d1 \<and> looks d1 = looks d \<and>
    (r = Inr a \<longleftrightarrow>
       \<not> (path_of (pointer_manifest p) \<noteq> [] \<and> hd (path_of (pointer_manifest p)) = ''/'') \<and>
       ''..'' \<notin> set (path_of (pointer_manifest p)) \<and>
       same_path (path_of (pointer_manifest p)) [''generations'', pointer_id p, game_manifest] \<and>
       looks d (root @ [''generations'', pointer_id p]) = Some dir_node \<and>
       is_file (looks d (root @ [''generations'', pointer_id p, game_manifest])) \<and>
       a = \<lparr>active_root = root, active_id = pointer_id p,
         generation_dir = root @ [''generations'', pointer_id p],
         active_manifest = root @ [''generations'', pointer_id p, game_manifest]\<rparr>)"
  using assms
  by (auto simp: check_active_def Let_def quiet_calls split: if_splits bool.splits)

lemma resolve_quiet:
  assumes "quiet d" "resolve_active_install_generation root d = (r, d1)"
  shows "quiet d1 \<and> looks d1 = looks d \<and> (r = Inr a \<longleftrightarrow> active_in (looks d) root a)"
proof (cases "root = []")
  case True
  then show ?thesis using assms by (auto simp: resolve_active_install_generation_def active_in_def)
next
  case False
  show ?thesis
  proof (cases "\<exists>t p. looks d (active_pointer_path root) = Some (file_node t) \<and> parse_active_pointer t = Inr p")
    case True
    then obtain t p where t: "looks d (active_pointer_path root) = Some (file_node t)"
        "parse_active_pointer t = Inr p" by blast
    then have "check_active root p (tick (tick d)) = (r, d1)"
      using assms False by (simp add: resolve_active_install_generation_def and_then_def
          read_active_pointer_def quiet_calls)
    then show ?thesis
      using check_active_quiet [of "tick (tick d)" root p r d1 a] assms(1) t False
      by (simp add: active_in_def)
  next
    case no: False
    then have "\<not> active_in (looks d) root a" by (auto simp: active_in_def)
    then show ?thesis
      using assms False no
      by (auto simp: resolve_active_install_generation_def and_then_def read_active_pointer_def
          quiet_calls split: option.splits Node.splits sum.splits)
  qed
qed

lemma active_unique: "active_in files root a \<Longrightarrow> active_in files root b \<Longrightarrow> a = b"
  by (auto simp: active_in_def)

text \<open>Two disks that agree on the old installation have the same one active.\<close>

lemma active_same:
  assumes "active_in files root a" "\<And>q. installed root (active_id a) q \<Longrightarrow> files' q = files q"
  shows "active_in files' root a"
proof -
  have "installed root (active_id a) (active_pointer_path root)"
    "installed root (active_id a) (root @ [''generations'', active_id a])"
    "installed root (active_id a) (root @ [''generations'', active_id a, game_manifest])"
    by (auto simp: installed_def below_def)
  then show ?thesis using assms by (auto simp: active_in_def)
qed

text \<open>A pointer that was written makes its generation active.\<close>

lemma active_written:
  assumes "root \<noteq> []" "parse_generation_id i = Some n"
    "files (active_pointer_path root) = Some (file_node (pointer_text i))"
    "files (root @ [''generations'', i]) = Some dir_node"
    "is_file (files (root @ [''generations'', i, game_manifest]))"
  shows "active_in files root \<lparr>active_root = root, active_id = i,
         generation_dir = root @ [''generations'', i],
         active_manifest = root @ [''generations'', i, game_manifest]\<rparr>"
proof -
  note c = generation_id_chars [OF assms(2)]
  have "path_of (pointer_target i) = [''generations'', i, game_manifest]"
    by (rule path_of_target) (use c in auto)
  then show ?thesis
    using assms c read_pointer_text [OF assms(2)]
    by (simp add: active_in_def same_path_names game_manifest_def)
qed

end
