(* ===== verification/Conversion_Props.thy ===== *)
theory Conversion_Props
  imports Install_Commit
begin

text \<open>
  Lemmas on a whole conversion: the fresh generation it begins, the files it stages, and what
  it does to the disk when it succeeds and when it fails.
\<close>

section \<open>Directories that are made\<close>

lemma make_directories_keep:
  "make_directories ps d = Some d' \<Longrightarrow> looks d p = Some dir_node \<Longrightarrow> looks d' p = Some dir_node"
  by (induction ps d rule: make_directories.induct) (auto split: option.splits Node.splits)

lemma make_directories_dirs:
  "make_directories ps d = Some d' \<Longrightarrow> p \<in> set ps \<Longrightarrow> looks d' p = Some dir_node"
proof (induction ps d rule: make_directories.induct)
  case (2 q ps d)
  then show ?case
    by (auto split: option.splits Node.splits dest: make_directories_keep)
qed simp

lemma make_path_state:
  assumes "make_path m p d = (Inr u, d')"
  shows "q \<in> set (prefixes_of p) \<Longrightarrow> looks d' q = Some dir_node"
    and "looks d q = Some dir_node \<Longrightarrow> looks d' q = Some dir_node"
    and "q \<notin> set (prefixes_of p) \<Longrightarrow> looks d' q = looks d q"
proof -
  obtain d1 where c: "os_call d = (None, d1)" and m: "make_directories (prefixes_of p) d1 = Some d'"
    using assms by (auto simp: make_path_def fs_create_directories_def split: prod.splits option.splits)
  note d1 = os_call_state [OF c]
  show "q \<in> set (prefixes_of p) \<Longrightarrow> looks d' q = Some dir_node"
    by (rule make_directories_dirs [OF m])
  show "looks d q = Some dir_node \<Longrightarrow> looks d' q = Some dir_node"
    using make_directories_keep [OF m] d1 by simp
  show "q \<notin> set (prefixes_of p) \<Longrightarrow> looks d' q = looks d q"
    using make_directories_state [OF m] d1 by simp
qed

section \<open>The fresh generation\<close>

lemma make_staging_state:
  assumes "make_staging g d = (Inr h, d')"
  shows "h = g \<and> looks d (staging_dir g) = None \<and> looks d (final_dir g) = None \<and>
    looks d' = (looks d)(staging_dir g \<mapsto> dir_node)"
proof -
  obtain a d1 where a: "exists_or_error (staging_dir g) d = (a, d1)" by force
  obtain b d2 where b: "exists_or_error (final_dir g) d1 = (b, d2)" by force
  obtain c d3 where c: "fs_create_directory (staging_dir g) d2 = (c, d3)" by force
  have r: "\<not> a" "\<not> b" "c = None" "h = g" "d3 = d'"
    using assms a b c by (auto simp: make_staging_def Let_def split: if_splits bool.splits option.splits)
  note s = exists_or_error_state [OF a] exists_or_error_state [OF b]
  have none: "looks d2 (staging_dir g) = None" using s r by simp
  have "looks d3 = (looks d2)(staging_dir g \<mapsto> dir_node)"
    using c r(3) none by (auto simp: fs_create_directory_def dest!: os_call_state
        split: prod.splits option.splits if_splits)
  then show ?thesis using s r by simp
qed

lemma begin_fresh:
  assumes "begin_install_generation root d = (Inr g, d')"
  shows "\<exists>n. generation_number n \<and> g = pending_generation root n \<and>
      looks d' (staging_dir g) = Some dir_node \<and> looks d' root = Some dir_node \<and> root \<noteq> [] \<and>
      looks d (final_dir g) = None \<and> looks d' (final_dir g) = None \<and>
      (\<forall>x m. (looks d (root @ [''generations'', x]) \<noteq> None \<or> looks d (root @ [''.staging'', x]) \<noteq> None) \<longrightarrow>
         parse_generation_id x = Some m \<longrightarrow> m < n)"
proof -
  have root: "root \<noteq> []" using assms by (auto simp: begin_install_generation_def)
  then obtain u v h d1 d2 d3 where
      p1: "make_path ''failed to create staging directory: '' (root @ [''.staging'']) d = (Inr u, d1)"
    and p2: "make_path ''failed to create generations directory: '' (root @ [''generations'']) d1 = (Inr v, d2)"
    and hi: "highest_in [root @ [''generations''], root @ [''.staging'']] 0 d2 = (Inr h, d3)"
    and small: "h < kMaxGenerationNumber"
    and mk: "make_staging (pending_generation root (h + 1)) d3 = (Inr g, d')"
    using assms
    by (auto simp: begin_install_generation_def and_then_success highest_generation_number_def
        not_le split: if_splits)
  have n: "generation_number (h + 1)" "h < h + 1"
  proof -
    have "unat h < 999999" using small by (simp add: kMaxGenerationNumber_def word_less_nat_alt)
    then have "unat (h + 1) = unat h + 1" by (simp add: unat_word_ariths)
    then show "generation_number (h + 1)" "h < h + 1"
      using \<open>unat h < 999999\<close>
      by (simp_all add: generation_number_def kMaxGenerationNumber_def word_less_nat_alt word_le_nat_alt)
  qed
  note mks = make_staging_state [OF mk]
  have deep: "looks d3 (root @ [c, x]) = looks d (root @ [c, x])" for c x
  proof -
    have "root @ [c, x] \<notin> set (prefixes_of (root @ [y]))" for y
      by (auto simp: prefixes_of_iff)
    then show ?thesis
      using make_path_state(3) [OF p1] make_path_state(3) [OF p2] highest_in_ge [OF hi]
      by (simp add: looks_def)
  qed
  have in1: "root @ [x] \<in> set (prefixes_of (root @ [x]))" "root \<in> set (prefixes_of (root @ [x]))" for x
    using root by (auto simp: prefixes_of_iff)
  have cont: "looks d2 (root @ [''.staging'']) = Some dir_node" "looks d2 (root @ [''generations'']) = Some dir_node"
    "looks d2 root = Some dir_node"
    using make_path_state(1,2) [OF p1] make_path_state(1,2) [OF p2] in1 by auto
  have same23: "looks d3 = looks d2" using highest_in_ge [OF hi] by (simp add: looks_def fun_eq_iff)
  have "m < h + 1" if "looks d (root @ [''generations'', x]) \<noteq> None \<or> looks d (root @ [''.staging'', x]) \<noteq> None"
      "parse_generation_id x = Some m" for x m
  proof -
    have "looks d2 (root @ [''generations'', x]) \<noteq> None \<or> looks d2 (root @ [''.staging'', x]) \<noteq> None"
      using that(1) deep same23 by simp
    then have "m \<le> h"
      using highest_in_ge [OF hi] cont that(2) by auto
    then show ?thesis using n(2) by simp
  qed
  moreover have "staging_dir (pending_generation root (h + 1)) \<noteq> root"
    "staging_dir (pending_generation root (h + 1)) \<noteq> final_dir (pending_generation root (h + 1))"
    by (simp_all add: pending_generation_def Let_def)
  moreover have "looks d (final_dir (pending_generation root (h + 1))) = None"
    using mks deep by (simp add: pending_generation_def Let_def)
  ultimately show ?thesis
    using n(1) mks cont same23 root by (intro exI [of _ "h + 1"]) auto
qed

section \<open>Staged files\<close>

lemma write_binary_state:
  assumes "write_binary_file p bs d = (Inr u, d')"
  shows "looks d' = (looks d)(p \<mapsto> file_node (bytes_text bs))"
proof -
  obtain w d1 where w: "fs_write p (bytes_text bs) d = (w, d1)" by force
  then have "w = written" "d1 = d'"
    using assms by (cases w; simp add: write_binary_file_def)+
  then show ?thesis using fs_write_state [OF w] by simp
qed

lemma leaves_binary [leaves_intros]: "\<not> P p \<Longrightarrow> leaves P (write_binary_file p bs)"
proof (rule leavesI)
  fix d r d' q assume "\<not> P p" "write_binary_file p bs d = (r, d')" "P q"
  obtain w d1 where w: "fs_write p (bytes_text bs) d = (w, d1)" by force
  then have "d1 = d'"
    using \<open>write_binary_file p bs d = (r, d')\<close> by (cases w; simp add: write_binary_file_def)
  then show "looks d' q = looks d q" using leavesD [OF leaves_write w] \<open>\<not> P p\<close> \<open>P q\<close> by blast
qed

lemma leaves_write_manifest:
  assumes "\<And>q. P q \<Longrightarrow> \<not> below (with_tmp p) q \<and> \<not> below p q"
  shows "leaves P (write_manifest p m)"
proof (rule leavesI)
  fix d r d' q assume run: "write_manifest p m d = (r, d')" and q: "P q"
  obtain w d1 where w: "fs_write (with_tmp p) (manifest_file_text m) d = (w, d1)" by force
  obtain e d2 where e: "fs_rename (with_tmp p) p d1 = (e, d2)" by force
  have "\<not> P (with_tmp p)" using assms [of "with_tmp p"] by (auto simp: below_def)
  then have l1: "looks d1 q = looks d q" using leavesD [OF leaves_write w] q by blast
  have l2: "looks d2 q = looks d1 q" using leavesD [OF leaves_rename e] assms q by blast
  show "looks d' q = looks d q"
    using run l1 l2 e unfolding write_manifest_def w prod.case
    by (cases w) (auto simp: replace_file_def split: option.splits)
qed

lemma with_tmp_snoc: "with_tmp (st @ [x]) = st @ [x @ ''.tmp'']"
  by (simp add: with_tmp_def)

lemma leaves_save [leaves_intros]:
  assumes "\<And>q. q \<in> set (prefixes_of st) \<Longrightarrow> \<not> P q"
    "\<And>q. P q \<Longrightarrow> \<not> below (st @ [x @ ''.tmp'']) q \<and> \<not> below (st @ [x]) q"
  shows "leaves P (save_conversion_manifest_atomic (st @ [x]) m)"
proof -
  have "leaves P (if butlast (st @ [x]) \<noteq> [] then make_path msg (butlast (st @ [x])) else give (success ()))" for msg
    using assms(1) by (simp add: leaves_make_path leaves_give)
  moreover have "leaves P (write_manifest (st @ [x]) m)"
    by (rule leaves_write_manifest) (use assms(2) in \<open>simp add: with_tmp_snoc\<close>)
  ultimately show ?thesis
    unfolding save_conversion_manifest_atomic_def by (intro leaves_and_then leaves_give)
qed

lemma save_state:
  assumes "save_conversion_manifest_atomic (st @ [x]) m d = (Inr u, d')"
  shows "validate_manifest m = Inr ()" "looks d' (st @ [x]) = Some (file_node (manifest_file_text m))"
proof -
  obtain d1 where v: "validate_manifest m = Inr ()" and w: "write_manifest (st @ [x]) m d1 = (Inr u, d')"
    using assms by (auto simp: save_conversion_manifest_atomic_def and_then_success)
  show "validate_manifest m = Inr ()" by (rule v)
  obtain o1 d2 where o1: "fs_write (with_tmp (st @ [x])) (manifest_file_text m) d1 = (o1, d2)" by force
  obtain e d3 where e: "fs_rename (with_tmp (st @ [x])) (st @ [x]) d2 = (e, d3)" by force
  have "o1 = written" "e = None" "d3 = d'"
    using w e unfolding write_manifest_def o1 prod.case
    by (cases o1; cases e; simp add: replace_file_def)+
  then have "looks d' (st @ [x]) = looks d2 (with_tmp (st @ [x]))"
    using fs_rename_state [OF e] by (simp add: below_def)
  then show "looks d' (st @ [x]) = Some (file_node (manifest_file_text m))"
    using fs_write_state [OF o1] \<open>o1 = written\<close> by simp
qed

lemma save_keeps:
  assumes "save_conversion_manifest_atomic (st @ [x]) m d = (r, d')" "y \<noteq> x" "y \<noteq> x @ ''.tmp''"
  shows "looks d' (st @ y # s) = looks d (st @ y # s)"
proof -
  have "leaves (\<lambda>q. q = st @ y # s) (save_conversion_manifest_atomic (st @ [x]) m)"
    by (rule leaves_save) (use assms(2,3) in \<open>auto simp: below_iff prefixes_of_iff\<close>)
  then show ?thesis using assms(1) by (blast dest: leavesD)
qed

lemma save_keeps_dir:
  assumes "save_conversion_manifest_atomic (st @ [x]) m d = (Inr u, d')" "looks d q = Some dir_node"
    "length q \<le> length st"
  shows "looks d' q = Some dir_node"
proof -
  obtain d1 w where p: "(if butlast (st @ [x]) \<noteq> [] then make_path ''failed to create manifest directory: ''
        (butlast (st @ [x])) else give (success ())) d = (Inr w, d1)"
      and m: "write_manifest (st @ [x]) m d1 = (Inr u, d')"
    using assms(1) by (auto simp: save_conversion_manifest_atomic_def and_then_success)
  have "looks d1 q = Some dir_node"
    using p assms(2) by (auto split: if_splits intro: make_path_state(2))
  moreover have "leaves (\<lambda>p. p = q) (write_manifest (st @ [x]) m)"
    by (rule leaves_write_manifest) (use assms(3) in \<open>auto simp: with_tmp_snoc below_iff\<close>)
  from leavesD [OF this m, of q] have "looks d' q = looks d1 q" by simp
  ultimately show ?thesis by simp
qed

section \<open>Installing\<close>

text \<open>The disk after the staged conversion: the state in front of the commit.\<close>

lemma install_success:
  assumes "install_game root name g c = (Inr m, c')"
  shows "\<exists>gen n d6 d7. m = converted_manifest name g \<and> gen = pending_generation root n \<and>
    generation_number n \<and> root \<noteq> [] \<and> validate_manifest m = Inr () \<and>
    commit_install_generation root gen d6 = (Inr (), d7) \<and> fst c' = d7 \<and>
    looks d6 root = Some dir_node \<and>
    looks d6 (staging_dir gen @ [''data'', ''SYSTEM.CNF'']) = Some (file_node (bytes_text (game_system_cnf g))) \<and>
    looks d6 (staging_dir gen @ [''data'', ''boot.psxexe'']) =
      Some (file_node (bytes_text (file_bytes (game_executable g)))) \<and>
    looks d6 (staging_dir gen @ [game_manifest]) = Some (file_node (manifest_file_text m)) \<and>
    map percent (snd c') = map percent (snd c) @ [72, 82, 92, 97, 100]"
proof -
  from assms obtain gen d0 d1 d2 d3 d4 d5 d6 d7 u1 u2 u3 u4 u5 u6 where
      b: "begin_install_generation root d0 = (Inr gen, d1)"
    and p1: "make_path ''failed to create staged data directory: '' (staging_dir gen @ [''data'']) d1 = (Inr u1, d2)"
    and p2: "make_path ''failed to create staged logs directory: '' (staging_dir gen @ [''logs'']) d2 = (Inr u2, d3)"
    and w1: "write_binary_file (staging_dir gen @ [''data'', ''SYSTEM.CNF'']) (game_system_cnf g) d3 = (Inr u3, d4)"
    and w2: "write_binary_file (staging_dir gen @ [''data'', ''boot.psxexe'']) (file_bytes (game_executable g)) d4 =
      (Inr u4, d5)"
    and s: "save_conversion_manifest_atomic (staging_dir gen @ [game_manifest]) (converted_manifest name g) d5 =
      (Inr u5, d6)"
    and k: "commit_install_generation root gen d6 = (Inr u6, d7)"
    and m: "m = converted_manifest name g" "fst c' = d7"
    and log: "map percent (snd c') = map percent (snd c) @ [72, 82, 92, 97, 100]"
    by (auto simp: install_game_def stage_game_def and_then_success on_disk_iff report_progress_iff)
  obtain n where n: "generation_number n" "gen = pending_generation root n" "root \<noteq> []"
      "looks d1 root = Some dir_node" "looks d1 (staging_dir gen) = Some dir_node"
    using begin_fresh [OF b] by blast
  have st: "staging_dir gen = root @ [''.staging'', pending_id gen]"
    by (simp add: n(2) pending_generation_def Let_def)
  have root3: "looks d3 root = Some dir_node"
    using make_path_state(2) [OF p2] make_path_state(2) [OF p1] n(4) by blast
  have "root \<noteq> staging_dir gen @ s" for s by (simp add: st)
  then have root5: "looks d5 root = Some dir_node"
    using root3 write_binary_state [OF w1] write_binary_state [OF w2] by simp
  have root6: "looks d6 root = Some dir_node"
    by (rule save_keeps_dir [OF s root5]) (simp add: st)
  note keep = save_keeps [OF s]
  have "looks d6 (staging_dir gen @ ''data'' # x) = looks d5 (staging_dir gen @ ''data'' # x)" for x
    by (rule keep) (simp_all add: game_manifest_def)
  then show ?thesis
    using n m log k root6 save_state [OF s] write_binary_state [OF w1] write_binary_state [OF w2]
    by (intro exI [of _ gen] exI [of _ n] exI [of _ d6] exI [of _ d7]) simp
qed

section \<open>Conversions that fail\<close>

type_synonym 'a convert_step = "conversion \<Rightarrow> 'a result \<times> conversion"

definition still :: "'a convert_step \<Rightarrow> bool" where
  "still f \<longleftrightarrow> (\<forall>c r c'. f c = (r, c') \<longrightarrow> fst c' = fst c)"

lemma still_step: "still (report_progress s p k)" "still (give x)"
  by (simp_all add: still_def report_progress_iff)

lemma still_and_then:
  assumes "still f" "\<And>a. still (g a)"
  shows "still (and_then f g)"
  unfolding still_def
proof (intro allI impI)
  fix c r c' assume "and_then f g c = (r, c')"
  then show "fst c' = fst c"
  proof (cases rule: and_then_cases)
    case (stop e)
    then show ?thesis using assms(1) unfolding still_def by blast
  next
    case (go a c1)
    then show ?thesis using assms(1) assms(2) [of a] unfolding still_def by metis
  qed
qed

lemmas still_intros = still_step still_and_then

lemma still_find_revision: "still (find_revision src profiles img fp)"
  by (auto simp: still_def find_revision_def report_progress_def split: sum.splits if_splits prod.splits)

lemma still_read_game: "still (read_game src profiles)"
  unfolding read_game_def by (intro still_intros still_find_revision)

text \<open>The old generation stays, and a failure leaves the pointer.\<close>

definition guards :: "path \<Rightarrow> string \<Rightarrow> 'a convert_step \<Rightarrow> bool" where
  "guards root i f \<longleftrightarrow> (\<forall>c r c'. f c = (r, c') \<longrightarrow> looks (fst c) (root @ [''generations'', i]) \<noteq> None \<longrightarrow>
     (\<forall>q. below (root @ [''generations'', i]) q \<longrightarrow> looks (fst c') q = looks (fst c) q) \<and>
     (\<forall>e. r = Inl e \<longrightarrow> looks (fst c') (active_pointer_path root) = looks (fst c) (active_pointer_path root)))"

definition untouched :: "path \<Rightarrow> string \<Rightarrow> 'a convert_step \<Rightarrow> bool" where
  "untouched root i f \<longleftrightarrow>
     (\<forall>c r c' q. f c = (r, c') \<longrightarrow> installed root i q \<longrightarrow> looks (fst c') q = looks (fst c) q)"

lemma untouched_still: "still f \<Longrightarrow> untouched root i f"
  unfolding still_def untouched_def by metis

lemma untouched_disk: "leaves (installed root i) f \<Longrightarrow> untouched root i (on_disk f)"
  unfolding untouched_def on_disk_iff leaves_def by fastforce

lemma guards_step:
  assumes "untouched root i f" "\<And>a c c'. f c = (Inr a, c') \<Longrightarrow> guards root i (g a)"
  shows "guards root i (and_then f g)"
  unfolding guards_def
proof (intro allI impI)
  fix c r c' assume run: "and_then f g c = (r, c')" and old: "looks (fst c) (root @ [''generations'', i]) \<noteq> None"
  have inst: "installed root i (root @ [''generations'', i])" "installed root i (active_pointer_path root)"
    "\<And>q. below (root @ [''generations'', i]) q \<Longrightarrow> installed root i q"
    by (auto simp: installed_def below_def)
  from run show "(\<forall>q. below (root @ [''generations'', i]) q \<longrightarrow> looks (fst c') q = looks (fst c) q) \<and>
     (\<forall>e. r = Inl e \<longrightarrow> looks (fst c') (active_pointer_path root) = looks (fst c) (active_pointer_path root))"
  proof (cases rule: and_then_cases)
    case (stop e)
    then show ?thesis using assms(1) inst unfolding untouched_def by blast
  next
    case (go a c1)
    have same: "looks (fst c1) q = looks (fst c) q" if "installed root i q" for q
      using assms(1) go(1) that unfolding untouched_def by blast
    then have "looks (fst c1) (root @ [''generations'', i]) \<noteq> None" using old inst by simp
    then show ?thesis
      using assms(2) [OF go(1)] go(2) same inst unfolding guards_def by metis
  qed
qed

lemma staged_free:
  assumes "st = root @ [''.staging'', x]"
  shows "\<not> installed root i (st @ s)"
    "q \<in> set (prefixes_of (st @ s)) \<Longrightarrow> \<not> installed root i q"
    "installed root i q \<Longrightarrow> \<not> below (st @ s) q"
proof -
  have st: "st @ s = root @ ''.staging'' # x # s" by (simp add: assms)
  show "\<not> installed root i (st @ s)" unfolding st by (rule installed_not) simp
  show "q \<in> set (prefixes_of (st @ s)) \<Longrightarrow> \<not> installed root i q"
    unfolding st by (erule installed_prefix) simp_all
  show "installed root i q \<Longrightarrow> \<not> below (st @ s) q"
    unfolding st by (auto simp: installed_iff below_iff)
qed

text \<open>
  The interface that the conversion uses of the installation: a generation is begun in a
  staging directory of its own, and committing it leaves the generations there are and, when
  it fails, the pointer.
\<close>

locale generation_store =
  fixes begin_gen :: "path \<Rightarrow> 'g result step"
    and commit_gen :: "path \<Rightarrow> 'g \<Rightarrow> unit result step"
    and staging :: "'g \<Rightarrow> path"
  assumes begin_keeps: "leaves (installed root i) (begin_gen root)"
    and begin_place: "begin_gen root d = (Inr g, d') \<Longrightarrow> \<exists>x. staging g = root @ [''.staging'', x]"
    and commit_generations: "commit_gen root g d = (r, d') \<Longrightarrow> looks d (root @ [''generations'', i]) \<noteq> None \<Longrightarrow>
      below (root @ [''generations'', i]) q \<Longrightarrow> looks d' q = looks d q"
    and commit_pointer: "commit_gen root g d = (Inl e, d') \<Longrightarrow>
      looks d' (active_pointer_path root) = looks d (active_pointer_path root)"
begin

lemma guards_commit:
  assumes "\<And>a. \<exists>b. \<forall>c. \<exists>c'. f a c = (Inr b, c') \<and> fst c' = fst c"
  shows "guards root i (and_then (on_disk (commit_gen root gen)) f)"
  unfolding guards_def
proof (intro allI impI)
  fix c r c' assume run: "and_then (on_disk (commit_gen root gen)) f c = (r, c')"
    and old: "looks (fst c) (root @ [''generations'', i]) \<noteq> None"
  from run show "(\<forall>q. below (root @ [''generations'', i]) q \<longrightarrow> looks (fst c') q = looks (fst c) q) \<and>
     (\<forall>e. r = Inl e \<longrightarrow> looks (fst c') (active_pointer_path root) = looks (fst c) (active_pointer_path root))"
  proof (cases rule: and_then_cases)
    case (stop e)
    then obtain d where d: "commit_gen root gen (fst c) = (Inl e, d)" "c' = (d, snd c)"
      by (auto simp: on_disk_iff)
    then show ?thesis using commit_pointer [OF d(1)] commit_generations [OF d(1) old] by simp
  next
    case (go a c1)
    then obtain d where d: "commit_gen root gen (fst c) = (Inr a, d)" "c1 = (d, snd c)"
      by (auto simp: on_disk_iff)
    obtain b where "r = Inr b" "fst c' = fst c1"
      using assms [of a] go(2) by (metis prod.inject)
    then show ?thesis using commit_generations [OF d(1) old] d(2) by simp
  qed
qed

text \<open>Whatever writes below the staging directory only, between the two, guards what is there.\<close>

lemma guards_staged:
  assumes "\<And>g x. staging g = root @ [''.staging'', x] \<Longrightarrow> untouched root i (fill g)"
    and "\<And>g a. \<exists>b. \<forall>c. \<exists>c'. f g a c = (Inr b, c') \<and> fst c' = fst c"
  shows "guards root i (and_then (on_disk (begin_gen root)) (\<lambda>g.
    and_then (fill g) (\<lambda>_. and_then (on_disk (commit_gen root g)) (f g))))"
proof (rule guards_step [OF untouched_disk [OF begin_keeps]])
  fix g and c c' :: conversion
  assume "on_disk (begin_gen root) c = (Inr g, c')"
  then obtain x where "staging g = root @ [''.staging'', x]"
    using begin_place by (auto simp: on_disk_iff) blast
  then show "guards root i (and_then (fill g) (\<lambda>_. and_then (on_disk (commit_gen root g)) (f g)))"
    by (intro guards_step assms(1) guards_commit assms(2))
qed

end

interpretation installation: generation_store begin_install_generation commit_install_generation staging_dir
proof unfold_locales
  show "leaves (installed root i) (begin_install_generation root)" for root i by (rule leaves_begin)
  show "\<exists>x. staging_dir g = root @ [''.staging'', x]" if run: "begin_install_generation root d = (Inr g, d')"
    for root d g d'
  proof -
    obtain n where "g = pending_generation root n" using begin_fresh [OF run] by (elim exE conjE) rule
    then show ?thesis by (simp add: pending_generation_def Let_def)
  qed
  show "looks d' q = looks d q" if "commit_install_generation root g d = (r, d')"
    "looks d (root @ [''generations'', i]) \<noteq> None" "below (root @ [''generations'', i]) q" for root g d r d' i q
    by (rule commit_state(2) [OF that])
  show "looks d' (active_pointer_path root) = looks d (active_pointer_path root)"
    if "commit_install_generation root g d = (Inl e, d')" for root g d e d'
    by (rule commit_state(1) [OF that]) simp
qed

lemma untouched_and_then: "untouched root i f \<Longrightarrow> (\<And>a. untouched root i (g a)) \<Longrightarrow> untouched root i (and_then f g)"
proof (unfold untouched_def, intro allI impI)
  fix c r c' q
  assume f: "\<forall>c r c' q. f c = (r, c') \<longrightarrow> installed root i q \<longrightarrow> looks (fst c') q = looks (fst c) q"
    and g: "\<And>a. \<forall>c r c' q. g a c = (r, c') \<longrightarrow> installed root i q \<longrightarrow> looks (fst c') q = looks (fst c) q"
    and run: "and_then f g c = (r, c')" and q: "installed root i q"
  from run show "looks (fst c') q = looks (fst c) q"
  proof (cases rule: and_then_cases)
    case (stop e)
    then show ?thesis using f q by blast
  next
    case (go a c1)
    have "looks (fst c1) q = looks (fst c) q" using f go(1) q by blast
    moreover have "looks (fst c') q = looks (fst c1) q" using g go(2) q by blast
    ultimately show ?thesis by simp
  qed
qed

lemma stage_untouched:
  assumes "staging_dir gen = root @ [''.staging'', x]"
  shows "untouched root i (stage_game name g gen)"
proof -
  note free = staged_free [OF assms]
  have mk: "leaves (installed root i) (make_path msg (staging_dir gen @ s))" for msg s
    by (rule leaves_make_path) (rule free(2))
  have wb: "leaves (installed root i) (write_binary_file (staging_dir gen @ s) bs)" for s bs
    by (rule leaves_binary) (rule free(1))
  have sv: "leaves (installed root i) (save_conversion_manifest_atomic (staging_dir gen @ [x]) m)" for x m
  proof (rule leaves_save)
    show "\<not> installed root i q" if "q \<in> set (prefixes_of (staging_dir gen))" for q
      using free(2) [of q "[]"] that by simp
    show "\<not> below (staging_dir gen @ [x @ ''.tmp'']) q \<and> \<not> below (staging_dir gen @ [x]) q"
      if "installed root i q" for q
      using free(3) [OF that] by blast
  qed
  show ?thesis
    unfolding stage_game_def
    by (intro untouched_and_then untouched_still still_step untouched_disk mk wb sv)
qed

lemma guards_install: "guards root i (install_game root name g)"
  unfolding install_game_def
  by (rule guards_step [OF untouched_still], rule still_step(2), rule guards_step [OF untouched_still],
      rule still_step(1), rule guards_step [OF untouched_disk], rule leaves_destination,
      rule installation.guards_staged, rule stage_untouched, assumption)
    (auto simp: and_then_def report_progress_def give_def)

lemma guards_give: "guards root i (give x)"
  by (simp add: guards_def)

lemma guards_convert:
  assumes "convert_image src root profiles d = (r, c')" "looks d (root @ [''generations'', i]) \<noteq> None"
  shows "below (root @ [''generations'', i]) q \<Longrightarrow> looks (fst c') q = looks d q"
    and "r = Inl e \<Longrightarrow> looks (fst c') (active_pointer_path root) = looks d (active_pointer_path root)"
proof -
  have "guards root i (and_then (read_game src profiles) (install_game root (image_name src)))"
    by (intro guards_step untouched_still still_read_game guards_install)
  then have "guards root i (if root = [] then give (failure invalid_argument ''installation directory cannot be empty'')
       else if \<not> supported_disc_extension (image_path src)
       then give (failure unsupported_format ''supported PS1 formats: .iso, .bin, .cue'')
       else and_then (read_game src profiles) (install_game root (image_name src)))"
    by (cases "root = []"; cases "supported_disc_extension (image_path src)") (simp_all add: guards_give)
  then have "guards root i (and_then (report_progress validating_source 0 ''validate_source'') (\<lambda>_.
      if root = [] then give (failure invalid_argument ''installation directory cannot be empty'')
       else if \<not> supported_disc_extension (image_path src)
       then give (failure unsupported_format ''supported PS1 formats: .iso, .bin, .cue'')
       else and_then (read_game src profiles) (install_game root (image_name src))))"
    by (intro guards_step untouched_still still_intros)
  note this [unfolded guards_def, rule_format, OF assms(1) [unfolded convert_image_def]]
  then show "below (root @ [''generations'', i]) q \<Longrightarrow> looks (fst c') q = looks d q"
    and "r = Inl e \<Longrightarrow> looks (fst c') (active_pointer_path root) = looks d (active_pointer_path root)"
    using assms(2) by auto
qed

end
