(* ===== verification/Installed_Props.thy ===== *)
theory Installed_Props
  imports Conversion_Props Manifest_Props Installed_Runtime
begin

text \<open>
  Lemmas on reading an installation on a disk whose calls succeed: what the validation and
  the runs find there.
\<close>

section \<open>Readings\<close>

definition yields :: "'a result step \<Rightarrow> Disk \<Rightarrow> 'a \<Rightarrow> bool" where
  "yields f d x \<longleftrightarrow> (\<exists>d'. f d = (Inr x, d') \<and> quiet d' \<and> looks d' = looks d)"

lemma yields_and_then:
  assumes "yields f d x"
    and "\<And>d'. quiet d' \<Longrightarrow> looks d' = looks d \<Longrightarrow> yields (g x) d' y"
  shows "yields (and_then f g) d y"
proof -
  obtain d' where d': "f d = (Inr x, d')" "quiet d'" "looks d' = looks d"
    using assms(1) by (auto simp: yields_def)
  have "yields (g x) d' y" by (rule assms(2) [OF d'(2,3)])
  then show ?thesis using d' by (auto simp: yields_def and_then_def)
qed

lemma yields_give: "quiet d \<Longrightarrow> yields (give (success x)) d x"
  by (simp add: yields_def give_def)

lemma yields_value: "yields f d x \<Longrightarrow> fst (f d) = Inr x"
  by (auto simp: yields_def)

lemma yields_resolve:
  assumes "quiet d" "active_in (looks d) root a"
  shows "yields (resolve_active_install_generation root) d a"
proof -
  obtain r d1 where r: "resolve_active_install_generation root d = (r, d1)" by force
  then show ?thesis using resolve_quiet [OF assms(1) r, of a] assms(2) by (simp add: yields_def)
qed

lemma yields_inspect:
  assumes "quiet d"
  shows "looks d p \<noteq> None \<Longrightarrow> yields (inspect what p) d True"
    "looks d p = None \<Longrightarrow> yields (inspect what p) d False"
  using assms by (simp_all add: yields_def inspect_def quiet_calls)

lemma yields_directory:
  "quiet d \<Longrightarrow> looks d p = Some dir_node \<Longrightarrow> yields (inspect_directory p True) d ()"
  by (simp add: yields_def inspect_directory_def quiet_calls)

lemma yields_read:
  assumes "quiet d" "looks d p = Some (file_node t)"
  shows "yields (read_local_file p) d (text_bytes t)"
  using assms by (simp add: yields_def read_local_file_def quiet_calls)

lemma byte_char_byte: "of_char (char_of (unat (b::u8))) = b"
proof -
  have "unat b < 256" using unsigned_less [of b, where ?'a = nat] by simp
  then have "of_char (char_of (unat b)) = unat b" by simp
  then have "(of_nat (of_char (char_of (unat b))) :: u8) = b" by simp
  then show ?thesis by (simp only: of_nat_of_char)
qed

lemma text_bytes_text [simp]: "text_bytes (bytes_text bs) = bs"
  by (induction bs) (simp_all add: text_bytes_def bytes_text_def byte_char_byte)

lemma yields_manifest:
  assumes "quiet d" "looks d p = Some (file_node (manifest_file_text m))"
    "validate_manifest m = Inr ()" "clean_manifest m"
  shows "yields (load_manifest_file p) d (written_part m)"
  using assms load_written [OF assms(3,4)] by (simp add: yields_def load_manifest_file_def quiet_calls)

section \<open>A whole installation\<close>

text \<open>The files of a generation that is active and holds this manifest and executable.\<close>

definition holds_game :: "(path \<Rightarrow> Node option) \<Rightarrow> path \<Rightarrow> ActiveInstallGeneration \<Rightarrow> ConversionManifest
    \<Rightarrow> Ps1Executable \<Rightarrow> bool" where
  "holds_game files root a m exe \<longleftrightarrow>
     root \<noteq> [] \<and> files root = Some dir_node \<and> active_in files root a \<and>
     files (active_manifest a) = Some (file_node (manifest_file_text m)) \<and>
     is_file (files (generation_dir a @ [''data'', ''SYSTEM.CNF''])) \<and>
     files (generation_dir a @ [''data'', ''boot.psxexe'']) = Some (file_node (bytes_text (file_bytes exe))) \<and>
     validate_manifest m = Inr () \<and> clean_manifest m \<and> written_part m = m \<and>
     manifest_version m = ''2'' \<and> platform m = ''playstation'' \<and> media_status m = ''verified'' \<and>
     executable_status m = ''verified'' \<and> executable_metadata_matches m (metadata exe) \<and>
     parse_ps1_executable (file_bytes exe) = Inr exe"

lemma yields_active_manifest:
  assumes "quiet d" "holds_game (looks d) root a m exe"
  shows "yields (load_active_ps1_manifest root) d (m, generation_dir a)"
  unfolding load_active_ps1_manifest_def
proof (rule yields_and_then [OF yields_resolve [OF assms(1)]])
  show "active_in (looks d) root a" using assms(2) by (simp add: holds_game_def)
  fix d1 assume d1: "quiet d1" "looks d1 = looks d"
  have "yields (load_manifest_file (active_manifest a)) d1 (written_part m)"
    by (rule yields_manifest) (use d1 assms(2) in \<open>simp_all add: holds_game_def\<close>)
  then have load: "yields (load_manifest_file (active_manifest a)) d1 m"
    using assms(2) by (simp add: holds_game_def)
  have "manifest_version m = ''2''" using assms(2) by (simp add: holds_game_def)
  then show "yields (and_then (load_manifest_file (active_manifest a)) (\<lambda>m.
       if manifest_version m \<noteq> ''2''
       then give (failure invalid_installation
         ''active installation generation is not a PS1 manifest v2 installation'')
       else give (success (m, generation_dir a)))) d1 (m, generation_dir a)"
    by (intro yields_and_then [OF load]) (simp add: yields_give)
qed

lemma yields_classify:
  assumes "quiet d" "holds_game (looks d) root a m exe"
  shows "yields (classify_installation root) d ps1_m1"
proof -
  have r: "root \<noteq> []" "looks d root = Some dir_node" "looks d (active_pointer_path root) \<noteq> None"
    using assms(2) by (auto simp: holds_game_def active_in_def)
  have "yields (and_then (inspect ''installation root'' root) (\<lambda>root_exists.
        and_then (inspect_directory root root_exists) (\<lambda>_.
        and_then (inspect ''active installation pointer'' (active_pointer_path root)) (\<lambda>has_pointer.
          if has_pointer
          then and_then (load_active_ps1_manifest root) (\<lambda>_. give (success ps1_m1))
          else classify_legacy root)))) d ps1_m1"
  proof (rule yields_and_then [OF yields_inspect(1)])
    fix d1 assume d1: "quiet d1" "looks d1 = looks d"
    show "yields (and_then (inspect_directory root True) (\<lambda>_.
        and_then (inspect ''active installation pointer'' (active_pointer_path root)) (\<lambda>has_pointer.
          if has_pointer
          then and_then (load_active_ps1_manifest root) (\<lambda>_. give (success ps1_m1))
          else classify_legacy root))) d1 ps1_m1"
    proof (rule yields_and_then [OF yields_directory])
      fix d2 assume d2: "quiet d2" "looks d2 = looks d1"
      show "yields (and_then (inspect ''active installation pointer'' (active_pointer_path root)) (\<lambda>has_pointer.
          if has_pointer
          then and_then (load_active_ps1_manifest root) (\<lambda>_. give (success ps1_m1))
          else classify_legacy root)) d2 ps1_m1"
      proof (rule yields_and_then [OF yields_inspect(1)])
        fix d3 assume d3: "quiet d3" "looks d3 = looks d2"
        have "yields (load_active_ps1_manifest root) d3 (m, generation_dir a)"
          by (rule yields_active_manifest) (use assms(2) d1 d2 d3 in auto)
        then show "yields (if True
          then and_then (load_active_ps1_manifest root) (\<lambda>_. give (success ps1_m1))
          else classify_legacy root) d3 ps1_m1"
          by (simp add: yields_and_then yields_give)
      qed (use r d1 d2 in auto)
    qed (use r d1 in auto)
  qed (use r assms(1) in auto)
  then show ?thesis using r(1) by (simp add: classify_installation_def)
qed

lemma yields_executable:
  assumes "quiet d" "holds_game (looks d) root a m exe" "info_generation i = generation_dir a"
    "info_manifest i = m"
  shows "yields (load_validated_installed_executable i) d exe"
proof -
  have "yields (read_local_file (info_generation i @ [''data'', ''boot.psxexe''])) d (file_bytes exe)"
    using yields_read [OF assms(1), of "info_generation i @ [''data'', ''boot.psxexe'']"] assms(2,3)
    by (simp add: holds_game_def)
  then show ?thesis
    unfolding load_validated_installed_executable_def
    by (rule yields_and_then) (use assms in \<open>simp add: holds_game_def yields_give\<close>)
qed

lemma yields_validate:
  assumes "quiet d" "holds_game (looks d) root a m exe"
  defines "i \<equiv> \<lparr>info_root = root, info_generation = generation_dir a, info_manifest = m\<rparr>"
  shows "yields (validate_installation root) d i"
  unfolding validate_installation_def
proof (rule yields_and_then [OF yields_classify [OF assms(1,2)]])
  fix d1 assume d1: "quiet d1" "looks d1 = looks d"
  show "yields (case ps1_m1 of
         absent \<Rightarrow> give (failure invalid_installation ''PS1 installation is absent'')
       | legacy_v1 \<Rightarrow> give (failure invalid_installation
           ''legacy Dreamcast/SH-4 installation detected; reconvert the owned PlayStation image to create a PS1 M1 generation'')
       | ps1_m1 \<Rightarrow>
           and_then (load_active_ps1_manifest root) (\<lambda>(m, gen).
             if platform m \<noteq> ''playstation''
             then give (failure invalid_installation ''active manifest does not target PlayStation'')
             else if media_status m \<noteq> ''verified''
             then give (failure invalid_installation ''PS1 media status is not verified'')
             else if executable_status m \<noteq> ''verified''
             then give (failure invalid_installation ''PS-X EXE status is not verified'')
             else (\<lambda>d. case fs_is_regular (gen @ [''data'', ''SYSTEM.CNF'']) d of
               (Inr True, d1) \<Rightarrow>
                 (let info = \<lparr>info_root = root, info_generation = gen, info_manifest = m\<rparr> in
                  and_then (load_validated_installed_executable info) (\<lambda>_. give (success info)) d1)
             | (_, d1) \<Rightarrow>
                 (failure invalid_installation ''PS1 installation is missing local data/SYSTEM.CNF'', d1)))) d1 i"
    unfolding InstallationKind.case
  proof (rule yields_and_then [OF yields_active_manifest], rule d1(1))
    show "holds_game (looks d1) root a m exe" using assms(2) d1 by simp
    fix d2 assume d2: "quiet d2" "looks d2 = looks d1"
    have "yields (load_validated_installed_executable i) (tick d2) exe"
      by (rule yields_executable) (use assms(2) d1 d2 in \<open>auto simp: i_def\<close>)
    then have "yields (and_then (load_validated_installed_executable i) (\<lambda>_. give (success i))) (tick d2) i"
      by (rule yields_and_then) (simp add: yields_give)
    moreover have "is_file (looks d2 (generation_dir a @ [''data'', ''SYSTEM.CNF'']))"
      "platform m = ''playstation''" "media_status m = ''verified''" "executable_status m = ''verified''"
      using assms(2) d1 d2 by (simp_all add: holds_game_def)
    ultimately show "yields (case (m, generation_dir a) of (m, gen) \<Rightarrow>
             if platform m \<noteq> ''playstation''
             then give (failure invalid_installation ''active manifest does not target PlayStation'')
             else if media_status m \<noteq> ''verified''
             then give (failure invalid_installation ''PS1 media status is not verified'')
             else if executable_status m \<noteq> ''verified''
             then give (failure invalid_installation ''PS-X EXE status is not verified'')
             else (\<lambda>d. case fs_is_regular (gen @ [''data'', ''SYSTEM.CNF'']) d of
               (Inr True, d1) \<Rightarrow>
                 (let info = \<lparr>info_root = root, info_generation = gen, info_manifest = m\<rparr> in
                  and_then (load_validated_installed_executable info) (\<lambda>_. give (success info)) d1)
             | (_, d1) \<Rightarrow>
                 (failure invalid_installation ''PS1 installation is missing local data/SYSTEM.CNF'', d1))) d2 i"
      using d2 by (simp add: yields_def quiet_calls i_def Let_def)
  qed
qed

lemma yields_installed:
  assumes "quiet d" "holds_game (looks d) root a m exe"
  shows "yields (installed_executable root) d exe"
  unfolding installed_executable_def
  by (rule yields_and_then [OF yields_validate [OF assms]], rule yields_executable) (use assms in auto)

section \<open>The disk of a conversion that succeeded\<close>

lemma converted_kept [simp]: "written_part (converted_manifest name g) = converted_manifest name g"
  by (simp add: written_part_def converted_manifest_def v2_part_def new_manifest_def Let_def)

lemma install_holds:
  assumes "install_game root name g c = (Inr m, c')" "clean_manifest m"
    "parse_ps1_executable (file_bytes (game_executable g)) = Inr (game_executable g)"
  shows "\<exists>a. holds_game (looks (fst c')) root a m (game_executable g)"
proof -
  obtain gen n d6 d7 where
      m: "m = converted_manifest name g" and gen: "gen = pending_generation root n"
    and root: "root \<noteq> []" and val: "validate_manifest m = Inr ()"
    and k: "commit_install_generation root gen d6 = (Inr (), d7)" "fst c' = d7"
    and d6: "looks d6 root = Some dir_node"
      "looks d6 (staging_dir gen @ [''data'', ''SYSTEM.CNF'']) = Some (file_node (bytes_text (game_system_cnf g)))"
      "looks d6 (staging_dir gen @ [''data'', ''boot.psxexe'']) =
        Some (file_node (bytes_text (file_bytes (game_executable g))))"
      "looks d6 (staging_dir gen @ [game_manifest]) = Some (file_node (manifest_file_text m))"
    using install_success [OF assms(1)] by blast
  let ?i = "pending_id gen"
  have st: "staging_dir gen = root @ [''.staging'', ?i]"
    by (simp add: gen pending_generation_def Let_def)
  note c = commit_state(3) [OF k(1) refl]
  have final: "looks d7 (root @ ''generations'' # ?i # s) = looks d6 (staging_dir gen @ s)" for s
    using c by (simp add: st)
  let ?a = "\<lparr>active_root = root, active_id = ?i, generation_dir = root @ [''generations'', ?i],
         active_manifest = root @ [''generations'', ?i, game_manifest]\<rparr>"
  obtain x where x: "parse_generation_id ?i = Some x" using c by blast
  have act: "active_in (looks d7) root ?a"
  proof (rule active_written [OF root x])
    show "looks d7 (active_pointer_path root) = Some (file_node (pointer_text ?i))" using c by simp
    show "looks d7 (root @ [''generations'', ?i]) = Some dir_node" using final [of "[]"] c by (simp add: st)
    show "is_file (looks d7 (root @ [''generations'', ?i, game_manifest]))"
      using final [of "[game_manifest]"] d6(4) by (simp add: is_file_def)
  qed
  have fields: "manifest_version m = ''2''" "platform m = ''playstation''" "media_status m = ''verified''"
    "executable_status m = ''verified''" "executable_metadata_matches m (metadata (game_executable g))"
    by (simp_all add: m converted_manifest_def new_manifest_def executable_metadata_matches_def Let_def)
  have "holds_game (looks d7) root ?a m (game_executable g)"
    using root act fields val assms(2,3) m c d6 final
    by (simp add: holds_game_def is_file_def)
  then show ?thesis using k(2) by blast
qed

lemma calm_holds: "holds_game (looks d) root a m exe \<Longrightarrow> holds_game (looks (calm d)) root a m exe"
  by simp

lemma read_game_success:
  assumes "read_game src profiles c = (Inr g, c')"
  shows "fst c' = fst c"
    "map percent (snd c') = map percent (snd c) @ [15, 30, 45, 55, 65] \<or>
     map percent (snd c') = map percent (snd c) @ [15, 30, 45, 45, 55, 65]"
    "\<exists>img. open_iso9660_path (image_media src) (image_path src) = Inr img \<and>
       image_fingerprint src = Inr (game_fingerprint g) \<and>
       read_iso9660_file (image_media src) img ''/SYSTEM.CNF'' = Inr (game_system_cnf g) \<and>
       parse_ps1_system_cnf (bytes_text (game_system_cnf g)) = Inr (game_boot_path g) \<and>
       read_ps1_executable (image_media src) img (game_boot_path g) = Inr (game_executable g)"
proof -
  from assms show "fst c' = fst c"
    using still_read_game unfolding still_def by metis
  have rev: "map percent (snd c2) = map percent (snd c1) \<or> map percent (snd c2) = map percent (snd c1) @ [45]"
    if "find_revision src profiles img fp c1 = (Inr r, c2)" for img fp c1 r c2
    using that by (auto simp: find_revision_def report_progress_def split: sum.splits if_splits prod.splits)
  from assms obtain fp img c1 r c2 where fr: "find_revision src profiles img fp c1 = (Inr r, c2)"
    and c1: "map percent (snd c1) = map percent (snd c) @ [15, 30, 45]"
    and c2: "map percent (snd c') = map percent (snd c2) @ [55, 65]"
    by (auto simp: read_game_def and_then_success report_progress_iff give_def)
  show "map percent (snd c') = map percent (snd c) @ [15, 30, 45, 55, 65] \<or>
     map percent (snd c') = map percent (snd c) @ [15, 30, 45, 45, 55, 65]"
    using rev [OF fr] c1 c2 by auto
  show "\<exists>img. open_iso9660_path (image_media src) (image_path src) = Inr img \<and>
       image_fingerprint src = Inr (game_fingerprint g) \<and>
       read_iso9660_file (image_media src) img ''/SYSTEM.CNF'' = Inr (game_system_cnf g) \<and>
       parse_ps1_system_cnf (bytes_text (game_system_cnf g)) = Inr (game_boot_path g) \<and>
       read_ps1_executable (image_media src) img (game_boot_path g) = Inr (game_executable g)"
    using assms by (auto simp: read_game_def and_then_success report_progress_iff give_def)
qed

lemma read_executable_parses:
  "read_ps1_executable fs img path = Inr exe \<Longrightarrow> parse_ps1_executable (file_bytes exe) = Inr exe"
proof -
  assume "read_ps1_executable fs img path = Inr exe"
  then obtain bytes where "parse_ps1_executable bytes = Inr exe"
    by (auto simp: read_ps1_executable_def split: sum.splits prod.splits)
  then show "parse_ps1_executable (file_bytes exe) = Inr exe"
    using parse_ps1_executable_wf by metis
qed

lemma convert_success:
  assumes "convert_image src root profiles d = (Inr m, c')"
  shows "\<exists>g c1. read_game src profiles (d, [\<lparr>stage = validating_source, percent = 0, message_key = ''validate_source''\<rparr>]) =
      (Inr g, c1) \<and> install_game root (image_name src) g c1 = (Inr m, c') \<and>
      m = converted_manifest (image_name src) g"
proof -
  from assms obtain g c1 where
    g: "read_game src profiles (d, [\<lparr>stage = validating_source, percent = 0, message_key = ''validate_source''\<rparr>]) =
      (Inr g, c1)" and i: "install_game root (image_name src) g c1 = (Inr m, c')"
    by (auto simp: convert_image_def and_then_success report_progress_iff give_def split: if_splits)
  then show ?thesis using install_success [OF i] by blast
qed

end
