(* ===== verification/Install_Demo.thy ===== *)
theory Install_Demo
  imports Installed_Props Media_Props
begin

text \<open>
  A small disc and a disk with one empty directory: the conversion of the one into the other
  succeeds.  The witnesses of the installation's properties run on it.
\<close>

section \<open>The disc\<close>

text \<open>Twenty sectors: sixteen empty ones, the descriptor, the root directory, and two files.\<close>

definition game_cnf :: string where
  "game_cnf = ''BOOT=cdrom:'' @ [CHR 0x5C] @ ''A;1''"

definition game_exe :: "u8 list" where
  "game_exe = psx_signature @ replicate 2040 0"

definition game_record :: "u8 \<Rightarrow> u8 \<Rightarrow> u8 \<Rightarrow> u8 \<Rightarrow> u8 \<Rightarrow> u8 list \<Rightarrow> u8 list" where
  "game_record len lba low high flags name =
     [len, 0, lba, 0, 0, 0, 0, 0, 0, lba, low, high, 0, 0, 0, 0, high, low] @ replicate 7 0 @
     [flags] @ replicate 6 0 @ [of_nat (length name)] @ name @ (if even (length name) then [0] else [])"

definition game_cnf_name :: "u8 list" where
  "game_cnf_name = map of_char ''SYSTEM.CNF''"

definition game_pvd :: "u8 list" where
  "game_pvd = 1 # iso_magic @ [1] @ replicate 149 0 @ game_record 34 17 0 8 2 [0] @ replicate 1858 0"

definition game_directory :: "u8 list" where
  "game_directory = game_record 44 18 15 0 0 game_cnf_name @ game_record 34 19 0 8 0 [65] @
     replicate 1970 0"

definition game_disc :: "u8 list" where
  "game_disc = replicate 32768 0 @ game_pvd @ game_directory @
     (text_bytes game_cnf @ replicate 2033 0) @ game_exe"

definition game_files :: MediaFiles where
  "game_files = \<lparr>media_size = \<lambda>p. Some 40960, media_bytes = \<lambda>p. Some game_disc,
     media_text = \<lambda>p. None, seek_ok = \<lambda>offset. True, path_extension = \<lambda>p. ''.ISO'',
     path_rooted = \<lambda>p. False, path_components = \<lambda>p. [p], path_beside = \<lambda>p q. q\<rparr>"

definition game_source :: LogicalSectorSource where
  "game_source = \<lparr>source_path = ''game.iso'', file_offset = 0, source_size = 40960,
     physical_sector_size = 2048, user_data_offset = 0, logical_sector_count = 20,
     source_format = ''iso''\<rparr>"

definition game_iso :: Iso9660Image where
  "game_iso = \<lparr>sectors = game_source, root_extent_lba = 17, root_size_bytes = 2048\<rparr>"

definition game_entries :: "DiscFileEntry list" where
  "game_entries =
     [\<lparr>entry_name = ''SYSTEM.CNF'', entry_path = ''/SYSTEM.CNF'', is_directory = False,
        extent_lba = 18, size_bytes = 15\<rparr>,
      \<lparr>entry_name = ''A'', entry_path = ''/A'', is_directory = False, extent_lba = 19,
        size_bytes = 2048\<rparr>]"

lemma game_lengths [simp]:
  "length game_cnf = 15" "length game_exe = 2048" "length game_cnf_name = 10"
  "length (game_record l a b c d [x]) = 34" "length (game_record l a b c d game_cnf_name) = 44"
  "length game_pvd = 2048" "length game_directory = 2048" "length game_disc = 40960"
  by (simp_all add: game_cnf_def game_exe_def psx_signature_def game_cnf_name_def game_record_def
      game_pvd_def game_directory_def game_disc_def iso_magic_def text_bytes_def)

lemma game_sector:
  assumes "unat lba < 20"
  shows "read_logical_sectors game_files game_source lba 1 =
    Inr (take 2048 (drop (2048 * unat lba) game_disc))"
proof -
  have "\<not> (20 :: u64) \<le> lba" using assms by (simp add: word_le_nat_alt)
  moreover have "\<not> 20 - lba < (1 :: u64)"
  proof -
    have "unat (20 - lba) = 20 - unat lba"
      using assms by (subst unat_sub) (simp_all add: word_le_nat_alt)
    then show ?thesis using assms by (simp add: word_less_nat_alt)
  qed
  moreover have "read_sector game_files game_source game_disc lba =
      Inr (take 2048 (drop (2048 * unat lba) game_disc))"
    using assms
    by (subst read_sector_iff) (simp add: sector_at_def game_source_def game_files_def mult.commute)
  ultimately show ?thesis
    by (simp add: read_logical_sectors_def game_source_def game_files_def)
qed

lemma game_sectors:
  "take 2048 (drop 32768 game_disc) = game_pvd" "take 2048 (drop 34816 game_disc) = game_directory"
  "take 2048 (drop 36864 game_disc) = text_bytes game_cnf @ replicate 2033 0"
  "take 2048 (drop 38912 game_disc) = game_exe"
  by (simp_all add: game_disc_def text_bytes_def)

lemma game_pvd_fields:
  "game_pvd ! 0 = 1" "take 5 (drop (Suc 0) game_pvd) = iso_magic" "game_pvd ! 6 = 1"
  "drop 156 game_pvd = game_record 34 17 0 8 2 [0] @ replicate 1858 0"
  by (simp_all add: game_pvd_def iso_magic_def)

lemma game_opens: "open_iso9660_path game_files ''game.iso'' = Inr game_iso"
proof -
  have ext: "ascii_lower (path_extension game_files ''game.iso'') = ''.iso''"
    by (simp add: game_files_def) code_simp
  have "make_candidate game_files ''game.iso'' 0 2048 0 ''iso'' = Inr game_source"
    by (simp add: make_candidate_def game_files_def game_source_def)
  moreover have "has_iso9660_pvd game_files game_source"
    using game_sector [of 16] by (simp add: has_iso9660_pvd_def game_sectors game_pvd_fields)
  ultimately have src: "open_logical_sector_source game_files ''game.iso'' = Inr game_source"
    by (simp add: open_logical_sector_source_def ext cooked_candidate_def accept_candidate_def)
  have "open_iso9660 game_files game_source = Inr game_iso"
    using game_sector [of 16]
    by (simp add: open_iso9660_def game_sectors game_pvd_fields game_record_def nth_append le32_def Let_def
        game_iso_def bounded_extent_def sectors_for_def game_source_def)
  then show ?thesis by (simp add: open_iso9660_path_def src)
qed

lemma game_extent:
  assumes "lba = 17 \<and> n = 2048 \<or> lba = 18 \<and> n = 15 \<or> lba = 19 \<and> n = 2048"
  shows "read_extent game_files game_iso lba n =
    Inr (take (unat n) (take 2048 (drop (2048 * unat lba) game_disc)))"
  using assms game_sector [of 17] game_sector [of 18] game_sector [of 19]
  by (auto simp: read_extent_def game_iso_def bounded_extent_def sectors_for_def game_source_def)

lemma game_root: "parse_directory game_files game_iso 17 2048 ''/'' = Inr game_entries"
proof -
  have letter: "char_of (65 :: nat) = CHR ''A''" by code_simp
  have name: "map (\<lambda>b. char_of (unat b)) game_cnf_name = ''SYSTEM.CNF''" by code_simp
  have a: "game_directory ! 0 = 44" "game_directory ! 44 = 34" "game_directory ! 78 = 0"
    by (simp_all add: game_directory_def game_record_def nth_append)
  have first: "drop 33 game_directory = game_cnf_name @ 0 # game_record 34 19 0 8 0 [65] @ replicate 1970 0"
    by (simp add: game_directory_def game_record_def)
  have "take 10 (drop 33 game_directory) = game_cnf_name" unfolding first by simp
  then have r0: "directory_record game_source ''/'' game_directory 0 = Inr [game_entries ! 0]"
    using a name
    by (simp add: directory_record_def Let_def)
      (simp add: game_directory_def game_record_def nth_append le32_def
        normalize_name_def drop_final_dot_def join_path_def bounded_extent_def sectors_for_def
        game_source_def game_entries_def)
  have second: "drop 44 game_directory = game_record 34 19 0 8 0 [65] @ replicate 1970 0"
    by (simp add: game_directory_def)
  have r1: "directory_record game_source ''/'' game_directory 44 = Inr [game_entries ! 1]"
    using a
    by (simp add: directory_record_def Let_def second)
      (simp add: game_record_def nth_append letter le32_def
        normalize_name_def drop_final_dot_def join_path_def bounded_extent_def sectors_for_def
        game_source_def game_entries_def)
  have "directory_loop game_source ''/'' game_directory 2048 = Inr []"
    by (subst directory_loop.simps) simp
  then have "directory_loop game_source ''/'' game_directory 78 = Inr []"
    using a by (subst directory_loop.simps) (simp add: next_cursor_def)
  then have "directory_loop game_source ''/'' game_directory 44 = Inr [game_entries ! 1]"
    using a r1 by (subst directory_loop.simps) simp
  then have "directory_loop game_source ''/'' game_directory 0 = Inr game_entries"
    using a r0 by (subst directory_loop.simps) (simp add: game_entries_def)
  then show ?thesis
    using game_extent [of 17 2048] by (simp add: parse_directory_def game_sectors game_iso_def)
qed

lemma game_reads:
  "read_iso9660_file game_files game_iso ''/SYSTEM.CNF'' = Inr (text_bytes game_cnf)"
  "read_iso9660_file game_files game_iso ''/A'' = Inr game_exe"
proof -
  have parts: "split_virtual_path ''/SYSTEM.CNF'' = Inr [''SYSTEM.CNF'']" "split_virtual_path ''/A'' = Inr [''A'']"
    by code_simp+
  have found: "matching_entry ''SYSTEM.CNF'' game_entries = Some (game_entries ! 0)"
    "matching_entry ''A'' game_entries = Some (game_entries ! 1)"
    unfolding game_entries_def by code_simp+
  have "find_entry game_files game_iso ''/SYSTEM.CNF'' = Inr (game_entries ! 0)"
    "find_entry game_files game_iso ''/A'' = Inr (game_entries ! 1)"
    using game_root found parts by (simp_all add: find_entry_def game_iso_def)
  then show "read_iso9660_file game_files game_iso ''/SYSTEM.CNF'' = Inr (text_bytes game_cnf)"
    "read_iso9660_file game_files game_iso ''/A'' = Inr game_exe"
    using game_extent [of 18 15] game_extent [of 19 2048]
    by (simp_all add: read_iso9660_file_def game_sectors game_entries_def text_bytes_def)
qed


section \<open>The destination\<close>

text \<open>A disk whose calls succeed, with these files and so many calls made.\<close>

definition game_disk :: "(path \<times> Node) list \<Rightarrow> nat \<Rightarrow> Disk" where
  "game_disk ns k = \<lparr>disk_nodes = ns, disk_calls = k, disk_error = \<lambda>n. None,
     disk_torn = \<lambda>n. 0, disk_free = 1000000, disk_clock = ''1''\<rparr>"

lemma game_disk_simps [simp]:
  "os_call (game_disk ns k) = (None, game_disk ns (Suc k))" "looks (game_disk ns k) = map_of ns"
  "put_node p n (game_disk ns k) = game_disk ((p, n) # filter (\<lambda>q. fst q \<noteq> p) ns) k"
  "drop_node p (game_disk ns k) = game_disk (filter (\<lambda>q. fst q \<noteq> p) ns) k"
  "disk_nodes (game_disk ns k) = ns" "disk_clock (game_disk ns k) = ''1''"
  "disk_free (game_disk ns k) = 1000000" "game_disk ns k\<lparr>disk_nodes := ns'\<rparr> = game_disk ns' k"
  by (simp_all add: game_disk_def os_call_def looks_def put_node_def drop_node_def fun_eq_iff)

lemmas fs_defs = fs_exists_def fs_is_directory_def fs_is_regular_def fs_question_def fs_list_def fs_space_def
  fs_create_directories_def fs_create_directory_def fs_rename_def fs_remove_def fs_write_def
  parent_ok_def is_file_def prefixes_of_def children_def move_nodes_def below_def

lemma game_destination: "validate_install_destination [''games''] 67599 (game_disk [([''games''], dir_node)] 0) =
    (Inr (), game_disk [([''games''], dir_node)] 8)"
  by (simp add: validate_install_destination_def check_root_def nearest_existing_directory.simps
      verify_directory_writable_def check_space_def fs_defs and_then_def)
    (simp add: eval_nat_numeral)

lemma game_begin: "begin_install_generation [''games''] (game_disk [([''games''], dir_node)] 8) =
    (Inr (pending_generation [''games''] 1), game_disk
      [([''games'', ''.staging'', ''generation-000001''], dir_node), ([''games'', ''generations''], dir_node),
       ([''games'', ''.staging''], dir_node), ([''games''], dir_node)] 19)"
proof -
  have i: "pending_generation [''games''] 1 = \<lparr>pending_id = ''generation-000001'',
      staging_dir = [''games'', ''.staging'', ''generation-000001''],
      final_dir = [''games'', ''generations'', ''generation-000001'']\<rparr>"
    by code_simp
  show ?thesis
    by (simp add: i begin_install_generation_def make_path_def highest_generation_number_def make_staging_def
      exists_or_error_def kMaxGenerationNumber_def give_def fs_defs and_then_def)
qed

definition game_roots :: "(path \<times> Node) list" where
  "game_roots = [([''games'', ''generations''], dir_node), ([''games'', ''.staging''], dir_node),
     ([''games''], dir_node)]"

definition game_staging :: "(path \<times> Node) list" where
  "game_staging = [([''games'', ''.staging'', ''generation-000001''], dir_node)]"

text \<open>No report file yet.\<close>

definition no_evidence :: "Disk \<Rightarrow> bool" where
  "no_evidence d \<longleftrightarrow> looks d [''games'', ''evidence.txt''] = None \<and>
     looks d [''games'', ''evidence.txt.tmp''] = None"

lemma game_install:
  assumes "validate_manifest (converted_manifest name g) = Inr ()" "length (game_system_cnf g) = 15"
    "length (file_bytes (game_executable g)) = 2048"
  shows "\<exists>c'. install_game [''games''] name g (game_disk [([''games''], dir_node)] 0, log) =
    (Inr (converted_manifest name g), c') \<and> no_evidence (fst c')"
proof -
  have i: "pending_generation [''games''] 1 = \<lparr>pending_id = ''generation-000001'',
      staging_dir = [''games'', ''.staging'', ''generation-000001''],
      final_dir = [''games'', ''generations'', ''generation-000001'']\<rparr>"
    by code_simp
  have p: "parse_generation_id ''generation-000001'' \<noteq> None"
  proof -
    have "generation_number 1" by (simp add: generation_number_def kMaxGenerationNumber_def)
    moreover have "format_generation_id 1 = ''generation-000001''" by code_simp
    ultimately show ?thesis using parse_format_generation [of 1] by simp
  qed
  have n: "same_path q q" for q by (rule same_path_names)
  have req: "required_install_bytes 15 2048 = Inr 67599"
    by (simp add: required_install_bytes_def)
  have start: "begin_install_generation [''games''] (game_disk [([''games''], dir_node)] 8) =
    (Inr (pending_generation [''games''] 1), game_disk (game_staging @ game_roots) 19)"
    using game_begin by (simp add: game_staging_def game_roots_def)
  let ?st = "[''games'', ''.staging'', ''generation-000001'']"
  let ?m = "manifest_file_text (converted_manifest name g)"
  have p1: "make_path msg (?st @ [''data'']) (game_disk (game_staging @ game_roots) 19) =
      (Inr (), game_disk ((?st @ [''data''], dir_node) # game_staging @ game_roots) 20)" for msg
    by (simp add: game_staging_def game_roots_def make_path_def fs_defs; simp add: eval_nat_numeral)
  have p2: "make_path msg (?st @ [''logs'']) (game_disk ((?st @ [''data''], dir_node) # game_staging @ game_roots) 20) =
      (Inr (), game_disk ((?st @ [''logs''], dir_node) # (?st @ [''data''], dir_node) # game_staging @ game_roots) 21)" for msg
    by (simp add: game_staging_def game_roots_def make_path_def fs_defs; simp add: eval_nat_numeral)
  let ?f1 = "(?st @ [''data'', ''SYSTEM.CNF''], file_node (bytes_text (game_system_cnf g)))"
  let ?f2 = "(?st @ [''data'', ''boot.psxexe''], file_node (bytes_text (file_bytes (game_executable g))))"
  let ?ns = "(?st @ [''logs''], dir_node) # (?st @ [''data''], dir_node) # game_staging @ game_roots"
  have w1: "write_binary_file (?st @ [''data'', ''SYSTEM.CNF'']) (game_system_cnf g) (game_disk ?ns 21) =
      (Inr (), game_disk (?f1 # ?ns) 23)"
    by (simp add: game_staging_def game_roots_def write_binary_file_def fs_defs; simp add: eval_nat_numeral)
  have w2: "write_binary_file (?st @ [''data'', ''boot.psxexe'']) (file_bytes (game_executable g)) (game_disk (?f1 # ?ns) 23) =
      (Inr (), game_disk (?f2 # ?f1 # ?ns) 25)"
    by (simp add: game_staging_def game_roots_def write_binary_file_def fs_defs; simp add: eval_nat_numeral)
  have w3: "save_conversion_manifest_atomic (?st @ [game_manifest]) (converted_manifest name g) (game_disk (?f2 # ?f1 # ?ns) 25) =
      (Inr (), game_disk ((?st @ [game_manifest], file_node ?m) # ?f2 # ?f1 # ?ns) 29)"
    using assms(1)
    by (simp add: game_staging_def game_roots_def save_conversion_manifest_atomic_def write_manifest_def
        make_path_def replace_file_def with_tmp_def game_manifest_def give_def and_then_def fs_defs; simp add: eval_nat_numeral)
  have "\<exists>d. commit_install_generation [''games''] (pending_generation [''games''] 1)
      (game_disk ((?st @ [game_manifest], file_node ?m) # ?f2 # ?f1 # ?ns) 29) = (Inr (), d) \<and> no_evidence d"
    using p
    by (simp add: i no_evidence_def game_staging_def game_roots_def commit_install_generation_def check_staging_def move_staging_def
        write_pointer_def exists_or_error_def atomic_replace_file_def pointer_temp_def active_pointer_path_def
        game_manifest_def n fs_defs and_then_def)
  then obtain d where d: "commit_install_generation [''games''] (pending_generation [''games''] 1)
      (game_disk ((?st @ [game_manifest], file_node ?m) # ?f2 # ?f1 # ?ns) 29) = (Inr (), d)"
      "no_evidence d" by blast
  have st: "staging_dir (pending_generation [''games''] 1) = ?st" by (simp add: i)
  note steps = p1 p2 w1 w2 w3
  show ?thesis
    using assms(2,3) d steps
    by (simp add: install_game_def stage_game_def st req give_def report_progress_def on_disk_def game_destination start and_then_def)
qed

section \<open>The conversion\<close>

definition game_parsed :: Ps1Executable where
  "game_parsed = \<lparr>metadata = \<lparr>entry_pc = 0, initial_gp = 0, text_load_address = 0, text_size = 0,
     stack_base = 0, stack_size = 0, fnv1a64 = fnv1a64_hex game_exe\<rparr>, file_bytes = game_exe\<rparr>"

lemma game_parses: "parse_ps1_executable game_exe = Inr game_parsed"
proof -
  have z: "game_exe ! k = 0" if "8 \<le> k" "k < 2048" for k
    using that by (simp add: game_exe_def nth_append psx_signature_def)
  have "take 8 game_exe = psx_signature" by (simp add: game_exe_def psx_signature_def)
  then show ?thesis
    by (simp add: parse_ps1_executable_def kHeaderSize_def read_le32_def z Let_def game_parsed_def)
qed

definition game_image :: SourceImage where
  "game_image = \<lparr>image_media = game_files, image_path = ''game.iso'', image_name = ''game.iso'',
     image_regular = True, image_buffers = Some [game_disc], image_at_end = True\<rparr>"

definition game_profiles :: "GameRevisionProfile list" where
  "game_profiles = [\<lparr>revision_id = ''demo'', profile_files =
     [\<lparr>signature_path = ''/A'', signature_size = 2048,
       signature_hash = hash_bytes fnv_offset game_exe\<rparr>]\<rparr>]"

definition game_print :: DiscFingerprint where
  "game_print = \<lparr>fingerprint_size = 40960, fingerprint_fnv1a64 = hash_bytes fnv_offset game_disc,
     hash_hex = hex16 (hash_bytes fnv_offset game_disc), fingerprint_format = ''iso''\<rparr>"

definition game_read :: GameFiles where
  "game_read = \<lparr>game_fingerprint = game_print, game_revision = ''demo'',
     game_system_cnf = text_bytes game_cnf, game_boot_path = ''/A'', game_executable = game_parsed\<rparr>"

definition game_manifest_of :: ConversionManifest where
  "game_manifest_of = converted_manifest ''game.iso'' game_read"

lemma lower_hex_hex16: "is_lower_hex_16 (hex16 h)"
proof -
  have "is_lower_hex (hex_digit (unat (w AND (15 :: u64))))" for w
  proof -
    have "w AND 15 \<le> 15" by (rule word_and_le1)
    then have "unat (w AND 15) \<le> 15" by (simp add: word_le_nat_alt)
    then show ?thesis by (intro hex_digit_facts(1)) simp
  qed
  then show ?thesis
    by (simp add: is_lower_hex_16_def hex16_def list_all_iff del: upt_rec_numeral)
qed

lemma game_valid: "validate_manifest game_manifest_of = Inr ()" "clean_manifest game_manifest_of"
proof -
  have h: "hex16 h \<noteq> []" for h by (simp add: hex16_def)
  have st: "valid_status ''pending''" "valid_status ''verified''" by (simp_all add: valid_status_def)
  show "validate_manifest game_manifest_of = Inr ()"
    by (simp add: validate_manifest_def validate_v2_manifest_def game_manifest_of_def converted_manifest_def
        new_manifest_def game_read_def game_print_def game_parsed_def Let_def h st lower_hex_hex16
        fnv1a64_hex_def core_version_def all_statuses_def later_statuses_def missing_evidence_def)
  have l: "line_text core_version" "line_text ''game.iso''" "line_text ''iso''" "line_text ''demo''"
    "line_text ''/SYSTEM.CNF''" "line_text ''/A''" "line_text (game_id new_manifest)" "line_text []"
    "line_text (backend new_manifest)"
    by (simp_all add: line_text_def trimmed_def trim_space_def core_version_def new_manifest_def)
  show "clean_manifest game_manifest_of"
    using l by (simp add: clean_manifest_def game_manifest_of_def converted_manifest_def Let_def
        game_read_def game_print_def) (simp add: new_manifest_def)
qed

lemma game_reads_all: "\<exists>log. read_game game_image game_profiles c = (Inr game_read, (fst c, log))"
proof -
  have fp: "image_fingerprint game_image = Inr game_print"
  proof -
    have "supported_disc_extension ''game.iso''" "lower_ext ''game.iso'' = ''iso''" by code_simp+
    then show ?thesis
      by (simp add: image_fingerprint_def game_image_def fingerprint_disc_image_def game_print_def)
  qed
  have cnf: "parse_ps1_system_cnf (bytes_text (text_bytes game_cnf)) = Inr ''/A''" by code_simp
  have rev: "identify_game_revision game_files game_iso game_profiles = Inr ''demo''"
    by (simp add: identify_game_revision_def game_profiles_def game_reads signature_matches_def)
  have exe: "read_ps1_executable game_files game_iso ''/A'' = Inr game_parsed"
    by (simp add: read_ps1_executable_def game_reads game_parses)
  have img: "image_media game_image = game_files" "image_path game_image = ''game.iso''"
    by (simp_all add: game_image_def)
  show ?thesis
    by (simp add: read_game_def and_then_def report_progress_def give_def fp img game_opens
        find_revision_def rev game_reads cnf exe game_read_def)
qed

text \<open>The conversion succeeds, and its manifest is a clean one.\<close>

abbreviation game_target :: Disk where
  "game_target \<equiv> game_disk [([''games''], dir_node)] 0"

lemma game_converts:
  "\<exists>c'. convert_image game_image [''games''] game_profiles game_target = (Inr game_manifest_of, c') \<and>
     no_evidence (fst c')"
proof -
  have ext: "supported_disc_extension (image_path game_image)"
    by (simp add: game_image_def) code_simp
  obtain log where r: "read_game game_image game_profiles
      (game_target, [\<lparr>stage = validating_source, percent = 0, message_key = ''validate_source''\<rparr>]) =
      (Inr game_read, (game_target, log))"
    using game_reads_all [of "(game_target, [\<lparr>stage = validating_source, percent = 0,
      message_key = ''validate_source''\<rparr>])"] by auto
  have len: "length (game_system_cnf game_read) = 15" "length (file_bytes (game_executable game_read)) = 2048"
    by (simp_all add: game_read_def text_bytes_def game_parsed_def)
  have "image_name game_image = ''game.iso''" by (simp add: game_image_def)
  then obtain c' where "install_game [''games''] (image_name game_image) game_read (game_target, log) =
      (Inr game_manifest_of, c')" "no_evidence (fst c')"
    using game_install [OF game_valid(1) [unfolded game_manifest_of_def] len, of log]
    by (auto simp: game_manifest_of_def)
  then show ?thesis
    using r ext by (simp add: convert_image_def and_then_def report_progress_def give_def)
qed

end
