(* ===== verification/Install_Spec.thy ===== *)
theory Install_Spec
  imports Install_Demo
begin

text \<open>
  Properties of the conversion and the installation: the manifest round trip, what a
  conversion installs, and what it leaves when it fails.
\<close>

text \<open>C20.
  Every manifest that passes its validation, and whose free texts are single trimmed lines,
  is read back from the file that saving it writes: of the new format all fields the format
  has, of the legacy format likewise, and the other fields at their defaults.
\<close>

theorem manifest_roundtrip:
  assumes "validate_manifest m = Inr ()" "clean_manifest m"
  shows "load_conversion_manifest path (Some (manifest_file_text m)) = Inr (written_part m)"
  by (rule load_written [OF assms])

theorem manifest_roundtrip_witness:
  "load_conversion_manifest ''p'' (Some (manifest_file_text game_manifest_of)) = Inr game_manifest_of"
  using manifest_roundtrip [OF game_valid, of "''p''"] by (simp add: game_manifest_of_def)



text \<open>C9.
  A conversion never harms the installation that is there, whichever calls of the system
  fail, a crash included: everything in the active generation stays as it was, and unless
  the conversion succeeds the same generation is the active one afterwards.
\<close>

theorem conversion_keeps_installation:
  assumes "convert_image src root profiles d = (r, (d', log))"
    and "fst (resolve_active_install_generation root (calm d)) = Inr a"
  shows "(\<forall>q. below (generation_dir a) q \<longrightarrow> looks d' q = looks d q) \<and>
    (\<forall>e. r = Inl e \<longrightarrow> fst (resolve_active_install_generation root (calm d')) = Inr a)"
proof -
  have act: "active_in (looks d) root a"
    using assms(2) resolve_quiet [of "calm d" root _ _ a]
    by (cases "resolve_active_install_generation root (calm d)") simp
  then have gen: "generation_dir a = root @ [''generations'', active_id a]"
      "looks d (root @ [''generations'', active_id a]) \<noteq> None"
    by (auto simp: active_in_def)
  note guard = guards_convert [OF assms(1) gen(2), simplified]
  have "fst (resolve_active_install_generation root (calm d')) = Inr a" if e: "r = Inl e" for e
  proof -
    have "looks d' q = looks d q" if "installed root (active_id a) q" for q
      using that guard(1) guard(2) [OF e] by (auto simp: installed_def)
    then have "active_in (looks d') root a" by (rule active_same [OF act])
    then show ?thesis
      using resolve_quiet [of "calm d'" root _ _ a]
      by (cases "resolve_active_install_generation root (calm d')") simp
  qed
  then show ?thesis using guard(1) by (simp add: gen(1))
qed



theorem conversion_keeps_installation_witness:
  "\<exists>d a r d' log. fst (resolve_active_install_generation [''games''] d) = Inr a \<and>
     convert_image game_image [''games''] game_profiles (d\<lparr>disk_error := \<lambda>n. Some ''offline''\<rparr>) =
       (Inl r, (d', log)) \<and>
     fst (resolve_active_install_generation [''games''] (calm d')) = Inr a"
proof -
  obtain d1 log1 where c: "convert_image game_image [''games''] game_profiles game_target =
      (Inr game_manifest_of, (d1, log1))"
    using game_converts by force
  obtain g c1 where i: "install_game [''games''] (image_name game_image) g c1 = (Inr game_manifest_of, (d1, log1))"
    and r: "read_game game_image game_profiles (game_target, [\<lparr>stage = validating_source, percent = 0,
        message_key = ''validate_source''\<rparr>]) = (Inr g, c1)"
    using convert_success [OF c] by blast
  have "\<exists>img. read_ps1_executable (image_media game_image) img (game_boot_path g) = Inr (game_executable g)"
    using read_game_success(3) [OF r] by blast
  then obtain a where a: "holds_game (looks d1) [''games''] a game_manifest_of (game_executable g)"
    using install_holds [OF i game_valid(2)] read_executable_parses by fastforce
  let ?d = "calm d1"
  let ?bad = "?d\<lparr>disk_error := \<lambda>n. Some ''offline''\<rparr>"
  have calmed: "calm ?bad = ?d" by (simp add: calm_def)
  have old: "fst (resolve_active_install_generation [''games''] ?d) = Inr a"
    using yields_value [OF yields_resolve] a by (simp add: holds_game_def)
  have ext: "supported_disc_extension (image_path game_image)"
    by (simp add: game_image_def) code_simp
  have oc: "os_call ?bad = (Some ''offline'', ?bad\<lparr>disk_calls := Suc (disk_calls ?bad)\<rparr>)"
    by (simp add: os_call_def)
  obtain log where rd: "read_game game_image game_profiles (?bad, [\<lparr>stage = validating_source, percent = 0,
      message_key = ''validate_source''\<rparr>]) = (Inr game_read, (?bad, log))"
    using game_reads_all [of "(?bad, [\<lparr>stage = validating_source, percent = 0,
      message_key = ''validate_source''\<rparr>])"] by auto
  have req: "required_install_bytes 15 2048 = Inr 67599"
    by (simp add: required_install_bytes_def)
  have len: "length (game_system_cnf game_read) = 15" "length (file_bytes (game_executable game_read)) = 2048"
    by (simp_all add: game_read_def text_bytes_def game_parsed_def)
  have "\<exists>e d' log'. validate_install_destination [''games''] 67599 ?bad = (Inl e, d')"
    by (simp add: validate_install_destination_def check_root_def fs_exists_def fs_question_def oc and_then_def)
  then obtain e d' log' where f: "convert_image game_image [''games''] game_profiles ?bad = (Inl e, (d', log'))"
    using rd ext len req by (auto simp: convert_image_def install_game_def and_then_def report_progress_def
        give_def on_disk_def)
  have "fst (resolve_active_install_generation [''games''] (calm d')) = Inr a"
    using conversion_keeps_installation [OF f, of a] old calmed by simp
  then show ?thesis using f old by blast
qed

end
