(* ===== verification/Evidence_Spec.thy ===== *)
theory Evidence_Spec
  imports Install_Demo Machine_Spec
begin

text \<open>
  Properties of the runs that start from an installation and of the report files they leave.
\<close>

section \<open>Reading an installation changes nothing\<close>

lemma leaves_read [leaves_intros]: "leaves P (fs_read p)"
  by (rule leavesI) (auto simp: fs_read_def dest!: os_call_state split: prod.splits option.splits Node.splits)

lemma leaves_map: "leaves P f \<Longrightarrow> (\<And>d. snd (g d) = snd (f d)) \<Longrightarrow> leaves P g"
  by (rule leavesI) (metis leavesD prod.collapse snd_conv)

lemma leaves_readers [leaves_intros]:
  "leaves P (read_local_file p)" "leaves P (load_manifest_file p)" "leaves P (read_active_pointer p)"
  by (rule leaves_map [OF leaves_read [of P p]],
      simp add: read_local_file_def load_manifest_file_def read_active_pointer_def split: prod.splits option.splits)+

lemma leaves_inspections [leaves_intros]:
  "leaves P (inspect w p)" "leaves P (inspect_directory p b)" "leaves P (check_active root x)"
proof -
  show "leaves P (inspect w p)"
    by (rule leaves_map [OF leaves_question(1) [of P p]]) (simp add: inspect_def split: prod.splits sum.splits)
  show "leaves P (inspect_directory p b)"
  proof (rule leavesI)
    fix d r d' q assume run: "inspect_directory p b d = (r, d')"
    obtain x d1 where x: "fs_is_directory p d = (x, d1)" by force
    show "looks d' q = looks d q"
      using run fs_is_directory_state [OF x]
      by (auto simp: inspect_directory_def x split: sum.splits if_splits bool.splits)
  qed
  show "leaves P (check_active root x)"
  proof (rule leavesI)
    fix d r d' q assume run: "check_active root x d = (r, d')"
    let ?g = "root @ [''generations'', pointer_id x]"
    obtain y d1 where y: "fs_is_directory ?g d = (y, d1)" by force
    obtain z d2 where z: "fs_is_regular (root @ [''generations'', pointer_id x, game_manifest]) d1 = (z, d2)" by force
    show "looks d' q = looks d q"
      using run fs_is_directory_state [OF y] fs_is_regular_state [OF z]
      by (auto simp: check_active_def Let_def y z split: sum.splits if_splits bool.splits)
  qed
qed

lemma leaves_if: "(b \<Longrightarrow> leaves P f) \<Longrightarrow> (\<not> b \<Longrightarrow> leaves P g) \<Longrightarrow> leaves P (if b then f else g)"
  by simp

lemma leaves_fun_if: "(b \<Longrightarrow> leaves P f) \<Longrightarrow> (\<not> b \<Longrightarrow> leaves P g) \<Longrightarrow> leaves P (\<lambda>d. if b then f d else g d)"
  by (cases b) simp_all

lemma leaves_resolve [leaves_intros]: "leaves P (resolve_active_install_generation root)"
  unfolding resolve_active_install_generation_def [abs_def]
  by (intro leaves_fun_if leaves_intros) (rule leavesI, simp)

lemma leaves_active_manifest [leaves_intros]: "leaves P (load_active_ps1_manifest root)"
  unfolding load_active_ps1_manifest_def by (intro leaves_intros leaves_if)

lemma leaves_classify [leaves_intros]: "leaves P (classify_installation root)"
  unfolding classify_installation_def classify_legacy_def by (intro leaves_intros leaves_if)

lemma leaves_executable [leaves_intros]: "leaves P (load_validated_installed_executable i)"
  unfolding load_validated_installed_executable_def
  by (intro leaves_intros) (auto intro!: leaves_intros split: sum.splits)

lemma leaves_validate [leaves_intros]: "leaves P (validate_installation root)"
proof -
  have cnf: "leaves P (\<lambda>d. case fs_is_regular p d of
      (Inr True, d1) \<Rightarrow> and_then (load_validated_installed_executable i) (\<lambda>_. give (success i)) d1
    | (_, d1) \<Rightarrow> (failure invalid_installation msg, d1))" for p i msg
  proof (rule leavesI)
    fix d r d' q
    assume run: "(case fs_is_regular p d of
        (Inr True, d1) \<Rightarrow> and_then (load_validated_installed_executable i) (\<lambda>_. give (success i)) d1
      | (_, d1) \<Rightarrow> (failure invalid_installation msg, d1)) = (r, d')" and q: "P q"
    obtain x d1 where x: "fs_is_regular p d = (x, d1)" by force
    have "leaves P (and_then (load_validated_installed_executable i) (\<lambda>_. give (success i)))"
      by (intro leaves_intros)
    then show "looks d' q = looks d q"
      using run x fs_is_regular_state [OF x] q
      by (auto split: sum.splits bool.splits dest: leavesD)
  qed
  show ?thesis
    unfolding validate_installation_def Let_def
    by (intro leaves_intros) (auto intro!: leaves_intros leaves_if cnf split: InstallationKind.splits prod.splits)
qed

lemma leaves_installed: "leaves P (installed_executable root)"
  unfolding installed_executable_def by (intro leaves_intros)

section \<open>Saving a report\<close>

lemma leaves_cleanup: "\<not> P p \<Longrightarrow> looks (cleanup_temp p d) q = looks d q \<or> \<not> P q"
  unfolding cleanup_temp_def using leaves_remove [of P p]
  by (metis leavesD prod.collapse)

text \<open>What saving a text leaves: the target, and everything else.\<close>

definition apart :: "path \<Rightarrow> path \<Rightarrow> bool" where
  "apart p q \<longleftrightarrow> \<not> below p q \<and> \<not> below (append_tmp p) q \<and> q \<notin> set (prefixes_of (butlast p))"

lemma tmp_apart: "p \<noteq> [] \<Longrightarrow> \<not> below (append_tmp p) p"
proof -
  assume "p \<noteq> []"
  then obtain a x where "p = a @ [x]" by (metis rev_exhaust)
  then show ?thesis by (auto simp: append_tmp_def below_iff)
qed

lemma save_text_state:
  assumes "save_text name p t d = (r, d')" "p \<noteq> []"
  shows "r = Inr () \<Longrightarrow> looks d' p = Some (file_node t)"
    and "r \<noteq> Inr () \<Longrightarrow> looks d' p = looks d p"
    and "apart p q \<Longrightarrow> looks d' q = looks d q"
proof -
  let ?t = "append_tmp p"
  obtain a x where p: "p = a @ [x]" using assms(2) by (metis rev_exhaust)
  have ne: "\<not> below ?t p" "\<not> below p ?t" by (auto simp: p append_tmp_def below_iff)
  have self: "below ?t ?t" "below p p" by (simp_all add: below_def)
  obtain w d1 where w: "fs_write ?t t d = (w, d1)" by force
  obtain m d2 where m: "fs_rename ?t p d1 = (m, d2)" by force
  note ws = fs_write_state [OF w] and ms = fs_rename_state [OF m]
  have d1: "looks d1 q = looks d q" if "q \<noteq> ?t" for q using ws that by auto
  have clean: "looks (cleanup_temp ?t d3) q = looks d3 q" if "q \<noteq> ?t" for d3 q
    using leaves_cleanup [of "\<lambda>q. q \<noteq> ?t" ?t d3 q] that by simp
  have cases: "(w = written \<and> m = None \<and> r = Inr () \<and> d' = d2) \<or>
      (w = written \<and> m \<noteq> None \<and> r \<noteq> Inr () \<and> d' = cleanup_temp ?t d2) \<or>
      (w = not_written \<and> r \<noteq> Inr () \<and> d' = cleanup_temp ?t d1) \<or>
      (w = not_opened \<and> r \<noteq> Inr () \<and> d' = d1)"
    using assms(1) by (cases w; cases m) (auto simp: save_text_def w replace_report_def m)
  show "r = Inr () \<Longrightarrow> looks d' p = Some (file_node t)"
    using cases ws ms self by auto
  have pt: "p \<noteq> ?t" using ne self by auto
  show "r \<noteq> Inr () \<Longrightarrow> looks d' p = looks d p"
    using cases d1 [OF pt] clean [OF pt] ms by auto
  have "looks d' q = looks d q" if q: "apart p q" for q
  proof -
    have "q \<noteq> ?t" "\<not> below p q" "\<not> below ?t q" using q self by (auto simp: apart_def)
    then show ?thesis using cases d1 [of q] clean [of q] ms by (auto split: if_splits)
  qed
  then show "apart p q \<Longrightarrow> looks d' q = looks d q" .
qed

lemma save_report_state:
  assumes "and_then (report_directory msg p) (\<lambda>_. save_text name p t) d = (r, d')" "p \<noteq> []"
  shows "r = Inr () \<Longrightarrow> looks d' p = Some (file_node t)"
    and "r \<noteq> Inr () \<Longrightarrow> looks d' p = looks d p"
    and "apart p q \<Longrightarrow> looks d' q = looks d q"
proof -
  obtain a x where p: "p = a @ [x]" using assms(2) by (metis rev_exhaust)
  have free: "p \<notin> set (prefixes_of (butlast p))" by (auto simp: p prefixes_of_iff)
  have dir: "leaves (\<lambda>q. q \<notin> set (prefixes_of (butlast p))) (report_directory msg p)"
  proof (rule leavesI)
    fix d r d' q
    assume run: "report_directory msg p d = (r, d')" and q: "q \<notin> set (prefixes_of (butlast p))"
    obtain e d1 where e: "fs_create_directories (butlast p) d = (e, d1)" by force
    have "leaves (\<lambda>q. q \<notin> set (prefixes_of (butlast p))) (fs_create_directories (butlast p))"
      by (rule leaves_create_directories) simp
    then have "looks d1 q = looks d q" using e q by (blast dest: leavesD)
    then show "looks d' q = looks d q"
      using run e by (auto simp: report_directory_def split: if_splits option.splits)
  qed
  have main: "(r = Inr () \<longrightarrow> looks d' p = Some (file_node t)) \<and> (r \<noteq> Inr () \<longrightarrow> looks d' p = looks d p) \<and>
      (apart p q \<longrightarrow> looks d' q = looks d q)" for q
    using assms(1)
  proof (cases rule: and_then_cases)
    case (stop e)
    then show ?thesis using leavesD [OF dir stop(1)] free by (simp add: apart_def)
  next
    case (go u d1)
    then show ?thesis
      using leavesD [OF dir go(1)] free save_text_state [OF go(2) assms(2)] by (auto simp: apart_def)
  qed
  then show "r = Inr () \<Longrightarrow> looks d' p = Some (file_node t)"
    and "r \<noteq> Inr () \<Longrightarrow> looks d' p = looks d p"
    and "apart p q \<Longrightarrow> looks d' q = looks d q"
    by blast+
qed

section \<open>Evidence\<close>

text \<open>C21.
  An evidence run reports what it explored: when it succeeds, the report file is exactly the
  text of the report it returns, which is the exploration of the executable that the
  validated installation holds; when it fails, an earlier report file is as it was.  In both
  cases it changes nothing but the report, its temporary file and the directories on the way,
  so it never touches the installation.
\<close>

theorem evidence_report_written:
  assumes "bootstrap_runtime_max3_local_evidence_to_file root p options d = Some (r, d')"
  shows "(\<forall>rep. r = Inr rep \<longrightarrow> (\<exists>exe. fst (installed_executable root d) = Inr exe \<and>
      explore_ps1_max3 exe options = Some (Inr rep) \<and>
      looks d' p = Some (file_node (format_ps1_max3_report rep)))) \<and>
    (\<forall>e. r = Inl e \<longrightarrow> looks d' p = looks d p) \<and>
    (\<forall>q. apart p q \<longrightarrow> looks d' q = looks d q)"
proof -
  obtain x d1 where x: "installed_executable root d = (x, d1)" by force
  have same: "looks d1 q = looks d q" for q
    using leavesD [OF leaves_installed [of "\<lambda>q. True"] x] by simp
  show ?thesis
  proof (cases x)
    case (Inl e)
    then show ?thesis
      using assms same by (auto simp: bootstrap_runtime_max3_local_evidence_to_file_def x split: prod.splits)
  next
    case (Inr exe)
    then obtain y where y: "explore_ps1_max3 exe options = Some y"
      using assms by (auto simp: bootstrap_runtime_max3_local_evidence_to_file_def x)
    show ?thesis
    proof (cases y)
      case (Inl e)
      then show ?thesis
        using assms same \<open>x = Inr exe\<close> y
        by (auto simp: bootstrap_runtime_max3_local_evidence_to_file_def x split: prod.splits)
    next
      case (Inr rep)
      let ?save = "and_then (report_directory ''failed to create JoJo MAX3 diagnostics directory: '' p)
        (\<lambda>_. save_text ''JoJo MAX3 checkpoint report'' p (format_ps1_max3_report rep))"
      have run: "and_then (save_ps1_max3_report_atomic p rep) (\<lambda>_. give (success rep)) d1 = (r, d')"
        using assms \<open>x = Inr exe\<close> y Inr
        by (simp add: bootstrap_runtime_max3_local_evidence_to_file_def x)
      obtain s d2 where s: "save_ps1_max3_report_atomic p rep d1 = (s, d2)" by force
      have d2: "d' = d2" "r = Inr rep \<and> s = Inr () \<or> (\<exists>e. r = Inl e) \<and> s \<noteq> Inr ()"
        "\<And>rep'. r = Inr rep' \<Longrightarrow> rep' = rep"
        using run s by (auto simp: and_then_def give_def split: sum.splits prod.splits)
      show ?thesis
      proof (cases "p = []")
        case True
        then have "s \<noteq> Inr ()" "d2 = d1" using s by (auto simp: save_ps1_max3_report_atomic_def)
        then show ?thesis using d2 same by auto
      next
        case False
        then have "?save d1 = (s, d2)" using s by (simp add: save_ps1_max3_report_atomic_def)
        note st = save_report_state [OF this False]
        show ?thesis
          using d2 same st y \<open>x = Inr exe\<close> Inr x by auto
      qed
    qed
  qed
qed

lemma game_boots: "\<exists>rt. boot_create game_parsed = Inr rt"
proof -
  have "\<exists>b. load_main_ram 0 [] initial_bus = Inr b"
    by (simp add: load_main_ram_def guest_to_physical_def main_ram_size_def)
  then show ?thesis
    by (auto simp: boot_create_def load_ps1_executable_into_bus_def game_parsed_def Let_def)
qed

theorem evidence_report_written_witness:
  "\<exists>d rep d'. bootstrap_runtime_max3_local_evidence_to_file [''games''] [''games'', ''evidence.txt'']
     demo_options d = Some (Inr rep, d') \<and>
   looks d' [''games'', ''evidence.txt''] = Some (file_node (format_ps1_max3_report rep))"
proof -
  obtain d1 log where c: "convert_image game_image [''games''] game_profiles game_target =
      (Inr game_manifest_of, (d1, log))" "no_evidence d1"
    using game_converts by force
  obtain g c1 where i: "install_game [''games''] (image_name game_image) g c1 = (Inr game_manifest_of, (d1, log))"
    and r: "read_game game_image game_profiles (game_target, [\<lparr>stage = validating_source, percent = 0,
        message_key = ''validate_source''\<rparr>]) = (Inr g, c1)"
    using convert_success [OF c(1)] by blast
  have "g = game_read"
    using r game_reads_all [of "(game_target, [\<lparr>stage = validating_source, percent = 0,
      message_key = ''validate_source''\<rparr>])"] by auto
  then have g: "game_executable g = game_parsed" by (simp add: game_read_def)
  have "parse_ps1_executable (file_bytes game_parsed) = Inr game_parsed"
    using game_parses by (simp add: game_parsed_def)
  then obtain a where a: "holds_game (looks d1) [''games''] a game_manifest_of game_parsed"
    using install_holds [OF i game_valid(2)] g by auto
  have "yields (installed_executable [''games'']) (calm d1) game_parsed"
    by (rule yields_installed) (use a in simp_all)
  then obtain d2 where d2: "installed_executable [''games''] (calm d1) = (Inr game_parsed, d2)"
      "quiet d2" "looks d2 = looks d1"
    by (auto simp: yields_def)
  obtain rt where "boot_create game_parsed = Inr rt" using game_boots by blast
  then obtain rep where rep: "explore_ps1_max3 game_parsed demo_options = Some (Inr rep)"
    by (rule small_exploration)
  let ?p = "[''games'', ''evidence.txt'']" and ?t = "format_ps1_max3_report rep"
  have dir: "looks d2 [''games''] = Some dir_node" using a d2(3) by (simp add: holds_game_def)
  have oc: "os_call d = (None, tick d)" if "quiet d" for d
    using that by (simp add: os_call_def quiet_def tick_def)
  have put: "quiet (put_node q n d) = quiet d" for q n d by (simp add: quiet_def put_node_def)
  have "\<exists>d'. save_ps1_max3_report_atomic ?p rep d2 = (Inr (), d')"
    using c(2) dir d2(2,3)
    by (simp add: save_ps1_max3_report_atomic_def report_directory_def save_text_def append_tmp_def
        replace_report_def fs_create_directories_def fs_write_def fs_rename_def prefixes_of_def below_def parent_ok_def
        and_then_def oc put no_evidence_def)
  then obtain d' where "save_ps1_max3_report_atomic ?p rep d2 = (Inr (), d')" ..
  then have run: "bootstrap_runtime_max3_local_evidence_to_file [''games''] ?p demo_options (calm d1) = Some (Inr rep, d')"
    using d2(1) rep
    by (simp add: bootstrap_runtime_max3_local_evidence_to_file_def and_then_def give_def)
  from evidence_report_written [OF run] run show ?thesis by blast
qed

end
