(* ===== verification/Spec2Isabelle.thy ===== *)
theory Spec2Isabelle
  imports Machine_Spec Session_Spec Support_Spec Online_Spec App_Spec Media_Spec Training_Spec
    Mods_Spec Native_Spec Install_Spec Evidence_Spec
begin

text \<open>
  A model of the JoJo recompilation project: the PlayStation boot core, the way from a disc
  image to an installed game, online play, mods, settings, presentation and training mode.
  Paths are below \<^verbatim>\<open>src/src/core\<close> where no other directory is named.

  Conventions.  A structure is a record with the fields of the code, an enumeration a datatype,
  a fixed-width integer a word, a C++ string a list of characters, a \<open>Result\<close> a sum whose left
  side is the error code with its detail (\<open>Prelude\<close>), the early return of an error
  \<open>on_success\<close> (\<open>Outcome\<close>).  State is passed explicitly.  \<open>Ordered_Map\<close> and
  \<open>Ascii_Text\<close> hold what several parts use of \<open>std::map\<close> and of strings.

  Processor.  \<^verbatim>\<open>mips_decoder.*\<close> is \<open>Mips_Decoder\<close>; the state, diagnostics and
  abstract bus (\<^verbatim>\<open>r3000a_state.h\<close>, \<^verbatim>\<open>r3000a_diagnostics.h\<close>,
  \<^verbatim>\<open>r3000a_bus.h\<close>) are \<open>R3000a_State\<close>; the step function of
  \<^verbatim>\<open>r3000a_reference_executor.cpp\<close> is \<open>R3000a_Alu\<close> (arithmetic and byte lanes) and
  \<open>R3000a_Exec\<close> (one definition per instruction class, exception entry, commit).
  \<open>R3000a_Props\<close>, \<open>R3000a_Steps\<close> and \<open>R3000a_Precise\<close> prove its postcondition,
  invariants, frame rules and precision, the last two in the locales
  \<open>r3000a_bus_contract\<close> and \<open>r3000a_precise_bus\<close>; \<open>Cpu_Spec\<close> has the properties.

  Machine.  \<open>Ps1_Bus\<close> is \<^verbatim>\<open>ps1_memory_bus.*\<close> and interprets both locales;
  \<open>Ps1_Bios\<close> is \<^verbatim>\<open>ps1_hle_bios.*\<close>; \<open>Ps1_Loader\<close> is \<^verbatim>\<open>ps1_exe.*\<close> and
  \<^verbatim>\<open>ps1_executable_loader.cpp\<close>; \<open>Ps1_Runtime\<close> is \<^verbatim>\<open>ps1_boot_report.h\<close> and
  \<^verbatim>\<open>ps1_boot_runtime.*\<close>.  Its loop is a partial function, \<open>None\<close> for a run that does not
  return: a BIOS call that returns to its own entry does not count toward the budget, and
  \<open>Ps1_Runtime_Props\<close> proves that nothing else keeps a run from returning.
  \<open>Ps1_Explorer\<close> is \<^verbatim>\<open>ps1_max3_explorer.*\<close>: the recursion takes as many levels as the
  branch depth, which is enough since a node deeper than that is not expanded; its invariant is
  proved in the locale \<open>visit_contract\<close>, interpreted on \<open>visit\<close> itself
  (\<open>Ps1_Explorer_Props\<close>).  The properties of this part are in \<open>Machine_Spec\<close>.

  Discs.  \<open>Disc_Media\<close> (\<^verbatim>\<open>disc_media.*\<close>: sectors of cooked and raw images, cue sheets),
  \<open>Iso9660\<close> (\<^verbatim>\<open>iso9660.*\<close>; the loop over directory records ends because the cursor
  grows), \<open>System_Cnf\<close> (\<^verbatim>\<open>ps1_system_cnf.*\<close>, \<^verbatim>\<open>revision.*\<close>) and
  \<open>Fingerprint\<close> (\<^verbatim>\<open>disc_image.*\<close>, \<^verbatim>\<open>device_id.*\<close>); lemmas in \<open>Media_Props\<close> and
  \<open>Media_Lookup\<close>, properties in \<open>Media_Spec\<close>.  The parameter \<open>MediaFiles\<close> says what the
  files on the host hold.

  Installation.  \<open>File_Store\<close> is the disk: a map from paths to nodes and the calls of
  \<open>std::filesystem\<close> and of the file streams on it, each of which the system may refuse; a crash
  refuses all calls from some point on, and an interrupted write leaves a prefix.
  \<open>Conversion_Manifest\<close> and \<open>Conversion\<close> are \<^verbatim>\<open>conversion.*\<close> (and
  \<^verbatim>\<open>version.cpp\<close>), \<open>Installation\<close> is \<^verbatim>\<open>ps1_installation.*\<close>, \<open>Report_Writer\<close> is
  \<^verbatim>\<open>ps1_boot_report_io.*\<close> and \<^verbatim>\<open>ps1_max3_report_io.cpp\<close>, \<open>Installed_Runtime\<close> is
  \<^verbatim>\<open>runtime.*\<close>.  \<open>Manifest_Props\<close> reads back what is written; \<open>Install_Props\<close> says
  which paths a step leaves alone; \<open>Install_Commit\<close> says what a commit leaves at every
  failure; \<open>Conversion_Props\<close> follows a conversion through the locale \<open>generation_store\<close>,
  the interface it uses of the installation, interpreted on its operations;
  \<open>Installed_Props\<close> reads an installation on a disk whose calls succeed.
  \<open>Install_Demo\<close> is a disc and a disk for the witnesses of \<open>Install_Spec\<close> and
  \<open>Evidence_Spec\<close>, which hold the properties.

  Mods.  \<open>Semver\<close> is \<^verbatim>\<open>semver.*\<close>; \<open>Mod_Resolver\<close> is \<^verbatim>\<open>mod_resolver.cpp\<close> and
  \<^verbatim>\<open>mod_policy.cpp\<close>: inclusion takes as much fuel as there are mods and one more, the
  ordering loop one unit per mod and one more, and \<open>Mod_Resolver_Props\<close> proves that neither
  runs out.  \<open>Mod_Manifest\<close> is \<^verbatim>\<open>mod_runtime.cpp\<close>, \<open>Mod_Content\<close> is
  \<^verbatim>\<open>mod_content.cpp\<close> (with \<open>Mod_Content_Props\<close>), \<open>Native_Loader\<close> is
  \<^verbatim>\<open>native_mod_loader.*\<close> with \<^verbatim>\<open>src/src/mod_api/jojo_mod_api.h\<close>: the calls into
  libraries are a trace.  The parameters \<open>ModPaths\<close>, \<open>ModFiles\<close> and \<open>NativeHost\<close> are what
  the platform answers.  Properties in \<open>Support_Spec\<close>, \<open>Mods_Spec\<close> and \<open>Native_Spec\<close>.

  Play.  \<open>Sha256\<close> is \<^verbatim>\<open>sha256.*\<close>, with test vectors in \<open>Sha256_Vector\<close>;
  \<open>Rollback\<close> is \<^verbatim>\<open>rollback.*\<close> over the locale \<open>rollback_simulation\<close>, the
  laws of a simulation, interpreted on the simulation of the tests (\<open>Rollback_Props\<close>,
  properties in \<open>Session_Spec\<close>).  \<open>Byte_Codec\<close> and \<open>Network_Protocol\<close> are
  \<^verbatim>\<open>network_protocol.*\<close>; \<open>Direct_Session\<close> is \<^verbatim>\<open>network_transport.h\<close>, whose receive
  loop takes one unit of fuel per waiting datagram, which is enough when there are finitely
  many; \<open>Direct_Session_Props\<close> has its invariant and \<open>Direct_Lifecycle\<close> its abstract life
  cycle.  \<open>Online_Session\<close> (with \<open>Online_Props\<close>) is \<^verbatim>\<open>online_session.*\<close>.  Properties
  in \<open>Net_Spec\<close> and \<open>Online_Spec\<close>.  Sockets and clocks are parameters.

  Application.  \<open>Input\<close> (\<^verbatim>\<open>input.*\<close>), \<open>Settings\<close> (\<^verbatim>\<open>settings.*\<close>),
  \<open>Settings_Menu\<close> (\<^verbatim>\<open>settings_menu.*\<close>), \<open>Presentation\<close> (\<^verbatim>\<open>presentation.*\<close>), with
  their lemmas in \<open>Input_Props\<close>, \<open>Settings_Props\<close> and \<open>Presentation_Props\<close> and the
  properties in \<open>App_Spec\<close>; \<open>Training\<close> is \<^verbatim>\<open>training.*\<close>, with \<open>Training_Spec\<close>.
  Floating-point values are abstract types with the operations the code uses.

  Not modelled.  The Win32 front end (\<^verbatim>\<open>src/src/app_win32\<close>,
  \<^verbatim>\<open>src/src/platform/windows\<close>), which is calls of the Windows interface; creating, binding
  and closing sockets; opening libraries and finding symbols; the floating-point figures of the
  network telemetry; the Portuguese detail texts of the conversion's progress; the exception
  that iterating the generation directories may throw between two entries; symbolic links and
  Windows paths on the disk model (paths are POSIX paths there), and the different detail texts
  of the Windows file replacement.
\<close>

end
